(* ===== verification/Prelude.thy ===== *)
theory Prelude
  imports Main
begin

text \<open>
  Shared vocabulary of the development. Go functions that may fail and that touch the
  service's state (collections, cache, message queues) are modelled as functions from a
  state to an outcome and a new state: \<open>Inl e\<close> is a returned \<open>error\<close>, \<open>Inr a\<close> a result.
  \<open>bind\<close> is the idiom \<open>x, err := f(); if err != nil { return err }\<close>, \<open>attempt\<close> hands the
  error to the caller as a value (the idiom where the error is inspected or dropped).
  \<open>wp m Q s\<close> runs \<open>m\<close> from \<open>s\<close> and asks \<open>Q\<close> of the outcome and the new state; its
  equations execute a handler symbolically. \<open>keeps I m\<close> says that \<open>m\<close> preserves \<open>I\<close>
  whatever its outcome.
\<close>

named_theorems go_defs \<open>definitions of the monad, unfolded to execute a handler\<close>
named_theorems keeps_intros \<open>rules for invariants kept by handlers\<close>

section \<open>Errors, statuses\<close>

text \<open>
  Go's \<open>error\<close> values that the service tells apart: a \<open>*billingpb.ResponseErrorMessage\<close>
  (code and message), a \<open>*billingpb.ResponseError\<close> (status and message),
  \<open>mongo.ErrNoDocuments\<close>, and any other error of a driver, a library or \<open>errors.New\<close>.
  The response codes are constants of the (external) protobuf package; only that they
  differ matters. \<open>ResponseStatusUnset\<close> is the zero value of a fresh response.
\<close>

datatype rsp_status = ResponseStatusUnset | ResponseStatusOk | ResponseStatusNotModified
  | ResponseStatusBadData | ResponseStatusNotFound | ResponseStatusSystemError
  | ResponseStatusTemporary | ResponseStatusForbidden | ResponseStatusGone

datatype go_err = ResponseErrorMessage string string
  | ResponseError rsp_status string string
  | ErrNoDocuments
  | ErrOther string

fun is_message :: "go_err \<Rightarrow> bool" where
  "is_message (ResponseErrorMessage c m) = True"
| "is_message _ = False"

record 'a response =
  rspStatus :: rsp_status
  rspMessage :: "go_err option"
  rspItem :: "'a option"

definition empty_rsp :: "'a response" where
  "empty_rsp = \<lparr>rspStatus = ResponseStatusUnset, rspMessage = None, rspItem = None\<rparr>"

definition rsp_error :: "rsp_status \<Rightarrow> go_err \<Rightarrow> 'a response" where
  "rsp_error st e = \<lparr>rspStatus = st, rspMessage = Some e, rspItem = None\<rparr>"

definition rsp_status_only :: "rsp_status \<Rightarrow> 'a response" where
  "rsp_status_only st = \<lparr>rspStatus = st, rspMessage = None, rspItem = None\<rparr>"

definition rsp_ok :: "'a \<Rightarrow> 'a response" where
  "rsp_ok a = \<lparr>rspStatus = ResponseStatusOk, rspMessage = None, rspItem = Some a\<rparr>"

lemmas rsp_defs = empty_rsp_def rsp_error_def rsp_status_only_def rsp_ok_def

section \<open>Stateful, fallible computations\<close>

type_synonym ('s, 'a) go = "'s \<Rightarrow> (go_err + 'a) \<times> 's"

definition ret :: "'a \<Rightarrow> ('s, 'a) go" where
  [go_defs]: "ret a = (\<lambda>s. (Inr a, s))"

definition throw :: "go_err \<Rightarrow> ('s, 'a) go" where
  [go_defs]: "throw e = (\<lambda>s. (Inl e, s))"

definition lift :: "go_err + 'a \<Rightarrow> ('s, 'a) go" where
  [go_defs]: "lift r = (\<lambda>s. (r, s))"

definition bind :: "('s, 'a) go \<Rightarrow> ('a \<Rightarrow> ('s, 'b) go) \<Rightarrow> ('s, 'b) go" where
  [go_defs]: "bind m f = (\<lambda>s. case m s of (Inl e, s') \<Rightarrow> (Inl e, s') | (Inr a, s') \<Rightarrow> f a s')"

definition attempt :: "('s, 'a) go \<Rightarrow> ('s, go_err + 'a) go" where
  [go_defs]: "attempt m = (\<lambda>s. case m s of (r, s') \<Rightarrow> (Inr r, s'))"

definition gets :: "('s \<Rightarrow> 'a) \<Rightarrow> ('s, 'a) go" where
  [go_defs]: "gets f = (\<lambda>s. (Inr (f s), s))"

definition modify :: "('s \<Rightarrow> 's) \<Rightarrow> ('s, unit) go" where
  [go_defs]: "modify f = (\<lambda>s. (Inr (), f s))"

definition replace_err :: "go_err \<Rightarrow> ('s, 'a) go \<Rightarrow> ('s, 'a) go" where
  [go_defs]: "replace_err e m = (\<lambda>s. case m s of (Inl _, s') \<Rightarrow> (Inl e, s') | (Inr a, s') \<Rightarrow> (Inr a, s'))"

text \<open>A \<open>for\<close> loop whose body returns on the first error.\<close>

fun for_each :: "'a list \<Rightarrow> ('a \<Rightarrow> ('s, unit) go) \<Rightarrow> ('s, unit) go" where
  "for_each [] f = ret ()"
| "for_each (x # xs) f = bind (f x) (\<lambda>_. for_each xs f)"

text \<open>A \<open>for\<close> loop with an accumulator.\<close>

fun fold_go :: "('b \<Rightarrow> 'a \<Rightarrow> ('s, 'b) go) \<Rightarrow> 'b \<Rightarrow> 'a list \<Rightarrow> ('s, 'b) go" where
  "fold_go f acc [] = ret acc"
| "fold_go f acc (x # xs) = bind (f acc x) (\<lambda>acc'. fold_go f acc' xs)"

text \<open>A pure loop that maps every element and returns on the first error.\<close>

fun map_err :: "('a \<Rightarrow> go_err + 'b) \<Rightarrow> 'a list \<Rightarrow> go_err + 'b list" where
  "map_err f [] = Inr []"
| "map_err f (x # xs) = (case f x of Inl e \<Rightarrow> Inl e | Inr y \<Rightarrow>
     (case map_err f xs of Inl e \<Rightarrow> Inl e | Inr ys \<Rightarrow> Inr (y # ys)))"

definition bind_err :: "go_err + 'a \<Rightarrow> ('a \<Rightarrow> go_err + 'b) \<Rightarrow> go_err + 'b" where
  [go_defs]: "bind_err r f = (case r of Inl e \<Rightarrow> Inl e | Inr a \<Rightarrow> f a)"

lemma bind_err_simps [simp]:
  "bind_err (Inl e) f = Inl e"
  "bind_err (Inr a) f = f a"
  by (simp_all add: bind_err_def)

lemma bind_err_eq_Inr: "bind_err r f = Inr b \<longleftrightarrow> (\<exists>a. r = Inr a \<and> f a = Inr b)"
  by (cases r) simp_all

lemma map_err_all: "(\<And>x. x \<in> set xs \<Longrightarrow> f x = Inr (g x)) \<Longrightarrow> map_err f xs = Inr (map g xs)"
  by (induction xs) simp_all

lemma map_err_length: "map_err f xs = Inr ys \<Longrightarrow> length ys = length xs"
  by (induction xs arbitrary: ys) (auto split: sum.splits)

section \<open>Weakest preconditions\<close>

definition wp :: "('s, 'a) go \<Rightarrow> (go_err + 'a \<Rightarrow> 's \<Rightarrow> bool) \<Rightarrow> 's \<Rightarrow> bool" where
  "wp m Q s = (case m s of (r, s') \<Rightarrow> Q r s')"

lemma wp_pure [simp]:
  "wp (ret a) Q s = Q (Inr a) s"
  "wp (throw e) Q s = Q (Inl e) s"
  "wp (lift r) Q s = Q r s"
  "wp (gets f) Q s = Q (Inr (f s)) s"
  by (simp_all add: wp_def go_defs)

lemma wp_modify [simp]: "wp (modify g) Q s = Q (Inr ()) (g s)"
  by (simp add: wp_def go_defs)

lemma wp_attempt [simp]: "wp (attempt m) Q s = wp m (\<lambda>r. Q (Inr r)) s"
  by (auto simp: wp_def go_defs split: prod.splits)

lemma wp_bind [simp]:
  "wp (bind m k) Q s =
     wp m (\<lambda>r s'. case r of Inl e \<Rightarrow> Q (Inl e) s' | Inr a \<Rightarrow> wp (k a) Q s') s"
  by (auto simp: wp_def go_defs split: prod.splits sum.splits)

lemma wp_replace_err [simp]:
  "wp (replace_err e m) Q s =
     wp m (\<lambda>r s'. case r of Inl _ \<Rightarrow> Q (Inl e) s' | Inr a \<Rightarrow> Q (Inr a) s') s"
  by (auto simp: wp_def go_defs split: prod.splits sum.splits)

lemma wp_mono: "wp m P s \<Longrightarrow> (\<And>r s'. P r s' \<Longrightarrow> Q r s') \<Longrightarrow> wp m Q s"
  by (auto simp: wp_def split: prod.splits)

lemma wpI: "(\<And>r s'. m s = (r, s') \<Longrightarrow> Q r s') \<Longrightarrow> wp m Q s"
  by (auto simp: wp_def)

lemma wpD: "wp m Q s \<Longrightarrow> m s = (r, s') \<Longrightarrow> Q r s'"
  by (simp add: wp_def)

lemma run_simps:
  "ret a s = (Inr a, s)"
  "throw e s = (Inl e, s)"
  "lift r s = (r, s)"
  "gets f s = (Inr (f s), s)"
  "modify g s = (Inr (), g s)"
  by (simp_all add: go_defs)

lemma ret_inject [simp]: "ret a = ret b \<longleftrightarrow> a = b"
  by (auto simp: ret_def fun_eq_iff)

lemma run_bind: "bind m k s = (case m s of (Inl e, s') \<Rightarrow> (Inl e, s') | (Inr a, s') \<Rightarrow> k a s')"
  by (simp add: bind_def)

lemma run_attempt: "attempt m s = (case m s of (r, s') \<Rightarrow> (Inr r, s'))"
  by (simp add: attempt_def)

lemma run_replace_err:
  "replace_err e m s = (case m s of (Inl _, s') \<Rightarrow> (Inl e, s') | (Inr a, s') \<Rightarrow> (Inr a, s'))"
  by (simp add: replace_err_def)

lemmas run_go = run_simps run_bind run_attempt run_replace_err

section \<open>Invariants kept by a computation\<close>

definition keeps :: "('s \<Rightarrow> bool) \<Rightarrow> ('s, 'a) go \<Rightarrow> bool" where
  "keeps I m \<longleftrightarrow> (\<forall>s. I s \<longrightarrow> I (snd (m s)))"

lemma keepsI: "(\<And>s r s'. I s \<Longrightarrow> m s = (r, s') \<Longrightarrow> I s') \<Longrightarrow> keeps I m"
  by (simp add: keeps_def) (metis surjective_pairing)

lemma keepsD: "keeps I m \<Longrightarrow> I s \<Longrightarrow> m s = (r, s') \<Longrightarrow> I s'"
  by (simp add: keeps_def) (metis snd_conv)

lemma keeps_wp: "keeps I m \<longleftrightarrow> (\<forall>s. I s \<longrightarrow> wp m (\<lambda>_. I) s)"
  by (simp add: keeps_def wp_def case_prod_beta)

lemma keeps_pure [keeps_intros, intro!]:
  "keeps I (ret a)" "keeps I (throw e)" "keeps I (lift r)" "keeps I (gets f)"
  by (simp_all add: keeps_def run_simps)

lemma keeps_bind [keeps_intros]:
  assumes "keeps I m" and "\<And>a. keeps I (k a)"
  shows "keeps I (bind m k)"
  using assms by (auto simp: keeps_def bind_def case_prod_beta split: sum.splits)

lemma keeps_attempt [keeps_intros]: "keeps I m \<Longrightarrow> keeps I (attempt m)"
  by (auto simp: keeps_def attempt_def case_prod_beta split: sum.splits)

lemma keeps_replace_err [keeps_intros]: "keeps I m \<Longrightarrow> keeps I (replace_err e m)"
  by (auto simp: keeps_def replace_err_def case_prod_beta split: sum.splits)

lemma keeps_modify: "(\<And>s. I s \<Longrightarrow> I (g s)) \<Longrightarrow> keeps I (modify g)"
  by (simp add: keeps_def run_simps)

lemma keeps_if [keeps_intros]: "(b \<Longrightarrow> keeps I m) \<Longrightarrow> (\<not> b \<Longrightarrow> keeps I n) \<Longrightarrow> keeps I (if b then m else n)"
  by simp

lemma keeps_sum [keeps_intros]:
  "(\<And>e. r = Inl e \<Longrightarrow> keeps I (f e)) \<Longrightarrow> (\<And>a. r = Inr a \<Longrightarrow> keeps I (g a)) \<Longrightarrow>
    keeps I (case r of Inl e \<Rightarrow> f e | Inr a \<Rightarrow> g a)"
  by (cases r) simp_all

lemma keeps_option [keeps_intros]:
  "(x = None \<Longrightarrow> keeps I m) \<Longrightarrow> (\<And>a. x = Some a \<Longrightarrow> keeps I (g a)) \<Longrightarrow>
    keeps I (case x of None \<Rightarrow> m | Some a \<Rightarrow> g a)"
  by (cases x) simp_all

lemma keeps_for_each [keeps_intros]:
  "(\<And>x. x \<in> set xs \<Longrightarrow> keeps I (f x)) \<Longrightarrow> keeps I (for_each xs f)"
  by (induction xs) (auto intro: keeps_intros)

lemma keeps_fold_go [keeps_intros]:
  "(\<And>acc x. x \<in> set xs \<Longrightarrow> keeps I (f acc x)) \<Longrightarrow> keeps I (fold_go f acc xs)"
  by (induction xs arbitrary: acc) (auto intro: keeps_intros)

section \<open>Fixed-width integers\<close>

text \<open>The conversion \<open>int32(x)\<close> keeps the low 32 bits as a two's complement number.\<close>

definition int32 :: "int \<Rightarrow> int" where
  "int32 x = signed_take_bit 31 x"

lemma int32_range: "- (2 ^ 31) \<le> int32 x \<and> int32 x < 2 ^ 31"
  using signed_take_bit_int_greater_eq_minus_exp[of 31 x] signed_take_bit_int_less_exp[of 31 x]
  by (simp add: int32_def)

lemma int32_id: "- (2 ^ 31) \<le> x \<Longrightarrow> x < 2 ^ 31 \<Longrightarrow> int32 x = x"
  by (simp add: int32_def signed_take_bit_int_eq_self)

lemma int32_add: "int32 (int32 x + y) = int32 (x + y)"
  by (simp add: int32_def signed_take_bit_add flip: signed_take_bit_signed_take_bit) (metis signed_take_bit_add signed_take_bit_signed_take_bit min.idem)

text \<open>The \<open>%d\<close> verb of \<open>fmt.Sprintf\<close>.\<close>

fun show_nat :: "nat \<Rightarrow> string" where
  "show_nat n = (if n < 10 then [char_of (48 + n)] else show_nat (n div 10) @ [char_of (48 + n mod 10)])"

declare show_nat.simps [simp del]

definition show_int :: "int \<Rightarrow> string" where
  "show_int i = (if i < 0 then CHR ''-'' # show_nat (nat (- i)) else show_nat (nat i))"

section \<open>Lists as collections\<close>

text \<open>The first element that satisfies a predicate, and replacing it in place.\<close>

fun replace_first :: "('a \<Rightarrow> bool) \<Rightarrow> 'a \<Rightarrow> 'a list \<Rightarrow> 'a list" where
  "replace_first p y [] = []"
| "replace_first p y (x # xs) = (if p x then y # xs else x # replace_first p y xs)"

lemma length_replace_first [simp]: "length (replace_first p y xs) = length xs"
  by (induction xs) auto

lemma set_replace_first: "set (replace_first p y xs) \<subseteq> insert y (set xs)"
  by (induction xs) auto

lemma replace_first_none: "(\<And>x. x \<in> set xs \<Longrightarrow> \<not> p x) \<Longrightarrow> replace_first p y xs = xs"
  by (induction xs) auto

lemma find_replace_first: "p y \<Longrightarrow> find p xs \<noteq> None \<Longrightarrow> find p (replace_first p y xs) = Some y"
  by (induction xs) (auto split: if_splits)

lemma find_replace_first_other:
  "\<not> q y \<Longrightarrow> (\<And>x. p x \<Longrightarrow> \<not> q x) \<Longrightarrow> find q (replace_first p y xs) = find q xs"
  by (induction xs) auto

lemma find_append: "find p (xs @ ys) = (case find p xs of None \<Rightarrow> find p ys | Some x \<Rightarrow> Some x)"
  by (induction xs) auto

lemma find_SomeD: "find p xs = Some x \<Longrightarrow> p x \<and> x \<in> set xs"
  by (induction xs) (auto split: if_splits)

text \<open>The first match splits the list; everything else of it stays in place.\<close>

lemma find_splitE:
  assumes "find p xs = Some d"
  obtains as bs where "xs = as @ d # bs" and "p d" and "\<forall>x\<in>set as. \<not> p x"
    and "\<And>y. replace_first p y xs = as @ y # bs"
  using assms
proof (induction xs arbitrary: thesis)
  case (Cons x xs)
  show ?case
  proof (cases "p x")
    case True
    then show ?thesis using Cons.prems(1)[of "[]" xs] Cons.prems(2) by simp
  next
    case False
    then have f: "find p xs = Some d" using Cons.prems(2) by simp
    show ?thesis
    proof (rule Cons.IH[OF _ f])
      fix as bs assume "xs = as @ d # bs" "p d" "\<forall>x\<in>set as. \<not> p x"
        "\<And>y. replace_first p y xs = as @ y # bs"
      then show thesis using False Cons.prems(1)[of "x # as" bs] by simp
    qed
  qed
qed simp

lemma replace_first_unique:
  "distinct (map g xs) \<Longrightarrow> (\<And>x. p x \<longleftrightarrow> g x = i) \<Longrightarrow> find p xs = Some d \<Longrightarrow>
    replace_first p (f d) xs = map (\<lambda>x. if g x = i then f x else x) xs"
proof (induction xs)
  case (Cons x xs)
  show ?case
  proof (cases "g x = i")
    case True
    then have "map (\<lambda>x. if g x = i then f x else x) xs = xs"
      using Cons.prems(1) by (intro map_idI) (auto, metis imageI)
    then show ?thesis using True Cons.prems by simp
  next
    case False then show ?thesis using Cons by auto
  qed
qed simp

lemma find_after_update:
  "find q xs = Some k \<Longrightarrow> find p xs = Some d \<Longrightarrow> (\<And>x. q (f x) = q x) \<Longrightarrow>
    find q (replace_first p (f d) xs) = Some k \<or> p k \<and> find q (replace_first p (f d) xs) = Some (f k)"
  by (induction xs) (auto split: if_splits)

lemma find_NoneD: "find p xs = None \<Longrightarrow> x \<in> set xs \<Longrightarrow> \<not> p x"
  by (induction xs) (auto split: if_splits)

end
