(* ===== verification/GoFloat.thy ===== *)
theory GoFloat
  imports Prelude Complex_Main "HOL-Library.Log_Nat"
begin

text \<open>
  Go's \<open>float64\<close>: IEEE-754 binary64 with round to nearest, ties to even. A value is a
  rational that a double can hold, an infinity or NaN; the two zeros are identified (no
  modelled code divides by a zero whose sign it could know). Every operation computes the
  exact rational result and rounds it once (\<open>rnd\<close>); results of magnitude
  \<open>2 ^ 1024\<close> or more overflow to an infinity, and \<open>x / 0\<close>, \<open>0 / 0\<close> give
  infinities and NaN as the hardware does. \<open>feq\<close>, \<open>flt\<close>, \<open>fle\<close> are Go's
  \<open>==\<close>, \<open><\<close> and \<open><=\<close> (false whenever an operand is NaN); HOL's \<open>=\<close> is only
  used to compare models. \<open>round_prec 24\<close> gives \<open>float32\<close> conversions,
  \<open>go_round\<close> is \<open>math.Round\<close> (half away from zero).
\<close>

datatype float64 = Fin rat | PosInf | NegInf | NaN

section \<open>Rounding\<close>

definition round_even :: "rat \<Rightarrow> int" where
  "round_even x = (let f = \<lfloor>x\<rfloor>; d = x - of_int f in
     if d < 1/2 then f else if 1/2 < d then f + 1 else if even f then f else f + 1)"

definition expo :: "rat \<Rightarrow> int" where
  "expo x = (case quotient_of x of (p, q) \<Rightarrow>
     let e = bitlen p - bitlen q in if 2 powi e \<le> x then e else e - 1)"

definition ulp :: "nat \<Rightarrow> int \<Rightarrow> rat \<Rightarrow> rat" where
  "ulp prec emin x = 2 powi (max (expo x - int prec + 1) emin)"

definition round_prec :: "nat \<Rightarrow> int \<Rightarrow> rat \<Rightarrow> rat" where
  "round_prec prec emin x =
     (if x = 0 then 0
      else if 0 < x then of_int (round_even (x / ulp prec emin x)) * ulp prec emin x
      else - (of_int (round_even (- x / ulp prec emin (- x))) * ulp prec emin (- x)))"

definition overflow :: "int \<Rightarrow> rat \<Rightarrow> float64" where
  "overflow emax y = (if 2 powi emax \<le> y then PosInf else if y \<le> - (2 powi emax) then NegInf else Fin y)"

definition rnd :: "rat \<Rightarrow> float64" where
  "rnd x = overflow 1024 (round_prec 53 (-1074) x)"

definition rnd32 :: "rat \<Rightarrow> float64" where
  "rnd32 x = overflow 128 (round_prec 24 (-149) x)"

section \<open>Arithmetic\<close>

instantiation float64 :: "{zero, one, plus, minus, times, inverse, uminus}"
begin

definition zero_float64 :: float64 where "0 = Fin 0"

definition one_float64 :: float64 where "1 = Fin 1"

fun uminus_float64 :: "float64 \<Rightarrow> float64" where
  "- Fin x = Fin (- x)"
| "- PosInf = NegInf"
| "- NegInf = PosInf"
| "- NaN = NaN"

fun plus_float64 :: "float64 \<Rightarrow> float64 \<Rightarrow> float64" where
  "Fin x + Fin y = rnd (x + y)"
| "NaN + _ = NaN"
| "_ + NaN = NaN"
| "PosInf + NegInf = NaN"
| "NegInf + PosInf = NaN"
| "PosInf + _ = PosInf"
| "NegInf + _ = NegInf"
| "Fin _ + y = y"

definition minus_float64 :: "float64 \<Rightarrow> float64 \<Rightarrow> float64" where
  "a - b = a + (- b :: float64)"

definition inf_sign :: "bool \<Rightarrow> float64" where
  "inf_sign pos = (if pos then PosInf else NegInf)"

fun times_float64 :: "float64 \<Rightarrow> float64 \<Rightarrow> float64" where
  "Fin x * Fin y = rnd (x * y)"
| "NaN * _ = NaN"
| "_ * NaN = NaN"
| "Fin x * PosInf = (if x = 0 then NaN else inf_sign (0 < x))"
| "Fin x * NegInf = (if x = 0 then NaN else inf_sign (x < 0))"
| "PosInf * Fin x = (if x = 0 then NaN else inf_sign (0 < x))"
| "NegInf * Fin x = (if x = 0 then NaN else inf_sign (x < 0))"
| "PosInf * PosInf = PosInf"
| "NegInf * NegInf = PosInf"
| "PosInf * NegInf = NegInf"
| "NegInf * PosInf = NegInf"

fun divide_float64 :: "float64 \<Rightarrow> float64 \<Rightarrow> float64" where
  "Fin x div Fin y = (if y = 0 then (if x = 0 then NaN else inf_sign (0 < x)) else rnd (x / y))"
| "NaN div _ = NaN"
| "_ div NaN = NaN"
| "Fin _ div _ = Fin 0"
| "PosInf div Fin y = inf_sign (0 \<le> y)"
| "NegInf div Fin y = inf_sign (y < 0)"
| "PosInf div _ = NaN"
| "NegInf div _ = NaN"

definition inverse_float64 :: "float64 \<Rightarrow> float64" where
  "inverse x = (1 :: float64) div x"

instance ..

end

section \<open>Comparison\<close>

fun flt :: "float64 \<Rightarrow> float64 \<Rightarrow> bool" where
  "flt (Fin x) (Fin y) = (x < y)"
| "flt NaN _ = False"
| "flt _ NaN = False"
| "flt NegInf y = (y \<noteq> NegInf)"
| "flt x PosInf = (x \<noteq> PosInf)"
| "flt _ _ = False"

fun feq :: "float64 \<Rightarrow> float64 \<Rightarrow> bool" where
  "feq NaN _ = False"
| "feq _ NaN = False"
| "feq x y = (x = y)"

definition fle :: "float64 \<Rightarrow> float64 \<Rightarrow> bool" where
  "fle x y = (flt x y \<or> feq x y)"

definition is_zero :: "float64 \<Rightarrow> bool" where
  "is_zero x = feq x 0"

definition go_round :: "float64 \<Rightarrow> float64" where
  "go_round x = (case x of Fin r \<Rightarrow> Fin (if 0 \<le> r then of_int \<lfloor>r + 1/2\<rfloor> else - of_int \<lfloor>- r + 1/2\<rfloor>) | _ \<Rightarrow> x)"

text \<open>The idiom \<open>math.Round(x*100) / 100\<close>, and the conversion \<open>float32(x)\<close>.\<close>

definition round_cents :: "float64 \<Rightarrow> float64" where
  "round_cents x = go_round (x * Fin 100) / Fin 100"

definition to_float32 :: "float64 \<Rightarrow> float64" where
  "to_float32 x = (case x of Fin r \<Rightarrow> rnd32 r | _ \<Rightarrow> x)"

lemmas float_defs = zero_float64_def one_float64_def minus_float64_def fle_def is_zero_def

section \<open>Properties of rounding\<close>

lemma powi2_pos [simp]: "0 < (2::rat) powi k"
  by (simp add: zero_less_power_int)

lemma powi2_add: "(2::rat) powi (a + b) = 2 powi a * 2 powi b"
  by (simp add: power_int_add)

lemma powi2_diff: "(2::rat) powi (a - b) = 2 powi a / 2 powi b"
  by (simp add: power_int_diff)

lemma powi2_le_iff [simp]: "(2::rat) powi a \<le> 2 powi b \<longleftrightarrow> a \<le> b"
  using power_int_strict_increasing[of b a "2::rat"] power_int_increasing[of a b "2::rat"]
  by (metis linorder_not_less one_less_numeral_iff order_less_imp_le semiring_norm(76))

lemma powi2_less_iff [simp]: "(2::rat) powi a < 2 powi b \<longleftrightarrow> a < b"
  by (simp add: not_le[symmetric])

lemma powi2_int: "0 \<le> k \<Longrightarrow> (2::rat) powi k = of_int (2 ^ nat k)"
  by (simp add: power_int_def)

lemma powi2_split: "u \<le> k \<Longrightarrow> (2::rat) powi k = of_int (2 ^ nat (k - u)) * 2 powi u"
  using powi2_int[of "k - u"] powi2_add[of "k - u" u] by simp

lemma bitlen_powi:
  assumes "0 < n"
  shows "2 powi (bitlen n - 1) \<le> (of_int n :: rat)" and "(of_int n :: rat) < 2 powi (bitlen n)"
proof -
  have "1 \<le> bitlen n" using assms by (auto simp: bitlen_alt_def)
  then have "(2::rat) powi (bitlen n - 1) = of_int (2 ^ nat (bitlen n - 1))"
    by (intro powi2_int) simp
  then show "2 powi (bitlen n - 1) \<le> (of_int n :: rat)"
    using bitlen_bounds[OF assms] by (metis of_int_le_iff)
  have "(2::rat) powi (bitlen n) = of_int (2 ^ nat (bitlen n))"
    by (intro powi2_int) (rule bitlen_nonneg)
  then show "(of_int n :: rat) < 2 powi (bitlen n)"
    using bitlen_bounds[OF assms] by (metis of_int_less_iff)
qed

lemma expo_bounds:
  assumes "0 < x"
  shows "2 powi (expo x) \<le> x" and "x < 2 powi (expo x + 1)"
proof -
  obtain p q where pq: "quotient_of x = (p, q)" by fastforce
  have q: "0 < q" using pq by (rule quotient_of_denom_pos)
  have x: "x = of_int p / of_int q" using pq by (rule quotient_of_div)
  have p: "0 < p" using assms q x by (simp add: zero_less_divide_iff)
  let ?e = "bitlen p - bitlen q"
  have lo: "2 powi (?e - 1) < x"
  proof -
    have "2 powi (bitlen p - 1) * of_int q < of_int p * (2::rat) powi bitlen q"
      using bitlen_powi[OF p] bitlen_powi[OF q] p q
      by (intro mult_le_less_imp_less) auto
    then show ?thesis using q unfolding x
      by (simp add: powi2_diff divide_simps mult_ac)
  qed
  have hi: "x < 2 powi (?e + 1)"
  proof -
    have "of_int p * 2 powi (bitlen q - 1) < (2::rat) powi bitlen p * of_int q"
      using bitlen_powi[OF p] bitlen_powi[OF q] p q
      by (intro mult_less_le_imp_less) auto
    then show ?thesis using q unfolding x
      by (simp add: powi2_diff powi2_add divide_simps mult_ac)
  qed
  show "2 powi (expo x) \<le> x" "x < 2 powi (expo x + 1)"
    using lo hi by (auto simp: expo_def pq Let_def)
qed

lemma expo_unique: "2 powi k \<le> x \<Longrightarrow> x < 2 powi (k + 1) \<Longrightarrow> expo x = k"
proof -
  assume a: "2 powi k \<le> x" "x < 2 powi (k + 1)"
  have x: "0 < x" using a(1) powi2_pos[of k] by linarith
  have "k < expo x + 1" using expo_bounds[OF x] a by (metis order_le_less_trans powi2_less_iff)
  moreover have "expo x < k + 1" using expo_bounds[OF x] a by (metis order_le_less_trans powi2_less_iff)
  ultimately show ?thesis by simp
qed

lemma expo_mono: "0 < x \<Longrightarrow> x \<le> y \<Longrightarrow> expo x \<le> expo y"
proof -
  assume a: "0 < x" "x \<le> y"
  have "(2::rat) powi expo x < 2 powi (expo y + 1)"
    using expo_bounds[OF a(1)] expo_bounds(2)[of y] a by linarith
  then show ?thesis by simp
qed

lemma round_even_of_int [simp]: "round_even (of_int n) = n"
  by (simp add: round_even_def Let_def)

lemma round_even_bounds: "\<lfloor>x\<rfloor> \<le> round_even x" "round_even x \<le> \<lfloor>x\<rfloor> + 1" "of_int (round_even x) \<le> x + 1/2" "x - 1/2 \<le> of_int (round_even x)"
  by (auto simp: round_even_def Let_def) linarith+

lemma round_even_mono: "x \<le> y \<Longrightarrow> round_even x \<le> round_even y"
proof -
  assume a: "x \<le> y"
  show ?thesis
  proof (cases "\<lfloor>x\<rfloor> = \<lfloor>y\<rfloor>")
    case True
    with a show ?thesis by (auto simp: round_even_def Let_def)
  next
    case False
    with a have "\<lfloor>x\<rfloor> + 1 \<le> \<lfloor>y\<rfloor>" using floor_mono[OF a] by simp
    then show ?thesis using round_even_bounds(2)[of x] round_even_bounds(1)[of y] by linarith
  qed
qed

lemma round_even_le: "x \<le> of_int n \<Longrightarrow> round_even x \<le> n"
  using round_even_mono[of x "of_int n"] by simp

lemma round_even_ge: "of_int n \<le> x \<Longrightarrow> n \<le> round_even x"
  using round_even_mono[of "of_int n" x] by simp


lemma ulp_pos [simp]: "0 < ulp prec emin x"
  by (simp add: ulp_def)

lemma round_prec_0 [simp]: "round_prec prec emin 0 = 0"
  by (simp add: round_prec_def)

lemma round_prec_minus: "round_prec prec emin (- x) = - round_prec prec emin x"
  by (auto simp: round_prec_def)

lemma round_prec_nonneg: "0 \<le> x \<Longrightarrow> 0 \<le> round_prec prec emin x"
  using round_even_ge[of 0 "x / ulp prec emin x"] by (auto simp: round_prec_def less_imp_le)

text \<open>A multiple of the unit in the last place is not changed.\<close>

lemma round_prec_multiple: "0 < x \<Longrightarrow> x = of_int k * ulp prec emin x \<Longrightarrow> round_prec prec emin x = x"
proof -
  assume a: "0 < x" and k: "x = of_int k * ulp prec emin x"
  have "x / ulp prec emin x = of_int k"
    using k ulp_pos[of prec emin x] by (metis nonzero_eq_divide_eq order_less_irrefl)
  then show ?thesis using a k by (simp add: round_prec_def)
qed

lemma round_prec_exact_pos:
  assumes m: "0 < m" "m \<le> 2 ^ prec" and e: "emin \<le> e" and prec: "0 < prec"
  shows "round_prec prec emin (of_int m * 2 powi e) = of_int m * 2 powi e"
proof -
  let ?x = "of_int m * 2 powi e :: rat"
  let ?u = "max (expo ?x - int prec + 1) emin"
  have x: "0 < ?x" using m by simp
  have int: "?u \<le> e \<Longrightarrow> ?x = of_int (m * 2 ^ nat (e - ?u)) * ulp prec emin ?x"
  proof -
    assume u: "?u \<le> e"
    have "(2::rat) powi e = of_int (2 ^ nat (e - ?u)) * 2 powi ?u"
      using u by (rule powi2_split)
    then show ?thesis by (simp add: ulp_def mult_ac)
  qed
  show ?thesis
  proof (cases "?u \<le> e")
    case True
    from round_prec_multiple[OF x int[OF True]] show ?thesis .
  next
    case False
    then have "e + int prec \<le> expo ?x" using e by linarith
    then have "(2::rat) powi (e + int prec) \<le> ?x"
      using expo_bounds(1)[OF x] by (meson order_trans powi2_le_iff)
    then have "(2::rat) powi (int prec) \<le> of_int m"
      by (simp add: powi2_add mult.commute)
    then have "2 ^ prec \<le> m"
      by (simp add: powi2_int)
    with m have m': "m = 2 ^ prec" by simp
    have xe: "?x = 2 powi (e + int prec)"
      using powi2_split[of e "e + int prec"] by (simp add: m')
    then have ex: "expo ?x = e + int prec" by (simp add: expo_unique)
    then have u: "?u = e + 1" using e by simp
    have U: "ulp prec emin ?x = 2 powi (e + 1)" by (simp only: ulp_def u)
    have "?x = of_int (2 ^ nat (int prec - 1)) * 2 powi (e + 1)"
      using powi2_split[of "e + 1" "e + int prec"] prec xe by (simp add: algebra_simps)
    then have "?x = of_int (2 ^ nat (int prec - 1)) * ulp prec emin ?x" by (subst U)
    from round_prec_multiple[OF x this] show ?thesis .
  qed
qed

lemma round_prec_exact:
  assumes "\<bar>m\<bar> \<le> 2 ^ prec" and "emin \<le> e" and "0 < prec"
  shows "round_prec prec emin (of_int m * 2 powi e) = of_int m * 2 powi e"
proof (cases m "0 :: int" rule: linorder_cases)
  case less
  then have "round_prec prec emin (- (of_int (- m) * 2 powi e)) = - (of_int (- m) * 2 powi e)"
    unfolding round_prec_minus using assms by (subst round_prec_exact_pos) auto
  then show ?thesis by simp
next
  case equal
  then show ?thesis by simp
next
  case greater
  then show ?thesis using assms by (intro round_prec_exact_pos) auto
qed

text \<open>Rounding is monotone.\<close>

lemma round_prec_upper:
  assumes "0 < x" and "0 < prec" and "emin \<le> k" and "x \<le> 2 powi k"
  shows "round_prec prec emin x \<le> 2 powi k"
proof -
  let ?u = "max (expo x - int prec + 1) emin"
  have "2 powi expo x \<le> x" using assms(1) by (rule expo_bounds)
  then have "(2::rat) powi expo x \<le> 2 powi k" using assms(4) by linarith
  then have ek: "expo x \<le> k" by simp
  then have u: "?u \<le> k" using assms(2,3) by simp
  have pow: "(2::rat) powi k = of_int (2 ^ nat (k - ?u)) * 2 powi ?u"
    using u by (rule powi2_split)
  have "x / ulp prec emin x \<le> of_int (2 ^ nat (k - ?u))"
    using assms(4) pow by (simp add: ulp_def pos_divide_le_eq)
  then have "round_even (x / ulp prec emin x) \<le> 2 ^ nat (k - ?u)" by (rule round_even_le)
  then have "(of_int (round_even (x / ulp prec emin x)) :: rat) \<le> of_int (2 ^ nat (k - ?u))"
    by (simp only: of_int_le_iff)
  then have "of_int (round_even (x / ulp prec emin x)) * 2 powi ?u \<le> of_int (2 ^ nat (k - ?u)) * (2::rat) powi ?u"
    by (rule mult_right_mono) (simp add: less_imp_le)
  then show ?thesis using assms(1) pow by (simp add: round_prec_def ulp_def)
qed

lemma round_prec_lower:
  assumes "0 < x" and "0 < prec" and "emin \<le> expo x"
  shows "2 powi expo x \<le> round_prec prec emin x"
proof -
  let ?u = "max (expo x - int prec + 1) emin"
  have u: "?u \<le> expo x" using assms(2,3) by simp
  have pow: "(2::rat) powi expo x = of_int (2 ^ nat (expo x - ?u)) * 2 powi ?u"
    using u by (rule powi2_split)
  have "of_int (2 ^ nat (expo x - ?u)) \<le> x / ulp prec emin x"
    using expo_bounds(1)[OF assms(1)] pow by (simp add: ulp_def pos_le_divide_eq)
  then have "2 ^ nat (expo x - ?u) \<le> round_even (x / ulp prec emin x)" by (rule round_even_ge)
  then have "of_int (2 ^ nat (expo x - ?u)) \<le> (of_int (round_even (x / ulp prec emin x)) :: rat)"
    by (simp only: of_int_le_iff)
  then have "of_int (2 ^ nat (expo x - ?u)) * (2::rat) powi ?u \<le> of_int (round_even (x / ulp prec emin x)) * 2 powi ?u"
    by (rule mult_right_mono) (simp add: less_imp_le)
  then show ?thesis using assms(1) pow by (simp add: round_prec_def ulp_def)
qed

lemma round_prec_mono_pos:
  assumes "0 < x" and "x \<le> y" and "0 < prec"
  shows "round_prec prec emin x \<le> round_prec prec emin y"
proof -
  have y: "0 < y" using assms by simp
  show ?thesis
  proof (cases "ulp prec emin x = ulp prec emin y")
    case True
    then have "round_even (x / ulp prec emin x) \<le> round_even (y / ulp prec emin y)"
      using assms(2) by (auto intro!: round_even_mono divide_right_mono simp: less_imp_le)
    then show ?thesis using assms(1) y True
      by (simp add: round_prec_def mult_right_mono less_imp_le)
  next
    case False
    have "expo x \<le> expo y" using assms by (intro expo_mono)
    with False have lt: "expo x < expo y" by (cases "expo x = expo y") (auto simp: ulp_def)
    with False have em: "emin < expo y - int prec + 1" by (auto simp: ulp_def max_def split: if_splits)
    have "x < 2 powi (expo x + 1)" using assms(1) by (rule expo_bounds)
    also have "\<dots> \<le> 2 powi expo y" using lt by simp
    finally have "x \<le> 2 powi expo y" by simp
    then have "round_prec prec emin x \<le> 2 powi expo y"
      using assms em by (intro round_prec_upper) auto
    also have "\<dots> \<le> round_prec prec emin y" using y assms em by (intro round_prec_lower) auto
    finally show ?thesis .
  qed
qed

lemma round_prec_mono:
  assumes "x \<le> y" and "0 < prec"
  shows "round_prec prec emin x \<le> round_prec prec emin y"
proof -
  consider "0 < x" | "x \<le> 0" "0 \<le> y" | "y < 0" by linarith
  then show ?thesis
  proof cases
    case 1
    then show ?thesis using assms by (intro round_prec_mono_pos)
  next
    case 2
    have "0 \<le> round_prec prec emin (- x)" using 2 by (intro round_prec_nonneg) simp
    moreover have "0 \<le> round_prec prec emin y" using 2 by (intro round_prec_nonneg)
    ultimately show ?thesis by (simp add: round_prec_minus)
  next
    case 3
    have "round_prec prec emin (- y) \<le> round_prec prec emin (- x)"
      using assms 3 by (intro round_prec_mono_pos) auto
    then show ?thesis by (simp add: round_prec_minus)
  qed
qed


section \<open>Properties of the operations\<close>

lemma overflow_mono: "x \<le> y \<Longrightarrow> fle (overflow emax x) (overflow emax y)"
  using powi2_pos[of emax] by (auto simp: overflow_def fle_def)

lemma rnd_mono: "x \<le> y \<Longrightarrow> fle (rnd x) (rnd y)"
  unfolding rnd_def by (intro overflow_mono round_prec_mono) auto

lemma rnd_minus: "rnd (- x) = - rnd x"
proof -
  have "\<And>y. overflow 1024 (- y) = - overflow 1024 y"
  proof -
    fix y :: rat
    have "2 powi (1024::int) \<le> - y \<Longrightarrow> \<not> (2 powi (1024::int) \<le> y)"
      using powi2_pos[of 1024] by linarith
    then show "overflow 1024 (- y) = - overflow 1024 y"
      by (simp add: overflow_def)
  qed
  then show ?thesis by (simp add: rnd_def round_prec_minus)
qed

lemma rnd_dyadic:
  assumes "\<bar>m\<bar> \<le> 2 ^ 53" and "-1074 \<le> e" and "e \<le> 900"
  shows "rnd (of_int m * 2 powi e) = Fin (of_int m * 2 powi e)"
proof -
  have "\<bar>of_int m * (2::rat) powi e\<bar> = of_int \<bar>m\<bar> * 2 powi e" by (simp add: abs_mult)
  also have "\<dots> \<le> of_int (2 ^ 53) * 2 powi 900"
    using assms by (intro mult_mono) (simp_all only: of_int_le_iff powi2_le_iff, simp_all add: less_imp_le)
  also have "\<dots> = (2::rat) powi 953" by (simp flip: powi2_split[of 900 953, simplified])
  also have "\<dots> < 2 powi 1024" by simp
  finally have "\<bar>of_int m * (2::rat) powi e\<bar> < 2 powi 1024" .
  then have "overflow 1024 (of_int m * 2 powi e) = Fin (of_int m * 2 powi e)"
    by (simp only: overflow_def abs_less_iff) auto
  then show ?thesis using assms by (simp only: rnd_def) (subst round_prec_exact; simp)
qed

lemma rnd_of_int: "\<bar>n\<bar> \<le> 2 ^ 53 \<Longrightarrow> rnd (of_int n) = Fin (of_int n)"
  using rnd_dyadic[of n 0] by simp

lemma rnd_numerals [simp]:
  "rnd 0 = Fin 0"
  "rnd 1 = Fin 1"
  "rnd (-1) = Fin (-1)"
  "(numeral n :: int) \<le> 2 ^ 53 \<Longrightarrow> rnd (numeral n) = Fin (numeral n)"
  "(numeral n :: int) \<le> 2 ^ 53 \<Longrightarrow> rnd (- numeral n) = Fin (- numeral n)"
  using rnd_of_int[of 0] rnd_of_int[of 1] rnd_of_int[of "-1"] rnd_of_int[of "numeral n"]
    rnd_of_int[of "- numeral n"] by simp_all

text \<open>
  Scaling a double by a factor between 0 and 1 never increases it and never changes its sign.
\<close>

lemma times_unit_le:
  assumes "rnd a = Fin a" and "0 \<le> a" and "0 \<le> p" and "p \<le> 1"
  shows "fle (Fin a * Fin p) (Fin a)" and "fle 0 (Fin a * Fin p)"
proof -
  have "fle (rnd (a * p)) (rnd a)" using assms by (intro rnd_mono) (simp add: mult_left_le)
  with assms(1) show "fle (Fin a * Fin p) (Fin a)" by simp
  have "fle (rnd 0) (rnd (a * p))" using assms by (intro rnd_mono) simp
  then show "fle 0 (Fin a * Fin p)" by (simp add: zero_float64_def)
qed

lemma flt_irrefl [simp]: "\<not> flt x x"
  by (cases x) auto

lemma flt_asym: "flt x y \<Longrightarrow> \<not> flt y x"
  by (cases x; cases y) auto

lemma flt_not_fle: "flt x y \<Longrightarrow> \<not> fle y x"
  by (cases x; cases y) (auto simp: fle_def)

lemma feq_refl: "feq x x \<longleftrightarrow> x \<noteq> NaN"
  by (cases x) auto

lemma feqD: "feq x y \<Longrightarrow> x = y"
  by (cases x; cases y) auto

lemma fle_Fin [simp]: "fle (Fin x) (Fin y) \<longleftrightarrow> x \<le> y"
  by (auto simp: fle_def)

lemma fle_trans: "fle x y \<Longrightarrow> fle y z \<Longrightarrow> fle x z"
  by (cases x; cases y; cases z) (auto simp: fle_def)

lemma uminus_uminus_float [simp]: "- (- (x :: float64)) = x"
  by (cases x) auto

lemma plus_comm_float: "x + y = y + (x :: float64)"
  by (cases x; cases y) (auto simp: add.commute)

lemma minus_self_Fin [simp]: "Fin x - Fin x = Fin 0"
  by (simp add: minus_float64_def)

lemma NaN_arith [simp]:
  "NaN + x = NaN" "x + NaN = NaN" "NaN * x = NaN" "x * NaN = NaN" "NaN - x = NaN" "x - NaN = NaN"
  by (cases x; simp add: minus_float64_def)+

lemma flt_NaN [simp]: "\<not> flt NaN x" "\<not> flt x NaN" "\<not> fle NaN x" "\<not> fle x NaN" "\<not> feq x NaN" "\<not> feq NaN x"
  by (cases x; simp add: fle_def)+

end
