(* ===== verification/Documents.thy ===== *)
theory Documents
  imports GoFloat
begin

text \<open>
  The data the service works on. The protobuf messages (\<open>billingpb\<close>, an external package)
  are records with the fields the modelled code reads or writes, named
  \<open><message>_<Field>\<close>; a pointer that may be nil is an option. The \<open>Mgo\<close> structs of
  internal/repository/models, which are what the collections hold, are records with all
  their fields, named \<open>mgo<message>_<Field>\<close>. Instants (\<open>time.Time\<close>) are nanoseconds
  since the Unix epoch; an ObjectID is a number (its 12 bytes), and the protobuf messages
  carry its hexadecimal text.
\<close>

type_synonym oid = nat
type_synonym gotime = int

datatype timestamp = Timestamp (ts_seconds: int) (ts_nanos: int)

definition second :: int where "second = 1000000000"

text \<open>\<open>time.Time{}\<close> is January 1 of year 1; \<open>primitive.NilObjectID\<close> has all bytes 0.\<close>

definition time_zero :: gotime where "time_zero = -62135596800 * 1000000000"

definition nil_oid :: oid where "nil_oid = 0"

section \<open>Keys of key products (internal/repository/models/key.go)\<close>

text \<open>
  The tags of an item and of a document that differ between a message and what is stored (hex string
  and ObjectID, timestamp and instant) are parameters of the record. A message that the code only
  carries along is \<open>opaque\<close>; a Go map from strings is a list of pairs, and none is the nil map.
\<close>

type_synonym opaque = string

type_synonym 'v go_map = "(string \<times> 'v) list option"

definition go_get :: "string go_map \<Rightarrow> string \<Rightarrow> string" where
  "go_get m k = (case m of None \<Rightarrow> [] | Some kvs \<Rightarrow> (case map_of kvs k of None \<Rightarrow> [] | Some v \<Rightarrow> v))"

definition go_has :: "string go_map \<Rightarrow> string \<Rightarrow> bool" where
  "go_has m k = (case m of None \<Rightarrow> False | Some kvs \<Rightarrow> map_of kvs k \<noteq> None)"

record key =
  key_Id :: string
  key_Code :: string
  key_KeyProductId :: string
  key_PlatformId :: string
  key_OrderId :: string
  key_CreatedAt :: "timestamp option"
  key_ReservedTo :: "timestamp option"
  key_RedeemedAt :: "timestamp option"

record mgo_key =
  mgokey_Id :: oid
  mgokey_Code :: string
  mgokey_KeyProductId :: oid
  mgokey_PlatformId :: string
  mgokey_OrderId :: "oid option"
  mgokey_CreatedAt :: gotime
  mgokey_ReservedTo :: gotime
  mgokey_RedeemedAt :: gotime

text \<open>
  Products, key products and projects. What the code only asks for through accessors of the external
  package (localised texts, prices by group) is opaque; of a platform of a key product the code reads the id.
\<close>

record key_product =
  kp_Id :: string
  kp_MerchantId :: string
  kp_ProjectId :: string
  kp_MinimalLimitNotify :: int
  kp_NameEn :: string
  kp_Object :: string
  kp_Sku :: string
  kp_Platforms :: "string list"
  kp_Cover :: "string go_map"
  kp_Url :: string
  kp_Metadata :: "string go_map"
  kp_Enabled :: bool
  kp_Deleted :: bool
  kp_CreatedAt :: "timestamp option"
  kp_UpdatedAt :: "timestamp option"
  kp_Rest :: opaque

record product_price =
  pp_Currency :: string
  pp_Amount :: float64
  pp_IsVirtualCurrency :: bool

record product =
  prod_Id :: string
  prod_Object :: string
  prod_Sku :: string
  prod_ProjectId :: string
  prod_Enabled :: bool
  prod_Deleted :: bool
  prod_Prices :: "product_price list"
  prod_Images :: "string list"
  prod_Url :: string
  prod_Metadata :: "string go_map"
  prod_CreatedAt :: "timestamp option"
  prod_UpdatedAt :: "timestamp option"
  prod_Rest :: opaque

record virtual_currency =
  vc_Name :: "(string \<times> string) list"
  vc_Prices :: "product_price list"
  vc_MinPurchaseValue :: float64
  vc_MaxPurchaseValue :: float64
  vc_SellCountType :: string

record redirect_settings =
  rs_Mode :: string
  rs_Usage :: string
  rs_Delay :: int
  rs_ButtonCaption :: string

text \<open>The fields of a project that its orders carry along.\<close>

record project_carried =
  pco_UrlSuccess :: string
  pco_UrlFail :: string
  pco_NotifyEmails :: "string list"
  pco_SendNotifyEmail :: bool
  pco_SecretKey :: string
  pco_UrlCheckAccount :: string
  pco_UrlProcessPayment :: string
  pco_CallbackProtocol :: string
  pco_UrlChargebackPayment :: string
  pco_UrlCancelPayment :: string
  pco_UrlRefundPayment :: string
  pco_UrlFraudPayment :: string
  pco_Status :: int
  pco_MerchantRoyaltyCurrency :: string
  pco_RedirectSettings :: "redirect_settings option"
  pco_FormDefaultText :: "(string \<times> string) list"

text \<open>A project; what its orders carry along is \<open>project_Carried\<close>, without the merchant's currency.\<close>

record project =
  project_Id :: string
  project_MerchantId :: string
  project_Name :: "(string \<times> string) list"
  project_VirtualCurrency :: "virtual_currency option"
  project_Carried :: project_carried
  project_AllowDynamicNotifyUrls :: bool
  project_AllowDynamicRedirectUrls :: bool
  project_SignatureRequired :: bool
  project_LimitsCurrency :: string
  project_MinPaymentAmount :: float64
  project_MaxPaymentAmount :: float64
  project_VatPayer :: string
  project_WebhookMode :: string

section \<open>Merchants, countries, orders\<close>

record merchant_tariff =
  tariff_MinimalPayout :: "string \<rightharpoonup> float64"

record merchant =
  merchant_Id :: string
  merchant_UserId :: string
  merchant_UserEmail :: string
  merchant_CompanyCountry :: string
  merchant_Company :: "string option"
  merchant_Banking :: "string option" \<comment> \<open>its currency\<close>
  merchant_AgreementNumber :: string
  merchant_OperatingCompanyId :: string
  merchant_MccCode :: string
  merchant_FirstPaymentAt :: "timestamp option"
  merchant_ManualPayoutsEnabled :: bool
  merchant_MinPayoutAmount :: float64
  merchant_Tariff :: "merchant_tariff option"
  merchant_Status :: int

record country =
  country_IsoCodeA2 :: string
  country_PayerTariffRegion :: string
  country_VatEnabled :: bool
  country_VatCurrency :: string
  country_VatCurrencyRatesSource :: string
  country_VatPeriodMonth :: int
  country_PriceGroupId :: string
  country_Currency :: string

record order_refund =
  oref_Amount :: float64
  oref_Currency :: string
  oref_Reason :: string
  oref_Code :: string
  oref_ReceiptNumber :: string
  oref_ReceiptUrl :: string

record ('i, 't) order_item_of =
  oi_Id :: 'i
  oi_Object :: string
  oi_Sku :: string
  oi_Name :: string
  oi_Description :: string
  oi_Amount :: float64
  oi_Currency :: string
  oi_Images :: "string list"
  oi_Url :: string
  oi_Metadata :: "string go_map"
  oi_Code :: string
  oi_PlatformId :: string
  oi_CreatedAt :: 't
  oi_UpdatedAt :: 't

type_synonym order_item = "(string, timestamp option) order_item_of"
type_synonym mgo_order_item = "(oid, gotime) order_item_of"

record pm_params =
  pmp_TerminalId :: string
  pmp_Secret :: string
  pmp_SecretCallback :: string
  pmp_Currency :: string
  pmp_ApiUrl :: string
  pmp_MccCode :: string
  pmp_OperatingCompanyId :: string
  pmp_Brand :: "string list"

record pm_card =
  pmc_Masked :: string
  pmc_First6 :: string
  pmc_Last4 :: string
  pmc_ExpiryMonth :: string
  pmc_ExpiryYear :: string
  pmc_Brand :: string
  pmc_Fingerprint :: string
  pmc_Secure3D :: bool

record pm_account =
  pma_Brand :: string
  pma_Account :: string

record 'i order_payment_method_of =
  opm_Id :: 'i
  opm_Name :: string
  opm_ExternalId :: string
  opm_Params :: "pm_params option"
  opm_PaymentSystemId :: 'i
  opm_Group :: string
  opm_Saved :: bool
  opm_Handler :: string
  opm_Card :: "pm_card option"
  opm_Wallet :: "pm_account option"
  opm_CryptoCurrency :: "pm_account option"
  opm_RefundAllowed :: bool
  opm_RecurringAllowed :: bool

type_synonym order_payment_method = "string order_payment_method_of"
type_synonym mgo_order_payment_method = "oid order_payment_method_of"

text \<open>
  The private statuses are numbers of the external package; only their being different matters. The
  public status of an order is an accessor of that package.
\<close>

datatype order_private_status = OrderStatusNew | OrderStatusPaymentSystemCreate
  | OrderStatusPaymentSystemRejectOnCreate | OrderStatusPaymentSystemReject | OrderStatusPaymentSystemDeclined
  | OrderStatusPaymentSystemCanceled | OrderStatusPaymentSystemComplete | OrderStatusProjectInProgress
  | OrderStatusProjectComplete | OrderStatusProjectReject | OrderStatusItemReplaced | OrderStatusRefund
  | OrderStatusChargeback | OrderStatusOther int

definition OrderPublicStatusCreated :: string where "OrderPublicStatusCreated = ''created''"
definition OrderPublicStatusPending :: string where "OrderPublicStatusPending = ''pending''"
definition OrderPublicStatusCanceled :: string where "OrderPublicStatusCanceled = ''canceled''"
definition OrderPublicStatusRejected :: string where "OrderPublicStatusRejected = ''rejected''"
definition OrderPublicStatusProcessed :: string where "OrderPublicStatusProcessed = ''processed''"
definition OrderPublicStatusRefunded :: string where "OrderPublicStatusRefunded = ''refunded''"
definition OrderPublicStatusChargeback :: string where "OrderPublicStatusChargeback = ''chargeback''"

lemmas order_public_statuses = OrderPublicStatusCreated_def OrderPublicStatusPending_def OrderPublicStatusCanceled_def
  OrderPublicStatusRejected_def OrderPublicStatusProcessed_def OrderPublicStatusRefunded_def OrderPublicStatusChargeback_def

record order_cancellation =
  ocan_Code :: string
  ocan_Reason :: string

record address =
  ad_Country :: string
  ad_City :: string
  ad_PostalCode :: string
  ad_State :: string

record order_user =
  ou_Id :: string
  ou_Uuid :: string
  ou_Email :: string
  ou_TechEmail :: string
  ou_Ip :: string
  ou_Locale :: string
  ou_Object :: string
  ou_ExternalId :: string
  ou_Name :: string
  ou_EmailVerified :: bool
  ou_Phone :: string
  ou_PhoneVerified :: bool
  ou_Address :: "address option"
  ou_Metadata :: "string go_map"
  ou_Rest :: opaque

record recurring_settings =
  rset_Period :: string
  rset_Interval :: int
  rset_DateEnd :: string

record order_issuer =
  iss_Url :: string
  iss_Embedded :: bool
  iss_UtmSource :: string
  iss_UtmCampaign :: string
  iss_UtmMedium :: string
  iss_ReferrerHost :: string

record country_restriction =
  cr_IsoCodeA2 :: string
  cr_PaymentsAllowed :: bool
  cr_ChangeAllowed :: bool

text \<open>What only the creation of the order and the payment form change.\<close>

record order_carried =
  oco_Description :: string
  oco_ReceiptNumber :: string
  oco_AgreementVersion :: string
  oco_AgreementAccepted :: bool
  oco_NotifySale :: bool
  oco_NotifySaleEmail :: string
  oco_Issuer :: "order_issuer option"
  oco_BillingAddress :: "address option"
  oco_TaxType :: string
  oco_TaxCurrency :: string
  oco_Metadata :: "string go_map"
  oco_PrivateMetadata :: "string go_map"
  oco_ProjectParams :: "string go_map"
  oco_IsJsonRequest :: bool
  oco_UserAddressDataRequired :: bool
  oco_Products :: "string list"
  oco_CountryRestriction :: "country_restriction option"
  oco_IsBuyForVirtualCurrency :: bool
  oco_PaymentIpCountry :: string
  oco_IsIpCountryMismatchBin :: bool
  oco_BillingCountryChangedByUser :: bool
  oco_FormMode :: string
  oco_IsCurrencyPredefined :: bool
  oco_MerchantInfo :: "(string \<times> string) option"
  oco_RecurringSettings :: "recurring_settings option"

text \<open>
  An order. Its project is never nil, and its fields are those of the order; so are those of its tax, where
  no tax is the one with the zero values. The issuer's reference is empty without an issuer. \<open>NetRevenue\<close> and
  \<open>Fee\<close>, which are not stored, the testing case, which only a request to a test webhook repeats, and
  the search index \<open>MetadataValues\<close> are left out. The amount in virtual currency is a field of the message
  alone: in a stored order it has the zero value.
\<close>

record ('i, 't) order_of =
  order_Id :: 'i
  order_Uuid :: string
  order_Transaction :: string
  order_Object :: string
  order_Status :: string
  order_PrivateStatus :: order_private_status
  order_CreatedAt :: 't
  order_UpdatedAt :: 't
  order_CanceledAt :: 't
  order_Canceled :: bool
  order_Cancellation :: "order_cancellation option"
  order_Refunded :: bool
  order_RefundedAt :: 't
  order_ReceiptEmail :: string
  order_ReceiptPhone :: string
  order_ReceiptUrl :: string
  order_ReceiptId :: string
  order_IssuerReferenceType :: string
  order_IssuerReference :: string
  order_TotalPaymentAmount :: float64
  order_Currency :: string
  order_User :: "order_user option"
  order_TaxRate :: float64
  order_TaxAmount :: float64
  order_PaymentMethod :: "'i order_payment_method_of option"
  order_Items :: "('i, 't) order_item_of list"
  order_Refund :: "order_refund option"
  order_ProjectId :: 'i
  order_ProjectMerchantId :: 'i
  order_ProjectName :: "(string \<times> string) list"
  order_ProjectFirstPaymentAt :: 't
  order_ProjectCarried :: project_carried
  order_ProjectLastRequestedAt :: 't
  order_PaymentMethodOrderClosedAt :: 't
  order_OrderAmount :: float64
  order_PaymentMethodPayerAccount :: string
  order_PaymentMethodTxnParams :: "string go_map"
  order_PaymentRequisites :: "string go_map"
  order_ExpireDateToFormInput :: 't
  order_IsNotificationsSent :: "bool go_map"
  order_ParentOrder :: "(string \<times> string) option"
  order_ParentPaymentAt :: 't
  order_Type :: string
  order_IsVatDeduction :: bool
  order_CountryCode :: string
  order_PlatformId :: string
  order_ProductType :: string
  order_Keys :: "string list"
  order_IsKeyProductNotified :: bool
  order_MccCode :: string
  order_OperatingCompanyId :: string
  order_IsHighRisk :: bool
  order_ChargeCurrency :: string
  order_ChargeAmount :: float64
  order_IsRefundAllowed :: bool
  order_VatPayer :: string
  order_IsProduction :: bool
  order_RoyaltyReportId :: string
  order_Recurring :: bool
  order_RecurringId :: string
  order_VirtualCurrencyAmount :: float64
  order_Carried :: order_carried

type_synonym order = "(string, timestamp option) order_of"
type_synonym mgo_order = "(oid, gotime) order_of"

section \<open>The payment gateway (internal/payment\_system)\<close>

text \<open>
  The messages of CardPay. Of the callbacks, which are messages of the external package, there are the
  fields that the code reads; what their methods answer are parameters.
\<close>

record cp_item =
  cpi_Name :: string
  cpi_Description :: string
  cpi_Count :: int
  cpi_Price :: float64

record cp_merchant_order =
  cpm_Id :: string
  cpm_Description :: string
  cpm_Items :: "cp_item list"

record cp_card =
  cpc_Pan :: string
  cpc_Holder :: string
  cpc_Cvv :: string
  cpc_Expire :: string

record cp_customer =
  cpu_Email :: string
  cpu_Ip :: string
  cpu_Account :: string

record cp_recurring =
  cprd_Currency :: string
  cprd_Amount :: float64
  cprd_Filing :: "string option"
  cprd_Initiator :: string
  cprd_Plan :: "string option"

record cp_return_urls =
  cpl_CancelUrl :: string
  cpl_DeclineUrl :: string
  cpl_SuccessUrl :: string

record cp_order =
  cpo_RequestId :: string
  cpo_RequestTime :: string
  cpo_MerchantOrder :: cp_merchant_order
  cpo_Description :: string
  cpo_PaymentMethod :: string
  cpo_PaymentData :: "(string \<times> float64) option"
  cpo_RecurringData :: "cp_recurring option"
  cpo_CardAccount :: "cp_card option"
  cpo_Customer :: cp_customer
  cpo_EWalletAccount :: "string option"
  cpo_CryptoCurrencyAccount :: "string option"
  cpo_ReturnUrls :: cp_return_urls

record cp_refund_request =
  cprf_RequestId :: string
  cprf_RequestTime :: string
  cprf_MerchantOrder :: cp_merchant_order
  cprf_PaymentId :: string
  cprf_Amount :: float64
  cprf_Currency :: string

record cp_plan_request =
  cppl_RequestId :: string
  cppl_RequestTime :: string
  cppl_Amount :: float64
  cppl_Currency :: string
  cppl_Interval :: int
  cppl_Name :: string
  cppl_Period :: string
  cppl_Retries :: int

record cp_subscription_request =
  cps_RequestId :: string
  cps_RequestTime :: string
  cps_CardAccount :: "cp_card option"
  cps_Customer :: cp_customer
  cps_MerchantOrder :: cp_merchant_order
  cps_PaymentMethod :: string
  cps_RecurringData :: cp_recurring
  cps_ReturnUrls :: cp_return_urls

record cp_update_request =
  cpup_RequestId :: string
  cpup_RequestTime :: string
  cpup_Operation :: string
  cpup_StatusTo :: string

datatype http_body = NoBody | FormBody "(string \<times> string) list" | OrderBody cp_order | RefundBody cp_refund_request
  | PlanBody cp_plan_request | SubscriptionBody cp_subscription_request | UpdateBody cp_update_request

record http_request =
  hreq_Method :: string
  hreq_Url :: string
  hreq_Authorization :: string
  hreq_Body :: http_body

text \<open>A status code and what reading the body gives.\<close>

record http_response =
  hrsp_StatusCode :: int
  hrsp_Body :: "go_err + string"

record card_token =
  ct_TokenType :: string
  ct_AccessToken :: string
  ct_RefreshToken :: string
  ct_AccessTokenExpire :: int
  ct_RefreshTokenExpire :: int
  ct_AccessTokenExpireTime :: gotime
  ct_RefreshTokenExpireTime :: gotime

record refund_data =
  rfd_Id :: string
  rfd_Status :: string
  rfd_Amount :: float64
  rfd_Currency :: string

record refund_callback =
  rcb_MerchantOrderId :: "string option"
  rcb_PaymentMethod :: string
  rcb_CallbackTime :: string
  rcb_RefundData :: "refund_data option"
  rcb_Rest :: opaque

text \<open>\<open>RecurringData\<close> with the ids of its filing and its subscription.\<close>

record payment_callback =
  pcb_PaymentMethod :: string
  pcb_CallbackTime :: string
  pcb_MaskedPan :: "string option"
  pcb_RecurringData :: "(string option \<times> string option) option"
  pcb_Rest :: opaque

record subscription =
  sub_Id :: string
  sub_CardpayPlanId :: string
  sub_CardpaySubscriptionId :: string
  sub_Amount :: float64
  sub_TotalAmount :: float64
  sub_LastPaymentAt :: "timestamp option"
  sub_IsActive :: bool
  sub_OrderId :: string
  sub_MerchantId :: string
  sub_ProjectId :: string
  sub_CustomerId :: string
  sub_CustomerUuid :: string
  sub_CustomerInfo :: "string \<times> string \<times> string" \<comment> \<open>external id, email and phone\<close>
  sub_MaskedPan :: string
  sub_Period :: string
  sub_ExpireAt :: "timestamp option"
  sub_Currency :: string
  sub_ItemType :: string
  sub_ItemList :: "string list"
  sub_ProjectName :: "(string \<times> string) list"
  sub_Rest :: opaque

record saved_card =
  sc_Token :: string
  sc_ProjectId :: string
  sc_MerchantId :: string
  sc_MaskedPan :: string
  sc_CardHolder :: string
  sc_Month :: string
  sc_Year :: string
  sc_RecurringId :: string

section \<open>Platforms, payment systems, receipts and mails\<close>

text \<open>The platforms of internal/service/key\_product.go.\<close>

record platform =
  plat_Id :: string
  plat_Name :: string
  plat_Icon :: string
  plat_Order :: int
  plat_ActivationInstructionUrl :: string

definition availablePlatforms :: "string \<rightharpoonup> platform" where
  "availablePlatforms = (let logo = (\<lambda>n. ''https://cdn.pay.super.com/img/logo-platforms/logo-'' @ n @ ''.png'') in map_of
    [(''steam'', \<lparr>plat_Id = ''steam'', plat_Name = ''Steam'', plat_Icon = logo ''steam'', plat_Order = 1,
        plat_ActivationInstructionUrl = ''https://support.steampowered.com/kb_article.php?ref=7480-WUSF-3601&l=english''\<rparr>),
     (''gog'', \<lparr>plat_Id = ''gog'', plat_Name = ''GOG'', plat_Icon = logo ''gog'', plat_Order = 2,
        plat_ActivationInstructionUrl = ''https://www.gog.com/redeem''\<rparr>),
     (''uplay'', \<lparr>plat_Id = ''uplay'', plat_Name = ''Uplay'', plat_Icon = logo ''uplay'', plat_Order = 3,
        plat_ActivationInstructionUrl = ''https://support.ubi.com/en-us/Faqs/000025121/How-to-redeem-keys-codes''\<rparr>),
     (''origin'', \<lparr>plat_Id = ''origin'', plat_Name = ''Origin'', plat_Icon = logo ''origin'', plat_Order = 4,
        plat_ActivationInstructionUrl = ''https://help.ea.com/en-us/help/origin/origin/origin-code-redemption-faq/#redeemcode''\<rparr>),
     (''psn'', \<lparr>plat_Id = ''psn'', plat_Name = ''PSN'', plat_Icon = logo ''psn'', plat_Order = 5,
        plat_ActivationInstructionUrl = ''https://id.sonyentertainmentnetwork.com/id/management/#/p/commerce/content/redeem_code''\<rparr>),
     (''xbox'', \<lparr>plat_Id = ''xbox'', plat_Name = ''XBOX Store'', plat_Icon = logo ''xbox'', plat_Order = 6,
        plat_ActivationInstructionUrl = ''https://redeem.microsoft.com''\<rparr>),
     (''nintendo'', \<lparr>plat_Id = ''nintendo'', plat_Name = ''Nintendo Store'', plat_Icon = logo ''nintendo'', plat_Order = 7,
        plat_ActivationInstructionUrl = ''https://ec.nintendo.com/redeem/#/''\<rparr>),
     (''itch'', \<lparr>plat_Id = ''itch'', plat_Name = ''Itch.io'', plat_Icon = logo ''itch'', plat_Order = 8,
        plat_ActivationInstructionUrl = ''https://itch.io/docs/creators/download-keys''\<rparr>),
     (''egs'', \<lparr>plat_Id = ''egs'', plat_Name = ''Epic Games Store'', plat_Icon = logo ''epic'', plat_Order = 9,
        plat_ActivationInstructionUrl = ''https://www.epicgames.com/store/en-US/redeem''\<rparr>)])"

record payment_system =
  psys_Id :: string
  psys_Handler :: string
  psys_IsActive :: bool

record order_receipt =
  rcp_TotalPrice :: string
  rcp_TransactionId :: string
  rcp_TransactionDate :: string
  rcp_ProjectName :: string
  rcp_MerchantName :: string
  rcp_Items :: "(string \<times> string) list"
  rcp_OrderType :: string
  rcp_PlatformName :: string
  rcp_PaymentPartner :: string
  rcp_VatPayer :: string
  rcp_VatInOrderCurrency :: string
  rcp_VatInChargeCurrency :: string
  rcp_TotalAmount :: string
  rcp_TotalCharge :: string
  rcp_ReceiptId :: string
  rcp_Url :: string
  rcp_VatRate :: string
  rcp_CustomerEmail :: string
  rcp_CustomerUuid :: string
  rcp_SubscriptionViewUrl :: string
  rcp_SubscriptionsManagementUrl :: string
  rcp_RecurringPeriod :: string
  rcp_RecurringInterval :: string
  rcp_RecurringDateEnd :: string

text \<open>
  The structured part of a mail with a receipt: the rows of the table with a flag for the simple row, and
  the optional lines for the subtotal and the tax.
\<close>

record mail_object =
  mob_Items :: "(string \<times> bool \<times> string) list"
  mob_ShowSummary :: bool
  mob_SubTotal :: "(string \<times> string) option"
  mob_Vat :: "(string \<times> string \<times> bool) option"

record mail_payload =
  mail_TemplateAlias :: string
  mail_TemplateModel :: "(string \<times> string) list"
  mail_To :: string
  mail_Object :: "mail_object option"

section \<open>The order view (internal/repository/models/order\_view\_private.go)\<close>

text \<open>
  One document per order with all its money figures. The figures are grouped into those of a
  payment, those of a refund and the summary shown in reports; the code keeps them in one flat
  structure. User, addresses, issuer, cancellation and merchant info are copied from the order
  unread and are left out.
\<close>

record money =
  mo_Amount :: float64
  mo_Currency :: string
  mo_AmountRounded :: float64

record payment_figures =
  pf_PaymentGrossRevenueLocal :: money
  pf_PaymentGrossRevenueOrigin :: money
  pf_PaymentGrossRevenue :: money
  pf_PaymentTaxFee :: money
  pf_PaymentTaxFeeLocal :: money
  pf_PaymentTaxFeeOrigin :: money
  pf_PaymentTaxFeeCurrencyExchangeFee :: money
  pf_PaymentTaxFeeTotal :: money
  pf_PaymentGrossRevenueFx :: money
  pf_PaymentGrossRevenueFxTaxFee :: money
  pf_PaymentGrossRevenueFxProfit :: money
  pf_GrossRevenue :: money
  pf_TaxFee :: money
  pf_TaxFeeCurrencyExchangeFee :: money
  pf_TaxFeeTotal :: money
  pf_MethodFeeTotal :: money
  pf_MethodFeeTariff :: money
  pf_PaysuperMethodFeeTariffSelfCost :: money
  pf_PaysuperMethodFeeProfit :: money
  pf_MethodFixedFeeTariff :: money
  pf_PaysuperMethodFixedFeeTariffFxProfit :: money
  pf_PaysuperMethodFixedFeeTariffSelfCost :: money
  pf_PaysuperMethodFixedFeeTariffTotalProfit :: money
  pf_PaysuperFixedFee :: money
  pf_PaysuperFixedFeeFxProfit :: money
  pf_FeesTotal :: money
  pf_FeesTotalLocal :: money
  pf_NetRevenue :: money
  pf_PaysuperMethodTotalProfit :: money
  pf_PaysuperTotalProfit :: money

record refund_figures =
  rf_PaymentRefundGrossRevenueLocal :: money
  rf_PaymentRefundGrossRevenueOrigin :: money
  rf_PaymentRefundGrossRevenue :: money
  rf_PaymentRefundTaxFee :: money
  rf_PaymentRefundTaxFeeLocal :: money
  rf_PaymentRefundTaxFeeOrigin :: money
  rf_PaymentRefundFeeTariff :: money
  rf_MethodRefundFixedFeeTariff :: money
  rf_RefundGrossRevenue :: money
  rf_RefundGrossRevenueFx :: money
  rf_MethodRefundFeeTariff :: money
  rf_PaysuperMethodRefundFeeTariffProfit :: money
  rf_PaysuperMethodRefundFixedFeeTariffSelfCost :: money
  rf_MerchantRefundFixedFeeTariff :: money
  rf_PaysuperMethodRefundFixedFeeTariffProfit :: money
  rf_RefundTaxFee :: money
  rf_RefundTaxFeeCurrencyExchangeFee :: money
  rf_PaysuperRefundTaxFeeCurrencyExchangeFee :: money
  rf_RefundTaxFeeTotal :: money
  rf_RefundReverseRevenue :: money
  rf_RefundFeesTotal :: money
  rf_RefundFeesTotalLocal :: money
  rf_PaysuperRefundTotalProfit :: money

record report_summary =
  rs_Status :: string
  rs_Charge :: money
  rs_Gross :: money
  rs_Vat :: money
  rs_Fees :: money
  rs_Revenue :: money

record ('i, 't) order_view_of =
  ov_Id :: 'i
  ov_Uuid :: string
  ov_TotalPaymentAmount :: float64
  ov_Currency :: string
  ov_ProjectId :: 'i
  ov_ProjectMerchantId :: 'i
  ov_ProjectName :: "(string \<times> string) list"
  ov_ProjectFirstPaymentAt :: 't
  ov_CreatedAt :: 't
  ov_Transaction :: string
  ov_PaymentMethod :: "'i order_payment_method_of option"
  ov_CountryCode :: string
  ov_MerchantId :: 'i
  ov_Locale :: string
  ov_Status :: string
  ov_TransactionDate :: 't
  ov_Type :: string
  ov_IsVatDeduction :: bool
  ov_PaymentFigures :: payment_figures
  ov_RefundFigures :: refund_figures
  ov_Items :: "('i, 't) order_item_of list"
  ov_MerchantPayoutCurrency :: string
  ov_ParentOrder :: "(string \<times> string) option"
  ov_Refund :: "order_refund option"
  ov_MccCode :: string
  ov_OperatingCompanyId :: string
  ov_IsHighRisk :: bool
  ov_RefundAllowed :: bool
  ov_OrderCharge :: money
  ov_VatPayer :: string
  ov_IsProduction :: bool
  ov_OrderChargeBeforeVat :: money
  ov_TaxRate :: float64
  ov_PaymentMethodTerminalId :: string
  ov_Recurring :: bool
  ov_RecurringId :: string
  ov_RoyaltyReportId :: string
  ov_AmountBeforeVat :: float64
  ov_ReportSummary :: report_summary

type_synonym order_view = "(string, timestamp option) order_view_of"
type_synonym mgo_order_view = "(oid, gotime) order_view_of"

record price_group =
  pg_Id :: string
  pg_Currency :: string
  pg_Region :: string
  pg_IsActive :: bool

record operating_company =
  oc_Id :: string
  oc_Name :: string
  oc_Country :: string
  oc_PaymentCountries :: "string list"

section \<open>Costs (internal/repository/models/*\_cost\_*.go)\<close>

text \<open>
  The message and the stored form of a cost have the same fields; ids and instants are
  text and timestamps in the message, ObjectIDs and times in the collection.
\<close>

record ('i, 't) pccm_of =
  pccm_Id :: 'i
  pccm_MerchantId :: 'i
  pccm_Name :: string
  pccm_PayoutCurrency :: string
  pccm_MinAmount :: float64
  pccm_MaxAmount :: float64
  pccm_Region :: string
  pccm_Country :: string
  pccm_MethodPercent :: float64
  pccm_MethodFixAmount :: float64
  pccm_MethodFixAmountCurrency :: string
  pccm_PsPercent :: float64
  pccm_PsFixedFee :: float64
  pccm_PsFixedFeeCurrency :: string
  pccm_CreatedAt :: 't
  pccm_UpdatedAt :: 't
  pccm_IsActive :: bool
  pccm_MccCode :: string

type_synonym pccm = "(string, timestamp option) pccm_of"
type_synonym mgo_pccm = "(oid, gotime) pccm_of"

record ('i, 't) pccs_of =
  pccs_Id :: 'i
  pccs_Name :: string
  pccs_Region :: string
  pccs_Country :: string
  pccs_Percent :: float64
  pccs_FixAmount :: float64
  pccs_FixAmountCurrency :: string
  pccs_CreatedAt :: 't
  pccs_UpdatedAt :: 't
  pccs_IsActive :: bool
  pccs_MccCode :: string
  pccs_OperatingCompanyId :: string

type_synonym pccs = "(string, timestamp option) pccs_of"
type_synonym mgo_pccs = "(oid, gotime) pccs_of"

record ('i, 't) mbcm_of =
  mbcm_Id :: 'i
  mbcm_MerchantId :: 'i
  mbcm_Name :: string
  mbcm_PayoutCurrency :: string
  mbcm_UndoReason :: string
  mbcm_Region :: string
  mbcm_Country :: string
  mbcm_DaysFrom :: int
  mbcm_PaymentStage :: int
  mbcm_Percent :: float64
  mbcm_FixAmount :: float64
  mbcm_FixAmountCurrency :: string
  mbcm_IsPaidByMerchant :: bool
  mbcm_CreatedAt :: 't
  mbcm_UpdatedAt :: 't
  mbcm_IsActive :: bool
  mbcm_MccCode :: string

type_synonym mbcm = "(string, timestamp option) mbcm_of"
type_synonym mgo_mbcm = "(oid, gotime) mbcm_of"

record ('i, 't) mbcs_of =
  mbcs_Id :: 'i
  mbcs_Name :: string
  mbcs_PayoutCurrency :: string
  mbcs_UndoReason :: string
  mbcs_Region :: string
  mbcs_Country :: string
  mbcs_DaysFrom :: int
  mbcs_PaymentStage :: int
  mbcs_Percent :: float64
  mbcs_FixAmount :: float64
  mbcs_CreatedAt :: 't
  mbcs_UpdatedAt :: 't
  mbcs_IsActive :: bool
  mbcs_MccCode :: string
  mbcs_OperatingCompanyId :: string
  mbcs_FixAmountCurrency :: string

type_synonym mbcs = "(string, timestamp option) mbcs_of"
type_synonym mgo_mbcs = "(oid, gotime) mbcs_of"

section \<open>Accounting entries (internal/repository/models/accounting\_entry.go)\<close>

record ae_source =
  aesrc_Id :: string
  aesrc_Type :: string

record accounting_entry =
  ae_Id :: string
  ae_Object :: string
  ae_Type :: string
  ae_Source :: "ae_source option"
  ae_MerchantId :: string
  ae_Amount :: float64
  ae_Currency :: string
  ae_Reason :: string
  ae_Status :: string
  ae_Country :: string
  ae_OriginalAmount :: float64
  ae_OriginalCurrency :: string
  ae_LocalAmount :: float64
  ae_LocalCurrency :: string
  ae_CreatedAt :: "timestamp option"
  ae_AvailableOn :: "timestamp option"
  ae_OperatingCompanyId :: string
  ae_AmountRounded :: float64
  ae_OriginalAmountRounded :: float64
  ae_LocalAmountRounded :: float64

record mgo_accounting_entry =
  mgoae_Id :: oid
  mgoae_Object :: string
  mgoae_Type :: string
  mgoae_SourceId :: oid
  mgoae_SourceType :: string
  mgoae_MerchantId :: oid
  mgoae_Amount :: float64
  mgoae_Currency :: string
  mgoae_Reason :: string
  mgoae_Status :: string
  mgoae_Country :: string
  mgoae_OriginalAmount :: float64
  mgoae_OriginalCurrency :: string
  mgoae_LocalAmount :: float64
  mgoae_LocalCurrency :: string
  mgoae_CreatedAt :: gotime
  mgoae_AvailableOn :: gotime
  mgoae_OperatingCompanyId :: string
  mgoae_AmountRounded :: float64
  mgoae_OriginalAmountRounded :: float64
  mgoae_LocalAmountRounded :: float64

section \<open>Refunds (internal/repository/models/refund.go)\<close>

record refund_payer =
  payer_Country :: string
  payer_Zip :: string
  payer_State :: string

record refund =
  refund_Id :: string
  refund_OriginalOrderId :: string
  refund_OriginalOrderUuid :: string
  refund_ExternalId :: string
  refund_Amount :: float64
  refund_CreatorId :: string
  refund_Currency :: string
  refund_Status :: int
  refund_CreatedAt :: "timestamp option"
  refund_UpdatedAt :: "timestamp option"
  refund_PayerData :: "refund_payer option"
  refund_SalesTax :: float64
  refund_IsChargeback :: bool
  refund_CreatedOrderId :: string
  refund_Reason :: string

record mgo_refund =
  mgorefund_Id :: oid
  mgorefund_OriginalOrderId :: oid
  mgorefund_OriginalOrderUuid :: string
  mgorefund_ExternalId :: string
  mgorefund_Amount :: float64
  mgorefund_CreatorId :: oid
  mgorefund_Currency :: string
  mgorefund_Status :: int
  mgorefund_CreatedAt :: gotime
  mgorefund_UpdatedAt :: gotime
  mgorefund_PayerData :: "refund_payer option"
  mgorefund_SalesTax :: float64
  mgorefund_IsChargeback :: bool
  mgorefund_CreatedOrderId :: oid
  mgorefund_Reason :: string

section \<open>Merchant balances (internal/repository/models/merchant\_balance.go)\<close>

record merchant_balance =
  balance_Id :: string
  balance_MerchantId :: string
  balance_Currency :: string
  balance_Debit :: float64
  balance_Credit :: float64
  balance_RollingReserve :: float64
  balance_Total :: float64
  balance_CreatedAt :: "timestamp option"

record mgo_merchant_balance =
  mgobalance_Id :: oid
  mgobalance_MerchantId :: oid
  mgobalance_Currency :: string
  mgobalance_Debit :: float64
  mgobalance_Credit :: float64
  mgobalance_RollingReserve :: float64
  mgobalance_Total :: float64
  mgobalance_CreatedAt :: gotime

section \<open>Royalty reports (internal/repository/models/royalty\_report.go)\<close>

text \<open>
  The status constants of royalty reports are strings of the external package; only their
  being different matters. Any other string, the empty one included, is \<open>RROther\<close>.
\<close>

datatype rr_status = RRPending | RRAccepted | RRDispute | RRWaitForPayment | RRPaid
  | RRCanceled | RROther string

definition rr_no_status :: rr_status where "rr_no_status = RROther ''''"

record rr_totals =
  rrt_TransactionsCount :: int
  rrt_FeeAmount :: float64
  rrt_VatAmount :: float64
  rrt_PayoutAmount :: float64
  rrt_CorrectionAmount :: float64
  rrt_RollingReserveAmount :: float64
  rrt_FinalPayoutAmount :: float64
  rrt_B2BVatBase :: float64
  rrt_B2BVatRate :: float64
  rrt_B2BVatAmount :: float64

record rr_correction =
  rrc_AccountingEntryId :: string
  rrc_Amount :: float64
  rrc_Currency :: string
  rrc_Reason :: string
  rrc_EntryDate :: "timestamp option"

record mgo_rr_correction =
  mgorrc_AccountingEntryId :: oid
  mgorrc_Amount :: float64
  mgorrc_Currency :: string
  mgorrc_Reason :: string
  mgorrc_EntryDate :: gotime

record rr_product_summary =
  rrp_Product :: string
  rrp_Region :: string
  rrp_TotalTransactions :: int
  rrp_SalesCount :: int
  rrp_ReturnsCount :: int
  rrp_GrossSalesAmount :: float64
  rrp_GrossReturnsAmount :: float64
  rrp_GrossTotalAmount :: float64
  rrp_TotalFees :: float64
  rrp_TotalVat :: float64
  rrp_PayoutAmount :: float64

record 'c rr_summary_of =
  rrs_ProductsItems :: "rr_product_summary list"
  rrs_ProductsTotal :: "rr_product_summary option"
  rrs_Corrections :: "'c list"
  rrs_RollingReserves :: "'c list"

type_synonym rr_summary = "rr_correction rr_summary_of"
type_synonym mgo_rr_summary = "mgo_rr_correction rr_summary_of"

record royalty_report =
  rr_Id :: string
  rr_MerchantId :: string
  rr_CreatedAt :: "timestamp option"
  rr_UpdatedAt :: "timestamp option"
  rr_PayoutDate :: "timestamp option"
  rr_Status :: rr_status
  rr_PeriodFrom :: "timestamp option"
  rr_PeriodTo :: "timestamp option"
  rr_AcceptExpireAt :: "timestamp option"
  rr_AcceptedAt :: "timestamp option"
  rr_Totals :: "rr_totals option"
  rr_Currency :: string
  rr_Summary :: "rr_summary option"
  rr_DisputeReason :: string
  rr_DisputeStartedAt :: "timestamp option"
  rr_DisputeClosedAt :: "timestamp option"
  rr_IsAutoAccepted :: bool
  rr_PayoutDocumentId :: string
  rr_OperatingCompanyId :: string
  rr_StringPeriodFrom :: string
  rr_StringPeriodTo :: string

record mgo_royalty_report =
  mgorr_Id :: oid
  mgorr_MerchantId :: oid
  mgorr_CreatedAt :: gotime
  mgorr_UpdatedAt :: gotime
  mgorr_PayoutDate :: gotime
  mgorr_Status :: rr_status
  mgorr_PeriodFrom :: gotime
  mgorr_PeriodTo :: gotime
  mgorr_AcceptExpireAt :: gotime
  mgorr_AcceptedAt :: gotime
  mgorr_Totals :: "rr_totals option"
  mgorr_Currency :: string
  mgorr_Summary :: "mgo_rr_summary option"
  mgorr_DisputeReason :: string
  mgorr_DisputeStartedAt :: gotime
  mgorr_DisputeClosedAt :: gotime
  mgorr_IsAutoAccepted :: bool
  mgorr_PayoutDocumentId :: string
  mgorr_OperatingCompanyId :: string
  mgorr_StringPeriodFrom :: string
  mgorr_StringPeriodTo :: string

text \<open>The audit trail written with every change of a report or a payout document.\<close>

record mgo_change =
  change_Id :: oid
  change_DocumentId :: oid
  change_Source :: string
  change_Ip :: string
  change_Hash :: string
  change_CreatedAt :: gotime

section \<open>Payout documents (internal/repository/models/payout.go)\<close>

record payout =
  po_Id :: string
  po_MerchantId :: string
  po_SourceId :: "string list"
  po_TotalFees :: float64
  po_Balance :: float64
  po_Currency :: string
  po_PeriodFrom :: "timestamp option"
  po_PeriodTo :: "timestamp option"
  po_TotalTransactions :: int
  po_Description :: string
  po_Destination :: "string option"
  po_MerchantAgreementNumber :: string
  po_Company :: "string option"
  po_Status :: string
  po_Transaction :: string
  po_FailureCode :: string
  po_FailureMessage :: string
  po_FailureTransaction :: string
  po_CreatedAt :: "timestamp option"
  po_UpdatedAt :: "timestamp option"
  po_ArrivalDate :: "timestamp option"
  po_PaidAt :: "timestamp option"
  po_OperatingCompanyId :: string
  po_AutoincrementId :: int
  po_StringPeriodFrom :: string
  po_StringPeriodTo :: string
  po_B2BVatBase :: float64
  po_B2BVatRate :: float64
  po_B2BVatAmount :: float64
  po_FeesExcludingVat :: float64

record mgo_payout =
  mgopo_Id :: oid
  mgopo_MerchantId :: oid
  mgopo_SourceId :: "string list"
  mgopo_TotalFees :: float64
  mgopo_Balance :: float64
  mgopo_Currency :: string
  mgopo_PeriodFrom :: gotime
  mgopo_PeriodTo :: gotime
  mgopo_TotalTransactions :: int
  mgopo_Description :: string
  mgopo_Destination :: "string option"
  mgopo_MerchantAgreementNumber :: string
  mgopo_Company :: "string option"
  mgopo_Status :: string
  mgopo_Transaction :: string
  mgopo_FailureCode :: string
  mgopo_FailureMessage :: string
  mgopo_FailureTransaction :: string
  mgopo_CreatedAt :: gotime
  mgopo_UpdatedAt :: gotime
  mgopo_ArrivalDate :: gotime
  mgopo_PaidAt :: gotime
  mgopo_OperatingCompanyId :: string
  mgopo_AutoincrementId :: int
  mgopo_StringPeriodFrom :: string
  mgopo_StringPeriodTo :: string
  mgopo_B2BVatBase :: float64
  mgopo_B2BVatRate :: float64
  mgopo_B2BVatAmount :: float64
  mgopo_FeesExcludingVat :: float64

end
