(* ===== verification/CheckoutDocs.thy ===== *)
theory CheckoutDocs
  imports Documents
begin

text \<open>
  The data of checkout: payment methods and their settings, limits, customers with their tokens and
  cookies, and the requests that create an order and a payment.
\<close>

section \<open>Payment methods, limits, zip codes, bank identification numbers\<close>

text \<open>
  The settings of a payment method are a list in the collection; in the message they are a map from a key of
  currency, category code, operating company and brand. None is the nil map.
\<close>

record ('i, 't, 's) payment_method_of =
  pm_Id :: 'i
  pm_Name :: string
  pm_Group :: string
  pm_ExternalId :: string
  pm_LimitsCurrency :: string
  pm_MinPaymentAmount :: float64
  pm_MaxPaymentAmount :: float64
  pm_TestSettings :: "'s list option"
  pm_ProductionSettings :: "'s list option"
  pm_IsActive :: bool
  pm_CreatedAt :: 't
  pm_UpdatedAt :: 't
  pm_PaymentSystemId :: 'i
  pm_Type :: string
  pm_AccountRegexp :: string
  pm_RefundAllowed :: bool
  pm_RecurringAllowed :: bool

type_synonym payment_method = "(string, timestamp option, string \<times> pm_params) payment_method_of"
type_synonym mgo_payment_method = "(oid, gotime, pm_params) payment_method_of"

record payment_min_limit =
  pml_Id :: string
  pml_Currency :: string
  pml_Amount :: float64

record zip_code =
  zip_Zip :: string
  zip_Country :: string
  zip_City :: string
  zip_StateCode :: "string option" \<comment> \<open>none when \<open>State\<close> is nil\<close>

record bin_data =
  bin_CardBin :: int
  bin_CardBrand :: string
  bin_CardType :: string
  bin_CardCategory :: string
  bin_BankName :: string
  bin_BankCountryName :: string
  bin_BankCountryIsoCode :: string

text \<open>What the services of addresses and saved cards answer.\<close>

record geo_data =
  geo_Country :: "string option"
  geo_CityNames :: "string go_map option"
  geo_PostalCode :: "string option"
  geo_Subdivisions :: "string list"

record stored_card =
  stc_Id :: string
  stc_Token :: string
  stc_MaskedPan :: string
  stc_CardHolder :: string
  stc_Month :: string
  stc_Year :: string
  stc_RecurringId :: string

section \<open>Customers\<close>

record ('i, 't) customer_identity_of =
  ci_MerchantId :: 'i
  ci_ProjectId :: 'i
  ci_Type :: string
  ci_Value :: string
  ci_Verified :: bool
  ci_CreatedAt :: 't

record 't ip_history_of =
  ih_Ip :: opaque
  ih_IpString :: string
  ih_Address :: "address option"
  ih_CreatedAt :: 't

record 't address_history_of =
  ah_Country :: string
  ah_City :: string
  ah_PostalCode :: string
  ah_State :: string
  ah_CreatedAt :: 't

record 't value_history_of =
  vh_Value :: string
  vh_CreatedAt :: 't

record 't payment_activity_of =
  pa_CountPayment :: int
  pa_CountRefund :: int
  pa_LastPayment :: 't
  pa_LastRefund :: 't
  pa_RevenuePayment :: float64
  pa_RevenueRefund :: float64
  pa_RevenueTotal :: float64

text \<open>The activity by merchant is a list in the collection and a map in the message, where none is the nil map.\<close>

record ('i, 't, 'a) customer_of =
  cust_Id :: 'i
  cust_TechEmail :: string
  cust_ExternalId :: string
  cust_Email :: string
  cust_EmailVerified :: bool
  cust_Phone :: string
  cust_PhoneVerified :: bool
  cust_Name :: string
  cust_Ip :: opaque
  cust_IpString :: string
  cust_Locale :: string
  cust_AcceptLanguage :: string
  cust_UserAgent :: string
  cust_Address :: "address option"
  cust_Identity :: "('i, 't) customer_identity_of list"
  cust_IpHistory :: "'t ip_history_of list"
  cust_AddressHistory :: "'t address_history_of list"
  cust_LocaleHistory :: "'t value_history_of list"
  cust_AcceptLanguageHistory :: "'t value_history_of list"
  cust_Metadata :: "string go_map"
  cust_CreatedAt :: 't
  cust_UpdatedAt :: 't
  cust_NotifySale :: bool
  cust_NotifySaleEmail :: string
  cust_NotifyNewRegion :: bool
  cust_NotifyNewRegionEmail :: string
  cust_PaymentActivity :: 'a
  cust_Uuid :: string

type_synonym payment_activity = "timestamp option payment_activity_of"
type_synonym customer_identity = "(string, timestamp option) customer_identity_of"
type_synonym customer = "(string, timestamp option, payment_activity go_map) customer_of"
type_synonym mgo_customer = "(oid, gotime, (string \<times> gotime payment_activity_of) list) customer_of"

section \<open>Tokens and cookies\<close>

text \<open>An email and a phone come with whether they are verified.\<close>

record token_user =
  tu_Id :: string
  tu_Email :: "(string \<times> bool) option"
  tu_Phone :: "(string \<times> bool) option"
  tu_Name :: "string option"
  tu_Ip :: "string option"
  tu_Locale :: "string option"
  tu_Address :: "address option"
  tu_Metadata :: "string go_map"
  tu_UserAgent :: string
  tu_AcceptLanguage :: string

record token_settings =
  tset_ProjectId :: string
  tset_ReturnUrl :: "(string \<times> string) option"
  tset_Currency :: string
  tset_Amount :: float64
  tset_PaymentMethod :: string
  tset_Description :: string
  tset_ProductsIds :: "string list"
  tset_Metadata :: "string go_map"
  tset_PlatformId :: string
  tset_Type :: string
  tset_ButtonCaption :: string
  tset_RecurringPeriod :: string
  tset_RecurringDateEnd :: string

record customer_token =
  tok_CustomerId :: string
  tok_User :: token_user
  tok_Settings :: token_settings

record browser_customer =
  bc_CustomerId :: string
  bc_VirtualCustomerId :: string
  bc_Ip :: string
  bc_IpCountry :: string
  bc_SelectedCountry :: string
  bc_UserAgent :: string
  bc_AcceptLanguage :: string
  bc_SessionCount :: int
  bc_CreatedAt :: gotime
  bc_UpdatedAt :: gotime

section \<open>Requests\<close>

text \<open>The products of a request are none when the field is nil.\<close>

record order_request =
  oreq_Token :: string
  oreq_ProjectId :: string
  oreq_Signature :: string
  oreq_Amount :: float64
  oreq_Currency :: string
  oreq_Type :: string
  oreq_Products :: "string list option"
  oreq_User :: "order_user option"
  oreq_Cookie :: string
  oreq_PaymentMethod :: string
  oreq_RecurringPeriod :: string
  oreq_RecurringDateEnd :: string
  oreq_Metadata :: "string go_map"
  oreq_PrivateMetadata :: "string go_map"
  oreq_UrlVerify :: string
  oreq_UrlNotify :: string
  oreq_UrlSuccess :: string
  oreq_UrlFail :: string
  oreq_IsJson :: bool
  oreq_RawParams :: "string go_map"
  oreq_RawBody :: string
  oreq_IssuerUrl :: string
  oreq_IsEmbedded :: bool
  oreq_IssuerReferenceType :: string
  oreq_IssuerReference :: string
  oreq_UtmSource :: string
  oreq_UtmCampaign :: string
  oreq_UtmMedium :: string
  oreq_PlatformId :: string
  oreq_Account :: string
  oreq_Description :: string
  oreq_FormMode :: string
  oreq_ButtonCaption :: string

text \<open>What the processor of a request has found out so far (orderCreateRequestProcessorChecked).\<close>

record order_checked =
  chk_project :: "project option"
  chk_merchant :: "merchant option"
  chk_currency :: string
  chk_amount :: float64
  chk_paymentMethod :: "payment_method option"
  chk_products :: "string list"
  chk_items :: "order_item list"
  chk_metadata :: "string go_map"
  chk_privateMetadata :: "string go_map"
  chk_user :: "order_user option"
  chk_virtualAmount :: float64
  chk_mccCode :: string
  chk_operatingCompanyId :: string
  chk_priceGroup :: "price_group option"
  chk_isCurrencyPredefined :: bool
  chk_isBuyForVirtualCurrency :: bool
  chk_recurringPeriod :: string
  chk_recurringInterval :: int
  chk_recurringDateEnd :: string

text \<open>The data of the payment form, and what it is answered.\<close>

record form_request =
  freq_OrderId :: string
  freq_Ip :: string
  freq_Locale :: string
  freq_UserAgent :: string
  freq_Cookie :: string
  freq_Referer :: string
  freq_IsEmbedded :: bool
  freq_IssuerReferenceType :: string
  freq_IssuerReference :: string
  freq_UtmSource :: string
  freq_UtmCampaign :: string
  freq_UtmMedium :: string

record form_method =
  fm_Id :: string
  fm_Name :: string
  fm_Type :: string
  fm_Group :: string
  fm_AccountRegexp :: string
  fm_HasSavedCards :: bool
  fm_SavedCards :: "stored_card list"

record payment_request =
  preq_Data :: "string go_map"
  preq_Ip :: string
  preq_AcceptLanguage :: string
  preq_UserAgent :: string
  preq_Cookie :: string

record payment_answer =
  pans_Cookie :: string
  pans_RedirectUrl :: string
  pans_NeedRedirect :: bool
  pans_RecurringExpireDate :: "timestamp option"

end
