(* ===== verification/World.thy ===== *)
theory World
  imports CheckoutDocs
begin

text \<open>
  What the service runs in. \<open>ext\<close> collects the code that is not in the repository
  (the ObjectID codec and generator, the protobuf timestamp conversions, the clock, the
  outcome of every call to a database, cache, broker or RPC service, the number tools and
  the accessors of the external protobuf package) as parameters. A parameter that may
  answer differently each time takes the number of external calls made so far
  (\<open>w_tick\<close>), so an arbitrary schedule of failures and clock readings is an
  arbitrary function. \<open>world\<close> is the state the service keeps: the collections, the
  cache, the Redis flags and the messages it sent.
\<close>

section \<open>External code\<close>

datatype rate_type = RateTypePaysuper | RateTypeStock | RateTypeCentralbanks | RateTypeOxr

datatype direction = ExchangeDirectionBuy | ExchangeDirectionSell

record exchange_request =
  ex_From :: string
  ex_To :: string
  ex_RateType :: rate_type
  ex_Direction :: direction
  ex_Source :: string
  ex_Amount :: float64
  ex_Datetime :: "timestamp option"

record ext =
  \<comment> \<open>\<open>primitive.ObjectIDFromHex\<close>, \<open>ObjectID.Hex\<close>, \<open>primitive.NewObjectID\<close>\<close>
  x_oid_from_hex :: "string \<Rightarrow> go_err + oid"
  x_oid_hex :: "oid \<Rightarrow> string"
  x_new_oid :: "nat \<Rightarrow> oid"
  x_uuid :: "nat \<Rightarrow> string"
  \<comment> \<open>\<open>time.Now\<close>, \<open>ptypes.TimestampNow\<close>, \<open>ptypes.Timestamp\<close>, \<open>ptypes.TimestampProto\<close>\<close>
  x_now :: "nat \<Rightarrow> gotime"
  x_ts_now :: "nat \<Rightarrow> timestamp"
  x_timestamp :: "timestamp option \<Rightarrow> go_err + gotime"
  x_timestamp_proto :: "gotime \<Rightarrow> go_err + timestamp"
  \<comment> \<open>the outcome of the n-th call to a collection, the cache, a broker or a service\<close>
  x_fault :: "nat \<Rightarrow> go_err option"
  \<comment> \<open>\<open>CurrencyRatesService\<close>\<close>
  x_exchange_common :: "nat \<Rightarrow> exchange_request \<Rightarrow> go_err + float64"
  x_exchange_merchant :: "nat \<Rightarrow> string \<Rightarrow> exchange_request \<Rightarrow> go_err + float64"
  \<comment> \<open>paysuper-tools/number, and MongoDB's \<open>$round: [x, 2]\<close>, \<open>$sum\<close> and case-insensitive \<open>^name$\<close>\<close>
  x_to_precise :: "float64 \<Rightarrow> float64"
  x_format_amount :: "float64 \<Rightarrow> float64"
  x_percent_part :: "float64 \<Rightarrow> float64 \<Rightarrow> float64"
  x_money_round :: "nat \<Rightarrow> string \<Rightarrow> float64 \<Rightarrow> go_err + float64"
  x_mongo_round2 :: "float64 \<Rightarrow> float64"
  x_mongo_sum :: "float64 list \<Rightarrow> float64"
  x_regex_ci :: "string \<Rightarrow> string \<Rightarrow> bool"
  \<comment> \<open>\<open>json.Marshal\<close> and \<open>md5\<close> of a document, for the audit trail\<close>
  x_report_hash :: "royalty_report \<Rightarrow> go_err + string"
  x_payout_hash :: "payout \<Rightarrow> go_err + string"
  \<comment> \<open>accessors and constants of billingpb\<close>
  x_order_country :: "order \<Rightarrow> string"
  x_order_merchant_id :: "order \<Rightarrow> string"
  x_order_public_status :: "order \<Rightarrow> string"
  x_order_royalty_currency :: "order \<Rightarrow> string"
  x_order_tax_in_charge_currency :: "order \<Rightarrow> float64"
  x_order_cost_method_name :: "order \<Rightarrow> go_err + string"
  x_order_refund_allowed :: "order \<Rightarrow> bool"
  x_order_receipt_email :: "order \<Rightarrow> string"
  x_order_receipt_phone :: "order \<Rightarrow> string"
  x_order_need_callback :: "order \<Rightarrow> bool"
  x_set_notification :: "bool go_map \<Rightarrow> string \<Rightarrow> bool \<Rightarrow> bool go_map"
  x_order_has_ended_status :: "order \<Rightarrow> bool"
  x_order_can_be_recreated :: "order \<Rightarrow> bool"
  x_order_form_time_ended :: "nat \<Rightarrow> order \<Rightarrow> bool"
  x_order_postal_code :: "order \<Rightarrow> string"
  x_order_state :: "order \<Rightarrow> string"
  x_order_api_url :: "order \<Rightarrow> string"
  x_pm_is_bank_card :: "order_payment_method \<Rightarrow> bool"
  x_merchant_trademark :: "merchant \<Rightarrow> string"
  x_merchant_company_name :: "merchant \<Rightarrow> string"
  x_error_text :: "go_err \<Rightarrow> string"
  \<comment> \<open>methods of the CardPay callbacks\<close>
  x_rcb_allowed_status :: "refund_callback \<Rightarrow> bool"
  x_pcb_allowed_status :: "payment_callback \<Rightarrow> bool"
  x_pcb_is_recurring :: "payment_callback \<Rightarrow> bool"
  x_pcb_is_success :: "payment_callback \<Rightarrow> bool"
  x_pcb_is_recurring_with_filing :: "payment_callback \<Rightarrow> bool"
  x_pcb_amount :: "payment_callback \<Rightarrow> float64"
  x_pcb_currency :: "payment_callback \<Rightarrow> string"
  x_pcb_status :: "payment_callback \<Rightarrow> string"
  x_pcb_id :: "payment_callback \<Rightarrow> string"
  x_pcb_bank_card_params :: "payment_callback \<Rightarrow> string go_map"
  x_pcb_ewallet_params :: "payment_callback \<Rightarrow> string go_map"
  x_pcb_crypto_params :: "payment_callback \<Rightarrow> string go_map"
  \<comment> \<open>\<open>json.Unmarshal\<close> of the callbacks and of the answers of CardPay\<close>
  x_json_refund_callback :: "string \<Rightarrow> go_err + refund_callback option"
  x_json_payment_callback :: "string \<Rightarrow> go_err + payment_callback"
  x_json_token :: "string \<Rightarrow> go_err + card_token option"
  x_json_redirect_url :: "string \<Rightarrow> go_err + string option"
  x_json_recurring_status :: "string \<Rightarrow> go_err + string option option"
  x_json_refund_data :: "string \<Rightarrow> go_err + (string \<times> string) option"
  x_json_plan :: "string \<Rightarrow> go_err + (string \<times> string) option"
  x_json_subscription :: "string \<Rightarrow> go_err + (string \<times> string) option"
  \<comment> \<open>sha512 in hex, bcrypt of a card, \<open>time.Parse\<close>, \<open>url.ParseRequestURI\<close> with a new path, the answers of the gateway\<close>
  x_sha512_hex :: "string \<Rightarrow> string"
  x_card_fingerprint :: "nat \<Rightarrow> pm_card \<Rightarrow> go_err + string"
  x_parse_time :: "string \<Rightarrow> string \<Rightarrow> go_err + gotime"
  x_url_with_path :: "string \<Rightarrow> string \<Rightarrow> go_err + string"
  x_http :: "nat \<Rightarrow> http_request \<Rightarrow> go_err + http_response"
  \<comment> \<open>the formatter, \<open>fmt.Sprintf\<close> with \<open>%.2f\<close>, and the service of subscriptions and saved cards\<close>
  x_format_currency :: "float64 \<Rightarrow> string \<Rightarrow> go_err option \<times> string"
  x_format_datetime :: "int \<Rightarrow> go_err + string"
  x_receipt_model :: "order_receipt \<Rightarrow> go_err + (string \<times> string) list"
  x_sprintf_2f :: "float64 \<Rightarrow> string"
  x_get_subscription :: "nat \<Rightarrow> string \<Rightarrow> go_err + (rsp_status \<times> string \<times> subscription option)"
  x_update_subscription :: "nat \<Rightarrow> subscription \<Rightarrow> go_err + rsp_status"
  x_find_subscriptions :: "nat \<Rightarrow> string \<Rightarrow> string \<Rightarrow> go_err + nat"
  \<comment> \<open>whether \<open>copier.Copy\<close> lets the copy of an order share what its pointers point to\<close>
  x_copy_shares :: bool
  x_merchant_payout_currency :: "merchant \<Rightarrow> string"
  x_merchant_has_authorized_email :: "merchant \<Rightarrow> bool"
  x_country_vat_currency_code :: "country \<Rightarrow> string"
  x_rr_status_name :: "rr_status \<Rightarrow> string"
  x_report_changes_available :: "royalty_report \<Rightarrow> rr_status \<Rightarrow> bool"
  x_merchant_owner_name :: "merchant \<Rightarrow> string"
  x_merchant_owner_email :: "merchant \<Rightarrow> string"
  \<comment> \<open>jinzhu/now: the Monday of the week of an instant, the beginning and the end of its day, month and quarter\<close>
  x_monday :: "gotime \<Rightarrow> gotime"
  x_beginning_of_day :: "gotime \<Rightarrow> gotime"
  x_end_of_day :: "gotime \<Rightarrow> gotime"
  x_month :: "gotime \<Rightarrow> int"
  x_add_days :: "gotime \<Rightarrow> int \<Rightarrow> gotime"
  x_beginning_of_month :: "gotime \<Rightarrow> gotime"
  x_end_of_month :: "gotime \<Rightarrow> gotime"
  x_beginning_of_quarter :: "gotime \<Rightarrow> gotime"
  x_end_of_quarter :: "gotime \<Rightarrow> gotime"
  \<comment> \<open>\<open>Time.Format\<close> with a layout\<close>
  x_format_time :: "string \<Rightarrow> gotime \<Rightarrow> string"
  \<comment> \<open>the environment's configuration (internal/config)\<close>
  x_empty_key_template :: string
  x_minimal_key_template :: string
  x_dashboard_url :: string
  x_merchant_channel :: "string \<Rightarrow> string"
  x_order_channel :: "string \<Rightarrow> string"
  x_checkout_url :: string
  x_order_view_batch :: int
  x_royalty_report_period :: int
  x_royalty_report_accept_timeout :: int
  x_email_template :: "string \<Rightarrow> string"
  x_config_url :: "string \<Rightarrow> string"
  x_financier_email :: string
  \<comment> \<open>accessors and constants of billingpb for checkout\<close>
  x_project_is_deleted :: "project \<Rightarrow> bool"
  x_project_is_production :: "project \<Rightarrow> bool"
  x_project_has_limits :: "project \<Rightarrow> bool"
  x_merchant_is_deleted :: "merchant \<Rightarrow> bool"
  x_merchant_has_tariff :: "merchant \<Rightarrow> bool"
  x_merchant_is_high_risk :: "merchant \<Rightarrow> bool"
  x_merchant_status_suspend :: int
  x_country_restrictions :: "country \<Rightarrow> bool \<Rightarrow> bool \<times> bool"
  x_user_country :: "order_user \<Rightarrow> string"
  x_user_has_address :: "order_user \<Rightarrow> bool"
  x_order_declined_by_country :: "order \<Rightarrow> bool"
  x_order_country_change_allowed :: "order \<Rightarrow> bool"
  x_form_data_change :: "order \<Rightarrow> opaque"
  x_no_price_error :: go_err
  x_virtual_price_group :: string
  x_product_price :: "product \<Rightarrow> price_group \<Rightarrow> go_err + float64"
  x_product_name :: "product \<Rightarrow> string \<Rightarrow> go_err + string"
  x_product_description :: "product \<Rightarrow> string \<Rightarrow> go_err + string"
  x_key_price :: "key_product \<Rightarrow> price_group \<Rightarrow> string \<Rightarrow> go_err + float64"
  x_key_name :: "key_product \<Rightarrow> string \<Rightarrow> go_err + string"
  x_key_description :: "key_product \<Rightarrow> string \<Rightarrow> go_err + string"
  x_setting_complete :: "pm_params \<Rightarrow> bool"
  x_method_has_limits :: "payment_method \<Rightarrow> bool"
  x_method_is_bank_card :: "payment_method \<Rightarrow> bool"
  x_form_method_is_bank_card :: "form_method \<Rightarrow> bool"
  \<comment> \<open>the services of addresses, taxes, currencies, saved cards, subscriptions and of the merchant's own checks\<close>
  x_geo_ip :: "nat \<Rightarrow> string \<Rightarrow> go_err + geo_data"
  x_tax_rate :: "nat \<Rightarrow> string \<Rightarrow> string \<Rightarrow> go_err + float64"
  x_price_currencies :: "nat \<Rightarrow> go_err + string list"
  x_supported_currencies :: "string list"
  x_currency_precision :: "string \<rightharpoonup> int"
  x_to_fixed :: "float64 \<Rightarrow> int \<Rightarrow> float64"
  x_saved_cards :: "nat \<Rightarrow> string \<Rightarrow> go_err + stored_card list"
  x_saved_card_by_id :: "nat \<Rightarrow> string \<Rightarrow> go_err + stored_card option"
  x_add_subscription :: "nat \<Rightarrow> subscription \<Rightarrow> go_err + (rsp_status \<times> string)"
  x_check_user :: "nat \<Rightarrow> order \<Rightarrow> go_err + rsp_status"
  \<comment> \<open>cookies (RSA and JSON), tokens of customers, \<open>net.ParseIP\<close>, \<open>url.Parse\<close>, \<open>net.SplitHostPort\<close>, regexp, phone numbers, masked numbers\<close>
  x_cookie_decrypt :: "string \<Rightarrow> go_err + browser_customer"
  x_cookie_encrypt :: "nat \<Rightarrow> browser_customer \<Rightarrow> go_err + string"
  x_token_string :: "nat \<Rightarrow> string"
  x_token_expired :: "nat \<Rightarrow> string \<Rightarrow> bool"
  x_parse_ip :: "string \<Rightarrow> opaque"
  x_url_host :: "string \<Rightarrow> go_err + string"
  x_split_host_port :: "string \<Rightarrow> go_err + string"
  x_regexp_match :: "string \<Rightarrow> string \<Rightarrow> go_err + bool"
  x_phone_country_code :: "string \<Rightarrow> string \<Rightarrow> go_err + int option"
  x_mask_card_number :: "string \<Rightarrow> string"
  x_channel_token :: "string \<Rightarrow> int \<Rightarrow> string"
  x_add_year :: "gotime \<Rightarrow> gotime"
  x_year :: "gotime \<Rightarrow> int"
  x_cardpay_api_url :: string
  x_cardpay_sandbox_url :: string

section \<open>The state of the service\<close>

datatype cached = CachedReport royalty_report | CachedPayout payout | CachedBalance merchant_balance
  | CachedPccm pccm | CachedPccmSets "(string \<times> pccm list) list"
  | CachedPccs pccs
  | CachedMbcm mbcm | CachedMbcmSets "(string \<times> mbcm list) list"
  | CachedMbcs mbcs | CachedMbcsSets "(string \<times> mbcs list) list"
  | CachedPaymentMethod payment_method | CachedPaymentMethods "payment_method list"

text \<open>Messages handed to the brokers and to the reporting service.\<close>

datatype sent = SentEmail string string "(string \<times> string) list"
  | SentCentrifugo string string
  | SentReportFile string string
  | SentPaylinkStat string string
  | SentHttp http_request
  | SentPostmark mail_payload
  | SentMerchantNotification order
  | SentSubscription subscription
  | SentSavedCard saved_card
  | SentPaylinkError string string

record world =
  w_tick :: nat
  w_keys :: "mgo_key list"
  w_key_products :: "key_product list"
  w_projects :: "project list"
  w_merchants :: "merchant list"
  w_countries :: "country list"
  w_payment_systems :: "payment_system list"
  w_price_groups :: "price_group list"
  w_operating_companies :: "operating_company list"
  w_pccm :: "mgo_pccm list"
  w_pccs :: "mgo_pccs list"
  w_mbcm :: "mgo_mbcm list"
  w_mbcs :: "mgo_mbcs list"
  w_orders :: "mgo_order list"
  w_order_views :: "mgo_order_view list"
  w_accounting :: "mgo_accounting_entry list"
  w_refunds :: "mgo_refund list"
  w_balances :: "mgo_merchant_balance list"
  w_reports :: "mgo_royalty_report list"
  w_report_changes :: "mgo_change list"
  w_payouts :: "mgo_payout list"
  w_payout_changes :: "mgo_change list"
  w_cache :: "string \<rightharpoonup> cached"
  w_redis :: "string \<rightharpoonup> int"
  w_autoincrement :: int
  w_tokens :: "string \<rightharpoonup> card_token"
  w_token_lock :: bool
  w_sent :: "sent list"
  w_products :: "product list"
  w_payment_methods :: "mgo_payment_method list"
  w_min_limits :: "payment_min_limit list"
  w_zip_codes :: "zip_code list"
  w_bins :: "bin_data list"
  w_customers :: "mgo_customer list"
  w_customer_tokens :: "string \<rightharpoonup> customer_token"

definition empty_world :: world where
  "empty_world = \<lparr>w_tick = 0, w_keys = [], w_key_products = [], w_projects = [], w_merchants = [],
     w_countries = [], w_payment_systems = [], w_price_groups = [], w_operating_companies = [], w_pccm = [], w_pccs = [],
     w_mbcm = [], w_mbcs = [], w_orders = [], w_order_views = [], w_accounting = [], w_refunds = [], w_balances = [],
     w_reports = [], w_report_changes = [], w_payouts = [], w_payout_changes = [],
     w_cache = Map.empty, w_redis = Map.empty, w_autoincrement = 0, w_tokens = Map.empty, w_token_lock = False, w_sent = [],
     w_products = [], w_payment_methods = [], w_min_limits = [], w_zip_codes = [], w_bins = [], w_customers = [],
     w_customer_tokens = Map.empty\<rparr>"

type_synonym 'a io = "(world, 'a) go"

section \<open>Calls that leave the process\<close>

text \<open>\<open>reading f\<close> asks a clock or a generator; \<open>calling\<close> is a call that may fail.\<close>

definition reading :: "(nat \<Rightarrow> 'a) \<Rightarrow> 'a io" where
  "reading f = (\<lambda>s. (Inr (f (w_tick s)), s\<lparr>w_tick := Suc (w_tick s)\<rparr>))"

definition rpc :: "(nat \<Rightarrow> go_err + 'a) \<Rightarrow> 'a io" where
  "rpc f = (\<lambda>s. (f (w_tick s), s\<lparr>w_tick := Suc (w_tick s)\<rparr>))"

definition calling :: "ext \<Rightarrow> unit io" where
  "calling X = rpc (\<lambda>n. case x_fault X n of None \<Rightarrow> Inr () | Some e \<Rightarrow> Inl e)"

definition send :: "ext \<Rightarrow> sent \<Rightarrow> unit io" where
  "send X m = bind (calling X) (\<lambda>_. modify (w_sent_update (\<lambda>ms. ms @ [m])))"

definition new_oid :: "ext \<Rightarrow> oid io" where "new_oid X = reading (x_new_oid X)"

definition time_now :: "ext \<Rightarrow> gotime io" where "time_now X = reading (x_now X)"

definition timestamp_now :: "ext \<Rightarrow> timestamp io" where "timestamp_now X = reading (x_ts_now X)"

lemma wp_reading [simp]: "wp (reading f) Q s = Q (Inr (f (w_tick s))) (s\<lparr>w_tick := Suc (w_tick s)\<rparr>)"
  by (simp add: wp_def reading_def)

lemma wp_rpc [simp]: "wp (rpc f) Q s = Q (f (w_tick s)) (s\<lparr>w_tick := Suc (w_tick s)\<rparr>)"
  by (simp add: wp_def rpc_def)

lemma wp_calling [simp]:
  "wp (calling X) Q s =
     Q (case x_fault X (w_tick s) of None \<Rightarrow> Inr () | Some e \<Rightarrow> Inl e) (s\<lparr>w_tick := Suc (w_tick s)\<rparr>)"
  by (simp add: calling_def)

lemma run_reading [simp]: "reading f s = (Inr (f (w_tick s)), s\<lparr>w_tick := Suc (w_tick s)\<rparr>)"
  by (simp add: reading_def)

lemma run_rpc [simp]: "rpc f s = (f (w_tick s), s\<lparr>w_tick := Suc (w_tick s)\<rparr>)"
  by (simp add: rpc_def)

lemmas clock_defs = new_oid_def time_now_def timestamp_now_def

text \<open>
  A call, a clock reading and a sent message keep every invariant that does not depend on
  the tick or the outbox.
\<close>

definition tick_stable :: "(world \<Rightarrow> bool) \<Rightarrow> bool" where
  "tick_stable I \<longleftrightarrow> (\<forall>s n. I s \<longrightarrow> I (s\<lparr>w_tick := n\<rparr>))"

definition sent_stable :: "(world \<Rightarrow> bool) \<Rightarrow> bool" where
  "sent_stable I \<longleftrightarrow> tick_stable I \<and> (\<forall>s f. I s \<longrightarrow> I (w_sent_update f s))"

lemma tick_stableD: "tick_stable I \<Longrightarrow> I s \<Longrightarrow> I (s\<lparr>w_tick := n\<rparr>)"
  by (simp add: tick_stable_def)

lemma keeps_external [keeps_intros]:
  "tick_stable I \<Longrightarrow> keeps I (reading f)"
  "tick_stable I \<Longrightarrow> keeps I (rpc g)"
  "tick_stable I \<Longrightarrow> keeps I (calling X)"
  by (simp_all add: keeps_def tick_stable_def calling_def)

lemma keeps_clocks [keeps_intros]:
  "tick_stable I \<Longrightarrow> keeps I (new_oid X)"
  "tick_stable I \<Longrightarrow> keeps I (time_now X)"
  "tick_stable I \<Longrightarrow> keeps I (timestamp_now X)"
  by (simp_all add: clock_defs keeps_external)

lemma keeps_send [keeps_intros]: "sent_stable I \<Longrightarrow> keeps I (send X m)"
  unfolding send_def
  by (intro keeps_bind keeps_modify keeps_external) (auto simp: sent_stable_def)

section \<open>Panics\<close>

text \<open>A nil pointer that is dereferenced: a run-time panic, which is not an error value of the code.\<close>

definition go_panic :: go_err where
  "go_panic = ErrOther ''runtime error: invalid memory address or nil pointer dereference''"

text \<open>
  A panic, and a loop that does not end, are not errors a caller can inspect: where the code looks
  at an error value, they pass through.
\<close>

definition go_hangs :: go_err where "go_hangs = ErrOther ''the loop does not end''"

definition try_go :: "'a io \<Rightarrow> (go_err + 'a) io" where
  "try_go m = bind (attempt m) (\<lambda>r. case r of
     Inl e \<Rightarrow> if e \<in> {go_panic, go_hangs} then throw e else ret r
   | Inr _ \<Rightarrow> ret r)"

lemma wp_try_go [simp]:
  "wp (try_go m) Q s = wp m (\<lambda>r. case r of
     Inl e \<Rightarrow> if e \<in> {go_panic, go_hangs} then Q (Inl e) else Q (Inr r) | Inr _ \<Rightarrow> Q (Inr r)) s"
  by (cases "m s") (simp add: wp_def try_go_def go_defs split: sum.split)

text \<open>Dereferencing a pointer that may be nil.\<close>

definition deref :: "'a option \<Rightarrow> 'a io" where
  "deref p = (case p of None \<Rightarrow> throw go_panic | Some a \<Rightarrow> ret a)"

lemma deref_Some [simp]: "deref (Some a) = ret a"
  by (simp add: deref_def)

lemma wp_deref [simp]: "wp (deref p) Q s = Q (case p of None \<Rightarrow> Inl go_panic | Some a \<Rightarrow> Inr a) s"
  by (simp add: deref_def split: option.split)

section \<open>Timestamps of the protobuf messages\<close>

text \<open>
  The two idioms of the mappers: an optional timestamp that stays the zero time when it is
  nil, and one that becomes the current time.
\<close>

definition time_or_zero :: "ext \<Rightarrow> timestamp option \<Rightarrow> gotime io" where
  "time_or_zero X t = (case t of None \<Rightarrow> ret time_zero | Some _ \<Rightarrow> lift (x_timestamp X t))"

definition time_or_now :: "ext \<Rightarrow> timestamp option \<Rightarrow> gotime io" where
  "time_or_now X t = (case t of None \<Rightarrow> time_now X | Some _ \<Rightarrow> lift (x_timestamp X t))"

definition oid_or_new :: "ext \<Rightarrow> string \<Rightarrow> oid io" where
  "oid_or_new X i = (if i = [] then new_oid X else lift (x_oid_from_hex X i))"

text \<open>Where the error of the decoder is dropped, the zero ObjectID is used.\<close>

definition oid_or_nil :: "ext \<Rightarrow> string \<Rightarrow> oid" where
  "oid_or_nil X i = (case x_oid_from_hex X i of Inl _ \<Rightarrow> nil_oid | Inr d \<Rightarrow> d)"

text \<open>Some mappers answer an invalid id with an error of their own.\<close>

definition ErrorInvalidObjectId :: go_err where "ErrorInvalidObjectId = ErrOther ''invalid bson object id''"

definition invalid_id :: "go_err + 'a \<Rightarrow> go_err + 'a" where
  "invalid_id r = (case r of Inl _ \<Rightarrow> Inl ErrorInvalidObjectId | Inr a \<Rightarrow> Inr a)"

text \<open>
  An id or a timestamp that the external codecs carry back and forth unchanged; the
  canonical form of a message is the one whose ids and timestamps are of this kind.
\<close>

definition canon_id :: "ext \<Rightarrow> string \<Rightarrow> bool" where
  "canon_id X i = (i \<noteq> [] \<and> (case x_oid_from_hex X i of Inl _ \<Rightarrow> False | Inr d \<Rightarrow> x_oid_hex X d = i))"

definition canon_ts :: "ext \<Rightarrow> timestamp option \<Rightarrow> bool" where
  "canon_ts X t = (t \<noteq> None \<and> (case x_timestamp X t of Inl _ \<Rightarrow> False
     | Inr m \<Rightarrow> (case x_timestamp_proto X m of Inl _ \<Rightarrow> False | Inr t' \<Rightarrow> t = Some t')))"

text \<open>
  What the documentation of the codecs promises: an ObjectID is read back from its own hex
  form, and an instant of the years 1 to 9999 converts to a timestamp and back.
\<close>

definition ts_valid :: "gotime \<Rightarrow> bool" where
  "ts_valid t \<longleftrightarrow> time_zero \<le> t \<and> t < 253402300800 * 1000000000"

definition codecs_ok :: "ext \<Rightarrow> bool" where
  "codecs_ok X \<longleftrightarrow> (\<forall>d. x_oid_from_hex X (x_oid_hex X d) = Inr d \<and> x_oid_hex X d \<noteq> []) \<and>
     (\<forall>t. ts_valid t \<longrightarrow> (\<exists>ts. x_timestamp_proto X t = Inr ts \<and> x_timestamp X (Some ts) = Inr t))"

lemma codecs_hex: "codecs_ok X \<Longrightarrow> x_oid_from_hex X (x_oid_hex X d) = Inr d" "codecs_ok X \<Longrightarrow> x_oid_hex X d \<noteq> []"
  by (simp_all add: codecs_ok_def)

lemma codecs_ts: "codecs_ok X \<Longrightarrow> ts_valid t \<Longrightarrow> \<exists>ts. x_timestamp_proto X t = Inr ts"
  by (auto simp: codecs_ok_def)

lemma ts_valid_zero [simp]: "ts_valid time_zero"
  by (simp add: ts_valid_def time_zero_def)

lemma canon_idE:
  assumes "canon_id X i"
  obtains d where "x_oid_from_hex X i = Inr d" and "x_oid_hex X d = i" and "i \<noteq> []"
  using assms by (auto simp: canon_id_def split: sum.splits)

lemma canon_tsE:
  assumes "canon_ts X t"
  obtains m t' where "t = Some t'" and "x_timestamp X t = Inr m" and "x_timestamp_proto X m = Inr t'"
  using assms by (auto simp: canon_ts_def split: sum.splits)

lemma canon_id_run:
  "canon_id X i \<Longrightarrow> \<exists>d. x_oid_from_hex X i = Inr d \<and> oid_or_new X i = ret d \<and> x_oid_hex X d = i \<and> i \<noteq> []"
  by (erule canon_idE) (auto simp: oid_or_new_def go_defs)

lemma canon_ts_run:
  "canon_ts X t \<Longrightarrow> \<exists>m t'. t = Some t' \<and> x_timestamp X t = Inr m \<and> x_timestamp_proto X m = Inr t' \<and>
     time_or_zero X t = ret m \<and> time_or_now X t = ret m"
  by (erule canon_tsE) (auto simp: time_or_zero_def time_or_now_def go_defs)

lemma lift_Inr [simp]: "lift (Inr a) = ret a"
  by (simp add: go_defs)

lemma lift_Inl [simp]: "lift (Inl e) = throw e"
  by (simp add: go_defs)

lemma bind_ret [simp]: "bind (ret a) f = f a"
  by (simp add: go_defs)

lemma bind_throw [simp]: "bind (throw e) f = throw e"
  by (simp add: go_defs)

end
