(* ===== verification/Store.thy ===== *)
theory Store
  imports World
begin

text \<open>
  Collections. A collection is the list of its documents in natural order; a query is the
  predicate its filter denotes. \<open>find_one\<close> and \<open>find_one_and_update\<close> take the first match,
  \<open>insert_one\<close> refuses a duplicate \<open>_id\<close>, every operation may fail before it has an
  effect. The locale \<open>collection\<close> is what the repositories rely on (a field of the state
  that is read and written independently of the tick), \<open>mapper\<close> is the contract of
  internal/repository/models (the message comes back unchanged), and \<open>repository\<close> combines
  them: what a lookup returns after an insert or an update.
\<close>

section \<open>Operations of the driver\<close>

definition find_one :: "ext \<Rightarrow> (world \<Rightarrow> 'd list) \<Rightarrow> ('d \<Rightarrow> bool) \<Rightarrow> 'd io" where
  "find_one X get p = bind (calling X) (\<lambda>_. bind (gets get) (\<lambda>ds.
     case find p ds of None \<Rightarrow> throw ErrNoDocuments | Some d \<Rightarrow> ret d))"

definition find_all :: "ext \<Rightarrow> (world \<Rightarrow> 'd list) \<Rightarrow> ('d \<Rightarrow> bool) \<Rightarrow> 'd list io" where
  "find_all X get p = bind (calling X) (\<lambda>_. bind (gets get) (\<lambda>ds. ret (filter p ds)))"

definition count_documents :: "ext \<Rightarrow> (world \<Rightarrow> 'd list) \<Rightarrow> ('d \<Rightarrow> bool) \<Rightarrow> int io" where
  "count_documents X get p = bind (find_all X get p) (\<lambda>ds. ret (int (length ds)))"

definition duplicate_key :: go_err where "duplicate_key = ErrOther ''duplicate key''"

definition insert_one ::
  "ext \<Rightarrow> (world \<Rightarrow> 'd list) \<Rightarrow> (('d list \<Rightarrow> 'd list) \<Rightarrow> world \<Rightarrow> world) \<Rightarrow> ('d \<Rightarrow> oid) \<Rightarrow> 'd \<Rightarrow> unit io" where
  "insert_one X get upd idf d = bind (calling X) (\<lambda>_. bind (gets get) (\<lambda>ds.
     if \<exists>x\<in>set ds. idf x = idf d then throw duplicate_key else modify (upd (\<lambda>xs. xs @ [d]))))"

definition replace_one ::
  "ext \<Rightarrow> (('d list \<Rightarrow> 'd list) \<Rightarrow> world \<Rightarrow> world) \<Rightarrow> ('d \<Rightarrow> bool) \<Rightarrow> 'd \<Rightarrow> unit io" where
  "replace_one X upd p d = bind (calling X) (\<lambda>_. modify (upd (replace_first p d)))"

text \<open>\<open>ReplaceOne\<close> with \<open>upsert\<close>.\<close>

definition upsert :: "('d \<Rightarrow> bool) \<Rightarrow> 'd \<Rightarrow> 'd list \<Rightarrow> 'd list" where
  "upsert p d xs = (if \<exists>x\<in>set xs. p x then replace_first p d xs else xs @ [d])"

definition upsert_one ::
  "ext \<Rightarrow> (('d list \<Rightarrow> 'd list) \<Rightarrow> world \<Rightarrow> world) \<Rightarrow> ('d \<Rightarrow> bool) \<Rightarrow> 'd \<Rightarrow> unit io" where
  "upsert_one X upd p d = bind (calling X) (\<lambda>_. modify (upd (upsert p d)))"

lemma find_upsert: "p d \<Longrightarrow> find p (upsert p d xs) = Some d"
  by (auto simp: upsert_def find_append find_None_iff intro!: find_replace_first split: option.split)
     (metis find_None_iff option.distinct(1))

lemma find_upsert_other:
  assumes "\<And>x. p x \<Longrightarrow> \<not> q x" and "\<not> q d" shows "find q (upsert p d xs) = find q xs"
  using assms find_replace_first_other[of q d p xs] by (auto simp: upsert_def find_append split: option.split)

definition find_one_and_update ::
  "ext \<Rightarrow> (world \<Rightarrow> 'd list) \<Rightarrow> (('d list \<Rightarrow> 'd list) \<Rightarrow> world \<Rightarrow> world) \<Rightarrow> ('d \<Rightarrow> bool) \<Rightarrow> ('d \<Rightarrow> 'd) \<Rightarrow> 'd io" where
  "find_one_and_update X get upd p f = bind (find_one X get p) (\<lambda>d.
     bind (modify (upd (replace_first p (f d)))) (\<lambda>_. ret (f d)))"

definition delete_many ::
  "ext \<Rightarrow> (('d list \<Rightarrow> 'd list) \<Rightarrow> world \<Rightarrow> world) \<Rightarrow> ('d \<Rightarrow> bool) \<Rightarrow> unit io" where
  "delete_many X upd p = bind (calling X) (\<lambda>_. modify (upd (filter (\<lambda>d. \<not> p d))))"

text \<open>
  The three repository methods that every collection has: encode and insert, encode and
  replace by id, look up by id and decode.
\<close>

definition repo_get :: "ext \<Rightarrow> (world \<Rightarrow> 'm list) \<Rightarrow> ('m \<Rightarrow> oid) \<Rightarrow> ('m \<Rightarrow> go_err + 'a) \<Rightarrow> string \<Rightarrow> 'a io" where
  "repo_get X get idf from_mgo i = bind (lift (x_oid_from_hex X i)) (\<lambda>d.
     bind (find_one X get (\<lambda>m. idf m = d)) (\<lambda>m. lift (from_mgo m)))"

definition repo_insert ::
  "ext \<Rightarrow> (world \<Rightarrow> 'm list) \<Rightarrow> (('m list \<Rightarrow> 'm list) \<Rightarrow> world \<Rightarrow> world) \<Rightarrow> ('m \<Rightarrow> oid) \<Rightarrow> ('a \<Rightarrow> 'm io) \<Rightarrow> 'a \<Rightarrow> unit io" where
  "repo_insert X get upd idf to_mgo a = bind (to_mgo a) (\<lambda>m. insert_one X get upd idf m)"

definition repo_update ::
  "ext \<Rightarrow> (('m list \<Rightarrow> 'm list) \<Rightarrow> world \<Rightarrow> world) \<Rightarrow> ('m \<Rightarrow> oid) \<Rightarrow> ('a \<Rightarrow> string) \<Rightarrow> ('a \<Rightarrow> 'm io) \<Rightarrow> 'a \<Rightarrow> unit io" where
  "repo_update X upd idf ident to_mgo a = bind (lift (x_oid_from_hex X (ident a))) (\<lambda>d.
     bind (to_mgo a) (\<lambda>m. replace_one X upd (\<lambda>x. idf x = d) m))"

section \<open>The interface of a collection\<close>

locale collection =
  fixes get :: "world \<Rightarrow> 'd list"
    and upd :: "('d list \<Rightarrow> 'd list) \<Rightarrow> world \<Rightarrow> world"
    and idf :: "'d \<Rightarrow> oid"
  assumes get_upd: "get (upd f s) = f (get s)"
    and get_tick: "get (s\<lparr>w_tick := n\<rparr>) = get s"
    and tick_upd: "w_tick (upd f s) = w_tick s"
begin

definition ids_unique :: "world \<Rightarrow> bool" where
  "ids_unique s \<longleftrightarrow> distinct (map idf (get s))"

lemma ids_unique_tick: "tick_stable ids_unique"
  by (simp add: tick_stable_def ids_unique_def get_tick)

lemma keeps_find_one: "tick_stable I \<Longrightarrow> keeps I (find_one X get p)"
  unfolding find_one_def by (intro keeps_intros) auto

lemma keeps_find_all: "tick_stable I \<Longrightarrow> keeps I (find_all X get p)"
  unfolding find_all_def by (intro keeps_intros) auto

lemma wp_find_one:
  "wp (find_one X get p) Q s =
     (case x_fault X (w_tick s) of Some e \<Rightarrow> Q (Inl e) (s\<lparr>w_tick := Suc (w_tick s)\<rparr>)
      | None \<Rightarrow> Q (case find p (get s) of None \<Rightarrow> Inl ErrNoDocuments | Some d \<Rightarrow> Inr d)
                 (s\<lparr>w_tick := Suc (w_tick s)\<rparr>))"
  by (simp add: find_one_def get_tick split: option.splits)

lemma wp_find_all:
  "wp (find_all X get p) Q s =
     (case x_fault X (w_tick s) of Some e \<Rightarrow> Q (Inl e) (s\<lparr>w_tick := Suc (w_tick s)\<rparr>)
      | None \<Rightarrow> Q (Inr (filter p (get s))) (s\<lparr>w_tick := Suc (w_tick s)\<rparr>))"
  by (simp add: find_all_def get_tick split: option.splits)

lemma wp_insert_one:
  "wp (insert_one X get upd idf d) Q s =
     (case x_fault X (w_tick s) of Some e \<Rightarrow> Q (Inl e) (s\<lparr>w_tick := Suc (w_tick s)\<rparr>)
      | None \<Rightarrow> if idf d \<in> idf ` set (get s) then Q (Inl duplicate_key) (s\<lparr>w_tick := Suc (w_tick s)\<rparr>)
                else Q (Inr ()) (upd (\<lambda>xs. xs @ [d]) (s\<lparr>w_tick := Suc (w_tick s)\<rparr>)))"
  by (auto simp: insert_one_def get_tick split: option.splits) (metis imageI)+

lemma wp_replace_one:
  "wp (replace_one X upd p d) Q s =
     (case x_fault X (w_tick s) of Some e \<Rightarrow> Q (Inl e) (s\<lparr>w_tick := Suc (w_tick s)\<rparr>)
      | None \<Rightarrow> Q (Inr ()) (upd (replace_first p d) (s\<lparr>w_tick := Suc (w_tick s)\<rparr>)))"
  by (simp add: replace_one_def split: option.splits)

lemma wp_find_one_and_update:
  "wp (find_one_and_update X get upd p f) Q s =
     (case x_fault X (w_tick s) of Some e \<Rightarrow> Q (Inl e) (s\<lparr>w_tick := Suc (w_tick s)\<rparr>)
      | None \<Rightarrow> (case find p (get s) of
          None \<Rightarrow> Q (Inl ErrNoDocuments) (s\<lparr>w_tick := Suc (w_tick s)\<rparr>)
        | Some d \<Rightarrow> Q (Inr (f d)) (upd (replace_first p (f d)) (s\<lparr>w_tick := Suc (w_tick s)\<rparr>))))"
  by (simp add: find_one_and_update_def wp_find_one split: option.splits)

text \<open>Ids stay unique under every operation that keeps the id of what it rewrites.\<close>

lemma map_idf_replace_first:
  "(\<And>x. p x \<Longrightarrow> idf x = idf d) \<Longrightarrow> map idf (replace_first p d xs) = map idf xs"
  by (induction xs) auto

lemma keeps_insert_one: "keeps ids_unique (insert_one X get upd idf d)"
  by (auto simp: keeps_wp wp_insert_one ids_unique_def get_upd get_tick image_iff split: option.splits)

lemma keeps_replace_one: "(\<And>x. p x \<Longrightarrow> idf x = idf d) \<Longrightarrow> keeps ids_unique (replace_one X upd p d)"
  by (auto simp: keeps_wp wp_replace_one ids_unique_def get_upd get_tick map_idf_replace_first
      split: option.splits)

lemma replace_first_update_ids:
  "find p xs = Some d \<Longrightarrow> idf (f d) = idf d \<Longrightarrow> map idf (replace_first p (f d) xs) = map idf xs"
  by (induction xs) (auto split: if_splits)

lemma keeps_find_one_and_update:
  "(\<And>d. idf (f d) = idf d) \<Longrightarrow> keeps ids_unique (find_one_and_update X get upd p f)"
  by (auto simp: keeps_wp wp_find_one_and_update ids_unique_def get_upd get_tick
      replace_first_update_ids split: option.splits)

end

lemmas collection_wps = collection.wp_find_one collection.wp_find_all collection.wp_insert_one
  collection.wp_replace_one collection.wp_find_one_and_update

section \<open>The interface of a mapper\<close>

text \<open>
  \<open>canon\<close> describes the messages that survive the trip (their ids are in the codec's
  canonical form, their timestamps convertible); for those the mapper is pure, keeps the id
  and is inverted by the decoder.
\<close>

locale mapper =
  fixes X :: ext
    and to_mgo :: "'a \<Rightarrow> 'm io"
    and from_mgo :: "'m \<Rightarrow> go_err + 'a"
    and canon :: "'a \<Rightarrow> bool"
    and ident :: "'a \<Rightarrow> string"
    and idf :: "'m \<Rightarrow> oid"
  assumes roundtrip: "canon a \<Longrightarrow> \<exists>m. to_mgo a = ret m \<and> from_mgo m = Inr a \<and>
            x_oid_from_hex X (ident a) = Inr (idf m)"
begin

lemma encodeE:
  assumes "canon a"
  obtains m where "to_mgo a = ret m" and "from_mgo m = Inr a" and "x_oid_from_hex X (ident a) = Inr (idf m)"
  using roundtrip[OF assms] by blast

end

section \<open>A repository: a collection with a mapper\<close>

locale repository = collection get upd idf + mapper X to_mgo from_mgo canon ident idf
  for get :: "world \<Rightarrow> 'm list"
    and upd :: "('m list \<Rightarrow> 'm list) \<Rightarrow> world \<Rightarrow> world"
    and idf :: "'m \<Rightarrow> oid"
    and X :: ext
    and to_mgo :: "'a \<Rightarrow> 'm io"
    and from_mgo :: "'m \<Rightarrow> go_err + 'a"
    and canon :: "'a \<Rightarrow> bool"
    and ident :: "'a \<Rightarrow> string"
begin

text \<open>What is inserted is found under its id, and what is replaced is found in its new form.\<close>

lemma get_after_insert:
  assumes a: "canon a" and ins: "repo_insert X get upd idf to_mgo a s = (Inr (), s')"
    and ok: "x_fault X (w_tick s') = None"
  shows "fst (repo_get X get idf from_mgo (ident a) s') = Inr a"
proof -
  obtain m where m: "to_mgo a = ret m" "from_mgo m = Inr a" "x_oid_from_hex X (ident a) = Inr (idf m)"
    using a by (rule encodeE)
  let ?t = "s\<lparr>w_tick := Suc (w_tick s)\<rparr>"
  have "wp (insert_one X get upd idf m) (\<lambda>r t. r = Inr () \<longrightarrow>
      t = upd (\<lambda>xs. xs @ [m]) ?t \<and> idf m \<notin> idf ` set (get s)) s"
    by (auto simp: wp_insert_one split: option.splits)
  then have s': "s' = upd (\<lambda>xs. xs @ [m]) ?t" and new: "idf m \<notin> idf ` set (get s)"
    using ins m(1) by (auto simp: repo_insert_def wp_def)
  have "find (\<lambda>x. idf x = idf m) (get s) = None"
    using new unfolding find_None_iff by (metis imageI)
  then have f: "find (\<lambda>x. idf x = idf m) (get s') = Some m"
    by (simp add: s' get_upd get_tick find_append)
  have "wp (repo_get X get idf from_mgo (ident a)) (\<lambda>r _. r = Inr a) s'"
    using ok by (simp add: repo_get_def m wp_find_one f)
  then show ?thesis by (simp add: wp_def case_prod_beta)
qed

lemma get_after_update:
  assumes a: "canon a" and up: "repo_update X upd idf ident to_mgo a s = (Inr (), s')"
    and ex: "x_oid_from_hex X (ident a) = Inr d" "d \<in> idf ` set (get s)"
    and ok: "x_fault X (w_tick s') = None"
  shows "fst (repo_get X get idf from_mgo (ident a) s') = Inr a"
proof -
  obtain m where m: "to_mgo a = ret m" "from_mgo m = Inr a" "x_oid_from_hex X (ident a) = Inr (idf m)"
    using a by (rule encodeE)
  have d: "d = idf m" using m(3) ex(1) by simp
  have "wp (replace_one X upd (\<lambda>x. idf x = d) m) (\<lambda>r t. r = Inr () \<longrightarrow>
      get t = replace_first (\<lambda>x. idf x = d) m (get s)) s"
    by (auto simp: wp_replace_one get_upd get_tick split: option.splits)
  then have s': "get s' = replace_first (\<lambda>x. idf x = d) m (get s)"
    using up m ex(1) by (simp add: repo_update_def wp_def)
  have "find (\<lambda>x. idf x = d) (get s) \<noteq> None"
    using ex(2) by (auto simp: find_None_iff)
  then have f: "find (\<lambda>x. idf x = idf m) (get s') = Some m"
    unfolding s' using find_replace_first[of "\<lambda>x. idf x = d" m "get s"] d by simp
  have "wp (repo_get X get idf from_mgo (ident a)) (\<lambda>r _. r = Inr a) s'"
    using ok by (simp add: repo_get_def m wp_find_one f)
  then show ?thesis by (simp add: wp_def case_prod_beta)
qed

end

end
