(* ===== verification/OrderMapper.thy ===== *)
theory OrderMapper
  imports Store
begin

text \<open>
  Orders in the database: the mapper of internal/repository/models/order.go (with the helpers of
  common.go). Some fields are computed while an order is stored: the public status, the flags for a
  cancelled and a refunded order, the contact data and the country.
\<close>

section \<open>Items and payment methods\<close>

definition item_to_mgo :: "ext \<Rightarrow> order_item \<Rightarrow> mgo_order_item io" where
  "item_to_mgo X v =
     bind (if oi_Id v = [] then new_oid X else lift (invalid_id (x_oid_from_hex X (oi_Id v)))) (\<lambda>oid.
     bind (lift (x_timestamp X (oi_CreatedAt v))) (\<lambda>createdAt.
     bind (lift (x_timestamp X (oi_UpdatedAt v))) (\<lambda>updatedAt.
     ret \<lparr>oi_Id = oid, oi_Object = oi_Object v, oi_Sku = oi_Sku v, oi_Name = oi_Name v,
          oi_Description = oi_Description v, oi_Amount = oi_Amount v, oi_Currency = oi_Currency v,
          oi_Images = oi_Images v, oi_Url = oi_Url v, oi_Metadata = oi_Metadata v, oi_Code = oi_Code v,
          oi_PlatformId = oi_PlatformId v, oi_CreatedAt = createdAt, oi_UpdatedAt = updatedAt\<rparr>)))"

fun items_to_mgo :: "ext \<Rightarrow> order_item list \<Rightarrow> mgo_order_item list io" where
  "items_to_mgo X [] = ret []"
| "items_to_mgo X (v # vs) = bind (item_to_mgo X v) (\<lambda>m. bind (items_to_mgo X vs) (\<lambda>ms. ret (m # ms)))"

definition item_from_mgo :: "ext \<Rightarrow> mgo_order_item \<Rightarrow> go_err + order_item" where
  "item_from_mgo X v =
     bind_err (x_timestamp_proto X (oi_CreatedAt v)) (\<lambda>createdAt.
     bind_err (x_timestamp_proto X (oi_UpdatedAt v)) (\<lambda>updatedAt.
     Inr \<lparr>oi_Id = x_oid_hex X (oi_Id v), oi_Object = oi_Object v, oi_Sku = oi_Sku v, oi_Name = oi_Name v,
          oi_Description = oi_Description v, oi_Amount = oi_Amount v, oi_Currency = oi_Currency v,
          oi_Images = oi_Images v, oi_Url = oi_Url v, oi_Metadata = oi_Metadata v, oi_Code = oi_Code v,
          oi_PlatformId = oi_PlatformId v, oi_CreatedAt = Some createdAt, oi_UpdatedAt = Some updatedAt\<rparr>))"

definition payment_method_to_mgo :: "ext \<Rightarrow> order_payment_method \<Rightarrow> go_err + mgo_order_payment_method" where
  "payment_method_to_mgo X m =
     bind_err (x_oid_from_hex X (opm_Id m)) (\<lambda>oid.
     bind_err (x_oid_from_hex X (opm_PaymentSystemId m)) (\<lambda>systemOid.
     Inr \<lparr>opm_Id = oid, opm_Name = opm_Name m, opm_ExternalId = opm_ExternalId m, opm_Params = opm_Params m,
          opm_PaymentSystemId = systemOid, opm_Group = opm_Group m, opm_Saved = opm_Saved m,
          opm_Handler = opm_Handler m, opm_Card = opm_Card m, opm_Wallet = opm_Wallet m,
          opm_CryptoCurrency = opm_CryptoCurrency m, opm_RefundAllowed = opm_RefundAllowed m,
          opm_RecurringAllowed = opm_RecurringAllowed m\<rparr>))"

definition getPaymentMethodOrder :: "ext \<Rightarrow> mgo_order_payment_method \<Rightarrow> order_payment_method" where
  "getPaymentMethodOrder X m =
     \<lparr>opm_Id = x_oid_hex X (opm_Id m), opm_Name = opm_Name m, opm_ExternalId = opm_ExternalId m,
      opm_Params = opm_Params m, opm_PaymentSystemId = x_oid_hex X (opm_PaymentSystemId m), opm_Group = opm_Group m,
      opm_Saved = opm_Saved m, opm_Handler = opm_Handler m, opm_Card = opm_Card m, opm_Wallet = opm_Wallet m,
      opm_CryptoCurrency = opm_CryptoCurrency m, opm_RefundAllowed = opm_RefundAllowed m,
      opm_RecurringAllowed = opm_RecurringAllowed m\<rparr>"

section \<open>Orders\<close>

definition method_to_mgo :: "ext \<Rightarrow> order_payment_method option \<Rightarrow> mgo_order_payment_method option io" where
  "method_to_mgo X pm = (case pm of None \<Rightarrow> ret None
     | Some m \<Rightarrow> bind (lift (payment_method_to_mgo X m)) (\<lambda>d. ret (Some d)))"

definition order_to_mgo :: "ext \<Rightarrow> order \<Rightarrow> mgo_order io" where
  "order_to_mgo X m =
     bind (lift (x_oid_from_hex X (order_ProjectId m))) (\<lambda>projectOid.
     bind (lift (x_oid_from_hex X (order_ProjectMerchantId m))) (\<lambda>merchantOid.
     bind (items_to_mgo X (order_Items m)) (\<lambda>items.
     bind (method_to_mgo X (order_PaymentMethod m)) (\<lambda>method.
     bind (if order_Id m = [] then new_oid X else lift (invalid_id (x_oid_from_hex X (order_Id m)))) (\<lambda>oid.
     bind (time_or_now X (order_CreatedAt m)) (\<lambda>createdAt.
     bind (time_or_now X (order_UpdatedAt m)) (\<lambda>updatedAt.
     bind (time_or_zero X (order_ProjectLastRequestedAt m)) (\<lambda>lastRequestedAt.
     bind (time_or_zero X (order_PaymentMethodOrderClosedAt m)) (\<lambda>closedAt.
     bind (time_or_now X (order_ExpireDateToFormInput m)) (\<lambda>expire.
     bind (time_or_zero X (order_ProjectFirstPaymentAt m)) (\<lambda>firstPaymentAt.
     bind (time_or_zero X (order_CanceledAt m)) (\<lambda>canceledAt.
     bind (time_or_zero X (order_RefundedAt m)) (\<lambda>refundedAt.
     bind (time_or_zero X (order_ParentPaymentAt m)) (\<lambda>parentPaymentAt.
     ret \<lparr>order_Id = oid, order_Uuid = order_Uuid m, order_Transaction = order_Transaction m,
          order_Object = ''order'', order_Status = x_order_public_status X m,
          order_PrivateStatus = order_PrivateStatus m, order_CreatedAt = createdAt, order_UpdatedAt = updatedAt,
          order_CanceledAt = canceledAt, order_Canceled = (order_PrivateStatus m = OrderStatusPaymentSystemCanceled),
          order_Cancellation = order_Cancellation m, order_Refunded = (order_PrivateStatus m = OrderStatusRefund),
          order_RefundedAt = refundedAt, order_ReceiptEmail = x_order_receipt_email X m,
          order_ReceiptPhone = x_order_receipt_phone X m, order_ReceiptUrl = order_ReceiptUrl m,
          order_ReceiptId = order_ReceiptId m, order_IssuerReferenceType = order_IssuerReferenceType m,
          order_IssuerReference = order_IssuerReference m, order_TotalPaymentAmount = order_TotalPaymentAmount m,
          order_Currency = order_Currency m, order_User = order_User m, order_TaxRate = order_TaxRate m,
          order_TaxAmount = order_TaxAmount m, order_PaymentMethod = method, order_Items = items,
          order_Refund = order_Refund m, order_ProjectId = projectOid, order_ProjectMerchantId = merchantOid,
          order_ProjectName = order_ProjectName m, order_ProjectFirstPaymentAt = firstPaymentAt,
          order_ProjectCarried = order_ProjectCarried m, order_ProjectLastRequestedAt = lastRequestedAt,
          order_PaymentMethodOrderClosedAt = closedAt, order_OrderAmount = order_OrderAmount m,
          order_PaymentMethodPayerAccount = order_PaymentMethodPayerAccount m,
          order_PaymentMethodTxnParams = order_PaymentMethodTxnParams m,
          order_PaymentRequisites = order_PaymentRequisites m, order_ExpireDateToFormInput = expire,
          order_IsNotificationsSent = order_IsNotificationsSent m, order_ParentOrder = order_ParentOrder m,
          order_ParentPaymentAt = parentPaymentAt, order_Type = order_Type m,
          order_IsVatDeduction = order_IsVatDeduction m, order_CountryCode = x_order_country X m,
          order_PlatformId = order_PlatformId m, order_ProductType = order_ProductType m, order_Keys = order_Keys m,
          order_IsKeyProductNotified = order_IsKeyProductNotified m, order_MccCode = order_MccCode m,
          order_OperatingCompanyId = order_OperatingCompanyId m, order_IsHighRisk = order_IsHighRisk m,
          order_ChargeCurrency = order_ChargeCurrency m, order_ChargeAmount = order_ChargeAmount m,
          order_IsRefundAllowed = order_IsRefundAllowed m, order_VatPayer = order_VatPayer m,
          order_IsProduction = order_IsProduction m, order_RoyaltyReportId = order_RoyaltyReportId m,
          order_Recurring = order_Recurring m, order_RecurringId = order_RecurringId m, order_VirtualCurrencyAmount = 0,
          order_Carried = order_Carried m\<rparr>))))))))))))))"

text \<open>The project's first payment is nil when its instant cannot be converted; every other failure is returned.\<close>

definition order_from_mgo :: "ext \<Rightarrow> mgo_order \<Rightarrow> go_err + order" where
  "order_from_mgo X d =
     bind_err (map_err (item_from_mgo X) (order_Items d)) (\<lambda>items.
     bind_err (x_timestamp_proto X (order_PaymentMethodOrderClosedAt d)) (\<lambda>closedAt.
     bind_err (x_timestamp_proto X (order_ParentPaymentAt d)) (\<lambda>parentPaymentAt.
     bind_err (x_timestamp_proto X (order_ProjectLastRequestedAt d)) (\<lambda>lastRequestedAt.
     bind_err (x_timestamp_proto X (order_CreatedAt d)) (\<lambda>createdAt.
     bind_err (x_timestamp_proto X (order_UpdatedAt d)) (\<lambda>updatedAt.
     bind_err (x_timestamp_proto X (order_CanceledAt d)) (\<lambda>canceledAt.
     bind_err (x_timestamp_proto X (order_RefundedAt d)) (\<lambda>refundedAt.
     bind_err (x_timestamp_proto X (order_ExpireDateToFormInput d)) (\<lambda>expire.
     Inr \<lparr>order_Id = x_oid_hex X (order_Id d), order_Uuid = order_Uuid d, order_Transaction = order_Transaction d,
          order_Object = order_Object d, order_Status = order_Status d,
          order_PrivateStatus = order_PrivateStatus d, order_CreatedAt = Some createdAt, order_UpdatedAt = Some updatedAt,
          order_CanceledAt = Some canceledAt, order_Canceled = order_Canceled d,
          order_Cancellation = order_Cancellation d, order_Refunded = order_Refunded d,
          order_RefundedAt = Some refundedAt, order_ReceiptEmail = order_ReceiptEmail d,
          order_ReceiptPhone = order_ReceiptPhone d, order_ReceiptUrl = order_ReceiptUrl d,
          order_ReceiptId = order_ReceiptId d, order_IssuerReferenceType = order_IssuerReferenceType d,
          order_IssuerReference = order_IssuerReference d, order_TotalPaymentAmount = order_TotalPaymentAmount d,
          order_Currency = order_Currency d, order_User = order_User d, order_TaxRate = order_TaxRate d,
          order_TaxAmount = order_TaxAmount d,
          order_PaymentMethod = map_option (getPaymentMethodOrder X) (order_PaymentMethod d), order_Items = items,
          order_Refund = order_Refund d, order_ProjectId = x_oid_hex X (order_ProjectId d),
          order_ProjectMerchantId = x_oid_hex X (order_ProjectMerchantId d),
          order_ProjectName = order_ProjectName d,
          order_ProjectFirstPaymentAt = (case x_timestamp_proto X (order_ProjectFirstPaymentAt d) of
            Inl _ \<Rightarrow> None | Inr t \<Rightarrow> Some t),
          order_ProjectCarried = order_ProjectCarried d, order_ProjectLastRequestedAt = Some lastRequestedAt,
          order_PaymentMethodOrderClosedAt = Some closedAt, order_OrderAmount = order_OrderAmount d,
          order_PaymentMethodPayerAccount = order_PaymentMethodPayerAccount d,
          order_PaymentMethodTxnParams = order_PaymentMethodTxnParams d,
          order_PaymentRequisites = order_PaymentRequisites d, order_ExpireDateToFormInput = Some expire,
          order_IsNotificationsSent = order_IsNotificationsSent d, order_ParentOrder = order_ParentOrder d,
          order_ParentPaymentAt = Some parentPaymentAt, order_Type = order_Type d,
          order_IsVatDeduction = order_IsVatDeduction d, order_CountryCode = order_CountryCode d,
          order_PlatformId = order_PlatformId d, order_ProductType = order_ProductType d, order_Keys = order_Keys d,
          order_IsKeyProductNotified = order_IsKeyProductNotified d, order_MccCode = order_MccCode d,
          order_OperatingCompanyId = order_OperatingCompanyId d, order_IsHighRisk = order_IsHighRisk d,
          order_ChargeCurrency = order_ChargeCurrency d, order_ChargeAmount = order_ChargeAmount d,
          order_IsRefundAllowed = order_IsRefundAllowed d, order_VatPayer = order_VatPayer d,
          order_IsProduction = order_IsProduction d, order_RoyaltyReportId = order_RoyaltyReportId d,
          order_Recurring = order_Recurring d, order_RecurringId = order_RecurringId d, order_VirtualCurrencyAmount = 0,
          order_Carried = order_Carried d\<rparr>)))))))))"

text \<open>The order a repository hands out for an id, if there is one.\<close>

definition order_at :: "ext \<Rightarrow> mgo_order list \<Rightarrow> string \<Rightarrow> order option" where
  "order_at X orders i = (case x_oid_from_hex X i of Inl _ \<Rightarrow> None
     | Inr oid \<Rightarrow> (case find (\<lambda>d. order_Id d = oid) orders of None \<Rightarrow> None
     | Some d \<Rightarrow> (case order_from_mgo X d of Inl _ \<Rightarrow> None | Inr o' \<Rightarrow> Some o')))"

lemma order_at_iff: "order_at X orders i = Some ordr \<longleftrightarrow> (\<exists>oid d. x_oid_from_hex X i = Inr oid \<and>
    find (\<lambda>d. order_Id d = oid) orders = Some d \<and> order_from_mgo X d = Inr ordr)"
  by (auto simp: order_at_def split: sum.splits option.splits)

lemma decoded_order_Id: "order_from_mgo X d = Inr ordr \<Longrightarrow> order_Id ordr = x_oid_hex X (order_Id d)"
  by (auto simp: order_from_mgo_def bind_err_eq_Inr)

lemma order_at_id: "order_at X orders i = Some ordr \<Longrightarrow> canon_id X i \<Longrightarrow> order_Id ordr = i"
  by (auto simp: order_at_iff canon_id_def dest!: decoded_order_Id find_SomeD)

end
