(* ===== verification/Samples.thy ===== *)
theory Samples
  imports OrderMapper
begin

text \<open>
  One concrete instance of the external code, at which the properties with hypotheses are
  applied: ObjectIDs written in unary after a \<open>#\<close>, timestamps in seconds and nanoseconds,
  a clock that advances by one second with every call, currencies exchanged at par, no
  failures.
\<close>

definition sample_hex :: "oid \<Rightarrow> string" where
  "sample_hex d = CHR ''#'' # replicate d (CHR ''1'')"

fun sample_from_hex :: "string \<Rightarrow> go_err + oid" where
  "sample_from_hex [] = Inl (ErrOther ''invalid ObjectID'')"
| "sample_from_hex (c # cs) =
     (if c = CHR ''#'' \<and> list_all ((=) (CHR ''1'')) cs then Inr (length cs)
      else Inl (ErrOther ''invalid ObjectID''))"

fun sample_timestamp :: "timestamp option \<Rightarrow> go_err + gotime" where
  "sample_timestamp None = Inl (ErrOther ''timestamp: nil'')"
| "sample_timestamp (Some (Timestamp s n)) = Inr (s * 1000000000 + n)"

definition sample_timestamp_proto :: "gotime \<Rightarrow> go_err + timestamp" where
  "sample_timestamp_proto t = Inr (Timestamp (t div 1000000000) (t mod 1000000000))"

definition sample_ext :: ext where
  "sample_ext = \<lparr>
     x_oid_from_hex = sample_from_hex,
     x_oid_hex = sample_hex,
     x_new_oid = (\<lambda>n. 100 + n),
     x_uuid = (\<lambda>n. CHR ''u'' # replicate n (CHR ''1'')),
     x_now = (\<lambda>n. (1000 + int n) * 1000000000),
     x_ts_now = (\<lambda>n. Timestamp (1000 + int n) 0),
     x_timestamp = sample_timestamp,
     x_timestamp_proto = sample_timestamp_proto,
     x_fault = (\<lambda>_. None),
     x_exchange_common = (\<lambda>_ r. Inr (ex_Amount r)),
     x_exchange_merchant = (\<lambda>_ _ r. Inr (ex_Amount r)),
     x_to_precise = (\<lambda>x. x),
     x_format_amount = (\<lambda>x. x),
     x_percent_part = (\<lambda>x r. x * r),
     x_money_round = (\<lambda>_ _ x. Inr x),
     x_mongo_round2 = (\<lambda>x. x),
     x_mongo_sum = foldl (+) 0,
     x_regex_ci = (=),
     x_report_hash = (\<lambda>_. Inr ''h''),
     x_payout_hash = (\<lambda>_. Inr ''h''),
     x_order_country = (\<lambda>_. ''DE''),
     x_order_merchant_id = order_ProjectMerchantId,
     x_order_public_status = order_Status,
     x_order_royalty_currency = (\<lambda>_. ''EUR''),
     x_order_tax_in_charge_currency = order_TaxAmount,
     x_order_cost_method_name = (\<lambda>_. Inr ''VISA''),
     x_order_refund_allowed = order_IsRefundAllowed,
     x_order_receipt_email = order_ReceiptEmail,
     x_order_receipt_phone = order_ReceiptPhone,
     x_order_need_callback = (\<lambda>_. False),
     x_set_notification = (\<lambda>m st b. Some ((st, b) # (case m of None \<Rightarrow> [] | Some kvs \<Rightarrow> kvs))),
     x_order_has_ended_status = (\<lambda>o'. order_PrivateStatus o' = OrderStatusProjectComplete),
     x_order_can_be_recreated = (\<lambda>_. True),
     x_order_form_time_ended = (\<lambda>_ _. False),
     x_order_postal_code = (\<lambda>_. ''10115''),
     x_order_state = (\<lambda>_. []),
     x_order_api_url = (\<lambda>_. ''https://cardpay''),
     x_pm_is_bank_card = (\<lambda>m. opm_ExternalId m = ''BANKCARD''),
     x_merchant_trademark = (\<lambda>_. ''studio''),
     x_merchant_company_name = (\<lambda>_. ''studio''),
     x_error_text = (\<lambda>e. case e of ResponseErrorMessage c m \<Rightarrow> m | _ \<Rightarrow> ''error''),
     x_rcb_allowed_status = (\<lambda>_. True),
     x_pcb_allowed_status = (\<lambda>_. True),
     x_pcb_is_recurring = (\<lambda>_. False),
     x_pcb_is_success = (\<lambda>_. True),
     x_pcb_is_recurring_with_filing = (\<lambda>_. False),
     x_pcb_amount = (\<lambda>_. Fin 100),
     x_pcb_currency = (\<lambda>_. ''EUR''),
     x_pcb_status = pcb_Rest,
     x_pcb_id = (\<lambda>_. ''tx''),
     x_pcb_bank_card_params = (\<lambda>_. Some [(''pan'', ''400000...0077'')]),
     x_pcb_ewallet_params = (\<lambda>_. Some []),
     x_pcb_crypto_params = (\<lambda>_. Some []),
     x_json_refund_callback = (\<lambda>b. if b = [] then Inl (ErrOther ''json'') else Inr (Some \<lparr>rcb_MerchantOrderId = Some (sample_hex 4),
       rcb_PaymentMethod = ''BANKCARD'', rcb_CallbackTime = ''now'', rcb_RefundData = Some \<lparr>rfd_Id = ''r4'', rfd_Status = b, rfd_Amount = Fin 100,
       rfd_Currency = ''EUR''\<rparr>, rcb_Rest = []\<rparr>)),
     x_json_payment_callback = (\<lambda>b. if b = [] then Inl (ErrOther ''json'') else Inr \<lparr>pcb_PaymentMethod = ''BANKCARD'',
       pcb_CallbackTime = ''now'', pcb_MaskedPan = None, pcb_RecurringData = None, pcb_Rest = b\<rparr>),
     x_json_token = (\<lambda>b. if b = [] then Inl (ErrOther ''json'') else Inr (Some \<lparr>ct_TokenType = ''bearer'', ct_AccessToken = b,
       ct_RefreshToken = b, ct_AccessTokenExpire = 300, ct_RefreshTokenExpire = 900, ct_AccessTokenExpireTime = time_zero,
       ct_RefreshTokenExpireTime = time_zero\<rparr>)),
     x_json_redirect_url = (\<lambda>b. Inr (Some b)),
     x_json_recurring_status = (\<lambda>b. Inr (Some (Some b))),
     x_json_refund_data = (\<lambda>b. Inr (Some (b, ''r4''))),
     x_json_plan = (\<lambda>b. Inr (Some (''p1'', b))),
     x_json_subscription = (\<lambda>b. Inr (Some (b, ''s1''))),
     x_sha512_hex = (\<lambda>v. CHR ''h'' # v),
     x_card_fingerprint = (\<lambda>_ _. Inr ''fp''),
     x_parse_time = (\<lambda>_ v. Inr (600 * second)),
     x_url_with_path = (\<lambda>u p. Inr (u @ p)),
     x_http = (\<lambda>_ r. Inr \<lparr>hrsp_StatusCode = (case hreq_Body r of RefundBody _ \<Rightarrow> 201 | _ \<Rightarrow> 200), hrsp_Body = Inr ''IN_PROGRESS''\<rparr>),
     x_format_currency = (\<lambda>_ c. (None, c)),
     x_format_datetime = (\<lambda>_. Inr ''today''),
     x_receipt_model = (\<lambda>r. Inr [(''transaction_id'', rcp_TransactionId r)]),
     x_sprintf_2f = (\<lambda>_. ''0.00''),
     x_get_subscription = (\<lambda>_ _. Inl ErrNoDocuments),
     x_update_subscription = (\<lambda>_ _. Inl ErrNoDocuments),
     x_find_subscriptions = (\<lambda>_ _ _. Inr 0),
     x_copy_shares = False,
     x_merchant_payout_currency = (\<lambda>_. ''EUR''),
     x_merchant_has_authorized_email = (\<lambda>_. True),
     x_country_vat_currency_code = country_VatCurrency,
     x_rr_status_name = (\<lambda>_. ''status''),
     x_report_changes_available = (\<lambda>_ _. True),
     x_merchant_owner_name = merchant_UserEmail,
     x_merchant_owner_email = merchant_UserEmail,
     x_monday = (\<lambda>t. t - t mod 604800000000000),
     x_beginning_of_day = (\<lambda>t. t - t mod 86400000000000),
     x_end_of_day = (\<lambda>t. t - t mod 86400000000000 + 86399999999999),
     x_month = (\<lambda>_. 1),
     x_add_days = (\<lambda>t d. t + d * 86400000000000),
     x_beginning_of_month = (\<lambda>t. t - t mod 86400000000000),
     x_end_of_month = (\<lambda>t. t - t mod 86400000000000 + 86399999999999),
     x_beginning_of_quarter = (\<lambda>t. t - t mod 86400000000000),
     x_end_of_quarter = (\<lambda>t. t - t mod 86400000000000 + 86399999999999),
     x_format_time = (\<lambda>_ t. show_int t),
     x_empty_key_template = ''p1_empty_key_product'',
     x_minimal_key_template = ''p1_minimal_key_product'',
     x_dashboard_url = ''https://dashboard'',
     x_merchant_channel = (\<lambda>m. ''paysuper:merchant#'' @ m),
     x_order_channel = (\<lambda>i. ''order#'' @ i),
     x_checkout_url = ''https://checkout'',
     x_order_view_batch = 200,
     x_royalty_report_period = 604800,
     x_royalty_report_accept_timeout = 432000,
     x_email_template = (\<lambda>t. t),
     x_config_url = (\<lambda>p. p),
     x_financier_email = ''finance'',
     x_project_is_deleted = (\<lambda>_. False),
     x_project_is_production = (\<lambda>_. True),
     x_project_has_limits = (\<lambda>_. True),
     x_merchant_is_deleted = (\<lambda>_. False),
     x_merchant_has_tariff = (\<lambda>_. True),
     x_merchant_is_high_risk = (\<lambda>_. False),
     x_merchant_status_suspend = 9,
     x_country_restrictions = (\<lambda>_ _. (True, True)),
     x_user_country = (\<lambda>_. ''DE''),
     x_user_has_address = (\<lambda>u. ou_Address u \<noteq> None),
     x_order_declined_by_country = (\<lambda>_. False),
     x_order_country_change_allowed = (\<lambda>_. True),
     x_form_data_change = order_Currency,
     x_no_price_error = ErrOther ''no price'',
     x_virtual_price_group = ''virtual'',
     x_product_price = (\<lambda>p g. case find (\<lambda>q. pp_Currency q = pg_Currency g) (prod_Prices p) of
       None \<Rightarrow> Inl (ErrOther ''no price'') | Some q \<Rightarrow> Inr (pp_Amount q)),
     x_product_name = (\<lambda>p _. Inr (prod_Sku p)),
     x_product_description = (\<lambda>p _. Inr (prod_Rest p)),
     x_key_price = (\<lambda>_ _ _. Inr (Fin 10)),
     x_key_name = (\<lambda>p _. Inr (kp_NameEn p)),
     x_key_description = (\<lambda>p _. Inr (kp_Rest p)),
     x_setting_complete = (\<lambda>_. True),
     x_method_has_limits = (\<lambda>_. True),
     x_method_is_bank_card = (\<lambda>m. pm_ExternalId m = ''BANKCARD''),
     x_form_method_is_bank_card = (\<lambda>m. fm_Group m = ''BANKCARD''),
     x_geo_ip = (\<lambda>_ _. Inr \<lparr>geo_Country = Some ''DE'', geo_CityNames = Some (Some [(''en'', ''Berlin'')]),
       geo_PostalCode = None, geo_Subdivisions = []\<rparr>),
     x_tax_rate = (\<lambda>_ _ _. Inr (Fin (1/5))),
     x_price_currencies = (\<lambda>_. Inr [''EUR'', ''USD'']),
     x_supported_currencies = [''EUR'', ''USD''],
     x_currency_precision = Map.empty,
     x_to_fixed = (\<lambda>x _. x),
     x_saved_cards = (\<lambda>_ _. Inr []),
     x_saved_card_by_id = (\<lambda>_ _. Inr None),
     x_add_subscription = (\<lambda>_ _. Inr (ResponseStatusOk, ''s2'')),
     x_check_user = (\<lambda>_ _. Inr ResponseStatusOk),
     x_cookie_decrypt = (\<lambda>c. if c = [] then Inl (ErrOther ''cookie'') else Inr \<lparr>bc_CustomerId = [], bc_VirtualCustomerId = c,
       bc_Ip = ''ip'', bc_IpCountry = ''DE'', bc_SelectedCountry = [], bc_UserAgent = [], bc_AcceptLanguage = [],
       bc_SessionCount = 0, bc_CreatedAt = 0, bc_UpdatedAt = 0\<rparr>),
     x_cookie_encrypt = (\<lambda>_ c. Inr (CHR ''c'' # bc_CustomerId c)),
     x_token_string = (\<lambda>n. CHR ''t'' # replicate n (CHR ''1'')),
     x_token_expired = (\<lambda>_ _. False),
     x_parse_ip = (\<lambda>v. v),
     x_url_host = (\<lambda>u. Inr u),
     x_split_host_port = (\<lambda>u. Inr u),
     x_regexp_match = (\<lambda>_ v. Inr (v \<noteq> [])),
     x_phone_country_code = (\<lambda>_ _. Inr (Some 7)),
     x_mask_card_number = (\<lambda>v. take 6 v @ ''******'' @ drop 12 v),
     x_channel_token = (\<lambda>c _. c),
     x_add_year = (\<lambda>t. t + 365 * 86400000000000),
     x_year = (\<lambda>_. 2020),
     x_cardpay_api_url = ''https://cardpay'',
     x_cardpay_sandbox_url = ''https://sandbox''\<rparr>"

lemma sample_hex_roundtrip: "sample_from_hex (sample_hex d) = Inr d"
  by (simp add: sample_hex_def list_all_iff)

lemma sample_hex_eq [simp]: "sample_hex d = sample_hex e \<longleftrightarrow> d = e"
  by (metis sample_hex_roundtrip sum.inject(2))

lemma sample_ext_simps [simp]:
  "x_oid_from_hex sample_ext = sample_from_hex"
  "x_oid_hex sample_ext = sample_hex"
  "x_new_oid sample_ext n = 100 + n"
  "x_now sample_ext n = (1000 + int n) * 1000000000"
  "x_ts_now sample_ext n = Timestamp (1000 + int n) 0"
  "x_timestamp sample_ext = sample_timestamp"
  "x_timestamp_proto sample_ext = sample_timestamp_proto"
  "x_fault sample_ext n = None"
  by (simp_all add: sample_ext_def)

lemma sample_answers [simp]:
  "x_order_view_batch sample_ext = 200"
  "x_order_merchant_id sample_ext = order_ProjectMerchantId"
  "x_order_royalty_currency sample_ext ordr = ''EUR''"
  "x_order_public_status sample_ext = order_Status"
  "x_order_country sample_ext ordr = ''DE''"
  "x_order_receipt_email sample_ext = order_ReceiptEmail"
  "x_order_receipt_phone sample_ext = order_ReceiptPhone"
  by (simp_all add: sample_ext_def)

lemma sample_codecs_ok: "codecs_ok sample_ext"
  by (simp add: codecs_ok_def sample_hex_roundtrip sample_timestamp_proto_def) (simp add: sample_hex_def)

lemma sample_canon_id: "canon_id sample_ext (sample_hex d)"
  by (simp add: canon_id_def sample_hex_roundtrip) (simp add: sample_hex_def)

lemma sample_canon_ts: "0 \<le> n \<Longrightarrow> n < 1000000000 \<Longrightarrow> canon_ts sample_ext (Some (Timestamp s n))"
  by (simp add: canon_ts_def sample_timestamp_proto_def)

text \<open>A merchant, a country without VAT and a payment of 100 EUR with 20 EUR tax.\<close>

definition sample_merchant :: merchant where
  "sample_merchant = \<lparr>merchant_Id = sample_hex 2, merchant_UserId = ''u'', merchant_UserEmail = ''e'',
     merchant_CompanyCountry = ''DE'', merchant_Company = Some ''c'', merchant_Banking = Some ''b'',
     merchant_AgreementNumber = ''a'', merchant_OperatingCompanyId = ''oc'', merchant_MccCode = ''m'',
     merchant_FirstPaymentAt = None, merchant_ManualPayoutsEnabled = True, merchant_MinPayoutAmount = 0,
     merchant_Tariff = Some \<lparr>tariff_MinimalPayout = [''EUR'' \<mapsto> 0]\<rparr>, merchant_Status = 4\<rparr>"

definition no_carried :: order_carried where
  "no_carried = \<lparr>oco_Description = [], oco_ReceiptNumber = [], oco_AgreementVersion = [], oco_AgreementAccepted = True,
     oco_NotifySale = False, oco_NotifySaleEmail = [], oco_Issuer = None, oco_BillingAddress = None, oco_TaxType = [],
     oco_TaxCurrency = ''EUR'', oco_Metadata = None, oco_PrivateMetadata = None, oco_ProjectParams = None,
     oco_IsJsonRequest = True, oco_UserAddressDataRequired = False, oco_Products = [], oco_CountryRestriction = None,
     oco_IsBuyForVirtualCurrency = False, oco_PaymentIpCountry = [], oco_IsIpCountryMismatchBin = False,
     oco_BillingCountryChangedByUser = False, oco_FormMode = [], oco_IsCurrencyPredefined = False,
     oco_MerchantInfo = None, oco_RecurringSettings = None\<rparr>"

definition no_project_carried :: project_carried where
  "no_project_carried = \<lparr>pco_UrlSuccess = [], pco_UrlFail = [], pco_NotifyEmails = [], pco_SendNotifyEmail = False,
     pco_SecretKey = [], pco_UrlCheckAccount = [], pco_UrlProcessPayment = [], pco_CallbackProtocol = [],
     pco_UrlChargebackPayment = [], pco_UrlCancelPayment = [], pco_UrlRefundPayment = [], pco_UrlFraudPayment = [],
     pco_Status = 0, pco_MerchantRoyaltyCurrency = ''EUR'', pco_RedirectSettings = None, pco_FormDefaultText = []\<rparr>"

text \<open>The order for an id, a payment method id and so on as they are in the message and in the database.\<close>

definition sample_order_of :: "'i \<Rightarrow> 'i \<Rightarrow> 'i \<Rightarrow> 'i \<Rightarrow> 'i \<Rightarrow> (gotime \<Rightarrow> 't) \<Rightarrow> ('i, 't) order_of" where
  "sample_order_of oid project merchant method system t = \<lparr>order_Id = oid, order_Uuid = ''o1'', order_Transaction = ''tx'',
     order_Object = ''order'', order_Status = ''processed'', order_PrivateStatus = OrderStatusPaymentSystemComplete,
     order_CreatedAt = t (400 * second), order_UpdatedAt = t (500 * second), order_CanceledAt = t time_zero,
     order_Canceled = False, order_Cancellation = None, order_Refunded = False, order_RefundedAt = t time_zero,
     order_ReceiptEmail = ''e'', order_ReceiptPhone = [], order_ReceiptUrl = [], order_ReceiptId = ''r1'',
     order_IssuerReferenceType = [], order_IssuerReference = [], order_TotalPaymentAmount = Fin 100,
     order_Currency = ''EUR'', order_User = Some \<lparr>ou_Id = ''u1'', ou_Uuid = ''u1'', ou_Email = ''e'', ou_TechEmail = ''e'',
       ou_Ip = ''ip'', ou_Locale = [], ou_Object = ''user'', ou_ExternalId = ''x1'', ou_Name = [],
       ou_EmailVerified = False, ou_Phone = [], ou_PhoneVerified = False, ou_Address = None, ou_Metadata = None, ou_Rest = []\<rparr>, order_TaxRate = Fin 0,
     order_TaxAmount = Fin 20,
     order_PaymentMethod = Some \<lparr>opm_Id = method, opm_Name = ''card'', opm_ExternalId = ''BANKCARD'',
       opm_Params = Some \<lparr>pmp_TerminalId = ''t'', pmp_Secret = ''p'', pmp_SecretCallback = ''s'', pmp_Currency = ''EUR'', pmp_ApiUrl = [],
         pmp_MccCode = ''m'', pmp_OperatingCompanyId = ''oc'', pmp_Brand = []\<rparr>, opm_PaymentSystemId = system,
       opm_Group = ''BANKCARD'', opm_Saved = False, opm_Handler = ''cardpay'', opm_Card = None, opm_Wallet = None,
       opm_CryptoCurrency = None, opm_RefundAllowed = True, opm_RecurringAllowed = False\<rparr>,
     order_Items = [], order_Refund = None, order_ProjectId = project, order_ProjectMerchantId = merchant,
     order_ProjectName = [(''en'', ''Game'')], order_ProjectFirstPaymentAt = t (500 * second),
     order_ProjectCarried = no_project_carried, order_ProjectLastRequestedAt = t time_zero,
     order_PaymentMethodOrderClosedAt = t (500 * second), order_OrderAmount = Fin 80,
     order_PaymentMethodPayerAccount = [], order_PaymentMethodTxnParams = None, order_PaymentRequisites = None,
     order_ExpireDateToFormInput = t (900 * second), order_IsNotificationsSent = None, order_ParentOrder = None,
     order_ParentPaymentAt = t time_zero, order_Type = ''order'', order_IsVatDeduction = False,
     order_CountryCode = ''DE'', order_PlatformId = [], order_ProductType = ''checkout'', order_Keys = [],
     order_IsKeyProductNotified = False, order_MccCode = ''m'', order_OperatingCompanyId = ''oc'',
     order_IsHighRisk = False, order_ChargeCurrency = ''EUR'', order_ChargeAmount = Fin 100,
     order_IsRefundAllowed = True, order_VatPayer = ''buyer'', order_IsProduction = True, order_RoyaltyReportId = [],
     order_Recurring = False, order_RecurringId = [], order_VirtualCurrencyAmount = 0, order_Carried = no_carried\<rparr>"

definition sample_ts :: "gotime \<Rightarrow> timestamp option" where
  "sample_ts t = Some (Timestamp (t div 1000000000) (t mod 1000000000))"

definition sample_order :: order where
  "sample_order = sample_order_of (sample_hex 1) (sample_hex 3) (sample_hex 2) (sample_hex 7) (sample_hex 8) sample_ts"

definition sample_order_doc :: mgo_order where
  "sample_order_doc = sample_order_of 1 3 2 7 8 id"

lemmas sample_order_defs = sample_order_def sample_order_of_def sample_ts_def second_def

text \<open>What the database holds of the order is decoded to it.\<close>

lemma sample_order_decoded: "order_from_mgo sample_ext sample_order_doc = Inr sample_order"
  by (simp add: order_from_mgo_def sample_order_doc_def sample_order_defs sample_timestamp_proto_def
      getPaymentMethodOrder_def)

lemma sample_order_fields [simp]:
  "order_Id sample_order = sample_hex 1" "order_Status sample_order = ''processed''" "order_Type sample_order = ''order''"
  "order_ProjectMerchantId sample_order = sample_hex 2" "order_Id sample_order_doc = 1"
  by (simp_all add: sample_order_defs sample_order_doc_def)

definition sample_country :: country where
  "sample_country = \<lparr>country_IsoCodeA2 = ''DE'', country_PayerTariffRegion = ''europe'', country_VatEnabled = False,
     country_VatCurrency = [], country_VatCurrencyRatesSource = [], country_VatPeriodMonth = 0,
     country_PriceGroupId = ''g'', country_Currency = ''EUR''\<rparr>"

end
