(* ===== verification/Lookups.thy ===== *)
theory Lookups
  imports Samples
begin

text \<open>
  Lookups of the documents that the modelled handlers only read: merchants, projects, products, key
  products, countries, price groups, limits, zip codes, operating companies and orders. Their mappers and caches
  (internal/repository/merchant.go, project.go, country.go, ...) are left out; a lookup is a
  query by id on the collection, which may fail like every other call.
\<close>

definition keyproduct_GetById :: "ext \<Rightarrow> string \<Rightarrow> key_product io" where
  "keyproduct_GetById X i = find_one X w_key_products (\<lambda>p. kp_Id p = i)"

definition project_GetById :: "ext \<Rightarrow> string \<Rightarrow> project io" where
  "project_GetById X i = find_one X w_projects (\<lambda>p. project_Id p = i)"

definition merchant_GetById :: "ext \<Rightarrow> string \<Rightarrow> merchant io" where
  "merchant_GetById X i = find_one X w_merchants (\<lambda>m. merchant_Id m = i)"

definition country_GetByIsoCodeA2 :: "ext \<Rightarrow> string \<Rightarrow> country io" where
  "country_GetByIsoCodeA2 X code = find_one X w_countries (\<lambda>c. country_IsoCodeA2 c = code)"

definition priceGroup_GetById :: "ext \<Rightarrow> string \<Rightarrow> price_group io" where
  "priceGroup_GetById X i = find_one X w_price_groups (\<lambda>g. pg_Id g = i \<and> pg_IsActive g)"

definition priceGroup_GetByRegion :: "ext \<Rightarrow> string \<Rightarrow> price_group io" where
  "priceGroup_GetByRegion X region = find_one X w_price_groups (\<lambda>g. pg_Region g = region \<and> pg_IsActive g)"

definition product_GetById :: "ext \<Rightarrow> string \<Rightarrow> product io" where
  "product_GetById X i = find_one X w_products (\<lambda>p. prod_Id p = i \<and> \<not> prod_Deleted p)"

definition minLimit_GetByCurrency :: "ext \<Rightarrow> string \<Rightarrow> payment_min_limit io" where
  "minLimit_GetByCurrency X currency = find_one X w_min_limits (\<lambda>l. pml_Currency l = currency)"

definition zipCode_GetByZipAndCountry :: "ext \<Rightarrow> string \<Rightarrow> string \<Rightarrow> zip_code io" where
  "zipCode_GetByZipAndCountry X code country = find_one X w_zip_codes (\<lambda>z. zip_Zip z = code \<and> zip_Country z = country)"

definition operatingCompany_GetById :: "ext \<Rightarrow> string \<Rightarrow> operating_company io" where
  "operatingCompany_GetById X i = find_one X w_operating_companies (\<lambda>c. oc_Id c = i)"

text \<open>A company without payment countries serves the orders without a country.\<close>

definition operatingCompany_GetByPaymentCountry :: "ext \<Rightarrow> string \<Rightarrow> operating_company io" where
  "operatingCompany_GetByPaymentCountry X code = find_one X w_operating_companies (\<lambda>c.
     if code = [] then oc_PaymentCountries c = [] else code \<in> set (oc_PaymentCountries c))"

definition merchantErrorNotFound :: go_err where
  "merchantErrorNotFound = ResponseErrorMessage ''mr000009'' ''merchant with specified identifier not found''"

definition merchantErrorUnknown :: go_err where
  "merchantErrorUnknown = ResponseErrorMessage ''mr000008'' ''request processing failed. try request later''"

definition orderErrorNotFound :: go_err where
  "orderErrorNotFound = ResponseErrorMessage ''fm000021'' ''order with specified identifier not found''"

text \<open>
  \<open>GetById\<close> of internal/repository/order.go, and \<open>getOrderById\<close> of internal/service/order.go: whatever
  went wrong, no order is "not found".
\<close>

definition orderrepo_GetById :: "ext \<Rightarrow> string \<Rightarrow> order io" where
  "orderrepo_GetById X = repo_get X w_orders order_Id (order_from_mgo X)"

definition getOrderById :: "ext \<Rightarrow> string \<Rightarrow> order io" where
  "getOrderById X i = replace_err orderErrorNotFound (orderrepo_GetById X i)"

end
