(* ===== verification/Keys.thy ===== *)
theory Keys
  imports Lookups "HOL-Library.Sublist"
begin

text \<open>
  Activation keys of key products: the mapper and the repository of
  internal/repository(/models)/key.go and the handlers of internal/service/key.go. A key is
  uploaded, reserved for an order until a deadline, and then redeemed or released (by the
  client or by the daemon once the deadline has passed).
\<close>

section \<open>Errors (pkg/errors/errors.go, internal/service/key\_product.go)\<close>

definition KeyErrorFileProcess :: go_err where
  "KeyErrorFileProcess = ResponseErrorMessage ''ks000001'' ''failed to process file''"
definition KeyErrorNotFound :: go_err where
  "KeyErrorNotFound = ResponseErrorMessage ''ks000002'' ''key not found''"
definition KeyErrorCanceled :: go_err where
  "KeyErrorCanceled = ResponseErrorMessage ''ks000004'' ''unable to cancel key''"
definition KeyErrorFinish :: go_err where
  "KeyErrorFinish = ResponseErrorMessage ''ks000005'' ''unable to finish key''"
definition KeyErrorReserve :: go_err where
  "KeyErrorReserve = ResponseErrorMessage ''ks000006'' ''unable to reserve key''"
definition keyProductNotFound :: go_err where
  "keyProductNotFound = ResponseErrorMessage ''kp000017'' ''key product not found''"
definition keyProductMerchantMismatch :: go_err where
  "keyProductMerchantMismatch = ResponseErrorMessage ''kp000001'' ''merchant id mismatch''"

section \<open>The mapper\<close>

definition key_to_mgo :: "ext \<Rightarrow> key \<Rightarrow> mgo_key io" where
  "key_to_mgo X m =
     bind (lift (x_oid_from_hex X (key_Id m))) (\<lambda>oid.
     bind (lift (x_oid_from_hex X (key_KeyProductId m))) (\<lambda>keyProductOid.
     bind (if key_OrderId m \<noteq> []
           then bind (lift (x_oid_from_hex X (key_OrderId m))) (\<lambda>o_id. ret (Some o_id))
           else ret None) (\<lambda>orderId.
     bind (time_or_zero X (key_RedeemedAt m)) (\<lambda>redeemedAt.
     bind (time_or_zero X (key_ReservedTo m)) (\<lambda>reservedTo.
     bind (time_or_now X (key_CreatedAt m)) (\<lambda>createdAt.
     ret \<lparr>mgokey_Id = oid, mgokey_Code = key_Code m, mgokey_KeyProductId = keyProductOid,
          mgokey_PlatformId = key_PlatformId m, mgokey_OrderId = orderId,
          mgokey_CreatedAt = createdAt, mgokey_ReservedTo = reservedTo,
          mgokey_RedeemedAt = redeemedAt\<rparr>))))))"

definition key_from_mgo :: "ext \<Rightarrow> mgo_key \<Rightarrow> go_err + key" where
  "key_from_mgo X d =
     bind_err (x_timestamp_proto X (mgokey_CreatedAt d)) (\<lambda>createdAt.
     bind_err (x_timestamp_proto X (mgokey_RedeemedAt d)) (\<lambda>redeemedAt.
     bind_err (x_timestamp_proto X (mgokey_ReservedTo d)) (\<lambda>reservedTo.
     Inr \<lparr>key_Id = x_oid_hex X (mgokey_Id d), key_Code = mgokey_Code d,
          key_KeyProductId = x_oid_hex X (mgokey_KeyProductId d),
          key_PlatformId = mgokey_PlatformId d,
          key_OrderId = (case mgokey_OrderId d of None \<Rightarrow> [] | Some o_id \<Rightarrow> x_oid_hex X o_id),
          key_CreatedAt = Some createdAt, key_ReservedTo = Some reservedTo,
          key_RedeemedAt = Some redeemedAt\<rparr>)))"

section \<open>The repository\<close>

definition keyrepo_Insert :: "ext \<Rightarrow> key \<Rightarrow> unit io" where
  "keyrepo_Insert X = repo_insert X w_keys w_keys_update mgokey_Id (key_to_mgo X)"

definition keyrepo_GetById :: "ext \<Rightarrow> string \<Rightarrow> key io" where
  "keyrepo_GetById X = repo_get X w_keys mgokey_Id (key_from_mgo X)"

text \<open>The filter of ReserveKey and CountKeysByProductPlatform: \<open>order_id\<close> is null.\<close>

definition key_available :: "oid \<Rightarrow> string \<Rightarrow> mgo_key \<Rightarrow> bool" where
  "key_available product platform k \<longleftrightarrow>
     mgokey_KeyProductId k = product \<and> mgokey_PlatformId k = platform \<and> mgokey_OrderId k = None"

definition keyrepo_ReserveKey :: "ext \<Rightarrow> string \<Rightarrow> string \<Rightarrow> string \<Rightarrow> int \<Rightarrow> key io" where
  "keyrepo_ReserveKey X keyProductId platformId orderId ttl =
     bind (lift (x_oid_from_hex X keyProductId)) (\<lambda>oid.
     bind (lift (x_oid_from_hex X orderId)) (\<lambda>orderOid.
     bind (time_now X) (\<lambda>now.
     bind (find_one_and_update X w_keys w_keys_update (key_available oid platformId)
             (\<lambda>k. k\<lparr>mgokey_ReservedTo := now + second * ttl, mgokey_OrderId := Some orderOid\<rparr>)) (\<lambda>mgo.
     lift (key_from_mgo X mgo)))))"

definition keyrepo_CancelById :: "ext \<Rightarrow> string \<Rightarrow> key io" where
  "keyrepo_CancelById X i =
     bind (lift (x_oid_from_hex X i)) (\<lambda>oid.
     bind (find_one_and_update X w_keys w_keys_update (\<lambda>k. mgokey_Id k = oid)
             (\<lambda>k. k\<lparr>mgokey_ReservedTo := time_zero, mgokey_OrderId := None\<rparr>)) (\<lambda>mgo.
     lift (key_from_mgo X mgo)))"

definition keyrepo_FinishRedeemById :: "ext \<Rightarrow> string \<Rightarrow> key io" where
  "keyrepo_FinishRedeemById X i =
     bind (lift (x_oid_from_hex X i)) (\<lambda>oid.
     bind (time_now X) (\<lambda>now.
     bind (find_one_and_update X w_keys w_keys_update (\<lambda>k. mgokey_Id k = oid)
             (\<lambda>k. k\<lparr>mgokey_ReservedTo := time_zero, mgokey_RedeemedAt := now\<rparr>)) (\<lambda>mgo.
     lift (key_from_mgo X mgo))))"

definition keyrepo_CountKeysByProductPlatform :: "ext \<Rightarrow> string \<Rightarrow> string \<Rightarrow> int io" where
  "keyrepo_CountKeysByProductPlatform X keyProductId platformId =
     bind (lift (x_oid_from_hex X keyProductId)) (\<lambda>oid.
     count_documents X w_keys (key_available oid platformId))"

definition key_unfinished :: "gotime \<Rightarrow> mgo_key \<Rightarrow> bool" where
  "key_unfinished now k \<longleftrightarrow> time_zero < mgokey_ReservedTo k \<and> mgokey_ReservedTo k < now"

definition keyrepo_FindUnfinished :: "ext \<Rightarrow> key list io" where
  "keyrepo_FindUnfinished X =
     bind (time_now X) (\<lambda>now.
     bind (find_all X w_keys (key_unfinished now)) (\<lambda>keys.
     lift (map_err (key_from_mgo X) keys)))"

section \<open>The handlers\<close>

text \<open>
  \<open>bufio.Scanner\<close> with its default settings: lines end at a newline, a trailing carriage
  return is dropped, and a line that does not fit the 64 KiB buffer stops the scan with an
  error (the second component).
\<close>

definition strip_cr :: "string \<Rightarrow> string" where
  "strip_cr l = (if l \<noteq> [] \<and> last l = CHR 0x0D then butlast l else l)"

function scan_lines :: "nat \<Rightarrow> string \<Rightarrow> string list \<times> bool" where
  "scan_lines limit bs =
     (if bs = [] then ([], True)
      else let l = takeWhile (\<lambda>c. c \<noteq> CHR 0x0A) bs; rest = dropWhile (\<lambda>c. c \<noteq> CHR 0x0A) bs in
        if limit \<le> length l then ([], False)
        else (case scan_lines limit (drop 1 rest) of (ls, ok) \<Rightarrow> (strip_cr l # ls, ok)))"
  by pat_completeness auto
termination
proof (relation "measure (\<lambda>(limit, bs). length bs)", simp, goal_cases)
  case (1 limit bs x y)
  have "length (dropWhile (\<lambda>c. c \<noteq> CHR 0x0A) bs) \<le> length bs" by (rule length_dropWhile_le)
  then have "length (dropWhile (\<lambda>c. c \<noteq> CHR 0x0A) bs) - 1 < length bs"
    using 1(1) by (cases bs) auto
  then show ?case using 1 by simp
qed

declare scan_lines.simps [simp del]

definition max_scan_token_size :: nat where "max_scan_token_size = 65536"

record upload_rsp =
  upload_Status :: rsp_status
  upload_Message :: "go_err option"
  upload_TotalCount :: int
  upload_KeysProcessed :: int

definition emptyKeysNotifyKey :: "string \<Rightarrow> string \<Rightarrow> string" where
  "emptyKeysNotifyKey kp plat = ''key:empty:notify:'' @ kp @ '':'' @ plat"

definition minimalKeysNotifyKey :: "string \<Rightarrow> string \<Rightarrow> string" where
  "minimalKeysNotifyKey kp plat = ''key:minimal:notify:'' @ kp @ '':'' @ plat"

text \<open>One iteration of the upload loop; a failed insert is logged and skipped.\<close>

definition upload_line :: "ext \<Rightarrow> string \<Rightarrow> string \<Rightarrow> int \<times> int \<Rightarrow> string \<Rightarrow> (int \<times> int) io" where
  "upload_line X keyProductId platformId acc line =
     bind (new_oid X) (\<lambda>oid.
     bind (attempt (keyrepo_Insert X
             \<lparr>key_Id = x_oid_hex X oid, key_Code = line, key_KeyProductId = keyProductId,
              key_PlatformId = platformId, key_OrderId = [], key_CreatedAt = None,
              key_ReservedTo = None, key_RedeemedAt = None\<rparr>)) (\<lambda>r.
     case r of Inl _ \<Rightarrow> ret acc
     | Inr _ \<Rightarrow> ret (int32 (fst acc + 1), int32 (snd acc + 1))))"

definition UploadKeysFile :: "ext \<Rightarrow> string \<Rightarrow> string \<Rightarrow> string \<Rightarrow> upload_rsp io" where
  "UploadKeysFile X keyProductId platformId file =
     bind (attempt (keyrepo_CountKeysByProductPlatform X keyProductId platformId)) (\<lambda>c.
     case c of
       Inl _ \<Rightarrow> ret \<lparr>upload_Status = ResponseStatusNotFound, upload_Message = Some KeyErrorNotFound,
                     upload_TotalCount = 0, upload_KeysProcessed = 0\<rparr>
     | Inr count \<Rightarrow>
       (case scan_lines max_scan_token_size file of (lines, ok) \<Rightarrow>
        bind (fold_go (upload_line X keyProductId platformId) (int32 count, 0) lines) (\<lambda>(total, processed).
        if \<not> ok then ret \<lparr>upload_Status = ResponseStatusBadData, upload_Message = Some KeyErrorFileProcess,
                          upload_TotalCount = total, upload_KeysProcessed = processed\<rparr>
        else
          bind (attempt (bind (calling X) (\<lambda>_. modify (w_redis_update (\<lambda>m.
                  m(emptyKeysNotifyKey keyProductId platformId := None,
                    minimalKeysNotifyKey keyProductId platformId := None)))))) (\<lambda>_.
          ret \<lparr>upload_Status = ResponseStatusOk, upload_Message = None,
               upload_TotalCount = total, upload_KeysProcessed = processed\<rparr>))))"

definition GetAvailableKeysCount :: "ext \<Rightarrow> string \<Rightarrow> string \<Rightarrow> string \<Rightarrow> int response io" where
  "GetAvailableKeysCount X keyProductId platformId merchantId =
     bind (attempt (keyproduct_GetById X keyProductId)) (\<lambda>r. case r of
       Inl _ \<Rightarrow> ret (rsp_error ResponseStatusNotFound keyProductNotFound)
     | Inr keyProduct \<Rightarrow>
       if kp_MerchantId keyProduct \<noteq> merchantId
       then ret (rsp_error ResponseStatusNotFound keyProductMerchantMismatch)
       else bind (attempt (keyrepo_CountKeysByProductPlatform X keyProductId platformId)) (\<lambda>c. case c of
         Inl _ \<Rightarrow> ret (rsp_error ResponseStatusNotFound KeyErrorNotFound)
       | Inr count \<Rightarrow> ret (rsp_ok (int32 count))))"

text \<open>GetKeyByID leaves the status unset on success, as the code does.\<close>

definition GetKeyByID :: "ext \<Rightarrow> string \<Rightarrow> key response io" where
  "GetKeyByID X keyId =
     bind (attempt (keyrepo_GetById X keyId)) (\<lambda>r. case r of
       Inl _ \<Rightarrow> ret (rsp_error ResponseStatusNotFound KeyErrorNotFound)
     | Inr k \<Rightarrow> ret (empty_rsp\<lparr>rspItem := Some k\<rparr>))"

definition ReserveKeyForOrder :: "ext \<Rightarrow> string \<Rightarrow> string \<Rightarrow> string \<Rightarrow> int \<Rightarrow> string response io" where
  "ReserveKeyForOrder X keyProductId platformId orderId ttl =
     bind (attempt (keyrepo_ReserveKey X keyProductId platformId orderId ttl)) (\<lambda>r. case r of
       Inl _ \<Rightarrow> ret (rsp_error ResponseStatusBadData KeyErrorReserve)
     | Inr k \<Rightarrow> ret (rsp_ok (key_Id k)))"

definition FinishRedeemKeyForOrder :: "ext \<Rightarrow> string \<Rightarrow> key response io" where
  "FinishRedeemKeyForOrder X keyId =
     bind (attempt (keyrepo_FinishRedeemById X keyId)) (\<lambda>r. case r of
       Inl _ \<Rightarrow> ret (rsp_error ResponseStatusSystemError KeyErrorFinish)
     | Inr k \<Rightarrow> ret (rsp_ok k))"

definition CancelRedeemKeyForOrder :: "ext \<Rightarrow> string \<Rightarrow> unit response io" where
  "CancelRedeemKeyForOrder X keyId =
     bind (attempt (keyrepo_CancelById X keyId)) (\<lambda>r. case r of
       Inl _ \<Rightarrow> ret (rsp_error ResponseStatusSystemError KeyErrorCanceled)
     | Inr _ \<Rightarrow> ret (rsp_status_only ResponseStatusOk))"

definition cancel_unfinished :: "ext \<Rightarrow> int \<Rightarrow> key \<Rightarrow> int io" where
  "cancel_unfinished X counter k =
     bind (attempt (keyrepo_CancelById X (key_Id k))) (\<lambda>r. case r of
       Inl _ \<Rightarrow> ret counter
     | Inr _ \<Rightarrow> ret (counter + 1))"

definition KeyDaemonProcess :: "ext \<Rightarrow> int io" where
  "KeyDaemonProcess X =
     bind (keyrepo_FindUnfinished X) (\<lambda>keys. fold_go (cancel_unfinished X) 0 keys)"

text \<open>
  The notification that FinishRedeemKeyForOrder starts in the background. An error of the
  Redis lookup is swallowed (the code returns the outer, nil error). A key of an unknown platform is a nil
  pointer.
\<close>

text \<open>The apostrophe of the first message is U+2019, three bytes of UTF-8.\<close>

definition emptyKeyNotificationMessage :: "string \<Rightarrow> string \<Rightarrow> string" where
  "emptyKeyNotificationMessage name plat =
     ''You'' @ [CHR 0xE2, CHR 0x80, CHR 0x99] @
     ''re all out! There are no more keys available for '' @ name @ '' on '' @ plat @ ''.''"

definition minimalKeyNotificationMessage :: "int \<Rightarrow> string \<Rightarrow> string \<Rightarrow> string" where
  "minimalKeyNotificationMessage limit name plat =
     ''Your keys are running out! There are only '' @ show_int limit @ '' keys left for '' @
     name @ '' on '' @ plat @ ''.''"

definition keyNotifyModel :: "ext \<Rightarrow> project \<Rightarrow> key_product \<Rightarrow> platform \<Rightarrow> (string \<times> string) list" where
  "keyNotifyModel X p kp plat =
     [(''project_name'', go_get (Some (project_Name p)) ''en''), (''product_name'', kp_NameEn kp),
      (''platform_name'', plat_Name plat),
      (''minimal_limit'', show_int (kp_MinimalLimitNotify kp)),
      (''key_upload_url'', x_dashboard_url X @ ''/projects/'' @ project_Id p @ ''/game-keys/'' @ kp_Id kp)]"

definition checkAndNotifyProductKeys :: "ext \<Rightarrow> key \<Rightarrow> unit io" where
  "checkAndNotifyProductKeys X k =
     bind (keyproduct_GetById X (key_KeyProductId k)) (\<lambda>keyProduct.
     bind (keyrepo_CountKeysByProductPlatform X (key_KeyProductId k) (key_PlatformId k)) (\<lambda>count.
     if kp_MinimalLimitNotify keyProduct < count then ret ()
     else bind (deref (availablePlatforms (key_PlatformId k))) (\<lambda>plat.
          let empty = count \<le> 0;
              storageKey = (if empty then emptyKeysNotifyKey (key_KeyProductId k) (key_PlatformId k)
                            else minimalKeysNotifyKey (key_KeyProductId k) (key_PlatformId k));
              templateName = (if empty then x_empty_key_template X else x_minimal_key_template X);
              centrifugoMessage =
                (if empty then emptyKeyNotificationMessage (kp_NameEn keyProduct) (plat_Name plat)
                 else minimalKeyNotificationMessage (kp_MinimalLimitNotify keyProduct) (kp_NameEn keyProduct)
                        (plat_Name plat))
          in bind (attempt (bind (calling X) (\<lambda>_. gets (\<lambda>s. w_redis s storageKey)))) (\<lambda>redisRes.
             case redisRes of
               Inl _ \<Rightarrow> ret ()
             | Inr (Some _) \<Rightarrow> ret ()
             | Inr None \<Rightarrow>
               bind (project_GetById X (kp_ProjectId keyProduct)) (\<lambda>project.
               bind (merchant_GetById X (project_MerchantId project)) (\<lambda>merchant.
               bind (send X (SentEmail templateName (merchant_UserEmail merchant)
                       (keyNotifyModel X project keyProduct plat))) (\<lambda>_.
               bind (send X (SentCentrifugo (x_merchant_channel X (project_MerchantId project)) centrifugoMessage)) (\<lambda>_.
               bind (calling X) (\<lambda>_. modify (w_redis_update (\<lambda>m. m(storageKey \<mapsto> 1))))))))))))"

section \<open>The repository as an instance of the interfaces\<close>

interpretation keys: collection w_keys w_keys_update mgokey_Id
  by unfold_locales simp_all

definition key_canon :: "ext \<Rightarrow> key \<Rightarrow> bool" where
  "key_canon X k \<longleftrightarrow> canon_id X (key_Id k) \<and> canon_id X (key_KeyProductId k) \<and>
     (key_OrderId k = [] \<or> canon_id X (key_OrderId k)) \<and> canon_ts X (key_CreatedAt k) \<and>
     canon_ts X (key_ReservedTo k) \<and> canon_ts X (key_RedeemedAt k)"

lemma key_encode:
  assumes "key_canon X k"
  shows "\<exists>m. key_to_mgo X k = ret m \<and> key_from_mgo X m = Inr k \<and>
     x_oid_from_hex X (key_Id k) = Inr (mgokey_Id m)"
proof -
  have c: "canon_id X (key_Id k)" "canon_id X (key_KeyProductId k)"
    "canon_ts X (key_CreatedAt k)" "canon_ts X (key_ReservedTo k)" "canon_ts X (key_RedeemedAt k)"
    and o: "key_OrderId k = [] \<or> canon_id X (key_OrderId k)"
    using assms by (auto simp: key_canon_def)
  note r = c(1)[THEN canon_id_run] c(2)[THEN canon_id_run] c(3)[THEN canon_ts_run]
    c(4)[THEN canon_ts_run] c(5)[THEN canon_ts_run]
  show ?thesis using o
  proof
    assume "key_OrderId k = []"
    then show ?thesis using r by (cases k) (auto simp: key_to_mgo_def key_from_mgo_def)
  next
    assume "canon_id X (key_OrderId k)"
    then show ?thesis using r by (cases k) (auto simp: key_to_mgo_def key_from_mgo_def dest!: canon_id_run)
  qed
qed

interpretation key_repo: repository w_keys w_keys_update mgokey_Id X "key_to_mgo X" "key_from_mgo X"
  "key_canon X" key_Id for X
  by unfold_locales (rule key_encode)


section \<open>Reservation\<close>

definition available_count :: "oid \<Rightarrow> string \<Rightarrow> world \<Rightarrow> nat" where
  "available_count p plat s = length (filter (key_available p plat) (w_keys s))"

definition reserved_key :: "gotime \<Rightarrow> oid \<Rightarrow> mgo_key \<Rightarrow> mgo_key" where
  "reserved_key t ordr k = k\<lparr>mgokey_ReservedTo := t, mgokey_OrderId := Some ordr\<rparr>"

lemma reserve_key_exact:
  assumes run: "keyrepo_ReserveKey X kp plat ordr ttl s = (Inr k, s')"
    and ids: "x_oid_from_hex X kp = Inr p" "x_oid_from_hex X ordr = Inr ord_id"
  shows "\<exists>before d after. w_keys s = before @ d # after \<and> key_available p plat d \<and>
     (\<forall>x\<in>set before. \<not> key_available p plat x) \<and>
     key_from_mgo X (reserved_key (x_now X (w_tick s) + second * ttl) ord_id d) = Inr k \<and>
     s' = s\<lparr>w_keys := before @ reserved_key (x_now X (w_tick s) + second * ttl) ord_id d # after,
            w_tick := w_tick s + 2\<rparr>"
proof -
  let ?p = "key_available p plat"
  let ?f = "reserved_key (x_now X (w_tick s) + second * ttl) ord_id"
  have "wp (keyrepo_ReserveKey X kp plat ordr ttl) (\<lambda>r t. r = Inr k \<longrightarrow>
     (\<exists>d. find ?p (w_keys s) = Some d \<and> key_from_mgo X (?f d) = Inr k \<and>
        t = s\<lparr>w_keys := replace_first ?p (?f d) (w_keys s), w_tick := w_tick s + 2\<rparr>)) s"
    by (auto simp: keyrepo_ReserveKey_def ids time_now_def keys.wp_find_one_and_update reserved_key_def
        split: option.splits)
  then obtain d where d: "find ?p (w_keys s) = Some d" "key_from_mgo X (?f d) = Inr k"
    "s' = s\<lparr>w_keys := replace_first ?p (?f d) (w_keys s), w_tick := w_tick s + 2\<rparr>"
    using run by (auto simp: wp_def)
  from d(1) obtain as bs where "w_keys s = as @ d # bs" "?p d" "\<forall>x\<in>set as. \<not> ?p x"
    "\<And>y. replace_first ?p y (w_keys s) = as @ y # bs"
    by (rule find_splitE) blast
  with d(2,3) show ?thesis by auto
qed

lemma reserved_not_available [simp]: "\<not> key_available p plat (reserved_key t ordr d)"
  by (simp add: key_available_def reserved_key_def)

lemma reserve_key_count:
  assumes "keyrepo_ReserveKey X kp plat ordr ttl s = (Inr k, s')"
    and "x_oid_from_hex X kp = Inr p" "x_oid_from_hex X ordr = Inr ord_id"
  shows "available_count p plat s = Suc (available_count p plat s')"
proof -
  from reserve_key_exact[OF assms] obtain before d after where
    "w_keys s = before @ d # after" "key_available p plat d" "\<forall>x\<in>set before. \<not> key_available p plat x"
    and s': "s' = s\<lparr>w_keys := before @ reserved_key (x_now X (w_tick s) + second * ttl) ord_id d # after,
            w_tick := w_tick s + 2\<rparr>" by blast
  then show ?thesis by (simp add: available_count_def)
qed

lemma reserve_key_none:
  assumes "x_oid_from_hex X kp = Inr p" "available_count p plat s = 0"
  shows "\<exists>e. fst (ReserveKeyForOrder X kp plat ordr ttl s) = Inr (rsp_error ResponseStatusBadData KeyErrorReserve)
    \<and> w_keys (snd (ReserveKeyForOrder X kp plat ordr ttl s)) = w_keys s"
proof -
  have "find (key_available p plat) (w_keys s) = None"
    using assms(2) by (auto simp: available_count_def find_None_iff filter_empty_conv)
  then have "wp (ReserveKeyForOrder X kp plat ordr ttl) (\<lambda>r t. r = Inr (rsp_error ResponseStatusBadData KeyErrorReserve)
     \<and> w_keys t = w_keys s) s"
    by (auto simp: ReserveKeyForOrder_def keyrepo_ReserveKey_def assms time_now_def keys.wp_find_one_and_update
        split: option.splits sum.splits)
  then show ?thesis by (simp add: wp_def case_prod_beta)
qed

section \<open>The daemon\<close>

definition released_key :: "mgo_key \<Rightarrow> mgo_key" where
  "released_key k = k\<lparr>mgokey_ReservedTo := time_zero, mgokey_OrderId := None\<rparr>"

definition release_ids :: "oid set \<Rightarrow> mgo_key list \<Rightarrow> mgo_key list" where
  "release_ids D ks = map (\<lambda>k. if mgokey_Id k \<in> D then released_key k else k) ks"

definition key_valid :: "mgo_key \<Rightarrow> bool" where
  "key_valid k \<longleftrightarrow> ts_valid (mgokey_CreatedAt k) \<and> ts_valid (mgokey_ReservedTo k) \<and> ts_valid (mgokey_RedeemedAt k)"

lemma key_from_mgo_valid:
  assumes "codecs_ok X" "key_valid m"
  shows "\<exists>k. key_from_mgo X m = Inr k \<and> key_Id k = x_oid_hex X (mgokey_Id m)"
proof -
  from assms obtain c r e where "x_timestamp_proto X (mgokey_CreatedAt m) = Inr c"
    "x_timestamp_proto X (mgokey_ReservedTo m) = Inr r" "x_timestamp_proto X (mgokey_RedeemedAt m) = Inr e"
    unfolding key_valid_def by (meson codecs_ts)
  then show ?thesis by (simp add: key_from_mgo_def)
qed

lemma released_key_valid [simp]: "key_valid k \<Longrightarrow> key_valid (released_key k)"
  by (simp add: key_valid_def released_key_def)

lemma cancel_by_id_run:
  assumes X: "codecs_ok X" "\<forall>n. x_fault X n = None" and d: "distinct (map mgokey_Id (w_keys s))"
    and v: "\<forall>k\<in>set (w_keys s). key_valid k" and i: "i \<in> mgokey_Id ` set (w_keys s)"
  shows "\<exists>k. keyrepo_CancelById X (x_oid_hex X i) s =
     (Inr k, s\<lparr>w_keys := release_ids {i} (w_keys s), w_tick := Suc (w_tick s)\<rparr>)"
proof -
  obtain m where m: "find (\<lambda>k. mgokey_Id k = i) (w_keys s) = Some m"
    using i by (cases "find (\<lambda>k. mgokey_Id k = i) (w_keys s)") (auto simp: find_None_iff)
  have r: "replace_first (\<lambda>k. mgokey_Id k = i) (released_key m) (w_keys s) = release_ids {i} (w_keys s)"
    using replace_first_unique[OF d _ m, of i released_key] by (simp add: release_ids_def)
  have "key_valid m" using v find_SomeD[OF m] by blast
  then obtain k where "key_from_mgo X (released_key m) = Inr k"
    using key_from_mgo_valid[OF X(1)] released_key_valid by blast
  then have "wp (keyrepo_CancelById X (x_oid_hex X i)) (\<lambda>rr t. rr = Inr k \<and>
      t = s\<lparr>w_keys := release_ids {i} (w_keys s), w_tick := Suc (w_tick s)\<rparr>) s"
    using X m r by (simp add: keyrepo_CancelById_def codecs_hex keys.wp_find_one_and_update released_key_def)
  then show ?thesis by (auto simp: wp_def split: prod.splits)
qed

lemma release_ids_ids [simp]: "map mgokey_Id (release_ids D ks) = map mgokey_Id ks"
  by (simp add: release_ids_def released_key_def)

lemma release_ids_id_set [simp]: "mgokey_Id ` set (release_ids D ks) = mgokey_Id ` set ks"
  using release_ids_ids[of D ks] by (metis set_map)

lemma release_ids_insert: "release_ids (insert i D) ks = release_ids D (release_ids {i} ks)"
  by (simp add: release_ids_def released_key_def)

lemma release_ids_empty [simp]: "release_ids {} ks = ks"
  by (simp add: release_ids_def)

lemma release_ids_valid: "\<forall>k\<in>set ks. key_valid k \<Longrightarrow> \<forall>k\<in>set (release_ids D ks). key_valid k"
  by (auto simp: release_ids_def)

lemma cancel_all_run:
  assumes X: "codecs_ok X" "\<forall>n. x_fault X n = None"
  shows "distinct (map mgokey_Id (w_keys s)) \<Longrightarrow> \<forall>k\<in>set (w_keys s). key_valid k \<Longrightarrow> set is \<subseteq> mgokey_Id ` set (w_keys s) \<Longrightarrow>
    map key_Id ks = map (x_oid_hex X) is \<Longrightarrow>
    fold_go (cancel_unfinished X) c ks s =
      (Inr (c + int (length is)), s\<lparr>w_keys := release_ids (set is) (w_keys s), w_tick := w_tick s + length is\<rparr>)"
proof (induction "is" arbitrary: ks s c)
  case Nil
  then show ?case by (simp add: run_simps)
next
  case (Cons i is')
  then obtain k ks' where ks: "ks = k # ks'" "key_Id k = x_oid_hex X i" "map key_Id ks' = map (x_oid_hex X) is'"
    by auto
  let ?s = "s\<lparr>w_keys := release_ids {i} (w_keys s), w_tick := Suc (w_tick s)\<rparr>"
  obtain k' where "keyrepo_CancelById X (x_oid_hex X i) s = (Inr k', ?s)"
    using cancel_by_id_run[OF X Cons.prems(1,2), of i] Cons.prems(3) by auto
  then have "cancel_unfinished X c k s = (Inr (c + 1), ?s)"
    by (simp add: cancel_unfinished_def ks run_go)
  moreover have "fold_go (cancel_unfinished X) (c + 1) ks' ?s =
      (Inr (c + 1 + int (length is')), ?s\<lparr>w_keys := release_ids (set is') (w_keys ?s), w_tick := w_tick ?s + length is'\<rparr>)"
    using Cons.prems ks(3) by (intro Cons.IH) (auto intro: release_ids_valid[rule_format])
  ultimately show ?case
    by (simp add: ks run_go release_ids_insert[of i "set is'"])
qed

lemma key_daemon_run:
  assumes X: "codecs_ok X" "\<forall>n. x_fault X n = None" and d: "distinct (map mgokey_Id (w_keys s))"
    and v: "\<forall>k\<in>set (w_keys s). key_valid k"
  defines "now \<equiv> x_now X (w_tick s)"
  shows "\<exists>s'. KeyDaemonProcess X s = (Inr (int (length (filter (key_unfinished now) (w_keys s)))), s') \<and>
     w_keys s' = map (\<lambda>k. if key_unfinished now k then released_key k else k) (w_keys s)"
proof -
  let ?e = "filter (key_unfinished now) (w_keys s)"
  define s1 where "s1 = s\<lparr>w_tick := w_tick s + 2\<rparr>"
  obtain g where g: "\<And>m. m \<in> set (w_keys s) \<Longrightarrow> key_from_mgo X m = Inr (g m) \<and> key_Id (g m) = x_oid_hex X (mgokey_Id m)"
    using key_from_mgo_valid[OF X(1)] v by metis
  have "keyrepo_FindUnfinished X s = (Inr (map g ?e), s1)"
    using X(2) map_err_all[of ?e "key_from_mgo X" g] g
    by (simp add: keyrepo_FindUnfinished_def find_all_def calling_def time_now_def run_go s1_def now_def)
  moreover have "fold_go (cancel_unfinished X) 0 (map g ?e) s1 =
     (Inr (0 + int (length (map mgokey_Id ?e))),
      s1\<lparr>w_keys := release_ids (set (map mgokey_Id ?e)) (w_keys s1), w_tick := w_tick s1 + length (map mgokey_Id ?e)\<rparr>)"
    using d v g by (intro cancel_all_run X) (auto simp: s1_def)
  moreover have "release_ids (set (map mgokey_Id ?e)) (w_keys s) =
     map (\<lambda>k. if key_unfinished now k then released_key k else k) (w_keys s)"
    using d unfolding release_ids_def by (intro map_cong) (auto dest: distinct_map[THEN iffD1, THEN conjunct2, THEN inj_onD])
  ultimately show ?thesis
    by (simp add: KeyDaemonProcess_def run_go s1_def)
qed


section \<open>The upload\<close>

lemma scan_lines_text:
  assumes "\<forall>l\<in>set ls. CHR 0x0A \<notin> set l \<and> length l < limit \<and> (l = [] \<or> last l \<noteq> CHR 0x0D)"
  shows "scan_lines limit (concat (map (\<lambda>l. l @ [CHR 0x0A]) ls)) = (ls, True)"
  using assms
proof (induction ls)
  case Nil
  show ?case by (subst scan_lines.simps) simp
next
  case (Cons l ls)
  let ?rest = "concat (map (\<lambda>l. l @ [CHR 0x0A]) ls)"
  have nn: "\<And>c. c \<in> set l \<Longrightarrow> c \<noteq> CHR 0x0A" using Cons.prems by auto
  have "takeWhile (\<lambda>c. c \<noteq> CHR 0x0A) (l @ CHR 0x0A # ?rest) = l"
    and "dropWhile (\<lambda>c. c \<noteq> CHR 0x0A) (l @ CHR 0x0A # ?rest) = CHR 0x0A # ?rest"
    using takeWhile_append2[of l "\<lambda>c. c \<noteq> CHR 0x0A" "CHR 0x0A # ?rest", OF nn]
      dropWhile_append2[of l "\<lambda>c. c \<noteq> CHR 0x0A" "CHR 0x0A # ?rest", OF nn] by simp_all
  moreover have "strip_cr l = l" using Cons.prems by (auto simp: strip_cr_def)
  ultimately show ?case
    using Cons by (subst scan_lines.simps) simp
qed

lemma upload_line_step:
  assumes "upload_line X kp plat acc line s = (r, s')" and p: "x_oid_from_hex X kp = Inr p"
  shows "r = Inr acc \<and> w_keys s' = w_keys s \<or>
    (\<exists>m. r = Inr (int32 (fst acc + 1), int32 (snd acc + 1)) \<and> w_keys s' = w_keys s @ [m] \<and>
       key_available p plat m \<and> mgokey_Code m = line)"
proof -
  have "wp (upload_line X kp plat acc line) (\<lambda>r t. r = Inr acc \<and> w_keys t = w_keys s \<or>
    (\<exists>m. r = Inr (int32 (fst acc + 1), int32 (snd acc + 1)) \<and> w_keys t = w_keys s @ [m] \<and>
       key_available p plat m \<and> mgokey_Code m = line)) s"
    by (auto simp: upload_line_def new_oid_def keyrepo_Insert_def repo_insert_def key_to_mgo_def p
        time_or_zero_def time_or_now_def time_now_def keys.wp_insert_one key_available_def
        split: option.splits sum.splits)
  then show ?thesis using assms(1) by (auto simp: wp_def)
qed

lemma upload_lines:
  assumes p: "x_oid_from_hex X kp = Inr p"
  shows "fold_go (upload_line X kp plat) (int32 c, int32 n) ls s = (r, s') \<Longrightarrow>
    \<exists>new. r = Inr (int32 (c + int (length new)), int32 (n + int (length new))) \<and>
      w_keys s' = w_keys s @ new \<and> (\<forall>m\<in>set new. key_available p plat m) \<and>
      subseq (map mgokey_Code new) ls"
proof (induction ls arbitrary: c n s)
  case Nil
  then show ?case by (auto simp: run_simps intro!: exI[of _ "[]"])
next
  case (Cons l ls)
  obtain r1 s1 where 1: "upload_line X kp plat (int32 c, int32 n) l s = (r1, s1)" by fastforce
  from upload_line_step[OF 1 p] show ?case
  proof (elim disjE exE conjE)
    assume "r1 = Inr (int32 c, int32 n)" "w_keys s1 = w_keys s"
    with Cons.prems 1 Cons.IH[of c n s1] show ?thesis by (auto simp: run_go)
  next
    fix m assume m: "r1 = Inr (int32 (fst (int32 c, int32 n) + 1), int32 (snd (int32 c, int32 n) + 1))"
      "w_keys s1 = w_keys s @ [m]" "key_available p plat m" "mgokey_Code m = l"
    then have "fold_go (upload_line X kp plat) (int32 (c + 1), int32 (n + 1)) ls s1 = (r, s')"
      using Cons.prems 1 by (simp add: run_go int32_add)
    from Cons.IH[OF this] obtain new where "r = Inr (int32 (c + 1 + int (length new)), int32 (n + 1 + int (length new)))"
      "w_keys s' = w_keys s1 @ new" "\<forall>m\<in>set new. key_available p plat m" "subseq (map mgokey_Code new) ls"
      by blast
    then show ?thesis using m by (intro exI[of _ "m # new"]) (auto simp: algebra_simps)
  qed
qed

lemma wp_count_keys:
  assumes "x_oid_from_hex X kp = Inr p"
  shows "wp (keyrepo_CountKeysByProductPlatform X kp plat) Q s =
    (case x_fault X (w_tick s) of Some e \<Rightarrow> Q (Inl e) (s\<lparr>w_tick := Suc (w_tick s)\<rparr>)
     | None \<Rightarrow> Q (Inr (int (available_count p plat s))) (s\<lparr>w_tick := Suc (w_tick s)\<rparr>))"
  using assms by (simp add: keyrepo_CountKeysByProductPlatform_def count_documents_def keys.wp_find_all
      available_count_def split: option.splits)

lemma upload_keys:
  assumes run: "UploadKeysFile X kp plat file s = (r, s')" and p: "x_oid_from_hex X kp = Inr p"
  shows "\<exists>rsp new. r = Inr rsp \<and> w_keys s' = w_keys s @ new \<and>
    (\<forall>m\<in>set new. key_available p plat m) \<and>
    subseq (map mgokey_Code new) (fst (scan_lines max_scan_token_size file)) \<and>
    upload_KeysProcessed rsp = int32 (int (length new)) \<and>
    (upload_Status rsp = ResponseStatusNotFound \<or> upload_TotalCount rsp = int32 (int (available_count p plat s'))) \<and>
    (upload_Status rsp = ResponseStatusOk \<longrightarrow> snd (scan_lines max_scan_token_size file))"
proof -
  obtain ls ok where ls: "scan_lines max_scan_token_size file = (ls, ok)" by fastforce
  let ?P = "\<lambda>r s'. \<exists>rsp new. r = Inr rsp \<and> w_keys s' = w_keys s @ new \<and>
    (\<forall>m\<in>set new. key_available p plat m) \<and> subseq (map mgokey_Code new) ls \<and>
    upload_KeysProcessed rsp = int32 (int (length new)) \<and>
    (upload_Status rsp = ResponseStatusNotFound \<or> upload_TotalCount rsp = int32 (int (available_count p plat s'))) \<and>
    (upload_Status rsp = ResponseStatusOk \<longrightarrow> ok)"
  let ?t = "s\<lparr>w_tick := Suc (w_tick s)\<rparr>"
  have z: "int32 0 = 0" by (simp add: int32_id)
  have body: "wp (fold_go (upload_line X kp plat) (int32 (int (available_count p plat s)), 0) ls)
      (\<lambda>r t. \<exists>new. r = Inr (int32 (int (available_count p plat t)), int32 (int (length new))) \<and>
         w_keys t = w_keys s @ new \<and> (\<forall>m\<in>set new. key_available p plat m) \<and> subseq (map mgokey_Code new) ls) ?t"
  proof (rule wpI)
    fix r t assume "fold_go (upload_line X kp plat) (int32 (int (available_count p plat s)), 0) ls ?t = (r, t)"
    from upload_lines[OF p, of plat _ 0 ls ?t, unfolded z, OF this] obtain new where n:
      "r = Inr (int32 (int (available_count p plat s) + int (length new)), int32 (0 + int (length new)))"
      "w_keys t = w_keys s @ new" "\<forall>m\<in>set new. key_available p plat m" "subseq (map mgokey_Code new) ls"
      by auto
    then have "available_count p plat t = available_count p plat s + length new"
      by (simp add: available_count_def)
    with n show "\<exists>new. r = Inr (int32 (int (available_count p plat t)), int32 (int (length new))) \<and>
         w_keys t = w_keys s @ new \<and> (\<forall>m\<in>set new. key_available p plat m) \<and> subseq (map mgokey_Code new) ls"
      by auto
  qed
  have "wp (UploadKeysFile X kp plat file) ?P s"
  proof (cases "x_fault X (w_tick s)")
    case (Some e)
    then show ?thesis by (simp add: UploadKeysFile_def wp_count_keys[OF p] z)
  next
    case None
    show ?thesis
      unfolding UploadKeysFile_def ls
      apply (simp add: wp_count_keys[OF p] None del: wp_bind add: wp_bind[of "attempt _"])
      apply (subst wp_bind)
      apply (rule wp_mono[OF body])
      apply (auto simp: available_count_def split: sum.splits option.splits)
      done
  qed
  then show ?thesis using run ls by (auto simp: wp_def)
qed

section \<open>Properties\<close>

definition stock_key :: "oid \<Rightarrow> mgo_key" where
  "stock_key i = \<lparr>mgokey_Id = i, mgokey_Code = ''c'', mgokey_KeyProductId = 2, mgokey_PlatformId = ''steam'',
     mgokey_OrderId = None, mgokey_CreatedAt = 0, mgokey_ReservedTo = time_zero, mgokey_RedeemedAt = time_zero\<rparr>"

definition stock_world :: world where
  "stock_world = empty_world\<lparr>w_keys := [stock_key 1, stock_key 3]\<rparr>"

lemmas key_run_defs = keyrepo_ReserveKey_def find_one_and_update_def find_one_def calling_def time_now_def
  run_go stock_world_def stock_key_def empty_world_def sample_hex_roundtrip key_available_def key_from_mgo_def
  sample_timestamp_proto_def

text \<open>A key that was inserted is found under its id and read back unchanged.\<close>

theorem key_found_after_insert:
  assumes "key_canon X k" and "keyrepo_Insert X k s = (Inr (), s')" and "x_fault X (w_tick s') = None"
  shows "fst (keyrepo_GetById X (key_Id k) s') = Inr k"
  using key_repo.get_after_insert[of X k s s'] assms by (simp add: keyrepo_Insert_def keyrepo_GetById_def)

definition sample_key :: key where
  "sample_key = \<lparr>key_Id = sample_hex 5, key_Code = ''code'', key_KeyProductId = sample_hex 2,
     key_PlatformId = ''steam'', key_OrderId = [], key_CreatedAt = Some (Timestamp 5 0),
     key_ReservedTo = Some (Timestamp 6 0), key_RedeemedAt = Some (Timestamp 7 0)\<rparr>"

lemma key_found_after_insert_witness:
  "\<exists>s'. keyrepo_Insert sample_ext sample_key stock_world = (Inr (), s') \<and>
     fst (keyrepo_GetById sample_ext (key_Id sample_key) s') = Inr sample_key"
proof -
  have c: "key_canon sample_ext sample_key"
    by (simp add: key_canon_def sample_key_def sample_canon_id sample_canon_ts)
  obtain s' where r: "keyrepo_Insert sample_ext sample_key stock_world = (Inr (), s')"
    by (simp add: keyrepo_Insert_def repo_insert_def key_to_mgo_def sample_key_def sample_hex_roundtrip run_go
        time_or_zero_def time_or_now_def insert_one_def calling_def stock_world_def stock_key_def empty_world_def)
  then show ?thesis using key_found_after_insert[OF c r] by simp
qed

text \<open>C29: A successful reservation takes the first available key of the product and platform, binds
  it to the order until ttl seconds from now and leaves every other document, and the rest of
  the state, as it was; the number of available keys falls by one.\<close>

theorem reserve_key_effect:
  assumes "keyrepo_ReserveKey X kp plat ordr ttl s = (Inr k, s')"
    and "x_oid_from_hex X kp = Inr p" and "x_oid_from_hex X ordr = Inr ord_id"
  shows "available_count p plat s = Suc (available_count p plat s') \<and>
    (\<exists>before d after. w_keys s = before @ d # after \<and> key_available p plat d \<and>
       (\<forall>x\<in>set before. \<not> key_available p plat x) \<and>
       s' = s\<lparr>w_keys := before @ d\<lparr>mgokey_ReservedTo := x_now X (w_tick s) + second * ttl,
                                  mgokey_OrderId := Some ord_id\<rparr> # after, w_tick := w_tick s + 2\<rparr>)"
  using reserve_key_exact[OF assms] reserve_key_count[OF assms] unfolding reserved_key_def by blast

lemma reserve_key_effect_witness:
  "\<exists>k s'. keyrepo_ReserveKey sample_ext (sample_hex 2) ''steam'' (sample_hex 7) 60 stock_world = (Inr k, s') \<and>
     available_count 2 ''steam'' stock_world = Suc (available_count 2 ''steam'' s')"
proof -
  obtain k s' where 1: "keyrepo_ReserveKey sample_ext (sample_hex 2) ''steam'' (sample_hex 7) 60 stock_world = (Inr k, s')"
    by (simp add: key_run_defs)
  show ?thesis using 1 reserve_key_effect[OF 1] by (auto simp: sample_hex_roundtrip)
qed

text \<open>An upload appends, in file order, one available document per accepted line and nothing
  else, whichever inserts fail: KeysProcessed is their number, TotalCount the number of available
  keys afterwards (both as int32), and the status is Ok only when the whole file was scanned.\<close>

theorem upload_accounts_for_file:
  assumes "UploadKeysFile X kp plat body s = (r, s')" and "x_oid_from_hex X kp = Inr p"
  shows "\<exists>rsp new. r = Inr rsp \<and> w_keys s' = w_keys s @ new \<and>
    (\<forall>m\<in>set new. key_available p plat m) \<and>
    subseq (map mgokey_Code new) (fst (scan_lines max_scan_token_size body)) \<and>
    upload_KeysProcessed rsp = int32 (int (length new)) \<and>
    (upload_Status rsp = ResponseStatusNotFound \<or> upload_TotalCount rsp = int32 (int (available_count p plat s'))) \<and>
    (upload_Status rsp = ResponseStatusOk \<longrightarrow> snd (scan_lines max_scan_token_size body))"
  using upload_keys[OF assms] .

lemma upload_accounts_for_file_witness:
  "\<exists>rsp s' new. UploadKeysFile sample_ext (sample_hex 2) ''steam'' ''k'' stock_world = (Inr rsp, s') \<and>
     w_keys s' = w_keys stock_world @ new \<and> upload_KeysProcessed rsp = int32 (int (length new))"
proof -
  obtain r s' where 1: "UploadKeysFile sample_ext (sample_hex 2) ''steam'' ''k'' stock_world = (r, s')" by fastforce
  show ?thesis using upload_accounts_for_file[OF 1, of 2] 1 by (auto simp: sample_hex_roundtrip)
qed

text \<open>C33: When no call fails, the key daemon releases exactly the keys whose deadline has passed,
  leaves all others alone and returns the number it released.\<close>

theorem daemon_releases_expired:
  assumes "codecs_ok X" and "\<forall>n. x_fault X n = None" and "distinct (map mgokey_Id (w_keys s))"
    and "\<forall>k\<in>set (w_keys s). key_valid k"
    and "expired = (\<lambda>k. time_zero < mgokey_ReservedTo k \<and> mgokey_ReservedTo k < x_now X (w_tick s))"
  shows "\<exists>s'. KeyDaemonProcess X s = (Inr (int (length (filter expired (w_keys s)))), s') \<and>
     w_keys s' = map (\<lambda>k. if expired k then k\<lparr>mgokey_ReservedTo := time_zero, mgokey_OrderId := None\<rparr> else k) (w_keys s)"
proof -
  have "key_unfinished (x_now X (w_tick s)) = expired" by (simp add: fun_eq_iff key_unfinished_def assms(5))
  then show ?thesis using key_daemon_run[OF assms(1-4)] unfolding released_key_def by simp
qed

lemma daemon_releases_expired_witness:
  "\<exists>s'. KeyDaemonProcess sample_ext (stock_world\<lparr>w_keys := [stock_key 1, stock_key 3\<lparr>mgokey_ReservedTo := 5\<rparr>]\<rparr>) = (Inr 1, s')"
  using daemon_releases_expired[OF sample_codecs_ok _ _ _ refl, of "stock_world\<lparr>w_keys := [stock_key 1, stock_key 3\<lparr>mgokey_ReservedTo := 5\<rparr>]\<rparr>"]
  by (auto simp: stock_key_def stock_world_def empty_world_def key_valid_def ts_valid_def time_zero_def key_unfinished_def)

end
