(* ===== verification/KeyLifecycle.thy ===== *)
theory KeyLifecycle
  imports Keys
begin

text \<open>
  The life of a key under every interleaving of the handlers and of the key daemon. The
  daemon is not atomic: it first reads the expired keys and then cancels them one by one, so
  a configuration is a world and the ids the daemon still has to cancel; a step is one
  handler call or one iteration of the daemon. \<open>key_run\<close> are the executions.
\<close>

datatype key_action =
    KUpload string string string
  | KReserve string string string int
  | KFinish string
  | KCancel string
  | KDaemonFind
  | KDaemonCancel string

type_synonym key_config = "world \<times> string list"

inductive key_step :: "ext \<Rightarrow> key_config \<Rightarrow> key_action \<Rightarrow> key_config \<Rightarrow> bool" for X where
  upload: "UploadKeysFile X kp plat file s = (r, s') \<Longrightarrow> key_step X (s, P) (KUpload kp plat file) (s', P)"
| reserve: "ReserveKeyForOrder X kp plat ordr ttl s = (r, s') \<Longrightarrow>
    key_step X (s, P) (KReserve kp plat ordr ttl) (s', P)"
| finish: "FinishRedeemKeyForOrder X i s = (r, s') \<Longrightarrow> key_step X (s, P) (KFinish i) (s', P)"
| cancel: "CancelRedeemKeyForOrder X i s = (r, s') \<Longrightarrow> key_step X (s, P) (KCancel i) (s', P)"
| daemon_find: "keyrepo_FindUnfinished X s = (Inr ks, s') \<Longrightarrow>
    key_step X (s, []) KDaemonFind (s', map key_Id ks)"
| daemon_cancel: "keyrepo_CancelById X i s = (r, s') \<Longrightarrow>
    key_step X (s, i # P) (KDaemonCancel i) (s', P)"

inductive key_run :: "ext \<Rightarrow> key_config \<Rightarrow> key_action list \<Rightarrow> key_config \<Rightarrow> bool" for X where
  stop: "key_run X c [] c"
| step: "key_step X c a c' \<Longrightarrow> key_run X c' as c'' \<Longrightarrow> key_run X c (a # as) c''"

inductive_cases key_stepE: "key_step X c a c'"
inductive_simps key_run_simps: "key_run X c [] c'" "key_run X c (a # as) c'"

lemma key_run_keeps:
  assumes "key_run X c as c'"
  shows "Q c \<Longrightarrow> (\<And>c a c'. a \<in> set as \<Longrightarrow> key_step X c a c' \<Longrightarrow> Q c \<Longrightarrow> Q c') \<Longrightarrow> Q c'"
  using assms
proof (induction rule: key_run.induct)
  case (step c a c' as c'')
  have "Q c'" using step.prems(2)[of a c c'] step.prems(1) step.hyps(1) by simp
  then show ?case using step.IH step.prems(2) by (meson list.set_intros(2))
qed

section \<open>The interface of an invariant of the stored keys\<close>

definition finished_key :: "gotime \<Rightarrow> mgo_key \<Rightarrow> mgo_key" where
  "finished_key t k = k\<lparr>mgokey_ReservedTo := time_zero, mgokey_RedeemedAt := t\<rparr>"

text \<open>The ids an action may release.\<close>

definition releases :: "ext \<Rightarrow> key_action \<Rightarrow> oid \<Rightarrow> bool" where
  "releases X a d = (case a of KCancel i \<Rightarrow> x_oid_from_hex X i = Inr d
     | KDaemonCancel i \<Rightarrow> x_oid_from_hex X i = Inr d | _ \<Rightarrow> False)"

text \<open>
  \<open>J\<close> of the stored keys survives every step that releases only ids satisfying \<open>R\<close>, when it
  survives the four writes of the repository.
\<close>

locale key_invariant =
  fixes J :: "mgo_key list \<Rightarrow> bool" and R :: "oid \<Rightarrow> bool"
  assumes append: "J ks \<Longrightarrow> mgokey_OrderId m = None \<Longrightarrow> mgokey_ReservedTo m = time_zero \<Longrightarrow>
      mgokey_RedeemedAt m = time_zero \<Longrightarrow> mgokey_Id m \<notin> mgokey_Id ` set ks \<Longrightarrow> J (ks @ [m])"
    and reserve: "J ks \<Longrightarrow> find (key_available p plat) ks = Some d \<Longrightarrow>
      J (replace_first (key_available p plat) (reserved_key t i d) ks)"
    and finish: "J ks \<Longrightarrow> find (\<lambda>k. mgokey_Id k = j) ks = Some d \<Longrightarrow>
      J (replace_first (\<lambda>k. mgokey_Id k = j) (finished_key t d) ks)"
    and release: "J ks \<Longrightarrow> R j \<Longrightarrow> find (\<lambda>k. mgokey_Id k = j) ks = Some d \<Longrightarrow>
      J (replace_first (\<lambda>k. mgokey_Id k = j) (released_key d) ks)"
begin

abbreviation I :: "world \<Rightarrow> bool" where "I s \<equiv> J (w_keys s)"

lemma tick: "tick_stable I"
  by (simp add: tick_stable_def)

lemma keeps_upload_line: "keeps I (upload_line X kp plat acc l)"
  by (auto simp: keeps_wp upload_line_def new_oid_def keyrepo_Insert_def repo_insert_def key_to_mgo_def
      time_or_zero_def time_or_now_def time_now_def keys.wp_insert_one intro!: append
      split: option.splits sum.splits)

lemma keeps_count: "keeps I (keyrepo_CountKeysByProductPlatform X kp plat)"
  unfolding keyrepo_CountKeysByProductPlatform_def count_documents_def
  by (intro keeps_intros keys.keeps_find_all tick)

lemma keeps_upload: "keeps I (UploadKeysFile X kp plat body)"
  unfolding UploadKeysFile_def
  by (auto intro!: keeps_intros keeps_upload_line keeps_count keeps_modify tick split: prod.split)

lemma keeps_reserve: "keeps I (keyrepo_ReserveKey X kp plat ordr ttl)"
  by (auto simp: keeps_wp keyrepo_ReserveKey_def time_now_def keys.wp_find_one_and_update
      intro!: reserve[unfolded reserved_key_def] split: option.splits sum.splits)

lemma keeps_finish: "keeps I (keyrepo_FinishRedeemById X i)"
  by (auto simp: keeps_wp keyrepo_FinishRedeemById_def time_now_def keys.wp_find_one_and_update
      intro!: finish[unfolded finished_key_def] split: option.splits sum.splits)

lemma keeps_cancel: "(\<And>d. x_oid_from_hex X i = Inr d \<Longrightarrow> R d) \<Longrightarrow> keeps I (keyrepo_CancelById X i)"
  by (auto simp: keeps_wp keyrepo_CancelById_def keys.wp_find_one_and_update
      intro!: release[unfolded released_key_def] split: option.splits sum.splits)

lemma keeps_unfinished: "keeps I (keyrepo_FindUnfinished X)"
  unfolding keyrepo_FindUnfinished_def by (intro keeps_intros keys.keeps_find_all tick)

lemma step:
  assumes "key_step X c a c'" and "\<And>d. releases X a d \<Longrightarrow> R d" and "I (fst c)"
  shows "I (fst c')"
  using assms
proof (cases rule: key_step.cases)
  case (cancel i s r s' P)
  then have "keeps I (CancelRedeemKeyForOrder X i)"
    using assms(2) unfolding CancelRedeemKeyForOrder_def
    by (intro keeps_intros keeps_cancel) (auto simp: releases_def)
  then show ?thesis using cancel assms(3) by (auto dest: keepsD)
next
  case (daemon_cancel i s r s' P)
  then have "keeps I (keyrepo_CancelById X i)"
    using assms(2) by (intro keeps_cancel) (auto simp: releases_def)
  then show ?thesis using daemon_cancel assms(3) by (auto dest: keepsD)
next
  case (reserve kp plat ordr ttl s r s' P)
  have "keeps I (ReserveKeyForOrder X kp plat ordr ttl)"
    unfolding ReserveKeyForOrder_def by (intro keeps_intros keeps_reserve)
  then show ?thesis using reserve assms(3) by (auto dest: keepsD)
next
  case (finish i s r s' P)
  have "keeps I (FinishRedeemKeyForOrder X i)"
    unfolding FinishRedeemKeyForOrder_def by (intro keeps_intros keeps_finish)
  then show ?thesis using finish assms(3) by (auto dest: keepsD)
qed (auto dest: keepsD[OF keeps_upload] keepsD[OF keeps_unfinished])

lemma run:
  assumes "key_run X c as c'" and "\<And>a d. a \<in> set as \<Longrightarrow> releases X a d \<Longrightarrow> R d" and "I (fst c)"
  shows "I (fst c')"
proof (rule key_run_keeps[OF assms(1), where Q = "\<lambda>c. I (fst c)"])
  show "I (fst c')" if "a \<in> set as" "key_step X c a c'" "I (fst c)" for c a c'
    using step[OF that(2)] assms(2) that by blast
qed (rule assms(3))

end

section \<open>Three invariants\<close>

text \<open>A deadline is only ever set together with the order it is set for.\<close>

definition deadline_bound :: "mgo_key list \<Rightarrow> bool" where
  "deadline_bound ks \<longleftrightarrow> (\<forall>k\<in>set ks. mgokey_ReservedTo k \<noteq> time_zero \<longrightarrow> mgokey_OrderId k \<noteq> None)"

text \<open>The key with id \<open>d\<close> is bound to the order \<open>ord\<close>.\<close>

definition key_bound :: "oid \<Rightarrow> oid \<Rightarrow> mgo_key list \<Rightarrow> bool" where
  "key_bound d ord ks \<longleftrightarrow> (\<exists>k. find (\<lambda>k. mgokey_Id k = d) ks = Some k \<and> mgokey_OrderId k = Some ord)"

lemma all_replace_first:
  "\<forall>x\<in>set xs. P x \<Longrightarrow> P y \<Longrightarrow> x \<in> set (replace_first q y xs) \<Longrightarrow> P x"
  using set_replace_first[of q y xs] by auto

lemma deadline_bound_write:
  "deadline_bound ks \<Longrightarrow> mgokey_ReservedTo y = time_zero \<or> mgokey_OrderId y \<noteq> None \<Longrightarrow>
    deadline_bound (replace_first q y ks)"
  using set_replace_first[of q y ks] by (auto simp: deadline_bound_def)

interpretation deadlines: key_invariant deadline_bound "\<lambda>_. True"
  by unfold_locales
    (auto intro!: deadline_bound_write simp: reserved_key_def finished_key_def released_key_def,
      auto simp: deadline_bound_def)

interpretation key_ids: key_invariant "\<lambda>ks. distinct (map mgokey_Id ks)" "\<lambda>_. True"
proof unfold_locales
  have rw: "distinct (map mgokey_Id (replace_first p (f d) ks))"
    if "distinct (map mgokey_Id ks)" "find p ks = Some d" "mgokey_Id (f d) = mgokey_Id d" for p f d and ks :: "mgo_key list"
    using keys.replace_first_update_ids[of p ks d f, OF that(2,3)] that(1) by simp
  note w = rw[where f = "reserved_key _ _"] rw[where f = "finished_key _"] rw[where f = released_key]
  show "distinct (map mgokey_Id (replace_first (key_available p plat) (reserved_key t i d) ks))"
    if "distinct (map mgokey_Id ks)" "find (key_available p plat) ks = Some d" for ks p plat d t i
    using that by (intro w) (auto simp: reserved_key_def)
  show "distinct (map mgokey_Id (replace_first (\<lambda>k. mgokey_Id k = j) (finished_key t d) ks))"
    if "distinct (map mgokey_Id ks)" "find (\<lambda>k. mgokey_Id k = j) ks = Some d" for ks j d t
    using that by (intro w) (auto simp: finished_key_def)
  show "distinct (map mgokey_Id (replace_first (\<lambda>k. mgokey_Id k = j) (released_key d) ks))"
    if "distinct (map mgokey_Id ks)" "find (\<lambda>k. mgokey_Id k = j) ks = Some d" for ks j d
    using that by (intro w) (auto simp: released_key_def)
qed auto

lemma key_bound_write:
  assumes "key_bound i ord ks" and "find p ks = Some d" and "\<And>x. mgokey_Id (f x) = mgokey_Id x"
    and "\<And>k. p k \<Longrightarrow> mgokey_Id k = i \<Longrightarrow> mgokey_OrderId k = Some ord \<Longrightarrow> mgokey_OrderId (f k) = Some ord"
  shows "key_bound i ord (replace_first p (f d) ks)"
proof -
  obtain k where k: "find (\<lambda>k. mgokey_Id k = i) ks = Some k" "mgokey_OrderId k = Some ord"
    using assms(1) by (auto simp: key_bound_def)
  then have "mgokey_Id k = i" by (auto dest: find_SomeD)
  then show ?thesis
    using find_after_update[OF k(1) assms(2), of f] assms(3,4) k(2) by (auto simp: key_bound_def)
qed

interpretation bound_key: key_invariant "key_bound i ord" "\<lambda>j. j \<noteq> i" for i ord
proof unfold_locales
  show "key_bound i ord (ks @ [m])" if "key_bound i ord ks" for ks m
    using that by (auto simp: key_bound_def find_append)
  show "key_bound i ord (replace_first (key_available p plat) (reserved_key t j d) ks)"
    if "key_bound i ord ks" "find (key_available p plat) ks = Some d" for ks p plat t j d
    using that by (rule key_bound_write) (auto simp: reserved_key_def key_available_def)
  show "key_bound i ord (replace_first (\<lambda>k. mgokey_Id k = j) (finished_key t d) ks)"
    if "key_bound i ord ks" "find (\<lambda>k. mgokey_Id k = j) ks = Some d" for ks j t d
    using that by (rule key_bound_write) (auto simp: finished_key_def)
  show "key_bound i ord (replace_first (\<lambda>k. mgokey_Id k = j) (released_key d) ks)"
    if "key_bound i ord ks" "j \<noteq> i" "find (\<lambda>k. mgokey_Id k = j) ks = Some d" for ks j d
    using that(1,3) by (rule key_bound_write) (use that(2) in \<open>auto simp: released_key_def\<close>)
qed

section \<open>Exclusive reservations\<close>

lemma reserve_binds:
  assumes run: "keyrepo_ReserveKey X kp plat ordr ttl s = (Inr k, s')"
    and d: "distinct (map mgokey_Id (w_keys s))"
    and ids: "x_oid_from_hex X kp = Inr p" "x_oid_from_hex X ordr = Inr ord_id"
  shows "\<exists>i. key_Id k = x_oid_hex X i \<and> key_bound i ord_id (w_keys s') \<and> (\<forall>o1. \<not> key_bound i o1 (w_keys s))"
proof -
  from reserve_key_exact[OF run ids] obtain before d after where
    s: "w_keys s = before @ d # after" and av: "key_available p plat d" and
    k: "key_from_mgo X (reserved_key (x_now X (w_tick s) + second * ttl) ord_id d) = Inr k" and
    s': "w_keys s' = before @ reserved_key (x_now X (w_tick s) + second * ttl) ord_id d # after"
    by auto
  have nf: "find (\<lambda>k. mgokey_Id k = mgokey_Id d) before = None"
    using assms(2) by (auto simp: find_None_iff s) (metis imageI)
  show ?thesis
  proof (intro exI[of _ "mgokey_Id d"] conjI allI)
    show "key_Id k = x_oid_hex X (mgokey_Id d)"
      using k by (auto simp: key_from_mgo_def bind_err_eq_Inr reserved_key_def)
  qed (use nf av in \<open>auto simp: key_bound_def s s' find_append key_available_def reserved_key_def\<close>)
qed

text \<open>C3: A key that was reserved is never handed out again before it is released: in every
  execution of uploads, reservations, redemptions, cancellations and daemon iterations that
  releases other keys only, a later successful reservation returns a different key.\<close>

theorem key_reserved_once:
  assumes "codecs_ok X" and "distinct (map mgokey_Id (w_keys s))"
    and "keyrepo_ReserveKey X kp plat ordr ttl s = (Inr k, s1)"
    and "key_run X (s1, P) as (s2, P')"
    and "\<forall>a\<in>set as. \<forall>d. releases X a d \<longrightarrow> x_oid_hex X d \<noteq> key_Id k"
    and "keyrepo_ReserveKey X kp' plat' ordr' ttl' s2 = (Inr k', s3)"
  shows "key_Id k' \<noteq> key_Id k"
proof -
  have reads: "\<exists>p q. x_oid_from_hex X kp = Inr p \<and> x_oid_from_hex X ordr = Inr q"
    if "keyrepo_ReserveKey X kp plat ordr ttl s = (Inr k, s1)" for kp plat ordr ttl s k s1
    using that by (auto simp: keyrepo_ReserveKey_def run_go split: sum.splits prod.splits)
  obtain p ord_id where ids: "x_oid_from_hex X kp = Inr p" "x_oid_from_hex X ordr = Inr ord_id"
    using reads[OF assms(3)] by blast
  obtain p' ord' where ids': "x_oid_from_hex X kp' = Inr p'" "x_oid_from_hex X ordr' = Inr ord'"
    using reads[OF assms(6)] by blast
  obtain i where i: "key_Id k = x_oid_hex X i" "key_bound i ord_id (w_keys s1)"
    using reserve_binds[OF assms(3,2) ids] by blast
  have "key_bound i ord_id (w_keys (fst (s2, P')))"
    using assms(5) i by (intro bound_key.run[OF assms(4)]) auto
  moreover have "distinct (map mgokey_Id (w_keys s1))"
    using key_ids.keeps_reserve assms(2,3) by (rule keepsD)
  then have "distinct (map mgokey_Id (w_keys (fst (s2, P'))))"
    by (intro key_ids.run[OF assms(4)]) auto
  ultimately obtain i' where "key_Id k' = x_oid_hex X i'" "i' \<noteq> i"
    using reserve_binds[OF assms(6) _ ids'] by force
  then show ?thesis using i(1) codecs_hex[OF assms(1)] by (metis sum.inject(2))
qed

lemma key_reserved_once_witness:
  "\<exists>s1 s3 k k'. keyrepo_ReserveKey sample_ext (sample_hex 2) ''steam'' (sample_hex 7) 60 stock_world = (Inr k, s1) \<and>
     keyrepo_ReserveKey sample_ext (sample_hex 2) ''steam'' (sample_hex 8) 60 s1 = (Inr k', s3) \<and> key_Id k' \<noteq> key_Id k"
proof -
  obtain k s1 where 1: "keyrepo_ReserveKey sample_ext (sample_hex 2) ''steam'' (sample_hex 7) 60 stock_world = (Inr k, s1)"
    by (simp add: key_run_defs)
  obtain k' s3 where 2: "keyrepo_ReserveKey sample_ext (sample_hex 2) ''steam'' (sample_hex 8) 60 s1 = (Inr k', s3)"
    using 1 by (auto simp: key_run_defs)
  have "key_Id k' \<noteq> key_Id k"
    by (rule key_reserved_once[OF sample_codecs_ok _ 1 key_run.stop[of _ "(s1, [])"] _ 2])
      (simp_all add: stock_world_def stock_key_def)
  then show ?thesis using 1 2 by blast
qed

text \<open>C32: The deadline of a key is only ever set together with the order that holds it: in every
  execution that starts from keys with this property, each key that the daemon finds expired is
  bound to an order.\<close>

theorem key_expired_is_bound:
  assumes "key_run X (s, P) as (s', P')" and "deadline_bound (w_keys s)"
    and "k \<in> set (w_keys s')" and "key_unfinished now k"
  shows "mgokey_OrderId k \<noteq> None"
proof -
  have "deadline_bound (w_keys (fst (s', P')))"
    using assms(2) by (intro deadlines.run[OF assms(1)]) auto
  then show ?thesis using assms(3,4) by (auto simp: deadline_bound_def key_unfinished_def)
qed

lemma key_expired_is_bound_witness:
  "\<exists>s1 k. key_run sample_ext (stock_world, []) [KReserve (sample_hex 2) ''steam'' (sample_hex 7) 60] (s1, []) \<and>
     k \<in> set (w_keys s1) \<and> key_unfinished (2000 * second) k \<and> mgokey_OrderId k \<noteq> None"
proof -
  obtain r s1 where 1: "ReserveKeyForOrder sample_ext (sample_hex 2) ''steam'' (sample_hex 7) 60 stock_world = (r, s1)"
    by fastforce
  have run: "key_run sample_ext (stock_world, []) [KReserve (sample_hex 2) ''steam'' (sample_hex 7) 60] (s1, [])"
    using 1 by (auto intro: key_step.reserve key_run.intros)
  let ?k = "hd (w_keys s1)"
  have k: "?k \<in> set (w_keys s1)" "key_unfinished (2000 * second) ?k"
    using 1 by (auto simp: ReserveKeyForOrder_def key_run_defs key_unfinished_def second_def time_zero_def)
  have "mgokey_OrderId ?k \<noteq> None"
    by (rule key_expired_is_bound[OF run _ k]) (simp add: stock_world_def stock_key_def deadline_bound_def)
  then show ?thesis using run k by blast
qed

text \<open>C30: The daemon can put a redeemed key back on sale. It collects the expired keys first; when
  the redemption of one of them completes before the daemon cancels it, the cancellation, which
  looks at the id only, clears the order of the redeemed key, and the key is available again.\<close>

theorem daemon_resells_redeemed_key:
  "\<exists>as s' k. key_run sample_ext (stock_world, []) as (s', []) \<and> (\<forall>i. KCancel i \<notin> set as) \<and>
     k \<in> set (w_keys s') \<and> mgokey_RedeemedAt k \<noteq> time_zero \<and> key_available 2 ''steam'' k"
proof -
  obtain r1 s1 where 1: "ReserveKeyForOrder sample_ext (sample_hex 2) ''steam'' (sample_hex 7) 0 stock_world = (r1, s1)"
    by fastforce
  obtain k2 s2 where 2: "keyrepo_FindUnfinished sample_ext s1 = (Inr [k2], s2)" "key_Id k2 = sample_hex 1"
    using 1 by (auto simp: ReserveKeyForOrder_def key_run_defs keyrepo_FindUnfinished_def find_all_def
        key_unfinished_def second_def time_zero_def)
  obtain r3 s3 where 3: "FinishRedeemKeyForOrder sample_ext (sample_hex 1) s2 = (r3, s3)" by fastforce
  obtain r4 s4 where 4: "keyrepo_CancelById sample_ext (sample_hex 1) s3 = (r4, s4)" by fastforce
  have "w_keys s2 = w_keys s1"
    using 1 2 by (auto simp: ReserveKeyForOrder_def key_run_defs keyrepo_FindUnfinished_def find_all_def)
  with 1 have s2: "w_keys s2 = [stock_key 1\<lparr>mgokey_ReservedTo := 1000 * second, mgokey_OrderId := Some 7\<rparr>, stock_key 3]"
    by (auto simp: ReserveKeyForOrder_def key_run_defs second_def)
  have s3: "\<exists>t. t \<noteq> time_zero \<and> w_keys s3 = [stock_key 1\<lparr>mgokey_ReservedTo := time_zero, mgokey_OrderId := Some 7,
      mgokey_RedeemedAt := t\<rparr>, stock_key 3]"
    using 3 s2 by (auto simp: FinishRedeemKeyForOrder_def keyrepo_FinishRedeemById_def key_run_defs time_zero_def)
  then have s4: "\<exists>t. t \<noteq> time_zero \<and> w_keys s4 = [stock_key 1\<lparr>mgokey_ReservedTo := time_zero, mgokey_OrderId := None,
      mgokey_RedeemedAt := t\<rparr>, stock_key 3]"
    using 4 by (auto simp: keyrepo_CancelById_def key_run_defs)
  let ?as = "[KReserve (sample_hex 2) ''steam'' (sample_hex 7) 0, KDaemonFind, KFinish (sample_hex 1),
      KDaemonCancel (sample_hex 1)]"
  have "key_run sample_ext (stock_world, []) ?as (s4, [])"
    using key_step.reserve[OF 1, of "[]"] key_step.daemon_find[OF 2(1)] key_step.finish[OF 3, of "[sample_hex 1]"]
      key_step.daemon_cancel[OF 4, of "[]"] 2(2) by (auto intro!: key_run.intros)
  moreover have "hd (w_keys s4) \<in> set (w_keys s4) \<and> mgokey_RedeemedAt (hd (w_keys s4)) \<noteq> time_zero \<and>
      key_available 2 ''steam'' (hd (w_keys s4))"
    using s4 by (auto simp: key_available_def stock_key_def)
  ultimately show ?thesis by (intro exI[of _ ?as] exI[of _ s4] exI[of _ "hd (w_keys s4)"]) simp
qed

end
