(* ===== verification/Cache.thy ===== *)
theory Cache
  imports Lookups
begin

text \<open>
  The cache (internal/database/cache.go) as the repositories use it, and the sorted queries of
  the driver. A cached value is a gob copy, so it shares nothing with the document in the
  caller's hands; reading a key that is absent, or that holds another type, is an error, and so is
  reading into a nil pointer.
\<close>

section \<open>The cache\<close>

definition cache_set :: "ext \<Rightarrow> string \<Rightarrow> cached \<Rightarrow> unit io" where
  "cache_set X k v = bind (calling X) (\<lambda>_. modify (w_cache_update (\<lambda>m. m(k \<mapsto> v))))"

definition cache_delete :: "ext \<Rightarrow> string \<Rightarrow> unit io" where
  "cache_delete X k = bind (calling X) (\<lambda>_. modify (w_cache_update (\<lambda>m. m(k := None))))"

definition cache_miss :: go_err where "cache_miss = ErrOther ''redis: nil''"

definition cache_get :: "ext \<Rightarrow> (cached \<Rightarrow> 'a option) \<Rightarrow> string \<Rightarrow> 'a io" where
  "cache_get X sel k = bind (calling X) (\<lambda>_. bind (gets (\<lambda>s. w_cache s k)) (\<lambda>c.
     case c of None \<Rightarrow> throw cache_miss
     | Some v \<Rightarrow> (case sel v of None \<Rightarrow> throw cache_miss | Some a \<Rightarrow> ret a)))"

fun as_report :: "cached \<Rightarrow> royalty_report option" where
  "as_report (CachedReport r) = Some r"
| "as_report _ = None"

fun as_payout :: "cached \<Rightarrow> payout option" where
  "as_payout (CachedPayout p) = Some p"
| "as_payout _ = None"

text \<open>\<open>cache.Get(key, p)\<close> with a nil pointer \<open>p\<close>: gob refuses to decode into it.\<close>

definition cache_get_nil :: "ext \<Rightarrow> string \<Rightarrow> 'a io" where
  "cache_get_nil X k = cache_get X (\<lambda>_. None) k"

lemma wp_cache_set [simp]:
  "wp (cache_set X k v) Q s =
     (case x_fault X (w_tick s) of Some e \<Rightarrow> Q (Inl e) (s\<lparr>w_tick := Suc (w_tick s)\<rparr>)
      | None \<Rightarrow> Q (Inr ()) (w_cache_update (\<lambda>m. m(k \<mapsto> v)) (s\<lparr>w_tick := Suc (w_tick s)\<rparr>)))"
  by (simp add: cache_set_def split: option.splits)

lemma wp_cache_get:
  "wp (cache_get X sel k) Q s =
     (case x_fault X (w_tick s) of Some e \<Rightarrow> Q (Inl e) (s\<lparr>w_tick := Suc (w_tick s)\<rparr>)
      | None \<Rightarrow> Q (case Option.bind (w_cache s k) sel of None \<Rightarrow> Inl cache_miss | Some a \<Rightarrow> Inr a)
                 (s\<lparr>w_tick := Suc (w_tick s)\<rparr>))"
  by (simp add: cache_get_def split: option.splits)

section \<open>Sorted queries\<close>

text \<open>\<open>Find\<close> and \<open>FindOne\<close> with a sort on one field; equal keys stay in natural order.\<close>

definition find_sorted :: "ext \<Rightarrow> (world \<Rightarrow> 'd list) \<Rightarrow> ('d \<Rightarrow> bool) \<Rightarrow> ('d \<Rightarrow> int) \<Rightarrow> 'd list io" where
  "find_sorted X get p k = bind (find_all X get p) (\<lambda>ds. ret (sort_key k ds))"

definition find_first_sorted :: "ext \<Rightarrow> (world \<Rightarrow> 'd list) \<Rightarrow> ('d \<Rightarrow> bool) \<Rightarrow> ('d \<Rightarrow> int) \<Rightarrow> 'd io" where
  "find_first_sorted X get p k = bind (find_sorted X get p k) (\<lambda>ds.
     case ds of [] \<Rightarrow> throw ErrNoDocuments | d # _ \<Rightarrow> ret d)"

text \<open>A new document with the strictly smallest sort key is the first one found.\<close>

lemma sort_key_append_min:
  "\<forall>x\<in>set xs. k y < k x \<Longrightarrow> sort_key k (xs @ [y]) = y # sort_key k xs"
  by (induction xs) (auto simp: not_le)

section \<open>Sums per currency\<close>

text \<open>\<open>balance[currency] += amount\<close> on a fresh map, kept as an association list.\<close>

fun add_to :: "string \<Rightarrow> float64 \<Rightarrow> (string \<times> float64) list \<Rightarrow> (string \<times> float64) list" where
  "add_to c x [] = [(c, 0 + x)]"
| "add_to c x ((d, b) # m) = (if c = d then (d, b + x) # m else (d, b) # add_to c x m)"

definition float_sum :: "float64 list \<Rightarrow> float64" where
  "float_sum xs = foldl (+) 0 xs"

lemma add_to_same:
  "(\<And>x. x \<in> set xs \<Longrightarrow> cur x = c) \<Longrightarrow>
    foldl (\<lambda>m x. add_to (cur x) (amt x) m) [(c, b)] xs = [(c, foldl (+) b (map amt xs))]"
  by (induction xs arbitrary: b) auto

lemma add_to_all:
  assumes "xs \<noteq> []" and "\<And>x. x \<in> set xs \<Longrightarrow> cur x = c"
  shows "foldl (\<lambda>m x. add_to (cur x) (amt x) m) [] xs = [(c, float_sum (map amt xs))]"
  using assms add_to_same[of "tl xs" cur c amt] by (cases xs) (auto simp: float_sum_def)

end
