(* ===== verification/RoyaltyRepo.thy ===== *)
theory RoyaltyRepo
  imports Cache
begin

text \<open>
  Royalty reports in the database: the mappers of internal/repository/models/royalty\_report.go
  and the repository of internal/repository/royalty\_report.go with its audit trail and cache.
  The merchant name that only the paginated listing fills in is left out.
\<close>

section \<open>The mappers\<close>

definition rrc_to_mgo :: "ext \<Rightarrow> rr_correction \<Rightarrow> go_err + mgo_rr_correction" where
  "rrc_to_mgo X c =
     bind_err (x_timestamp X (rrc_EntryDate c)) (\<lambda>t.
     bind_err (x_oid_from_hex X (rrc_AccountingEntryId c)) (\<lambda>oid.
     Inr \<lparr>mgorrc_AccountingEntryId = oid, mgorrc_Amount = rrc_Amount c, mgorrc_Currency = rrc_Currency c,
          mgorrc_Reason = rrc_Reason c, mgorrc_EntryDate = t\<rparr>))"

definition rrc_from_mgo :: "ext \<Rightarrow> mgo_rr_correction \<Rightarrow> go_err + rr_correction" where
  "rrc_from_mgo X c =
     bind_err (x_timestamp_proto X (mgorrc_EntryDate c)) (\<lambda>t.
     Inr \<lparr>rrc_AccountingEntryId = x_oid_hex X (mgorrc_AccountingEntryId c), rrc_Amount = mgorrc_Amount c,
          rrc_Currency = mgorrc_Currency c, rrc_Reason = mgorrc_Reason c, rrc_EntryDate = Some t\<rparr>)"

definition summary_map :: "('a \<Rightarrow> go_err + 'b) \<Rightarrow> 'a rr_summary_of option \<Rightarrow> go_err + 'b rr_summary_of option" where
  "summary_map f sm = (case sm of None \<Rightarrow> Inr None | Some s \<Rightarrow>
     bind_err (map_err f (rrs_Corrections s)) (\<lambda>cs.
     bind_err (map_err f (rrs_RollingReserves s)) (\<lambda>rs.
     Inr (Some \<lparr>rrs_ProductsItems = rrs_ProductsItems s, rrs_ProductsTotal = rrs_ProductsTotal s,
                rrs_Corrections = cs, rrs_RollingReserves = rs\<rparr>))))"

definition rr_to_mgo :: "ext \<Rightarrow> royalty_report \<Rightarrow> mgo_royalty_report io" where
  "rr_to_mgo X m =
     bind (oid_or_new X (rr_Id m)) (\<lambda>oid.
     bind (time_or_now X (rr_CreatedAt m)) (\<lambda>createdAt.
     bind (time_or_now X (rr_UpdatedAt m)) (\<lambda>updatedAt.
     bind (lift (x_oid_from_hex X (rr_MerchantId m))) (\<lambda>merchantOid.
     bind (lift (x_timestamp X (rr_PeriodFrom m))) (\<lambda>periodFrom.
     bind (lift (x_timestamp X (rr_PeriodTo m))) (\<lambda>periodTo.
     bind (lift (x_timestamp X (rr_AcceptExpireAt m))) (\<lambda>acceptExpireAt.
     bind (time_or_zero X (rr_PayoutDate m)) (\<lambda>payoutDate.
     bind (time_or_zero X (rr_AcceptedAt m)) (\<lambda>acceptedAt.
     bind (time_or_zero X (rr_DisputeStartedAt m)) (\<lambda>disputeStartedAt.
     bind (time_or_zero X (rr_DisputeClosedAt m)) (\<lambda>disputeClosedAt.
     bind (lift (summary_map (rrc_to_mgo X) (rr_Summary m))) (\<lambda>summary.
     ret \<lparr>mgorr_Id = oid, mgorr_MerchantId = merchantOid, mgorr_CreatedAt = createdAt,
          mgorr_UpdatedAt = updatedAt, mgorr_PayoutDate = payoutDate, mgorr_Status = rr_Status m,
          mgorr_PeriodFrom = periodFrom, mgorr_PeriodTo = periodTo,
          mgorr_AcceptExpireAt = acceptExpireAt, mgorr_AcceptedAt = acceptedAt,
          mgorr_Totals = rr_Totals m, mgorr_Currency = rr_Currency m, mgorr_Summary = summary,
          mgorr_DisputeReason = rr_DisputeReason m, mgorr_DisputeStartedAt = disputeStartedAt,
          mgorr_DisputeClosedAt = disputeClosedAt, mgorr_IsAutoAccepted = rr_IsAutoAccepted m,
          mgorr_PayoutDocumentId = rr_PayoutDocumentId m,
          mgorr_OperatingCompanyId = rr_OperatingCompanyId m,
          mgorr_StringPeriodFrom = rr_StringPeriodFrom m, mgorr_StringPeriodTo = rr_StringPeriodTo m\<rparr>))))))))))))"

definition rr_from_mgo :: "ext \<Rightarrow> mgo_royalty_report \<Rightarrow> go_err + royalty_report" where
  "rr_from_mgo X d =
     bind_err (x_timestamp_proto X (mgorr_CreatedAt d)) (\<lambda>createdAt.
     bind_err (x_timestamp_proto X (mgorr_UpdatedAt d)) (\<lambda>updatedAt.
     bind_err (x_timestamp_proto X (mgorr_PayoutDate d)) (\<lambda>payoutDate.
     bind_err (x_timestamp_proto X (mgorr_PeriodFrom d)) (\<lambda>periodFrom.
     bind_err (x_timestamp_proto X (mgorr_PeriodTo d)) (\<lambda>periodTo.
     bind_err (x_timestamp_proto X (mgorr_AcceptExpireAt d)) (\<lambda>acceptExpireAt.
     bind_err (x_timestamp_proto X (mgorr_AcceptedAt d)) (\<lambda>acceptedAt.
     bind_err (x_timestamp_proto X (mgorr_DisputeStartedAt d)) (\<lambda>disputeStartedAt.
     bind_err (x_timestamp_proto X (mgorr_DisputeClosedAt d)) (\<lambda>disputeClosedAt.
     bind_err (summary_map (rrc_from_mgo X) (mgorr_Summary d)) (\<lambda>summary.
     Inr \<lparr>rr_Id = x_oid_hex X (mgorr_Id d), rr_MerchantId = x_oid_hex X (mgorr_MerchantId d),
          rr_CreatedAt = Some createdAt, rr_UpdatedAt = Some updatedAt, rr_PayoutDate = Some payoutDate,
          rr_Status = mgorr_Status d, rr_PeriodFrom = Some periodFrom, rr_PeriodTo = Some periodTo,
          rr_AcceptExpireAt = Some acceptExpireAt, rr_AcceptedAt = Some acceptedAt,
          rr_Totals = mgorr_Totals d, rr_Currency = mgorr_Currency d, rr_Summary = summary,
          rr_DisputeReason = mgorr_DisputeReason d, rr_DisputeStartedAt = Some disputeStartedAt,
          rr_DisputeClosedAt = Some disputeClosedAt, rr_IsAutoAccepted = mgorr_IsAutoAccepted d,
          rr_PayoutDocumentId = mgorr_PayoutDocumentId d,
          rr_OperatingCompanyId = mgorr_OperatingCompanyId d,
          rr_StringPeriodFrom = mgorr_StringPeriodFrom d, rr_StringPeriodTo = mgorr_StringPeriodTo d\<rparr>))))))))))"

section \<open>The repository\<close>

definition cacheKeyRoyaltyReport :: "string \<Rightarrow> string" where
  "cacheKeyRoyaltyReport i = ''royalty_report:id:'' @ i"

definition onRoyaltyReportChange :: "ext \<Rightarrow> royalty_report \<Rightarrow> string \<Rightarrow> string \<Rightarrow> unit io" where
  "onRoyaltyReportChange X document ip source =
     bind (new_oid X) (\<lambda>i.
     bind (lift (x_report_hash X document)) (\<lambda>hash.
     bind (lift (x_oid_from_hex X (x_oid_hex X i))) (\<lambda>oid.
     bind (time_now X) (\<lambda>createdAt.
     bind (lift (x_oid_from_hex X (rr_Id document))) (\<lambda>reportOid.
     insert_one X w_report_changes w_report_changes_update change_Id
       \<lparr>change_Id = oid, change_DocumentId = reportOid, change_Source = source, change_Ip = ip,
        change_Hash = hash, change_CreatedAt = createdAt\<rparr>)))))"

text \<open>A failure of the cache is returned by Insert and swallowed by Update and GetById.\<close>

definition rrrepo_Insert :: "ext \<Rightarrow> royalty_report \<Rightarrow> string \<Rightarrow> string \<Rightarrow> unit io" where
  "rrrepo_Insert X rr ip source =
     bind (repo_insert X w_reports w_reports_update mgorr_Id (rr_to_mgo X) rr) (\<lambda>_.
     bind (onRoyaltyReportChange X rr ip source) (\<lambda>_.
     cache_set X (cacheKeyRoyaltyReport (rr_Id rr)) (CachedReport rr)))"

definition rrrepo_Update :: "ext \<Rightarrow> royalty_report \<Rightarrow> string \<Rightarrow> string \<Rightarrow> unit io" where
  "rrrepo_Update X rr ip source =
     (case x_oid_from_hex X (rr_Id rr) of Inl _ \<Rightarrow> ret ()
      | Inr oid \<Rightarrow>
        bind (rr_to_mgo X rr) (\<lambda>mgo.
        bind (replace_one X w_reports_update (\<lambda>d. mgorr_Id d = oid) mgo) (\<lambda>_.
        bind (onRoyaltyReportChange X rr ip source) (\<lambda>_.
        bind (attempt (cache_set X (cacheKeyRoyaltyReport (rr_Id rr)) (CachedReport rr))) (\<lambda>_.
        ret ())))))"

definition rrrepo_GetById :: "ext \<Rightarrow> string \<Rightarrow> royalty_report io" where
  "rrrepo_GetById X i =
     bind (attempt (cache_get X as_report (cacheKeyRoyaltyReport i))) (\<lambda>c. case c of
       Inr rr \<Rightarrow> ret rr
     | Inl _ \<Rightarrow>
       bind (repo_get X w_reports mgorr_Id (rr_from_mgo X) i) (\<lambda>rr.
       bind (attempt (cache_set X (cacheKeyRoyaltyReport i) (CachedReport rr))) (\<lambda>_.
       ret rr)))"

definition rrrepo_GetNonPayoutReports :: "ext \<Rightarrow> string \<Rightarrow> string \<Rightarrow> royalty_report list io" where
  "rrrepo_GetNonPayoutReports X merchantId currency =
     bind (lift (x_oid_from_hex X merchantId)) (\<lambda>oid.
     bind (find_sorted X w_reports (\<lambda>d. mgorr_MerchantId d = oid \<and> mgorr_Currency d = currency \<and>
         mgorr_Status d \<in> {RRPending, RRAccepted, RRDispute} \<and> mgorr_PayoutDocumentId d = [])
       mgorr_PeriodFrom) (\<lambda>list.
     lift (map_err (rr_from_mgo X) list)))"

definition rrrepo_GetByPayoutId :: "ext \<Rightarrow> string \<Rightarrow> royalty_report list io" where
  "rrrepo_GetByPayoutId X payoutId =
     bind (find_sorted X w_reports (\<lambda>d. mgorr_PayoutDocumentId d = payoutId) mgorr_PeriodFrom) (\<lambda>list.
     lift (map_err (rr_from_mgo X) list))"

definition rrrepo_GetAll :: "ext \<Rightarrow> royalty_report list io" where
  "rrrepo_GetAll X = bind (find_all X w_reports (\<lambda>_. True)) (\<lambda>list. lift (map_err (rr_from_mgo X) list))"

definition rrrepo_GetByPeriod :: "ext \<Rightarrow> gotime \<Rightarrow> gotime \<Rightarrow> royalty_report list io" where
  "rrrepo_GetByPeriod X from to =
     bind (find_all X w_reports (\<lambda>d. mgorr_PeriodFrom d = from \<and> mgorr_PeriodTo d = to)) (\<lambda>list.
     lift (map_err (rr_from_mgo X) list))"

definition rrrepo_GetByAcceptedExpireWithStatus :: "ext \<Rightarrow> gotime \<Rightarrow> rr_status \<Rightarrow> royalty_report list io" where
  "rrrepo_GetByAcceptedExpireWithStatus X date status =
     bind (find_all X w_reports (\<lambda>d. mgorr_AcceptExpireAt d \<le> date \<and> mgorr_Status d = status)) (\<lambda>list.
     lift (map_err (rr_from_mgo X) list))"

text \<open>Any failure of the lookup counts as "no report".\<close>

definition rrrepo_GetReportExists :: "ext \<Rightarrow> string \<Rightarrow> string \<Rightarrow> gotime \<Rightarrow> gotime \<Rightarrow> royalty_report option io" where
  "rrrepo_GetReportExists X merchantId currency from to =
     bind (attempt (bind (lift (x_oid_from_hex X merchantId)) (\<lambda>oid.
       bind (find_one X w_reports (\<lambda>d. mgorr_MerchantId d = oid \<and> from \<le> mgorr_PeriodFrom d \<and>
           mgorr_PeriodTo d \<le> to \<and> mgorr_Currency d = currency)) (\<lambda>mgo.
       lift (rr_from_mgo X mgo))))) (\<lambda>r.
     ret (case r of Inl _ \<Rightarrow> None | Inr rr \<Rightarrow> Some rr))"

definition no_totals :: rr_totals where
  "no_totals = \<lparr>rrt_TransactionsCount = 0, rrt_FeeAmount = 0, rrt_VatAmount = 0, rrt_PayoutAmount = 0,
     rrt_CorrectionAmount = 0, rrt_RollingReserveAmount = 0, rrt_FinalPayoutAmount = 0,
     rrt_B2BVatBase = 0, rrt_B2BVatRate = 0, rrt_B2BVatAmount = 0\<rparr>"

definition ErrBalanceHasMoreOneCurrency :: go_err where
  "ErrBalanceHasMoreOneCurrency = ErrOther ''merchant balance has more one currency''"

text \<open>One row of the aggregation: the totals rounded to cents by the database.\<close>

definition report_balance_row :: "ext \<Rightarrow> mgo_royalty_report \<Rightarrow> float64" where
  "report_balance_row X d = (let t = (case mgorr_Totals d of None \<Rightarrow> no_totals | Some t \<Rightarrow> t) in
     x_mongo_round2 X (rrt_PayoutAmount t) + x_mongo_round2 X (rrt_CorrectionAmount t)
       - x_mongo_round2 X (rrt_RollingReserveAmount t))"

definition balance_statuses :: "rr_status set" where
  "balance_statuses = {RRAccepted, RRWaitForPayment, RRPaid}"

definition balance_of_rows :: "(string \<times> float64) list \<Rightarrow> go_err + float64" where
  "balance_of_rows rows = (case rows of [] \<Rightarrow> Inr 0
     | (c, _) # _ \<Rightarrow>
       (let balance = foldl (\<lambda>m (c, a). add_to c a m) [] rows in
        if 1 < length balance then Inl ErrBalanceHasMoreOneCurrency
        else (case map_of balance c of None \<Rightarrow> Inr (round_cents 0) | Some b \<Rightarrow> Inr (round_cents b))))"

definition counts_for_balance :: "oid \<Rightarrow> string \<Rightarrow> mgo_royalty_report \<Rightarrow> bool" where
  "counts_for_balance m currency d \<longleftrightarrow> mgorr_MerchantId d = m \<and> mgorr_Currency d = currency \<and>
     mgorr_Status d \<in> balance_statuses"

definition rrrepo_GetBalanceAmount :: "ext \<Rightarrow> string \<Rightarrow> string \<Rightarrow> float64 io" where
  "rrrepo_GetBalanceAmount X merchantId currency =
     bind (lift (x_oid_from_hex X merchantId)) (\<lambda>oid.
     bind (find_all X w_reports (counts_for_balance oid currency)) (\<lambda>result.
     lift (balance_of_rows (map (\<lambda>d. (mgorr_Currency d, report_balance_row X d)) result))))"

section \<open>The repository as an instance of the interfaces\<close>

interpretation reports: collection w_reports w_reports_update mgorr_Id
  by unfold_locales simp_all

interpretation report_changes: collection w_report_changes w_report_changes_update change_Id
  by unfold_locales simp_all

definition rrc_canon :: "ext \<Rightarrow> rr_correction \<Rightarrow> bool" where
  "rrc_canon X c \<longleftrightarrow> canon_id X (rrc_AccountingEntryId c) \<and> canon_ts X (rrc_EntryDate c)"

definition rr_canon :: "ext \<Rightarrow> royalty_report \<Rightarrow> bool" where
  "rr_canon X r \<longleftrightarrow> canon_id X (rr_Id r) \<and> canon_id X (rr_MerchantId r) \<and>
     list_all (canon_ts X) [rr_CreatedAt r, rr_UpdatedAt r, rr_PayoutDate r, rr_PeriodFrom r, rr_PeriodTo r,
       rr_AcceptExpireAt r, rr_AcceptedAt r, rr_DisputeStartedAt r, rr_DisputeClosedAt r] \<and>
     (case rr_Summary r of None \<Rightarrow> True | Some s \<Rightarrow>
        list_all (rrc_canon X) (rrs_Corrections s) \<and> list_all (rrc_canon X) (rrs_RollingReserves s))"

lemma rrc_encode: "rrc_canon X c \<Longrightarrow> \<exists>m. rrc_to_mgo X c = Inr m \<and> rrc_from_mgo X m = Inr c"
  by (cases c) (auto simp: rrc_canon_def rrc_to_mgo_def rrc_from_mgo_def elim!: canon_idE canon_tsE)

lemma map_err_inverse:
  "(\<And>x. x \<in> set xs \<Longrightarrow> \<exists>y. f x = Inr y \<and> g y = Inr x) \<Longrightarrow> \<exists>ys. map_err f xs = Inr ys \<and> map_err g ys = Inr xs"
proof (induction xs)
  case (Cons x xs)
  obtain y where "f x = Inr y" "g y = Inr x" using Cons.prems by auto
  moreover obtain ys where "map_err f xs = Inr ys" "map_err g ys = Inr xs" using Cons by auto
  ultimately show ?case by (intro exI[of _ "y # ys"]) simp
qed simp

lemma summary_encode:
  assumes "case sm of None \<Rightarrow> True | Some s \<Rightarrow>
    list_all (rrc_canon X) (rrs_Corrections s) \<and> list_all (rrc_canon X) (rrs_RollingReserves s)"
  shows "\<exists>m. summary_map (rrc_to_mgo X) sm = Inr m \<and> summary_map (rrc_from_mgo X) m = Inr sm"
proof (cases sm)
  case (Some s)
  have "\<exists>ys. map_err (rrc_to_mgo X) cs = Inr ys \<and> map_err (rrc_from_mgo X) ys = Inr cs"
    if "list_all (rrc_canon X) cs" for cs
    using that by (intro map_err_inverse rrc_encode) (auto simp: list_all_iff)
  from this[of "rrs_Corrections s"] this[of "rrs_RollingReserves s"] show ?thesis
    using assms Some by (cases s) (auto simp: summary_map_def)
qed (simp add: summary_map_def)

lemma rr_encode:
  assumes "rr_canon X r"
  shows "\<exists>m. rr_to_mgo X r = ret m \<and> rr_from_mgo X m = Inr r \<and> x_oid_from_hex X (rr_Id r) = Inr (mgorr_Id m)"
proof -
  obtain sm where sm: "summary_map (rrc_to_mgo X) (rr_Summary r) = Inr sm"
    "summary_map (rrc_from_mgo X) sm = Inr (rr_Summary r)"
    using summary_encode[of X "rr_Summary r"] assms by (auto simp: rr_canon_def)
  have c: "canon_id X (rr_Id r)" "canon_id X (rr_MerchantId r)" "canon_ts X (rr_CreatedAt r)"
    "canon_ts X (rr_UpdatedAt r)" "canon_ts X (rr_PayoutDate r)" "canon_ts X (rr_PeriodFrom r)"
    "canon_ts X (rr_PeriodTo r)" "canon_ts X (rr_AcceptExpireAt r)" "canon_ts X (rr_AcceptedAt r)"
    "canon_ts X (rr_DisputeStartedAt r)" "canon_ts X (rr_DisputeClosedAt r)"
    using assms by (auto simp: rr_canon_def)
  show ?thesis
    using c(1,2)[THEN canon_id_run] c(3-11)[THEN canon_ts_run] sm
    by (cases r) (clarsimp simp: rr_to_mgo_def rr_from_mgo_def)
qed

interpretation report_repo: repository w_reports w_reports_update mgorr_Id X "rr_to_mgo X" "rr_from_mgo X"
  "rr_canon X" rr_Id for X
  by unfold_locales (rule rr_encode)

lemma balance_of_rows_sum:
  assumes "\<forall>r\<in>set rows. fst r = cur"
  shows "balance_of_rows rows = Inr (if rows = [] then 0 else round_cents (float_sum (map snd rows)))"
proof (cases rows)
  case (Cons r rs)
  have "foldl (\<lambda>m (c, a). add_to c a m) [] rows = [(cur, float_sum (map snd rows))]"
    using add_to_all[of rows fst cur snd] assms Cons by (simp add: case_prod_unfold)
  moreover obtain a where "r = (cur, a)" using assms Cons by (cases r) auto
  ultimately show ?thesis
    by (simp add: balance_of_rows_def Cons del: foldl.simps)
qed (simp add: balance_of_rows_def)

end
