(* ===== verification/PayoutRepo.thy ===== *)
theory PayoutRepo
  imports RoyaltyRepo
begin

text \<open>
  Payout documents in the database: the mapper of internal/repository/models/payout.go and the
  repository of internal/repository/payout.go with its audit trail and its two cache keys.
\<close>

section \<open>The mapper\<close>

definition po_to_mgo :: "ext \<Rightarrow> payout \<Rightarrow> mgo_payout io" where
  "po_to_mgo X m =
     bind (lift (x_oid_from_hex X (po_MerchantId m))) (\<lambda>merchantOid.
     bind (oid_or_new X (po_Id m)) (\<lambda>oid.
     bind (time_or_now X (po_CreatedAt m)) (\<lambda>createdAt.
     bind (time_or_now X (po_UpdatedAt m)) (\<lambda>updatedAt.
     bind (time_or_now X (po_ArrivalDate m)) (\<lambda>arrivalDate.
     bind (time_or_zero X (po_PeriodFrom m)) (\<lambda>periodFrom.
     bind (time_or_zero X (po_PeriodTo m)) (\<lambda>periodTo.
     bind (time_or_zero X (po_PaidAt m)) (\<lambda>paidAt.
     ret \<lparr>mgopo_Id = oid, mgopo_MerchantId = merchantOid, mgopo_SourceId = po_SourceId m,
          mgopo_TotalFees = po_TotalFees m, mgopo_Balance = po_Balance m, mgopo_Currency = po_Currency m,
          mgopo_PeriodFrom = periodFrom, mgopo_PeriodTo = periodTo,
          mgopo_TotalTransactions = po_TotalTransactions m, mgopo_Description = po_Description m,
          mgopo_Destination = po_Destination m,
          mgopo_MerchantAgreementNumber = po_MerchantAgreementNumber m, mgopo_Company = po_Company m,
          mgopo_Status = po_Status m, mgopo_Transaction = po_Transaction m,
          mgopo_FailureCode = po_FailureCode m, mgopo_FailureMessage = po_FailureMessage m,
          mgopo_FailureTransaction = po_FailureTransaction m, mgopo_CreatedAt = createdAt,
          mgopo_UpdatedAt = updatedAt, mgopo_ArrivalDate = arrivalDate, mgopo_PaidAt = paidAt,
          mgopo_OperatingCompanyId = po_OperatingCompanyId m,
          mgopo_AutoincrementId = po_AutoincrementId m,
          mgopo_StringPeriodFrom = po_StringPeriodFrom m, mgopo_StringPeriodTo = po_StringPeriodTo m,
          mgopo_B2BVatBase = po_B2BVatBase m, mgopo_B2BVatRate = po_B2BVatRate m,
          mgopo_B2BVatAmount = po_B2BVatAmount m, mgopo_FeesExcludingVat = po_FeesExcludingVat m\<rparr>))))))))"

definition po_from_mgo :: "ext \<Rightarrow> mgo_payout \<Rightarrow> go_err + payout" where
  "po_from_mgo X d =
     bind_err (x_timestamp_proto X (mgopo_CreatedAt d)) (\<lambda>createdAt.
     bind_err (x_timestamp_proto X (mgopo_UpdatedAt d)) (\<lambda>updatedAt.
     bind_err (x_timestamp_proto X (mgopo_ArrivalDate d)) (\<lambda>arrivalDate.
     bind_err (x_timestamp_proto X (mgopo_PeriodFrom d)) (\<lambda>periodFrom.
     bind_err (x_timestamp_proto X (mgopo_PeriodTo d)) (\<lambda>periodTo.
     bind_err (x_timestamp_proto X (mgopo_PaidAt d)) (\<lambda>paidAt.
     Inr \<lparr>po_Id = x_oid_hex X (mgopo_Id d), po_MerchantId = x_oid_hex X (mgopo_MerchantId d),
          po_SourceId = mgopo_SourceId d, po_TotalFees = mgopo_TotalFees d, po_Balance = mgopo_Balance d,
          po_Currency = mgopo_Currency d, po_PeriodFrom = Some periodFrom, po_PeriodTo = Some periodTo,
          po_TotalTransactions = mgopo_TotalTransactions d, po_Description = mgopo_Description d,
          po_Destination = mgopo_Destination d,
          po_MerchantAgreementNumber = mgopo_MerchantAgreementNumber d, po_Company = mgopo_Company d,
          po_Status = mgopo_Status d, po_Transaction = mgopo_Transaction d,
          po_FailureCode = mgopo_FailureCode d, po_FailureMessage = mgopo_FailureMessage d,
          po_FailureTransaction = mgopo_FailureTransaction d, po_CreatedAt = Some createdAt,
          po_UpdatedAt = Some updatedAt, po_ArrivalDate = Some arrivalDate, po_PaidAt = Some paidAt,
          po_OperatingCompanyId = mgopo_OperatingCompanyId d,
          po_AutoincrementId = mgopo_AutoincrementId d,
          po_StringPeriodFrom = mgopo_StringPeriodFrom d, po_StringPeriodTo = mgopo_StringPeriodTo d,
          po_B2BVatBase = mgopo_B2BVatBase d, po_B2BVatRate = mgopo_B2BVatRate d,
          po_B2BVatAmount = mgopo_B2BVatAmount d, po_FeesExcludingVat = mgopo_FeesExcludingVat d\<rparr>))))))"

section \<open>The repository\<close>

definition PayoutDocumentStatusSkip :: string where "PayoutDocumentStatusSkip = ''skip''"
definition PayoutDocumentStatusPending :: string where "PayoutDocumentStatusPending = ''pending''"
definition PayoutDocumentStatusPaid :: string where "PayoutDocumentStatusPaid = ''paid''"
definition PayoutDocumentStatusCanceled :: string where "PayoutDocumentStatusCanceled = ''canceled''"
definition PayoutDocumentStatusFailed :: string where "PayoutDocumentStatusFailed = ''failed''"

lemmas payout_statuses = PayoutDocumentStatusSkip_def PayoutDocumentStatusPending_def
  PayoutDocumentStatusPaid_def PayoutDocumentStatusCanceled_def PayoutDocumentStatusFailed_def

definition cacheKeyPayoutDocument :: "string \<Rightarrow> string" where
  "cacheKeyPayoutDocument i = ''payout_document:id:'' @ i"

definition cacheKeyPayoutDocumentMerchant :: "string \<Rightarrow> string \<Rightarrow> string" where
  "cacheKeyPayoutDocumentMerchant i m = ''payout_document:id:'' @ i @ '':merchant:id:'' @ m"

definition porepo_updateCaches :: "ext \<Rightarrow> payout \<Rightarrow> unit io" where
  "porepo_updateCaches X pd =
     bind (cache_set X (cacheKeyPayoutDocument (po_Id pd)) (CachedPayout pd)) (\<lambda>_.
     cache_set X (cacheKeyPayoutDocumentMerchant (po_Id pd) (po_MerchantId pd)) (CachedPayout pd))"

definition onPayoutDocumentChange :: "ext \<Rightarrow> payout \<Rightarrow> string \<Rightarrow> string \<Rightarrow> unit io" where
  "onPayoutDocumentChange X document ip source =
     bind (new_oid X) (\<lambda>i.
     bind (timestamp_now X) (\<lambda>ts.
     bind (lift (x_payout_hash X document)) (\<lambda>hash.
     bind (lift (x_oid_from_hex X (po_Id document))) (\<lambda>docOid.
     bind (lift (x_oid_from_hex X (x_oid_hex X i))) (\<lambda>oid.
     bind (lift (x_timestamp X (Some ts))) (\<lambda>createdAt.
     insert_one X w_payout_changes w_payout_changes_update change_Id
       \<lparr>change_Id = oid, change_DocumentId = docOid, change_Source = source, change_Ip = ip,
        change_Hash = hash, change_CreatedAt = createdAt\<rparr>))))))"

definition porepo_Insert :: "ext \<Rightarrow> payout \<Rightarrow> string \<Rightarrow> string \<Rightarrow> unit io" where
  "porepo_Insert X pd ip source =
     bind (repo_insert X w_payouts w_payouts_update mgopo_Id (po_to_mgo X) pd) (\<lambda>_.
     bind (onPayoutDocumentChange X pd ip source) (\<lambda>_.
     porepo_updateCaches X pd))"

definition porepo_Update :: "ext \<Rightarrow> payout \<Rightarrow> string \<Rightarrow> string \<Rightarrow> unit io" where
  "porepo_Update X pd ip source =
     bind (repo_update X w_payouts_update mgopo_Id po_Id (po_to_mgo X) pd) (\<lambda>_.
     bind (onPayoutDocumentChange X pd ip source) (\<lambda>_.
     porepo_updateCaches X pd))"

definition porepo_GetById :: "ext \<Rightarrow> string \<Rightarrow> payout io" where
  "porepo_GetById X i =
     bind (attempt (cache_get X as_payout (cacheKeyPayoutDocument i))) (\<lambda>c. case c of
       Inr pd \<Rightarrow> ret pd
     | Inl _ \<Rightarrow>
       bind (repo_get X w_payouts mgopo_Id (po_from_mgo X) i) (\<lambda>pd.
       bind (porepo_updateCaches X pd) (\<lambda>_. ret pd)))"

definition porepo_GetByIdMerchantId :: "ext \<Rightarrow> string \<Rightarrow> string \<Rightarrow> payout io" where
  "porepo_GetByIdMerchantId X i merchantId =
     bind (attempt (cache_get X as_payout (cacheKeyPayoutDocumentMerchant i merchantId))) (\<lambda>c. case c of
       Inr pd \<Rightarrow> ret pd
     | Inl _ \<Rightarrow>
       bind (lift (x_oid_from_hex X i)) (\<lambda>oid.
       bind (if merchantId \<noteq> [] then bind (lift (x_oid_from_hex X merchantId)) (\<lambda>m. ret (Some m))
             else ret None) (\<lambda>merchantOid.
       bind (find_one X w_payouts (\<lambda>d. mgopo_Id d = oid \<and>
           (case merchantOid of None \<Rightarrow> True | Some m \<Rightarrow> mgopo_MerchantId d = m))) (\<lambda>mgo.
       bind (lift (po_from_mgo X mgo)) (\<lambda>pd.
       bind (porepo_updateCaches X pd) (\<lambda>_. ret pd))))))"

definition payout_active :: "oid \<Rightarrow> string \<Rightarrow> mgo_payout \<Rightarrow> bool" where
  "payout_active m currency d \<longleftrightarrow> mgopo_MerchantId d = m \<and> mgopo_Currency d = currency \<and>
     mgopo_Status d \<in> {PayoutDocumentStatusPending, PayoutDocumentStatusPaid}"

definition porepo_GetBalanceAmount :: "ext \<Rightarrow> string \<Rightarrow> string \<Rightarrow> float64 io" where
  "porepo_GetBalanceAmount X merchantId currency =
     bind (lift (x_oid_from_hex X merchantId)) (\<lambda>oid.
     bind (find_all X w_payouts (payout_active oid currency)) (\<lambda>result.
     lift (balance_of_rows (map (\<lambda>d. (mgopo_Currency d, x_mongo_round2 X (mgopo_TotalFees d))) result))))"

definition porepo_GetLast :: "ext \<Rightarrow> string \<Rightarrow> string \<Rightarrow> payout io" where
  "porepo_GetLast X merchantId currency =
     bind (lift (x_oid_from_hex X merchantId)) (\<lambda>oid.
     bind (find_first_sorted X w_payouts (payout_active oid currency) (\<lambda>d. - mgopo_CreatedAt d)) (\<lambda>mgo.
     lift (po_from_mgo X mgo)))"

definition porepo_FindAll :: "ext \<Rightarrow> payout list io" where
  "porepo_FindAll X = bind (find_all X w_payouts (\<lambda>_. True)) (\<lambda>list. lift (map_err (po_from_mgo X) list))"

section \<open>The repository as an instance of the interfaces\<close>

interpretation payouts: collection w_payouts w_payouts_update mgopo_Id
  by unfold_locales simp_all

interpretation payout_changes: collection w_payout_changes w_payout_changes_update change_Id
  by unfold_locales simp_all

definition po_canon :: "ext \<Rightarrow> payout \<Rightarrow> bool" where
  "po_canon X p \<longleftrightarrow> canon_id X (po_Id p) \<and> canon_id X (po_MerchantId p) \<and>
     list_all (canon_ts X) [po_CreatedAt p, po_UpdatedAt p, po_ArrivalDate p, po_PeriodFrom p,
       po_PeriodTo p, po_PaidAt p]"

lemma po_encode:
  assumes "po_canon X p"
  shows "\<exists>m. po_to_mgo X p = ret m \<and> po_from_mgo X m = Inr p \<and> x_oid_from_hex X (po_Id p) = Inr (mgopo_Id m)"
proof -
  have c: "canon_id X (po_Id p)" "canon_id X (po_MerchantId p)" "canon_ts X (po_CreatedAt p)"
    "canon_ts X (po_UpdatedAt p)" "canon_ts X (po_ArrivalDate p)" "canon_ts X (po_PeriodFrom p)"
    "canon_ts X (po_PeriodTo p)" "canon_ts X (po_PaidAt p)"
    using assms by (auto simp: po_canon_def)
  show ?thesis
    using c(1,2)[THEN canon_id_run] c(3-8)[THEN canon_ts_run]
    by (cases p) (clarsimp simp: po_to_mgo_def po_from_mgo_def)
qed

interpretation payout_repo: repository w_payouts w_payouts_update mgopo_Id X "po_to_mgo X" "po_from_mgo X"
  "po_canon X" po_Id for X
  by unfold_locales (rule po_encode)

text \<open>A stored document whose instants are in the range of the codecs can be read.\<close>

definition payout_valid :: "mgo_payout \<Rightarrow> bool" where
  "payout_valid d \<longleftrightarrow> ts_valid (mgopo_CreatedAt d) \<and> ts_valid (mgopo_UpdatedAt d) \<and> ts_valid (mgopo_ArrivalDate d) \<and>
     ts_valid (mgopo_PeriodFrom d) \<and> ts_valid (mgopo_PeriodTo d) \<and> ts_valid (mgopo_PaidAt d)"

lemma po_from_mgo_valid:
  assumes "codecs_ok X" "payout_valid d"
  shows "\<exists>p. po_from_mgo X d = Inr p \<and> x_timestamp X (po_CreatedAt p) = Inr (mgopo_CreatedAt d)"
proof -
  have c: "\<exists>ts. x_timestamp_proto X t = Inr ts \<and> x_timestamp X (Some ts) = Inr t" if "ts_valid t" for t
    using assms(1) that by (auto simp: codecs_ok_def)
  have v: "ts_valid (mgopo_CreatedAt d)" "ts_valid (mgopo_UpdatedAt d)" "ts_valid (mgopo_ArrivalDate d)"
     "ts_valid (mgopo_PeriodFrom d)" "ts_valid (mgopo_PeriodTo d)" "ts_valid (mgopo_PaidAt d)"
    using assms(2) by (auto simp: payout_valid_def)
  show ?thesis using v[THEN c] by (auto simp: po_from_mgo_def)
qed

end
