(* ===== verification/Effects.thy ===== *)
theory Effects
  imports Cache
begin

text \<open>
  What all handlers share: rules that take a successful run apart, and computations that leave all
  collections alone.
\<close>

section \<open>Successful runs\<close>

text \<open>A run of a handler that succeeded, taken apart into the runs of its calls.\<close>

lemma bind_Inr: "bind m k s = (Inr b, t) \<longleftrightarrow> (\<exists>a u. m s = (Inr a, u) \<and> k a u = (Inr b, t))"
  by (auto simp: bind_def split: prod.splits sum.splits)

lemma run_Inr:
  "ret a s = (Inr b, t) \<longleftrightarrow> b = a \<and> t = s"
  "throw e s = (Inr b, t) \<longleftrightarrow> False"
  "lift r s = (Inr b, t) \<longleftrightarrow> r = Inr b \<and> t = s"
  "attempt m s = (Inr r', t) \<longleftrightarrow> m s = (r', t)"
  "replace_err e m s = (Inr b, t) \<longleftrightarrow> m s = (Inr b, t)"
  "deref p s = (Inr b, t) \<longleftrightarrow> p = Some b \<and> t = s"
  by (auto simp: go_defs deref_def split: prod.splits sum.splits option.splits)

lemma run_guard:
  "(if c then throw e else m) s = (Inr b, t) \<longleftrightarrow> \<not> c \<and> m s = (Inr b, t)"
  by (simp add: throw_def)

lemmas success = bind_Inr run_guard run_Inr

lemma try_go_success: "try_go m s = (Inr (Inr a), t) \<longleftrightarrow> m s = (Inr a, t)"
  by (cases "m s") (auto simp: try_go_def go_defs split: sum.split)

lemma run_sum: "(case r of Inl e \<Rightarrow> f e | Inr a \<Rightarrow> g a) s = (Inr b, t) \<longleftrightarrow>
    (\<exists>e. r = Inl e \<and> f e s = (Inr b, t)) \<or> (\<exists>a. r = Inr a \<and> g a s = (Inr b, t))"
  by (auto split: sum.splits)

lemma run_case:
  "(case r of Inl x \<Rightarrow> m x | Inr y \<Rightarrow> throw e) s = (Inr b, t) \<longleftrightarrow> (\<exists>x. r = Inl x \<and> m x s = (Inr b, t))"
  "(case r of Inl x \<Rightarrow> throw (f x) | Inr y \<Rightarrow> k y) s = (Inr b, t) \<longleftrightarrow> (\<exists>y. r = Inr y \<and> k y s = (Inr b, t))"
  by (auto simp: throw_def split: sum.splits)

lemma run_pair: "(case p of (x, y) \<Rightarrow> f x y) s = f (fst p) (snd p) s"
  by (simp add: case_prod_beta)

section \<open>Steps that only make calls\<close>

text \<open>Steps that change nothing but the number of calls made.\<close>

definition only_ticks :: "world \<Rightarrow> world \<Rightarrow> bool" where
  "only_ticks s t \<longleftrightarrow> w_tick s \<le> w_tick t \<and> t = s\<lparr>w_tick := w_tick t\<rparr>"

lemma only_ticks_refl [simp]: "only_ticks s s"
  by (simp add: only_ticks_def)

lemma only_ticks_tick [simp]: "w_tick s \<le> n \<Longrightarrow> only_ticks s (s\<lparr>w_tick := n\<rparr>)"
  by (simp add: only_ticks_def)

lemma only_ticks_trans [trans]: "only_ticks s t \<Longrightarrow> only_ticks t u \<Longrightarrow> only_ticks s u"
  unfolding only_ticks_def by (cases s, cases t, cases u) simp

lemma rpc_success: "rpc f s = (Inr a, t) \<longleftrightarrow> f (w_tick s) = Inr a \<and> t = s\<lparr>w_tick := Suc (w_tick s)\<rparr>"
  by (auto simp: rpc_def)

lemma find_one_success:
  assumes "find_one X get p s = (Inr d, t)"
  shows "only_ticks s t"
proof -
  have "wp (find_one X get p) (\<lambda>r t. only_ticks s t) s"
    by (auto simp: find_one_def split: option.splits)
  then show ?thesis using assms by (rule wpD)
qed

section \<open>Calls that leave the collections alone\<close>

text \<open>Up to the moment an event is saved, only the number of calls and the cache change.\<close>

named_theorems quiet_intros \<open>computations that leave the collections alone\<close>

definition quiet :: "'a io \<Rightarrow> bool" where
  "quiet m \<longleftrightarrow> (\<forall>s r t. m s = (r, t) \<longrightarrow> w_tick s \<le> w_tick t \<and> t = s\<lparr>w_tick := w_tick t, w_cache := w_cache t\<rparr>)"

lemma quietD: "quiet m \<Longrightarrow> m s = (r, t) \<Longrightarrow> w_tick s \<le> w_tick t \<and> t = s\<lparr>w_tick := w_tick t, w_cache := w_cache t\<rparr>"
  by (simp add: quiet_def)

lemma quiet_wp: "quiet m \<longleftrightarrow> (\<forall>s. wp m (\<lambda>_ t. w_tick s \<le> w_tick t \<and> t = s\<lparr>w_tick := w_tick t, w_cache := w_cache t\<rparr>) s)"
  by (auto simp: quiet_def wp_def split: prod.splits)

lemma quiet_pure [quiet_intros]: "quiet (ret a)" "quiet (throw e)" "quiet (lift r)" "quiet (gets f)" "quiet (deref p)"
  by (auto simp: quiet_def go_defs deref_def split: option.splits)

lemma quiet_bind [quiet_intros]:
  assumes "quiet m" and "\<And>a. quiet (k a)"
  shows "quiet (bind m k)"
  unfolding quiet_def
proof (intro allI impI)
  fix s r t assume run: "bind m k s = (r, t)"
  obtain r1 u where m: "m s = (r1, u)" by (cases "m s")
  note q = quietD[OF assms(1) m]
  show "w_tick s \<le> w_tick t \<and> t = s\<lparr>w_tick := w_tick t, w_cache := w_cache t\<rparr>"
  proof (cases r1)
    case (Inl e) then show ?thesis using run m q by (simp add: bind_def)
  next
    case (Inr a)
    then have "k a u = (r, t)" using run m by (simp add: bind_def)
    note q' = quietD[OF assms(2) this]
    have "t = u\<lparr>w_tick := w_tick t, w_cache := w_cache t\<rparr>" using q' by simp
    also have "\<dots> = s\<lparr>w_tick := w_tick t, w_cache := w_cache t\<rparr>" using q by (cases u, cases s) simp
    finally show ?thesis using q q' by simp
  qed
qed

lemma quiet_attempt [quiet_intros]: "quiet m \<Longrightarrow> quiet (attempt m)"
  by (auto simp: quiet_def attempt_def split: prod.splits)

lemma quiet_replace_err [quiet_intros]: "quiet m \<Longrightarrow> quiet (replace_err e m)"
  by (auto simp: quiet_def replace_err_def split: prod.splits sum.splits)

lemma quiet_cases [quiet_intros]:
  "(b \<Longrightarrow> quiet m) \<Longrightarrow> (\<not> b \<Longrightarrow> quiet n) \<Longrightarrow> quiet (if b then m else n)"
  "(\<And>e. quiet (f e)) \<Longrightarrow> (\<And>a. quiet (g a)) \<Longrightarrow> quiet (case r of Inl e \<Rightarrow> f e | Inr a \<Rightarrow> g a)"
  "quiet m \<Longrightarrow> (\<And>a. quiet (g' a)) \<Longrightarrow> quiet (case x of None \<Rightarrow> m | Some a \<Rightarrow> g' a)"
  "(\<And>a b. quiet (f' a b)) \<Longrightarrow> quiet (case y of (a, b) \<Rightarrow> f' a b)"
  by (simp_all split: sum.split option.split prod.split)

lemma quiet_calls [quiet_intros]:
  "quiet (reading f)" "quiet (rpc g)" "quiet (calling X)" "quiet (new_oid X)" "quiet (time_now X)" "quiet (timestamp_now X)"
  by (auto simp: quiet_wp clock_defs)

lemma quiet_store [quiet_intros]:
  "quiet (find_one X get p)" "quiet (find_all X get p)" "quiet (cache_get X sel key)" "quiet (cache_set X key v)"
proof -
  show "quiet (find_one X get p)" unfolding find_one_def by (intro quiet_intros)
  show "quiet (find_all X get p)" unfolding find_all_def by (intro quiet_intros)
  show "quiet (cache_get X sel key)" unfolding cache_get_def by (intro quiet_intros)
  show "quiet (cache_set X key v)" by (auto simp: quiet_wp split: option.split)
qed

lemma quiet_try_go [quiet_intros]: "quiet m \<Longrightarrow> quiet (try_go m)"
  unfolding try_go_def by (intro quiet_intros)

text \<open>The fields of the state behind a quiet computation.\<close>

lemma quiet_same:
  assumes "quiet m" and "m s = (r, t)"
  shows "w_tick s \<le> w_tick t" "w_accounting t = w_accounting s" "w_orders t = w_orders s"
    "w_order_views t = w_order_views s" "w_reports t = w_reports s" "w_payouts t = w_payouts s"
    "w_balances t = w_balances s" "w_refunds t = w_refunds s" "w_merchants t = w_merchants s"
    "w_countries t = w_countries s" "w_sent t = w_sent s"
proof -
  have t: "t = s\<lparr>w_tick := w_tick t, w_cache := w_cache t\<rparr>" and k: "w_tick s \<le> w_tick t"
    using quietD[OF assms] by simp_all
  show "w_tick s \<le> w_tick t" by (rule k)
  show "w_accounting t = w_accounting s" "w_orders t = w_orders s"
    "w_order_views t = w_order_views s" "w_reports t = w_reports s" "w_payouts t = w_payouts s"
    "w_balances t = w_balances s" "w_refunds t = w_refunds s" "w_merchants t = w_merchants s"
    "w_countries t = w_countries s" "w_sent t = w_sent s"
    by (subst t, simp)+
qed

section \<open>Invariants of computations that leave the collections alone\<close>

text \<open>
  An invariant that does not depend on the calls made and the cache is kept by every quiet computation; one
  that does not depend on the outbox either, by the messages sent.
\<close>

definition calm :: "(world \<Rightarrow> bool) \<Rightarrow> bool" where
  "calm I \<longleftrightarrow> (\<forall>s n c. I s \<longrightarrow> w_tick s \<le> n \<longrightarrow> I (s\<lparr>w_tick := n, w_cache := c\<rparr>))"

definition sending_stable :: "(world \<Rightarrow> bool) \<Rightarrow> bool" where
  "sending_stable I \<longleftrightarrow> calm I \<and> (\<forall>s f. I s \<longrightarrow> I (w_sent_update f s))"

lemma keeps_quiet: "calm I \<Longrightarrow> quiet m \<Longrightarrow> keeps I m"
  unfolding calm_def by (rule keepsI) (metis quietD)

lemma quiet_find_sorted [quiet_intros]: "quiet (find_sorted X get p k)" "quiet (find_first_sorted X get p k)"
proof -
  show s: "quiet (find_sorted X get p k)" unfolding find_sorted_def by (intro quiet_intros)
  have "quiet (case ds of [] \<Rightarrow> throw ErrNoDocuments | d # _ \<Rightarrow> ret d)" for ds :: "'d list"
    by (cases ds) (auto intro: quiet_intros)
  then show "quiet (find_first_sorted X get p k)" unfolding find_first_sorted_def by (intro quiet_bind s)
qed

lemma quiet_times [quiet_intros]: "quiet (time_or_zero X t)" "quiet (time_or_now X t)" "quiet (oid_or_new X i)"
  unfolding time_or_zero_def time_or_now_def oid_or_new_def by (intro quiet_intros)+

lemma quiet_gets [quiet_intros]: "quiet (repo_get X get idf from_mgo i)"
  unfolding repo_get_def by (intro quiet_intros)

lemma keeps_written:
  assumes "calm I" and "\<And>s f. I s \<Longrightarrow> I (upd f s)"
  shows "keeps I (insert_one X get upd idf d)" "keeps I (replace_one X upd p d)"
proof -
  note q = keeps_quiet[OF assms(1)] and w = keeps_modify[where I = I, OF assms(2)]
  show "keeps I (insert_one X get upd idf d)" unfolding insert_one_def
    by (intro keeps_bind keeps_if keeps_pure q[OF quiet_calls(3)] w)
  show "keeps I (replace_one X upd p d)" unfolding replace_one_def
    by (intro keeps_bind q[OF quiet_calls(3)] w)
qed

lemma keeps_effects [keeps_intros]: "keeps I (deref p)" "keeps I m \<Longrightarrow> keeps I (try_go m)"
proof -
  show "keeps I (deref p)" by (simp add: deref_def keeps_pure split: option.split)
  show "keeps I m \<Longrightarrow> keeps I (try_go m)" unfolding try_go_def by (intro keeps_intros) auto
qed

lemma calm_tick: "calm I \<Longrightarrow> I s \<Longrightarrow> I (s\<lparr>w_tick := Suc (w_tick s)\<rparr>)"
  unfolding calm_def by (drule spec[of _ s], drule spec[of _ "Suc (w_tick s)"], drule spec[of _ "w_cache s"]) simp

lemma keeps_sending: "sending_stable I \<Longrightarrow> keeps I (send X m)"
  unfolding send_def sending_stable_def by (intro keeps_bind keeps_modify) (auto intro: keeps_quiet quiet_intros)

end
