(* ===== verification/AccountingRepo.thy ===== *)
theory AccountingRepo
  imports PayoutRepo Effects
begin

text \<open>
  Accounting entries in the database: the mapper of internal/repository/models/accounting\_entry.go
  and the queries of internal/repository/accounting\_entry.go.
\<close>

section \<open>Entry types, sources and statuses (pkg/constant.go)\<close>

definition CollectionOrder :: string where "CollectionOrder = ''order''"
definition CollectionRefund :: string where "CollectionRefund = ''refund''"
definition CollectionMerchant :: string where "CollectionMerchant = ''merchant''"
definition ObjectTypeBalanceTransaction :: string where "ObjectTypeBalanceTransaction = ''balance_transaction''"
definition BalanceTransactionStatusAvailable :: string where "BalanceTransactionStatusAvailable = ''available''"
definition AE_RollingReserveCreate :: string where "AE_RollingReserveCreate = ''merchant_rolling_reserve_create''"
definition AE_RollingReserveRelease :: string where "AE_RollingReserveRelease = ''merchant_rolling_reserve_release''"
definition AE_RoyaltyCorrection :: string where "AE_RoyaltyCorrection = ''merchant_royalty_correction''"

lemmas source_collections = CollectionOrder_def CollectionRefund_def CollectionMerchant_def

definition accountingEntriesForRollingReserve :: "string list" where
  "accountingEntriesForRollingReserve = [AE_RollingReserveCreate, AE_RollingReserveRelease]"

section \<open>The mapper\<close>

text \<open>A nil \<open>Source\<close> is dereferenced.\<close>

definition ae_to_mgo :: "ext \<Rightarrow> accounting_entry \<Rightarrow> mgo_accounting_entry io" where
  "ae_to_mgo X e =
     (case ae_Source e of None \<Rightarrow> throw go_panic
      | Some src \<Rightarrow>
        bind (lift (x_oid_from_hex X (ae_MerchantId e))) (\<lambda>merchantOid.
        bind (lift (x_oid_from_hex X (aesrc_Id src))) (\<lambda>sourceOid.
        bind (oid_or_new X (ae_Id e)) (\<lambda>oid.
        bind (time_or_now X (ae_CreatedAt e)) (\<lambda>createdAt.
        bind (time_or_zero X (ae_AvailableOn e)) (\<lambda>availableOn.
        ret \<lparr>mgoae_Id = oid, mgoae_Object = ae_Object e, mgoae_Type = ae_Type e,
             mgoae_SourceId = sourceOid, mgoae_SourceType = aesrc_Type src, mgoae_MerchantId = merchantOid,
             mgoae_Amount = ae_Amount e, mgoae_Currency = ae_Currency e, mgoae_Reason = ae_Reason e,
             mgoae_Status = ae_Status e, mgoae_Country = ae_Country e,
             mgoae_OriginalAmount = ae_OriginalAmount e, mgoae_OriginalCurrency = ae_OriginalCurrency e,
             mgoae_LocalAmount = ae_LocalAmount e, mgoae_LocalCurrency = ae_LocalCurrency e,
             mgoae_CreatedAt = createdAt, mgoae_AvailableOn = availableOn,
             mgoae_OperatingCompanyId = ae_OperatingCompanyId e,
             mgoae_AmountRounded = ae_AmountRounded e,
             mgoae_OriginalAmountRounded = ae_OriginalAmountRounded e,
             mgoae_LocalAmountRounded = ae_LocalAmountRounded e\<rparr>))))))"

definition ae_from_mgo :: "ext \<Rightarrow> mgo_accounting_entry \<Rightarrow> go_err + accounting_entry" where
  "ae_from_mgo X d =
     bind_err (x_timestamp_proto X (mgoae_CreatedAt d)) (\<lambda>createdAt.
     bind_err (x_timestamp_proto X (mgoae_AvailableOn d)) (\<lambda>availableOn.
     Inr \<lparr>ae_Id = x_oid_hex X (mgoae_Id d), ae_Object = mgoae_Object d, ae_Type = mgoae_Type d,
          ae_Source = Some \<lparr>aesrc_Id = x_oid_hex X (mgoae_SourceId d), aesrc_Type = mgoae_SourceType d\<rparr>,
          ae_MerchantId = x_oid_hex X (mgoae_MerchantId d), ae_Amount = mgoae_Amount d,
          ae_Currency = mgoae_Currency d, ae_Reason = mgoae_Reason d, ae_Status = mgoae_Status d,
          ae_Country = mgoae_Country d, ae_OriginalAmount = mgoae_OriginalAmount d,
          ae_OriginalCurrency = mgoae_OriginalCurrency d, ae_LocalAmount = mgoae_LocalAmount d,
          ae_LocalCurrency = mgoae_LocalCurrency d, ae_CreatedAt = Some createdAt,
          ae_AvailableOn = Some availableOn, ae_OperatingCompanyId = mgoae_OperatingCompanyId d,
          ae_AmountRounded = mgoae_AmountRounded d,
          ae_OriginalAmountRounded = mgoae_OriginalAmountRounded d,
          ae_LocalAmountRounded = mgoae_LocalAmountRounded d\<rparr>))"

section \<open>The queries\<close>

text \<open>
  \<open>InsertMany\<close> is one ordered call: documents go in one after the other until one has an id
  that is taken. MultipleInsert only logs a mapping error and hands the driver a nil document,
  which it refuses, like an empty list.
\<close>

fun insert_docs :: "('d \<Rightarrow> oid) \<Rightarrow> 'd list \<Rightarrow> 'd list \<Rightarrow> 'd list \<times> bool" where
  "insert_docs idf [] ds = (ds, True)"
| "insert_docs idf (x # xs) ds =
     (if \<exists>d\<in>set ds. idf d = idf x then (ds, False) else insert_docs idf xs (ds @ [x]))"

fun map_entries :: "ext \<Rightarrow> accounting_entry list \<Rightarrow> (go_err + mgo_accounting_entry) list io" where
  "map_entries X [] = ret []"
| "map_entries X (e # es) =
     bind (try_go (ae_to_mgo X e)) (\<lambda>r. bind (map_entries X es) (\<lambda>rs. ret (r # rs)))"

definition nil_document :: go_err where "nil_document = ErrOther ''document is nil''"

definition aerepo_MultipleInsert :: "ext \<Rightarrow> accounting_entry list \<Rightarrow> unit io" where
  "aerepo_MultipleInsert X objs =
     bind (map_entries X objs) (\<lambda>c.
     if c = [] then throw (ErrOther ''must provide at least one element in input slice'')
     else (case map_err id c of
         Inl _ \<Rightarrow> throw nil_document
       | Inr docs \<Rightarrow>
         bind (calling X) (\<lambda>_. bind (gets w_accounting) (\<lambda>ds.
         (case insert_docs mgoae_Id docs ds of (ds', ok) \<Rightarrow>
           bind (modify (w_accounting_update (\<lambda>_. ds'))) (\<lambda>_.
           if ok then ret () else throw duplicate_key))))))"

definition ae_of_source :: "oid \<Rightarrow> string \<Rightarrow> mgo_accounting_entry \<Rightarrow> bool" where
  "ae_of_source i tp d \<longleftrightarrow> mgoae_SourceId d = i \<and> mgoae_SourceType d = tp"

definition aerepo_GetById :: "ext \<Rightarrow> string \<Rightarrow> accounting_entry io" where
  "aerepo_GetById X = repo_get X w_accounting mgoae_Id (ae_from_mgo X)"

definition aerepo_GetByObjectSource :: "ext \<Rightarrow> string \<Rightarrow> string \<Rightarrow> string \<Rightarrow> accounting_entry io" where
  "aerepo_GetByObjectSource X object sourceId sourceType =
     bind (lift (x_oid_from_hex X sourceId)) (\<lambda>objId.
     bind (find_one X w_accounting (\<lambda>d. mgoae_Object d = object \<and> ae_of_source objId sourceType d)) (\<lambda>mgo.
     lift (ae_from_mgo X mgo)))"

text \<open>
  ApplyObjectSource encodes the entry it is given and decodes the stored document over it; every
  field of a stored document is present, so the result is the stored one.
\<close>

definition aerepo_ApplyObjectSource ::
  "ext \<Rightarrow> string \<Rightarrow> string \<Rightarrow> string \<Rightarrow> string \<Rightarrow> accounting_entry \<Rightarrow> accounting_entry io" where
  "aerepo_ApplyObjectSource X object tp sourceId sourceType source =
     bind (lift (x_oid_from_hex X sourceId)) (\<lambda>objId.
     bind (ae_to_mgo X source) (\<lambda>_.
     bind (find_one X w_accounting (\<lambda>d. mgoae_Object d = object \<and> mgoae_Type d = tp \<and>
         ae_of_source objId sourceType d)) (\<lambda>mgo.
     lift (ae_from_mgo X mgo))))"

definition aerepo_FindBySource :: "ext \<Rightarrow> string \<Rightarrow> string \<Rightarrow> accounting_entry list io" where
  "aerepo_FindBySource X sourceId sourceType =
     bind (lift (x_oid_from_hex X sourceId)) (\<lambda>objId.
     bind (find_all X w_accounting (ae_of_source objId sourceType)) (\<lambda>list.
     lift (map_err (ae_from_mgo X) list)))"

definition aerepo_DeleteBySource :: "ext \<Rightarrow> string \<Rightarrow> string \<Rightarrow> unit io" where
  "aerepo_DeleteBySource X sourceId sourceType =
     bind (lift (x_oid_from_hex X sourceId)) (\<lambda>objId.
     delete_many X w_accounting_update (ae_of_source objId sourceType))"

definition aerepo_FindByTypeCountryDates ::
  "ext \<Rightarrow> string \<Rightarrow> string list \<Rightarrow> gotime \<Rightarrow> gotime \<Rightarrow> accounting_entry list io" where
  "aerepo_FindByTypeCountryDates X country types dateFrom dateTo =
     bind (find_all X w_accounting (\<lambda>d. dateFrom \<le> mgoae_CreatedAt d \<and> mgoae_CreatedAt d \<le> dateTo \<and>
         mgoae_Country d = country \<and> mgoae_Type d \<in> set types)) (\<lambda>list.
     lift (map_err (ae_from_mgo X) list))"

definition aerepo_GetDistinctBySourceId :: "ext \<Rightarrow> string list io" where
  "aerepo_GetDistinctBySourceId X =
     bind (find_all X w_accounting (\<lambda>_. True)) (\<lambda>ds.
     ret (map (x_oid_hex X) (remdups (map mgoae_SourceId ds))))"

text \<open>The corrections and the rolling reserves of a period differ in the entry types only.\<close>

definition aerepo_ForRoyaltyReport ::
  "ext \<Rightarrow> string \<Rightarrow> string \<Rightarrow> string list \<Rightarrow> gotime \<Rightarrow> gotime \<Rightarrow> accounting_entry list io" where
  "aerepo_ForRoyaltyReport X merchantId currency types from to =
     bind (lift (x_oid_from_hex X merchantId)) (\<lambda>i.
     bind (find_sorted X w_accounting (\<lambda>d. mgoae_MerchantId d = i \<and> mgoae_Currency d = currency \<and>
         from \<le> mgoae_CreatedAt d \<and> mgoae_CreatedAt d \<le> to \<and> mgoae_Type d \<in> set types)
       mgoae_CreatedAt) (\<lambda>list.
     lift (map_err (ae_from_mgo X) list)))"

definition aerepo_GetCorrectionsForRoyaltyReport ::
  "ext \<Rightarrow> string \<Rightarrow> string \<Rightarrow> gotime \<Rightarrow> gotime \<Rightarrow> accounting_entry list io" where
  "aerepo_GetCorrectionsForRoyaltyReport X merchantId currency from to =
     aerepo_ForRoyaltyReport X merchantId currency [AE_RoyaltyCorrection] from to"

definition aerepo_GetRollingReservesForRoyaltyReport ::
  "ext \<Rightarrow> string \<Rightarrow> string \<Rightarrow> string list \<Rightarrow> gotime \<Rightarrow> gotime \<Rightarrow> accounting_entry list io" where
  "aerepo_GetRollingReservesForRoyaltyReport X merchantId currency types from to =
     aerepo_ForRoyaltyReport X merchantId currency types from to"

text \<open>
  \<open>$group\<close> by type with \<open>$sum\<close>: one item per type that occurs (the order of the groups is
  that of their first documents; the database leaves it open).
\<close>

definition aerepo_GetRollingReserveForBalance ::
  "ext \<Rightarrow> string \<Rightarrow> string \<Rightarrow> string list \<Rightarrow> gotime \<Rightarrow> (string \<times> float64) list io" where
  "aerepo_GetRollingReserveForBalance X merchantId currency types createdAt =
     bind (lift (x_oid_from_hex X merchantId)) (\<lambda>merchantOid.
     bind (find_all X w_accounting (\<lambda>d. mgoae_MerchantId d = merchantOid \<and> mgoae_Currency d = currency \<and>
         mgoae_Type d \<in> set types \<and> (createdAt = time_zero \<or> createdAt < mgoae_CreatedAt d))) (\<lambda>ds.
     ret (map (\<lambda>tp. (tp, x_mongo_sum X (map mgoae_Amount (filter (\<lambda>d. mgoae_Type d = tp) ds))))
            (remdups (map mgoae_Type ds)))))"

section \<open>The repository as an instance of the interfaces\<close>

interpretation entries: collection w_accounting w_accounting_update mgoae_Id
  by unfold_locales simp_all

definition ae_canon :: "ext \<Rightarrow> accounting_entry \<Rightarrow> bool" where
  "ae_canon X e \<longleftrightarrow> canon_id X (ae_Id e) \<and> canon_id X (ae_MerchantId e) \<and>
     (case ae_Source e of None \<Rightarrow> False | Some s \<Rightarrow> canon_id X (aesrc_Id s)) \<and>
     canon_ts X (ae_CreatedAt e) \<and> canon_ts X (ae_AvailableOn e)"

lemma ae_encode:
  assumes "ae_canon X e"
  shows "\<exists>m. ae_to_mgo X e = ret m \<and> ae_from_mgo X m = Inr e \<and> x_oid_from_hex X (ae_Id e) = Inr (mgoae_Id m)"
proof -
  obtain src where s: "ae_Source e = Some src" "canon_id X (aesrc_Id src)"
    using assms by (auto simp: ae_canon_def split: option.splits)
  have c: "canon_id X (ae_Id e)" "canon_id X (ae_MerchantId e)" "canon_ts X (ae_CreatedAt e)"
    "canon_ts X (ae_AvailableOn e)"
    using assms by (auto simp: ae_canon_def)
  show ?thesis
    using s(1) s(2)[THEN canon_id_run] c(1,2)[THEN canon_id_run] c(3,4)[THEN canon_ts_run]
    by (cases e, cases src) (clarsimp simp: ae_to_mgo_def ae_from_mgo_def)
qed

interpretation entry_repo: repository w_accounting w_accounting_update mgoae_Id X "ae_to_mgo X" "ae_from_mgo X"
  "ae_canon X" ae_Id for X
  by unfold_locales (rule ae_encode)

end
