(* ===== verification/MerchantBalance.thy ===== *)
theory MerchantBalance
  imports AccountingRepo
begin

text \<open>
  Merchant balances: the mapper and repository of internal/repository(/models)/merchant\_balance.go
  and internal/service/merchant\_balance.go. A balance is never changed: every update inserts a
  new one, and the newest id is the current balance.
\<close>

section \<open>The mapper\<close>

definition balance_to_mgo :: "ext \<Rightarrow> merchant_balance \<Rightarrow> mgo_merchant_balance io" where
  "balance_to_mgo X m =
     bind (if balance_Id m = [] then new_oid X else lift (invalid_id (x_oid_from_hex X (balance_Id m)))) (\<lambda>oid.
     bind (lift (invalid_id (x_oid_from_hex X (balance_MerchantId m)))) (\<lambda>merchantOid.
     bind (time_or_now X (balance_CreatedAt m)) (\<lambda>createdAt.
     ret \<lparr>mgobalance_Id = oid, mgobalance_MerchantId = merchantOid, mgobalance_Currency = balance_Currency m,
          mgobalance_Debit = balance_Debit m, mgobalance_Credit = balance_Credit m,
          mgobalance_RollingReserve = balance_RollingReserve m, mgobalance_Total = balance_Total m,
          mgobalance_CreatedAt = createdAt\<rparr>)))"

definition balance_from_mgo :: "ext \<Rightarrow> mgo_merchant_balance \<Rightarrow> go_err + merchant_balance" where
  "balance_from_mgo X d =
     bind_err (x_timestamp_proto X (mgobalance_CreatedAt d)) (\<lambda>createdAt.
     Inr \<lparr>balance_Id = x_oid_hex X (mgobalance_Id d), balance_MerchantId = x_oid_hex X (mgobalance_MerchantId d),
          balance_Currency = mgobalance_Currency d, balance_Debit = mgobalance_Debit d,
          balance_Credit = mgobalance_Credit d, balance_RollingReserve = mgobalance_RollingReserve d,
          balance_Total = mgobalance_Total d, balance_CreatedAt = Some createdAt\<rparr>)"

section \<open>The repository\<close>

definition cacheKeyMerchantBalances :: "string \<Rightarrow> string \<Rightarrow> string" where
  "cacheKeyMerchantBalances m c = ''balance:merchant_id:'' @ m @ '':currency:'' @ c"

definition balrepo_Insert :: "ext \<Rightarrow> merchant_balance \<Rightarrow> unit io" where
  "balrepo_Insert X mb =
     bind (repo_insert X w_balances w_balances_update mgobalance_Id (balance_to_mgo X) mb) (\<lambda>_.
     bind (attempt (cache_set X (cacheKeyMerchantBalances (balance_MerchantId mb) (balance_Currency mb))
                      (CachedBalance mb))) (\<lambda>_. ret ()))"

definition balance_of :: "oid \<Rightarrow> string \<Rightarrow> mgo_merchant_balance \<Rightarrow> bool" where
  "balance_of m currency d \<longleftrightarrow> mgobalance_MerchantId d = m \<and> mgobalance_Currency d = currency"

text \<open>GetByIdAndCurrency reads the cache into a nil pointer, so it always goes on to the database.\<close>

definition balrepo_GetByIdAndCurrency :: "ext \<Rightarrow> string \<Rightarrow> string \<Rightarrow> merchant_balance io" where
  "balrepo_GetByIdAndCurrency X merchantId currency =
     bind (attempt (cache_get_nil X (cacheKeyMerchantBalances merchantId currency))) (\<lambda>c. case c of
       Inr mb \<Rightarrow> ret mb
     | Inl _ \<Rightarrow>
       bind (lift (x_oid_from_hex X merchantId)) (\<lambda>oid.
       bind (find_first_sorted X w_balances (balance_of oid currency) (\<lambda>d. - int (mgobalance_Id d))) (\<lambda>mgo.
       bind (lift (balance_from_mgo X mgo)) (\<lambda>mb.
       bind (attempt (cache_set X (cacheKeyMerchantBalances merchantId currency) (CachedBalance mb))) (\<lambda>_.
       ret mb)))))"

definition balrepo_CountByIdAndCurrency :: "ext \<Rightarrow> string \<Rightarrow> string \<Rightarrow> int io" where
  "balrepo_CountByIdAndCurrency X merchantId currency =
     bind (lift (x_oid_from_hex X merchantId)) (\<lambda>oid.
     count_documents X w_balances (balance_of oid currency))"

section \<open>The service\<close>

definition errorMerchantPayoutCurrencyNotSet :: go_err where
  "errorMerchantPayoutCurrencyNotSet = ResponseErrorMessage ''ba000001'' ''merchant payout currency not set''"

definition getMerchantBalance :: "ext \<Rightarrow> string \<Rightarrow> merchant_balance io" where
  "getMerchantBalance X merchantId =
     bind (replace_err merchantErrorNotFound (merchant_GetById X merchantId)) (\<lambda>merchant.
     if x_merchant_payout_currency X merchant = [] then throw errorMerchantPayoutCurrencyNotSet
     else balrepo_GetByIdAndCurrency X (merchant_Id merchant) (x_merchant_payout_currency X merchant))"

text \<open>
  The rolling reserve is the sum of the entries made since the last active payout document:
  created reserves count up, released ones down.
\<close>

fun reserve_total :: "float64 \<Rightarrow> (string \<times> float64) list \<Rightarrow> float64" where
  "reserve_total acc [] = acc"
| "reserve_total acc ((tp, amount) # items) =
     reserve_total (if tp = AE_RollingReserveRelease then acc - amount else acc + amount) items"

definition getRollingReserveForBalance :: "ext \<Rightarrow> string \<Rightarrow> string \<Rightarrow> float64 io" where
  "getRollingReserveForBalance X merchantId currency =
     bind (attempt (porepo_GetLast X merchantId currency)) (\<lambda>pd.
     bind (case pd of
         Inl e \<Rightarrow> if e = ErrNoDocuments then ret time_zero else throw e
       | Inr pd \<Rightarrow> lift (x_timestamp X (po_CreatedAt pd))) (\<lambda>createdAt.
     bind (aerepo_GetRollingReserveForBalance X merchantId currency accountingEntriesForRollingReserve createdAt) (\<lambda>items.
     if items = [] then ret 0 else ret (reserve_total 0 items))))"

definition updateMerchantBalance :: "ext \<Rightarrow> string \<Rightarrow> merchant_balance io" where
  "updateMerchantBalance X merchantId =
     bind (replace_err merchantErrorNotFound (merchant_GetById X merchantId)) (\<lambda>merchant.
     let currency = x_merchant_payout_currency X merchant in
     if currency = [] then throw errorMerchantPayoutCurrencyNotSet
     else
       bind (rrrepo_GetBalanceAmount X (merchant_Id merchant) currency) (\<lambda>debit.
       bind (porepo_GetBalanceAmount X (merchant_Id merchant) currency) (\<lambda>credit.
       bind (getRollingReserveForBalance X merchantId currency) (\<lambda>rr.
       bind (new_oid X) (\<lambda>i.
       bind (timestamp_now X) (\<lambda>createdAt.
       let balance = \<lparr>balance_Id = x_oid_hex X i, balance_MerchantId = merchantId,
             balance_Currency = currency, balance_Debit = debit, balance_Credit = credit,
             balance_RollingReserve = rr, balance_Total = debit - credit - rr,
             balance_CreatedAt = Some createdAt\<rparr> in
       bind (balrepo_Insert X balance) (\<lambda>_. ret balance)))))))"

text \<open>GetMerchantBalance: a missing balance is computed, service errors become a response.\<close>

definition message_or_error :: "rsp_status \<Rightarrow> go_err \<Rightarrow> 'a response io" where
  "message_or_error st e = (if is_message e then ret (rsp_error st e) else throw e)"

definition GetMerchantBalance :: "ext \<Rightarrow> string \<Rightarrow> merchant_balance response io" where
  "GetMerchantBalance X merchantId =
     bind (attempt (getMerchantBalance X merchantId)) (\<lambda>r. case r of
       Inr b \<Rightarrow> ret (rsp_ok b)
     | Inl e \<Rightarrow>
       if e = ErrNoDocuments then
         bind (attempt (updateMerchantBalance X merchantId)) (\<lambda>u. case u of
           Inr b \<Rightarrow> ret (rsp_ok b)
         | Inl e' \<Rightarrow> message_or_error ResponseStatusSystemError e')
       else message_or_error ResponseStatusSystemError e)"

section \<open>The repository as an instance of the interfaces\<close>

interpretation balances: collection w_balances w_balances_update mgobalance_Id
  by unfold_locales simp_all

definition balance_canon :: "ext \<Rightarrow> merchant_balance \<Rightarrow> bool" where
  "balance_canon X b \<longleftrightarrow> canon_id X (balance_Id b) \<and> canon_id X (balance_MerchantId b) \<and>
     canon_ts X (balance_CreatedAt b)"

lemma balance_encode:
  assumes "balance_canon X b"
  shows "\<exists>m. balance_to_mgo X b = ret m \<and> balance_from_mgo X m = Inr b \<and>
     x_oid_from_hex X (balance_Id b) = Inr (mgobalance_Id m)"
proof -
  have c: "canon_id X (balance_Id b)" "canon_id X (balance_MerchantId b)" "canon_ts X (balance_CreatedAt b)"
    using assms by (auto simp: balance_canon_def)
  show ?thesis
    using c(1,2)[THEN canon_id_run] c(3)[THEN canon_ts_run]
    by (cases b) (clarsimp simp: balance_to_mgo_def balance_from_mgo_def invalid_id_def)
qed

interpretation balance_repo: repository w_balances w_balances_update mgobalance_Id X "balance_to_mgo X"
  "balance_from_mgo X" "balance_canon X" balance_Id for X
  by unfold_locales (rule balance_encode)

section \<open>What an update computes\<close>

definition amount_of :: "float64 list \<Rightarrow> float64" where
  "amount_of rows = (if rows = [] then 0 else round_cents (float_sum rows))"

definition debit_of :: "ext \<Rightarrow> oid \<Rightarrow> string \<Rightarrow> world \<Rightarrow> float64" where
  "debit_of X m c s = amount_of (map (report_balance_row X) (filter (counts_for_balance m c) (w_reports s)))"

definition credit_of :: "ext \<Rightarrow> oid \<Rightarrow> string \<Rightarrow> world \<Rightarrow> float64" where
  "credit_of X m c s = amount_of (map (\<lambda>d. x_mongo_round2 X (mgopo_TotalFees d)) (filter (payout_active m c) (w_payouts s)))"

lemma debit_rows:
  "balance_of_rows (map (\<lambda>d. (mgorr_Currency d, report_balance_row X d))
     (filter (counts_for_balance m c) (w_reports s))) = Inr (debit_of X m c s)"
  by (subst balance_of_rows_sum[of _ c]) (auto simp: counts_for_balance_def debit_of_def amount_of_def o_def)

lemma credit_rows:
  "balance_of_rows (map (\<lambda>d. (mgopo_Currency d, x_mongo_round2 X (mgopo_TotalFees d)))
     (filter (payout_active m c) (w_payouts s))) = Inr (credit_of X m c s)"
  by (subst balance_of_rows_sum[of _ c]) (auto simp: payout_active_def credit_of_def amount_of_def o_def)

lemma wp_debit:
  assumes "x_oid_from_hex X i = Inr m"
  shows "wp (rrrepo_GetBalanceAmount X i c) Q s =
    (case x_fault X (w_tick s) of Some e \<Rightarrow> Q (Inl e) (s\<lparr>w_tick := Suc (w_tick s)\<rparr>)
     | None \<Rightarrow> Q (Inr (debit_of X m c s)) (s\<lparr>w_tick := Suc (w_tick s)\<rparr>))"
  using assms by (simp add: rrrepo_GetBalanceAmount_def reports.wp_find_all debit_rows split: option.splits)

lemma wp_credit:
  assumes "x_oid_from_hex X i = Inr m"
  shows "wp (porepo_GetBalanceAmount X i c) Q s =
    (case x_fault X (w_tick s) of Some e \<Rightarrow> Q (Inl e) (s\<lparr>w_tick := Suc (w_tick s)\<rparr>)
     | None \<Rightarrow> Q (Inr (credit_of X m c s)) (s\<lparr>w_tick := Suc (w_tick s)\<rparr>))"
  using assms by (simp add: porepo_GetBalanceAmount_def payouts.wp_find_all credit_rows split: option.splits)

text \<open>The entries that make up the rolling reserve: those after the newest active payout.\<close>

definition last_active_payout :: "oid \<Rightarrow> string \<Rightarrow> world \<Rightarrow> mgo_payout option" where
  "last_active_payout m c s =
     (case sort_key (\<lambda>d. - mgopo_CreatedAt d) (filter (payout_active m c) (w_payouts s)) of
        [] \<Rightarrow> None | d # _ \<Rightarrow> Some d)"

definition reserve_entries :: "oid \<Rightarrow> string \<Rightarrow> gotime \<Rightarrow> world \<Rightarrow> mgo_accounting_entry list" where
  "reserve_entries m c since s = filter (\<lambda>d. mgoae_MerchantId d = m \<and> mgoae_Currency d = c \<and>
     mgoae_Type d \<in> set accountingEntriesForRollingReserve \<and>
     (since = time_zero \<or> since < mgoae_CreatedAt d)) (w_accounting s)"

definition reserve_items :: "ext \<Rightarrow> mgo_accounting_entry list \<Rightarrow> (string \<times> float64) list" where
  "reserve_items X ds = map (\<lambda>tp. (tp, x_mongo_sum X (map mgoae_Amount (filter (\<lambda>d. mgoae_Type d = tp) ds))))
     (remdups (map mgoae_Type ds))"

definition reserve_of :: "ext \<Rightarrow> oid \<Rightarrow> string \<Rightarrow> world \<Rightarrow> float64" where
  "reserve_of X m c s = reserve_total 0 (reserve_items X (reserve_entries m c
     (case last_active_payout m c s of None \<Rightarrow> time_zero | Some d \<Rightarrow> mgopo_CreatedAt d) s))"

lemma wp_last:
  assumes "x_oid_from_hex X i = Inr m"
  shows "wp (porepo_GetLast X i c) Q s =
    (case x_fault X (w_tick s) of Some e \<Rightarrow> Q (Inl e) (s\<lparr>w_tick := Suc (w_tick s)\<rparr>)
     | None \<Rightarrow> Q (case last_active_payout m c s of None \<Rightarrow> Inl ErrNoDocuments | Some d \<Rightarrow> po_from_mgo X d)
                (s\<lparr>w_tick := Suc (w_tick s)\<rparr>))"
  using assms by (simp add: porepo_GetLast_def find_first_sorted_def find_sorted_def payouts.wp_find_all
      last_active_payout_def split: option.splits list.splits)

lemma wp_reserve_items:
  assumes "x_oid_from_hex X i = Inr m"
  shows "wp (aerepo_GetRollingReserveForBalance X i c accountingEntriesForRollingReserve t) Q s =
    (case x_fault X (w_tick s) of Some e \<Rightarrow> Q (Inl e) (s\<lparr>w_tick := Suc (w_tick s)\<rparr>)
     | None \<Rightarrow> Q (Inr (reserve_items X (reserve_entries m c t s))) (s\<lparr>w_tick := Suc (w_tick s)\<rparr>))"
  using assms by (simp add: aerepo_GetRollingReserveForBalance_def entries.wp_find_all reserve_items_def
      reserve_entries_def split: option.splits)

text \<open>The reserve is \<open>reserve_of\<close> unless a call fails.\<close>

lemma reserve_entries_tick [simp]: "reserve_entries m c t (s\<lparr>w_tick := n\<rparr>) = reserve_entries m c t s"
  by (simp add: reserve_entries_def)

lemma reserve_run:
  assumes X: "codecs_ok X" and m: "x_oid_from_hex X i = Inr m"
    and v: "\<forall>d\<in>set (w_payouts s). payout_valid d"
    and no: "\<forall>n. x_fault X n \<noteq> Some ErrNoDocuments"
  shows "wp (getRollingReserveForBalance X i c) (\<lambda>r t. (\<forall>a. r = Inr a \<longrightarrow> a = reserve_of X m c s) \<and>
      t = s\<lparr>w_tick := w_tick t\<rparr> \<and> w_tick s \<le> w_tick t) s"
proof (cases "last_active_payout m c s")
  case None
  then show ?thesis using m no
    by (simp add: getRollingReserveForBalance_def wp_last wp_reserve_items reserve_of_def split: option.split)
next
  case (Some d)
  have "d \<in> set (sort_key (\<lambda>d. - mgopo_CreatedAt d) (filter (payout_active m c) (w_payouts s)))"
    using Some by (auto simp: last_active_payout_def simp del: set_sort split: list.splits)
  then have "payout_valid d" using v by simp
  then obtain p where p: "po_from_mgo X d = Inr p" "x_timestamp X (po_CreatedAt p) = Inr (mgopo_CreatedAt d)"
    using po_from_mgo_valid[OF X] by blast
  show ?thesis using m no Some p
    by (simp add: getRollingReserveForBalance_def wp_last wp_reserve_items reserve_of_def split: option.split)
qed


section \<open>An update appends the balance it computed\<close>

lemma wp_insert_balance:
  assumes "balance_to_mgo X b = ret mb"
  shows "wp (balrepo_Insert X b) (\<lambda>r t. r = Inr () \<longrightarrow> w_balances t = w_balances s @ [mb] \<and>
      t = s\<lparr>w_tick := w_tick t, w_balances := w_balances t, w_cache := w_cache t\<rparr>) s"
  using assms by (auto simp: balrepo_Insert_def repo_insert_def balances.wp_insert_one split: option.splits sum.splits)

text \<open>The clocks return timestamps that the codecs convert.\<close>

definition clock_ok :: "ext \<Rightarrow> bool" where
  "clock_ok X \<longleftrightarrow> (\<forall>n. canon_ts X (Some (x_ts_now X n)))"

lemma new_balance_encode:
  assumes X: "codecs_ok X" "clock_ok X" and m: "x_oid_from_hex X i = Inr m"
    and b: "balance_Id b = x_oid_hex X d" "balance_MerchantId b = i" "balance_CreatedAt b = Some (x_ts_now X n)"
  shows "\<exists>mb. balance_to_mgo X b = ret mb \<and> balance_from_mgo X mb = Inr (b\<lparr>balance_MerchantId := x_oid_hex X m\<rparr>) \<and>
     mgobalance_Id mb = d \<and> balance_of m (balance_Currency b) mb"
proof -
  have "canon_ts X (Some (x_ts_now X n))" using X(2) by (simp add: clock_ok_def)
  then obtain c where "x_timestamp X (Some (x_ts_now X n)) = Inr c" "x_timestamp_proto X c = Inr (x_ts_now X n)"
    by (auto elim: canon_tsE)
  then show ?thesis using b m codecs_hex[OF X(1)]
    by (cases b) (simp add: balance_to_mgo_def balance_from_mgo_def invalid_id_def time_or_now_def balance_of_def)
qed

lemma update_balance_steps:
  assumes "updateMerchantBalance X i s = (Inr b, s')"
  obtains mer s1 s2 s3 s4 where
    "merchant_GetById X i s = (Inr mer, s1)" "balance_Currency b = x_merchant_payout_currency X mer"
    "balance_Currency b \<noteq> []" "balance_MerchantId b = i"
    "rrrepo_GetBalanceAmount X (merchant_Id mer) (balance_Currency b) s1 = (Inr (balance_Debit b), s2)"
    "porepo_GetBalanceAmount X (merchant_Id mer) (balance_Currency b) s2 = (Inr (balance_Credit b), s3)"
    "getRollingReserveForBalance X i (balance_Currency b) s3 = (Inr (balance_RollingReserve b), s4)"
    "balance_Id b = x_oid_hex X (x_new_oid X (w_tick s4))" "balance_CreatedAt b = Some (x_ts_now X (Suc (w_tick s4)))"
    "balance_Total b = balance_Debit b - balance_Credit b - balance_RollingReserve b"
    "balrepo_Insert X b (s4\<lparr>w_tick := w_tick s4 + 2\<rparr>) = (Inr (), s')"
  using assms that
  by (auto simp: updateMerchantBalance_def run_go new_oid_def timestamp_now_def Let_def
      split: sum.splits prod.splits if_splits)

lemma update_balance_run:
  assumes X: "codecs_ok X" "clock_ok X" and m: "x_oid_from_hex X i = Inr m"
    and v: "\<forall>d\<in>set (w_payouts s). payout_valid d"
    and no: "\<forall>n. x_fault X n \<noteq> Some ErrNoDocuments"
    and run: "updateMerchantBalance X i s = (Inr b, s')"
  shows "\<exists>mer. find (\<lambda>x. merchant_Id x = i) (w_merchants s) = Some mer \<and>
    balance_Currency b = x_merchant_payout_currency X mer \<and> balance_Currency b \<noteq> []"
    and "balance_Debit b = debit_of X m (balance_Currency b) s"
    and "balance_Credit b = credit_of X m (balance_Currency b) s"
    and "balance_RollingReserve b = reserve_of X m (balance_Currency b) s"
    and "balance_Total b = balance_Debit b - balance_Credit b - balance_RollingReserve b"
    and "\<exists>mb n. w_balances s' = w_balances s @ [mb] \<and>
      balance_from_mgo X mb = Inr (b\<lparr>balance_MerchantId := x_oid_hex X m\<rparr>) \<and>
      mgobalance_Id mb = x_new_oid X n \<and> w_tick s \<le> n \<and> balance_of m (balance_Currency b) mb"
    and "s' = s\<lparr>w_tick := w_tick s', w_balances := w_balances s', w_cache := w_cache s'\<rparr>"
proof -
  obtain mer s1 s2 s3 s4 where st:
    "merchant_GetById X i s = (Inr mer, s1)" "balance_Currency b = x_merchant_payout_currency X mer"
    "balance_Currency b \<noteq> []" "balance_MerchantId b = i"
    "rrrepo_GetBalanceAmount X (merchant_Id mer) (balance_Currency b) s1 = (Inr (balance_Debit b), s2)"
    "porepo_GetBalanceAmount X (merchant_Id mer) (balance_Currency b) s2 = (Inr (balance_Credit b), s3)"
    "getRollingReserveForBalance X i (balance_Currency b) s3 = (Inr (balance_RollingReserve b), s4)"
    "balance_Id b = x_oid_hex X (x_new_oid X (w_tick s4))" "balance_CreatedAt b = Some (x_ts_now X (Suc (w_tick s4)))"
    "balance_Total b = balance_Debit b - balance_Credit b - balance_RollingReserve b"
    "balrepo_Insert X b (s4\<lparr>w_tick := w_tick s4 + 2\<rparr>) = (Inr (), s')"
    using update_balance_steps[OF run] by blast
  have "wp (merchant_GetById X i) (\<lambda>r t. \<forall>a. r = Inr a \<longrightarrow> t = s\<lparr>w_tick := Suc (w_tick s)\<rparr> \<and>
      find (\<lambda>x. merchant_Id x = i) (w_merchants s) = Some a) s"
    by (auto simp: merchant_GetById_def find_one_def split: option.splits)
  then have 1: "s1 = s\<lparr>w_tick := Suc (w_tick s)\<rparr>" "find (\<lambda>x. merchant_Id x = i) (w_merchants s) = Some mer"
    using st(1) by (auto simp: wp_def)
  have i: "merchant_Id mer = i" using find_SomeD[OF 1(2)] by simp
  have "wp (rrrepo_GetBalanceAmount X i (balance_Currency b)) (\<lambda>r t. \<forall>a. r = Inr a \<longrightarrow>
      a = debit_of X m (balance_Currency b) s1 \<and> t = s1\<lparr>w_tick := Suc (w_tick s1)\<rparr>) s1"
    by (simp add: wp_debit[OF m] split: option.split)
  then have 2: "balance_Debit b = debit_of X m (balance_Currency b) s1" "s2 = s1\<lparr>w_tick := Suc (w_tick s1)\<rparr>"
    using st(5) i by (auto simp: wp_def)
  have "wp (porepo_GetBalanceAmount X i (balance_Currency b)) (\<lambda>r t. \<forall>a. r = Inr a \<longrightarrow>
      a = credit_of X m (balance_Currency b) s2 \<and> t = s2\<lparr>w_tick := Suc (w_tick s2)\<rparr>) s2"
    by (simp add: wp_credit[OF m] split: option.split)
  then have 3: "balance_Credit b = credit_of X m (balance_Currency b) s2" "s3 = s2\<lparr>w_tick := Suc (w_tick s2)\<rparr>"
    using st(6) i by (auto simp: wp_def)
  have "\<forall>d\<in>set (w_payouts s3). payout_valid d" using v 1 2 3 by simp
  from wpD[OF reserve_run[OF X(1) m this no] st(7)]
  have 4: "balance_RollingReserve b = reserve_of X m (balance_Currency b) s3" "s4 = s3\<lparr>w_tick := w_tick s4\<rparr>"
    "w_tick s3 \<le> w_tick s4" by auto
  obtain mb where mb: "balance_to_mgo X b = ret mb" "balance_from_mgo X mb = Inr (b\<lparr>balance_MerchantId := x_oid_hex X m\<rparr>)"
     "mgobalance_Id mb = x_new_oid X (w_tick s4)" "balance_of m (balance_Currency b) mb"
    using new_balance_encode[OF X m st(8,4,9)] by blast
  from wpD[OF wp_insert_balance[OF mb(1)] st(11)]
  have 5: "w_balances s' = w_balances s4 @ [mb]"
    "s' = s4\<lparr>w_tick := w_tick s', w_balances := w_balances s', w_cache := w_cache s'\<rparr>" by auto
  note eqs = 1(1) 2(2) 3(2) 4(2)
  have s4: "s4 = s\<lparr>w_tick := w_tick s4\<rparr>" using eqs by simp
  show "\<exists>mer. find (\<lambda>x. merchant_Id x = i) (w_merchants s) = Some mer \<and>
    balance_Currency b = x_merchant_payout_currency X mer \<and> balance_Currency b \<noteq> []"
    using 1(2) st(2,3) by blast
  show "balance_Debit b = debit_of X m (balance_Currency b) s" using 2(1) 1(1) by (simp add: debit_of_def)
  show "balance_Credit b = credit_of X m (balance_Currency b) s"
    using 3(1) 2(2) 1(1) by (simp add: credit_of_def)
  show "balance_RollingReserve b = reserve_of X m (balance_Currency b) s"
    using 4(1) 3(2) 2(2) 1(1) by (simp add: reserve_of_def last_active_payout_def)
  show "balance_Total b = balance_Debit b - balance_Credit b - balance_RollingReserve b" by (rule st(10))
  have "w_balances s4 = w_balances s" by (subst s4) simp
  moreover have "w_tick s \<le> w_tick s4" using 4(3) 3(2) 2(2) 1(1) by simp
  ultimately show "\<exists>mb n. w_balances s' = w_balances s @ [mb] \<and>
      balance_from_mgo X mb = Inr (b\<lparr>balance_MerchantId := x_oid_hex X m\<rparr>) \<and>
      mgobalance_Id mb = x_new_oid X n \<and> w_tick s \<le> n \<and> balance_of m (balance_Currency b) mb"
    using 5(1) mb by auto
  show "s' = s\<lparr>w_tick := w_tick s', w_balances := w_balances s', w_cache := w_cache s'\<rparr>"
    using 5(2) by (subst (asm) s4) simp
qed

text \<open>Without failures an update of a merchant with a payout currency returns a balance.\<close>

lemma reserve_returns:
  assumes X: "codecs_ok X" and m: "x_oid_from_hex X i = Inr m" and v: "\<forall>d\<in>set (w_payouts s). payout_valid d"
    and ok: "\<forall>n. x_fault X n = None"
  shows "\<exists>a n. getRollingReserveForBalance X i c s = (Inr a, s\<lparr>w_tick := n\<rparr>) \<and> w_tick s \<le> n"
proof -
  have "wp (getRollingReserveForBalance X i c) (\<lambda>r t. \<exists>a. r = Inr a) s"
  proof (cases "last_active_payout m c s")
    case None
    then show ?thesis using m ok by (simp add: getRollingReserveForBalance_def wp_last wp_reserve_items)
  next
    case (Some d)
    have "d \<in> set (sort_key (\<lambda>d. - mgopo_CreatedAt d) (filter (payout_active m c) (w_payouts s)))"
      using Some by (auto simp: last_active_payout_def simp del: set_sort split: list.splits)
    then obtain p where "po_from_mgo X d = Inr p" "x_timestamp X (po_CreatedAt p) = Inr (mgopo_CreatedAt d)"
      using po_from_mgo_valid[OF X] v by auto
    then show ?thesis using m ok Some by (simp add: getRollingReserveForBalance_def wp_last wp_reserve_items)
  qed
  then obtain a t where r: "getRollingReserveForBalance X i c s = (Inr a, t)" by (auto simp: wp_def split: prod.splits)
  have t: "t = s\<lparr>w_tick := w_tick t\<rparr>" "w_tick s \<le> w_tick t"
    using wpD[OF reserve_run[OF X m v] r] ok by simp_all
  show ?thesis by (rule exI[of _ a], rule exI[of _ "w_tick t"]) (metis r t)
qed

lemma update_balance_returns:
  assumes X: "codecs_ok X" "clock_ok X" and m: "x_oid_from_hex X i = Inr m"
    and mer: "find (\<lambda>x. merchant_Id x = i) (w_merchants s) = Some mer" "x_merchant_payout_currency X mer \<noteq> []"
    and v: "\<forall>d\<in>set (w_payouts s). payout_valid d" and ok: "\<forall>n. x_fault X n = None"
    and new: "\<forall>d\<in>set (w_balances s). \<forall>n\<ge>w_tick s. mgobalance_Id d \<noteq> x_new_oid X n"
  shows "\<exists>b t. updateMerchantBalance X i s = (Inr b, t)"
proof -
  have i: "merchant_Id mer = i" using find_SomeD[OF mer(1)] by simp
  let ?c = "x_merchant_payout_currency X mer" and ?s = "s\<lparr>w_tick := Suc (Suc (Suc (w_tick s)))\<rparr>"
  have step: "wp (balrepo_Insert X b) (\<lambda>r t. r = Inr ()) u"
    if b: "balance_Id b = x_oid_hex X (x_new_oid X n)" "w_tick s \<le> n" "balance_MerchantId b = i"
      "balance_CreatedAt b = Some (x_ts_now X k)" and u: "w_balances u = w_balances s" for b n k u
  proof -
    obtain mb where mb: "balance_to_mgo X b = ret mb" "mgobalance_Id mb = x_new_oid X n"
      using new_balance_encode[OF X m b(1,3,4)] by blast
    have "x_new_oid X n \<notin> mgobalance_Id ` set (w_balances s)" using new b(2) by force
    then show ?thesis using mb u ok by (simp add: balrepo_Insert_def repo_insert_def balances.wp_insert_one)
  qed
  have "\<exists>a n. getRollingReserveForBalance X i ?c ?s = (Inr a, ?s\<lparr>w_tick := n\<rparr>) \<and> w_tick ?s \<le> n"
    by (rule reserve_returns[OF X(1) m _ ok]) (simp add: v)
  then obtain a n where r: "getRollingReserveForBalance X i ?c ?s = (Inr a, ?s\<lparr>w_tick := n\<rparr>)" and n: "w_tick ?s \<le> n"
    by blast
  have n: "w_tick s \<le> n" using n by simp
  have "wp (updateMerchantBalance X i) (\<lambda>r t. \<exists>b. r = Inr b) s"
    using mer m ok i r n
    by (simp add: updateMerchantBalance_def merchant_GetById_def find_one_def wp_debit wp_credit Let_def clock_defs)
      (subst wp_def, simp, rule wp_mono, rule step[where n = n], simp_all)
  then show ?thesis by (auto simp: wp_def split: prod.splits)
qed

section \<open>The properties at a concrete state\<close>

definition sample_report :: "rr_status \<Rightarrow> mgo_royalty_report" where
  "sample_report st = \<lparr>mgorr_Id = 4, mgorr_MerchantId = 2, mgorr_CreatedAt = 0, mgorr_UpdatedAt = 0,
     mgorr_PayoutDate = time_zero, mgorr_Status = st, mgorr_PeriodFrom = 0, mgorr_PeriodTo = 5,
     mgorr_AcceptExpireAt = 9, mgorr_AcceptedAt = 0,
     mgorr_Totals = Some (no_totals\<lparr>rrt_PayoutAmount := Fin 100, rrt_FinalPayoutAmount := Fin 100\<rparr>),
     mgorr_Currency = ''EUR'', mgorr_Summary = None, mgorr_DisputeReason = [], mgorr_DisputeStartedAt = time_zero,
     mgorr_DisputeClosedAt = time_zero, mgorr_IsAutoAccepted = False, mgorr_PayoutDocumentId = [],
     mgorr_OperatingCompanyId = ''oc'', mgorr_StringPeriodFrom = ''f'', mgorr_StringPeriodTo = ''t''\<rparr>"

definition sample_world :: world where
  "sample_world = empty_world\<lparr>w_merchants := [sample_merchant], w_reports := [sample_report RRAccepted]\<rparr>"

lemma sample_clock_ok: "clock_ok sample_ext"
  by (simp add: clock_ok_def sample_canon_ts)

lemma sample_currency [simp]: "x_merchant_payout_currency sample_ext m = ''EUR''"
  by (simp add: sample_ext_def)

lemma sample_world_fields [simp]:
  "w_payouts sample_world = []" "w_balances sample_world = []" "w_merchants sample_world = [sample_merchant]"
  "w_reports sample_world = [sample_report RRAccepted]" "w_accounting sample_world = []" "w_tick sample_world = 0"
  "merchant_Id sample_merchant = sample_hex 2"
  by (simp_all add: sample_world_def empty_world_def sample_merchant_def)

lemma sample_update_runs: "\<exists>b s'. updateMerchantBalance sample_ext (sample_hex 2) sample_world = (Inr b, s')"
  by (rule update_balance_returns[OF sample_codecs_ok sample_clock_ok, of _ 2 _ sample_merchant])
    (simp_all add: sample_hex_roundtrip)

section \<open>Properties\<close>

subsection \<open>What a balance is, said over the documents alone\<close>

text \<open>What the reports of a merchant owe it: those that have been accepted, wait for their payment or are paid.\<close>

definition owed :: "ext \<Rightarrow> oid \<Rightarrow> string \<Rightarrow> world \<Rightarrow> float64 list" where
  "owed X m c s = map (\<lambda>d. case mgorr_Totals d of
       None \<Rightarrow> x_mongo_round2 X 0 + x_mongo_round2 X 0 - x_mongo_round2 X 0
     | Some t \<Rightarrow> x_mongo_round2 X (rrt_PayoutAmount t) + x_mongo_round2 X (rrt_CorrectionAmount t)
         - x_mongo_round2 X (rrt_RollingReserveAmount t))
     (filter (\<lambda>d. mgorr_MerchantId d = m \<and> mgorr_Currency d = c \<and>
       (mgorr_Status d = RRAccepted \<or> mgorr_Status d = RRWaitForPayment \<or> mgorr_Status d = RRPaid)) (w_reports s))"

text \<open>The payouts that count, which are those pending and paid.\<close>

definition counted_payouts :: "oid \<Rightarrow> string \<Rightarrow> world \<Rightarrow> mgo_payout list" where
  "counted_payouts m c s = filter (\<lambda>d. mgopo_MerchantId d = m \<and> mgopo_Currency d = c \<and>
     (mgopo_Status d = ''pending'' \<or> mgopo_Status d = ''paid'')) (w_payouts s)"

text \<open>The amounts of the entries of a type that are later than the newest of them; all when there is none.\<close>

definition reserved_since :: "oid \<Rightarrow> string \<Rightarrow> string \<Rightarrow> world \<Rightarrow> float64 list" where
  "reserved_since m c ty s = map mgoae_Amount (filter (\<lambda>d. mgoae_MerchantId d = m \<and> mgoae_Currency d = c \<and> mgoae_Type d = ty \<and>
     (let paid = mgopo_CreatedAt ` set (counted_payouts m c s) in
      paid = {} \<or> Max paid = time_zero \<or> Max paid < mgoae_CreatedAt d)) (w_accounting s))"

definition rounded_sum :: "float64 list \<Rightarrow> float64" where
  "rounded_sum rows = (if rows = [] then 0 else round_cents (float_sum rows))"

text \<open>The database answers one sum for each type, in any order.\<close>

definition held_back :: "ext \<Rightarrow> float64 list \<Rightarrow> float64 list \<Rightarrow> float64 \<Rightarrow> bool" where
  "held_back X created released r \<longleftrightarrow> (let A = x_mongo_sum X created; B = x_mongo_sum X released in
     if created = [] \<and> released = [] then r = 0 else if released = [] then r = 0 + A else if created = [] then r = 0 - B
     else r = 0 + A - B \<or> r = 0 - B + A)"

lemma owed_debit: "debit_of X m c s = rounded_sum (owed X m c s)"
proof -
  have "counts_for_balance m c = (\<lambda>d. mgorr_MerchantId d = m \<and> mgorr_Currency d = c \<and>
      (mgorr_Status d = RRAccepted \<or> mgorr_Status d = RRWaitForPayment \<or> mgorr_Status d = RRPaid))"
    by (auto simp: counts_for_balance_def balance_statuses_def)
  moreover have "report_balance_row X = (\<lambda>d. case mgorr_Totals d of
       None \<Rightarrow> x_mongo_round2 X 0 + x_mongo_round2 X 0 - x_mongo_round2 X 0
     | Some t \<Rightarrow> x_mongo_round2 X (rrt_PayoutAmount t) + x_mongo_round2 X (rrt_CorrectionAmount t)
         - x_mongo_round2 X (rrt_RollingReserveAmount t))"
    by (auto simp: report_balance_row_def Let_def no_totals_def split: option.split)
  ultimately show ?thesis by (simp add: debit_of_def amount_of_def rounded_sum_def owed_def)
qed

lemma counted_active: "counted_payouts m c s = filter (payout_active m c) (w_payouts s)"
  unfolding counted_payouts_def by (rule filter_cong) (auto simp: payout_active_def
    PayoutDocumentStatusPending_def PayoutDocumentStatusPaid_def)

lemma paid_credit: "credit_of X m c s = rounded_sum (map (\<lambda>d. x_mongo_round2 X (mgopo_TotalFees d)) (counted_payouts m c s))"
  by (simp add: credit_of_def amount_of_def rounded_sum_def counted_active)

lemma last_is_newest:
  "(case last_active_payout m c s of None \<Rightarrow> time_zero | Some d \<Rightarrow> mgopo_CreatedAt d) =
    (let paid = mgopo_CreatedAt ` set (counted_payouts m c s) in if paid = {} then time_zero else Max paid)"
proof (cases "sort_key (\<lambda>d. - mgopo_CreatedAt d) (filter (payout_active m c) (w_payouts s))")
  case Nil
  then have "counted_payouts m c s = []" by (metis counted_active set_empty set_sort)
  then show ?thesis using Nil by (simp add: last_active_payout_def)
next
  case (Cons d ds)
  have set: "set (counted_payouts m c s) = set (d # ds)" by (metis Cons counted_active set_sort)
  have "sorted (map (\<lambda>d. - mgopo_CreatedAt d) (d # ds))" using sorted_sort_key Cons by metis
  then have "Max (mgopo_CreatedAt ` set (d # ds)) = mgopo_CreatedAt d" by (intro Max_eqI) auto
  then show ?thesis using Cons set by (simp add: last_active_payout_def)
qed

lemma remdups_of_two:
  assumes "set xs \<subseteq> {a, b}" "a \<noteq> b"
  shows "remdups xs \<in> {[], [a], [b], [a, b], [b, a]}"
proof -
  have d: "distinct (remdups xs)" "set (remdups xs) \<subseteq> {a, b}" using assms by simp_all
  have "length (remdups xs) = card (set xs)" by (simp add: length_remdups_card_conv)
  also have "\<dots> \<le> card {a, b}" using assms(1) by (intro card_mono) simp_all
  also have "\<dots> = 2" using assms(2) by simp
  finally have "length (remdups xs) \<le> 2" .
  with d show ?thesis
    by (cases "remdups xs"; cases "tl (remdups xs)"; cases "tl (tl (remdups xs))") auto
qed

lemma reserve_total_two:
  assumes "ts \<in> {[], [AE_RollingReserveCreate], [AE_RollingReserveRelease], [AE_RollingReserveCreate, AE_RollingReserveRelease],
      [AE_RollingReserveRelease, AE_RollingReserveCreate]}"
    and "AE_RollingReserveCreate \<in> set ts \<longleftrightarrow> created \<noteq> []" "AE_RollingReserveRelease \<in> set ts \<longleftrightarrow> released \<noteq> []"
    and "f AE_RollingReserveCreate = created" "f AE_RollingReserveRelease = released"
  shows "held_back X created released (reserve_total 0 (map (\<lambda>tp. (tp, x_mongo_sum X (f tp))) ts))"
proof -
  have ne: "AE_RollingReserveCreate \<noteq> AE_RollingReserveRelease"
    by (simp add: AE_RollingReserveCreate_def AE_RollingReserveRelease_def)
  show ?thesis using assms(1)
  proof (elim insertE emptyE)
  qed (use assms(2-5) ne in \<open>auto simp: held_back_def Let_def\<close>)
qed

lemma reserve_held:
  "held_back X (reserved_since m c ''merchant_rolling_reserve_create'' s)
     (reserved_since m c ''merchant_rolling_reserve_release'' s) (reserve_of X m c s)"
proof -
  let ?es = "reserve_entries m c (case last_active_payout m c s of None \<Rightarrow> time_zero | Some d \<Rightarrow> mgopo_CreatedAt d) s"
  have amounts: "map mgoae_Amount (filter (\<lambda>d. mgoae_Type d = ty) ?es) = reserved_since m c ty s"
    if "ty \<in> {AE_RollingReserveCreate, AE_RollingReserveRelease}" for ty
  proof -
    have "filter (\<lambda>d. mgoae_Type d = ty) ?es = filter (\<lambda>d. mgoae_MerchantId d = m \<and> mgoae_Currency d = c \<and> mgoae_Type d = ty \<and>
       (let paid = mgopo_CreatedAt ` set (counted_payouts m c s) in
        paid = {} \<or> Max paid = time_zero \<or> Max paid < mgoae_CreatedAt d)) (w_accounting s)"
      unfolding reserve_entries_def filter_filter last_is_newest
      by (rule filter_cong) (use that in \<open>auto simp: Let_def accountingEntriesForRollingReserve_def\<close>)
    then show ?thesis by (simp add: reserved_since_def)
  qed
  note C = amounts[of AE_RollingReserveCreate, simplified] and R = amounts[of AE_RollingReserveRelease, simplified]
  have two: "set (map mgoae_Type ?es) \<subseteq> {AE_RollingReserveCreate, AE_RollingReserveRelease}"
    by (auto simp: reserve_entries_def accountingEntriesForRollingReserve_def)
  have ne: "AE_RollingReserveCreate \<noteq> AE_RollingReserveRelease"
    by (simp add: AE_RollingReserveCreate_def AE_RollingReserveRelease_def)
  have some: "ty \<in> set (remdups (map mgoae_Type ?es)) \<longleftrightarrow> filter (\<lambda>d. mgoae_Type d = ty) ?es \<noteq> []" for ty
    by (auto simp: filter_empty_conv)
  have empty: "ty \<in> set (remdups (map mgoae_Type ?es)) \<longleftrightarrow> reserved_since m c ty s \<noteq> []"
    if "ty \<in> {AE_RollingReserveCreate, AE_RollingReserveRelease}" for ty
    using some[of ty] amounts[OF that] by (metis map_is_Nil_conv)
  have names: "''merchant_rolling_reserve_create'' = AE_RollingReserveCreate" "''merchant_rolling_reserve_release'' = AE_RollingReserveRelease"
    by (simp_all add: AE_RollingReserveCreate_def AE_RollingReserveRelease_def)
  have "reserve_of X m c s = reserve_total 0 (map (\<lambda>tp. (tp, x_mongo_sum X (map mgoae_Amount (filter (\<lambda>d. mgoae_Type d = tp) ?es))))
      (remdups (map mgoae_Type ?es)))"
    by (simp add: reserve_of_def reserve_items_def)
  then show ?thesis unfolding names
    using reserve_total_two[OF remdups_of_two[OF two ne] empty empty,
      of "\<lambda>tp. map mgoae_Amount (filter (\<lambda>d. mgoae_Type d = tp) ?es)" X] C R by simp
qed

text \<open>C10: A balance update that succeeds computes, from the documents as they were, the balance of the merchant in
  its payout currency. The debit is the rounded sum of what its reports owe that are accepted, wait for payment or
  are paid: their payout and correction without their rolling reserve. The credit is the rounded sum of the fees of
  its pending and paid payouts. The reserve is what has been held back since the newest of these payouts, less what
  has been released since. It appends one balance, whose total is debit - credit - reserve; every other collection
  is unchanged.\<close>

theorem balance_update_effect:
  assumes "codecs_ok X" and "clock_ok X" and "x_oid_from_hex X i = Inr m"
    and "\<forall>d\<in>set (w_payouts s). payout_valid d" and "\<forall>n. x_fault X n \<noteq> Some ErrNoDocuments"
    and "updateMerchantBalance X i s = (Inr b, s')"
  shows "(\<exists>mer\<in>set (w_merchants s). merchant_Id mer = i \<and> balance_Currency b = x_merchant_payout_currency X mer) \<and>
    balance_Debit b = rounded_sum (owed X m (balance_Currency b) s) \<and>
    balance_Credit b = rounded_sum (map (\<lambda>d. x_mongo_round2 X (mgopo_TotalFees d)) (counted_payouts m (balance_Currency b) s)) \<and>
    held_back X (reserved_since m (balance_Currency b) ''merchant_rolling_reserve_create'' s)
      (reserved_since m (balance_Currency b) ''merchant_rolling_reserve_release'' s) (balance_RollingReserve b) \<and>
    balance_Total b = balance_Debit b - balance_Credit b - balance_RollingReserve b \<and>
    (\<exists>mb. w_balances s' = w_balances s @ [mb] \<and> balance_from_mgo X mb = Inr (b\<lparr>balance_MerchantId := x_oid_hex X m\<rparr>)) \<and>
    s' = s\<lparr>w_tick := w_tick s', w_balances := w_balances s', w_cache := w_cache s'\<rparr>"
proof -
  note u = update_balance_run[OF assms]
  have "\<exists>mer\<in>set (w_merchants s). merchant_Id mer = i \<and> balance_Currency b = x_merchant_payout_currency X mer"
    using u(1) find_SomeD by fast
  then show ?thesis using u(2-7) reserve_held unfolding owed_debit paid_credit by metis
qed

text \<open>
  Two reports of 100 that count and one that does not, a payout with fees of 50, and a reserve of 10 that was held
  back before this payout and one of 30 since.
\<close>

definition balance_entry :: "gotime \<Rightarrow> float64 \<Rightarrow> mgo_accounting_entry" where
  "balance_entry t a = \<lparr>mgoae_Id = 6, mgoae_Object = [], mgoae_Type = AE_RollingReserveCreate, mgoae_SourceId = 2,
     mgoae_SourceType = [], mgoae_MerchantId = 2, mgoae_Amount = a, mgoae_Currency = ''EUR'', mgoae_Reason = [], mgoae_Status = [],
     mgoae_Country = [], mgoae_OriginalAmount = 0, mgoae_OriginalCurrency = [], mgoae_LocalAmount = 0, mgoae_LocalCurrency = [],
     mgoae_CreatedAt = t, mgoae_AvailableOn = t, mgoae_OperatingCompanyId = [], mgoae_AmountRounded = 0,
     mgoae_OriginalAmountRounded = 0, mgoae_LocalAmountRounded = 0\<rparr>"

definition balance_payout :: mgo_payout where
  "balance_payout = \<lparr>mgopo_Id = 5, mgopo_MerchantId = 2, mgopo_SourceId = [], mgopo_TotalFees = Fin 50, mgopo_Balance = Fin 50,
     mgopo_Currency = ''EUR'', mgopo_PeriodFrom = 0, mgopo_PeriodTo = 0, mgopo_TotalTransactions = 1, mgopo_Description = [],
     mgopo_Destination = None, mgopo_MerchantAgreementNumber = [], mgopo_Company = None, mgopo_Status = PayoutDocumentStatusPaid,
     mgopo_Transaction = [], mgopo_FailureCode = [], mgopo_FailureMessage = [], mgopo_FailureTransaction = [], mgopo_CreatedAt = 20,
     mgopo_UpdatedAt = 0, mgopo_ArrivalDate = 0, mgopo_PaidAt = 0, mgopo_OperatingCompanyId = [], mgopo_AutoincrementId = 1,
     mgopo_StringPeriodFrom = [], mgopo_StringPeriodTo = [], mgopo_B2BVatBase = 0, mgopo_B2BVatRate = 0, mgopo_B2BVatAmount = 0,
     mgopo_FeesExcludingVat = 0\<rparr>"

definition balance_world :: world where
  "balance_world = sample_world\<lparr>w_reports := [sample_report RRAccepted, sample_report RRPaid, sample_report RRPending],
     w_payouts := [balance_payout], w_accounting := [balance_entry 10 (Fin 10), balance_entry 30 (Fin 30)]\<rparr>"

lemma balance_rows:
  "owed sample_ext 2 ''EUR'' balance_world = [Fin 100, Fin 100]"
  "map (\<lambda>d. x_mongo_round2 sample_ext (mgopo_TotalFees d)) (counted_payouts 2 ''EUR'' balance_world) = [Fin 50]"
  "reserved_since 2 ''EUR'' ''merchant_rolling_reserve_create'' balance_world = [Fin 30]"
  "reserved_since 2 ''EUR'' ''merchant_rolling_reserve_release'' balance_world = []"
  by (simp_all add: owed_def counted_payouts_def reserved_since_def balance_world_def sample_world_def sample_report_def balance_payout_def
    balance_entry_def sample_ext_def no_totals_def minus_float64_def zero_float64_def PayoutDocumentStatusPaid_def
    AE_RollingReserveCreate_def time_zero_def Let_def)

lemma balance_sums:
  "rounded_sum [Fin 100, Fin 100] = Fin 200" "rounded_sum [Fin 50] = Fin 50"
  "(0 :: float64) + x_mongo_sum sample_ext [Fin 30] = Fin 30" "Fin 200 - Fin 50 - Fin 30 = Fin 120"
proof -
  have "\<lfloor>40001 / 2 :: rat\<rfloor> = 20000" "\<lfloor>10001 / 2 :: rat\<rfloor> = 5000" by (simp_all add: floor_eq_iff)
  then show "rounded_sum [Fin 100, Fin 100] = Fin 200" "rounded_sum [Fin 50] = Fin 50"
    "(0 :: float64) + x_mongo_sum sample_ext [Fin 30] = Fin 30" "Fin 200 - Fin 50 - Fin 30 = Fin 120"
    by (simp_all add: rounded_sum_def round_cents_def go_round_def minus_float64_def float_sum_def
    zero_float64_def sample_ext_def)
qed

lemmas balance_world_computes = balance_rows balance_sums

lemma balance_update_effect_witness:
  "\<exists>b s'. updateMerchantBalance sample_ext (sample_hex 2) balance_world = (Inr b, s') \<and> balance_Debit b = Fin 200 \<and>
     balance_Credit b = Fin 50 \<and> balance_RollingReserve b = Fin 30 \<and> balance_Total b = Fin 120"
proof -
  have valid: "\<forall>d\<in>set (w_payouts balance_world). payout_valid d"
    by (simp add: balance_world_def balance_payout_def payout_valid_def ts_valid_def time_zero_def)
  have "\<exists>b s'. updateMerchantBalance sample_ext (sample_hex 2) balance_world = (Inr b, s')"
    by (rule update_balance_returns[OF sample_codecs_ok sample_clock_ok _ _ _ valid, of _ 2 sample_merchant])
      (simp_all add: sample_hex_roundtrip balance_world_def)
  then obtain b s' where r: "updateMerchantBalance sample_ext (sample_hex 2) balance_world = (Inr b, s')" by blast
  have "x_oid_from_hex sample_ext (sample_hex 2) = Inr 2" "\<forall>n. x_fault sample_ext n \<noteq> Some ErrNoDocuments"
    by (simp_all add: sample_hex_roundtrip)
  note e = balance_update_effect[OF sample_codecs_ok sample_clock_ok this(1) valid this(2) r]
  have c: "balance_Currency b = ''EUR''" using conjunct1[OF e] by auto
  note e = e[unfolded c balance_world_computes(1-6)]
  have d: "balance_Debit b = Fin 200" "balance_Credit b = Fin 50" using e by blast+
  have "held_back sample_ext [Fin 30] [] (balance_RollingReserve b)" using e by blast
  then have h: "balance_RollingReserve b = Fin 30"
    by (simp only: held_back_def Let_def balance_world_computes(7) simp_thms list.distinct if_False if_True)
  have "balance_Total b = balance_Debit b - balance_Credit b - balance_RollingReserve b" using e by blast
  then have "balance_Total b = Fin 120" unfolding d h balance_world_computes(8) .
  then show ?thesis using r d h by blast
qed

text \<open>C31: The balance an update returns is the current one: read back with getMerchantBalance it comes
  out as it was computed, because its id is the newest.\<close>

theorem balance_update_is_current:
  assumes "codecs_ok X" and "clock_ok X" and "x_oid_from_hex X i = Inr m" and "x_oid_hex X m = i"
    and "\<forall>d\<in>set (w_payouts s). payout_valid d" and "\<forall>n. x_fault X n = None"
    and "\<forall>d\<in>set (w_balances s). \<forall>n\<ge>w_tick s. mgobalance_Id d < x_new_oid X n"
    and "updateMerchantBalance X i s = (Inr b, s')"
  shows "fst (getMerchantBalance X i s') = Inr b"
proof -
  have no: "\<forall>n. x_fault X n \<noteq> Some ErrNoDocuments" using assms(6) by simp
  note u = update_balance_run[OF assms(1-3,5) no assms(8)]
  obtain mer where mer: "find (\<lambda>x. merchant_Id x = i) (w_merchants s) = Some mer"
    "balance_Currency b = x_merchant_payout_currency X mer" "balance_Currency b \<noteq> []" using u(1) by blast
  have i: "merchant_Id mer = i" using find_SomeD[OF mer(1)] by simp
  obtain mb n where mb: "w_balances s' = w_balances s @ [mb]"
    "balance_from_mgo X mb = Inr (b\<lparr>balance_MerchantId := x_oid_hex X m\<rparr>)"
    "mgobalance_Id mb = x_new_oid X n" "w_tick s \<le> n" "balance_of m (balance_Currency b) mb" using u(6) by blast
  have bi: "balance_MerchantId b = i" using update_balance_steps[OF assms(8)] by metis
  then have dec: "balance_from_mgo X mb = Inr b" using mb(2) assms(4) by simp
  have w: "w_merchants s' = w_merchants s" by (subst u(7)) simp
  have "sort_key (\<lambda>d. - int (mgobalance_Id d)) (filter (balance_of m (balance_Currency b)) (w_balances s'))
      = mb # sort_key (\<lambda>d. - int (mgobalance_Id d)) (filter (balance_of m (balance_Currency b)) (w_balances s))"
    using mb assms(7) by (simp add: sort_key_append_min)
  then have "wp (getMerchantBalance X i) (\<lambda>r _. r = Inr b) s'"
    using assms(3,6) mer i w dec
    by (simp add: getMerchantBalance_def merchant_GetById_def find_one_def balrepo_GetByIdAndCurrency_def
        cache_get_nil_def wp_cache_get find_first_sorted_def find_sorted_def balances.wp_find_all
        split: option.split)
  then show ?thesis by (simp add: wp_def case_prod_beta)
qed

lemma balance_update_is_current_witness:
  "\<exists>b s'. updateMerchantBalance sample_ext (sample_hex 2) sample_world = (Inr b, s') \<and>
     fst (getMerchantBalance sample_ext (sample_hex 2) s') = Inr b"
proof -
  obtain b s' where r: "updateMerchantBalance sample_ext (sample_hex 2) sample_world = (Inr b, s')"
    using sample_update_runs by blast
  show ?thesis
    using balance_update_is_current[OF sample_codecs_ok sample_clock_ok _ _ _ _ _ r, of 2] r
    by (auto simp: sample_hex_roundtrip)
qed

end
