(* ===== verification/OrderFigures.thy ===== *)
theory OrderFigures
  imports AccountingRepo
begin

text \<open>
  The money figures of an order (UpdateOrderView in internal/repository/order.go): everything the
  reports show of a payment or a refund is computed here from the accounting entries of the order.
  An entry type that the order has no entry of counts as an entry with zero amounts and no currency;
  of several entries of one type the last one counts.
\<close>

section \<open>Doubles that are not rounded further\<close>

definition is_double :: "float64 \<Rightarrow> bool" where
  "is_double x \<longleftrightarrow> (case x of Fin q \<Rightarrow> rnd q = Fin q | _ \<Rightarrow> True)"

lemma round_prec_idem_pos:
  assumes "0 < x" and "0 < prec"
  shows "round_prec prec emin (round_prec prec emin x) = round_prec prec emin x"
proof -
  let ?e = "max (expo x - int prec + 1) emin"
  have "x < 2 powi (expo x + 1)" using expo_bounds(2)[OF assms(1)] .
  also have "\<dots> \<le> 2 powi (int prec + ?e)" by simp
  also have "\<dots> = of_int (2 ^ prec) * ulp prec emin x"
    by (simp add: powi2_add ulp_def powi2_int)
  finally have "x / ulp prec emin x \<le> of_int (2 ^ prec)"
    by (simp add: pos_divide_le_eq)
  then have k: "round_even (x / ulp prec emin x) \<le> 2 ^ prec" by (rule round_even_le)
  have "0 \<le> x / ulp prec emin x" using assms(1) ulp_pos[of prec emin x] by (simp add: less_imp_le)
  then have k0: "0 \<le> round_even (x / ulp prec emin x)" by (intro round_even_ge) simp
  have "round_prec prec emin x = of_int (round_even (x / ulp prec emin x)) * 2 powi ?e"
    using assms(1) by (simp add: round_prec_def ulp_def)
  moreover have "round_prec prec emin (of_int (round_even (x / ulp prec emin x)) * 2 powi ?e) =
      of_int (round_even (x / ulp prec emin x)) * 2 powi ?e"
    using k k0 assms(2) by (intro round_prec_exact) auto
  ultimately show ?thesis by simp
qed

lemma round_prec_idem:
  assumes "0 < prec" shows "round_prec prec emin (round_prec prec emin x) = round_prec prec emin x"
proof (cases x "0 :: rat" rule: linorder_cases)
  case less
  then have "round_prec prec emin (round_prec prec emin (- x)) = round_prec prec emin (- x)"
    using assms by (intro round_prec_idem_pos) auto
  then show ?thesis by (simp add: round_prec_minus)
next
  case equal then show ?thesis by simp
next
  case greater then show ?thesis using assms by (intro round_prec_idem_pos)
qed

lemma is_double_rnd [simp]: "is_double (rnd q)"
proof (cases "rnd q")
  case (Fin y)
  then have "y = round_prec 53 (-1074) q" and o: "overflow 1024 y = Fin y"
    by (auto simp: rnd_def overflow_def split: if_splits)
  then have "round_prec 53 (-1074) y = y" by (simp add: round_prec_idem)
  then show ?thesis using Fin o by (simp add: is_double_def rnd_def)
qed (auto simp: is_double_def)

lemma is_double_const [simp]: "is_double 0" "is_double (Fin 0)" "is_double PosInf" "is_double NegInf" "is_double NaN"
  by (simp_all add: is_double_def zero_float64_def)

lemma is_double_plus [simp]: "is_double (a + b)"
  by (cases a; cases b) simp_all

lemma is_double_minus [simp]: "is_double (a - b)"
  by (simp add: minus_float64_def)

lemma double_minus_0: "is_double x \<Longrightarrow> x - 0 = x"
  by (cases x) (simp_all add: is_double_def float_defs)

lemma zero_minus_double: "is_double x \<Longrightarrow> 0 - x = - x"
  by (cases x) (simp_all add: is_double_def float_defs rnd_minus)

lemma zero_plus_zero [simp]: "(0 :: float64) + 0 = 0" "(0 :: float64) - 0 = 0"
  by (simp_all add: float_defs)

text \<open>
  \<open>helper.Round\<close> prints with two decimals and reads back: the nearest multiple of 1/100 of the exact
  value (ties to even, as \<open>strconv\<close> does), as a double. \<open>math.Abs\<close>.
\<close>

definition helper_Round :: "float64 \<Rightarrow> float64" where
  "helper_Round v = (case v of Fin q \<Rightarrow> rnd (of_int (round_even (q * 100)) / 100) | _ \<Rightarrow> v)"

definition math_Abs :: "float64 \<Rightarrow> float64" where
  "math_Abs x = (case x of Fin q \<Rightarrow> Fin \<bar>q\<bar> | NaN \<Rightarrow> NaN | _ \<Rightarrow> PosInf)"

lemma helper_Round_double [simp]: "is_double (helper_Round v)"
  by (cases v) (simp_all add: helper_Round_def)

lemma helper_Round_int: "\<bar>n\<bar> \<le> 2 ^ 53 \<Longrightarrow> helper_Round (Fin (of_int n)) = Fin (of_int n)"
  using round_even_of_int[of "n * 100"] by (simp add: helper_Round_def rnd_of_int)

lemma helper_Round_0 [simp]: "helper_Round 0 = 0"
  by (simp add: helper_Round_def zero_float64_def) (simp add: round_even_def Let_def)

section \<open>The entries of an order\<close>

definition empty_entry :: mgo_accounting_entry where
  "empty_entry = \<lparr>mgoae_Id = nil_oid, mgoae_Object = [], mgoae_Type = [], mgoae_SourceId = nil_oid,
     mgoae_SourceType = [], mgoae_MerchantId = nil_oid, mgoae_Amount = 0, mgoae_Currency = [],
     mgoae_Reason = [], mgoae_Status = [], mgoae_Country = [], mgoae_OriginalAmount = 0,
     mgoae_OriginalCurrency = [], mgoae_LocalAmount = 0, mgoae_LocalCurrency = [],
     mgoae_CreatedAt = time_zero, mgoae_AvailableOn = time_zero, mgoae_OperatingCompanyId = [],
     mgoae_AmountRounded = 0, mgoae_OriginalAmountRounded = 0, mgoae_LocalAmountRounded = 0\<rparr>"

definition entry_of :: "mgo_accounting_entry list \<Rightarrow> string \<Rightarrow> mgo_accounting_entry" where
  "entry_of docs tp = (case find (\<lambda>d. mgoae_Type d = tp) (rev docs) of None \<Rightarrow> empty_entry | Some d \<Rightarrow> d)"

text \<open>
  A figure is a formula over the amounts of some entries; its currency is that of one of them, and
  its rounded amount is the same formula over their rounded amounts, rounded once more.
\<close>

definition figure :: "(string \<Rightarrow> mgo_accounting_entry) \<Rightarrow> string \<Rightarrow> ((string \<Rightarrow> float64) \<Rightarrow> float64) \<Rightarrow> money" where
  "figure e cur f = \<lparr>mo_Amount = f (\<lambda>t. mgoae_Amount (e t)), mo_Currency = mgoae_Currency (e cur),
     mo_AmountRounded = helper_Round (f (\<lambda>t. mgoae_AmountRounded (e t)))\<rparr>"

definition local_figure :: "(string \<Rightarrow> mgo_accounting_entry) \<Rightarrow> string \<Rightarrow> ((string \<Rightarrow> float64) \<Rightarrow> float64) \<Rightarrow> money" where
  "local_figure e cur f = \<lparr>mo_Amount = f (\<lambda>t. mgoae_LocalAmount (e t)), mo_Currency = mgoae_LocalCurrency (e cur),
     mo_AmountRounded = helper_Round (f (\<lambda>t. mgoae_LocalAmountRounded (e t)))\<rparr>"

definition original_figure :: "(string \<Rightarrow> mgo_accounting_entry) \<Rightarrow> string \<Rightarrow> ((string \<Rightarrow> float64) \<Rightarrow> float64) \<Rightarrow> money" where
  "original_figure e cur f = \<lparr>mo_Amount = f (\<lambda>t. mgoae_OriginalAmount (e t)), mo_Currency = mgoae_OriginalCurrency (e cur),
     mo_AmountRounded = helper_Round (f (\<lambda>t. mgoae_OriginalAmountRounded (e t)))\<rparr>"

lemmas figure_defs = figure_def local_figure_def original_figure_def

definition payment_figures_of :: "(string \<Rightarrow> mgo_accounting_entry) \<Rightarrow> payment_figures" where
  "payment_figures_of e =
     \<lparr>pf_PaymentGrossRevenueLocal = local_figure e ''real_gross_revenue'' (\<lambda>a. a ''real_gross_revenue''),
      pf_PaymentGrossRevenueOrigin = original_figure e ''real_gross_revenue'' (\<lambda>a. a ''real_gross_revenue''),
      pf_PaymentGrossRevenue = figure e ''real_gross_revenue'' (\<lambda>a. a ''real_gross_revenue''),
      pf_PaymentTaxFee = figure e ''real_tax_fee'' (\<lambda>a. a ''real_tax_fee''),
      pf_PaymentTaxFeeLocal = local_figure e ''real_tax_fee'' (\<lambda>a. a ''real_tax_fee''),
      pf_PaymentTaxFeeOrigin = original_figure e ''real_tax_fee'' (\<lambda>a. a ''real_tax_fee''),
      pf_PaymentTaxFeeCurrencyExchangeFee = original_figure e ''central_bank_tax_fee'' (\<lambda>a. a ''central_bank_tax_fee''),
      pf_PaymentTaxFeeTotal = figure e ''real_tax_fee'' (\<lambda>a. a ''real_tax_fee'' + a ''central_bank_tax_fee''),
      pf_PaymentGrossRevenueFx = figure e ''ps_gross_revenue_fx'' (\<lambda>a. a ''ps_gross_revenue_fx''),
      pf_PaymentGrossRevenueFxTaxFee = figure e ''ps_gross_revenue_fx_tax_fee'' (\<lambda>a. a ''ps_gross_revenue_fx_tax_fee''),
      pf_PaymentGrossRevenueFxProfit = figure e ''ps_gross_revenue_fx'' (\<lambda>a. a ''ps_gross_revenue_fx'' - a ''ps_gross_revenue_fx_tax_fee''),
      pf_GrossRevenue = figure e ''real_gross_revenue'' (\<lambda>a. a ''real_gross_revenue'' - a ''ps_gross_revenue_fx''),
      pf_TaxFee = figure e ''merchant_tax_fee_cost_value'' (\<lambda>a. a ''merchant_tax_fee_cost_value''),
      pf_TaxFeeCurrencyExchangeFee = figure e ''merchant_tax_fee_central_bank_fx'' (\<lambda>a. a ''merchant_tax_fee_central_bank_fx''),
      pf_TaxFeeTotal = figure e ''merchant_tax_fee_cost_value'' (\<lambda>a. a ''merchant_tax_fee_cost_value'' + a ''merchant_tax_fee_central_bank_fx''),
      pf_MethodFeeTotal = figure e ''ps_method_fee'' (\<lambda>a. a ''ps_method_fee''),
      pf_MethodFeeTariff = figure e ''merchant_method_fee'' (\<lambda>a. a ''merchant_method_fee''),
      pf_PaysuperMethodFeeTariffSelfCost = figure e ''merchant_method_fee_cost_value'' (\<lambda>a. a ''merchant_method_fee_cost_value''),
      pf_PaysuperMethodFeeProfit = figure e ''merchant_method_fee'' (\<lambda>a. a ''merchant_method_fee'' - a ''merchant_method_fee_cost_value''),
      pf_MethodFixedFeeTariff = figure e ''merchant_method_fixed_fee'' (\<lambda>a. a ''merchant_method_fixed_fee''),
      pf_PaysuperMethodFixedFeeTariffFxProfit = figure e ''merchant_method_fixed_fee'' (\<lambda>a. a ''merchant_method_fixed_fee'' - a ''real_merchant_method_fixed_fee''),
      pf_PaysuperMethodFixedFeeTariffSelfCost = figure e ''real_merchant_method_fixed_fee_cost_value'' (\<lambda>a. a ''real_merchant_method_fixed_fee_cost_value''),
      pf_PaysuperMethodFixedFeeTariffTotalProfit = figure e ''real_merchant_method_fixed_fee'' (\<lambda>a. a ''real_merchant_method_fixed_fee'' - a ''real_merchant_method_fixed_fee_cost_value''),
      pf_PaysuperFixedFee = figure e ''merchant_ps_fixed_fee'' (\<lambda>a. a ''merchant_ps_fixed_fee''),
      pf_PaysuperFixedFeeFxProfit = figure e ''merchant_ps_fixed_fee'' (\<lambda>a. a ''merchant_ps_fixed_fee'' - a ''real_merchant_ps_fixed_fee''),
      pf_FeesTotal = figure e ''ps_method_fee'' (\<lambda>a. a ''ps_method_fee'' + a ''merchant_ps_fixed_fee''),
      pf_FeesTotalLocal = local_figure e ''ps_method_fee'' (\<lambda>a. a ''ps_method_fee'' + a ''merchant_ps_fixed_fee''),
      pf_NetRevenue = figure e ''real_gross_revenue'' (\<lambda>a. a ''real_gross_revenue'' - a ''ps_gross_revenue_fx'' - a ''merchant_ps_fixed_fee'' - a ''merchant_tax_fee_central_bank_fx'' - a ''ps_method_fee'' - a ''merchant_tax_fee_cost_value''),
      pf_PaysuperMethodTotalProfit = figure e ''ps_method_fee'' (\<lambda>a. a ''ps_method_fee'' + a ''merchant_ps_fixed_fee'' - a ''merchant_method_fee_cost_value'' - a ''real_merchant_method_fixed_fee_cost_value''),
      pf_PaysuperTotalProfit = figure e ''ps_gross_revenue_fx'' (\<lambda>a. a ''ps_gross_revenue_fx'' + a ''ps_method_fee'' + a ''merchant_ps_fixed_fee'' - a ''central_bank_tax_fee'' - a ''ps_gross_revenue_fx_tax_fee'' - a ''merchant_method_fee_cost_value'' - a ''real_merchant_method_fixed_fee_cost_value'')\<rparr>"

definition refund_figures_of :: "(string \<Rightarrow> mgo_accounting_entry) \<Rightarrow> refund_figures" where
  "refund_figures_of e =
     \<lparr>rf_PaymentRefundGrossRevenueLocal = local_figure e ''real_refund'' (\<lambda>a. a ''real_refund''),
      rf_PaymentRefundGrossRevenueOrigin = original_figure e ''real_refund'' (\<lambda>a. a ''real_refund''),
      rf_PaymentRefundGrossRevenue = figure e ''real_refund'' (\<lambda>a. a ''real_refund''),
      rf_PaymentRefundTaxFee = figure e ''real_refund_tax_fee'' (\<lambda>a. a ''real_refund_tax_fee''),
      rf_PaymentRefundTaxFeeLocal = local_figure e ''real_refund_tax_fee'' (\<lambda>a. a ''real_refund_tax_fee''),
      rf_PaymentRefundTaxFeeOrigin = original_figure e ''real_refund_tax_fee'' (\<lambda>a. a ''real_refund_tax_fee''),
      rf_PaymentRefundFeeTariff = figure e ''real_refund_fee'' (\<lambda>a. a ''real_refund_fee''),
      rf_MethodRefundFixedFeeTariff = figure e ''real_refund_fixed_fee'' (\<lambda>a. a ''real_refund_fixed_fee''),
      rf_RefundGrossRevenue = figure e ''merchant_refund'' (\<lambda>a. a ''merchant_refund''),
      rf_RefundGrossRevenueFx = figure e ''merchant_refund'' (\<lambda>a. a ''merchant_refund'' - a ''real_refund''),
      rf_MethodRefundFeeTariff = figure e ''merchant_refund_fee'' (\<lambda>a. a ''merchant_refund_fee''),
      rf_PaysuperMethodRefundFeeTariffProfit = figure e ''merchant_refund_fee'' (\<lambda>a. a ''merchant_refund_fee'' - a ''real_refund_fee''),
      rf_PaysuperMethodRefundFixedFeeTariffSelfCost = figure e ''merchant_refund_fixed_fee_cost_value'' (\<lambda>a. a ''merchant_refund_fixed_fee_cost_value''),
      rf_MerchantRefundFixedFeeTariff = figure e ''merchant_refund_fixed_fee'' (\<lambda>a. a ''merchant_refund_fixed_fee''),
      rf_PaysuperMethodRefundFixedFeeTariffProfit = figure e ''merchant_refund_fixed_fee'' (\<lambda>a. a ''merchant_refund_fixed_fee'' - a ''real_refund_fixed_fee''),
      rf_RefundTaxFee = figure e ''reverse_tax_fee'' (\<lambda>a. a ''reverse_tax_fee''),
      rf_RefundTaxFeeCurrencyExchangeFee = figure e ''reverse_tax_fee_delta'' (\<lambda>a. a ''reverse_tax_fee_delta''),
      rf_PaysuperRefundTaxFeeCurrencyExchangeFee = figure e ''ps_reverse_tax_fee_delta'' (\<lambda>a. a ''ps_reverse_tax_fee_delta''),
      rf_RefundTaxFeeTotal = figure e ''reverse_tax_fee'' (\<lambda>a. a ''reverse_tax_fee'' + a ''reverse_tax_fee_delta''),
      rf_RefundReverseRevenue = figure e ''merchant_refund'' (\<lambda>a. a ''merchant_refund'' + a ''merchant_refund_fee'' + a ''merchant_refund_fixed_fee'' + a ''reverse_tax_fee_delta'' - a ''reverse_tax_fee''),
      rf_RefundFeesTotal = figure e ''merchant_refund_fee'' (\<lambda>a. a ''merchant_refund_fee'' + a ''merchant_refund_fixed_fee''),
      rf_RefundFeesTotalLocal = local_figure e ''merchant_refund_fee'' (\<lambda>a. a ''merchant_refund_fee'' + a ''merchant_refund_fixed_fee''),
      rf_PaysuperRefundTotalProfit = figure e ''merchant_refund_fee'' (\<lambda>a. a ''merchant_refund_fee'' + a ''merchant_refund_fixed_fee'' + a ''ps_reverse_tax_fee_delta'' - a ''real_refund_fixed_fee'' - a ''real_refund_fee'')\<rparr>"

section \<open>The summary for reports\<close>

text \<open>
  The status is that of the order, except that a payment that was refunded later still shows as
  processed.
\<close>

definition money_diff :: "money \<Rightarrow> money \<Rightarrow> money" where
  "money_diff m n = \<lparr>mo_Amount = mo_Amount m - mo_Amount n, mo_Currency = mo_Currency m @ mo_Currency n,
     mo_AmountRounded = mo_AmountRounded m - mo_AmountRounded n\<rparr>"

definition money_abs :: "money \<Rightarrow> money" where
  "money_abs m = m\<lparr>mo_Amount := math_Abs (mo_Amount m), mo_AmountRounded := math_Abs (mo_AmountRounded m)\<rparr>"

definition report_summary_of :: "string \<Rightarrow> string \<Rightarrow> payment_figures \<Rightarrow> refund_figures \<Rightarrow> report_summary" where
  "report_summary_of tp status p r =
     \<lparr>rs_Status = (if tp = ''order'' \<and> status \<in> {''refunded'', ''chargeback''} then ''processed'' else status),
      rs_Charge = money_diff (pf_PaymentGrossRevenueOrigin p) (rf_PaymentRefundGrossRevenueOrigin r),
      rs_Gross = money_diff (pf_GrossRevenue p) (rf_RefundGrossRevenue r),
      rs_Vat = money_diff (pf_TaxFeeTotal p) (rf_RefundTaxFeeTotal r),
      rs_Fees = money_abs (money_diff (pf_FeesTotal p) (rf_RefundFeesTotal r)),
      rs_Revenue = money_diff (pf_NetRevenue p) (rf_RefundReverseRevenue r)\<rparr>"

section \<open>The view of an order\<close>

definition order_view_doc :: "ext \<Rightarrow> mgo_accounting_entry list \<Rightarrow> order \<Rightarrow> order_view" where
  "order_view_doc X docs ordr =
     (let e = entry_of docs; p = payment_figures_of e; r = refund_figures_of e;
          beforeVat = order_ChargeAmount ordr - mgoae_OriginalAmount (e ''real_tax_fee'')
            - mgoae_OriginalAmount (e ''real_refund_tax_fee'') in
     \<lparr>ov_Id = order_Id ordr, ov_Uuid = order_Uuid ordr, ov_TotalPaymentAmount = order_TotalPaymentAmount ordr,
      ov_Currency = order_Currency ordr, ov_ProjectId = order_ProjectId ordr,
      ov_ProjectMerchantId = order_ProjectMerchantId ordr, ov_ProjectName = order_ProjectName ordr,
      ov_ProjectFirstPaymentAt = order_ProjectFirstPaymentAt ordr,
      ov_CreatedAt = order_CreatedAt ordr, ov_Transaction = order_Transaction ordr,
      ov_PaymentMethod = order_PaymentMethod ordr, ov_CountryCode = order_CountryCode ordr,
      ov_MerchantId = x_order_merchant_id X ordr,
      ov_Locale = (case order_User ordr of None \<Rightarrow> [] | Some u \<Rightarrow> ou_Locale u),
      ov_Status = order_Status ordr, ov_TransactionDate = order_PaymentMethodOrderClosedAt ordr,
      ov_Type = order_Type ordr, ov_IsVatDeduction = order_IsVatDeduction ordr,
      ov_PaymentFigures = p, ov_RefundFigures = r, ov_Items = order_Items ordr,
      ov_MerchantPayoutCurrency = (if order_Type ordr = ''order'' then mo_Currency (pf_NetRevenue p)
        else mo_Currency (rf_RefundReverseRevenue r)),
      ov_ParentOrder = order_ParentOrder ordr, ov_Refund = order_Refund ordr, ov_MccCode = order_MccCode ordr,
      ov_OperatingCompanyId = order_OperatingCompanyId ordr, ov_IsHighRisk = order_IsHighRisk ordr,
      ov_RefundAllowed = order_IsRefundAllowed ordr,
      ov_OrderCharge = \<lparr>mo_Amount = order_ChargeAmount ordr, mo_Currency = order_ChargeCurrency ordr,
        mo_AmountRounded = helper_Round (order_ChargeAmount ordr)\<rparr>,
      ov_VatPayer = order_VatPayer ordr, ov_IsProduction = order_IsProduction ordr,
      ov_OrderChargeBeforeVat = \<lparr>mo_Amount = beforeVat, mo_Currency = order_ChargeCurrency ordr,
        mo_AmountRounded = helper_Round beforeVat\<rparr>,
      ov_TaxRate = order_TaxRate ordr,
      ov_PaymentMethodTerminalId = (case order_PaymentMethod ordr of None \<Rightarrow> []
        | Some m \<Rightarrow> (case opm_Params m of None \<Rightarrow> [] | Some p \<Rightarrow> pmp_TerminalId p)),
      ov_Recurring = order_Recurring ordr, ov_RecurringId = order_RecurringId ordr,
      ov_RoyaltyReportId = order_RoyaltyReportId ordr, ov_AmountBeforeVat = order_OrderAmount ordr,
      ov_ReportSummary = report_summary_of (order_Type ordr) (order_Status ordr) p r\<rparr>)"

section \<open>The mapper\<close>

text \<open>The refund of the order is only copied along with a payment method.\<close>

definition order_view_to_mgo :: "ext \<Rightarrow> order_view \<Rightarrow> mgo_order_view io" where
  "order_view_to_mgo X v =
     bind (lift (x_oid_from_hex X (ov_Id v))) (\<lambda>oid.
     bind (lift (x_oid_from_hex X (ov_MerchantId v))) (\<lambda>merchantOid.
     bind (lift (x_oid_from_hex X (ov_ProjectId v))) (\<lambda>projectOid.
     bind (time_or_zero X (ov_ProjectFirstPaymentAt v)) (\<lambda>firstPaymentAt.
     bind (time_or_now X (ov_CreatedAt v)) (\<lambda>createdAt.
     bind (time_or_zero X (ov_TransactionDate v)) (\<lambda>transactionDate.
     bind (items_to_mgo X (ov_Items v)) (\<lambda>items.
     bind (method_to_mgo X (ov_PaymentMethod v)) (\<lambda>method.
     ret \<lparr>ov_Id = oid, ov_Uuid = ov_Uuid v, ov_TotalPaymentAmount = ov_TotalPaymentAmount v,
          ov_Currency = ov_Currency v, ov_ProjectId = projectOid, ov_ProjectMerchantId = merchantOid,
          ov_ProjectName = ov_ProjectName v, ov_ProjectFirstPaymentAt = firstPaymentAt, ov_CreatedAt = createdAt, ov_Transaction = ov_Transaction v,
          ov_PaymentMethod = method, ov_CountryCode = ov_CountryCode v, ov_MerchantId = merchantOid,
          ov_Locale = ov_Locale v, ov_Status = ov_Status v, ov_TransactionDate = transactionDate,
          ov_Type = ov_Type v, ov_IsVatDeduction = ov_IsVatDeduction v,
          ov_PaymentFigures = ov_PaymentFigures v, ov_RefundFigures = ov_RefundFigures v, ov_Items = items,
          ov_MerchantPayoutCurrency = ov_MerchantPayoutCurrency v, ov_ParentOrder = ov_ParentOrder v,
          ov_Refund = (if method = None then None else ov_Refund v), ov_MccCode = ov_MccCode v,
          ov_OperatingCompanyId = ov_OperatingCompanyId v, ov_IsHighRisk = ov_IsHighRisk v,
          ov_RefundAllowed = ov_RefundAllowed v, ov_OrderCharge = ov_OrderCharge v, ov_VatPayer = ov_VatPayer v,
          ov_IsProduction = ov_IsProduction v, ov_OrderChargeBeforeVat = ov_OrderChargeBeforeVat v,
          ov_TaxRate = ov_TaxRate v, ov_PaymentMethodTerminalId = ov_PaymentMethodTerminalId v,
          ov_Recurring = ov_Recurring v, ov_RecurringId = ov_RecurringId v,
          ov_RoyaltyReportId = ov_RoyaltyReportId v, ov_AmountBeforeVat = ov_AmountBeforeVat v,
          ov_ReportSummary = ov_ReportSummary v\<rparr>))))))))"

section \<open>Payments and refunds do not mix\<close>

text \<open>
  The summary subtracts the refund side from the payment side and concatenates the currencies, which
  is safe as long as an order has entries of one side only.
\<close>

definition refund_side_types :: "string list" where
  "refund_side_types = [''real_refund'', ''real_refund_tax_fee'', ''real_refund_fee'', ''real_refund_fixed_fee'',
     ''merchant_refund'', ''merchant_refund_fee'', ''merchant_refund_fixed_fee'',
     ''merchant_refund_fixed_fee_cost_value'', ''reverse_tax_fee'', ''reverse_tax_fee_delta'', ''ps_reverse_tax_fee_delta'']"

definition payment_side_types :: "string list" where
  "payment_side_types = [''real_gross_revenue'', ''real_tax_fee'', ''central_bank_tax_fee'', ''ps_gross_revenue_fx'',
     ''ps_gross_revenue_fx_tax_fee'', ''merchant_tax_fee_cost_value'', ''merchant_tax_fee_central_bank_fx'',
     ''ps_method_fee'', ''merchant_method_fee'', ''merchant_method_fee_cost_value'', ''merchant_method_fixed_fee'',
     ''real_merchant_method_fixed_fee'', ''real_merchant_method_fixed_fee_cost_value'', ''merchant_ps_fixed_fee'',
     ''real_merchant_ps_fixed_fee'']"

lemma entry_of_absent: "(\<And>d. d \<in> set docs \<Longrightarrow> mgoae_Type d \<noteq> tp) \<Longrightarrow> entry_of docs tp = empty_entry"
  by (auto simp: entry_of_def split: option.split dest!: find_SomeD) blast

lemma entry_of_cases: "entry_of docs tp = empty_entry \<or> entry_of docs tp \<in> set docs"
  by (auto simp: entry_of_def split: option.split dest: find_SomeD)

lemma entry_of_snoc: "entry_of (docs @ [d]) tp = (if mgoae_Type d = tp then d else entry_of docs tp)"
  by (simp add: entry_of_def)

lemma entry_of_unique:
  assumes "d \<in> set docs" and "distinct (map mgoae_Type docs)"
  shows "entry_of docs (mgoae_Type d) = d"
  using assms by (induction docs rule: rev_induct) (auto simp: entry_of_snoc)

text \<open>The figures that the summary is made of.\<close>

lemma summary_figures:
  "pf_PaymentGrossRevenueOrigin (payment_figures_of e) = original_figure e ''real_gross_revenue'' (\<lambda>a. a ''real_gross_revenue'')"
  "pf_GrossRevenue (payment_figures_of e) = figure e ''real_gross_revenue'' (\<lambda>a. a ''real_gross_revenue'' - a ''ps_gross_revenue_fx'')"
  "pf_TaxFeeTotal (payment_figures_of e) = figure e ''merchant_tax_fee_cost_value'' (\<lambda>a. a ''merchant_tax_fee_cost_value'' + a ''merchant_tax_fee_central_bank_fx'')"
  "pf_FeesTotal (payment_figures_of e) = figure e ''ps_method_fee'' (\<lambda>a. a ''ps_method_fee'' + a ''merchant_ps_fixed_fee'')"
  "pf_NetRevenue (payment_figures_of e) = figure e ''real_gross_revenue'' (\<lambda>a. a ''real_gross_revenue'' - a ''ps_gross_revenue_fx'' - a ''merchant_ps_fixed_fee'' - a ''merchant_tax_fee_central_bank_fx'' - a ''ps_method_fee'' - a ''merchant_tax_fee_cost_value'')"
  "rf_PaymentRefundGrossRevenueOrigin (refund_figures_of e) = original_figure e ''real_refund'' (\<lambda>a. a ''real_refund'')"
  "rf_RefundGrossRevenue (refund_figures_of e) = figure e ''merchant_refund'' (\<lambda>a. a ''merchant_refund'')"
  "rf_RefundTaxFeeTotal (refund_figures_of e) = figure e ''reverse_tax_fee'' (\<lambda>a. a ''reverse_tax_fee'' + a ''reverse_tax_fee_delta'')"
  "rf_RefundFeesTotal (refund_figures_of e) = figure e ''merchant_refund_fee'' (\<lambda>a. a ''merchant_refund_fee'' + a ''merchant_refund_fixed_fee'')"
  "rf_RefundReverseRevenue (refund_figures_of e) = figure e ''merchant_refund'' (\<lambda>a. a ''merchant_refund'' + a ''merchant_refund_fee'' + a ''merchant_refund_fixed_fee'' + a ''reverse_tax_fee_delta'' - a ''reverse_tax_fee'')"
  by (simp_all only: payment_figures_of_def refund_figures_of_def payment_figures.simps refund_figures.simps)

lemma order_view_fields [simp]:
  "ov_PaymentFigures (order_view_doc X docs ordr) = payment_figures_of (entry_of docs)"
  "ov_RefundFigures (order_view_doc X docs ordr) = refund_figures_of (entry_of docs)"
  "ov_ReportSummary (order_view_doc X docs ordr) = report_summary_of (order_Type ordr) (order_Status ordr)
     (payment_figures_of (entry_of docs)) (refund_figures_of (entry_of docs))"
  by (simp_all only: order_view_doc_def Let_def order_view_of.simps)

definition zero_money :: money where
  "zero_money = \<lparr>mo_Amount = 0, mo_Currency = [], mo_AmountRounded = 0\<rparr>"

lemma figure_absent:
  assumes "e cur = empty_entry" and "f (\<lambda>t. mgoae_Amount (e t)) = 0" and "f (\<lambda>t. mgoae_AmountRounded (e t)) = 0"
  shows "figure e cur f = zero_money"
  using assms by (simp add: figure_def zero_money_def empty_entry_def)

lemma original_figure_absent:
  assumes "e cur = empty_entry" and "f (\<lambda>t. mgoae_OriginalAmount (e t)) = 0"
    and "f (\<lambda>t. mgoae_OriginalAmountRounded (e t)) = 0"
  shows "original_figure e cur f = zero_money"
  using assms by (simp add: original_figure_def zero_money_def empty_entry_def)

lemma empty_entry_fields [simp]:
  "mgoae_Amount empty_entry = 0" "mgoae_AmountRounded empty_entry = 0" "mgoae_OriginalAmount empty_entry = 0"
  "mgoae_OriginalAmountRounded empty_entry = 0" "mgoae_Currency empty_entry = []" "mgoae_OriginalCurrency empty_entry = []"
  "mgoae_LocalAmount empty_entry = 0" "mgoae_LocalAmountRounded empty_entry = 0" "mgoae_LocalCurrency empty_entry = []"
  by (simp_all add: empty_entry_def)

lemma money_diff_zero: "is_double (mo_Amount m) \<Longrightarrow> is_double (mo_AmountRounded m) \<Longrightarrow> money_diff m zero_money = m"
  by (cases m) (simp add: money_diff_def zero_money_def double_minus_0)

definition money_neg :: "money \<Rightarrow> money" where
  "money_neg m = m\<lparr>mo_Amount := - mo_Amount m, mo_AmountRounded := - mo_AmountRounded m\<rparr>"

lemma zero_diff_money: "is_double (mo_Amount m) \<Longrightarrow> is_double (mo_AmountRounded m) \<Longrightarrow> money_diff zero_money m = money_neg m"
  by (cases m) (simp add: money_diff_def zero_money_def money_neg_def zero_minus_double)

lemma math_Abs_neg [simp]: "math_Abs (- x) = math_Abs x"
  by (cases x) (simp_all add: math_Abs_def)

text \<open>The summary of an order whose entries are all of the payment side shows the figures of the payment
  unchanged: charge, gross, VAT and revenue are those of the payment, in one currency, the fees as their
  absolute value.\<close>

theorem summary_of_payment:
  assumes "\<forall>d\<in>set docs. mgoae_Type d \<notin> set refund_side_types"
    and "\<forall>d\<in>set docs. is_double (mgoae_OriginalAmount d)"
  shows "let v = order_view_doc X docs ordr; p = ov_PaymentFigures v; r = ov_ReportSummary v in
    rs_Charge r = pf_PaymentGrossRevenueOrigin p \<and> rs_Gross r = pf_GrossRevenue p \<and> rs_Vat r = pf_TaxFeeTotal p \<and>
    rs_Fees r = money_abs (pf_FeesTotal p) \<and> rs_Revenue r = pf_NetRevenue p"
proof -
  have e: "entry_of docs t = empty_entry" if "t \<in> set refund_side_types" for t
    using assms(1) that by (intro entry_of_absent) auto
  have o: "is_double (mgoae_OriginalAmount (entry_of docs t))" for t
    using entry_of_cases[of docs t] assms(2) by auto
  have z: "rf_PaymentRefundGrossRevenueOrigin (refund_figures_of (entry_of docs)) = zero_money"
    "rf_RefundGrossRevenue (refund_figures_of (entry_of docs)) = zero_money"
    "rf_RefundTaxFeeTotal (refund_figures_of (entry_of docs)) = zero_money"
    "rf_RefundFeesTotal (refund_figures_of (entry_of docs)) = zero_money"
    "rf_RefundReverseRevenue (refund_figures_of (entry_of docs)) = zero_money"
    by (simp_all add: summary_figures figure_absent original_figure_absent e refund_side_types_def)
  show ?thesis
    using o by (simp add: Let_def report_summary_of_def z money_diff_zero) (simp add: summary_figures figure_def original_figure_def money_diff_zero)
qed

definition side_entry :: "string \<Rightarrow> mgo_accounting_entry" where
  "side_entry tp = empty_entry\<lparr>mgoae_Type := tp, mgoae_Amount := Fin 100, mgoae_Currency := ''EUR'',
     mgoae_OriginalAmount := Fin 100, mgoae_OriginalCurrency := ''EUR'', mgoae_AmountRounded := Fin 100,
     mgoae_OriginalAmountRounded := Fin 100\<rparr>"

lemma is_double_100 [simp]: "is_double (Fin 100)"
  by (simp add: is_double_def)

lemma summary_of_payment_witness:
  "rs_Charge (ov_ReportSummary (order_view_doc sample_ext [side_entry ''real_gross_revenue''] sample_order)) =
     \<lparr>mo_Amount = Fin 100, mo_Currency = ''EUR'', mo_AmountRounded = Fin 100\<rparr>"
  using summary_of_payment[of "[side_entry ''real_gross_revenue'']" sample_ext sample_order]
  by (simp add: refund_side_types_def side_entry_def Let_def summary_figures original_figure_def
      entry_of_def helper_Round_int[of 100, simplified])

text \<open>C40: The summary of an order whose entries are all of the refund side shows the figures of the refund
  with the opposite sign, in one currency, the fees as their absolute value.\<close>

theorem summary_of_refund:
  assumes "\<forall>d\<in>set docs. mgoae_Type d \<notin> set payment_side_types"
    and "\<forall>d\<in>set docs. is_double (mgoae_OriginalAmount d) \<and> is_double (mgoae_Amount d)"
  shows "let v = order_view_doc X docs ordr; f = ov_RefundFigures v; r = ov_ReportSummary v in
    rs_Charge r = money_neg (rf_PaymentRefundGrossRevenueOrigin f) \<and> rs_Gross r = money_neg (rf_RefundGrossRevenue f) \<and>
    rs_Vat r = money_neg (rf_RefundTaxFeeTotal f) \<and> rs_Fees r = money_abs (rf_RefundFeesTotal f) \<and>
    rs_Revenue r = money_neg (rf_RefundReverseRevenue f)"
proof -
  have e: "entry_of docs t = empty_entry" if "t \<in> set payment_side_types" for t
    using assms(1) that by (intro entry_of_absent) auto
  have o: "is_double (mgoae_OriginalAmount (entry_of docs t))" "is_double (mgoae_Amount (entry_of docs t))" for t
    using entry_of_cases[of docs t] assms(2) by auto
  have z: "pf_PaymentGrossRevenueOrigin (payment_figures_of (entry_of docs)) = zero_money"
    "pf_GrossRevenue (payment_figures_of (entry_of docs)) = zero_money"
    "pf_TaxFeeTotal (payment_figures_of (entry_of docs)) = zero_money"
    "pf_FeesTotal (payment_figures_of (entry_of docs)) = zero_money"
    "pf_NetRevenue (payment_figures_of (entry_of docs)) = zero_money"
    by (simp_all add: summary_figures figure_absent original_figure_absent e payment_side_types_def)
  show ?thesis
    using o by (simp add: Let_def report_summary_of_def z)
      (simp add: summary_figures figure_def original_figure_def zero_diff_money money_abs_def money_neg_def)
qed

lemma summary_of_refund_witness:
  "rs_Charge (ov_ReportSummary (order_view_doc sample_ext [side_entry ''real_refund''] sample_order)) =
     \<lparr>mo_Amount = Fin (- 100), mo_Currency = ''EUR'', mo_AmountRounded = Fin (- 100)\<rparr>"
  using summary_of_refund[of "[side_entry ''real_refund'']" sample_ext sample_order]
  by (simp add: payment_side_types_def side_entry_def Let_def summary_figures original_figure_def
      entry_of_def helper_Round_int[of 100, simplified] money_neg_def)

text \<open>An order that has an entry of either side (a manual entry may have any type) breaks the summary:
  its charge is reported in a currency that does not exist.\<close>

theorem mixed_entries_break_summary:
  "rs_Charge (ov_ReportSummary (order_view_doc X [side_entry ''real_gross_revenue'', side_entry ''real_refund''] ordr)) =
     \<lparr>mo_Amount = 0, mo_Currency = ''EUREUR'', mo_AmountRounded = 0\<rparr>"
  by (simp add: report_summary_of_def money_diff_def summary_figures original_figure_def side_entry_def entry_of_def Let_def zero_float64_def helper_Round_int[of 100, simplified])

end
