(* ===== verification/OrderView.thy ===== *)
theory OrderView
  imports OrderFigures
begin

text \<open>
  Refreshing the order view: UpdateOrderView of internal/repository/order.go recomputes the view of
  each order it is asked for, updateOrderView of internal/service/order\_view.go calls it in batches.
  The loop that cuts the batches makes no progress when the configured batch size is zero: it is a
  partial function, and a caller never gets past it.
\<close>

section \<open>Recomputing views\<close>

text \<open>
  The error of the lookup of the order is not looked at; without an order the first field that is
  read is a nil dereference.
\<close>

definition refresh_view :: "ext \<Rightarrow> string \<Rightarrow> unit io" where
  "refresh_view X i =
     bind (lift (x_oid_from_hex X i)) (\<lambda>oid.
     bind (find_all X w_accounting (\<lambda>d. mgoae_SourceId d = oid)) (\<lambda>list.
     bind (attempt (orderrepo_GetById X i)) (\<lambda>r. case r of
       Inl _ \<Rightarrow> throw go_panic
     | Inr ordr \<Rightarrow>
       bind (order_view_to_mgo X (order_view_doc X list ordr)) (\<lambda>viewMgo.
       upsert_one X w_order_views_update (\<lambda>v. ov_Id v = oid) viewMgo))))"

definition orderrepo_UpdateOrderView :: "ext \<Rightarrow> string list \<Rightarrow> unit io" where
  "orderrepo_UpdateOrderView X ids = for_each ids (refresh_view X)"

section \<open>Batches\<close>

partial_function (option) cut_batches :: "nat \<Rightarrow> string list \<Rightarrow> string list list \<Rightarrow> string list list option" where
  "cut_batches n ids batches =
     (if n < length ids then cut_batches n (drop n ids) (batches @ [take n ids]) else Some (batches @ [ids]))"

lemmas cut_batches_unfold = cut_batches.simps[of n ids batches for n ids batches]

text \<open>A negative size is a slice bound out of range.\<close>

definition batches_of :: "int \<Rightarrow> string list \<Rightarrow> go_err + string list list" where
  "batches_of n ids = (if n < 0 then (if n < int (length ids) then Inl go_panic else Inr [ids])
     else (case cut_batches (nat n) ids [] of None \<Rightarrow> Inl go_hangs | Some bs \<Rightarrow> Inr bs))"

definition updateOrderView :: "ext \<Rightarrow> string list \<Rightarrow> unit io" where
  "updateOrderView X ids0 =
     bind (if ids0 = [] then aerepo_GetDistinctBySourceId X else ret ids0) (\<lambda>ids.
     if ids \<noteq> [] \<and> int (length ids) \<le> x_order_view_batch X then orderrepo_UpdateOrderView X ids
     else bind (lift (batches_of (x_order_view_batch X) ids)) (\<lambda>batches.
          for_each batches (orderrepo_UpdateOrderView X)))"

definition RebuildOrderView :: "ext \<Rightarrow> unit io" where
  "RebuildOrderView X = updateOrderView X []"

lemma cut_batches_ok:
  "0 < n \<Longrightarrow> \<exists>bs. cut_batches n ids acc = Some (acc @ bs) \<and> concat bs = ids \<and> (\<forall>b\<in>set bs. length b \<le> n)"
proof (induction ids arbitrary: acc rule: measure_induct_rule[where f = length])
  case (less ids)
  show ?case
  proof (cases "n < length ids")
    case True
    then have "length (drop n ids) < length ids" using less.prems by simp
    from less.IH[OF this less.prems, of "acc @ [take n ids]"]
    obtain bs where b: "cut_batches n (drop n ids) (acc @ [take n ids]) = Some ((acc @ [take n ids]) @ bs)"
      "concat bs = drop n ids" "\<forall>b\<in>set bs. length b \<le> n" by blast
    have "cut_batches n ids acc = Some (acc @ take n ids # bs)"
      using True b(1) cut_batches_unfold[of n ids acc] by simp
    then show ?thesis using b by (intro exI[of _ "take n ids # bs"]) auto
  next
    case False
    then have "cut_batches n ids acc = Some (acc @ [ids])" using cut_batches_unfold[of n ids acc] by simp
    then show ?thesis using False by (intro exI[of _ "[ids]"]) simp
  qed
qed

text \<open>With size zero every unfolding of the loop is the same one, so it has no result.\<close>

lemma cut_batches_zero: "ids \<noteq> [] \<Longrightarrow> cut_batches 0 ids acc = None"
proof (rule ccontr)
  assume ids: "ids \<noteq> []" and "cut_batches 0 ids acc \<noteq> None"
  then obtain r where "cut_batches 0 ids acc = Some r" by auto
  moreover have "\<And>n xs bs r. cut_batches n xs bs = Some r \<Longrightarrow> n = 0 \<longrightarrow> xs = []"
  proof -
    fix n xs bs r assume "cut_batches n xs bs = Some r"
    then show "n = 0 \<longrightarrow> xs = []"
      by (rule cut_batches.raw_induct[of "\<lambda>n xs bs r. n = 0 \<longrightarrow> xs = []", rotated]) (auto split: if_splits)
  qed
  ultimately show False using ids by blast
qed

lemma for_each_append: "for_each (xs @ ys) f = bind (for_each xs f) (\<lambda>_. for_each ys f)"
  by (induction xs) (simp_all add: fun_eq_iff go_defs split: prod.split sum.split)

lemma for_each_batches: "for_each bs (orderrepo_UpdateOrderView X) = for_each (concat bs) (refresh_view X)"
  by (induction bs) (simp_all add: orderrepo_UpdateOrderView_def for_each_append)

text \<open>C37: Refreshing in batches is refreshing one by one: for every positive batch size, whatever fails, the
  refresh runs exactly as the plain loop over the ids (over all sources of the journal when none is named).\<close>

theorem order_view_batches:
  assumes "0 < x_order_view_batch X"
  shows "updateOrderView X ids =
    bind (if ids = [] then aerepo_GetDistinctBySourceId X else ret ids) (\<lambda>is. for_each is (refresh_view X))"
proof -
  have "(if is \<noteq> [] \<and> int (length is) \<le> x_order_view_batch X then orderrepo_UpdateOrderView X is
     else bind (lift (batches_of (x_order_view_batch X) is)) (\<lambda>batches. for_each batches (orderrepo_UpdateOrderView X))) =
     for_each is (refresh_view X)" for "is"
  proof -
    obtain bs where "cut_batches (nat (x_order_view_batch X)) is [] = Some bs" "concat bs = is"
      using cut_batches_ok[of "nat (x_order_view_batch X)" "is" "[]"] assms by auto
    then show ?thesis using assms
      by (auto simp: batches_of_def for_each_batches) (simp add: orderrepo_UpdateOrderView_def)
  qed
  then show ?thesis by (simp add: updateOrderView_def)
qed

lemma order_view_batches_witness:
  "updateOrderView (sample_ext\<lparr>x_order_view_batch := 1\<rparr>) [''a'', ''b''] =
     for_each [''a'', ''b''] (refresh_view (sample_ext\<lparr>x_order_view_batch := 1\<rparr>))"
  using order_view_batches[of "sample_ext\<lparr>x_order_view_batch := 1\<rparr>" "[''a'', ''b'']"] by simp

text \<open>With a batch size of zero the refresh of any non-empty list of ids never comes to an end.\<close>

theorem order_view_hangs:
  assumes "x_order_view_batch X = 0" and "ids \<noteq> []"
  shows "cut_batches (nat (x_order_view_batch X)) ids [] = None \<and> fst (updateOrderView X ids s) = Inl go_hangs"
  using assms cut_batches_zero[OF assms(2), of "[]"] by (simp add: updateOrderView_def batches_of_def run_go)

lemma order_view_hangs_witness:
  "fst (updateOrderView (sample_ext\<lparr>x_order_view_batch := 0\<rparr>) [''a''] empty_world) = Inl go_hangs"
  using order_view_hangs[of "sample_ext\<lparr>x_order_view_batch := 0\<rparr>" "[''a'']" empty_world] by simp

end
