(* ===== verification/OrderViewCurrent.thy ===== *)
theory OrderViewCurrent
  imports OrderView
begin

text \<open>
  What a refresh of the order view leaves behind: a successful one stores, for each order it was asked
  for, exactly the figures of the order's entries in the journal, and touches nothing else; it succeeds
  when the order and its ids are in order; and it never gets past a source that is not an order.
\<close>

section \<open>What the stored view shows\<close>

text \<open>
  What a view has to show is said here on its own: which entries of the journal make up each figure, and which
  fields of the order are copied. Amounts are in the currency of the ledger, of the country or of the payment.
  An entry type without an entry counts as nothing in no currency; of several entries the last one counts.
\<close>

datatype ledger = InLedger | InCountry | InPayment

definition last_entry :: "(mgo_accounting_entry \<Rightarrow> 'a) \<Rightarrow> 'a \<Rightarrow> mgo_accounting_entry list \<Rightarrow> string \<Rightarrow> 'a" where
  "last_entry f none es tp = (case filter (\<lambda>e. mgoae_Type e = tp) es of [] \<Rightarrow> none | ds \<Rightarrow> f (last ds))"

fun amount_in :: "ledger \<Rightarrow> mgo_accounting_entry \<Rightarrow> float64" where
  "amount_in InLedger = mgoae_Amount"
| "amount_in InCountry = mgoae_LocalAmount"
| "amount_in InPayment = mgoae_OriginalAmount"

fun rounded_in :: "ledger \<Rightarrow> mgo_accounting_entry \<Rightarrow> float64" where
  "rounded_in InLedger = mgoae_AmountRounded"
| "rounded_in InCountry = mgoae_LocalAmountRounded"
| "rounded_in InPayment = mgoae_OriginalAmountRounded"

fun currency_in :: "ledger \<Rightarrow> mgo_accounting_entry \<Rightarrow> string" where
  "currency_in InLedger = mgoae_Currency"
| "currency_in InCountry = mgoae_LocalCurrency"
| "currency_in InPayment = mgoae_OriginalCurrency"

definition net_of :: "(string \<Rightarrow> float64) \<Rightarrow> string list \<Rightarrow> string list \<Rightarrow> float64" where
  "net_of a ups downs = foldl (-) (foldl (+) (a (hd ups)) (map a (tl ups))) (map a downs)"

definition figure_shows :: "mgo_accounting_entry list \<Rightarrow> ledger \<Rightarrow> string list \<Rightarrow> string list \<Rightarrow> money \<Rightarrow> bool" where
  "figure_shows es l ups downs m \<longleftrightarrow> mo_Amount m = net_of (last_entry (amount_in l) 0 es) ups downs \<and>
     mo_Currency m = last_entry (currency_in l) [] es (hd ups) \<and>
     mo_AmountRounded m = helper_Round (net_of (last_entry (rounded_in l) 0 es) ups downs)"

text \<open>The figures of a payment: what is added up, in which currency, and what is taken off.\<close>

definition payment_sheet :: "((payment_figures \<Rightarrow> money) \<times> ledger \<times> string list \<times> string list) list" where
  "payment_sheet = [
     (pf_PaymentGrossRevenueLocal, InCountry, [''real_gross_revenue''], []),
     (pf_PaymentGrossRevenueOrigin, InPayment, [''real_gross_revenue''], []),
     (pf_PaymentGrossRevenue, InLedger, [''real_gross_revenue''], []),
     (pf_PaymentTaxFee, InLedger, [''real_tax_fee''], []),
     (pf_PaymentTaxFeeLocal, InCountry, [''real_tax_fee''], []),
     (pf_PaymentTaxFeeOrigin, InPayment, [''real_tax_fee''], []),
     (pf_PaymentTaxFeeCurrencyExchangeFee, InPayment, [''central_bank_tax_fee''], []),
     (pf_PaymentTaxFeeTotal, InLedger, [''real_tax_fee'', ''central_bank_tax_fee''], []),
     (pf_PaymentGrossRevenueFx, InLedger, [''ps_gross_revenue_fx''], []),
     (pf_PaymentGrossRevenueFxTaxFee, InLedger, [''ps_gross_revenue_fx_tax_fee''], []),
     (pf_PaymentGrossRevenueFxProfit, InLedger, [''ps_gross_revenue_fx''], [''ps_gross_revenue_fx_tax_fee'']),
     (pf_GrossRevenue, InLedger, [''real_gross_revenue''], [''ps_gross_revenue_fx'']),
     (pf_TaxFee, InLedger, [''merchant_tax_fee_cost_value''], []),
     (pf_TaxFeeCurrencyExchangeFee, InLedger, [''merchant_tax_fee_central_bank_fx''], []),
     (pf_TaxFeeTotal, InLedger, [''merchant_tax_fee_cost_value'', ''merchant_tax_fee_central_bank_fx''], []),
     (pf_MethodFeeTotal, InLedger, [''ps_method_fee''], []),
     (pf_MethodFeeTariff, InLedger, [''merchant_method_fee''], []),
     (pf_PaysuperMethodFeeTariffSelfCost, InLedger, [''merchant_method_fee_cost_value''], []),
     (pf_PaysuperMethodFeeProfit, InLedger, [''merchant_method_fee''], [''merchant_method_fee_cost_value'']),
     (pf_MethodFixedFeeTariff, InLedger, [''merchant_method_fixed_fee''], []),
     (pf_PaysuperMethodFixedFeeTariffFxProfit, InLedger, [''merchant_method_fixed_fee''], [''real_merchant_method_fixed_fee'']),
     (pf_PaysuperMethodFixedFeeTariffSelfCost, InLedger, [''real_merchant_method_fixed_fee_cost_value''], []),
     (pf_PaysuperMethodFixedFeeTariffTotalProfit, InLedger, [''real_merchant_method_fixed_fee''],
       [''real_merchant_method_fixed_fee_cost_value'']),
     (pf_PaysuperFixedFee, InLedger, [''merchant_ps_fixed_fee''], []),
     (pf_PaysuperFixedFeeFxProfit, InLedger, [''merchant_ps_fixed_fee''], [''real_merchant_ps_fixed_fee'']),
     (pf_FeesTotal, InLedger, [''ps_method_fee'', ''merchant_ps_fixed_fee''], []),
     (pf_FeesTotalLocal, InCountry, [''ps_method_fee'', ''merchant_ps_fixed_fee''], []),
     (pf_NetRevenue, InLedger, [''real_gross_revenue''], [''ps_gross_revenue_fx'', ''merchant_ps_fixed_fee'',
       ''merchant_tax_fee_central_bank_fx'', ''ps_method_fee'', ''merchant_tax_fee_cost_value'']),
     (pf_PaysuperMethodTotalProfit, InLedger, [''ps_method_fee'', ''merchant_ps_fixed_fee''],
       [''merchant_method_fee_cost_value'', ''real_merchant_method_fixed_fee_cost_value'']),
     (pf_PaysuperTotalProfit, InLedger, [''ps_gross_revenue_fx'', ''ps_method_fee'', ''merchant_ps_fixed_fee''],
       [''central_bank_tax_fee'', ''ps_gross_revenue_fx_tax_fee'', ''merchant_method_fee_cost_value'',
        ''real_merchant_method_fixed_fee_cost_value''])]"

definition refund_sheet :: "((refund_figures \<Rightarrow> money) \<times> ledger \<times> string list \<times> string list) list" where
  "refund_sheet = [
     (rf_PaymentRefundGrossRevenueLocal, InCountry, [''real_refund''], []),
     (rf_PaymentRefundGrossRevenueOrigin, InPayment, [''real_refund''], []),
     (rf_PaymentRefundGrossRevenue, InLedger, [''real_refund''], []),
     (rf_PaymentRefundTaxFee, InLedger, [''real_refund_tax_fee''], []),
     (rf_PaymentRefundTaxFeeLocal, InCountry, [''real_refund_tax_fee''], []),
     (rf_PaymentRefundTaxFeeOrigin, InPayment, [''real_refund_tax_fee''], []),
     (rf_PaymentRefundFeeTariff, InLedger, [''real_refund_fee''], []),
     (rf_MethodRefundFixedFeeTariff, InLedger, [''real_refund_fixed_fee''], []),
     (rf_RefundGrossRevenue, InLedger, [''merchant_refund''], []),
     (rf_RefundGrossRevenueFx, InLedger, [''merchant_refund''], [''real_refund'']),
     (rf_MethodRefundFeeTariff, InLedger, [''merchant_refund_fee''], []),
     (rf_PaysuperMethodRefundFeeTariffProfit, InLedger, [''merchant_refund_fee''], [''real_refund_fee'']),
     (rf_PaysuperMethodRefundFixedFeeTariffSelfCost, InLedger, [''merchant_refund_fixed_fee_cost_value''], []),
     (rf_MerchantRefundFixedFeeTariff, InLedger, [''merchant_refund_fixed_fee''], []),
     (rf_PaysuperMethodRefundFixedFeeTariffProfit, InLedger, [''merchant_refund_fixed_fee''], [''real_refund_fixed_fee'']),
     (rf_RefundTaxFee, InLedger, [''reverse_tax_fee''], []),
     (rf_RefundTaxFeeCurrencyExchangeFee, InLedger, [''reverse_tax_fee_delta''], []),
     (rf_PaysuperRefundTaxFeeCurrencyExchangeFee, InLedger, [''ps_reverse_tax_fee_delta''], []),
     (rf_RefundTaxFeeTotal, InLedger, [''reverse_tax_fee'', ''reverse_tax_fee_delta''], []),
     (rf_RefundReverseRevenue, InLedger, [''merchant_refund'', ''merchant_refund_fee'', ''merchant_refund_fixed_fee'',
       ''reverse_tax_fee_delta''], [''reverse_tax_fee'']),
     (rf_RefundFeesTotal, InLedger, [''merchant_refund_fee'', ''merchant_refund_fixed_fee''], []),
     (rf_RefundFeesTotalLocal, InCountry, [''merchant_refund_fee'', ''merchant_refund_fixed_fee''], []),
     (rf_PaysuperRefundTotalProfit, InLedger, [''merchant_refund_fee'', ''merchant_refund_fixed_fee'',
       ''ps_reverse_tax_fee_delta''], [''real_refund_fixed_fee'', ''real_refund_fee''])]"

definition figures_shown :: "mgo_accounting_entry list \<Rightarrow> mgo_order_view \<Rightarrow> bool" where
  "figures_shown es m \<longleftrightarrow>
     list_all (\<lambda>(pick, l, ups, downs). figure_shows es l ups downs (pick (ov_PaymentFigures m))) payment_sheet \<and>
     list_all (\<lambda>(pick, l, ups, downs). figure_shows es l ups downs (pick (ov_RefundFigures m))) refund_sheet"

text \<open>The summary for reports: the payment's figures less the refund's, the fees as their absolute value.\<close>

definition summary_shown :: "order \<Rightarrow> mgo_order_view \<Rightarrow> bool" where
  "summary_shown ordr m \<longleftrightarrow> (let less = (\<lambda>x a b. mo_Amount x = mo_Amount a - mo_Amount b \<and>
        mo_Currency x = mo_Currency a @ mo_Currency b \<and> mo_AmountRounded x = mo_AmountRounded a - mo_AmountRounded b);
      p = ov_PaymentFigures m; r = ov_RefundFigures m; sm = ov_ReportSummary m in
     less (rs_Charge sm) (pf_PaymentGrossRevenueOrigin p) (rf_PaymentRefundGrossRevenueOrigin r) \<and>
     less (rs_Gross sm) (pf_GrossRevenue p) (rf_RefundGrossRevenue r) \<and>
     less (rs_Vat sm) (pf_TaxFeeTotal p) (rf_RefundTaxFeeTotal r) \<and>
     less (rs_Revenue sm) (pf_NetRevenue p) (rf_RefundReverseRevenue r) \<and>
     mo_Amount (rs_Fees sm) = math_Abs (mo_Amount (pf_FeesTotal p) - mo_Amount (rf_RefundFeesTotal r)) \<and>
     rs_Status sm = (if order_Type ordr = ''order'' \<and> (order_Status ordr = ''refunded'' \<or> order_Status ordr = ''chargeback'')
       then ''processed'' else order_Status ordr))"

text \<open>The fields that are the order's own; ids and times in the form of the database.\<close>

definition order_copied :: "order \<Rightarrow> mgo_order_view \<Rightarrow> bool" where
  "order_copied ordr m \<longleftrightarrow> ov_Uuid m = order_Uuid ordr \<and> ov_TotalPaymentAmount m = order_TotalPaymentAmount ordr \<and>
     ov_Currency m = order_Currency ordr \<and> ov_ProjectName m = order_ProjectName ordr \<and>
     ov_Transaction m = order_Transaction ordr \<and> ov_CountryCode m = order_CountryCode ordr \<and>
     ov_Locale m = (case order_User ordr of None \<Rightarrow> [] | Some u \<Rightarrow> ou_Locale u) \<and>
     ov_Status m = order_Status ordr \<and> ov_Type m = order_Type ordr \<and> ov_IsVatDeduction m = order_IsVatDeduction ordr \<and>
     ov_ParentOrder m = order_ParentOrder ordr \<and> ov_MccCode m = order_MccCode ordr \<and>
     ov_OperatingCompanyId m = order_OperatingCompanyId ordr \<and> ov_IsHighRisk m = order_IsHighRisk ordr \<and>
     ov_RefundAllowed m = order_IsRefundAllowed ordr \<and> ov_VatPayer m = order_VatPayer ordr \<and>
     ov_IsProduction m = order_IsProduction ordr \<and> ov_TaxRate m = order_TaxRate ordr \<and>
     ov_Recurring m = order_Recurring ordr \<and> ov_RecurringId m = order_RecurringId ordr \<and>
     ov_RoyaltyReportId m = order_RoyaltyReportId ordr \<and> ov_AmountBeforeVat m = order_OrderAmount ordr \<and>
     ov_Refund m = (if order_PaymentMethod ordr = None then None else order_Refund ordr) \<and>
     ov_PaymentMethodTerminalId m = (case Option.bind (order_PaymentMethod ordr) opm_Params of None \<Rightarrow> []
       | Some p \<Rightarrow> pmp_TerminalId p)"

definition charge_shown :: "mgo_accounting_entry list \<Rightarrow> order \<Rightarrow> mgo_order_view \<Rightarrow> bool" where
  "charge_shown es ordr m \<longleftrightarrow> mo_Amount (ov_OrderCharge m) = order_ChargeAmount ordr \<and>
     mo_Currency (ov_OrderCharge m) = order_ChargeCurrency ordr \<and>
     mo_AmountRounded (ov_OrderCharge m) = helper_Round (order_ChargeAmount ordr) \<and>
     mo_Amount (ov_OrderChargeBeforeVat m) = order_ChargeAmount ordr - last_entry mgoae_OriginalAmount 0 es ''real_tax_fee''
       - last_entry mgoae_OriginalAmount 0 es ''real_refund_tax_fee'' \<and>
     mo_Currency (ov_OrderChargeBeforeVat m) = order_ChargeCurrency ordr \<and>
     ov_MerchantPayoutCurrency m = mo_Currency (if order_Type ordr = ''order'' then pf_NetRevenue (ov_PaymentFigures m)
       else rf_RefundReverseRevenue (ov_RefundFigures m))"

definition time_copied :: "ext \<Rightarrow> timestamp option \<Rightarrow> gotime \<Rightarrow> bool" where
  "time_copied X t u \<longleftrightarrow> (case t of None \<Rightarrow> True | Some _ \<Rightarrow> x_timestamp X t = Inr u)"

definition ids_copied :: "ext \<Rightarrow> order \<Rightarrow> mgo_order_view \<Rightarrow> bool" where
  "ids_copied X ordr m \<longleftrightarrow> x_oid_from_hex X (order_Id ordr) = Inr (ov_Id m) \<and>
     x_oid_from_hex X (x_order_merchant_id X ordr) = Inr (ov_MerchantId m) \<and>
     x_oid_from_hex X (order_ProjectId ordr) = Inr (ov_ProjectId m) \<and> ov_ProjectMerchantId m = ov_MerchantId m \<and>
     time_copied X (order_CreatedAt ordr) (ov_CreatedAt m) \<and>
     time_copied X (order_PaymentMethodOrderClosedAt ordr) (ov_TransactionDate m) \<and>
     time_copied X (order_ProjectFirstPaymentAt ordr) (ov_ProjectFirstPaymentAt m)"

definition item_copied :: "ext \<Rightarrow> order_item \<Rightarrow> mgo_order_item \<Rightarrow> bool" where
  "item_copied X v m \<longleftrightarrow> (oi_Id v = [] \<or> x_oid_from_hex X (oi_Id v) = Inr (oi_Id m)) \<and> oi_Object m = oi_Object v \<and>
     oi_Sku m = oi_Sku v \<and> oi_Name m = oi_Name v \<and> oi_Description m = oi_Description v \<and> oi_Amount m = oi_Amount v \<and>
     oi_Currency m = oi_Currency v \<and> oi_Images m = oi_Images v \<and> oi_Url m = oi_Url v \<and> oi_Metadata m = oi_Metadata v \<and>
     oi_Code m = oi_Code v \<and> oi_PlatformId m = oi_PlatformId v \<and> x_timestamp X (oi_CreatedAt v) = Inr (oi_CreatedAt m) \<and>
     x_timestamp X (oi_UpdatedAt v) = Inr (oi_UpdatedAt m)"

definition method_copied :: "ext \<Rightarrow> order_payment_method \<Rightarrow> mgo_order_payment_method \<Rightarrow> bool" where
  "method_copied X v m \<longleftrightarrow> x_oid_from_hex X (opm_Id v) = Inr (opm_Id m) \<and>
     x_oid_from_hex X (opm_PaymentSystemId v) = Inr (opm_PaymentSystemId m) \<and> opm_Name m = opm_Name v \<and>
     opm_ExternalId m = opm_ExternalId v \<and> opm_Params m = opm_Params v \<and> opm_Group m = opm_Group v \<and>
     opm_Saved m = opm_Saved v \<and> opm_Handler m = opm_Handler v \<and> opm_Card m = opm_Card v \<and> opm_Wallet m = opm_Wallet v \<and>
     opm_CryptoCurrency m = opm_CryptoCurrency v \<and> opm_RefundAllowed m = opm_RefundAllowed v \<and>
     opm_RecurringAllowed m = opm_RecurringAllowed v"

definition view_shows :: "ext \<Rightarrow> mgo_accounting_entry list \<Rightarrow> order \<Rightarrow> mgo_order_view \<Rightarrow> bool" where
  "view_shows X es ordr m \<longleftrightarrow> ids_copied X ordr m \<and> order_copied ordr m \<and> list_all2 (item_copied X) (order_Items ordr) (ov_Items m) \<and>
     rel_option (method_copied X) (order_PaymentMethod ordr) (ov_PaymentMethod m) \<and>
     figures_shown es m \<and> charge_shown es ordr m \<and> summary_shown ordr m"

text \<open>The view of the order \<open>i\<close> is up to date: it shows the entries that the journal holds.\<close>

definition view_shown :: "ext \<Rightarrow> world \<Rightarrow> string \<Rightarrow> bool" where
  "view_shown X s i \<longleftrightarrow> (\<exists>oid ordr m. x_oid_from_hex X i = Inr oid \<and>
     order_at X (w_orders s) i = Some ordr \<and>
     find (\<lambda>v. ov_Id v = oid) (w_order_views s) = Some m \<and>
     view_shows X (filter (\<lambda>d. mgoae_SourceId d = oid) (w_accounting s)) ordr m)"

lemma entry_of_last: "f (entry_of es tp) = last_entry f (f empty_entry) es tp"
proof (induction es rule: rev_induct)
  case (snoc e es)
  then show ?case by (simp add: entry_of_snoc last_entry_def split: list.splits)
qed (simp add: entry_of_def last_entry_def)

lemma entry_of_figures:
  "mgoae_Amount (entry_of es t) = last_entry mgoae_Amount 0 es t"
  "mgoae_AmountRounded (entry_of es t) = last_entry mgoae_AmountRounded 0 es t"
  "mgoae_LocalAmount (entry_of es t) = last_entry mgoae_LocalAmount 0 es t"
  "mgoae_LocalAmountRounded (entry_of es t) = last_entry mgoae_LocalAmountRounded 0 es t"
  "mgoae_OriginalAmount (entry_of es t) = last_entry mgoae_OriginalAmount 0 es t"
  "mgoae_OriginalAmountRounded (entry_of es t) = last_entry mgoae_OriginalAmountRounded 0 es t"
  "mgoae_Currency (entry_of es t) = last_entry mgoae_Currency [] es t"
  "mgoae_LocalCurrency (entry_of es t) = last_entry mgoae_LocalCurrency [] es t"
  "mgoae_OriginalCurrency (entry_of es t) = last_entry mgoae_OriginalCurrency [] es t"
  by (simp_all add: entry_of_last[of _ es])

lemma figures_are_shown:
  assumes "ov_PaymentFigures m = payment_figures_of (entry_of es)" and "ov_RefundFigures m = refund_figures_of (entry_of es)"
  shows "figures_shown es m"
  unfolding figures_shown_def assms
  by (simp only: payment_sheet_def refund_sheet_def list.pred_inject prod.case figure_shows_def net_of_def
      payment_figures_of_def refund_figures_of_def payment_figures.simps refund_figures.simps figure_defs money.simps
      entry_of_figures amount_in.simps rounded_in.simps currency_in.simps list.sel list.map foldl.simps simp_thms)

lemma items_are_copied: "items_to_mgo X vs s = (Inr ms, t) \<Longrightarrow> list_all2 (item_copied X) vs ms"
proof (induction vs arbitrary: ms s t)
  case (Cons v vs)
  from Cons.prems obtain m u ms' where "item_to_mgo X v s = (Inr m, u)" "items_to_mgo X vs u = (Inr ms', t)" "ms = m # ms'"
    by (auto simp: success)
  then show ?case using Cons.IH
    by (auto simp: item_to_mgo_def item_copied_def invalid_id_def success split: if_splits sum.splits)
qed (simp add: success)

lemma method_is_copied: "method_to_mgo X v s = (Inr m, t) \<Longrightarrow> rel_option (method_copied X) v m"
  by (auto simp: method_to_mgo_def payment_method_to_mgo_def method_copied_def success bind_err_eq_Inr split: option.splits)

lemma time_or_zero_copied: "time_or_zero X t s = (Inr u, s') \<Longrightarrow> time_copied X t u"
  by (auto simp: time_or_zero_def time_copied_def success split: option.splits)

lemma time_or_now_copied: "time_or_now X t s = (Inr u, s') \<Longrightarrow> time_copied X t u"
  by (auto simp: time_or_now_def time_copied_def success split: option.splits)

lemma order_view_shows:
  assumes "order_view_to_mgo X (order_view_doc X es ordr) s = (Inr m, t)" shows "view_shows X es ordr m"
proof -
  let ?v = "order_view_doc X es ordr"
  from assms obtain oid merchantOid projectOid firstPaymentAt createdAt transactionDate items paid_by s1 s2 s3 s4 where
    ids: "x_oid_from_hex X (ov_Id ?v) = Inr oid" "x_oid_from_hex X (ov_MerchantId ?v) = Inr merchantOid"
      "x_oid_from_hex X (ov_ProjectId ?v) = Inr projectOid"
    and times: "time_or_zero X (ov_ProjectFirstPaymentAt ?v) s = (Inr firstPaymentAt, s1)"
      "time_or_now X (ov_CreatedAt ?v) s1 = (Inr createdAt, s2)"
      "time_or_zero X (ov_TransactionDate ?v) s2 = (Inr transactionDate, s3)"
    and items: "items_to_mgo X (ov_Items ?v) s3 = (Inr items, s4)" and paid_by: "method_to_mgo X (ov_PaymentMethod ?v) s4 = (Inr paid_by, t)"
    and m: "m = \<lparr>ov_Id = oid, ov_Uuid = ov_Uuid ?v, ov_TotalPaymentAmount = ov_TotalPaymentAmount ?v,
          ov_Currency = ov_Currency ?v, ov_ProjectId = projectOid, ov_ProjectMerchantId = merchantOid,
          ov_ProjectName = ov_ProjectName ?v, ov_ProjectFirstPaymentAt = firstPaymentAt, ov_CreatedAt = createdAt, ov_Transaction = ov_Transaction ?v,
          ov_PaymentMethod = paid_by, ov_CountryCode = ov_CountryCode ?v, ov_MerchantId = merchantOid,
          ov_Locale = ov_Locale ?v, ov_Status = ov_Status ?v, ov_TransactionDate = transactionDate,
          ov_Type = ov_Type ?v, ov_IsVatDeduction = ov_IsVatDeduction ?v,
          ov_PaymentFigures = ov_PaymentFigures ?v, ov_RefundFigures = ov_RefundFigures ?v, ov_Items = items,
          ov_MerchantPayoutCurrency = ov_MerchantPayoutCurrency ?v, ov_ParentOrder = ov_ParentOrder ?v,
          ov_Refund = (if paid_by = None then None else ov_Refund ?v), ov_MccCode = ov_MccCode ?v,
          ov_OperatingCompanyId = ov_OperatingCompanyId ?v, ov_IsHighRisk = ov_IsHighRisk ?v,
          ov_RefundAllowed = ov_RefundAllowed ?v, ov_OrderCharge = ov_OrderCharge ?v, ov_VatPayer = ov_VatPayer ?v,
          ov_IsProduction = ov_IsProduction ?v, ov_OrderChargeBeforeVat = ov_OrderChargeBeforeVat ?v,
          ov_TaxRate = ov_TaxRate ?v, ov_PaymentMethodTerminalId = ov_PaymentMethodTerminalId ?v,
          ov_Recurring = ov_Recurring ?v, ov_RecurringId = ov_RecurringId ?v,
          ov_RoyaltyReportId = ov_RoyaltyReportId ?v, ov_AmountBeforeVat = ov_AmountBeforeVat ?v,
          ov_ReportSummary = ov_ReportSummary ?v\<rparr>"
    unfolding order_view_to_mgo_def success by blast
  note proj = order_view_doc_def Let_def order_view_of.simps
  have n: "paid_by = None \<longleftrightarrow> order_PaymentMethod ordr = None"
    using method_is_copied[OF paid_by] unfolding proj by (cases paid_by; cases "order_PaymentMethod ordr") simp_all
  have "ids_copied X ordr m"
    using ids times(1,3)[THEN time_or_zero_copied] times(2)[THEN time_or_now_copied]
    unfolding ids_copied_def m proj by simp
  moreover have "order_copied ordr m" unfolding order_copied_def m proj n by (simp split: option.splits)
  moreover have "list_all2 (item_copied X) (order_Items ordr) (ov_Items m)"
    using items_are_copied[OF items] unfolding m proj .
  moreover have "rel_option (method_copied X) (order_PaymentMethod ordr) (ov_PaymentMethod m)"
    using method_is_copied[OF paid_by] unfolding m proj .
  moreover have f: "ov_PaymentFigures m = payment_figures_of (entry_of es)" "ov_RefundFigures m = refund_figures_of (entry_of es)"
    unfolding m proj by (rule refl)+
  have "figures_shown es m" by (rule figures_are_shown[OF f])
  moreover have "charge_shown es ordr m"
    unfolding charge_shown_def f unfolding m proj by (simp add: entry_of_last[of _ es])
  moreover have "summary_shown ordr m"
    unfolding summary_shown_def f unfolding m proj report_summary_of_def money_diff_def money_abs_def by simp
  ultimately show ?thesis by (simp add: view_shows_def)
qed

lemma quiet_items [quiet_intros]: "quiet (items_to_mgo X vs)"
  by (induction vs) (auto simp: item_to_mgo_def intro!: quiet_intros)

lemma quiet_view_to_mgo [quiet_intros]: "quiet (order_view_to_mgo X v)"
  unfolding order_view_to_mgo_def method_to_mgo_def time_or_now_def time_or_zero_def by (intro quiet_intros)

lemma quiet_orderrepo_GetById [quiet_intros]: "quiet (orderrepo_GetById X i)"
  unfolding orderrepo_GetById_def repo_get_def by (intro quiet_intros)

lemma orderrepo_GetById_success:
  "orderrepo_GetById X i s = (Inr ordr, t) \<Longrightarrow> order_at X (w_orders s) i = Some ordr"
  by (auto simp: orderrepo_GetById_def repo_get_def success find_one_def calling_def rpc_def run_simps order_at_iff
      split: option.splits)

section \<open>A successful refresh\<close>

lemma refresh_view_success:
  assumes run: "refresh_view X i s = (Inr (), t)" and c: "canon_id X i"
  obtains oid ordr m where "x_oid_from_hex X i = Inr oid" and "order_at X (w_orders s) i = Some ordr"
    and "view_shows X (filter (\<lambda>d. mgoae_SourceId d = oid) (w_accounting s)) ordr m"
    and "w_order_views t = upsert (\<lambda>v. ov_Id v = oid) m (w_order_views s)"
    and "w_accounting t = w_accounting s" and "w_orders t = w_orders s" and "ov_Id m = oid"
proof -
  from run obtain oid docs u ordr v m w where o: "x_oid_from_hex X i = Inr oid"
    and f: "find_all X w_accounting (\<lambda>d. mgoae_SourceId d = oid) s = (Inr docs, u)"
    and g: "orderrepo_GetById X i u = (Inr ordr, v)"
    and m: "order_view_to_mgo X (order_view_doc X docs ordr) v = (Inr m, w)"
    and up: "upsert_one X w_order_views_update (\<lambda>v. ov_Id v = oid) m w = (Inr (), t)"
    unfolding refresh_view_def success run_case by blast
  have q: "quiet (find_all X w_accounting (\<lambda>d. mgoae_SourceId d = oid))" by (rule quiet_intros)
  note qf = quiet_same[OF q f] and qg = quiet_same[OF quiet_orderrepo_GetById g] and qm = quiet_same[OF quiet_view_to_mgo m]
  have docs: "docs = filter (\<lambda>d. mgoae_SourceId d = oid) (w_accounting s)"
    using f by (auto simp: find_all_def success calling_def rpc_def gets_def split: option.splits)
  have ord: "order_at X (w_orders s) i = Some ordr"
    using orderrepo_GetById_success[OF g] qf by simp
  then have i: "order_Id ordr = i" using c by (rule order_at_id)
  have t: "t = w\<lparr>w_tick := Suc (w_tick w), w_order_views := upsert (\<lambda>v. ov_Id v = oid) m (w_order_views w)\<rparr>"
    using up by (auto simp: upsert_one_def success calling_def rpc_def modify_def split: option.splits)
  have im: "view_shows X docs ordr m" by (rule order_view_shows[OF m])
  then have "ov_Id m = oid" using o i by (simp add: view_shows_def ids_copied_def)
  then show ?thesis using that[OF o ord] im docs t qf qg qm by simp
qed

text \<open>A refresh keeps whatever does not depend on the view, the cache or the calls made.\<close>

definition view_stable :: "(world \<Rightarrow> bool) \<Rightarrow> bool" where
  "view_stable I \<longleftrightarrow> (\<forall>s n c. I s \<longrightarrow> w_tick s \<le> n \<longrightarrow> I (s\<lparr>w_tick := n, w_cache := c\<rparr>)) \<and> (\<forall>s f. I s \<longrightarrow> I (w_order_views_update f s))"

lemma view_stable_quiet: "view_stable I \<Longrightarrow> quiet m \<Longrightarrow> keeps I m"
  unfolding view_stable_def by (rule keepsI) (metis quietD)

lemma keeps_refresh_view:
  assumes I: "view_stable I"
  shows "keeps I (refresh_view X i)"
proof -
  note q = view_stable_quiet[OF I]
  have w: "keeps I (modify (w_order_views_update f))" for f
    using I by (intro keeps_modify) (simp add: view_stable_def)
  have up: "keeps I (upsert_one X w_order_views_update p m)" for p m
    unfolding upsert_one_def by (rule keeps_bind[OF q[OF quiet_calls(3)] w])
  show ?thesis unfolding refresh_view_def
    by (intro keeps_bind keeps_attempt keeps_sum keeps_pure up) ((intro q quiet_intros)+)?
qed

lemma keeps_updateOrderView:
  assumes I: "view_stable I" shows "keeps I (updateOrderView X ids)"
proof -
  note q = view_stable_quiet[OF I]
  have u: "keeps I (orderrepo_UpdateOrderView X is)" for "is"
    unfolding orderrepo_UpdateOrderView_def by (intro keeps_for_each keeps_refresh_view I)
  have d: "quiet (aerepo_GetDistinctBySourceId X)" unfolding aerepo_GetDistinctBySourceId_def by (intro quiet_intros)
  show ?thesis unfolding updateOrderView_def
    by (intro keeps_bind keeps_if keeps_for_each keeps_pure u q[OF d])
qed

lemma refresh_view_tick: "refresh_view X i s = (r, t) \<Longrightarrow> w_tick s \<le> w_tick t"
  by (rule keepsD[OF keeps_refresh_view[of "\<lambda>u. w_tick s \<le> w_tick u"]]) (simp_all add: view_stable_def)

lemma view_shown_refresh:
  assumes run: "refresh_view X j s = (Inr (), t)" and c: "canon_id X i" "canon_id X j"
    and sh: "i = j \<or> view_shown X s i"
  shows "view_shown X t i"
proof -
  from refresh_view_success[OF run c(2)] obtain oid ordr m where j: "x_oid_from_hex X j = Inr oid"
    "order_at X (w_orders s) j = Some ordr"
    "view_shows X (filter (\<lambda>d. mgoae_SourceId d = oid) (w_accounting s)) ordr m"
    and t: "w_order_views t = upsert (\<lambda>v. ov_Id v = oid) m (w_order_views s)" "w_accounting t = w_accounting s"
    "w_orders t = w_orders s" "ov_Id m = oid" by blast
  show ?thesis
  proof (cases "i = j")
    case True
    have "find (\<lambda>v. ov_Id v = oid) (w_order_views t) = Some m" unfolding t(1) by (rule find_upsert) (rule t(4))
    then show ?thesis using True j t(2,3) by (auto simp: view_shown_def)
  next
    case False
    then obtain oid' ordr' m' where i: "x_oid_from_hex X i = Inr oid'" "order_at X (w_orders s) i = Some ordr'"
      "find (\<lambda>v. ov_Id v = oid') (w_order_views s) = Some m'"
      "view_shows X (filter (\<lambda>d. mgoae_SourceId d = oid') (w_accounting s)) ordr' m'"
      using sh by (auto simp: view_shown_def)
    have "oid \<noteq> oid'" using c False i(1) j(1) by (auto elim!: canon_idE)
    then have "find (\<lambda>v. ov_Id v = oid') (w_order_views t) = Some m'"
      unfolding t(1) using i(3) t(4) by (subst find_upsert_other) auto
    then show ?thesis using i t(2,3) by (auto simp: view_shown_def)
  qed
qed

lemma refresh_all_shown:
  assumes "for_each ids (refresh_view X) s = (Inr (), t)" and "\<forall>i\<in>set ids \<union> done. canon_id X i"
    and "\<forall>i\<in>done. view_shown X s i"
  shows "(\<forall>i\<in>set ids \<union> done. view_shown X t i) \<and> w_accounting t = w_accounting s \<and> w_orders t = w_orders s \<and>
    (\<forall>oid. (\<forall>i\<in>set ids. x_oid_from_hex X i \<noteq> Inr oid) \<longrightarrow>
      find (\<lambda>v. ov_Id v = oid) (w_order_views t) = find (\<lambda>v. ov_Id v = oid) (w_order_views s))"
  using assms
proof (induction ids arbitrary: s "done")
  case Nil then show ?case by (simp add: success)
next
  case (Cons j ids)
  from Cons.prems(1) obtain u where r: "refresh_view X j s = (Inr (), u)" and rest: "for_each ids (refresh_view X) u = (Inr (), t)"
    by (auto simp: success)
  have "\<forall>i\<in>insert j done. view_shown X u i"
    using view_shown_refresh[OF r] Cons.prems(2,3) by auto
  from Cons.IH[OF rest _ this] Cons.prems(2)
  have ih: "\<forall>i\<in>set ids \<union> insert j done. view_shown X t i" "w_accounting t = w_accounting u" "w_orders t = w_orders u"
    "\<forall>oid. (\<forall>i\<in>set ids. x_oid_from_hex X i \<noteq> Inr oid) \<longrightarrow>
      find (\<lambda>v. ov_Id v = oid) (w_order_views t) = find (\<lambda>v. ov_Id v = oid) (w_order_views u)" by auto
  have "canon_id X j" using Cons.prems(2) by simp
  from refresh_view_success[OF r this] obtain oid m where o: "x_oid_from_hex X j = Inr oid" "ov_Id m = oid"
    and u: "w_order_views u = upsert (\<lambda>v. ov_Id v = oid) m (w_order_views s)" "w_accounting u = w_accounting s" "w_orders u = w_orders s"
    by metis
  have "find (\<lambda>v. ov_Id v = oid') (w_order_views u) = find (\<lambda>v. ov_Id v = oid') (w_order_views s)" if "oid' \<noteq> oid" for oid'
    unfolding u(1) using that o(2) by (intro find_upsert_other) auto
  then show ?case using ih u(2,3) o(1) by auto
qed

text \<open>A refresh writes nothing but views.\<close>

definition only_views :: "world \<Rightarrow> world \<Rightarrow> bool" where
  "only_views s t \<longleftrightarrow> t = s\<lparr>w_tick := w_tick t, w_order_views := w_order_views t\<rparr>"

lemma only_views_steps:
  "only_views s u \<Longrightarrow> only_views s (u\<lparr>w_tick := n\<rparr>)" "only_views s u \<Longrightarrow> only_views s (w_order_views_update f u)"
  by (cases s, cases u, simp add: only_views_def)+

lemma refresh_view_only_views: "keeps (only_views s) (refresh_view X i)"
proof -
  have tk: "tick_stable (only_views s)" by (simp add: tick_stable_def only_views_steps)
  have it: "keeps (only_views s) (items_to_mgo X vs)" for vs
    by (induction vs) (auto simp: item_to_mgo_def intro!: keeps_intros tk)
  have up: "keeps (only_views s) (upsert_one X w_order_views_update p m)" for p m
    unfolding upsert_one_def by (intro keeps_bind keeps_external tk keeps_modify only_views_steps)
  have ma: "keeps (only_views s) (order_view_to_mgo X v)" for v
    unfolding order_view_to_mgo_def method_to_mgo_def time_or_now_def time_or_zero_def by (intro keeps_intros tk it)
  show ?thesis unfolding refresh_view_def orderrepo_GetById_def repo_get_def find_one_def find_all_def
    by (intro keeps_intros tk ma up)
qed

text \<open>C38: A refresh that succeeds leaves the view of every order it was asked for up to date: every figure is
  what the journal's entries of the order add up to, the rest is copied from the order. The views of all other orders
  are as they were, and so is everything else: no document is written, no message sent, and nothing cached.\<close>

theorem views_current:
  assumes "0 < x_order_view_batch X" and "ids \<noteq> []" and "\<forall>i\<in>set ids. canon_id X i"
    and "updateOrderView X ids s = (Inr (), t)"
  shows "(\<forall>i\<in>set ids. view_shown X t i) \<and> t = s\<lparr>w_tick := w_tick t, w_order_views := w_order_views t\<rparr> \<and>
    (\<forall>oid. (\<forall>i\<in>set ids. x_oid_from_hex X i \<noteq> Inr oid) \<longrightarrow>
      find (\<lambda>v. ov_Id v = oid) (w_order_views t) = find (\<lambda>v. ov_Id v = oid) (w_order_views s))"
proof -
  have r: "for_each ids (refresh_view X) s = (Inr (), t)" using assms order_view_batches[OF assms(1), of ids] by simp
  have "only_views s t"
    by (rule keepsD[OF keeps_for_each[OF refresh_view_only_views] _ r]) (simp add: only_views_def)
  then show ?thesis using refresh_all_shown[OF r, of "{}"] assms(3) by (simp add: only_views_def)
qed

section \<open>When a refresh succeeds\<close>

definition decodes :: "ext \<Rightarrow> string \<Rightarrow> bool" where
  "decodes X i \<longleftrightarrow> (\<exists>d. x_oid_from_hex X i = Inr d)"

definition ts_ok :: "ext \<Rightarrow> timestamp option \<Rightarrow> bool" where
  "ts_ok X t \<longleftrightarrow> (\<exists>v. x_timestamp X t = Inr v)"

definition view_encodable :: "ext \<Rightarrow> order \<Rightarrow> bool" where
  "view_encodable X ordr \<longleftrightarrow> decodes X (x_order_merchant_id X ordr) \<and> decodes X (order_ProjectId ordr) \<and>
     (order_CreatedAt ordr \<noteq> None \<longrightarrow> ts_ok X (order_CreatedAt ordr)) \<and>
     (order_ProjectFirstPaymentAt ordr \<noteq> None \<longrightarrow> ts_ok X (order_ProjectFirstPaymentAt ordr)) \<and>
     (order_PaymentMethodOrderClosedAt ordr \<noteq> None \<longrightarrow> ts_ok X (order_PaymentMethodOrderClosedAt ordr)) \<and>
     (\<forall>v\<in>set (order_Items ordr). (oi_Id v = [] \<or> decodes X (oi_Id v)) \<and> ts_ok X (oi_CreatedAt v) \<and> ts_ok X (oi_UpdatedAt v)) \<and>
     (\<forall>m. order_PaymentMethod ordr = Some m \<longrightarrow> decodes X (opm_Id m) \<and> decodes X (opm_PaymentSystemId m))"

definition view_ready :: "ext \<Rightarrow> mgo_order list \<Rightarrow> string \<Rightarrow> bool" where
  "view_ready X orders i \<longleftrightarrow> canon_id X i \<and>
     (\<exists>ordr. order_at X orders i = Some ordr \<and> view_encodable X ordr)"

lemma item_completes:
  assumes "oi_Id v = [] \<or> decodes X (oi_Id v)" "ts_ok X (oi_CreatedAt v)" "ts_ok X (oi_UpdatedAt v)"
  shows "\<exists>m t. item_to_mgo X v s = (Inr m, t)"
  using assms by (auto simp: item_to_mgo_def decodes_def ts_ok_def invalid_id_def new_oid_def run_go)

lemma items_complete:
  assumes "\<forall>v\<in>set vs. (oi_Id v = [] \<or> decodes X (oi_Id v)) \<and> ts_ok X (oi_CreatedAt v) \<and> ts_ok X (oi_UpdatedAt v)"
  shows "\<exists>ms t. items_to_mgo X vs s = (Inr ms, t)"
  using assms
proof (induction vs arbitrary: s)
  case (Cons v vs)
  obtain m u where m: "item_to_mgo X v s = (Inr m, u)" using item_completes[of v X s] Cons.prems by auto
  obtain ms t where "items_to_mgo X vs u = (Inr ms, t)" using Cons.IH[of u] Cons.prems by auto
  then show ?case using m by (simp add: run_go)
qed (simp add: run_go)

lemma order_view_encodes:
  assumes "view_encodable X ordr" and "decodes X (order_Id ordr)"
  shows "\<exists>m t. order_view_to_mgo X (order_view_doc X docs ordr) s = (Inr m, t)"
proof -
  let ?v = "order_view_doc X docs ordr"
  obtain a b c where d: "x_oid_from_hex X (ov_Id ?v) = Inr a" "x_oid_from_hex X (ov_MerchantId ?v) = Inr b"
    "x_oid_from_hex X (ov_ProjectId ?v) = Inr c"
    using assms by (auto simp: view_encodable_def decodes_def order_view_doc_def Let_def)
  obtain z0 s0 where z0: "time_or_zero X (ov_ProjectFirstPaymentAt ?v) s = (Inr z0, s0)"
    using assms(1) by (cases "order_ProjectFirstPaymentAt ordr")
      (auto simp: time_or_zero_def order_view_doc_def Let_def view_encodable_def ts_ok_def run_go)
  obtain x u where x: "time_or_now X (ov_CreatedAt ?v) s0 = (Inr x, u)"
    using assms(1) by (cases "order_CreatedAt ordr")
      (auto simp: time_or_now_def order_view_doc_def Let_def view_encodable_def ts_ok_def time_now_def run_go)
  obtain y v where y: "time_or_zero X (ov_TransactionDate ?v) u = (Inr y, v)"
    using assms(1) by (cases "order_PaymentMethodOrderClosedAt ordr")
      (auto simp: time_or_zero_def order_view_doc_def Let_def view_encodable_def ts_ok_def run_go)
  obtain ms w where ms: "items_to_mgo X (ov_Items ?v) v = (Inr ms, w)"
    using items_complete[of "order_Items ordr" X v] assms(1) by (auto simp: view_encodable_def order_view_doc_def Let_def)
  have "\<exists>z. method_to_mgo X (ov_PaymentMethod ?v) = ret z"
    using assms(1) by (cases "order_PaymentMethod ordr")
      (auto simp: method_to_mgo_def order_view_doc_def Let_def view_encodable_def decodes_def payment_method_to_mgo_def)
  then obtain z where z: "method_to_mgo X (ov_PaymentMethod ?v) = ret z" ..
  show ?thesis unfolding order_view_to_mgo_def d z lift_Inr bind_ret by (simp add: run_bind z0 x y ms) (simp add: run_simps)
qed

lemma refresh_view_completes:
  assumes "\<forall>n\<ge>w_tick s. x_fault X n = None" and "view_ready X (w_orders s) i"
  shows "\<exists>t. refresh_view X i s = (Inr (), t)"
proof -
  obtain oid ordr where o: "x_oid_from_hex X i = Inr oid" "order_at X (w_orders s) i = Some ordr"
    "view_encodable X ordr" and c: "canon_id X i" using assms(2) by (auto simp: view_ready_def elim: canon_idE)
  let ?docs = "filter (\<lambda>d. mgoae_SourceId d = oid) (w_accounting s)" and ?u = "s\<lparr>w_tick := Suc (w_tick s)\<rparr>"
    and ?v = "s\<lparr>w_tick := Suc (Suc (w_tick s))\<rparr>"
  have f: "find_all X w_accounting (\<lambda>d. mgoae_SourceId d = oid) s = (Inr ?docs, ?u)"
    using assms(1) by (simp add: find_all_def calling_def run_go)
  have g: "orderrepo_GetById X i ?u = (Inr ordr, ?v)"
    using assms(1) o(1,2) by (auto simp: orderrepo_GetById_def repo_get_def find_one_def calling_def run_go order_at_iff)
  have "decodes X (order_Id ordr)" using o(1) order_at_id[OF o(2) c] by (auto simp: decodes_def)
  then obtain m w where m: "order_view_to_mgo X (order_view_doc X ?docs ordr) ?v = (Inr m, w)"
    using order_view_encodes[OF o(3)] by blast
  have "w_tick s \<le> w_tick w" using quiet_same(1)[OF quiet_view_to_mgo m] by simp
  then have "x_fault X (w_tick w) = None" using assms(1) by simp
  then show ?thesis unfolding refresh_view_def run_bind run_attempt o(1) lift_Inr
    by (simp add: run_simps f g m run_bind upsert_one_def calling_def run_attempt)
qed

lemma refresh_all_complete:
  assumes "\<forall>n\<ge>w_tick s. x_fault X n = None" and "\<forall>i\<in>set ids. view_ready X (w_orders s) i"
  shows "\<exists>t. for_each ids (refresh_view X) s = (Inr (), t)"
  using assms
proof (induction ids arbitrary: s)
  case (Cons i ids)
  obtain u where u: "refresh_view X i s = (Inr (), u)" using refresh_view_completes[of s X i] Cons.prems by auto
  have "w_tick s \<le> w_tick u" by (rule refresh_view_tick[OF u])
  moreover have "w_orders u = w_orders s"
    by (rule keepsD[OF keeps_refresh_view[of "\<lambda>v. w_orders v = w_orders s"] _ u]) (simp_all add: view_stable_def)
  ultimately have "\<exists>t. for_each ids (refresh_view X) u = (Inr (), t)"
    using Cons.prems by (intro Cons.IH) auto
  then show ?case using u by (auto simp: run_go)
qed (simp add: run_go)

text \<open>C39: A refresh comes to its end: for a positive batch size and while no call fails, the view of every
  order that exists and whose ids and timestamps are valid is brought up to date.\<close>

theorem refresh_completes:
  assumes "0 < x_order_view_batch X" and "\<forall>n\<ge>w_tick s. x_fault X n = None" and "ids \<noteq> []"
    and "\<forall>i\<in>set ids. view_ready X (w_orders s) i"
  shows "\<exists>t. updateOrderView X ids s = (Inr (), t) \<and> (\<forall>i\<in>set ids. view_shown X t i)"
proof -
  obtain t where "for_each ids (refresh_view X) s = (Inr (), t)"
    using refresh_all_complete[OF assms(2), of ids] assms(4) by auto
  then show ?thesis
    using refresh_all_shown[of ids X s t "{}"] assms(3,4) order_view_batches[OF assms(1), of ids]
    by (auto simp: view_ready_def)
qed

lemma sample_order_at: "find (\<lambda>d. order_Id d = 1) docs = Some sample_order_doc \<Longrightarrow> order_at sample_ext docs (sample_hex 1) = Some sample_order"
  by (simp add: order_at_def sample_hex_roundtrip sample_order_decoded)

lemma sample_order_encodable: "view_encodable sample_ext sample_order"
  by (simp add: view_encodable_def decodes_def ts_ok_def sample_order_defs sample_hex_roundtrip)

lemma sample_view_ready: "i = sample_hex 1 \<Longrightarrow> view_ready sample_ext [sample_order_doc] i"
  using sample_order_encodable sample_order_at[of "[sample_order_doc]"]
  by (simp add: view_ready_def sample_canon_id)

lemma refresh_completes_witness:
  "\<exists>t. updateOrderView sample_ext [sample_hex 1] (empty_world\<lparr>w_orders := [sample_order_doc]\<rparr>) = (Inr (), t) \<and>
    view_shown sample_ext t (sample_hex 1)"
  using refresh_completes[of sample_ext "empty_world\<lparr>w_orders := [sample_order_doc]\<rparr>" "[sample_hex 1]"] sample_view_ready
  by (simp add: sample_canon_id)

text \<open>The sample order is paid: its gross revenue is 100 EUR, of which the exchange took 4.\<close>

definition journal_world :: world where
  "journal_world = empty_world\<lparr>w_orders := [sample_order_doc], w_accounting :=
     [(side_entry ''real_gross_revenue'')\<lparr>mgoae_SourceId := 1\<rparr>,
      (side_entry ''ps_gross_revenue_fx'')\<lparr>mgoae_SourceId := 1, mgoae_Amount := Fin 4\<rparr>]\<rparr>"

lemma views_current_witness:
  "\<exists>t m. updateOrderView sample_ext [sample_hex 1] journal_world = (Inr (), t) \<and> w_accounting t = w_accounting journal_world \<and>
    find (\<lambda>v. ov_Id v = 1) (w_order_views t) = Some m \<and> ov_TotalPaymentAmount m = order_TotalPaymentAmount sample_order \<and>
    mo_Amount (pf_GrossRevenue (ov_PaymentFigures m)) = Fin 96 \<and> mo_Currency (pf_GrossRevenue (ov_PaymentFigures m)) = ''EUR''"
proof -
  have b: "x_order_view_batch sample_ext = 200" by (simp add: sample_ext_def)
  have w: "w_orders journal_world = [sample_order_doc]" by (simp add: journal_world_def)
  then obtain t where t: "updateOrderView sample_ext [sample_hex 1] journal_world = (Inr (), t)"
    using refresh_all_complete[of journal_world sample_ext "[sample_hex 1]"]
      order_view_batches[of sample_ext "[sample_hex 1]"] sample_view_ready b by auto
  have v: "view_shown sample_ext t (sample_hex 1)" "t = journal_world\<lparr>w_tick := w_tick t, w_order_views := w_order_views t\<rparr>"
    using views_current[OF _ _ _ t] b by (simp_all add: sample_canon_id)
  have "w_orders t = [sample_order_doc]" "w_accounting t = w_accounting journal_world" using w by (subst v(2), simp)+
  then obtain m where m: "find (\<lambda>v. ov_Id v = 1) (w_order_views t) = Some m"
    "view_shows sample_ext (w_accounting journal_world) sample_order m"
    using v(1) sample_order_at[of "[sample_order_doc]"]
    by (auto simp: view_shown_def sample_hex_roundtrip journal_world_def side_entry_def)
  then have "figure_shows (w_accounting journal_world) InLedger [''real_gross_revenue''] [''ps_gross_revenue_fx'']
      (pf_GrossRevenue (ov_PaymentFigures m))" "order_copied sample_order m"
    unfolding view_shows_def figures_shown_def payment_sheet_def by simp_all
  then show ?thesis using t m(1) \<open>w_accounting t = w_accounting journal_world\<close>
    by (auto simp: figure_shows_def net_of_def last_entry_def journal_world_def side_entry_def order_copied_def minus_float64_def rnd_numerals)
qed

section \<open>Sources that are not orders\<close>

text \<open>A rebuild of the whole view never succeeds once the journal has an entry of a source that is not an
  order, such as a rolling reserve or a correction of a merchant: whatever the order of the sources, the
  refresh fails or panics at the latest when it comes to that source.\<close>

theorem rebuild_fails_on_other_sources:
  assumes "codecs_ok X" and "0 < x_order_view_batch X" and "d \<in> set (w_accounting s)"
    and "\<forall>p\<in>set (w_orders s). order_Id p \<noteq> mgoae_SourceId d"
  shows "fst (RebuildOrderView X s) \<noteq> Inr ()"
proof
  assume ok: "fst (RebuildOrderView X s) = Inr ()"
  obtain t where run: "RebuildOrderView X s = (Inr (), t)" using ok by (cases "RebuildOrderView X s") auto
  let ?all = "map (x_oid_hex X) (remdups (map mgoae_SourceId (w_accounting s)))"
  from run obtain ids u where i: "aerepo_GetDistinctBySourceId X s = (Inr ids, u)"
    and f: "for_each ids (refresh_view X) u = (Inr (), t)"
    unfolding RebuildOrderView_def order_view_batches[OF assms(2)] by (auto simp: success)
  have ids: "ids = ?all" and u: "w_orders u = w_orders s"
    using i by (auto simp: aerepo_GetDistinctBySourceId_def find_all_def success calling_def rpc_def gets_def split: option.splits)
  have c: "\<forall>i\<in>set ids \<union> {}. canon_id X i"
    using codecs_hex[OF assms(1)] by (auto simp: ids canon_id_def)
  have "x_oid_hex X (mgoae_SourceId d) \<in> set ids" using assms(3) by (auto simp: ids)
  then have "view_shown X t (x_oid_hex X (mgoae_SourceId d))" and "w_orders t = w_orders s"
    using refresh_all_shown[OF f c] u by auto
  then show False using assms(4) codecs_hex(1)[OF assms(1)] by (auto simp: view_shown_def order_at_iff dest: find_SomeD)
qed

lemma rebuild_fails_on_other_sources_witness:
  "fst (RebuildOrderView sample_ext (empty_world\<lparr>w_accounting := [side_entry ''merchant_royalty_correction'']\<rparr>)) \<noteq> Inr ()"
  by (rule rebuild_fails_on_other_sources[where d = "side_entry ''merchant_royalty_correction''"])
    (simp_all add: sample_codecs_ok empty_world_def)

end
