(* ===== verification/RefundRepo.thy ===== *)
theory RefundRepo
  imports AccountingRepo
begin

text \<open>
  Refunds in the database: the mapper of internal/repository/models/refund.go and the repository
  of internal/repository/refund.go.
\<close>

definition RefundStatusCreated :: int where "RefundStatusCreated = 0"
definition RefundStatusRejected :: int where "RefundStatusRejected = 1"
definition RefundStatusInProgress :: int where "RefundStatusInProgress = 2"
definition RefundStatusCompleted :: int where "RefundStatusCompleted = 3"
definition RefundStatusPaymentSystemDeclined :: int where "RefundStatusPaymentSystemDeclined = 4"
definition RefundStatusPaymentSystemCanceled :: int where "RefundStatusPaymentSystemCanceled = 5"

lemmas refund_statuses = RefundStatusCreated_def RefundStatusRejected_def RefundStatusInProgress_def
  RefundStatusCompleted_def RefundStatusPaymentSystemDeclined_def RefundStatusPaymentSystemCanceled_def

definition refund_to_mgo :: "ext \<Rightarrow> refund \<Rightarrow> mgo_refund io" where
  "refund_to_mgo X m =
     bind (lift (x_oid_from_hex X (refund_OriginalOrderId m))) (\<lambda>orderOid.
     bind (lift (x_oid_from_hex X (refund_CreatorId m))) (\<lambda>creatorOid.
     bind (if refund_Id m = [] then new_oid X
           else replace_err ErrorInvalidObjectId (lift (x_oid_from_hex X (refund_Id m)))) (\<lambda>oid.
     bind (if refund_CreatedOrderId m = [] then ret nil_oid
           else replace_err ErrorInvalidObjectId (lift (x_oid_from_hex X (refund_CreatedOrderId m)))) (\<lambda>createdOrderId.
     bind (time_or_now X (refund_CreatedAt m)) (\<lambda>createdAt.
     bind (time_or_now X (refund_UpdatedAt m)) (\<lambda>updatedAt.
     ret \<lparr>mgorefund_Id = oid, mgorefund_OriginalOrderId = orderOid,
          mgorefund_OriginalOrderUuid = refund_OriginalOrderUuid m, mgorefund_ExternalId = refund_ExternalId m,
          mgorefund_Amount = refund_Amount m, mgorefund_CreatorId = creatorOid,
          mgorefund_Currency = refund_Currency m, mgorefund_Status = refund_Status m,
          mgorefund_CreatedAt = createdAt, mgorefund_UpdatedAt = updatedAt,
          mgorefund_PayerData = refund_PayerData m, mgorefund_SalesTax = refund_SalesTax m,
          mgorefund_IsChargeback = refund_IsChargeback m, mgorefund_CreatedOrderId = createdOrderId,
          mgorefund_Reason = refund_Reason m\<rparr>))))))"

definition refund_from_mgo :: "ext \<Rightarrow> mgo_refund \<Rightarrow> go_err + refund" where
  "refund_from_mgo X d =
     bind_err (x_timestamp_proto X (mgorefund_CreatedAt d)) (\<lambda>createdAt.
     bind_err (x_timestamp_proto X (mgorefund_UpdatedAt d)) (\<lambda>updatedAt.
     Inr \<lparr>refund_Id = x_oid_hex X (mgorefund_Id d),
          refund_OriginalOrderId = x_oid_hex X (mgorefund_OriginalOrderId d),
          refund_OriginalOrderUuid = mgorefund_OriginalOrderUuid d, refund_ExternalId = mgorefund_ExternalId d,
          refund_Amount = mgorefund_Amount d, refund_CreatorId = x_oid_hex X (mgorefund_CreatorId d),
          refund_Currency = mgorefund_Currency d, refund_Status = mgorefund_Status d,
          refund_CreatedAt = Some createdAt, refund_UpdatedAt = Some updatedAt,
          refund_PayerData = mgorefund_PayerData d, refund_SalesTax = mgorefund_SalesTax d,
          refund_IsChargeback = mgorefund_IsChargeback d,
          refund_CreatedOrderId = (if mgorefund_CreatedOrderId d = nil_oid then []
                                   else x_oid_hex X (mgorefund_CreatedOrderId d)),
          refund_Reason = mgorefund_Reason d\<rparr>))"

section \<open>The repository\<close>

definition refundrepo_Insert :: "ext \<Rightarrow> refund \<Rightarrow> unit io" where
  "refundrepo_Insert X = repo_insert X w_refunds w_refunds_update mgorefund_Id (refund_to_mgo X)"

definition refundrepo_Update :: "ext \<Rightarrow> refund \<Rightarrow> unit io" where
  "refundrepo_Update X = repo_update X w_refunds_update mgorefund_Id refund_Id (refund_to_mgo X)"

definition refundrepo_GetById :: "ext \<Rightarrow> string \<Rightarrow> refund io" where
  "refundrepo_GetById X = repo_get X w_refunds mgorefund_Id (refund_from_mgo X)"

definition refundrepo_CountByOrderUuid :: "ext \<Rightarrow> string \<Rightarrow> int io" where
  "refundrepo_CountByOrderUuid X i = count_documents X w_refunds (\<lambda>d. mgorefund_OriginalOrderUuid d = i)"

text \<open>A limit of zero is no limit.\<close>

definition refundrepo_FindByOrderUuid :: "ext \<Rightarrow> string \<Rightarrow> nat \<Rightarrow> nat \<Rightarrow> refund list io" where
  "refundrepo_FindByOrderUuid X i limit offset =
     bind (find_all X w_refunds (\<lambda>d. mgorefund_OriginalOrderUuid d = i)) (\<lambda>ds.
     let page = drop offset ds in
     lift (map_err (refund_from_mgo X) (if limit = 0 then page else take limit page)))"

definition refund_counts :: "oid \<Rightarrow> mgo_refund \<Rightarrow> bool" where
  "refund_counts i d \<longleftrightarrow> mgorefund_OriginalOrderId d = i \<and>
     mgorefund_Status d \<in> {RefundStatusCreated, RefundStatusInProgress, RefundStatusCompleted}"

text \<open>An invalid order id is ignored: the query runs with the zero ObjectID.\<close>

definition refundrepo_GetAmountByOrderId :: "ext \<Rightarrow> string \<Rightarrow> float64 io" where
  "refundrepo_GetAmountByOrderId X orderId =
     (let oid = (case x_oid_from_hex X orderId of Inl _ \<Rightarrow> nil_oid | Inr i \<Rightarrow> i) in
      bind (find_all X w_refunds (refund_counts oid)) (\<lambda>ds.
      ret (if ds = [] then 0 else x_mongo_sum X (map mgorefund_Amount ds))))"

section \<open>The repository as an instance of the interfaces\<close>

interpretation refunds: collection w_refunds w_refunds_update mgorefund_Id
  by unfold_locales simp_all

definition refund_canon :: "ext \<Rightarrow> refund \<Rightarrow> bool" where
  "refund_canon X r \<longleftrightarrow> canon_id X (refund_Id r) \<and> canon_id X (refund_OriginalOrderId r) \<and>
     canon_id X (refund_CreatorId r) \<and>
     (refund_CreatedOrderId r = [] \<or>
      canon_id X (refund_CreatedOrderId r) \<and> x_oid_from_hex X (refund_CreatedOrderId r) \<noteq> Inr nil_oid) \<and>
     canon_ts X (refund_CreatedAt r) \<and> canon_ts X (refund_UpdatedAt r)"

lemma replace_err_ret [simp]: "replace_err e (ret a) = ret a"
  by (simp add: go_defs)

lemma refund_encode:
  assumes "refund_canon X r"
  shows "\<exists>m. refund_to_mgo X r = ret m \<and> refund_from_mgo X m = Inr r \<and>
     x_oid_from_hex X (refund_Id r) = Inr (mgorefund_Id m)"
proof -
  have c: "canon_id X (refund_Id r)" "canon_id X (refund_OriginalOrderId r)" "canon_id X (refund_CreatorId r)"
    "canon_ts X (refund_CreatedAt r)" "canon_ts X (refund_UpdatedAt r)"
    and o: "refund_CreatedOrderId r = [] \<or>
      canon_id X (refund_CreatedOrderId r) \<and> x_oid_from_hex X (refund_CreatedOrderId r) \<noteq> Inr nil_oid"
    using assms by (auto simp: refund_canon_def)
  note r = c(1-3)[THEN canon_id_run] c(4,5)[THEN canon_ts_run]
  show ?thesis using o
  proof
    assume "refund_CreatedOrderId r = []"
    then show ?thesis using r by (cases r) (auto simp: refund_to_mgo_def refund_from_mgo_def)
  next
    assume "canon_id X (refund_CreatedOrderId r) \<and> x_oid_from_hex X (refund_CreatedOrderId r) \<noteq> Inr nil_oid"
    then show ?thesis using r
      by (cases r) (auto simp: refund_to_mgo_def refund_from_mgo_def dest!: canon_id_run)
  qed
qed

interpretation refund_repo: repository w_refunds w_refunds_update mgorefund_Id X "refund_to_mgo X" "refund_from_mgo X"
  "refund_canon X" refund_Id for X
  by unfold_locales (rule refund_encode)

end
