(* ===== verification/Costs.thy ===== *)
theory Costs
  imports Cache "HOL-Library.List_Lexorder" "HOL-Library.Char_ord"
begin

text \<open>
  What a payment or a refund costs: the tariffs of merchants and of the system, for payments
  (payment\_channel\_cost\_*.go) and for refunds (money\_back\_cost\_*.go), in internal/repository,
  its models and internal/service. A lookup groups the matching tariffs by country, the
  country-specific ones first, and takes from the first group with an eligible tariff the one with
  the highest threshold (minimal amount, or days since the payment). Lookups are cached by all
  their parameters; a change of a tariff drops the cache entries \<open>updateCaches\<close> names.
\<close>

section \<open>sort.Slice\<close>

text \<open>
  \<open>sort.Slice\<close> is an insertion sort for up to 12 elements and unstable above; only the first
  element of its result is used, and which of several equal ones comes first is left open by its
  documentation. The model is the insertion sort; the prefix sorted so far is held in reverse.
\<close>

fun insert_back :: "('a \<Rightarrow> 'a \<Rightarrow> bool) \<Rightarrow> 'a \<Rightarrow> 'a list \<Rightarrow> 'a list" where
  "insert_back lt x [] = [x]"
| "insert_back lt x (y # ys) = (if lt x y then y # insert_back lt x ys else x # y # ys)"

definition sort_slice :: "('a \<Rightarrow> 'a \<Rightarrow> bool) \<Rightarrow> 'a list \<Rightarrow> 'a list" where
  "sort_slice lt xs = rev (foldl (\<lambda>acc x. insert_back lt x acc) [] xs)"

text \<open>
  What the selection needs of the comparison: it is a strict weak order on the values that can
  be eligible.
\<close>

locale threshold_order =
  fixes gt :: "'v \<Rightarrow> 'v \<Rightarrow> bool" and valid :: "'v \<Rightarrow> bool"
  assumes asym: "gt a b \<Longrightarrow> \<not> gt b a"
    and neg_trans: "valid a \<Longrightarrow> valid b \<Longrightarrow> valid c \<Longrightarrow> \<not> gt a b \<Longrightarrow> \<not> gt b c \<Longrightarrow> \<not> gt a c"
begin

definition descending :: "('a \<Rightarrow> 'v) \<Rightarrow> 'a list \<Rightarrow> bool" where
  "descending k ys \<longleftrightarrow> sorted_wrt (\<lambda>a b. \<not> gt (k a) (k b)) ys \<and> (\<forall>y\<in>set ys. valid (k y))"

lemma set_insert_back: "set (insert_back (\<lambda>a b. gt (k a) (k b)) x ys) = insert x (set ys)"
  by (induction ys) auto

lemma insert_back_descending:
  "descending k ys \<Longrightarrow> valid (k x) \<Longrightarrow> descending k (insert_back (\<lambda>a b. gt (k a) (k b)) x ys)"
proof (induction ys)
  case (Cons y ys)
  show ?case
  proof (cases "gt (k x) (k y)")
    case True
    then show ?thesis using Cons asym[OF True] by (auto simp: descending_def set_insert_back)
  next
    case False
    then show ?thesis using Cons.prems neg_trans[of "k x" "k y"] by (auto simp: descending_def)
  qed
qed (simp add: descending_def)

lemma foldl_insert_back:
  "descending k acc \<Longrightarrow> (\<And>x. x \<in> set xs \<Longrightarrow> valid (k x)) \<Longrightarrow>
    descending k (foldl (\<lambda>acc x. insert_back (\<lambda>a b. gt (k a) (k b)) x acc) acc xs) \<and>
    set (foldl (\<lambda>acc x. insert_back (\<lambda>a b. gt (k a) (k b)) x acc) acc xs) = set acc \<union> set xs"
  by (induction xs arbitrary: acc) (auto simp: insert_back_descending set_insert_back)

text \<open>The first element after sorting is a greatest one.\<close>

lemma first_is_greatest:
  assumes "sort_slice (\<lambda>a b. gt (k a) (k b)) xs = z # zs" and "\<And>x. x \<in> set xs \<Longrightarrow> valid (k x)"
  shows "z \<in> set xs" and "\<And>x. x \<in> set xs \<Longrightarrow> \<not> gt (k x) (k z)"
proof -
  let ?f = "foldl (\<lambda>acc x. insert_back (\<lambda>a b. gt (k a) (k b)) x acc) [] xs"
  have d: "descending k ?f" and s: "set ?f = set xs"
    using foldl_insert_back[of k "[]" xs] assms(2) by (auto simp: descending_def)
  have f: "?f = rev zs @ [z]" using assms(1) by (simp add: sort_slice_def rev_swap)
  show "z \<in> set xs" using f s by auto
  show "\<not> gt (k x) (k z)" if "x \<in> set xs" for x
  proof (cases "x = z")
    case True then show ?thesis using asym by blast
  next
    case False
    then have "x \<in> set (rev zs)" using that f s by auto
    then show ?thesis using d f by (auto simp: descending_def sorted_wrt_append)
  qed
qed

lemma sort_slice_empty: "sort_slice (\<lambda>a b. gt (k a) (k b)) xs = [] \<longleftrightarrow> xs = []"
proof -
  have "set (foldl (\<lambda>acc x. insert_back (\<lambda>a b. gt (k a) (k b)) x acc) acc xs) = set acc \<union> set xs" for acc
    by (induction xs arbitrary: acc) (auto simp: set_insert_back)
  from this[of "[]"] show ?thesis by (auto simp: sort_slice_def)
qed

end

text \<open>Amounts (numbers that are not NaN) and days are ordered this way.\<close>

interpretation amounts: threshold_order "\<lambda>a b. flt b a" "\<lambda>a. a \<noteq> NaN"
proof
  fix a b c :: float64
  show "flt b a \<Longrightarrow> \<not> flt a b" by (rule flt_asym)
  show "a \<noteq> NaN \<Longrightarrow> b \<noteq> NaN \<Longrightarrow> c \<noteq> NaN \<Longrightarrow> \<not> flt b a \<Longrightarrow> \<not> flt c b \<Longrightarrow> \<not> flt c a"
    by (cases a; cases b; cases c) auto
qed

interpretation days: threshold_order "\<lambda>a b. b < a" "\<lambda>_::int. True"
  by unfold_locales auto

section \<open>Grouping by country\<close>

text \<open>\<open>$group\<close> by country followed by \<open>$sort\<close> on it, descending.\<close>

definition group_desc :: "('d \<Rightarrow> string) \<Rightarrow> 'd list \<Rightarrow> (string \<times> 'd list) list" where
  "group_desc cty ds = map (\<lambda>c. (c, filter (\<lambda>d. cty d = c) ds)) (rev (sort (remdups (map cty ds))))"

text \<open>The country and region clauses that all lookups share.\<close>

definition in_territory :: "string \<Rightarrow> string \<Rightarrow> string \<Rightarrow> string \<Rightarrow> bool" where
  "in_territory region country r c \<longleftrightarrow> (c = country \<and> r = region) \<or> (c = [] \<and> r = region)"

definition map_groups :: "('d \<Rightarrow> go_err + 'c) \<Rightarrow> (string \<times> 'd list) list \<Rightarrow> go_err + (string \<times> 'c list) list" where
  "map_groups f gs = map_err (\<lambda>(i, ds). bind_err (map_err f ds) (\<lambda>cs. Inr (i, cs))) gs"

definition find_costs :: "ext \<Rightarrow> (cached \<Rightarrow> (string \<times> 'c list) list option) \<Rightarrow>
    ((string \<times> 'c list) list \<Rightarrow> cached) \<Rightarrow> (world \<Rightarrow> 'd list) \<Rightarrow> ('d \<Rightarrow> string) \<Rightarrow> ('d \<Rightarrow> go_err + 'c) \<Rightarrow>
    string \<Rightarrow> go_err + ('d \<Rightarrow> bool) \<Rightarrow> (string \<times> 'c list) list io" where
  "find_costs X sel wrap get cty from_mgo key matchQuery =
     bind (attempt (cache_get X sel key)) (\<lambda>c. case c of
       Inr v \<Rightarrow> ret v
     | Inl _ \<Rightarrow>
       bind (lift matchQuery) (\<lambda>p.
       bind (find_all X get p) (\<lambda>ds.
       bind (lift (map_groups from_mgo (group_desc cty ds))) (\<lambda>cs.
       bind (attempt (cache_set X key (wrap cs))) (\<lambda>_. ret cs)))))"

text \<open>
  The loop over the groups in the service: the first group with an eligible tariff decides.
\<close>

fun select_cost :: "('c \<Rightarrow> bool) \<Rightarrow> ('c \<Rightarrow> 'c \<Rightarrow> bool) \<Rightarrow> (string \<times> 'c list) list \<Rightarrow> 'c option" where
  "select_cost eligible gt [] = None"
| "select_cost eligible gt ((i, cs) # gs) =
     (case sort_slice gt (filter eligible cs) of [] \<Rightarrow> select_cost eligible gt gs | c # _ \<Rightarrow> Some c)"

section \<open>Payment tariffs of a merchant\<close>

definition pccm_to_mgo :: "ext \<Rightarrow> pccm \<Rightarrow> mgo_pccm io" where
  "pccm_to_mgo X m =
     bind (lift (x_oid_from_hex X (pccm_MerchantId m))) (\<lambda>merchantOid.
     bind (oid_or_new X (pccm_Id m)) (\<lambda>oid.
     bind (time_or_now X (pccm_CreatedAt m)) (\<lambda>createdAt.
     bind (time_or_now X (pccm_UpdatedAt m)) (\<lambda>updatedAt.
     ret \<lparr>pccm_Id = oid, pccm_MerchantId = merchantOid, pccm_Name = pccm_Name m,
          pccm_PayoutCurrency = pccm_PayoutCurrency m, pccm_MinAmount = pccm_MinAmount m,
          pccm_MaxAmount = pccm_MaxAmount m, pccm_Region = pccm_Region m, pccm_Country = pccm_Country m,
          pccm_MethodPercent = pccm_MethodPercent m, pccm_MethodFixAmount = pccm_MethodFixAmount m,
          pccm_MethodFixAmountCurrency = pccm_MethodFixAmountCurrency m, pccm_PsPercent = pccm_PsPercent m,
          pccm_PsFixedFee = pccm_PsFixedFee m, pccm_PsFixedFeeCurrency = pccm_PsFixedFeeCurrency m,
          pccm_CreatedAt = createdAt, pccm_UpdatedAt = updatedAt, pccm_IsActive = pccm_IsActive m,
          pccm_MccCode = pccm_MccCode m\<rparr>))))"

definition pccm_from_mgo :: "ext \<Rightarrow> mgo_pccm \<Rightarrow> go_err + pccm" where
  "pccm_from_mgo X d =
     bind_err (x_timestamp_proto X (pccm_CreatedAt d)) (\<lambda>createdAt.
     bind_err (x_timestamp_proto X (pccm_UpdatedAt d)) (\<lambda>updatedAt.
     Inr \<lparr>pccm_Id = x_oid_hex X (pccm_Id d), pccm_MerchantId = x_oid_hex X (pccm_MerchantId d),
          pccm_Name = pccm_Name d, pccm_PayoutCurrency = pccm_PayoutCurrency d,
          pccm_MinAmount = pccm_MinAmount d, pccm_MaxAmount = pccm_MaxAmount d,
          pccm_Region = pccm_Region d, pccm_Country = pccm_Country d,
          pccm_MethodPercent = pccm_MethodPercent d, pccm_MethodFixAmount = pccm_MethodFixAmount d,
          pccm_MethodFixAmountCurrency = pccm_MethodFixAmountCurrency d, pccm_PsPercent = pccm_PsPercent d,
          pccm_PsFixedFee = pccm_PsFixedFee d, pccm_PsFixedFeeCurrency = pccm_PsFixedFeeCurrency d,
          pccm_CreatedAt = Some createdAt, pccm_UpdatedAt = Some updatedAt,
          pccm_IsActive = pccm_IsActive d, pccm_MccCode = pccm_MccCode d\<rparr>))"

fun as_pccm_sets :: "cached \<Rightarrow> (string \<times> pccm list) list option" where
  "as_pccm_sets (CachedPccmSets v) = Some v"
| "as_pccm_sets _ = None"

fun as_pccm :: "cached \<Rightarrow> pccm option" where
  "as_pccm (CachedPccm v) = Some v"
| "as_pccm _ = None"

definition cachePaymentChannelCostMerchantKeyId :: "string \<Rightarrow> string" where
  "cachePaymentChannelCostMerchantKeyId i = ''pccm:id:'' @ i"

definition cachePaymentChannelCostMerchantKey ::
  "string \<Rightarrow> string \<Rightarrow> string \<Rightarrow> string \<Rightarrow> string \<Rightarrow> string \<Rightarrow> string" where
  "cachePaymentChannelCostMerchantKey m n pc r c mcc =
     ''pccm:m:'' @ m @ '':n:'' @ n @ '':pc:'' @ pc @ '':r:'' @ r @ '':c:'' @ c @ '':mcc:'' @ mcc"

definition cachePaymentChannelCostMerchantAll :: "string \<Rightarrow> string" where
  "cachePaymentChannelCostMerchantAll m = ''pccm:all:m:'' @ m"

definition pccm_match :: "ext \<Rightarrow> oid \<Rightarrow> string \<Rightarrow> string \<Rightarrow> string \<Rightarrow> string \<Rightarrow> string \<Rightarrow> mgo_pccm \<Rightarrow> bool" where
  "pccm_match X m name payoutCurrency region country mccCode d \<longleftrightarrow>
     pccm_MerchantId d = m \<and> x_regex_ci X name (pccm_Name d) \<and> pccm_PayoutCurrency d = payoutCurrency \<and>
     pccm_IsActive d \<and> pccm_MccCode d = mccCode \<and> in_territory region country (pccm_Region d) (pccm_Country d)"

definition pccmrepo_Find ::
  "ext \<Rightarrow> string \<Rightarrow> string \<Rightarrow> string \<Rightarrow> string \<Rightarrow> string \<Rightarrow> string \<Rightarrow> (string \<times> pccm list) list io" where
  "pccmrepo_Find X merchantId name payoutCurrency region country mccCode =
     find_costs X as_pccm_sets CachedPccmSets w_pccm pccm_Country (pccm_from_mgo X)
       (cachePaymentChannelCostMerchantKey merchantId name payoutCurrency region country mccCode)
       (Inr (pccm_match X (oid_or_nil X merchantId) name payoutCurrency region country mccCode))"

definition pccmrepo_updateCaches :: "ext \<Rightarrow> pccm \<Rightarrow> unit io" where
  "pccmrepo_updateCaches X obj =
     bind (for_each
       [cachePaymentChannelCostMerchantKey (pccm_MerchantId obj) (pccm_Name obj) (pccm_PayoutCurrency obj)
          (pccm_Region obj) (pccm_Country obj) (pccm_MccCode obj),
        cachePaymentChannelCostMerchantKey (pccm_MerchantId obj) (pccm_Name obj) (pccm_PayoutCurrency obj)
          (pccm_Region obj) [] (pccm_MccCode obj),
        cachePaymentChannelCostMerchantAll (pccm_MerchantId obj)] (cache_delete X)) (\<lambda>_.
     bind (for_each [cachePaymentChannelCostMerchantKeyId (pccm_Id obj)] (cache_delete X)) (\<lambda>_.
     if pccm_IsActive obj
     then for_each [cachePaymentChannelCostMerchantKeyId (pccm_Id obj)] (\<lambda>k. cache_set X k (CachedPccm obj))
     else ret ()))"

definition pccm_formatted :: "ext \<Rightarrow> pccm \<Rightarrow> pccm" where
  "pccm_formatted X obj = obj\<lparr>pccm_MinAmount := x_format_amount X (pccm_MinAmount obj),
     pccm_MethodFixAmount := x_format_amount X (pccm_MethodFixAmount obj),
     pccm_MethodPercent := x_to_precise X (pccm_MethodPercent obj),
     pccm_PsPercent := x_to_precise X (pccm_PsPercent obj),
     pccm_PsFixedFee := x_format_amount X (pccm_PsFixedFee obj)\<rparr>"

definition pccmrepo_Insert :: "ext \<Rightarrow> pccm \<Rightarrow> unit io" where
  "pccmrepo_Insert X obj0 =
     bind (timestamp_now X) (\<lambda>createdAt.
     bind (timestamp_now X) (\<lambda>updatedAt.
     let obj = (pccm_formatted X obj0)\<lparr>pccm_CreatedAt := Some createdAt, pccm_UpdatedAt := Some updatedAt,
                 pccm_IsActive := True\<rparr> in
     bind (pccm_to_mgo X obj) (\<lambda>mgo.
     bind (insert_one X w_pccm w_pccm_update pccm_Id mgo) (\<lambda>_.
     pccmrepo_updateCaches X obj))))"

definition pccmrepo_Update :: "ext \<Rightarrow> pccm \<Rightarrow> unit io" where
  "pccmrepo_Update X obj0 =
     bind (timestamp_now X) (\<lambda>updatedAt.
     let obj = (pccm_formatted X obj0)\<lparr>pccm_UpdatedAt := Some updatedAt\<rparr> in
     bind (pccm_to_mgo X obj) (\<lambda>mgo.
     bind (replace_one X w_pccm_update (\<lambda>d. pccm_Id d = oid_or_nil X (pccm_Id obj)) mgo) (\<lambda>_.
     pccmrepo_updateCaches X obj)))"

definition pccmrepo_Delete :: "ext \<Rightarrow> pccm \<Rightarrow> unit io" where
  "pccmrepo_Delete X obj0 =
     bind (timestamp_now X) (\<lambda>updatedAt.
     let obj = obj0\<lparr>pccm_UpdatedAt := Some updatedAt, pccm_IsActive := False\<rparr> in
     bind (pccm_to_mgo X obj) (\<lambda>mgo.
     bind (replace_one X w_pccm_update (\<lambda>d. pccm_Id d = oid_or_nil X (pccm_Id obj)) mgo) (\<lambda>_.
     pccmrepo_updateCaches X obj)))"

definition pccmrepo_GetById :: "ext \<Rightarrow> string \<Rightarrow> pccm io" where
  "pccmrepo_GetById X i =
     bind (attempt (cache_get X as_pccm (cachePaymentChannelCostMerchantKeyId i))) (\<lambda>c. case c of
       Inr v \<Rightarrow> ret v
     | Inl _ \<Rightarrow>
       bind (find_one X w_pccm (\<lambda>d. pccm_Id d = oid_or_nil X i \<and> pccm_IsActive d)) (\<lambda>mgo.
       bind (lift (pccm_from_mgo X mgo)) (\<lambda>obj.
       bind (attempt (cache_set X (cachePaymentChannelCostMerchantKeyId i) (CachedPccm obj))) (\<lambda>_.
       ret obj))))"

definition errorCostMatchedToAmountNotFound :: go_err where
  "errorCostMatchedToAmountNotFound = ResponseErrorMessage ''pcm000007'' ''cost matched to amount not found''"
definition errorCostMatchedNotFound :: go_err where
  "errorCostMatchedNotFound = ResponseErrorMessage ''pcm000009'' ''cost matched not found''"

text \<open>The list the repository returns is nil exactly when it is empty.\<close>

definition getPaymentChannelCostMerchant ::
  "ext \<Rightarrow> string \<Rightarrow> string \<Rightarrow> string \<Rightarrow> float64 \<Rightarrow> string \<Rightarrow> string \<Rightarrow> string \<Rightarrow> pccm io" where
  "getPaymentChannelCostMerchant X merchantId name payoutCurrency amount region country mccCode =
     bind (pccmrepo_Find X merchantId name payoutCurrency region country mccCode) (\<lambda>val.
     if val = [] then throw errorCostMatchedNotFound
     else (case select_cost (\<lambda>i. fle (pccm_MinAmount i) amount) (\<lambda>a b. flt (pccm_MinAmount b) (pccm_MinAmount a)) val of
         Some c \<Rightarrow> ret c
       | None \<Rightarrow> throw errorCostMatchedToAmountNotFound))"


section \<open>Payment tariffs of the system\<close>

definition pccs_from_mgo :: "ext \<Rightarrow> mgo_pccs \<Rightarrow> go_err + pccs" where
  "pccs_from_mgo X d =
     bind_err (x_timestamp_proto X (pccs_CreatedAt d)) (\<lambda>createdAt.
     bind_err (x_timestamp_proto X (pccs_UpdatedAt d)) (\<lambda>updatedAt.
     Inr \<lparr>pccs_Id = x_oid_hex X (pccs_Id d), pccs_Name = pccs_Name d,
          pccs_Region = pccs_Region d, pccs_Country = pccs_Country d,
          pccs_Percent = pccs_Percent d, pccs_FixAmount = pccs_FixAmount d,
          pccs_FixAmountCurrency = pccs_FixAmountCurrency d, pccs_CreatedAt = Some createdAt,
          pccs_UpdatedAt = Some updatedAt, pccs_IsActive = pccs_IsActive d,
          pccs_MccCode = pccs_MccCode d, pccs_OperatingCompanyId = pccs_OperatingCompanyId d\<rparr>))"

fun as_pccs :: "cached \<Rightarrow> pccs option" where
  "as_pccs (CachedPccs v) = Some v"
| "as_pccs _ = None"

definition cachePaymentChannelCostSystemKey :: "string \<Rightarrow> string \<Rightarrow> string \<Rightarrow> string \<Rightarrow> string \<Rightarrow> string" where
  "cachePaymentChannelCostSystemKey n r c mcc oc =
     ''pccs:n:'' @ n @ '':r:'' @ r @ '':c:'' @ c @ '':mcc:'' @ mcc @ '':oc:'' @ oc"

definition pccs_match :: "ext \<Rightarrow> string \<Rightarrow> string \<Rightarrow> string \<Rightarrow> string \<Rightarrow> string \<Rightarrow> mgo_pccs \<Rightarrow> bool" where
  "pccs_match X name region country mccCode operatingCompanyId d \<longleftrightarrow>
     x_regex_ci X name (pccs_Name d) \<and> pccs_MccCode d = mccCode \<and>
     pccs_OperatingCompanyId d = operatingCompanyId \<and> pccs_IsActive d \<and>
     in_territory region country (pccs_Region d) (pccs_Country d)"

text \<open>The first document of the first group (\<open>$limit: 1\<close>).\<close>

definition pccsrepo_Find :: "ext \<Rightarrow> string \<Rightarrow> string \<Rightarrow> string \<Rightarrow> string \<Rightarrow> string \<Rightarrow> pccs io" where
  "pccsrepo_Find X name region country mccCode operatingCompanyId =
     (let key = cachePaymentChannelCostSystemKey name region country mccCode operatingCompanyId in
     bind (attempt (cache_get X as_pccs key)) (\<lambda>c. case c of
       Inr v \<Rightarrow> ret v
     | Inl _ \<Rightarrow>
       bind (find_all X w_pccs (pccs_match X name region country mccCode operatingCompanyId)) (\<lambda>ds.
       case group_desc pccs_Country ds of
         (_, d # _) # _ \<Rightarrow>
           bind (lift (pccs_from_mgo X d)) (\<lambda>obj.
           bind (attempt (cache_set X key (CachedPccs obj))) (\<lambda>_. ret obj))
       | _ \<Rightarrow> throw ErrNoDocuments)))"

section \<open>Refund tariffs of a merchant\<close>

definition mbcm_from_mgo :: "ext \<Rightarrow> mgo_mbcm \<Rightarrow> go_err + mbcm" where
  "mbcm_from_mgo X d =
     bind_err (x_timestamp_proto X (mbcm_CreatedAt d)) (\<lambda>createdAt.
     bind_err (x_timestamp_proto X (mbcm_UpdatedAt d)) (\<lambda>updatedAt.
     Inr \<lparr>mbcm_Id = x_oid_hex X (mbcm_Id d), mbcm_MerchantId = x_oid_hex X (mbcm_MerchantId d),
          mbcm_Name = mbcm_Name d, mbcm_PayoutCurrency = mbcm_PayoutCurrency d,
          mbcm_UndoReason = mbcm_UndoReason d, mbcm_Region = mbcm_Region d,
          mbcm_Country = mbcm_Country d, mbcm_DaysFrom = mbcm_DaysFrom d,
          mbcm_PaymentStage = mbcm_PaymentStage d, mbcm_Percent = mbcm_Percent d,
          mbcm_FixAmount = mbcm_FixAmount d, mbcm_FixAmountCurrency = mbcm_FixAmountCurrency d,
          mbcm_IsPaidByMerchant = mbcm_IsPaidByMerchant d, mbcm_CreatedAt = Some createdAt,
          mbcm_UpdatedAt = Some updatedAt, mbcm_IsActive = mbcm_IsActive d,
          mbcm_MccCode = mbcm_MccCode d\<rparr>))"

fun as_mbcm_sets :: "cached \<Rightarrow> (string \<times> mbcm list) list option" where
  "as_mbcm_sets (CachedMbcmSets v) = Some v"
| "as_mbcm_sets _ = None"

definition cacheMoneyBackCostMerchantKey ::
  "string \<Rightarrow> string \<Rightarrow> string \<Rightarrow> string \<Rightarrow> string \<Rightarrow> string \<Rightarrow> int \<Rightarrow> string \<Rightarrow> string" where
  "cacheMoneyBackCostMerchantKey m n pc ur r c ps mcc =
     ''pucm:m:'' @ m @ '':n:'' @ n @ '':pc:'' @ pc @ '':ur:'' @ ur @ '':r:'' @ r @ '':c:'' @ c @
     '':ps:'' @ show_int ps @ '':mcc:'' @ mcc"

definition mbcm_match ::
  "ext \<Rightarrow> oid \<Rightarrow> string \<Rightarrow> string \<Rightarrow> string \<Rightarrow> string \<Rightarrow> string \<Rightarrow> string \<Rightarrow> int \<Rightarrow> mgo_mbcm \<Rightarrow> bool" where
  "mbcm_match X m name payoutCurrency undoReason region country mccCode paymentStage d \<longleftrightarrow>
     mbcm_MerchantId d = m \<and> x_regex_ci X name (mbcm_Name d) \<and> mbcm_PayoutCurrency d = payoutCurrency \<and>
     mbcm_UndoReason d = undoReason \<and> mbcm_PaymentStage d = paymentStage \<and> mbcm_IsActive d \<and>
     mbcm_MccCode d = mccCode \<and> in_territory region country (mbcm_Region d) (mbcm_Country d)"

definition mbcmrepo_Find :: "ext \<Rightarrow> string \<Rightarrow> string \<Rightarrow> string \<Rightarrow> string \<Rightarrow> string \<Rightarrow> string \<Rightarrow> string \<Rightarrow> int \<Rightarrow>
    (string \<times> mbcm list) list io" where
  "mbcmrepo_Find X merchantId name payoutCurrency undoReason region country mccCode paymentStage =
     find_costs X as_mbcm_sets CachedMbcmSets w_mbcm mbcm_Country (mbcm_from_mgo X)
       (cacheMoneyBackCostMerchantKey merchantId name payoutCurrency undoReason region country paymentStage mccCode)
       (bind_err (x_oid_from_hex X merchantId) (\<lambda>merchantOid.
        Inr (mbcm_match X merchantOid name payoutCurrency undoReason region country mccCode paymentStage)))"

definition errorMoneybackMerchantDaysMatchedNotFound :: go_err where
  "errorMoneybackMerchantDaysMatchedNotFound =
     ResponseErrorMessage ''mbm000008'' ''days matched not found''"

definition getMoneyBackCostMerchant :: "ext \<Rightarrow> string \<Rightarrow> string \<Rightarrow> string \<Rightarrow> string \<Rightarrow> string \<Rightarrow> string \<Rightarrow>
    int \<Rightarrow> int \<Rightarrow> string \<Rightarrow> mbcm io" where
  "getMoneyBackCostMerchant X merchantId name payoutCurrency undoReason region country paymentStage days mccCode =
     bind (mbcmrepo_Find X merchantId name payoutCurrency undoReason region country mccCode paymentStage) (\<lambda>val.
     (case select_cost (\<lambda>i. mbcm_DaysFrom i \<le> days) (\<lambda>a b. mbcm_DaysFrom b < mbcm_DaysFrom a) val of
         Some c \<Rightarrow> ret c
       | None \<Rightarrow> throw errorMoneybackMerchantDaysMatchedNotFound))"

section \<open>Refund tariffs of the system\<close>

definition mbcs_from_mgo :: "ext \<Rightarrow> mgo_mbcs \<Rightarrow> go_err + mbcs" where
  "mbcs_from_mgo X d =
     bind_err (x_timestamp_proto X (mbcs_CreatedAt d)) (\<lambda>createdAt.
     bind_err (x_timestamp_proto X (mbcs_UpdatedAt d)) (\<lambda>updatedAt.
     Inr \<lparr>mbcs_Id = x_oid_hex X (mbcs_Id d), mbcs_Name = mbcs_Name d,
          mbcs_PayoutCurrency = mbcs_PayoutCurrency d, mbcs_UndoReason = mbcs_UndoReason d,
          mbcs_Region = mbcs_Region d, mbcs_Country = mbcs_Country d,
          mbcs_DaysFrom = mbcs_DaysFrom d, mbcs_PaymentStage = mbcs_PaymentStage d,
          mbcs_Percent = mbcs_Percent d, mbcs_FixAmount = mbcs_FixAmount d,
          mbcs_CreatedAt = Some createdAt, mbcs_UpdatedAt = Some updatedAt,
          mbcs_IsActive = mbcs_IsActive d, mbcs_MccCode = mbcs_MccCode d,
          mbcs_OperatingCompanyId = mbcs_OperatingCompanyId d,
          mbcs_FixAmountCurrency = mbcs_FixAmountCurrency d\<rparr>))"

fun as_mbcs_sets :: "cached \<Rightarrow> (string \<times> mbcs list) list option" where
  "as_mbcs_sets (CachedMbcsSets v) = Some v"
| "as_mbcs_sets _ = None"

definition cacheMoneyBackCostSystemKey ::
  "string \<Rightarrow> string \<Rightarrow> string \<Rightarrow> string \<Rightarrow> string \<Rightarrow> int \<Rightarrow> string \<Rightarrow> string \<Rightarrow> string" where
  "cacheMoneyBackCostSystemKey n pc ur r c ps mcc oc =
     ''pucs:n:'' @ n @ '':pc:'' @ pc @ '':ur:'' @ ur @ '':r:'' @ r @ '':c:'' @ c @
     '':ps:'' @ show_int ps @ '':mcc:'' @ mcc @ '':oc:'' @ oc"

definition mbcs_match :: "ext \<Rightarrow> string \<Rightarrow> string \<Rightarrow> string \<Rightarrow> string \<Rightarrow> string \<Rightarrow> string \<Rightarrow> string \<Rightarrow> int \<Rightarrow>
    mgo_mbcs \<Rightarrow> bool" where
  "mbcs_match X name payoutCurrency undoReason region country mccCode operatingCompanyId paymentStage d \<longleftrightarrow>
     x_regex_ci X name (mbcs_Name d) \<and> mbcs_PayoutCurrency d = payoutCurrency \<and>
     mbcs_UndoReason d = undoReason \<and> mbcs_PaymentStage d = paymentStage \<and> mbcs_IsActive d \<and>
     mbcs_MccCode d = mccCode \<and> mbcs_OperatingCompanyId d = operatingCompanyId \<and>
     in_territory region country (mbcs_Region d) (mbcs_Country d)"

definition mbcsrepo_Find :: "ext \<Rightarrow> string \<Rightarrow> string \<Rightarrow> string \<Rightarrow> string \<Rightarrow> string \<Rightarrow> string \<Rightarrow> string \<Rightarrow> int \<Rightarrow>
    (string \<times> mbcs list) list io" where
  "mbcsrepo_Find X name payoutCurrency undoReason region country mccCode operatingCompanyId paymentStage =
     find_costs X as_mbcs_sets CachedMbcsSets w_mbcs mbcs_Country (mbcs_from_mgo X)
       (cacheMoneyBackCostSystemKey name payoutCurrency undoReason region country paymentStage mccCode operatingCompanyId)
       (Inr (mbcs_match X name payoutCurrency undoReason region country mccCode operatingCompanyId paymentStage))"

definition errorMoneybackSystemDaysMatchedNotFound :: go_err where
  "errorMoneybackSystemDaysMatchedNotFound =
     ResponseErrorMessage ''mbs000009'' ''days matched not found''"

definition getMoneyBackCostSystem :: "ext \<Rightarrow> string \<Rightarrow> string \<Rightarrow> string \<Rightarrow> string \<Rightarrow> string \<Rightarrow>
    int \<Rightarrow> int \<Rightarrow> string \<Rightarrow> string \<Rightarrow> mbcs io" where
  "getMoneyBackCostSystem X name payoutCurrency undoReason region country paymentStage days mccCode operatingCompanyId =
     bind (mbcsrepo_Find X name payoutCurrency undoReason region country mccCode operatingCompanyId paymentStage) (\<lambda>val.
     (case select_cost (\<lambda>i. mbcs_DaysFrom i \<le> days) (\<lambda>a b. mbcs_DaysFrom b < mbcs_DaysFrom a) val of
         Some c \<Rightarrow> ret c
       | None \<Rightarrow> throw errorMoneybackSystemDaysMatchedNotFound))"


section \<open>Selection\<close>

lemma group_desc_sorted: "sorted_wrt (>) (map fst (group_desc cty ds))"
  by (simp add: group_desc_def comp_def rev_map sorted_wrt_rev flip: strict_sorted_iff)
     (simp add: strict_sorted_iff)

lemma group_desc_mem: "(i, ys) \<in> set (group_desc cty ds) \<longleftrightarrow> i \<in> cty ` set ds \<and> ys = filter (\<lambda>d. cty d = i) ds"
  by (auto simp: group_desc_def)

text \<open>A group that stands before another has the greater country.\<close>

lemma group_desc_before:
  assumes "group_desc cty ds = as @ (i, ys) # bs" and "d \<in> set ds" and "i < cty d"
  shows "(cty d, filter (\<lambda>e. cty e = cty d) ds) \<in> set as"
proof -
  have "(cty d, filter (\<lambda>e. cty e = cty d) ds) \<in> set (group_desc cty ds)"
    using assms(2) by (simp add: group_desc_mem)
  moreover have "\<forall>x\<in>set bs. fst x < i"
    using group_desc_sorted[of cty ds] assms(1) by (simp add: sorted_wrt_append)
  ultimately show ?thesis using assms(1,3) by auto
qed

lemma map_groups_all:
  assumes "\<And>d. d \<in> set ds \<Longrightarrow> f d = Inr (g d)"
  shows "map_groups f (group_desc cty ds) = Inr (map (\<lambda>(i, ys). (i, map g ys)) (group_desc cty ds))"
  unfolding map_groups_def
proof (rule map_err_all)
  fix x assume "x \<in> set (group_desc cty ds)"
  moreover obtain i ys where x: "x = (i, ys)" by (cases x)
  ultimately have "map_err f ys = Inr (map g ys)" using assms by (intro map_err_all) (auto simp: group_desc_mem)
  then show "(case x of (i, ds) \<Rightarrow> bind_err (map_err f ds) (\<lambda>cs. Inr (i, cs))) = Inr (case x of (i, ys) \<Rightarrow> (i, map g ys))"
    by (simp add: x)
qed

context threshold_order
begin

lemma select_cost_Some:
  assumes "select_cost elig (\<lambda>a b. gt (k a) (k b)) gs = Some c"
    and "\<forall>(i, cs)\<in>set gs. \<forall>x\<in>set cs. elig x \<longrightarrow> valid (k x)"
  shows "\<exists>as i cs bs. gs = as @ (i, cs) # bs \<and> (\<forall>(j, ys)\<in>set as. \<forall>y\<in>set ys. \<not> elig y) \<and>
    c \<in> set cs \<and> elig c \<and> (\<forall>e\<in>set cs. elig e \<longrightarrow> \<not> gt (k e) (k c))"
  using assms
proof (induction gs)
  case (Cons g gs)
  obtain i cs where g: "g = (i, cs)" by (cases g)
  show ?case
  proof (cases "sort_slice (\<lambda>a b. gt (k a) (k b)) (filter elig cs)")
    case Nil
    then have none: "\<forall>y\<in>set cs. \<not> elig y" by (simp add: sort_slice_empty filter_empty_conv)
    have "\<exists>as i cs bs. gs = as @ (i, cs) # bs \<and> (\<forall>(j, ys)\<in>set as. \<forall>y\<in>set ys. \<not> elig y) \<and>
      c \<in> set cs \<and> elig c \<and> (\<forall>e\<in>set cs. elig e \<longrightarrow> \<not> gt (k e) (k c))"
    proof (rule Cons.IH)
      show "select_cost elig (\<lambda>a b. gt (k a) (k b)) gs = Some c" using Cons.prems(1) g Nil by simp
      show "\<forall>(i, cs)\<in>set gs. \<forall>x\<in>set cs. elig x \<longrightarrow> valid (k x)"
        using Cons.prems(2) by simp
    qed
    then obtain as i' cs' bs where "gs = as @ (i', cs') # bs" "\<forall>(j, ys)\<in>set as. \<forall>y\<in>set ys. \<not> elig y"
      "c \<in> set cs'" "elig c" "\<forall>e\<in>set cs'. elig e \<longrightarrow> \<not> gt (k e) (k c)" by blast
    then show ?thesis using none g by (intro exI[of _ "g # as"] exI[of _ i'] exI[of _ cs'] exI[of _ bs]) simp
  next
    case (Cons z zs)
    then have "c = z" using Cons.prems(1) g by simp
    then show ?thesis
      using first_is_greatest[OF Cons] Cons.prems(2) g
      by (intro exI[of _ "[]"] exI[of _ i] exI[of _ cs] exI[of _ gs]) auto
  qed
qed simp

lemma select_cost_None:
  "select_cost elig (\<lambda>a b. gt (k a) (k b)) gs = None \<Longrightarrow> (i, cs) \<in> set gs \<Longrightarrow> c \<in> set cs \<Longrightarrow> \<not> elig c"
  by (induction gs) (auto split: list.splits simp: sort_slice_empty filter_empty_conv)

text \<open>The tariff a lookup selects among the documents of a territory.\<close>

lemma selected:
  assumes sel: "select_cost elig (\<lambda>a b. gt (k a) (k b)) (map (\<lambda>(i, ys). (i, map g ys)) (group_desc cty ds)) = Some c"
    and ty: "\<And>d. d \<in> set ds \<Longrightarrow> cty d = country \<or> cty d = []"
    and v: "\<And>d. d \<in> set ds \<Longrightarrow> elig (g d) \<Longrightarrow> valid (k (g d))"
  shows "\<exists>d\<in>set ds. c = g d \<and> elig c \<and> (\<forall>e\<in>set ds. elig (g e) \<and> cty e = cty d \<longrightarrow> \<not> gt (k (g e)) (k c)) \<and>
    (cty d \<noteq> country \<longrightarrow> (\<forall>e\<in>set ds. cty e = country \<longrightarrow> \<not> elig (g e)))"
proof -
  have val: "\<forall>(i, cs)\<in>set (map (\<lambda>(i, ys). (i, map g ys)) (group_desc cty ds)). \<forall>x\<in>set cs.
      elig x \<longrightarrow> valid (k x)"
    using v by (auto simp: group_desc_mem)
  obtain as i cs bs where s: "map (\<lambda>(i, ys). (i, map g ys)) (group_desc cty ds) = as @ (i, cs) # bs"
    "\<forall>(j, ys)\<in>set as. \<forall>y\<in>set ys. \<not> elig y" "c \<in> set cs" "elig c" "\<forall>e\<in>set cs. elig e \<longrightarrow> \<not> gt (k e) (k c)"
    using select_cost_Some[OF sel val] by blast
  obtain as' ys bs' where s': "group_desc cty ds = as' @ (i, ys) # bs'" "as = map (\<lambda>(i, ys). (i, map g ys)) as'"
    "cs = map g ys"
    using s(1) by (auto simp: map_eq_append_conv map_eq_Cons_conv)
  have "(i, ys) \<in> set (group_desc cty ds)" using s'(1) by simp
  then have ys: "ys = filter (\<lambda>d. cty d = i) ds" by (simp add: group_desc_mem)
  obtain d where d: "d \<in> set ds" "cty d = i" "c = g d" using s(3) s'(3) ys by auto
  have "\<not> elig (g e)" if "cty d \<noteq> country" "e \<in> set ds" "cty e = country" for e
  proof -
    have "i = []" using ty[OF d(1)] that(1) d(2) by simp
    moreover have "country \<noteq> []" using ty[OF d(1)] that(1) by auto
    ultimately have "i < cty e" using that(3) by (cases country) (simp_all add: list_less_def)
    from group_desc_before[OF s'(1) that(2) this] show ?thesis using s(2) s'(2) that(2) by auto
  qed
  then show ?thesis using d s(4,5) s'(3) ys by (intro bexI[of _ d]) auto
qed

lemma not_selected:
  assumes "select_cost elig (\<lambda>a b. gt (k a) (k b)) (map (\<lambda>(i, ys). (i, map g ys)) (group_desc cty ds)) = None"
    and "d \<in> set ds"
  shows "\<not> elig (g d)"
proof -
  have "(cty d, filter (\<lambda>e. cty e = cty d) ds) \<in> set (group_desc cty ds)"
    using assms(2) by (simp add: group_desc_mem)
  then have "(cty d, map g (filter (\<lambda>e. cty e = cty d) ds)) \<in> set (map (\<lambda>(i, ys). (i, map g ys)) (group_desc cty ds))"
    by (force simp: image_iff)
  from select_cost_None[OF assms(1) this] show ?thesis using assms(2) by auto
qed

end


context collection
begin

text \<open>A lookup that is not cached, when no call fails and the documents can be read.\<close>

lemma find_costs_fresh:
  assumes "\<forall>n. x_fault X n = None" and "w_cache s key = None"
    and "\<And>d. d \<in> set (get s) \<Longrightarrow> p d \<Longrightarrow> f d = Inr (g d)"
  shows "fst (find_costs X sel wrap get cty f key (Inr p) s) =
    Inr (map (\<lambda>(i, ys). (i, map g ys)) (group_desc cty (filter p (get s))))"
proof -
  have "map_groups f (group_desc cty (filter p (get s))) =
      Inr (map (\<lambda>(i, ys). (i, map g ys)) (group_desc cty (filter p (get s))))"
    using assms(3) by (intro map_groups_all) simp
  then have "wp (find_costs X sel wrap get cty f key (Inr p))
      (\<lambda>r _. r = Inr (map (\<lambda>(i, ys). (i, map g ys)) (group_desc cty (filter p (get s))))) s"
    using assms(1,2) by (simp add: find_costs_def wp_cache_get wp_find_all get_tick)
  then show ?thesis by (simp add: wp_def case_prod_beta)
qed

end

interpretation pccms: collection w_pccm w_pccm_update pccm_Id
  by unfold_locales simp_all

interpretation mbcms: collection w_mbcm w_mbcm_update mbcm_Id
  by unfold_locales simp_all

interpretation mbcss: collection w_mbcs w_mbcs_update mbcs_Id
  by unfold_locales simp_all

definition pccm_valid :: "mgo_pccm \<Rightarrow> bool" where
  "pccm_valid d \<longleftrightarrow> ts_valid (pccm_CreatedAt d) \<and> ts_valid (pccm_UpdatedAt d)"

definition mbcm_valid :: "mgo_mbcm \<Rightarrow> bool" where
  "mbcm_valid d \<longleftrightarrow> ts_valid (mbcm_CreatedAt d) \<and> ts_valid (mbcm_UpdatedAt d)"

lemma pccm_decode:
  assumes "codecs_ok X" and "pccm_valid d"
  shows "\<exists>c. pccm_from_mgo X d = Inr c \<and> pccm_MinAmount c = pccm_MinAmount d"
  using codecs_ts[OF assms(1), of "pccm_CreatedAt d"] codecs_ts[OF assms(1), of "pccm_UpdatedAt d"] assms(2)
  by (auto simp: pccm_valid_def pccm_from_mgo_def)

lemma mbcm_decode:
  assumes "codecs_ok X" and "mbcm_valid d"
  shows "\<exists>c. mbcm_from_mgo X d = Inr c \<and> mbcm_DaysFrom c = mbcm_DaysFrom d"
  using codecs_ts[OF assms(1), of "mbcm_CreatedAt d"] codecs_ts[OF assms(1), of "mbcm_UpdatedAt d"] assms(2)
  by (auto simp: mbcm_valid_def mbcm_from_mgo_def)

lemma fle_not_NaN: "fle x y \<Longrightarrow> x \<noteq> NaN"
  by auto

section \<open>Stale lookups\<close>

definition region_key :: "pccm \<Rightarrow> string \<Rightarrow> string" where
  "region_key c country = cachePaymentChannelCostMerchantKey (pccm_MerchantId c) (pccm_Name c)
     (pccm_PayoutCurrency c) (pccm_Region c) country (pccm_MccCode c)"

lemma region_key_kept:
  assumes "country \<noteq> []" and "pccm_Country c = []"
  shows "region_key c country \<noteq> region_key c (pccm_Country c)" and "region_key c country \<noteq> region_key c []"
    and "region_key c country \<noteq> cachePaymentChannelCostMerchantAll m"
    and "region_key c country \<noteq> cachePaymentChannelCostMerchantKeyId i"
  using assms by (auto simp: region_key_def cachePaymentChannelCostMerchantKey_def
      cachePaymentChannelCostMerchantAll_def cachePaymentChannelCostMerchantKeyId_def)

lemma keeps_cache_delete: "k \<noteq> l \<Longrightarrow> keeps (\<lambda>s. w_cache s k = v) (cache_delete X l)"
  unfolding cache_delete_def by (intro keeps_intros keeps_modify) (auto simp: tick_stable_def)

lemma keeps_cache_set: "k \<noteq> l \<Longrightarrow> keeps (\<lambda>s. w_cache s k = v) (cache_set X l w)"
  unfolding cache_set_def by (intro keeps_intros keeps_modify) (auto simp: tick_stable_def)

lemma keeps_region_key_update:
  assumes "country \<noteq> []" and "pccm_Country c = []"
  shows "keeps (\<lambda>s. w_cache s (region_key c country) = v) (pccmrepo_updateCaches X c)"
  using region_key_kept[OF assms] unfolding pccmrepo_updateCaches_def
  by (intro keeps_intros keeps_cache_delete keeps_cache_set) (auto simp: region_key_def[symmetric])

lemma keeps_region_key_Update:
  assumes "country \<noteq> []" and "pccm_Country c = []"
  shows "keeps (\<lambda>s. w_cache s (region_key c country) = v) (pccmrepo_Update X c)"
proof -
  have st: "tick_stable (\<lambda>s. w_cache s (region_key c country) = v)" by (simp add: tick_stable_def)
  have k: "keeps (\<lambda>s. w_cache s (region_key c country) = v) (pccmrepo_updateCaches X ((pccm_formatted X c)\<lparr>pccm_UpdatedAt := t\<rparr>))"
    for t using keeps_region_key_update[OF assms(1), of "(pccm_formatted X c)\<lparr>pccm_UpdatedAt := t\<rparr>" v X] assms(2)
    by (simp add: pccm_formatted_def region_key_def)
  have "keeps (\<lambda>s. w_cache s (region_key c country) = v) (pccm_to_mgo X d)" for d
    unfolding pccm_to_mgo_def oid_or_new_def time_or_now_def
    by (intro keeps_intros st) 
  moreover have "keeps (\<lambda>s. w_cache s (region_key c country) = v) (replace_one X w_pccm_update p d)" for p d
    unfolding replace_one_def by (intro keeps_intros st keeps_modify) simp
  ultimately show ?thesis
    unfolding pccmrepo_Update_def Let_def by (intro keeps_intros st k)
qed


section \<open>Properties\<close>

definition sample_tariff :: "oid \<Rightarrow> string \<Rightarrow> rat \<Rightarrow> mgo_pccm" where
  "sample_tariff i country lowest = \<lparr>pccm_Id = i, pccm_MerchantId = 2, pccm_Name = ''VISA'', pccm_PayoutCurrency = ''EUR'',
     pccm_MinAmount = Fin lowest, pccm_MaxAmount = Fin 0, pccm_Region = ''europe'', pccm_Country = country,
     pccm_MethodPercent = Fin 0, pccm_MethodFixAmount = Fin 1, pccm_MethodFixAmountCurrency = ''EUR'',
     pccm_PsPercent = Fin 0, pccm_PsFixedFee = Fin 1, pccm_PsFixedFeeCurrency = ''EUR'', pccm_CreatedAt = 0,
     pccm_UpdatedAt = 0, pccm_IsActive = True, pccm_MccCode = ''m''\<rparr>"

definition sample_refund_tariff :: "oid \<Rightarrow> string \<Rightarrow> int \<Rightarrow> mgo_mbcm" where
  "sample_refund_tariff i country from_days = \<lparr>mbcm_Id = i, mbcm_MerchantId = 2, mbcm_Name = ''VISA'',
     mbcm_PayoutCurrency = ''EUR'', mbcm_UndoReason = ''reversal'', mbcm_Region = ''europe'', mbcm_Country = country,
     mbcm_DaysFrom = from_days, mbcm_PaymentStage = 1, mbcm_Percent = Fin 0, mbcm_FixAmount = Fin 1,
     mbcm_FixAmountCurrency = ''EUR'', mbcm_IsPaidByMerchant = True, mbcm_CreatedAt = 0, mbcm_UpdatedAt = 0,
     mbcm_IsActive = True, mbcm_MccCode = ''m''\<rparr>"

text \<open>C36: The payment tariff of a merchant: without a cached answer and with no failing call, the lookup
  returns a stored active tariff of the merchant for the method, currency, code and territory whose minimal
  amount the payment reaches, the one with the highest minimal amount of its group, and falls back from the
  country to the region only when no tariff of the country is reached; it fails only if no tariff is reached.\<close>

theorem merchant_tariff_selected:
  assumes "codecs_ok X" and "\<forall>d\<in>set (w_pccm s). pccm_valid d" and "\<forall>n. x_fault X n = None"
    and "w_cache s (cachePaymentChannelCostMerchantKey i name cur region country mcc) = None"
  shows "case fst (getPaymentChannelCostMerchant X i name cur amount region country mcc s) of
      Inl e \<Rightarrow> \<forall>d\<in>set (w_pccm s). pccm_match X (oid_or_nil X i) name cur region country mcc d \<longrightarrow>
        \<not> fle (pccm_MinAmount d) amount
    | Inr c \<Rightarrow> \<exists>d\<in>set (w_pccm s). pccm_match X (oid_or_nil X i) name cur region country mcc d \<and>
        fle (pccm_MinAmount d) amount \<and> pccm_from_mgo X d = Inr c \<and>
        (\<forall>e\<in>set (w_pccm s). pccm_match X (oid_or_nil X i) name cur region country mcc e \<and>
          fle (pccm_MinAmount e) amount \<longrightarrow>
          (pccm_Country e = pccm_Country d \<longrightarrow> \<not> flt (pccm_MinAmount d) (pccm_MinAmount e)) \<and>
          (pccm_Country d \<noteq> country \<longrightarrow> pccm_Country e \<noteq> country))"
proof -
  let ?p = "pccm_match X (oid_or_nil X i) name cur region country mcc"
  let ?ds = "filter ?p (w_pccm s)" and ?g = "\<lambda>d. projr (pccm_from_mgo X d)"
  let ?gs = "map (\<lambda>(i, ys). (i, map ?g ys)) (group_desc pccm_Country ?ds)"
  have g: "pccm_from_mgo X d = Inr (?g d)" "pccm_MinAmount (?g d) = pccm_MinAmount d" if "d \<in> set (w_pccm s)" for d
    using pccm_decode[OF assms(1), of d] assms(2) that by auto
  have f: "fst (pccmrepo_Find X i name cur region country mcc s) = Inr ?gs"
    unfolding pccmrepo_Find_def using g(1) by (intro pccms.find_costs_fresh assms) auto
  have ty: "pccm_Country d = country \<or> pccm_Country d = []" if "d \<in> set ?ds" for d
    using that by (auto simp: pccm_match_def in_territory_def)
  have v: "d \<in> set ?ds \<Longrightarrow> fle (pccm_MinAmount (?g d)) amount \<Longrightarrow> pccm_MinAmount (?g d) \<noteq> NaN" for d
    by (rule fle_not_NaN)
  note sel = amounts.selected[of "\<lambda>c. fle (pccm_MinAmount c) amount" pccm_MinAmount ?g pccm_Country ?ds, OF _ ty v]
  note nos = amounts.not_selected[of "\<lambda>c. fle (pccm_MinAmount c) amount" pccm_MinAmount ?g pccm_Country ?ds]
  let ?sel = "select_cost (\<lambda>i. fle (pccm_MinAmount i) amount) (\<lambda>a b. flt (pccm_MinAmount b) (pccm_MinAmount a)) ?gs"
  have r: "fst (getPaymentChannelCostMerchant X i name cur amount region country mcc s) =
      (if ?gs = [] then Inl errorCostMatchedNotFound
       else case ?sel of Some c \<Rightarrow> Inr c | None \<Rightarrow> Inl errorCostMatchedToAmountNotFound)"
    using f by (cases "pccmrepo_Find X i name cur region country mcc s")
      (simp add: getPaymentChannelCostMerchant_def run_go split: option.split)
  show ?thesis
  proof (cases ?sel)
    case None
    then have "\<not> fle (pccm_MinAmount d) amount" if "d \<in> set (w_pccm s)" "?p d" for d
      using nos[OF None, of d] g(2)[OF that(1)] that by simp
    then show ?thesis using r None by auto
  next
    case (Some c)
    then obtain d where d: "d \<in> set ?ds" "c = ?g d" "fle (pccm_MinAmount c) amount"
      "\<forall>e\<in>set ?ds. fle (pccm_MinAmount (?g e)) amount \<and> pccm_Country e = pccm_Country d \<longrightarrow>
         \<not> flt (pccm_MinAmount c) (pccm_MinAmount (?g e))"
      "pccm_Country d \<noteq> country \<longrightarrow> (\<forall>e\<in>set ?ds. pccm_Country e = country \<longrightarrow> \<not> fle (pccm_MinAmount (?g e)) amount)"
      using sel[OF Some] by blast
    have ne: "?gs \<noteq> []" using Some by auto
    have dc: "pccm_from_mgo X d = Inr c" "pccm_MinAmount c = pccm_MinAmount d" using d g[of d] by auto
    show ?thesis unfolding r Some using ne d dc g(2) by (auto intro!: bexI[of _ d])
  qed
qed

lemma merchant_tariff_selected_witness:
  "\<exists>c. fst (getPaymentChannelCostMerchant sample_ext (sample_hex 2) ''VISA'' ''EUR'' (Fin 30) ''europe'' ''DE'' ''m''
      (empty_world\<lparr>w_pccm := [sample_tariff 5 [] 0, sample_tariff 6 ''DE'' 10, sample_tariff 7 ''DE'' 20]\<rparr>)) = Inr c \<and>
    pccm_MinAmount c = Fin 20"
proof -
  let ?w = "empty_world\<lparr>w_pccm := [sample_tariff 5 [] 0, sample_tariff 6 ''DE'' 10, sample_tariff 7 ''DE'' 20]\<rparr>"
  have v: "\<forall>d\<in>set (w_pccm ?w). pccm_valid d" by (simp add: pccm_valid_def sample_tariff_def ts_valid_def time_zero_def)
  have c: "w_cache ?w k = None" for k by (simp add: empty_world_def)
  have i: "oid_or_nil sample_ext (sample_hex 2) = 2" by (simp add: oid_or_nil_def sample_hex_roundtrip)
  have m: "pccm_match sample_ext 2 ''VISA'' ''EUR'' ''europe'' ''DE'' ''m'' (sample_tariff j c l) \<longleftrightarrow> c = ''DE'' \<or> c = []" for j c l
    by (auto simp: pccm_match_def sample_tariff_def in_territory_def sample_ext_def)
  note t = merchant_tariff_selected[OF sample_codecs_ok v _ c,
      of "sample_hex 2" "''VISA''" "''EUR''" "''europe''" "''DE''" "''m''" "Fin 30", unfolded i]
  have f: "pccm_MinAmount (sample_tariff j c l) = Fin l" "pccm_Country (sample_tariff j c l) = c" for j c l
    by (simp_all add: sample_tariff_def)
  have dec: "pccm_from_mgo sample_ext (sample_tariff j c l) = Inr x \<Longrightarrow> pccm_MinAmount x = Fin l" for j c l x
    by (auto simp: pccm_from_mgo_def sample_tariff_def sample_timestamp_proto_def)
  show ?thesis using t by (auto simp: m f dec split: sum.splits)
qed

text \<open>The refund tariff of a merchant: as for payments, with the days since the payment in place of
  the amount.\<close>

theorem refund_tariff_selected:
  assumes "codecs_ok X" and "\<forall>d\<in>set (w_mbcm s). mbcm_valid d" and "\<forall>n. x_fault X n = None"
    and "w_cache s (cacheMoneyBackCostMerchantKey i name cur reason region country stage mcc) = None"
    and "x_oid_from_hex X i = Inr m"
  shows "case fst (getMoneyBackCostMerchant X i name cur reason region country stage days mcc s) of
      Inl e \<Rightarrow> \<forall>d\<in>set (w_mbcm s). mbcm_match X m name cur reason region country mcc stage d \<longrightarrow> days < mbcm_DaysFrom d
    | Inr c \<Rightarrow> \<exists>d\<in>set (w_mbcm s). mbcm_match X m name cur reason region country mcc stage d \<and>
        mbcm_DaysFrom d \<le> days \<and> mbcm_from_mgo X d = Inr c \<and>
        (\<forall>e\<in>set (w_mbcm s). mbcm_match X m name cur reason region country mcc stage e \<and> mbcm_DaysFrom e \<le> days \<longrightarrow>
          (mbcm_Country e = mbcm_Country d \<longrightarrow> mbcm_DaysFrom e \<le> mbcm_DaysFrom d) \<and>
          (mbcm_Country d \<noteq> country \<longrightarrow> mbcm_Country e \<noteq> country))"
proof -
  let ?p = "mbcm_match X m name cur reason region country mcc stage"
  let ?ds = "filter ?p (w_mbcm s)" and ?g = "\<lambda>d. projr (mbcm_from_mgo X d)"
  let ?gs = "map (\<lambda>(i, ys). (i, map ?g ys)) (group_desc mbcm_Country ?ds)"
  have g: "mbcm_from_mgo X d = Inr (?g d)" "mbcm_DaysFrom (?g d) = mbcm_DaysFrom d" if "d \<in> set (w_mbcm s)" for d
    using mbcm_decode[OF assms(1), of d] assms(2) that by auto
  have f: "fst (mbcmrepo_Find X i name cur reason region country mcc stage s) = Inr ?gs"
    unfolding mbcmrepo_Find_def using g(1) assms(5) by (simp only: bind_err_simps) (intro mbcms.find_costs_fresh assms; auto)
  have ty: "mbcm_Country d = country \<or> mbcm_Country d = []" if "d \<in> set ?ds" for d
    using that by (auto simp: mbcm_match_def in_territory_def)
  note sel = days.selected[of "\<lambda>c. mbcm_DaysFrom c \<le> days" mbcm_DaysFrom ?g mbcm_Country ?ds, OF _ ty]
  note nos = days.not_selected[of "\<lambda>c. mbcm_DaysFrom c \<le> days" mbcm_DaysFrom ?g mbcm_Country ?ds]
  let ?sel = "select_cost (\<lambda>i. mbcm_DaysFrom i \<le> days) (\<lambda>a b. mbcm_DaysFrom b < mbcm_DaysFrom a) ?gs"
  have r: "fst (getMoneyBackCostMerchant X i name cur reason region country stage days mcc s) =
      (case ?sel of Some c \<Rightarrow> Inr c | None \<Rightarrow> Inl errorMoneybackMerchantDaysMatchedNotFound)"
    using f by (cases "mbcmrepo_Find X i name cur reason region country mcc stage s")
      (simp add: getMoneyBackCostMerchant_def run_go split: option.split)
  show ?thesis
  proof (cases ?sel)
    case None
    then have "days < mbcm_DaysFrom d" if "d \<in> set (w_mbcm s)" "?p d" for d
      using nos[OF None, of d] g(2)[OF that(1)] that by simp
    then show ?thesis using r None by auto
  next
    case (Some c)
    then obtain d where d: "d \<in> set ?ds" "c = ?g d" "mbcm_DaysFrom c \<le> days"
      "\<forall>e\<in>set ?ds. mbcm_DaysFrom (?g e) \<le> days \<and> mbcm_Country e = mbcm_Country d \<longrightarrow> \<not> mbcm_DaysFrom c < mbcm_DaysFrom (?g e)"
      "mbcm_Country d \<noteq> country \<longrightarrow> (\<forall>e\<in>set ?ds. mbcm_Country e = country \<longrightarrow> \<not> mbcm_DaysFrom (?g e) \<le> days)"
      using sel[OF Some] by blast
    then have dc: "mbcm_from_mgo X d = Inr c" "mbcm_DaysFrom c = mbcm_DaysFrom d" using g[of d] by auto
    show ?thesis unfolding r Some using d dc g(2) by (auto simp: not_less intro!: bexI[of _ d])
  qed
qed

lemma refund_tariff_selected_witness:
  "\<exists>c. fst (getMoneyBackCostMerchant sample_ext (sample_hex 2) ''VISA'' ''EUR'' ''reversal'' ''europe'' ''DE'' 1 7 ''m''
      (empty_world\<lparr>w_mbcm := [sample_refund_tariff 5 [] 0, sample_refund_tariff 6 ''DE'' 3, sample_refund_tariff 7 ''DE'' 9]\<rparr>)) = Inr c \<and>
    mbcm_DaysFrom c = 3"
proof -
  let ?w = "empty_world\<lparr>w_mbcm := [sample_refund_tariff 5 [] 0, sample_refund_tariff 6 ''DE'' 3, sample_refund_tariff 7 ''DE'' 9]\<rparr>"
  have v: "\<forall>d\<in>set (w_mbcm ?w). mbcm_valid d" by (simp add: mbcm_valid_def sample_refund_tariff_def ts_valid_def time_zero_def)
  have c: "w_cache ?w k = None" for k by (simp add: empty_world_def)
  have m: "mbcm_match sample_ext 2 ''VISA'' ''EUR'' ''reversal'' ''europe'' ''DE'' ''m'' 1 (sample_refund_tariff j c l) \<longleftrightarrow>
      c = ''DE'' \<or> c = []" for j c l
    by (auto simp: mbcm_match_def sample_refund_tariff_def in_territory_def sample_ext_def)
  note t = refund_tariff_selected[OF sample_codecs_ok v _ c, where i = "sample_hex 2" and m = 2 and name = "''VISA''"
      and cur = "''EUR''" and reason = "''reversal''" and region = "''europe''" and country = "''DE''" and stage = 1
      and mcc = "''m''" and days = 7]
  have f: "mbcm_DaysFrom (sample_refund_tariff j c l) = l" "mbcm_Country (sample_refund_tariff j c l) = c" for j c l
    by (simp_all add: sample_refund_tariff_def)
  have dec: "mbcm_from_mgo sample_ext (sample_refund_tariff j c l) = Inr x \<Longrightarrow> mbcm_DaysFrom x = l" for j c l x
    by (auto simp: mbcm_from_mgo_def sample_refund_tariff_def sample_timestamp_proto_def)
  show ?thesis using t by (auto simp: m f dec sample_hex_roundtrip split: sum.splits)
qed

text \<open>A change of a tariff that holds for a whole region does not reach the lookups that were cached for
  a country of the region: whatever the update stores, the lookup for the country answers as before.\<close>

theorem region_tariff_update_not_seen:
  assumes "pccm_Country c = []" and "country \<noteq> []" and "\<forall>n. x_fault X n = None"
    and "w_cache s (region_key c country) = Some (CachedPccmSets old)"
  shows "fst (pccmrepo_Find X (pccm_MerchantId c) (pccm_Name c) (pccm_PayoutCurrency c) (pccm_Region c) country
      (pccm_MccCode c) (snd (pccmrepo_Update X c s))) = Inr old"
proof -
  have "w_cache (snd (pccmrepo_Update X c s)) (region_key c country) = Some (CachedPccmSets old)"
    using keeps_region_key_Update[OF assms(2,1)] assms(4) unfolding keeps_def by blast
  then have "wp (pccmrepo_Find X (pccm_MerchantId c) (pccm_Name c) (pccm_PayoutCurrency c) (pccm_Region c) country (pccm_MccCode c))
      (\<lambda>r _. r = Inr old) (snd (pccmrepo_Update X c s))"
    using assms(3) by (simp add: pccmrepo_Find_def find_costs_def wp_cache_get region_key_def)
  then show ?thesis by (simp add: wp_def case_prod_beta)
qed

text \<open>At a concrete state: the tariff rises from 0 to 5 and the lookup still says 0.\<close>

definition region_tariff :: "float64 \<Rightarrow> pccm" where
  "region_tariff fee = \<lparr>pccm_Id = sample_hex 5, pccm_MerchantId = sample_hex 2, pccm_Name = ''VISA'', pccm_PayoutCurrency = ''EUR'',
     pccm_MinAmount = Fin 0, pccm_MaxAmount = Fin 0, pccm_Region = ''europe'', pccm_Country = [],
     pccm_MethodPercent = Fin 0, pccm_MethodFixAmount = fee, pccm_MethodFixAmountCurrency = ''EUR'',
     pccm_PsPercent = Fin 0, pccm_PsFixedFee = Fin 1, pccm_PsFixedFeeCurrency = ''EUR'',
     pccm_CreatedAt = Some (Timestamp 0 0), pccm_UpdatedAt = Some (Timestamp 0 0), pccm_IsActive = True, pccm_MccCode = ''m''\<rparr>"

lemma region_tariff_update_not_seen_witness:
  "\<exists>s. map pccm_MethodFixAmount (w_pccm s) = [Fin 5] \<and>
    fst (pccmrepo_Find sample_ext (sample_hex 2) ''VISA'' ''EUR'' ''europe'' ''DE'' ''m'' s) = Inr [([], [region_tariff (Fin 0)])]"
proof -
  let ?s = "empty_world\<lparr>w_pccm := [sample_tariff 5 [] 0],
    w_cache := [region_key (region_tariff (Fin 5)) ''DE'' \<mapsto> CachedPccmSets [([], [region_tariff (Fin 0)])]]\<rparr>"
  let ?t = "snd (pccmrepo_Update sample_ext (region_tariff (Fin 5)) ?s)"
  have "wp (pccmrepo_Update sample_ext (region_tariff (Fin 5))) (\<lambda>_ t. map pccm_MethodFixAmount (w_pccm t) = [Fin 5]) ?s"
    by (simp add: pccmrepo_Update_def pccm_to_mgo_def pccmrepo_updateCaches_def cache_delete_def replace_one_def
        timestamp_now_def region_tariff_def pccm_formatted_def oid_or_new_def time_or_now_def oid_or_nil_def
        sample_hex_roundtrip Let_def empty_world_def sample_tariff_def)
      (simp add: sample_ext_def sample_hex_def)
  then have "map pccm_MethodFixAmount (w_pccm ?t) = [Fin 5]" by (simp add: wp_def case_prod_beta)
  then show ?thesis
    using region_tariff_update_not_seen[of "region_tariff (Fin 5)" "''DE''" sample_ext ?s "[([], [region_tariff (Fin 0)])]"]
    by (intro exI[of _ ?t]) (simp add: region_tariff_def)
qed

end
