(* ===== verification/Accounting.thy ===== *)
theory Accounting
  imports OrderViewCurrent RefundRepo Costs
begin

text \<open>
  The double-entry journal (internal/service/accounting\_entry.go). A payment, a refund or a manual
  correction is turned into a list of accounting entries by a handler (\<open>handler\<close> is the Go struct
  \<open>accountingEntry\<close>); \<open>newEntry\<close> prepares an entry, \<open>addEntry\<close> completes it (original and local
  amounts, rounding), and the entries of an event are saved together. The amount of an entry that
  has been added is the completed one, also where later entries are computed from it.
\<close>

section \<open>Entry types and errors\<close>

definition AE_RealGrossRevenue :: string where "AE_RealGrossRevenue = ''real_gross_revenue''"
definition AE_RealTaxFee :: string where "AE_RealTaxFee = ''real_tax_fee''"
definition AE_CentralBankTaxFee :: string where "AE_CentralBankTaxFee = ''central_bank_tax_fee''"
definition AE_RealTaxFeeTotal :: string where "AE_RealTaxFeeTotal = ''real_tax_fee_total''"
definition AE_PsGrossRevenueFx :: string where "AE_PsGrossRevenueFx = ''ps_gross_revenue_fx''"
definition AE_PsGrossRevenueFxTaxFee :: string where "AE_PsGrossRevenueFxTaxFee = ''ps_gross_revenue_fx_tax_fee''"
definition AE_PsGrossRevenueFxProfit :: string where "AE_PsGrossRevenueFxProfit = ''ps_gross_revenue_fx_profit''"
definition AE_MerchantGrossRevenue :: string where "AE_MerchantGrossRevenue = ''merchant_gross_revenue''"
definition AE_MerchantTaxFeeCostValue :: string where "AE_MerchantTaxFeeCostValue = ''merchant_tax_fee_cost_value''"
definition AE_MerchantTaxFeeCentralBankFx :: string where "AE_MerchantTaxFeeCentralBankFx = ''merchant_tax_fee_central_bank_fx''"
definition AE_MerchantTaxFee :: string where "AE_MerchantTaxFee = ''merchant_tax_fee''"
definition AE_PsMethodFee :: string where "AE_PsMethodFee = ''ps_method_fee''"
definition AE_MerchantMethodFee :: string where "AE_MerchantMethodFee = ''merchant_method_fee''"
definition AE_MerchantMethodFeeCostValue :: string where "AE_MerchantMethodFeeCostValue = ''merchant_method_fee_cost_value''"
definition AE_PsMarkupMerchantMethodFee :: string where "AE_PsMarkupMerchantMethodFee = ''ps_markup_merchant_method_fee''"
definition AE_MerchantMethodFixedFee :: string where "AE_MerchantMethodFixedFee = ''merchant_method_fixed_fee''"
definition AE_RealMerchantMethodFixedFee :: string where "AE_RealMerchantMethodFixedFee = ''real_merchant_method_fixed_fee''"
definition AE_MarkupMerchantMethodFixedFeeFx :: string where "AE_MarkupMerchantMethodFixedFeeFx = ''markup_merchant_method_fixed_fee_fx''"
definition AE_RealMerchantMethodFixedFeeCostValue :: string where "AE_RealMerchantMethodFixedFeeCostValue = ''real_merchant_method_fixed_fee_cost_value''"
definition AE_PsMethodFixedFeeProfit :: string where "AE_PsMethodFixedFeeProfit = ''ps_method_fixed_fee_profit''"
definition AE_MerchantPsFixedFee :: string where "AE_MerchantPsFixedFee = ''merchant_ps_fixed_fee''"
definition AE_RealMerchantPsFixedFee :: string where "AE_RealMerchantPsFixedFee = ''real_merchant_ps_fixed_fee''"
definition AE_MarkupMerchantPsFixedFee :: string where "AE_MarkupMerchantPsFixedFee = ''markup_merchant_ps_fixed_fee''"
definition AE_PsMethodProfit :: string where "AE_PsMethodProfit = ''ps_method_profit''"
definition AE_MerchantNetRevenue :: string where "AE_MerchantNetRevenue = ''merchant_net_revenue''"
definition AE_PsProfitTotal :: string where "AE_PsProfitTotal = ''ps_profit_total''"
definition AE_RealRefund :: string where "AE_RealRefund = ''real_refund''"
definition AE_RealRefundTaxFee :: string where "AE_RealRefundTaxFee = ''real_refund_tax_fee''"
definition AE_RealRefundFee :: string where "AE_RealRefundFee = ''real_refund_fee''"
definition AE_RealRefundFixedFee :: string where "AE_RealRefundFixedFee = ''real_refund_fixed_fee''"
definition AE_MerchantRefund :: string where "AE_MerchantRefund = ''merchant_refund''"
definition AE_PsMerchantRefundFx :: string where "AE_PsMerchantRefundFx = ''ps_merchant_refund_fx''"
definition AE_MerchantRefundFee :: string where "AE_MerchantRefundFee = ''merchant_refund_fee''"
definition AE_PsMarkupMerchantRefundFee :: string where "AE_PsMarkupMerchantRefundFee = ''ps_markup_merchant_refund_fee''"
definition AE_MerchantRefundFixedFeeCostValue :: string where "AE_MerchantRefundFixedFeeCostValue = ''merchant_refund_fixed_fee_cost_value''"
definition AE_MerchantRefundFixedFee :: string where "AE_MerchantRefundFixedFee = ''merchant_refund_fixed_fee''"
definition AE_PsMerchantRefundFixedFeeFx :: string where "AE_PsMerchantRefundFixedFeeFx = ''ps_merchant_refund_fixed_fee_fx''"
definition AE_PsMerchantRefundFixedFeeProfit :: string where "AE_PsMerchantRefundFixedFeeProfit = ''ps_merchant_refund_fixed_fee_profit''"
definition AE_ReverseTaxFee :: string where "AE_ReverseTaxFee = ''reverse_tax_fee''"
definition AE_ReverseTaxFeeDelta :: string where "AE_ReverseTaxFeeDelta = ''reverse_tax_fee_delta''"
definition AE_PsReverseTaxFeeDelta :: string where "AE_PsReverseTaxFeeDelta = ''ps_reverse_tax_fee_delta''"
definition AE_MerchantReverseTaxFee :: string where "AE_MerchantReverseTaxFee = ''merchant_reverse_tax_fee''"
definition AE_MerchantReverseRevenue :: string where "AE_MerchantReverseRevenue = ''merchant_reverse_revenue''"
definition AE_PsRefundProfit :: string where "AE_PsRefundProfit = ''ps_refund_profit''"

lemmas entry_types = AE_RealGrossRevenue_def AE_RealTaxFee_def AE_CentralBankTaxFee_def AE_RealTaxFeeTotal_def
  AE_PsGrossRevenueFx_def AE_PsGrossRevenueFxTaxFee_def AE_PsGrossRevenueFxProfit_def
  AE_MerchantGrossRevenue_def AE_MerchantTaxFeeCostValue_def AE_MerchantTaxFeeCentralBankFx_def
  AE_MerchantTaxFee_def AE_PsMethodFee_def AE_MerchantMethodFee_def AE_MerchantMethodFeeCostValue_def
  AE_PsMarkupMerchantMethodFee_def AE_MerchantMethodFixedFee_def AE_RealMerchantMethodFixedFee_def
  AE_MarkupMerchantMethodFixedFeeFx_def AE_RealMerchantMethodFixedFeeCostValue_def AE_PsMethodFixedFeeProfit_def
  AE_MerchantPsFixedFee_def AE_RealMerchantPsFixedFee_def AE_MarkupMerchantPsFixedFee_def AE_PsMethodProfit_def
  AE_MerchantNetRevenue_def AE_PsProfitTotal_def AE_RealRefund_def AE_RealRefundTaxFee_def AE_RealRefundFee_def
  AE_RealRefundFixedFee_def AE_MerchantRefund_def AE_PsMerchantRefundFx_def AE_MerchantRefundFee_def
  AE_PsMarkupMerchantRefundFee_def AE_MerchantRefundFixedFeeCostValue_def AE_MerchantRefundFixedFee_def
  AE_PsMerchantRefundFixedFeeFx_def AE_PsMerchantRefundFixedFeeProfit_def AE_ReverseTaxFee_def
  AE_ReverseTaxFeeDelta_def AE_PsReverseTaxFeeDelta_def AE_MerchantReverseTaxFee_def
  AE_MerchantReverseRevenue_def AE_PsRefundProfit_def

definition availableAccountingEntries :: "string list" where
  "availableAccountingEntries =
    [AE_RealGrossRevenue, AE_PsGrossRevenueFx, AE_RealTaxFee, AE_RealTaxFeeTotal, AE_CentralBankTaxFee,
     AE_PsGrossRevenueFxTaxFee, AE_PsGrossRevenueFxProfit, AE_MerchantGrossRevenue,
     AE_MerchantTaxFeeCostValue, AE_MerchantTaxFeeCentralBankFx, AE_MerchantTaxFee, AE_PsMethodFee,
     AE_MerchantMethodFee, AE_MerchantMethodFeeCostValue, AE_PsMarkupMerchantMethodFee,
     AE_MerchantMethodFixedFee, AE_RealMerchantMethodFixedFee, AE_MarkupMerchantMethodFixedFeeFx,
     AE_RealMerchantMethodFixedFeeCostValue, AE_PsMethodFixedFeeProfit, AE_MerchantPsFixedFee,
     AE_RealMerchantPsFixedFee, AE_MarkupMerchantPsFixedFee, AE_PsMethodProfit, AE_MerchantNetRevenue,
     AE_PsProfitTotal, AE_RealRefund, AE_RealRefundTaxFee, AE_RealRefundFee, AE_RealRefundFixedFee,
     AE_MerchantRefund, AE_PsMerchantRefundFx, AE_MerchantRefundFee, AE_PsMarkupMerchantRefundFee,
     AE_MerchantRefundFixedFeeCostValue, AE_MerchantRefundFixedFee, AE_PsMerchantRefundFixedFeeFx,
     AE_PsMerchantRefundFixedFeeProfit, AE_ReverseTaxFee, AE_ReverseTaxFeeDelta, AE_PsReverseTaxFeeDelta,
     AE_MerchantReverseTaxFee, AE_MerchantReverseRevenue, AE_PsRefundProfit, AE_RollingReserveCreate,
     AE_RollingReserveRelease, AE_RoyaltyCorrection]"

definition availableAccountingEntriesSourceTypes :: "string list" where
  "availableAccountingEntriesSourceTypes = [CollectionOrder, CollectionRefund, CollectionMerchant]"

definition accountingEntryErrorOrderNotFound :: go_err where
  "accountingEntryErrorOrderNotFound = ResponseErrorMessage ''ae00001'' ''order not found for creating accounting entry''"
definition accountingEntryErrorRefundNotFound :: go_err where
  "accountingEntryErrorRefundNotFound = ResponseErrorMessage ''ae00002'' ''refund not found for creating accounting entry''"
definition accountingEntryErrorMerchantNotFound :: go_err where
  "accountingEntryErrorMerchantNotFound = ResponseErrorMessage ''ae00003'' ''merchant not found for creating accounting entry''"
definition accountingEntryErrorMerchantCommissionNotFound :: go_err where
  "accountingEntryErrorMerchantCommissionNotFound = ResponseErrorMessage ''ae00004'' ''commission to merchant and payment method not found''"
definition accountingEntryErrorExchangeFailed :: go_err where
  "accountingEntryErrorExchangeFailed = ResponseErrorMessage ''ae00005'' ''currency exchange failed''"
definition accountingEntryErrorUnknownEntry :: go_err where
  "accountingEntryErrorUnknownEntry = ResponseErrorMessage ''ae00006'' ''unknown accounting entry type''"
definition accountingEntryErrorUnknown :: go_err where
  "accountingEntryErrorUnknown = ResponseErrorMessage ''ae00007'' ''unknown error. try request later''"
definition accountingEntryErrorRefundExceedsOrderAmount :: go_err where
  "accountingEntryErrorRefundExceedsOrderAmount = ResponseErrorMessage ''ae00008'' ''refund exceeds order amount''"
definition accountingEntryErrorCountryNotFound :: go_err where
  "accountingEntryErrorCountryNotFound = ResponseErrorMessage ''ae00009'' ''country not found''"
definition accountingEntryUnknownEvent :: go_err where
  "accountingEntryUnknownEvent = ResponseErrorMessage ''ae00010'' ''accounting unknown event''"
definition accountingEntryErrorUnknownSourceType :: go_err where
  "accountingEntryErrorUnknownSourceType = ResponseErrorMessage ''ae00011'' ''unknown accounting entry source type''"
definition accountingEntryErrorInvalidSourceId :: go_err where
  "accountingEntryErrorInvalidSourceId = ResponseErrorMessage ''ae00012'' ''accounting entry invalid source id''"
definition accountingEntryErrorSystemCommissionNotFound :: go_err where
  "accountingEntryErrorSystemCommissionNotFound = ResponseErrorMessage ''ae00013'' ''system commission for payment method not found''"
definition accountingEntryAlreadyCreated :: go_err where
  "accountingEntryAlreadyCreated = ResponseErrorMessage ''ae00014'' ''accounting entries already created''"
definition accountingEntryBalanceUpdateFailed :: go_err where
  "accountingEntryBalanceUpdateFailed = ResponseErrorMessage ''ae00015'' ''balance update failed after create accounting entry''"
definition accountingEntryOriginalTaxNotFound :: go_err where
  "accountingEntryOriginalTaxNotFound = ResponseErrorMessage ''ae00016'' ''real_tax_fee entry from original order not found, refund processing failed''"
definition accountingEntryVatCurrencyNotSet :: go_err where
  "accountingEntryVatCurrencyNotSet = ResponseErrorMessage ''ae00017'' ''vat currency not set''"
definition accountingEntryErrorRoundFailed :: go_err where
  "accountingEntryErrorRoundFailed = ResponseErrorMessage ''ae00018'' ''amount rounding failed''"

text \<open>The public statuses of an order for which entries are made.\<close>

definition processableOrderStatus :: "string list" where
  "processableOrderStatus = [''processed'', ''refunded'', ''chargeback'']"

section \<open>The handler\<close>

record create_entry_request =
  cae_Type :: string
  cae_OrderId :: string
  cae_RefundId :: string
  cae_MerchantId :: string
  cae_Amount :: float64
  cae_Currency :: string
  cae_Reason :: string
  cae_Status :: string
  cae_Date :: int
  cae_Country :: string

record handler =
  h_order :: "order option"
  h_refund :: "refund option"
  h_refundOrder :: "order option"
  h_merchant :: "merchant option"
  h_country :: "country option"
  h_datetime :: "timestamp option"
  h_req :: "create_entry_request option"

text \<open>Creation time, source, merchant, currency and operating company of a new entry.\<close>

definition entry_origin :: "ext \<Rightarrow> handler \<Rightarrow> (timestamp option \<times> ae_source option \<times> string \<times> string \<times> string) io" where
  "entry_origin X h =
     bind (timestamp_now X) (\<lambda>now0.
     case h_refund h of
       Some refund \<Rightarrow>
         (let source = Some \<lparr>aesrc_Id = refund_CreatedOrderId refund, aesrc_Type = CollectionRefund\<rparr> in
          ret (case h_refundOrder h of
            None \<Rightarrow> (Some now0, source, [], [], [])
          | Some ro \<Rightarrow> (order_PaymentMethodOrderClosedAt ro, source, x_order_merchant_id X ro,
                        x_order_royalty_currency X ro, order_OperatingCompanyId ro)))
     | None \<Rightarrow> (case h_order h of
         Some ordr \<Rightarrow>
           ret (order_PaymentMethodOrderClosedAt ordr,
                Some \<lparr>aesrc_Id = order_Id ordr, aesrc_Type = CollectionOrder\<rparr>, x_order_merchant_id X ordr,
                x_order_royalty_currency X ordr, order_OperatingCompanyId ordr)
       | None \<Rightarrow> (case h_merchant h of
           Some merchant \<Rightarrow>
             bind (timestamp_now X) (\<lambda>now1.
             ret (Some now1, Some \<lparr>aesrc_Id = merchant_Id merchant, aesrc_Type = CollectionMerchant\<rparr>,
                  merchant_Id merchant, x_merchant_payout_currency X merchant, merchant_OperatingCompanyId merchant))
         | None \<Rightarrow> ret (Some now0, None, [], [], []))))"

definition newEntry :: "ext \<Rightarrow> handler \<Rightarrow> string \<Rightarrow> accounting_entry io" where
  "newEntry X h entryType =
     bind (entry_origin X h) (\<lambda>(createdTime, source, merchantId, currency, operatingCompanyId).
     bind (new_oid X) (\<lambda>i.
     ret \<lparr>ae_Id = x_oid_hex X i, ae_Object = ObjectTypeBalanceTransaction, ae_Type = entryType,
          ae_Source = source, ae_MerchantId = merchantId, ae_Amount = 0, ae_Currency = currency,
          ae_Reason = [], ae_Status = BalanceTransactionStatusAvailable,
          ae_Country = (case h_country h of None \<Rightarrow> [] | Some c \<Rightarrow> country_IsoCodeA2 c),
          ae_OriginalAmount = 0, ae_OriginalCurrency = [], ae_LocalAmount = 0, ae_LocalCurrency = [],
          ae_CreatedAt = createdTime, ae_AvailableOn = None, ae_OperatingCompanyId = operatingCompanyId,
          ae_AmountRounded = 0, ae_OriginalAmountRounded = 0, ae_LocalAmountRounded = 0\<rparr>))"

section \<open>Exchange\<close>

definition GetExchangeByDateCommon :: "ext \<Rightarrow> handler \<Rightarrow> exchange_request \<Rightarrow> float64 io" where
  "GetExchangeByDateCommon X h req =
     (if is_zero (ex_Amount req) \<or> ex_From req = ex_To req then ret (ex_Amount req)
      else replace_err accountingEntryErrorExchangeFailed
             (rpc (\<lambda>n. x_exchange_common X n (req\<lparr>ex_Datetime := h_datetime h\<rparr>))))"

definition GetExchangeByDateMerchant :: "ext \<Rightarrow> handler \<Rightarrow> string \<Rightarrow> exchange_request \<Rightarrow> float64 io" where
  "GetExchangeByDateMerchant X h merchantId req =
     (if is_zero (ex_Amount req) \<or> ex_From req = ex_To req then ret (ex_Amount req)
      else replace_err accountingEntryErrorExchangeFailed
             (rpc (\<lambda>n. x_exchange_merchant X n merchantId (req\<lparr>ex_Datetime := h_datetime h\<rparr>))))"

definition GetExchangePsByDateCommon :: "ext \<Rightarrow> handler \<Rightarrow> string \<Rightarrow> float64 \<Rightarrow> float64 io" where
  "GetExchangePsByDateCommon X h from amount =
     bind (deref (h_order h)) (\<lambda>ordr.
     let to = x_order_royalty_currency X ordr in
     if to = from then ret amount
     else GetExchangeByDateCommon X h
       \<lparr>ex_From = from, ex_To = to, ex_RateType = RateTypePaysuper, ex_Direction = ExchangeDirectionBuy,
        ex_Source = [], ex_Amount = amount, ex_Datetime = None\<rparr>)"

definition GetExchangeStockByDateCommon :: "ext \<Rightarrow> handler \<Rightarrow> string \<Rightarrow> float64 \<Rightarrow> float64 io" where
  "GetExchangeStockByDateCommon X h from amount =
     bind (deref (h_order h)) (\<lambda>ordr.
     let to = x_order_royalty_currency X ordr in
     if to = from then ret amount
     else GetExchangeByDateCommon X h
       \<lparr>ex_From = from, ex_To = to, ex_RateType = RateTypeStock, ex_Direction = ExchangeDirectionSell,
        ex_Source = [], ex_Amount = amount, ex_Datetime = None\<rparr>)"

definition GetExchangePsByDateMerchant :: "ext \<Rightarrow> handler \<Rightarrow> string \<Rightarrow> float64 \<Rightarrow> float64 io" where
  "GetExchangePsByDateMerchant X h from amount =
     bind (deref (h_order h)) (\<lambda>ordr.
     let to = x_order_royalty_currency X ordr in
     if to = from then ret amount
     else GetExchangeByDateMerchant X h (x_order_merchant_id X ordr)
       \<lparr>ex_From = from, ex_To = to, ex_RateType = RateTypePaysuper, ex_Direction = ExchangeDirectionSell,
        ex_Source = [], ex_Amount = amount, ex_Datetime = None\<rparr>)"

definition GetExchangeCbByDateCommon :: "ext \<Rightarrow> handler \<Rightarrow> string \<Rightarrow> float64 \<Rightarrow> float64 io" where
  "GetExchangeCbByDateCommon X h from amount =
     bind (deref (h_country h)) (\<lambda>country.
     let to = x_country_vat_currency_code X country in
     if to = from then ret amount
     else GetExchangeByDateCommon X h
       \<lparr>ex_From = from, ex_To = to, ex_RateType = RateTypeCentralbanks, ex_Direction = ExchangeDirectionSell,
        ex_Source = country_VatCurrencyRatesSource country, ex_Amount = amount, ex_Datetime = None\<rparr>)"

section \<open>Completing an entry\<close>

text \<open>The local amount: in the VAT currency of the country, or in that of its price group.\<close>

definition local_currency :: "ext \<Rightarrow> handler \<Rightarrow> (string \<times> rate_type \<times> string) io" where
  "local_currency X h =
     bind (deref (h_country h)) (\<lambda>country.
     if country_VatEnabled country then
       (if country_VatCurrency country = [] then throw accountingEntryVatCurrencyNotSet
        else ret (country_VatCurrency country, RateTypeCentralbanks, country_VatCurrencyRatesSource country))
     else bind (priceGroup_GetById X (country_PriceGroupId country)) (\<lambda>priceGroup.
       ret (pg_Currency priceGroup, RateTypeOxr, [])))"

definition fill_local :: "ext \<Rightarrow> handler \<Rightarrow> accounting_entry \<Rightarrow> accounting_entry io" where
  "fill_local X h e =
     (if is_zero (ae_LocalAmount e) \<and> ae_LocalCurrency e = [] \<and> ae_Country e \<noteq> [] then
        bind (local_currency X h) (\<lambda>(currency, rateType, rateSource).
        let e1 = e\<lparr>ae_LocalCurrency := currency\<rparr> in
        if currency = ae_OriginalCurrency e1 then ret (e1\<lparr>ae_LocalAmount := ae_OriginalAmount e1\<rparr>)
        else if is_zero (ae_OriginalAmount e1) then ret e1
        else bind (replace_err accountingEntryErrorExchangeFailed (rpc (\<lambda>n. x_exchange_common X n
                 \<lparr>ex_From = ae_OriginalCurrency e1, ex_To = currency, ex_RateType = rateType,
                  ex_Direction = ExchangeDirectionBuy, ex_Source = rateSource,
                  ex_Amount = ae_OriginalAmount e1, ex_Datetime = h_datetime h\<rparr>))) (\<lambda>amount.
             ret (e1\<lparr>ae_LocalAmount := amount\<rparr>)))
      else ret e)"

definition service_round :: "ext \<Rightarrow> string \<Rightarrow> string \<Rightarrow> float64 \<Rightarrow> float64 io" where
  "service_round X merchantId fieldKey val = rpc (\<lambda>n. x_money_round X n (merchantId @ ''_'' @ fieldKey) val)"

text \<open>The last part of addEntry: precision and rounding.\<close>

definition round_entry :: "ext \<Rightarrow> accounting_entry \<Rightarrow> accounting_entry io" where
  "round_entry X entry =
     (let e = entry\<lparr>ae_Amount := x_to_precise X (ae_Amount entry),
                    ae_OriginalAmount := x_to_precise X (ae_OriginalAmount entry),
                    ae_LocalAmount := x_to_precise X (ae_LocalAmount entry)\<rparr> in
      bind (replace_err accountingEntryErrorRoundFailed
        (service_round X (ae_MerchantId e) ''accounting_entry_amount'' (ae_Amount e))) (\<lambda>amountRounded.
      bind (replace_err accountingEntryErrorRoundFailed
        (service_round X (ae_MerchantId e) ''accounting_entry_original_amount'' (ae_OriginalAmount e))) (\<lambda>originalAmountRounded.
      bind (replace_err accountingEntryErrorRoundFailed
        (service_round X (ae_MerchantId e) ''accounting_entry_local_amount'' (ae_LocalAmount e))) (\<lambda>localAmountRounded.
      ret (e\<lparr>ae_AmountRounded := amountRounded, ae_OriginalAmountRounded := originalAmountRounded,
             ae_LocalAmountRounded := localAmountRounded\<rparr>)))))"

definition fill_original :: "accounting_entry \<Rightarrow> accounting_entry" where
  "fill_original entry =
     (if is_zero (ae_OriginalAmount entry) \<and> ae_OriginalCurrency entry = []
      then entry\<lparr>ae_OriginalAmount := ae_Amount entry, ae_OriginalCurrency := ae_Currency entry\<rparr>
      else entry)"

definition addEntry :: "ext \<Rightarrow> handler \<Rightarrow> accounting_entry \<Rightarrow> accounting_entry io" where
  "addEntry X h entry =
     (if ae_Type entry \<notin> set availableAccountingEntries then throw accountingEntryErrorUnknownEntry
      else bind (deref (ae_Source entry)) (\<lambda>source.
      if aesrc_Type source \<notin> set availableAccountingEntriesSourceTypes then throw accountingEntryErrorUnknownSourceType
      else if aesrc_Id source = [] then throw accountingEntryErrorInvalidSourceId
      else bind (fill_local X h (fill_original entry)) (round_entry X)))"

text \<open>The three steps each entry of an event goes through: a new entry, its amount, addEntry.\<close>

definition post :: "ext \<Rightarrow> handler \<Rightarrow> string \<Rightarrow> float64 io \<Rightarrow> accounting_entry io" where
  "post X h entryType amount =
     bind (newEntry X h entryType) (\<lambda>entry.
     bind amount (\<lambda>a. addEntry X h (entry\<lparr>ae_Amount := a\<rparr>)))"

definition post_original :: "ext \<Rightarrow> handler \<Rightarrow> string \<Rightarrow> float64 io \<Rightarrow> float64 \<Rightarrow> string \<Rightarrow> accounting_entry io" where
  "post_original X h entryType amount original currency =
     bind (newEntry X h entryType) (\<lambda>entry.
     bind amount (\<lambda>a. addEntry X h
       (entry\<lparr>ae_Amount := a, ae_OriginalAmount := original, ae_OriginalCurrency := currency\<rparr>)))"

section \<open>Tariffs of an event\<close>

text \<open>The first non-empty value of refund order, order and merchant.\<close>

definition first_set :: "(order \<Rightarrow> string) \<Rightarrow> (merchant \<Rightarrow> string) \<Rightarrow> handler \<Rightarrow> string" where
  "first_set of_order of_merchant h =
     (let candidates = (case h_refundOrder h of Some ro \<Rightarrow> [of_order ro] | None \<Rightarrow> []) @
          (case h_order h of Some ordr \<Rightarrow> [of_order ordr] | None \<Rightarrow> []) @
          (case h_merchant h of Some m \<Rightarrow> [of_merchant m] | None \<Rightarrow> []) in
      case find (\<lambda>c. c \<noteq> []) candidates of Some c \<Rightarrow> c | None \<Rightarrow> [])"

definition getMccCode :: "handler \<Rightarrow> string" where
  "getMccCode = first_set order_MccCode merchant_MccCode"

definition getOperatingCompanyId :: "handler \<Rightarrow> string" where
  "getOperatingCompanyId = first_set order_OperatingCompanyId merchant_OperatingCompanyId"

definition h_getPaymentChannelCostSystem :: "ext \<Rightarrow> handler \<Rightarrow> pccs io" where
  "h_getPaymentChannelCostSystem X h =
     bind (deref (h_order h)) (\<lambda>ordr.
     bind (lift (x_order_cost_method_name X ordr)) (\<lambda>name.
     bind (deref (h_country h)) (\<lambda>country.
     replace_err accountingEntryErrorSystemCommissionNotFound
       (pccsrepo_Find X name (country_PayerTariffRegion country) (country_IsoCodeA2 country)
          (getMccCode h) (getOperatingCompanyId h)))))"

definition h_getPaymentChannelCostMerchant :: "ext \<Rightarrow> handler \<Rightarrow> float64 \<Rightarrow> pccm io" where
  "h_getPaymentChannelCostMerchant X h amount =
     bind (deref (h_order h)) (\<lambda>ordr.
     bind (lift (x_order_cost_method_name X ordr)) (\<lambda>name.
     bind (deref (h_country h)) (\<lambda>country.
     replace_err accountingEntryErrorMerchantCommissionNotFound
       (getPaymentChannelCostMerchant X (x_order_merchant_id X ordr) name (x_order_royalty_currency X ordr) amount
          (country_PayerTariffRegion country) (country_IsoCodeA2 country) (getMccCode h)))))"

text \<open>
  \<open>ptypes.Timestamp\<close> with its error ignored; \<open>Time.Sub\<close> saturates at the range of a Duration;
  \<open>Duration.Hours\<close> adds the whole hours and the fraction as floats; the conversion to int32
  truncates toward zero.
\<close>

definition time_unchecked :: "ext \<Rightarrow> timestamp option \<Rightarrow> gotime" where
  "time_unchecked X t = (case x_timestamp X t of Inr v \<Rightarrow> v
     | Inl _ \<Rightarrow> (case t of None \<Rightarrow> 0 | Some ts \<Rightarrow> ts_seconds ts * second + ts_nanos ts))"

definition time_sub :: "gotime \<Rightarrow> gotime \<Rightarrow> int" where
  "time_sub a b = max (- (2 ^ 63)) (min (2 ^ 63 - 1) (a - b))"

definition hours :: "int \<Rightarrow> float64" where
  "hours d = (let h = 3600 * second; q = sgn d * (\<bar>d\<bar> div h) in
     rnd (of_int q) + rnd (of_int (d - q * h)) div Fin (of_int h))"

definition float_to_int32 :: "float64 \<Rightarrow> int" where
  "float_to_int32 x = (case x of Fin q \<Rightarrow> int32 (if 0 \<le> q then \<lfloor>q\<rfloor> else \<lceil>q\<rceil>) | _ \<Rightarrow> - (2 ^ 31))"

definition days_between :: "ext \<Rightarrow> order \<Rightarrow> refund \<Rightarrow> int" where
  "days_between X ordr refund = float_to_int32
     (hours (time_sub (time_unchecked X (refund_CreatedAt refund))
                      (time_unchecked X (order_PaymentMethodOrderClosedAt ordr))) div Fin 24)"

definition h_getMoneyBackCostMerchant :: "ext \<Rightarrow> handler \<Rightarrow> string \<Rightarrow> mbcm io" where
  "h_getMoneyBackCostMerchant X h reason =
     bind (deref (h_order h)) (\<lambda>ordr.
     bind (lift (x_order_cost_method_name X ordr)) (\<lambda>name.
     bind (deref (h_refund h)) (\<lambda>refund.
     bind (deref (h_country h)) (\<lambda>country.
     getMoneyBackCostMerchant X (x_order_merchant_id X ordr) name (x_order_royalty_currency X ordr) reason
       (country_PayerTariffRegion country) (country_IsoCodeA2 country) 1 (days_between X ordr refund) (getMccCode h)))))"

definition h_getMoneyBackCostSystem :: "ext \<Rightarrow> handler \<Rightarrow> string \<Rightarrow> mbcs io" where
  "h_getMoneyBackCostSystem X h reason =
     bind (deref (h_order h)) (\<lambda>ordr.
     bind (lift (x_order_cost_method_name X ordr)) (\<lambda>name.
     bind (deref (h_refund h)) (\<lambda>refund.
     bind (deref (h_country h)) (\<lambda>country.
     getMoneyBackCostSystem X name (x_order_royalty_currency X ordr) reason
       (country_PayerTariffRegion country) (country_IsoCodeA2 country) 1 (days_between X ordr refund)
       (getMccCode h) (getOperatingCompanyId h)))))"

section \<open>Events\<close>

text \<open>
  A payment. The existence check looks at the found entry only; its error is dropped. Entries
  that the order view computes from the others are not stored; \<open>merchantGrossRevenue\<close> is one of
  them, but is used on the way.
\<close>

definition processPaymentEvent :: "ext \<Rightarrow> handler \<Rightarrow> accounting_entry list io" where
  "processPaymentEvent X h =
     bind (deref (h_order h)) (\<lambda>ordr.
     bind (deref (h_country h)) (\<lambda>country.
     bind (attempt (aerepo_GetByObjectSource X ObjectTypeBalanceTransaction (order_Id ordr) CollectionOrder)) (\<lambda>ae.
     case ae of Inr _ \<Rightarrow> throw accountingEntryAlreadyCreated
     | Inl _ \<Rightarrow>
     let chargeAmount = order_ChargeAmount ordr; chargeCurrency = order_ChargeCurrency ordr;
         taxAmount = x_order_tax_in_charge_currency X ordr in
     bind (post_original X h AE_RealGrossRevenue (GetExchangePsByDateCommon X h chargeCurrency chargeAmount)
             chargeAmount chargeCurrency) (\<lambda>realGrossRevenue.
     bind (post_original X h AE_RealTaxFee (GetExchangePsByDateCommon X h chargeCurrency taxAmount)
             taxAmount chargeCurrency) (\<lambda>realTaxFee.
     bind (post X h AE_CentralBankTaxFee (ret 0)) (\<lambda>centralBankTaxFee.
     bind (post X h AE_PsGrossRevenueFx
             (bind (GetExchangePsByDateMerchant X h chargeCurrency chargeAmount) (\<lambda>amount.
              ret (amount - ae_Amount realGrossRevenue)))) (\<lambda>psGrossRevenueFx.
     bind (post X h AE_PsGrossRevenueFxTaxFee
             (ret (x_percent_part X (ae_Amount psGrossRevenueFx) (order_TaxRate ordr)))) (\<lambda>psGrossRevenueFxTaxFee.
     bind (newEntry X h AE_MerchantGrossRevenue) (\<lambda>_.
     let merchantGrossRevenue = ae_Amount realGrossRevenue - ae_Amount psGrossRevenueFx in
     bind (post X h AE_MerchantTaxFeeCostValue
             (ret (x_percent_part X merchantGrossRevenue (order_TaxRate ordr)))) (\<lambda>merchantTaxFeeCostValue.
     bind (post X h AE_MerchantTaxFeeCentralBankFx
             (if country_VatEnabled country then
                bind (GetExchangeCbByDateCommon X h (x_order_royalty_currency X ordr)
                        (ae_Amount merchantTaxFeeCostValue)) (\<lambda>amountCb.
                bind (GetExchangeStockByDateCommon X h (x_country_vat_currency_code X country) amountCb) (\<lambda>amount.
                let fx = amount - ae_Amount merchantTaxFeeCostValue in
                ret (if flt fx 0 then 0 else fx)))
              else ret 0)) (\<lambda>merchantTaxFeeCentralBankFx.
     bind (h_getPaymentChannelCostMerchant X h (ae_Amount realGrossRevenue)) (\<lambda>costMerchant.
     bind (h_getPaymentChannelCostSystem X h) (\<lambda>costSystem.
     bind (post X h AE_PsMethodFee (ret (merchantGrossRevenue * pccm_PsPercent costMerchant))) (\<lambda>psMethodFee.
     bind (post X h AE_MerchantMethodFee (ret (merchantGrossRevenue * pccm_MethodPercent costMerchant))) (\<lambda>merchantMethodFee.
     bind (post X h AE_MerchantMethodFeeCostValue
             (ret (ae_Amount realGrossRevenue * pccs_Percent costSystem))) (\<lambda>merchantMethodFeeCostValue.
     bind (post X h AE_MerchantMethodFixedFee (GetExchangePsByDateMerchant X h
             (pccm_MethodFixAmountCurrency costMerchant) (pccm_MethodFixAmount costMerchant))) (\<lambda>merchantMethodFixedFee.
     bind (post X h AE_RealMerchantMethodFixedFee (GetExchangePsByDateCommon X h
             (pccm_MethodFixAmountCurrency costMerchant) (pccm_MethodFixAmount costMerchant))) (\<lambda>realMerchantMethodFixedFee.
     bind (post X h AE_RealMerchantMethodFixedFeeCostValue (GetExchangePsByDateCommon X h
             (pccs_FixAmountCurrency costSystem) (pccs_FixAmount costSystem))) (\<lambda>realMerchantMethodFixedFeeCostValue.
     bind (post X h AE_MerchantPsFixedFee (GetExchangePsByDateMerchant X h
             (pccm_PsFixedFeeCurrency costMerchant) (pccm_PsFixedFee costMerchant))) (\<lambda>merchantPsFixedFee.
     bind (post X h AE_RealMerchantPsFixedFee (GetExchangePsByDateCommon X h
             (pccm_PsFixedFeeCurrency costMerchant) (pccm_PsFixedFee costMerchant))) (\<lambda>realMerchantPsFixedFee.
     ret [realGrossRevenue, realTaxFee, centralBankTaxFee, psGrossRevenueFx, psGrossRevenueFxTaxFee,
          merchantTaxFeeCostValue, merchantTaxFeeCentralBankFx, psMethodFee, merchantMethodFee,
          merchantMethodFeeCostValue, merchantMethodFixedFee, realMerchantMethodFixedFee,
          realMerchantMethodFixedFeeCostValue, merchantPsFixedFee, realMerchantPsFixedFee])))))))))))))))))))))"

text \<open>A refund, up to the entries that need the original payment's entries.\<close>

definition refund_reason :: "refund \<Rightarrow> string" where
  "refund_reason r = (if refund_IsChargeback r then ''chargeback'' else ''reversal'')"

definition realRefundTaxFee_entry :: "float64 \<Rightarrow> bool \<Rightarrow> accounting_entry \<Rightarrow> accounting_entry \<Rightarrow> accounting_entry" where
  "realRefundTaxFee_entry partialCorrection isVatDeduction realTaxFee e =
     (let e1 = e\<lparr>ae_Amount := ae_Amount realTaxFee * partialCorrection, ae_Currency := ae_Currency realTaxFee,
                 ae_OriginalAmount := ae_OriginalAmount realTaxFee * partialCorrection,
                 ae_OriginalCurrency := ae_OriginalCurrency realTaxFee\<rparr> in
      if isVatDeduction then e1
      else e1\<lparr>ae_LocalAmount := ae_LocalAmount realTaxFee * partialCorrection,
              ae_LocalCurrency := ae_LocalCurrency realTaxFee\<rparr>)"

definition reverseTaxFee_entry :: "float64 \<Rightarrow> accounting_entry \<Rightarrow> accounting_entry \<Rightarrow> accounting_entry \<Rightarrow> accounting_entry" where
  "reverseTaxFee_entry partialCorrection costValue centralBankFx e =
     e\<lparr>ae_Amount := (ae_Amount costValue + ae_Amount centralBankFx) * partialCorrection,
       ae_OriginalAmount := (ae_OriginalAmount costValue + ae_Amount centralBankFx) * partialCorrection,
       ae_OriginalCurrency := ae_OriginalCurrency costValue,
       ae_LocalAmount := (ae_LocalAmount costValue + ae_Amount centralBankFx) * partialCorrection,
       ae_LocalCurrency := ae_LocalCurrency costValue\<rparr>"

text \<open>The two deltas: at most one of them is set.\<close>

definition reverse_tax_deltas :: "ext \<Rightarrow> handler \<Rightarrow> order \<Rightarrow> country \<Rightarrow> float64 \<Rightarrow> float64 \<Rightarrow> (float64 \<times> float64) io" where
  "reverse_tax_deltas X h ordr country merchantRefund centralBankFx =
     (if country_VatEnabled country \<and> flt 0 centralBankFx then
        let amountVatRestored = x_percent_part X merchantRefund (order_TaxRate ordr) in
        bind (GetExchangeCbByDateCommon X h (x_order_royalty_currency X ordr) amountVatRestored) (\<lambda>amountVatCb.
        bind (GetExchangeStockByDateCommon X h (x_country_vat_currency_code X country) amountVatCb) (\<lambda>amountMerchantStock.
        let amountResult = centralBankFx - (amountMerchantStock - amountVatRestored) in
        ret (if flt amountResult 0 then (0, Fin (-1) * amountResult) else (amountResult, 0))))
      else ret (0, 0))"

definition processRefundEvent :: "ext \<Rightarrow> handler \<Rightarrow> accounting_entry list io" where
  "processRefundEvent X h =
     bind (deref (h_refund h)) (\<lambda>refund.
     bind (attempt (aerepo_GetByObjectSource X ObjectTypeBalanceTransaction (refund_CreatedOrderId refund) CollectionRefund)) (\<lambda>aes.
     case aes of Inr _ \<Rightarrow> throw accountingEntryAlreadyCreated
     | Inl err \<Rightarrow> if err \<noteq> ErrNoDocuments then throw err else
     bind (h_getMoneyBackCostMerchant X h (refund_reason refund)) (\<lambda>moneyBackCostMerchant.
     bind (h_getMoneyBackCostSystem X h (refund_reason refund)) (\<lambda>moneyBackCostSystem.
     bind (deref (h_order h)) (\<lambda>ordr.
     bind (deref (h_refundOrder h)) (\<lambda>refundOrder.
     bind (deref (h_country h)) (\<lambda>country.
     let partialRefundCorrection = refund_Amount refund div order_ChargeAmount ordr in
     if flt 1 partialRefundCorrection then throw accountingEntryErrorRefundExceedsOrderAmount else
     bind (post_original X h AE_RealRefund (GetExchangePsByDateCommon X h (refund_Currency refund) (refund_Amount refund))
             (refund_Amount refund) (refund_Currency refund)) (\<lambda>realRefund.
     bind (newEntry X h []) (\<lambda>blank.
     bind (attempt (aerepo_ApplyObjectSource X ObjectTypeBalanceTransaction AE_RealTaxFee (order_Id ordr) CollectionOrder blank)) (\<lambda>tax.
     case tax of Inl err \<Rightarrow> throw (if err = ErrNoDocuments then accountingEntryOriginalTaxNotFound else err)
     | Inr realTaxFee \<Rightarrow>
     bind (newEntry X h AE_RealRefundTaxFee) (\<lambda>e.
     bind (addEntry X h (realRefundTaxFee_entry partialRefundCorrection (order_IsVatDeduction refundOrder) realTaxFee e)) (\<lambda>realRefundTaxFee.
     bind (post X h AE_RealRefundFee (ret (ae_Amount realRefund * mbcs_Percent moneyBackCostSystem))) (\<lambda>realRefundFee.
     bind (post X h AE_RealRefundFixedFee (GetExchangePsByDateCommon X h
             (mbcs_FixAmountCurrency moneyBackCostSystem) (mbcs_FixAmount moneyBackCostSystem))) (\<lambda>realRefundFixedFee.
     bind (post X h AE_MerchantRefund (GetExchangePsByDateMerchant X h (refund_Currency refund) (refund_Amount refund))) (\<lambda>merchantRefund.
     bind (post X h AE_MerchantRefundFee (ret (if mbcm_IsPaidByMerchant moneyBackCostMerchant
             then ae_Amount merchantRefund * mbcm_Percent moneyBackCostMerchant else 0))) (\<lambda>merchantRefundFee.
     bind (newEntry X h AE_MerchantRefundFixedFeeCostValue) (\<lambda>costValue0.
     bind (newEntry X h AE_MerchantRefundFixedFee) (\<lambda>fixedFee0.
     bind (if mbcm_IsPaidByMerchant moneyBackCostMerchant then
             bind (GetExchangePsByDateCommon X h (mbcm_FixAmountCurrency moneyBackCostMerchant) (mbcm_FixAmount moneyBackCostMerchant)) (\<lambda>a.
             bind (GetExchangePsByDateMerchant X h (mbcm_FixAmountCurrency moneyBackCostMerchant) (mbcm_FixAmount moneyBackCostMerchant)) (\<lambda>b.
             ret (a, b)))
           else ret (0, 0)) (\<lambda>(costValueAmount, fixedFeeAmount).
     bind (addEntry X h (costValue0\<lparr>ae_Amount := costValueAmount\<rparr>)) (\<lambda>merchantRefundFixedFeeCostValue.
     bind (addEntry X h (fixedFee0\<lparr>ae_Amount := fixedFeeAmount\<rparr>)) (\<lambda>merchantRefundFixedFee.
     bind (newEntry X h AE_ReverseTaxFee) (\<lambda>reverseTaxFee0.
     bind (newEntry X h []) (\<lambda>centralBankFx0.
     bind (if country_VatEnabled country then
             bind (newEntry X h []) (\<lambda>blank2.
             bind (aerepo_ApplyObjectSource X ObjectTypeBalanceTransaction AE_MerchantTaxFeeCostValue (order_Id ordr) CollectionOrder blank2) (\<lambda>costValue.
             bind (aerepo_ApplyObjectSource X ObjectTypeBalanceTransaction AE_MerchantTaxFeeCentralBankFx (order_Id ordr) CollectionOrder centralBankFx0) (\<lambda>centralBankFx.
             ret (reverseTaxFee_entry partialRefundCorrection costValue centralBankFx reverseTaxFee0, centralBankFx))))
           else ret (reverseTaxFee0, centralBankFx0)) (\<lambda>(reverseTaxFee1, merchantTaxFeeCentralBankFx).
     bind (addEntry X h reverseTaxFee1) (\<lambda>reverseTaxFee.
     bind (newEntry X h AE_ReverseTaxFeeDelta) (\<lambda>delta0.
     bind (newEntry X h AE_PsReverseTaxFeeDelta) (\<lambda>psDelta0.
     bind (reverse_tax_deltas X h ordr country (ae_Amount merchantRefund) (ae_Amount merchantTaxFeeCentralBankFx)) (\<lambda>(delta, psDelta).
     bind (addEntry X h (delta0\<lparr>ae_Amount := delta\<rparr>)) (\<lambda>reverseTaxFeeDelta.
     bind (addEntry X h (psDelta0\<lparr>ae_Amount := psDelta\<rparr>)) (\<lambda>psReverseTaxFeeDelta.
     ret [realRefund, realRefundTaxFee, realRefundFee, realRefundFixedFee, merchantRefund, merchantRefundFee,
          merchantRefundFixedFeeCostValue, merchantRefundFixedFee, reverseTaxFee, reverseTaxFeeDelta,
          psReverseTaxFeeDelta]))))))))))))))))))))))))))))))"

definition processManualCorrectionEvent :: "ext \<Rightarrow> handler \<Rightarrow> accounting_entry list io" where
  "processManualCorrectionEvent X h =
     bind (deref (h_req h)) (\<lambda>req.
     bind (newEntry X h (cae_Type req)) (\<lambda>entry0.
     bind (lift (x_timestamp_proto X (cae_Date req * second))) (\<lambda>createdAt.
     let entry = entry0\<lparr>ae_Amount := cae_Amount req, ae_Currency := cae_Currency req, ae_Reason := cae_Reason req,
                        ae_Status := cae_Status req, ae_CreatedAt := Some createdAt\<rparr> in
     bind (case h_merchant h of None \<Rightarrow> ret entry
           | Some merchant \<Rightarrow> bind (deref (ae_Source entry)) (\<lambda>_.
               ret (entry\<lparr>ae_Source := Some \<lparr>aesrc_Id = merchant_Id merchant, aesrc_Type = CollectionMerchant\<rparr>,
                          ae_MerchantId := merchant_Id merchant\<rparr>))) (\<lambda>entry1.
     bind (addEntry X h entry1) (\<lambda>e. ret [e])))))"

section \<open>Saving the entries\<close>

definition OrderIssuerReferenceTypePaylink :: string where "OrderIssuerReferenceTypePaylink = ''paylink''"

text \<open>
  The statistics of the payment links that are refreshed. Both entries of the map are written
  under the reference of the original order, so there is at most one.
\<close>

definition issuer_is_paylink :: "order \<Rightarrow> bool" where
  "issuer_is_paylink ordr \<longleftrightarrow>
     order_IssuerReferenceType ordr = OrderIssuerReferenceTypePaylink \<and> order_IssuerReference ordr \<noteq> []"

definition event_ids :: "handler \<Rightarrow> string list" where
  "event_ids h = (case h_order h of Some ordr \<Rightarrow> [order_Id ordr] | None \<Rightarrow> []) @
     (case (h_refund h, h_refundOrder h) of (Some _, Some ro) \<Rightarrow> [order_Id ro] | _ \<Rightarrow> [])"

definition event_paylinks :: "handler \<Rightarrow> (string \<times> string) list io" where
  "event_paylinks h =
     (let first = (case h_order h of
         Some ordr \<Rightarrow> if issuer_is_paylink ordr then [(order_IssuerReference ordr, order_ProjectMerchantId ordr)] else []
       | None \<Rightarrow> []) in
      case (h_refund h, h_refundOrder h) of
        (Some _, Some ro) \<Rightarrow>
          if issuer_is_paylink ro then
            bind (deref (h_order h)) (\<lambda>ordr. ret [(order_IssuerReference ordr, order_ProjectMerchantId ro)])
          else ret first
      | _ \<Rightarrow> ret first)"

text \<open>
  Payment links and their statistics are not modelled: the refresh is the calls it makes (lookup,
  visit count, statistics, update), recorded as one message.
\<close>

definition update_paylink_stat :: "ext \<Rightarrow> string \<times> string \<Rightarrow> unit io" where
  "update_paylink_stat X p =
     bind (calling X) (\<lambda>_. bind (attempt (calling X)) (\<lambda>_. bind (calling X) (\<lambda>_.
     send X (SentPaylinkStat (fst p) (snd p)))))"

definition saveAccountingEntries :: "ext \<Rightarrow> handler \<Rightarrow> accounting_entry list \<Rightarrow> unit io" where
  "saveAccountingEntries X h entries =
     bind (aerepo_MultipleInsert X entries) (\<lambda>_.
     bind (event_paylinks h) (\<lambda>paylinks.
     if event_ids h = [] then ret ()
     else bind (updateOrderView X (event_ids h)) (\<lambda>_. for_each paylinks (update_paylink_stat X))))"

datatype event_type = Payment | Refunding | ManualCorrection

definition processEvent :: "ext \<Rightarrow> handler \<Rightarrow> event_type \<Rightarrow> accounting_entry list io" where
  "processEvent X h ev =
     bind (case ev of Payment \<Rightarrow> processPaymentEvent X h | Refunding \<Rightarrow> processRefundEvent X h
           | ManualCorrection \<Rightarrow> processManualCorrectionEvent X h) (\<lambda>entries.
     bind (saveAccountingEntries X h entries) (\<lambda>_. ret entries))"

definition onPaymentNotify :: "ext \<Rightarrow> order \<Rightarrow> unit io" where
  "onPaymentNotify X ordr =
     (if x_order_public_status X ordr \<notin> set processableOrderStatus then ret ()
      else bind (country_GetByIsoCodeA2 X (x_order_country X ordr)) (\<lambda>country.
      bind (replace_err merchantErrorNotFound (merchant_GetById X (x_order_merchant_id X ordr))) (\<lambda>merchant.
      bind (processEvent X
        \<lparr>h_order = Some ordr, h_refund = None, h_refundOrder = None, h_merchant = Some merchant,
         h_country = Some country, h_datetime = order_PaymentMethodOrderClosedAt ordr, h_req = None\<rparr> Payment) (\<lambda>_.
      ret ()))))"

definition onRefundNotify :: "ext \<Rightarrow> refund \<Rightarrow> order \<Rightarrow> unit io" where
  "onRefundNotify X refund ordr =
     (if x_order_public_status X ordr \<notin> set processableOrderStatus then ret ()
      else bind (country_GetByIsoCodeA2 X (x_order_country X ordr)) (\<lambda>country.
      bind (getOrderById X (refund_CreatedOrderId refund)) (\<lambda>refundOrder.
      bind (replace_err merchantErrorNotFound (merchant_GetById X (x_order_merchant_id X refundOrder))) (\<lambda>merchant.
      bind (processEvent X
        \<lparr>h_order = Some ordr, h_refund = Some refund, h_refundOrder = Some refundOrder, h_merchant = Some merchant,
         h_country = Some country, h_datetime = order_PaymentMethodOrderClosedAt refundOrder, h_req = None\<rparr> Refunding) (\<lambda>_.
      ret ())))))"

text \<open>
  Rebuilding the entries of an order. The refund branch declares its own \<open>err\<close>, so what
  onRefundNotify returns is dropped, and it hands over the refund order as the original order.
\<close>

definition OrderTypeOrder :: string where "OrderTypeOrder = ''order''"
definition OrderTypeRefund :: string where "OrderTypeRefund = ''refund''"

definition RebuildAccountingEntries :: "ext \<Rightarrow> string \<Rightarrow> bool \<Rightarrow> unit io" where
  "RebuildAccountingEntries X orderId force =
     (if orderId = [] then throw (ErrOther ''order_id is obligatory parameter'')
      else bind (getOrderById X orderId) (\<lambda>ordr.
      bind (if force then aerepo_DeleteBySource X orderId (order_Type ordr) else ret ()) (\<lambda>_.
      if order_Type ordr = OrderTypeOrder then onPaymentNotify X ordr
      else if order_Type ordr = OrderTypeRefund then
        bind (deref (order_Refund ordr)) (\<lambda>r.
        bind (refundrepo_GetById X (oref_ReceiptNumber r)) (\<lambda>refund.
        bind (try_go (onRefundNotify X refund ordr)) (\<lambda>_. ret ())))
      else throw (ErrOther ''Unsupported order type''))))"

end
