(* ===== verification/Corrections.thy ===== *)
theory Corrections
  imports Accounting MerchantBalance
begin

text \<open>
  Accounting entries made by hand (CreateAccountingEntry in internal/service/accounting\_entry.go):
  for an order, a refund or a merchant, with the balance of the merchant brought up to date when
  the entry creates or releases a rolling reserve.
\<close>

definition valid_hex :: "ext \<Rightarrow> string \<Rightarrow> bool" where
  "valid_hex X i \<longleftrightarrow> i \<noteq> [] \<and> (case x_oid_from_hex X i of Inr _ \<Rightarrow> True | Inl _ \<Rightarrow> False)"

text \<open>A response that is final (\<open>Inl\<close>), or the state the handler goes on with (\<open>Inr\<close>).\<close>

type_synonym 'a step = "accounting_entry response + 'a"

definition ae_order_step :: "ext \<Rightarrow> create_entry_request \<Rightarrow> handler \<times> string \<Rightarrow> (handler \<times> string) step io" where
  "ae_order_step X req = (\<lambda>(h, countryCode).
     if valid_hex X (cae_OrderId req) then
       bind (attempt (getOrderById X (cae_OrderId req))) (\<lambda>r. case r of
         Inl _ \<Rightarrow> ret (Inl (rsp_error ResponseStatusNotFound accountingEntryErrorOrderNotFound))
       | Inr ordr \<Rightarrow> ret (Inr (h\<lparr>h_order := Some ordr, h_datetime := order_PaymentMethodOrderClosedAt ordr\<rparr>,
                              x_order_country X ordr)))
     else ret (Inr (h, countryCode)))"

definition ae_refund_step :: "ext \<Rightarrow> create_entry_request \<Rightarrow> handler \<times> string \<Rightarrow> (handler \<times> string) step io" where
  "ae_refund_step X req = (\<lambda>(h, countryCode).
     if valid_hex X (cae_RefundId req) then
       bind (attempt (refundrepo_GetById X (cae_RefundId req))) (\<lambda>r. case r of
         Inl _ \<Rightarrow> ret (Inl (rsp_error ResponseStatusNotFound accountingEntryErrorRefundNotFound))
       | Inr refund \<Rightarrow>
         bind (attempt (getOrderById X (refund_OriginalOrderId refund))) (\<lambda>r. case r of
           Inl _ \<Rightarrow> ret (Inl (rsp_error ResponseStatusNotFound accountingEntryErrorOrderNotFound))
         | Inr ordr \<Rightarrow>
           bind (getOrderById X (refund_CreatedOrderId refund)) (\<lambda>refundOrder.
           ret (Inr (h\<lparr>h_order := Some ordr, h_refund := Some refund, h_refundOrder := Some refundOrder,
                      h_datetime := order_PaymentMethodOrderClosedAt refundOrder\<rparr>, x_order_country X ordr)))))
     else ret (Inr (h, countryCode)))"

definition ae_merchant_step :: "ext \<Rightarrow> create_entry_request \<Rightarrow> handler \<times> string \<Rightarrow> (handler \<times> string) step io" where
  "ae_merchant_step X req = (\<lambda>(h, countryCode).
     if cae_MerchantId req \<noteq> [] then
       bind (attempt (merchant_GetById X (cae_MerchantId req))) (\<lambda>r. case r of
         Inl _ \<Rightarrow> ret (Inl (rsp_error ResponseStatusNotFound accountingEntryErrorMerchantNotFound))
       | Inr merchant \<Rightarrow>
         bind (deref (merchant_Company merchant)) (\<lambda>_.
         ret (Inr (h\<lparr>h_merchant := Some merchant\<rparr>, merchant_CompanyCountry merchant))))
     else ret (Inr (h, countryCode)))"

text \<open>Go on unless a step has answered.\<close>

definition and_then :: "'a step io \<Rightarrow> ('a \<Rightarrow> 'b step io) \<Rightarrow> 'b step io" where
  "and_then m k = bind m (\<lambda>r. case r of Inl rsp \<Rightarrow> ret (Inl rsp) | Inr a \<Rightarrow> k a)"

definition CreateAccountingEntry :: "ext \<Rightarrow> create_entry_request \<Rightarrow> accounting_entry response io" where
  "CreateAccountingEntry X req =
     (if cae_Type req \<notin> set availableAccountingEntries
      then ret (rsp_error ResponseStatusBadData accountingEntryErrorUnknownEntry)
      else
        bind (and_then (and_then (ae_order_step X req
            (\<lparr>h_order = None, h_refund = None, h_refundOrder = None, h_merchant = None, h_country = None,
              h_datetime = None, h_req = Some req\<rparr>, []))
          (ae_refund_step X req)) (ae_merchant_step X req)) (\<lambda>r. case r of
          Inl rsp \<Rightarrow> ret rsp
        | Inr (h, code) \<Rightarrow>
          bind (attempt (country_GetByIsoCodeA2 X (if code = [] then cae_Country req else code))) (\<lambda>c. case c of
            Inl _ \<Rightarrow> ret (rsp_error ResponseStatusSystemError accountingEntryErrorCountryNotFound)
          | Inr country \<Rightarrow>
            bind (try_go (processEvent X (h\<lparr>h_country := Some country\<rparr>) ManualCorrection)) (\<lambda>p. case p of
              Inl _ \<Rightarrow> ret (rsp_error ResponseStatusSystemError accountingEntryErrorUnknown)
            | Inr entries \<Rightarrow>
              if cae_Type req \<in> set accountingEntriesForRollingReserve then
                bind (deref (h_merchant h)) (\<lambda>merchant.
                bind (try_go (updateMerchantBalance X (merchant_Id merchant))) (\<lambda>u. case u of
                  Inl _ \<Rightarrow> ret (rsp_error ResponseStatusSystemError accountingEntryBalanceUpdateFailed)
                | Inr _ \<Rightarrow> ret (rsp_ok (hd entries))))
              else ret (rsp_ok (hd entries))))))"

end
