(* ===== verification/Journal.thy ===== *)
theory Journal
  imports Accounting
begin

text \<open>
  What the events of the journal post: the shape of the entries, how their amounts hang together,
  that an event is posted as a whole or not at all, and at most once.
\<close>

section \<open>One entry\<close>

text \<open>What identifies an entry, without its amounts and currencies.\<close>

definition ae_head :: "accounting_entry \<Rightarrow> accounting_entry" where
  "ae_head e = e\<lparr>ae_Currency := [], ae_Amount := 0, ae_OriginalAmount := 0, ae_OriginalCurrency := [], ae_LocalAmount := 0,
     ae_LocalCurrency := [], ae_AmountRounded := 0, ae_OriginalAmountRounded := 0, ae_LocalAmountRounded := 0\<rparr>"

definition head_of :: "ext \<Rightarrow> handler \<Rightarrow> timestamp option \<times> ae_source option \<times> string \<times> string \<times> string \<Rightarrow>
    string \<Rightarrow> nat \<Rightarrow> accounting_entry" where
  "head_of X h origin tp n = (case origin of (createdTime, source, merchantId, currency, oc) \<Rightarrow>
     \<lparr>ae_Id = x_oid_hex X (x_new_oid X n), ae_Object = ObjectTypeBalanceTransaction, ae_Type = tp,
      ae_Source = source, ae_MerchantId = merchantId, ae_Amount = 0, ae_Currency = currency,
      ae_Reason = [], ae_Status = BalanceTransactionStatusAvailable,
      ae_Country = (case h_country h of None \<Rightarrow> [] | Some c \<Rightarrow> country_IsoCodeA2 c),
      ae_OriginalAmount = 0, ae_OriginalCurrency = [], ae_LocalAmount = 0, ae_LocalCurrency = [],
      ae_CreatedAt = createdTime, ae_AvailableOn = None, ae_OperatingCompanyId = oc,
      ae_AmountRounded = 0, ae_OriginalAmountRounded = 0, ae_LocalAmountRounded = 0\<rparr>)"

text \<open>The origin of the entries of a payment and of a refund does not depend on the clock.\<close>

definition origin :: "ext \<Rightarrow> handler \<Rightarrow> (timestamp option \<times> ae_source option \<times> string \<times> string \<times> string) option" where
  "origin X h = (case (h_refund h, h_refundOrder h, h_order h) of
     (Some r, Some ro, _) \<Rightarrow> Some (order_PaymentMethodOrderClosedAt ro,
        Some \<lparr>aesrc_Id = refund_CreatedOrderId r, aesrc_Type = CollectionRefund\<rparr>, x_order_merchant_id X ro,
        x_order_royalty_currency X ro, order_OperatingCompanyId ro)
   | (None, _, Some ordr) \<Rightarrow> Some (order_PaymentMethodOrderClosedAt ordr,
        Some \<lparr>aesrc_Id = order_Id ordr, aesrc_Type = CollectionOrder\<rparr>, x_order_merchant_id X ordr,
        x_order_royalty_currency X ordr, order_OperatingCompanyId ordr)
   | _ \<Rightarrow> None)"

lemma newEntry_run:
  "origin X h = Some og \<Longrightarrow> newEntry X h tp s = (Inr (head_of X h og tp (Suc (w_tick s))), s\<lparr>w_tick := w_tick s + 2\<rparr>)"
  by (auto simp: origin_def newEntry_def entry_origin_def head_of_def timestamp_now_def new_oid_def run_go
      split: option.splits)

lemma newEntry_success:
  "origin X h = Some og \<Longrightarrow> newEntry X h tp s = (Inr e, t) \<longleftrightarrow>
    e = head_of X h og tp (Suc (w_tick s)) \<and> t = s\<lparr>w_tick := w_tick s + 2\<rparr>"
  by (auto simp: newEntry_run)

lemma local_currency_ticks: "local_currency X h s = (Inr r, t) \<Longrightarrow> only_ticks s t"
  by (auto simp: local_currency_def priceGroup_GetById_def success split: if_splits dest!: find_one_success)

lemma fill_local_head:
  assumes "fill_local X h e s = (Inr e', t)"
  shows "only_ticks s t \<and> e' = e\<lparr>ae_LocalAmount := ae_LocalAmount e', ae_LocalCurrency := ae_LocalCurrency e'\<rparr>"
proof -
  have "only_ticks s u \<Longrightarrow> only_ticks s (u\<lparr>w_tick := Suc (w_tick u)\<rparr>)" for u
    by (erule only_ticks_trans) simp
  then show ?thesis using assms
    by (cases e) (auto simp: fill_local_def success rpc_success Let_def split: if_splits dest!: local_currency_ticks)
qed

lemma round_entry_success:
  assumes "round_entry X e s = (Inr e', t)"
  shows "only_ticks s t" and "ae_head e' = ae_head e" and "ae_Amount e' = x_to_precise X (ae_Amount e)"
    and "ae_Currency e' = ae_Currency e"
    and "ae_OriginalAmount e' = x_to_precise X (ae_OriginalAmount e)"
    and "ae_LocalAmount e' = x_to_precise X (ae_LocalAmount e)" and "ae_LocalCurrency e' = ae_LocalCurrency e"
    and "ae_OriginalCurrency e' = ae_OriginalCurrency e"
  using assms by (auto simp: round_entry_def Let_def success service_round_def rpc_success ae_head_def)

lemma addEntry_head:
  assumes "addEntry X h e s = (Inr e', t)"
  shows "only_ticks s t" and "ae_head e' = ae_head e" and "ae_Amount e' = x_to_precise X (ae_Amount e)"
    and "ae_OriginalAmount e' = x_to_precise X (ae_OriginalAmount (fill_original e))"
    and "ae_OriginalCurrency e' = ae_OriginalCurrency (fill_original e)"
    and "ae_Type e \<in> set availableAccountingEntries" and "ae_Currency e' = ae_Currency e"
proof -
  obtain e2 u where f: "fill_local X h (fill_original e) s = (Inr e2, u)" and r: "round_entry X e2 u = (Inr e', t)"
    and av: "ae_Type e \<in> set availableAccountingEntries"
    using assms unfolding addEntry_def success by blast
  show "ae_Type e \<in> set availableAccountingEntries" by (rule av)
  obtain la lc where g: "only_ticks s u" "e2 = (fill_original e)\<lparr>ae_LocalAmount := la, ae_LocalCurrency := lc\<rparr>"
    using fill_local_head[OF f] by blast
  note R = round_entry_success[OF r]
  show "only_ticks s t" using g(1) R(1) by (rule only_ticks_trans)
  show "ae_head e' = ae_head e" "ae_Amount e' = x_to_precise X (ae_Amount e)"
    "ae_OriginalAmount e' = x_to_precise X (ae_OriginalAmount (fill_original e))"
    "ae_OriginalCurrency e' = ae_OriginalCurrency (fill_original e)" "ae_Currency e' = ae_Currency e"
    using R by (simp_all add: g(2) fill_original_def ae_head_def)
qed

text \<open>An entry posted by an event: its identity, its amount, and the run of the amount.\<close>

lemma head_updates [simp]:
  "ae_head (e\<lparr>ae_Amount := a\<rparr>) = ae_head e" "ae_head (e\<lparr>ae_Currency := c\<rparr>) = ae_head e"
  "ae_head (e\<lparr>ae_OriginalAmount := a\<rparr>) = ae_head e" "ae_head (e\<lparr>ae_OriginalCurrency := c\<rparr>) = ae_head e"
  "ae_head (e\<lparr>ae_LocalAmount := a\<rparr>) = ae_head e" "ae_head (e\<lparr>ae_LocalCurrency := c\<rparr>) = ae_head e"
  by (simp_all add: ae_head_def)

lemma head_of_fields [simp]:
  "ae_Type (head_of X h og tp n) = tp"
  "ae_Currency (head_of X h og tp n) = (case og of (_, _, _, c, _) \<Rightarrow> c)"
  by (simp_all add: head_of_def split: prod.splits)

section \<open>Calls that leave the collections alone\<close>

lemma quiet_map_groups [quiet_intros]: "quiet (find_costs X sel wrap get cty f key p)"
  unfolding find_costs_def by (intro quiet_intros)

lemma quiet_costs [quiet_intros]:
  "quiet (getPaymentChannelCostMerchant X i name cur amount region country mcc)"
  "quiet (pccsrepo_Find X name region country mcc oc)"
  "quiet (getMoneyBackCostMerchant X i name cur reason region country stage d mcc)"
  "quiet (getMoneyBackCostSystem X name cur reason region country stage d mcc oc)"
proof -
  show "quiet (getPaymentChannelCostMerchant X i name cur amount region country mcc)"
    unfolding getPaymentChannelCostMerchant_def pccmrepo_Find_def by (intro quiet_intros)
  show "quiet (getMoneyBackCostMerchant X i name cur reason region country stage d mcc)"
    unfolding getMoneyBackCostMerchant_def mbcmrepo_Find_def by (intro quiet_intros)
  show "quiet (getMoneyBackCostSystem X name cur reason region country stage d mcc oc)"
    unfolding getMoneyBackCostSystem_def mbcsrepo_Find_def by (intro quiet_intros)
  have "quiet (case gs of (_, d # _) # _ \<Rightarrow> bind (lift (pccs_from_mgo X d)) (\<lambda>obj.
      bind (attempt (cache_set X key (CachedPccs obj))) (\<lambda>_. ret obj)) | _ \<Rightarrow> throw ErrNoDocuments)" for gs key
    by (auto split: list.split intro!: quiet_intros)
  then show "quiet (pccsrepo_Find X name region country mcc oc)"
    unfolding pccsrepo_Find_def Let_def by (intro quiet_intros)
qed

lemma quiet_h_costs [quiet_intros]:
  "quiet (h_getPaymentChannelCostMerchant X h amount)" "quiet (h_getPaymentChannelCostSystem X h)"
  "quiet (h_getMoneyBackCostMerchant X h reason)" "quiet (h_getMoneyBackCostSystem X h reason)"
  unfolding h_getPaymentChannelCostMerchant_def h_getPaymentChannelCostSystem_def
    h_getMoneyBackCostMerchant_def h_getMoneyBackCostSystem_def
  by (intro quiet_intros)+

lemma quiet_exchange [quiet_intros]:
  "quiet (GetExchangePsByDateCommon X h c a)" "quiet (GetExchangePsByDateMerchant X h c a)"
  "quiet (GetExchangeStockByDateCommon X h c a)" "quiet (GetExchangeCbByDateCommon X h c a)"
  unfolding GetExchangePsByDateCommon_def GetExchangePsByDateMerchant_def GetExchangeStockByDateCommon_def
    GetExchangeCbByDateCommon_def GetExchangeByDateCommon_def GetExchangeByDateMerchant_def Let_def
  by (intro quiet_intros)+

lemma quiet_newEntry [quiet_intros]: "quiet (newEntry X h tp)"
  unfolding newEntry_def entry_origin_def Let_def by (intro quiet_intros)

lemma quiet_addEntry [quiet_intros]: "quiet (addEntry X h e)"
  unfolding addEntry_def fill_local_def local_currency_def priceGroup_GetById_def round_entry_def service_round_def Let_def
  by (intro quiet_intros)

lemma quiet_post [quiet_intros]:
  "quiet m \<Longrightarrow> quiet (post X h tp m)" "quiet m \<Longrightarrow> quiet (post_original X h tp m v c)"
  unfolding post_def post_original_def by (intro quiet_intros; assumption)+

lemma quiet_ae_queries [quiet_intros]:
  "quiet (aerepo_GetByObjectSource X object i tp)"
  unfolding aerepo_GetByObjectSource_def by (intro quiet_intros)

lemma quiet_ae_to_mgo [quiet_intros]: "quiet (ae_to_mgo X e)"
  unfolding ae_to_mgo_def oid_or_new_def time_or_now_def time_or_zero_def by (intro quiet_intros)

lemma quiet_ApplyObjectSource [quiet_intros]: "quiet (aerepo_ApplyObjectSource X object tp i st e)"
  unfolding aerepo_ApplyObjectSource_def by (intro quiet_intros)

lemma quiet_payment: "quiet (processPaymentEvent X h)"
  unfolding processPaymentEvent_def Let_def by (intro quiet_intros)

lemma quiet_refund: "quiet (processRefundEvent X h)"
  unfolding processRefundEvent_def reverse_tax_deltas_def Let_def by (intro quiet_intros)

lemma quiet_correction: "quiet (processManualCorrectionEvent X h)"
  unfolding processManualCorrectionEvent_def Let_def by (intro quiet_intros)


section \<open>The entries of an event\<close>

text \<open>
  The entries of an event in the order they were made: their types are given, they carry the origin
  of the event, and their ids were generated one after the other. (The tax entry of a refund is in
  the currency of the tax entry of the payment.)
\<close>

definition posted :: "ext \<Rightarrow> handler \<Rightarrow> string \<Rightarrow> nat \<Rightarrow> accounting_entry \<Rightarrow> bool" where
  "posted X h tp n e \<longleftrightarrow> (\<exists>og. origin X h = Some og \<and> ae_head e = ae_head (head_of X h og tp n) \<and>
     (tp \<noteq> AE_RealRefundTaxFee \<longrightarrow> ae_Currency e = (case og of (_, _, _, c, _) \<Rightarrow> c)))"

fun posted_from :: "ext \<Rightarrow> handler \<Rightarrow> nat \<Rightarrow> string list \<Rightarrow> accounting_entry list \<Rightarrow> bool" where
  "posted_from X h n (tp # tps) (e # es) = (\<exists>k\<ge>n. posted X h tp k e \<and> posted_from X h (Suc k) tps es)"
| "posted_from X h n tps es = (tps = [] \<and> es = [])"

lemma posted_from_mono: "posted_from X h n tps es \<Longrightarrow> m \<le> n \<Longrightarrow> posted_from X h m tps es"
  by (cases "(X, h, n, tps, es)" rule: posted_from.cases) (auto intro: order_trans)

lemma posted_from_Cons:
  "posted X h tp k e \<Longrightarrow> n \<le> k \<Longrightarrow> k < m \<Longrightarrow> posted_from X h m tps es \<Longrightarrow> posted_from X h n (tp # tps) (e # es)"
  by (auto intro!: exI[of _ k] posted_from_mono[of X h m])

lemma post_success:
  assumes og: "origin X h = Some og" and q: "quiet m" and run: "post X h tp m s = (Inr e, t)"
  shows "\<exists>a u v k. m u = (Inr a, v) \<and> ae_Amount e = x_to_precise X a \<and> posted X h tp k e \<and> w_tick s \<le> k \<and> k < w_tick t"
proof -
  let ?u = "s\<lparr>w_tick := w_tick s + 2\<rparr>"
  from run obtain a v where m: "m ?u = (Inr a, v)"
    and ad: "addEntry X h ((head_of X h og tp (Suc (w_tick s)))\<lparr>ae_Amount := a\<rparr>) v = (Inr e, t)"
    by (auto simp: post_def success newEntry_success[OF og])
  have "w_tick s + 2 \<le> w_tick v" using quietD[OF q m] by simp
  moreover have "w_tick v \<le> w_tick t" using addEntry_head(1)[OF ad] by (simp add: only_ticks_def)
  moreover have "posted X h tp (Suc (w_tick s)) e" using og addEntry_head(2,7)[OF ad] by (simp add: posted_def)
  ultimately show ?thesis using m addEntry_head(3)[OF ad]
    by (intro exI[of _ a] exI[of _ ?u] exI[of _ v] exI[of _ "Suc (w_tick s)"]) simp
qed

lemma post_original_success:
  assumes og: "origin X h = Some og" and q: "quiet m" and run: "post_original X h tp m b cur s = (Inr e, t)"
  shows "\<exists>a u v k. m u = (Inr a, v) \<and> ae_Amount e = x_to_precise X a \<and> posted X h tp k e \<and> w_tick s \<le> k \<and> k < w_tick t \<and>
    (cur \<noteq> [] \<longrightarrow> ae_OriginalAmount e = x_to_precise X b \<and> ae_OriginalCurrency e = cur)"
proof -
  let ?u = "s\<lparr>w_tick := w_tick s + 2\<rparr>"
  from run obtain a v where m: "m ?u = (Inr a, v)"
    and ad: "addEntry X h ((head_of X h og tp (Suc (w_tick s)))\<lparr>ae_Amount := a, ae_OriginalAmount := b,
      ae_OriginalCurrency := cur\<rparr>) v = (Inr e, t)"
    by (auto simp: post_original_def success newEntry_success[OF og])
  have "w_tick s + 2 \<le> w_tick v" using quietD[OF q m] by simp
  moreover have "w_tick v \<le> w_tick t" using addEntry_head(1)[OF ad] by (simp add: only_ticks_def)
  moreover have "posted X h tp (Suc (w_tick s)) e" using og addEntry_head(2,7)[OF ad] by (simp add: posted_def)
  ultimately show ?thesis using m addEntry_head(3,4,5)[OF ad]
    by (intro exI[of _ a] exI[of _ ?u] exI[of _ v] exI[of _ "Suc (w_tick s)"]) (simp add: fill_original_def)
qed

definition payment_types :: "string list" where
  "payment_types = [AE_RealGrossRevenue, AE_RealTaxFee, AE_CentralBankTaxFee, AE_PsGrossRevenueFx,
     AE_PsGrossRevenueFxTaxFee, AE_MerchantTaxFeeCostValue, AE_MerchantTaxFeeCentralBankFx, AE_PsMethodFee,
     AE_MerchantMethodFee, AE_MerchantMethodFeeCostValue, AE_MerchantMethodFixedFee, AE_RealMerchantMethodFixedFee,
     AE_RealMerchantMethodFixedFeeCostValue, AE_MerchantPsFixedFee, AE_RealMerchantPsFixedFee]"

text \<open>How the amounts of a payment hang together.\<close>

definition payment_ledger :: "ext \<Rightarrow> order \<Rightarrow> country \<Rightarrow> pccm \<Rightarrow> pccs \<Rightarrow> float64 list \<Rightarrow> bool" where
  "payment_ledger X ordr country costM costS a \<longleftrightarrow>
     (let gross = a ! 0; fx = a ! 3; merchantGross = gross - fx in
      a ! 2 = x_to_precise X 0 \<and>
      a ! 4 = x_to_precise X (x_percent_part X fx (order_TaxRate ordr)) \<and>
      a ! 5 = x_to_precise X (x_percent_part X merchantGross (order_TaxRate ordr)) \<and>
      (\<exists>cb. a ! 6 = x_to_precise X cb \<and> \<not> flt cb 0 \<and> (\<not> country_VatEnabled country \<longrightarrow> cb = 0)) \<and>
      a ! 7 = x_to_precise X (merchantGross * pccm_PsPercent costM) \<and>
      a ! 8 = x_to_precise X (merchantGross * pccm_MethodPercent costM) \<and>
      a ! 9 = x_to_precise X (gross * pccs_Percent costS) \<and>
      (order_ChargeCurrency ordr = x_order_royalty_currency X ordr \<longrightarrow>
        gross = x_to_precise X (order_ChargeAmount ordr) \<and> fx = x_to_precise X (order_ChargeAmount ordr - gross)))"



lemma GetExchange_same:
  "h_order h = Some ordr \<Longrightarrow> x_order_royalty_currency X ordr = c \<Longrightarrow> GetExchangePsByDateCommon X h c a = ret a"
  "h_order h = Some ordr \<Longrightarrow> x_order_royalty_currency X ordr = c \<Longrightarrow> GetExchangePsByDateMerchant X h c a = ret a"
  by (simp_all add: GetExchangePsByDateCommon_def GetExchangePsByDateMerchant_def)

lemma central_bank_fx_nonneg:
  "(if country_VatEnabled c then
      bind (GetExchangeCbByDateCommon X h cur a) (\<lambda>amountCb.
      bind (GetExchangeStockByDateCommon X h cur' amountCb) (\<lambda>amount.
      ret (if flt (amount - a) 0 then 0 else amount - a)))
    else ret 0) s = (Inr cb, t) \<Longrightarrow> \<not> flt cb 0 \<and> (\<not> country_VatEnabled c \<longrightarrow> cb = 0)"
  by (auto simp: success split: if_split_asm)

text \<open>The rules that put the entries of an event together, from the last to the first.\<close>

lemma chain_quiet: "m s = (r, t) \<Longrightarrow> quiet m \<Longrightarrow> posted_from X h (w_tick t) tps es \<Longrightarrow> posted_from X h (w_tick s) tps es"
  by (blast intro: posted_from_mono dest: quietD)

lemma chain_post:
  assumes "post X h tp m s = (Inr e, t)" and "origin X h = Some og" and "quiet m" and "posted_from X h (w_tick t) tps es"
  shows "posted_from X h (w_tick s) (tp # tps) (e # es)"
  using post_success[OF assms(2,3,1)] assms(4) by (blast intro: posted_from_Cons)

lemma chain_post_original:
  assumes "post_original X h tp m b cur s = (Inr e, t)" and "origin X h = Some og" and "quiet m"
    and "posted_from X h (w_tick t) tps es"
  shows "posted_from X h (w_tick s) (tp # tps) (e # es)"
  using post_original_success[OF assms(2,3,1)] assms(4) by (blast intro: posted_from_Cons)

lemma post_amount:
  assumes "post X h tp m s = (Inr e, t)" and "origin X h = Some og" and "quiet m"
  obtains a u v where "m u = (Inr a, v)" and "ae_Amount e = x_to_precise X a"
  using post_success[OF assms(2,3,1)] by blast

lemma post_ret_amount: "post X h tp (ret a) s = (Inr e, t) \<Longrightarrow> origin X h = Some og \<Longrightarrow> ae_Amount e = x_to_precise X a"
  by (erule post_amount) (auto simp: success intro: quiet_intros)

lemma post_original_ret_amount:
  "post_original X h tp (ret a) b c s = (Inr e, t) \<Longrightarrow> origin X h = Some og \<Longrightarrow> ae_Amount e = x_to_precise X a"
  using post_original_success[of X h og "ret a" tp b c s e t] by (auto simp: success intro: quiet_intros)

lemma payment_shape:
  assumes o: "h_order h = Some ordr" and c: "h_country h = Some country" and n: "h_refund h = None"
    and run: "processPaymentEvent X h s = (Inr es, t)"
  shows "posted_from X h (w_tick s) payment_types es \<and>
    (\<exists>costM costS. payment_ledger X ordr country costM costS (map ae_Amount es))"
proof -
  obtain og where og: "origin X h = Some og" using o n by (simp add: origin_def)
  show ?thesis using run
    unfolding processPaymentEvent_def o c deref_Some bind_ret Let_def success run_case
    apply (elim exE conjE)
    subgoal premises p for _ u0 _ gross s1 tax s2 cb s3 fx s4 fxtax s5 mg s6 costv s7 cbfx s8 costM s9 costS s10
      psfee s11 mfee s12 mfeecost s13 mfix s14 rfix s15 rfixcost s16 psfix s17 rpsfix s18
    proof -
      have same: "ae_Amount gross = x_to_precise X (order_ChargeAmount ordr) \<and>
          ae_Amount fx = x_to_precise X (order_ChargeAmount ordr - ae_Amount gross)"
        if "order_ChargeCurrency ordr = x_order_royalty_currency X ordr"
        using p(3,6) post_original_ret_amount[OF _ og] post_ret_amount[OF _ og]
        by (simp add: GetExchange_same[OF o] that)
      obtain a u v where "(if country_VatEnabled country then
          bind (GetExchangeCbByDateCommon X h (x_order_royalty_currency X ordr) (ae_Amount costv)) (\<lambda>amountCb.
          bind (GetExchangeStockByDateCommon X h (x_country_vat_currency_code X country) amountCb) (\<lambda>amount.
          ret (if flt (amount - ae_Amount costv) 0 then 0 else amount - ae_Amount costv)))
        else ret 0) u = (Inr a, v)" "ae_Amount cbfx = x_to_precise X a"
        by (rule post_amount[OF p(10) og]) (intro quiet_intros)
      then have cbfx: "\<exists>cb. ae_Amount cbfx = x_to_precise X cb \<and> \<not> flt cb 0 \<and> (\<not> country_VatEnabled country \<longrightarrow> cb = 0)"
        using central_bank_fx_nonneg by blast
      have "payment_ledger X ordr country costM costS (map ae_Amount es)"
        unfolding payment_ledger_def p(21) Let_def
        using same cbfx p(5,7,9,13,14,15)[THEN post_ret_amount[OF _ og]] by simp
      moreover have "posted_from X h (w_tick s) payment_types es"
        unfolding payment_types_def p(21)
        by (rule chain_quiet[where m = "aerepo_GetByObjectSource X obj i tp" for obj i tp, OF p(1)], intro quiet_intros, rule chain_post_original[OF p(3) og], intro quiet_intros,
            rule chain_post_original[OF p(4) og], intro quiet_intros, rule chain_post[OF p(5) og], intro quiet_intros,
            rule chain_post[OF p(6) og], intro quiet_intros, rule chain_post[OF p(7) og], intro quiet_intros,
            rule chain_quiet[where m = "newEntry X h tp" for tp, OF p(8)], intro quiet_intros, rule chain_post[OF p(9) og], intro quiet_intros,
            rule chain_post[OF p(10) og], intro quiet_intros, rule chain_quiet[where m = "h_getPaymentChannelCostMerchant X h a" for a, OF p(11)], intro quiet_intros,
            rule chain_quiet[where m = "h_getPaymentChannelCostSystem X h", OF p(12)], intro quiet_intros, rule chain_post[OF p(13) og], intro quiet_intros,
            rule chain_post[OF p(14) og], intro quiet_intros, rule chain_post[OF p(15) og], intro quiet_intros,
            rule chain_post[OF p(16) og], intro quiet_intros, rule chain_post[OF p(17) og], intro quiet_intros,
            rule chain_post[OF p(18) og], intro quiet_intros, rule chain_post[OF p(19) og], intro quiet_intros,
            rule chain_post[OF p(20) og], intro quiet_intros, simp)
      ultimately show ?thesis by blast
    qed
    done
qed

end
