(* ===== verification/JournalSaving.thy ===== *)
theory JournalSaving
  imports Journal
begin

text \<open>
  How the entries of an event get into the collection: they are encoded and inserted together; as
  their ids are new, an event leaves nothing behind or all of its entries.
\<close>

section \<open>Saving\<close>

definition entry_doc :: "ext \<Rightarrow> accounting_entry \<Rightarrow> mgo_accounting_entry \<Rightarrow> bool" where
  "entry_doc X e d \<longleftrightarrow> mgoae_Type d = ae_Type e \<and> mgoae_Object d = ae_Object e \<and> mgoae_Amount d = ae_Amount e \<and>
     mgoae_Currency d = ae_Currency e \<and> x_oid_from_hex X (ae_MerchantId e) = Inr (mgoae_MerchantId d) \<and>
     (\<exists>src. ae_Source e = Some src \<and> x_oid_from_hex X (aesrc_Id src) = Inr (mgoae_SourceId d) \<and>
            mgoae_SourceType d = aesrc_Type src) \<and>
     (ae_Id e \<noteq> [] \<longrightarrow> x_oid_from_hex X (ae_Id e) = Inr (mgoae_Id d)) \<and> (ae_AvailableOn e = None \<longrightarrow> mgoae_AvailableOn d = time_zero)"

lemma ae_to_mgo_doc: "ae_to_mgo X e s = (Inr d, t) \<Longrightarrow> entry_doc X e d"
  by (auto simp: ae_to_mgo_def entry_doc_def success oid_or_new_def time_or_zero_def split: option.splits if_splits)

lemma map_entries_docs:
  "map_entries X es s = (Inr c, t) \<Longrightarrow> map_err id c = Inr docs \<Longrightarrow> list_all2 (entry_doc X) es docs"
proof (induction es arbitrary: s c docs t)
  case (Cons e es)
  from Cons.prems(1) obtain r u rs v where r: "try_go (ae_to_mgo X e) s = (Inr r, u)"
    and rs: "map_entries X es u = (Inr rs, v)" and c: "c = r # rs"
    by (auto simp: success)
  from Cons.prems(2) c obtain d ds where d: "r = Inr d" "map_err id rs = Inr ds" "docs = d # ds"
    by (simp split: sum.splits) (simp add: id_def)
  have "entry_doc X e d"
    using r d(1) by (simp add: try_go_success ae_to_mgo_doc)
  then show ?case using Cons.IH[OF rs d(2)] d(3) by simp
qed (simp add: run_Inr)

lemma quiet_map_entries [quiet_intros]: "quiet (map_entries X es)"
  by (induction es) (auto intro!: quiet_intros)

lemma MultipleInsert_result:
  assumes "aerepo_MultipleInsert X es s = (r, t)"
  shows "(w_accounting t = w_accounting s \<and> r \<noteq> Inr ()) \<or>
    (\<exists>docs. list_all2 (entry_doc X) es docs \<and> insert_docs mgoae_Id docs (w_accounting s) = (w_accounting t, r = Inr ()))"
proof -
  obtain c u where m: "map_entries X es s = (c, u)" by (cases "map_entries X es s")
  have u: "w_accounting u = w_accounting s" using quiet_same[OF quiet_map_entries m] by simp
  show ?thesis
  proof (cases c)
    case (Inl e) then show ?thesis using assms m u by (auto simp: aerepo_MultipleInsert_def run_go)
  next
    case (Inr cs)
    show ?thesis
    proof (cases "cs = [] \<or> (\<exists>e. map_err id cs = Inl e)")
      case True then show ?thesis using assms m u Inr by (auto simp: aerepo_MultipleInsert_def run_go split: sum.splits if_splits)
    next
      case False
      then obtain docs where d: "map_err id cs = Inr docs" "cs \<noteq> []" by (cases "map_err id cs") auto
      have l: "list_all2 (entry_doc X) es docs" using map_entries_docs[OF _ d(1)] m Inr by blast
      obtain ds' ok where i: "insert_docs mgoae_Id docs (w_accounting s) = (ds', ok)" by (cases "insert_docs mgoae_Id docs (w_accounting s)")
      show ?thesis
      proof (cases "x_fault X (w_tick u)")
        case None
        then have "w_accounting t = ds' \<and> (ok \<longleftrightarrow> r = Inr ())"
          using assms m Inr d i u by (auto simp: aerepo_MultipleInsert_def run_go calling_def split: if_splits)
        then show ?thesis using l i by (intro disjI2 exI[of _ docs]) simp
      next
        case (Some e)
        then show ?thesis using assms m Inr d u by (auto simp: aerepo_MultipleInsert_def run_go calling_def)
      qed
    qed
  qed
qed

lemma insert_docs_fresh:
  "distinct (map idf xs) \<Longrightarrow> (\<And>x d. x \<in> set xs \<Longrightarrow> d \<in> set ds \<Longrightarrow> idf d \<noteq> idf x) \<Longrightarrow> insert_docs idf xs ds = (ds @ xs, True)"
proof (induction xs arbitrary: ds)
  case (Cons x xs)
  have "insert_docs idf xs (ds @ [x]) = ((ds @ [x]) @ xs, True)" using Cons.prems by (intro Cons.IH) auto
  then show ?case using Cons.prems by auto
qed simp

text \<open>Newly generated ids are new.\<close>

definition fresh_ids :: "ext \<Rightarrow> world \<Rightarrow> bool" where
  "fresh_ids X s \<longleftrightarrow> inj_on (x_new_oid X) {w_tick s..} \<and>
     (\<forall>d\<in>set (w_accounting s). \<forall>n\<ge>w_tick s. mgoae_Id d \<noteq> x_new_oid X n)"

lemma posted_fields:
  assumes "posted X h tp n e" and "origin X h = Some (createdAt, source, merchantId, currency, oc)"
  shows "ae_Type e = tp" and "ae_Id e = x_oid_hex X (x_new_oid X n)" and "ae_Source e = source"
    and "ae_MerchantId e = merchantId" and "ae_Object e = ObjectTypeBalanceTransaction"
    and "ae_CreatedAt e = createdAt" and "ae_AvailableOn e = None"
    and "tp \<noteq> AE_RealRefundTaxFee \<Longrightarrow> ae_Currency e = currency"
proof -
  have h: "ae_head e = ae_head (head_of X h (createdAt, source, merchantId, currency, oc) tp n)"
    and c: "tp \<noteq> AE_RealRefundTaxFee \<Longrightarrow> ae_Currency e = currency"
    using assms by (auto simp: posted_def)
  show "tp \<noteq> AE_RealRefundTaxFee \<Longrightarrow> ae_Currency e = currency" by (rule c)
  show "ae_Type e = tp" "ae_Id e = x_oid_hex X (x_new_oid X n)" "ae_Source e = source"
    "ae_MerchantId e = merchantId" "ae_Object e = ObjectTypeBalanceTransaction"
    "ae_CreatedAt e = createdAt" "ae_AvailableOn e = None"
    using arg_cong[OF h, of ae_Type] arg_cong[OF h, of ae_Id] arg_cong[OF h, of ae_Source]
      arg_cong[OF h, of ae_MerchantId] arg_cong[OF h, of ae_Object] arg_cong[OF h, of ae_CreatedAt]
      arg_cong[OF h, of ae_AvailableOn]
    by (simp_all add: ae_head_def head_of_def)
qed

text \<open>The documents of posted entries have new, distinct ids, so they are all inserted.\<close>

lemma posted_ids:
  "codecs_ok X \<Longrightarrow> posted_from X h n tps es \<Longrightarrow> list_all2 (entry_doc X) es docs \<Longrightarrow>
    \<exists>ks. sorted_wrt (<) ks \<and> (\<forall>k\<in>set ks. n \<le> k) \<and> map mgoae_Id docs = map (x_new_oid X) ks"
proof (induction X h n tps es arbitrary: docs rule: posted_from.induct)
  case (1 X h n tp tps e es)
  from "1.prems"(2) obtain k where k: "n \<le> k" "posted X h tp k e" "posted_from X h (Suc k) tps es" by auto
  from "1.prems"(3) obtain d ds where d: "docs = d # ds" "entry_doc X e d" "list_all2 (entry_doc X) es ds"
    by (cases docs) auto
  obtain ks where ks: "sorted_wrt (<) ks" "\<forall>j\<in>set ks. Suc k \<le> j" "map mgoae_Id ds = map (x_new_oid X) ks"
    using "1.IH"[OF "1.prems"(1) k(3) d(3)] by blast
  obtain og where og: "origin X h = Some og" using k(2) by (auto simp: posted_def)
  have "ae_Id e = x_oid_hex X (x_new_oid X k)" using posted_fields(2)[OF k(2)] og by (cases og) auto
  then have "mgoae_Id d = x_new_oid X k" using d(2) by (simp add: entry_doc_def codecs_hex[OF "1.prems"(1)])
  then show ?case using ks k(1) d(1) by (intro exI[of _ "k # ks"]) (auto simp: Suc_le_eq)
qed auto

lemma posted_inserted:
  assumes "codecs_ok X" and "inj_on (x_new_oid X) {n..}" and "\<forall>d\<in>set ds. \<forall>k\<ge>n. mgoae_Id d \<noteq> x_new_oid X k"
    and "posted_from X h n tps es" and "list_all2 (entry_doc X) es docs"
  shows "insert_docs mgoae_Id docs ds = (ds @ docs, True)"
proof -
  obtain ks where ks: "sorted_wrt (<) ks" "\<forall>k\<in>set ks. n \<le> k" "map mgoae_Id docs = map (x_new_oid X) ks"
    using posted_ids[OF assms(1,4,5)] by blast
  have "inj_on (x_new_oid X) (set ks)" using assms(2) by (rule inj_on_subset) (use ks(2) in auto)
  then have "distinct (map mgoae_Id docs)"
    using ks(1) unfolding ks(3) by (simp add: distinct_map strict_sorted_iff)
  moreover have "mgoae_Id x \<in> x_new_oid X ` set ks" if "x \<in> set docs" for x
    using that arg_cong[OF ks(3), of set] by auto
  ultimately show ?thesis using assms(3) ks(2) by (intro insert_docs_fresh) (auto, metis imageE)
qed

lemma posted_types: "posted_from X h n tps es \<Longrightarrow> list_all2 (entry_doc X) es docs \<Longrightarrow> map mgoae_Type docs = tps"
proof (induction X h n tps es arbitrary: docs rule: posted_from.induct)
  case (1 X h n tp tps e es)
  then show ?case by (cases docs) (auto simp: posted_def entry_doc_def dest!: arg_cong[of _ _ ae_Type] simp: ae_head_def head_of_def split: prod.splits)
qed auto


section \<open>An event as a whole\<close>

lemma tail_keeps_accounting:
  "keeps (\<lambda>s. w_accounting s = v) (bind (event_paylinks h) (\<lambda>paylinks.
     if event_ids h = [] then ret ()
     else bind (updateOrderView X (event_ids h)) (\<lambda>_. for_each paylinks (update_paylink_stat X))))"
proof -
  have s: "sent_stable (\<lambda>s. w_accounting s = v)" and t: "tick_stable (\<lambda>s. w_accounting s = v)"
    by (auto simp: sent_stable_def tick_stable_def)
  have u: "keeps (\<lambda>s. w_accounting s = v) (updateOrderView X ids)" for ids
    by (intro keeps_updateOrderView) (simp add: view_stable_def)
  have "keeps (\<lambda>s. w_accounting s = v) (event_paylinks h)"
    unfolding event_paylinks_def deref_def Let_def by (auto intro!: keeps_intros split: option.split)
  then show ?thesis unfolding update_paylink_stat_def by (intro keeps_intros u s t)
qed

lemma quiet_accounting: "quiet m \<Longrightarrow> m s = (r, t) \<Longrightarrow> w_accounting t = w_accounting s \<and> w_tick s \<le> w_tick t"
  using quiet_same[of m s r t] by simp

text \<open>What an event may leave behind: nothing, or all of its entries.\<close>

lemma event_result:
  assumes X: "codecs_ok X" and fresh: "fresh_ids X s" and q: "quiet proc"
    and shape: "\<And>es u. proc s = (Inr es, u) \<Longrightarrow> posted_from X h (w_tick s) tps es"
    and run: "bind proc (\<lambda>es. bind (saveAccountingEntries X h es) (\<lambda>_. ret es)) s = (r, t)"
  shows "(w_accounting t = w_accounting s \<and> (\<forall>es. r \<noteq> Inr es)) \<or>
    (\<exists>es docs u. proc s = (Inr es, u) \<and> list_all2 (entry_doc X) es docs \<and> w_accounting t = w_accounting s @ docs)"
proof -
  obtain r1 u where p: "proc s = (r1, u)" by (cases "proc s")
  note qu = quiet_accounting[OF q p]
  show ?thesis
  proof (cases r1)
    case (Inl e) then show ?thesis using run p qu by (auto simp: bind_def)
  next
    case (Inr es)
    note pf = shape[of es u]
    obtain r2 v where mi: "aerepo_MultipleInsert X es u = (r2, v)" by (cases "aerepo_MultipleInsert X es u")
    obtain r3 z where z: "bind (event_paylinks h) (\<lambda>paylinks. if event_ids h = [] then ret ()
       else bind (updateOrderView X (event_ids h)) (\<lambda>_. for_each paylinks (update_paylink_stat X))) v = (r3, z)"
      by (cases "bind (event_paylinks h) (\<lambda>paylinks. if event_ids h = [] then ret ()
       else bind (updateOrderView X (event_ids h)) (\<lambda>_. for_each paylinks (update_paylink_stat X))) v")
    have zv: "w_accounting z = w_accounting v"
      using keepsD[OF tail_keeps_accounting[of "w_accounting v" h X] refl z] .
    have sv: "saveAccountingEntries X h es u = (case r2 of Inl e \<Rightarrow> (Inl e, v) | Inr _ \<Rightarrow> (r3, z))"
      using z unfolding saveAccountingEntries_def bind_def[of "aerepo_MultipleInsert X es"] mi by (cases r2) simp_all
    have "bind (saveAccountingEntries X h es) (\<lambda>_. ret es) u = (r, t)"
      using run p Inr unfolding bind_def[of proc] by simp
    then have t: "(r2 \<noteq> Inr () \<longrightarrow> w_accounting t = w_accounting v \<and> (\<forall>es. r \<noteq> Inr es)) \<and>
        (r2 = Inr () \<longrightarrow> w_accounting t = w_accounting z)"
      unfolding bind_def[of "saveAccountingEntries X h es"] sv ret_def
      by (cases r2; cases r3) auto
    from MultipleInsert_result[OF mi] show ?thesis
    proof
      assume "w_accounting v = w_accounting u \<and> r2 \<noteq> Inr ()"
      then show ?thesis using t qu by simp
    next
      assume "\<exists>docs. list_all2 (entry_doc X) es docs \<and> insert_docs mgoae_Id docs (w_accounting u) = (w_accounting v, r2 = Inr ())"
      then obtain docs where d: "list_all2 (entry_doc X) es docs"
        "insert_docs mgoae_Id docs (w_accounting s) = (w_accounting v, r2 = Inr ())" using qu by auto
      have "insert_docs mgoae_Id docs (w_accounting s) = (w_accounting s @ docs, True)"
        using fresh pf p Inr d(1) by (intro posted_inserted[OF X]) (auto simp: fresh_ids_def)
      then have "w_accounting v = w_accounting s @ docs" "r2 = Inr ()" using d(2) by auto
      then show ?thesis using p Inr d(1) t zv by (intro disjI2 exI[of _ es] exI[of _ docs] exI[of _ u]) simp
    qed
  qed
qed

text \<open>What the documents of posted entries have in common.\<close>

lemma posted_docs:
  "posted_from X h n tps es \<Longrightarrow> list_all2 (entry_doc X) es docs \<Longrightarrow>
    origin X h = Some (createdAt, Some src, merchantId, currency, oc) \<Longrightarrow> d \<in> set docs \<Longrightarrow>
    mgoae_Object d = ObjectTypeBalanceTransaction \<and> x_oid_from_hex X (aesrc_Id src) = Inr (mgoae_SourceId d) \<and>
    mgoae_SourceType d = aesrc_Type src \<and> x_oid_from_hex X merchantId = Inr (mgoae_MerchantId d) \<and>
    (mgoae_Type d \<noteq> AE_RealRefundTaxFee \<longrightarrow> mgoae_Currency d = currency) \<and> mgoae_AvailableOn d = time_zero"
proof (induction X h n tps es arbitrary: docs rule: posted_from.induct)
  case (1 X h n tp tps e es)
  from "1.prems"(1) obtain k where k: "posted X h tp k e" "posted_from X h (Suc k) tps es" by auto
  from "1.prems"(2) obtain d' ds where d: "docs = d' # ds" "entry_doc X e d'" "list_all2 (entry_doc X) es ds"
    by (cases docs) auto
  show ?case
  proof (cases "d \<in> set ds")
    case True then show ?thesis using "1.IH"[OF k(2) d(3) "1.prems"(3)] by blast
  next
    case False
    then have "d = d'" using "1.prems"(4) d(1) by simp
    then show ?thesis using posted_fields[OF k(1) "1.prems"(3)] d(2) by (auto simp: entry_doc_def)
  qed
qed auto

definition payment_handler :: "order \<Rightarrow> country \<Rightarrow> merchant \<Rightarrow> handler" where
  "payment_handler ordr country merchant = \<lparr>h_order = Some ordr, h_refund = None, h_refundOrder = None,
     h_merchant = Some merchant, h_country = Some country, h_datetime = order_PaymentMethodOrderClosedAt ordr,
     h_req = None\<rparr>"

lemma quiet_lookups [quiet_intros]:
  "quiet (country_GetByIsoCodeA2 X c)" "quiet (merchant_GetById X i)" "quiet (getOrderById X i)"
  unfolding country_GetByIsoCodeA2_def merchant_GetById_def getOrderById_def by (intro quiet_intros)+

lemma fresh_ids_mono:
  "fresh_ids X s \<Longrightarrow> w_tick s \<le> w_tick t \<Longrightarrow> w_accounting t = w_accounting s \<Longrightarrow> fresh_ids X t"
  by (auto simp: fresh_ids_def intro: inj_on_subset)

lemma onPaymentNotify_steps:
  assumes "onPaymentNotify X ordr s = (r, t)" and "x_order_public_status X ordr \<in> set processableOrderStatus"
  shows "(w_accounting t = w_accounting s \<and> r \<noteq> Inr ()) \<or>
    (\<exists>country merchant u r'. w_accounting u = w_accounting s \<and> w_tick s \<le> w_tick u \<and>
      processEvent X (payment_handler ordr country merchant) Payment u = (r', t) \<and> (r = Inr () \<longleftrightarrow> (\<exists>es. r' = Inr es)))"
proof -
  obtain rc u where c: "country_GetByIsoCodeA2 X (x_order_country X ordr) s = (rc, u)" by fastforce
  note uc = quiet_accounting[OF quiet_lookups(1) c]
  show ?thesis
  proof (cases rc)
    case (Inl e) then show ?thesis using assms c uc by (auto simp: onPaymentNotify_def run_go)
  next
    case (Inr country)
    obtain rm v where m: "merchant_GetById X (x_order_merchant_id X ordr) u = (rm, v)" by fastforce
    note vm = quiet_accounting[OF quiet_lookups(2) m]
    show ?thesis
    proof (cases rm)
      case (Inl e) then show ?thesis using assms c uc Inr m vm by (auto simp: onPaymentNotify_def run_go)
    next
      case (Inr merchant)
      obtain r' z where "processEvent X (payment_handler ordr country merchant) Payment v = (r', z)" by fastforce
      then show ?thesis using assms c uc \<open>rc = Inr country\<close> m vm Inr
        by (intro disjI2 exI[of _ country] exI[of _ merchant] exI[of _ v] exI[of _ r'])
          (auto simp: onPaymentNotify_def run_go payment_handler_def split: sum.splits)
    qed
  qed
qed

end
