(* ===== verification/RefundJournal.thy ===== *)
theory RefundJournal
  imports JournalSaving
begin

text \<open>
  Refunds in the journal: the eleven entries of a refund, how their amounts come from the refund, the
  tariffs and the stored entries of the payment, and that they are stored together or not at all.
\<close>

definition refund_types :: "string list" where
  "refund_types = [AE_RealRefund, AE_RealRefundTaxFee, AE_RealRefundFee, AE_RealRefundFixedFee, AE_MerchantRefund,
     AE_MerchantRefundFee, AE_MerchantRefundFixedFeeCostValue, AE_MerchantRefundFixedFee, AE_ReverseTaxFee,
     AE_ReverseTaxFeeDelta, AE_PsReverseTaxFeeDelta]"

text \<open>An entry of the payment as it is stored.\<close>

definition stored_entry :: "ext \<Rightarrow> order \<Rightarrow> string \<Rightarrow> world \<Rightarrow> accounting_entry \<Rightarrow> bool" where
  "stored_entry X ordr tp s e \<longleftrightarrow> (\<exists>d\<in>set (w_accounting s). mgoae_Type d = tp \<and> mgoae_SourceType d = CollectionOrder \<and>
     x_oid_from_hex X (order_Id ordr) = Inr (mgoae_SourceId d) \<and> ae_from_mgo X d = Inr e)"

text \<open>
  The amounts of a refund. The refunded share of the payment is at most one (or not a number); the tax
  taken back is that share of the tax entry of the payment; the fees follow the tariffs; of the two
  tax deltas at most one is set, and neither is negative.
\<close>

definition refund_ledger :: "ext \<Rightarrow> refund \<Rightarrow> order \<Rightarrow> order \<Rightarrow> country \<Rightarrow> world \<Rightarrow> mbcm \<Rightarrow> mbcs \<Rightarrow> float64 list \<Rightarrow> bool" where
  "refund_ledger X refund ordr refundOrder country s costM costS a \<longleftrightarrow>
     (let share = refund_Amount refund div order_ChargeAmount ordr in
      \<not> flt 1 share \<and>
      (\<exists>tax. stored_entry X ordr AE_RealTaxFee s tax \<and> a ! 1 = x_to_precise X (ae_Amount tax * share)) \<and>
      a ! 2 = x_to_precise X (a ! 0 * mbcs_Percent costS) \<and>
      a ! 5 = x_to_precise X (if mbcm_IsPaidByMerchant costM then a ! 4 * mbcm_Percent costM else 0) \<and>
      (\<not> mbcm_IsPaidByMerchant costM \<longrightarrow> a ! 6 = x_to_precise X 0 \<and> a ! 7 = x_to_precise X 0) \<and>
      (if country_VatEnabled country then
         \<exists>cost fx. stored_entry X ordr AE_MerchantTaxFeeCostValue s cost \<and>
           stored_entry X ordr AE_MerchantTaxFeeCentralBankFx s fx \<and>
           a ! 8 = x_to_precise X ((ae_Amount cost + ae_Amount fx) * share)
       else a ! 8 = x_to_precise X 0) \<and>
      (\<exists>d p. a ! 9 = x_to_precise X d \<and> a ! 10 = x_to_precise X p \<and> (d = 0 \<or> p = 0) \<and> \<not> flt d 0 \<and> \<not> flt p 0 \<and>
         (\<not> country_VatEnabled country \<longrightarrow> d = 0 \<and> p = 0)))"

section \<open>The runs of the calls\<close>

lemma addEntry_posted:
  assumes "addEntry X h e s = (Inr e', t)" and "origin X h = Some og" and "ae_head e = ae_head (head_of X h og tp k)"
    and "tp \<noteq> AE_RealRefundTaxFee \<Longrightarrow> ae_Currency e = (case og of (_, _, _, c, _) \<Rightarrow> c)"
  shows "posted X h tp k e'" and "ae_Amount e' = x_to_precise X (ae_Amount e)" and "w_tick s \<le> w_tick t"
    and "w_accounting t = w_accounting s"
  using addEntry_head[OF assms(1)] assms(2-4) quiet_accounting[OF quiet_addEntry assms(1)] by (auto simp: posted_def)

lemma ApplyObjectSource_stored:
  assumes "aerepo_ApplyObjectSource X object tp (order_Id ordr) CollectionOrder blank s = (Inr e, t)"
  shows "stored_entry X ordr tp s e"
proof -
  from assms obtain oid d u v m where i: "x_oid_from_hex X (order_Id ordr) = Inr oid" and m: "ae_to_mgo X blank s = (Inr m, u)"
    and f: "find_one X w_accounting (\<lambda>d. mgoae_Object d = object \<and> mgoae_Type d = tp \<and> ae_of_source oid CollectionOrder d) u = (Inr d, v)"
    and e: "ae_from_mgo X d = Inr e"
    by (auto simp: aerepo_ApplyObjectSource_def success)
  have "w_accounting u = w_accounting s" using quiet_accounting[OF quiet_ae_to_mgo m] by simp
  moreover have "find (\<lambda>d. mgoae_Object d = object \<and> mgoae_Type d = tp \<and> ae_of_source oid CollectionOrder d) (w_accounting u) = Some d"
    using f by (auto simp: find_one_def success gets_def throw_def ret_def calling_def rpc_success split: option.splits)
  ultimately show ?thesis using i e by (auto simp: stored_entry_def find_Some_iff ae_of_source_def)
qed

lemma rnd_nonneg: "0 \<le> x \<Longrightarrow> \<not> flt (rnd x) 0"
  using round_prec_nonneg[of x 53 "-1074"] powi2_pos[of 1024]
  by (auto simp: rnd_def overflow_def zero_float64_def)

lemma negated_nonneg: "flt x 0 \<Longrightarrow> \<not> flt (Fin (-1) * x) 0"
  by (cases x) (auto simp: zero_float64_def rnd_nonneg[unfolded zero_float64_def] inf_sign_def)

lemma reverse_deltas:
  "reverse_tax_deltas X h ordr country a b s = (Inr (d, p), t) \<Longrightarrow>
    (d = 0 \<or> p = 0) \<and> \<not> flt d 0 \<and> \<not> flt p 0 \<and> (\<not> country_VatEnabled country \<longrightarrow> d = 0 \<and> p = 0)"
  by (auto simp: reverse_tax_deltas_def success Let_def negated_nonneg split: if_split_asm)

lemma stored_entry_at: "w_accounting t = w_accounting s \<Longrightarrow> stored_entry X ordr tp t = stored_entry X ordr tp s"
  by (intro ext) (simp add: stored_entry_def)

lemma reverse_entry_head [simp]:
  "ae_head (reverseTaxFee_entry share cost fx e) = ae_head e" "ae_Currency (reverseTaxFee_entry share cost fx e) = ae_Currency e"
  "ae_Amount (reverseTaxFee_entry share cost fx e) = (ae_Amount cost + ae_Amount fx) * share"
  by (simp_all add: reverseTaxFee_entry_def)

lemma refund_tax_head [simp]:
  "ae_head (realRefundTaxFee_entry share vat tax e) = ae_head e"
  "ae_Amount (realRefundTaxFee_entry share vat tax e) = ae_Amount tax * share"
  by (simp_all add: realRefundTaxFee_entry_def Let_def)

lemma reverse_tax_run:
  assumes "(if country_VatEnabled country then
       bind (newEntry X h []) (\<lambda>blank.
       bind (aerepo_ApplyObjectSource X object AE_MerchantTaxFeeCostValue (order_Id ordr) CollectionOrder blank) (\<lambda>cost.
       bind (aerepo_ApplyObjectSource X object AE_MerchantTaxFeeCentralBankFx (order_Id ordr) CollectionOrder fx0) (\<lambda>fx.
       ret (reverseTaxFee_entry share cost fx e, fx))))
     else ret (e, fx0)) s = (Inr p, t)" and og: "origin X h = Some og"
  shows "ae_head (fst p) = ae_head e \<and> ae_Currency (fst p) = ae_Currency e \<and> w_accounting t = w_accounting s \<and> w_tick s \<le> w_tick t \<and>
    (if country_VatEnabled country then \<exists>cost fx. stored_entry X ordr AE_MerchantTaxFeeCostValue s cost \<and>
        stored_entry X ordr AE_MerchantTaxFeeCentralBankFx s fx \<and> ae_Amount (fst p) = (ae_Amount cost + ae_Amount fx) * share
     else ae_Amount (fst p) = ae_Amount e)"
proof (cases "country_VatEnabled country")
  case True
  with assms obtain cost fx u v where r: "aerepo_ApplyObjectSource X object AE_MerchantTaxFeeCostValue (order_Id ordr)
        CollectionOrder (head_of X h og [] (Suc (w_tick s))) (s\<lparr>w_tick := w_tick s + 2\<rparr>) = (Inr cost, u)"
      "aerepo_ApplyObjectSource X object AE_MerchantTaxFeeCentralBankFx (order_Id ordr) CollectionOrder fx0 u = (Inr fx, v)"
      "p = (reverseTaxFee_entry share cost fx e, fx)" "t = v"
    by (auto simp: success newEntry_success[OF og])
  note q = quiet_accounting[OF quiet_ApplyObjectSource, OF r(1)] quiet_accounting[OF quiet_ApplyObjectSource, OF r(2)]
  have "stored_entry X ordr AE_MerchantTaxFeeCostValue s cost" "stored_entry X ordr AE_MerchantTaxFeeCentralBankFx s fx"
    using ApplyObjectSource_stored[OF r(1)] ApplyObjectSource_stored[OF r(2)] q by (simp_all add: stored_entry_def)
  then show ?thesis using True r(3,4) q by auto
qed (use assms in \<open>auto simp: run_Inr\<close>)

lemma posted_step:
  "posted X h tp k e \<Longrightarrow> n \<le> k \<Longrightarrow> posted_from X h (Suc k) tps es \<Longrightarrow> posted_from X h n (tp # tps) (e # es)"
  by auto

lemma refund_shape:
  assumes r: "h_refund h = Some refund" and o: "h_order h = Some ordr" and ro: "h_refundOrder h = Some refundOrder"
    and c: "h_country h = Some country" and run: "processRefundEvent X h s = (Inr es, t)"
  shows "posted_from X h (w_tick s) refund_types es \<and>
    (\<exists>costM costS. refund_ledger X refund ordr refundOrder country s costM costS (map ae_Amount es))"
proof -
  obtain og where og: "origin X h = Some og" using r ro by (simp add: origin_def)
  show ?thesis using run
    unfolding processRefundEvent_def r o ro c deref_Some bind_ret Let_def success run_case run_pair
    apply (elim exE conjE)
    subgoal premises p for _ s1 _ costM s2 costS s3 rr s4 b0 s5 _ s6 tax e7 s7 rtax s8 fee s9 rfix s10 mr s11 mfee s12 cv0 s13
      ff0 s14 pr s15 cv s16 ff s17 rt0 s18 cb0 s19 rtp s20 rt s21 d0 s22 pd0 s23 dp s24 d s25 pd s26
    proof -
      note new = p(8,11,17,18,22,23,26,27)[unfolded newEntry_success[OF og]]
      have prq: "quiet (if mbcm_IsPaidByMerchant costM then
             bind (GetExchangePsByDateCommon X h (mbcm_FixAmountCurrency costM) (mbcm_FixAmount costM)) (\<lambda>a.
             bind (GetExchangePsByDateMerchant X h (mbcm_FixAmountCurrency costM) (mbcm_FixAmount costM)) (\<lambda>b.
             ret (a, b))) else ret (0, 0))" by (intro quiet_intros)
      note tick = quiet_accounting[OF quiet_ae_queries, OF p(1)] quiet_accounting[OF quiet_h_costs(3), OF p(4)]
        quiet_accounting[OF quiet_h_costs(4), OF p(5)] quiet_accounting[OF quiet_ApplyObjectSource, OF p(9)]
        quiet_accounting[OF prq, OF p(19)]
      have prices: "\<not> mbcm_IsPaidByMerchant costM \<Longrightarrow> pr = (0, 0)" using p(19) by (simp add: success)
      obtain a1 u1 v1 k1 where P1: "posted X h AE_RealRefund k1 rr" "w_tick s3 \<le> k1" "k1 < w_tick s4"
        using post_original_success[OF og quiet_exchange(1) p(7)] by blast
      obtain k3 where P3: "posted X h AE_RealRefundFee k3 fee" "w_tick s8 \<le> k3" "k3 < w_tick s9"
        using post_success[OF og quiet_pure(1) p(13)] by blast
      obtain k4 where P4: "posted X h AE_RealRefundFixedFee k4 rfix" "w_tick s9 \<le> k4" "k4 < w_tick s10"
        using post_success[OF og quiet_exchange(1) p(14)] by blast
      obtain k5 where P5: "posted X h AE_MerchantRefund k5 mr" "w_tick s10 \<le> k5" "k5 < w_tick s11"
        using post_success[OF og quiet_exchange(2) p(15)] by blast
      obtain k6 where P6: "posted X h AE_MerchantRefundFee k6 mfee" "w_tick s11 \<le> k6" "k6 < w_tick s12"
        using post_success[OF og quiet_pure(1) p(16)] by blast
      note rev = reverse_tax_run[OF p(24) og]
      have rf: "AE_MerchantRefundFixedFee \<noteq> AE_RealRefundTaxFee" by (simp add: entry_types)
      have P2: "posted X h AE_RealRefundTaxFee (Suc (w_tick s6)) rtax" "w_tick s7 \<le> w_tick s8"
        "ae_Amount rtax = x_to_precise X (ae_Amount tax * (refund_Amount refund div order_ChargeAmount ordr))"
        using addEntry_posted[OF p(12) og, of AE_RealRefundTaxFee "Suc (w_tick s6)"] new by simp_all
      have P7: "posted X h AE_MerchantRefundFixedFeeCostValue (Suc (w_tick s12)) cv" "w_tick s15 \<le> w_tick s16"
        "ae_Amount cv = x_to_precise X (fst pr)"
        using addEntry_posted[OF p(20) og, of AE_MerchantRefundFixedFeeCostValue "Suc (w_tick s12)"] new by simp_all
      have P8: "posted X h AE_MerchantRefundFixedFee (Suc (w_tick s13)) ff" "w_tick s16 \<le> w_tick s17"
        "ae_Amount ff = x_to_precise X (snd pr)"
        using addEntry_posted[OF p(21) og, of AE_MerchantRefundFixedFee "Suc (w_tick s13)"] new by simp_all
      have P9: "posted X h AE_ReverseTaxFee (Suc (w_tick s17)) rt" "w_tick s20 \<le> w_tick s21"
        "ae_Amount rt = x_to_precise X (ae_Amount (fst rtp))"
        using addEntry_posted[OF p(25) og, of AE_ReverseTaxFee "Suc (w_tick s17)"] new rev by simp_all
      have P10: "posted X h AE_ReverseTaxFeeDelta (Suc (w_tick s21)) d" "ae_Amount d = x_to_precise X (fst dp)"
        using addEntry_posted[OF p(29) og, of AE_ReverseTaxFeeDelta "Suc (w_tick s21)"] new by simp_all
      have P11: "posted X h AE_PsReverseTaxFeeDelta (Suc (w_tick s22)) pd" "ae_Amount pd = x_to_precise X (snd dp)"
        using addEntry_posted[OF p(30) og, of AE_PsReverseTaxFeeDelta "Suc (w_tick s22)"] new by simp_all
      have "posted_from X h (w_tick s) refund_types es"
        unfolding refund_types_def p(31)
        apply (rule posted_step[OF P1(1)], use tick P1 in simp)
        apply (rule posted_step[OF P2(1)], use tick new P1 in simp)
        apply (rule posted_step[OF P3(1)], use new P2 P3 in simp)
        apply (rule posted_step[OF P4(1)], use P3 P4 in simp)
        apply (rule posted_step[OF P5(1)], use P4 P5 in simp)
        apply (rule posted_step[OF P6(1)], use P5 P6 in simp)
        apply (rule posted_step[OF P7(1)], use P6 in simp)
        apply (rule posted_step[OF P8(1)], use new in simp)
        apply (rule posted_step[OF P9(1)], use new tick P7 P8 in simp)
        apply (rule posted_step[OF P10(1)], use new tick P9 rev in simp)
        apply (rule posted_step[OF P11(1)], use new in simp)
        by simp
      moreover have "refund_ledger X refund ordr refundOrder country s costM costS (map ae_Amount es)"
      proof -
        note acc = tick new quiet_accounting[OF quiet_post(2)[OF quiet_exchange(1)], OF p(7)]
          quiet_accounting[OF quiet_post(1)[OF quiet_pure(1)], OF p(13)] quiet_accounting[OF quiet_post(1)[OF quiet_exchange(1)], OF p(14)]
          quiet_accounting[OF quiet_post(1)[OF quiet_exchange(2)], OF p(15)] quiet_accounting[OF quiet_post(1)[OF quiet_pure(1)], OF p(16)]
          quiet_accounting[OF quiet_addEntry, OF p(12)] quiet_accounting[OF quiet_addEntry, OF p(20)]
          quiet_accounting[OF quiet_addEntry, OF p(21)]
        have at: "w_accounting s5 = w_accounting s" "w_accounting s19 = w_accounting s" using acc by simp_all
        have fees: "ae_Amount fee = x_to_precise X (ae_Amount rr * mbcs_Percent costS)"
          "ae_Amount mfee = x_to_precise X (if mbcm_IsPaidByMerchant costM then ae_Amount mr * mbcm_Percent costM else 0)"
          using post_ret_amount[OF p(13) og] post_ret_amount[OF p(16) og] .
        have tx: "stored_entry X ordr AE_RealTaxFee s tax"
          using ApplyObjectSource_stored[of X _ AE_RealTaxFee ordr b0 s5 tax s6] p(9,10) at(1) by (simp add: stored_entry_def)
        have dl: "(fst dp = 0 \<or> snd dp = 0) \<and> \<not> flt (fst dp) 0 \<and> \<not> flt (snd dp) 0 \<and>
            (\<not> country_VatEnabled country \<longrightarrow> fst dp = 0 \<and> snd dp = 0)"
          using reverse_deltas[of X h ordr country _ _ s23 "fst dp" "snd dp" s24] p(28) by simp
        have rt: "if country_VatEnabled country then \<exists>cost fx. stored_entry X ordr AE_MerchantTaxFeeCostValue s cost \<and>
            stored_entry X ordr AE_MerchantTaxFeeCentralBankFx s fx \<and>
            ae_Amount rt = x_to_precise X ((ae_Amount cost + ae_Amount fx) * (refund_Amount refund div order_ChargeAmount ordr))
          else ae_Amount rt = x_to_precise X 0"
          using rev new P9(3) at(2) by (auto simp: stored_entry_def head_of_def split: if_splits prod.splits)
        show ?thesis unfolding refund_ledger_def p(31) Let_def
          using p(6) tx P2(3) fees prices P7(3) P8(3) rt P10(2) P11(2) dl
          by (intro conjI) auto
      qed
      ultimately show ?thesis by blast
    qed
    done
qed

section \<open>A refund notification as a whole\<close>

lemma quiet_prefix:
  assumes "bind m k s = (r, t)" and "quiet m"
  shows "(\<exists>e. r = Inl e \<and> w_accounting t = w_accounting s) \<or>
    (\<exists>a u. k a u = (r, t) \<and> w_accounting u = w_accounting s \<and> w_tick s \<le> w_tick u)"
proof -
  obtain r1 u where m: "m s = (r1, u)" by (cases "m s")
  show ?thesis using assms(1) m quiet_accounting[OF assms(2) m] by (cases r1) (auto simp: bind_def)
qed

definition refund_handler :: "refund \<Rightarrow> order \<Rightarrow> order \<Rightarrow> merchant \<Rightarrow> country \<Rightarrow> handler" where
  "refund_handler refund ordr refundOrder merchant country = \<lparr>h_order = Some ordr, h_refund = Some refund,
     h_refundOrder = Some refundOrder, h_merchant = Some merchant, h_country = Some country,
     h_datetime = order_PaymentMethodOrderClosedAt refundOrder, h_req = None\<rparr>"

lemma onRefundNotify_steps:
  assumes "onRefundNotify X refund ordr s = (r, t)" and "x_order_public_status X ordr \<in> set processableOrderStatus"
  shows "(w_accounting t = w_accounting s \<and> r \<noteq> Inr ()) \<or>
    (\<exists>country refundOrder merchant u r'. w_accounting u = w_accounting s \<and> w_tick s \<le> w_tick u \<and>
      processEvent X (refund_handler refund ordr refundOrder merchant country) Refunding u = (r', t) \<and>
      (r = Inr () \<longleftrightarrow> (\<exists>es. r' = Inr es)))"
proof (rule disjCI)
  assume no: "\<not> (\<exists>country refundOrder merchant u r'. w_accounting u = w_accounting s \<and> w_tick s \<le> w_tick u \<and>
      processEvent X (refund_handler refund ordr refundOrder merchant country) Refunding u = (r', t) \<and>
      (r = Inr () \<longleftrightarrow> (\<exists>es. r' = Inr es)))"
  have b: "bind (country_GetByIsoCodeA2 X (x_order_country X ordr)) (\<lambda>country.
      bind (getOrderById X (refund_CreatedOrderId refund)) (\<lambda>refundOrder.
      bind (replace_err merchantErrorNotFound (merchant_GetById X (x_order_merchant_id X refundOrder))) (\<lambda>merchant.
      bind (processEvent X (refund_handler refund ordr refundOrder merchant country) Refunding) (\<lambda>_. ret ())))) s = (r, t)"
    using assms by (simp add: onRefundNotify_def refund_handler_def)
  show "w_accounting t = w_accounting s \<and> r \<noteq> Inr ()"
    using quiet_prefix[OF b quiet_lookups(1)]
  proof (elim disjE exE conjE, goal_cases)
    case (2 country u)
    show ?case using quiet_prefix[OF 2(1) quiet_lookups(3)]
    proof (elim disjE exE conjE, goal_cases)
      case (2 refundOrder v)
      show ?case using quiet_prefix[OF 2(1) quiet_replace_err[OF quiet_lookups(2)]]
      proof (elim disjE exE conjE, goal_cases)
        case (2 merchant w)
        obtain r' z where p: "processEvent X (refund_handler refund ordr refundOrder merchant country) Refunding w = (r', z)" by fastforce
        have "z = t \<and> (r = Inr () \<longleftrightarrow> (\<exists>es. r' = Inr es))" using 2(1) p by (cases r') (auto simp: run_go)
        then have False using no p 2(2,3) \<open>w_accounting v = w_accounting u\<close> \<open>w_accounting u = w_accounting s\<close>
          \<open>w_tick u \<le> w_tick v\<close> \<open>w_tick s \<le> w_tick u\<close> by (metis order_trans)
        then show ?case ..
      qed (use \<open>w_accounting u = w_accounting s\<close> 2 in auto)
    qed (use 2 in auto)
  qed auto
qed

lemma refund_ledger_at:
  assumes "w_accounting t = w_accounting s"
  shows "refund_ledger X refund ordr refundOrder country t = refund_ledger X refund ordr refundOrder country s"
  unfolding refund_ledger_def stored_entry_at[OF assms] ..

end
