(* ===== verification/JournalRun.thy ===== *)
theory JournalRun
  imports JournalSaving
begin

text \<open>
  Events that run to completion: when no call fails and tariffs are in place, a payment event gets
  all the way through. The rules are those of total correctness for computations that keep a
  condition on the collections; the end of the theory is a concrete payment.
\<close>

section \<open>Total correctness\<close>

definition ok :: "(world \<Rightarrow> bool) \<Rightarrow> 'a io \<Rightarrow> ('a \<Rightarrow> bool) \<Rightarrow> bool" where
  "ok I m P \<longleftrightarrow> (\<forall>s. I s \<longrightarrow> (\<exists>a t. m s = (Inr a, t) \<and> I t \<and> P a))"

definition tick_up :: "(world \<Rightarrow> bool) \<Rightarrow> bool" where
  "tick_up I \<longleftrightarrow> (\<forall>s n. I s \<and> w_tick s \<le> n \<longrightarrow> I (s\<lparr>w_tick := n\<rparr>))"

named_theorems ok_intros \<open>computations that complete\<close>

lemma okD: "ok I m P \<Longrightarrow> I s \<Longrightarrow> \<exists>a t. m s = (Inr a, t) \<and> I t \<and> P a"
  by (simp add: ok_def)

lemma ok_bind: "ok I m P \<Longrightarrow> (\<And>a. P a \<Longrightarrow> ok I (k a) Q) \<Longrightarrow> ok I (bind m k) Q"
  unfolding ok_def bind_def by fastforce

lemma ok_after: "m s = (Inr a, s') \<Longrightarrow> I s' \<Longrightarrow> ok I (k a) P \<Longrightarrow> \<exists>b t. bind m k s = (Inr b, t) \<and> I t"
  unfolding ok_def bind_def by fastforce

lemma ok_result: "ok I m P \<Longrightarrow> (\<And>s a t. m s = (Inr a, t) \<Longrightarrow> Q a) \<Longrightarrow> ok I m Q"
  unfolding ok_def by metis

lemma ok_any: "ok I m P \<Longrightarrow> ok I m (\<lambda>_. True)"
  unfolding ok_def by blast

lemma ok_ret [ok_intros]: "P a \<Longrightarrow> ok I (ret a) P"
  by (simp add: ok_def run_simps)

lemma ok_attempt [ok_intros]: "ok I m P \<Longrightarrow> ok I (attempt m) (\<lambda>r. \<exists>a. r = Inr a \<and> P a)"
  unfolding ok_def attempt_def by fastforce

lemma ok_replace_err [ok_intros]: "ok I m P \<Longrightarrow> ok I (replace_err e m) P"
  unfolding ok_def replace_err_def by fastforce

lemma ok_reading [ok_intros]: "tick_up I \<Longrightarrow> ok I (reading f) (\<lambda>_. True)"
  by (auto simp: ok_def tick_up_def)

lemma ok_rpc [ok_intros]: "tick_up I \<Longrightarrow> (\<And>n. \<exists>a. f n = Inr a) \<Longrightarrow> ok I (rpc f) (\<lambda>_. True)"
  unfolding ok_def tick_up_def
  by (metis run_rpc lessI less_imp_le)

text \<open>Exchange rates and rounding that answer every request.\<close>

definition answers :: "ext \<Rightarrow> bool" where
  "answers X \<longleftrightarrow> (\<forall>n r. \<exists>a. x_exchange_common X n r = Inr a) \<and>
     (\<forall>n m r. \<exists>a. x_exchange_merchant X n m r = Inr a) \<and> (\<forall>n k v. \<exists>a. x_money_round X n k v = Inr a)"

lemma ok_exchange [ok_intros]:
  assumes "answers X" and "tick_up I" and "h_order h = Some ordr"
  shows "ok I (GetExchangePsByDateCommon X h c a) (\<lambda>_. True)" "ok I (GetExchangePsByDateMerchant X h c a) (\<lambda>_. True)"
    "ok I (GetExchangeStockByDateCommon X h c a) (\<lambda>_. True)"
  using assms
  by (auto simp: answers_def GetExchangePsByDateCommon_def GetExchangePsByDateMerchant_def
      GetExchangeStockByDateCommon_def GetExchangeByDateCommon_def GetExchangeByDateMerchant_def Let_def
      intro!: ok_intros)

lemma ok_exchange_cb [ok_intros]:
  assumes "answers X" and "tick_up I" and "h_country h = Some c'"
  shows "ok I (GetExchangeCbByDateCommon X h c a) (\<lambda>_. True)"
  using assms
  by (auto simp: answers_def GetExchangeCbByDateCommon_def GetExchangeByDateCommon_def Let_def intro!: ok_intros)

section \<open>Entries\<close>

lemma ok_round_entry:
  assumes "answers X" and "tick_up I"
  shows "ok I (round_entry X e) (\<lambda>_. True)"
  unfolding round_entry_def service_round_def Let_def
  by (rule ok_bind[OF ok_replace_err[OF ok_rpc]] ok_ret TrueI assms(2) | use assms(1) in \<open>simp add: answers_def; fail\<close>)+

lemma ok_fill_local:
  assumes "answers X" and "tick_up I" and "ok I (local_currency X h) (\<lambda>_. True)"
  shows "ok I (fill_local X h e) (\<lambda>_. True)"
proof -
  have "ok I (rpc (\<lambda>n. x_exchange_common X n r)) (\<lambda>_. True)" for r
    using assms(1) by (intro ok_rpc[OF assms(2)]) (simp add: answers_def)
  then show ?thesis unfolding fill_local_def Let_def
    by (auto intro!: ok_bind[OF assms(3)] ok_ret ok_bind[OF ok_replace_err] split: prod.split)
qed

lemma ok_newEntry:
  "origin X h = Some og \<Longrightarrow> tick_up I \<Longrightarrow> ok I (newEntry X h tp) (\<lambda>e. \<exists>n. e = head_of X h og tp n)"
  by (auto simp: ok_def newEntry_run tick_up_def)

lemma ok_addEntry:
  assumes "answers X" and "tick_up I" and "ok I (local_currency X h) (\<lambda>_. True)"
    and "ae_Type e \<in> set availableAccountingEntries" and "ae_Source e = Some src"
    and "aesrc_Type src \<in> set availableAccountingEntriesSourceTypes" and "aesrc_Id src \<noteq> []"
  shows "ok I (addEntry X h e) (\<lambda>_. True)"
proof -
  have "ok I (bind (fill_local X h e') (round_entry X)) (\<lambda>_. True)" for e'
    by (rule ok_bind[OF ok_fill_local[OF assms(1-3)] ok_round_entry[OF assms(1,2)]])
  moreover have "addEntry X h e = bind (fill_local X h (fill_original e)) (round_entry X)"
    using assms(4-7) by (simp add: addEntry_def)
  ultimately show ?thesis by simp
qed

lemma ok_post:
  assumes "answers X" and "tick_up I" and "ok I (local_currency X h) (\<lambda>_. True)"
    and "origin X h = Some (created, Some src, m, cur, oc)" and "tp \<in> set availableAccountingEntries"
    and "aesrc_Type src \<in> set availableAccountingEntriesSourceTypes" and "aesrc_Id src \<noteq> []" and "ok I amount (\<lambda>_. True)"
  shows "ok I (post X h tp amount) (\<lambda>_. True)" and "ok I (post_original X h tp amount v c) (\<lambda>_. True)"
proof -
  have s: "ae_Source (head_of X h (created, Some src, m, cur, oc) tp n) = Some src" for n
    by (simp add: head_of_def)
  show "ok I (post X h tp amount) (\<lambda>_. True)" "ok I (post_original X h tp amount v c) (\<lambda>_. True)"
    unfolding post_def post_original_def
    by (auto intro!: ok_bind[OF ok_newEntry[OF assms(4,2)]] ok_bind[OF assms(8)] ok_addEntry[OF assms(1-3)] assms(5-7) simp: s assms(5-7))
qed

section \<open>A payment event\<close>

lemma payment_types_available: "set payment_types \<subseteq> set availableAccountingEntries"
  by (simp add: payment_types_def availableAccountingEntries_def)

lemma payment_completes:
  assumes b: "answers X" and t: "tick_up I" and lc: "ok I (local_currency X h) (\<lambda>_. True)"
    and o: "h_order h = Some ordr" and c: "h_country h = Some country" and n: "h_refund h = None"
    and i: "order_Id ordr \<noteq> []"
    and new: "aerepo_GetByObjectSource X ObjectTypeBalanceTransaction (order_Id ordr) CollectionOrder s = (Inl err, s')" "I s'"
    and gr: "\<And>e s t. post_original X h AE_RealGrossRevenue
        (GetExchangePsByDateCommon X h (order_ChargeCurrency ordr) (order_ChargeAmount ordr))
        (order_ChargeAmount ordr) (order_ChargeCurrency ordr) s = (Inr e, t) \<Longrightarrow> gross (ae_Amount e)"
    and cm: "\<And>a. gross a \<Longrightarrow> ok I (h_getPaymentChannelCostMerchant X h a) (\<lambda>_. True)"
    and cs: "ok I (h_getPaymentChannelCostSystem X h) (\<lambda>_. True)"
  shows "\<exists>es t. processPaymentEvent X h s = (Inr es, t) \<and> I t"
proof -
  have og: "origin X h = Some (order_PaymentMethodOrderClosedAt ordr, Some \<lparr>aesrc_Id = order_Id ordr, aesrc_Type = CollectionOrder\<rparr>,
      x_order_merchant_id X ordr, x_order_royalty_currency X ordr, order_OperatingCompanyId ordr)"
    using o n by (simp add: origin_def)
  have st: "aesrc_Type \<lparr>aesrc_Id = order_Id ordr, aesrc_Type = CollectionOrder\<rparr> \<in> set availableAccountingEntriesSourceTypes"
    by (simp add: availableAccountingEntriesSourceTypes_def)
  have si: "aesrc_Id \<lparr>aesrc_Id = order_Id ordr, aesrc_Type = CollectionOrder\<rparr> \<noteq> []" using i by simp
  note P = ok_post[OF b t lc og _ st si]
  have av: "tp \<in> set payment_types \<Longrightarrow> tp \<in> set availableAccountingEntries" for tp
    using payment_types_available by blast
  have ex: "ok I (GetExchangePsByDateCommon X h cur a) (\<lambda>_. True)" "ok I (GetExchangePsByDateMerchant X h cur a) (\<lambda>_. True)"
    "ok I (GetExchangeStockByDateCommon X h cur a) (\<lambda>_. True)" "ok I (GetExchangeCbByDateCommon X h cur a) (\<lambda>_. True)" for cur a
    using ok_exchange[OF b t o] ok_exchange_cb[OF b t c] by auto
  have tp: "set [AE_RealGrossRevenue, AE_RealTaxFee, AE_CentralBankTaxFee, AE_PsGrossRevenueFx,
     AE_PsGrossRevenueFxTaxFee, AE_MerchantTaxFeeCostValue, AE_MerchantTaxFeeCentralBankFx, AE_PsMethodFee,
     AE_MerchantMethodFee, AE_MerchantMethodFeeCostValue, AE_MerchantMethodFixedFee, AE_RealMerchantMethodFixedFee,
     AE_RealMerchantMethodFixedFeeCostValue, AE_MerchantPsFixedFee, AE_RealMerchantPsFixedFee] \<subseteq> set availableAccountingEntries"
    using payment_types_available by (simp only: payment_types_def)
  have r: "ok I (ret a) (\<lambda>_. True)" for a :: float64 by (rule ok_ret) simp
  have at: "attempt (aerepo_GetByObjectSource X ObjectTypeBalanceTransaction (order_Id ordr) CollectionOrder) s = (Inr (Inl err), s')"
    using new(1) by (simp add: attempt_def)
  show ?thesis
    unfolding processPaymentEvent_def o c deref_Some bind_ret Let_def
    apply (rule ok_after[where I = I and s = s and m = "attempt (aerepo_GetByObjectSource X ObjectTypeBalanceTransaction
          (order_Id ordr) CollectionOrder)", OF at new(2)])
    apply (simp only: sum.case)
    apply (rule ok_bind[OF ok_result[OF P(2) gr]])
    using tp
      apply (auto intro!: ex(1))[2]
     apply assumption
    using tp
    by (intro ok_bind[OF P(2)] ok_bind[OF P(1)] ok_bind[OF ok_newEntry[OF og t]] ok_bind[OF cm] ok_bind[OF cs] ok_ret TrueI
        ex r) (auto intro!: ok_bind[OF ex(1)] ok_bind[OF ex(2)] ok_bind[OF ex(3)] ok_bind[OF ex(4)] ok_ret)
qed

section \<open>Saving\<close>

lemma try_go_ret [simp]: "try_go (ret a) = ret (Inr a)"
  by (simp add: try_go_def attempt_def ret_def bind_def)

lemma posted_encodes:
  assumes "codecs_ok X" and "posted X h tp n e" and "origin X h = Some (Some ts, Some src, m, cur, oc)"
    and "x_oid_from_hex X m = Inr d" and "x_oid_from_hex X (aesrc_Id src) = Inr d'" and "x_timestamp X (Some ts) = Inr v"
  shows "\<exists>doc. ae_to_mgo X e = ret doc"
  using posted_fields(2-4,6,7)[OF assms(2,3)] assms(1,4-6)
  by (simp add: ae_to_mgo_def oid_or_new_def time_or_now_def time_or_zero_def codecs_hex)

lemma posted_from_encodes:
  assumes "codecs_ok X" and "origin X h = Some (Some ts, Some src, m, cur, oc)"
    and "x_oid_from_hex X m = Inr d" and "x_oid_from_hex X (aesrc_Id src) = Inr d'" and "x_timestamp X (Some ts) = Inr v"
  shows "posted_from X h n tps es \<Longrightarrow> \<exists>docs. map_entries X es = ret (map Inr docs)"
proof (induction es arbitrary: n tps)
  case (Cons e es)
  then obtain tp tps' k where k: "posted X h tp k e" "posted_from X h (Suc k) tps' es" by (cases tps) auto
  obtain doc where d: "ae_to_mgo X e = ret doc" using posted_encodes[OF assms(1) k(1) assms(2-5)] by blast
  obtain docs where "map_entries X es = ret (map Inr docs)" using Cons.IH[OF k(2)] by blast
  then show ?case using d by (intro exI[of _ "doc # docs"]) simp
qed simp

lemma map_err_id_Inr [simp]: "map_err id (map Inr docs) = Inr docs"
  by (induction docs) auto

lemma insert_completes:
  assumes "x_fault X (w_tick s) = None" and "map_entries X es = ret (map Inr docs)" and "docs \<noteq> []"
    and "insert_docs mgoae_Id docs (w_accounting s) = (ds, True)"
  shows "aerepo_MultipleInsert X es s = (Inr (), s\<lparr>w_tick := Suc (w_tick s), w_accounting := ds\<rparr>)"
  using assms by (simp add: aerepo_MultipleInsert_def run_go calling_def)

text \<open>An event whose entries have been computed is saved, and the order view refreshed.\<close>

lemma event_completes:
  assumes X: "codecs_ok X" "\<forall>n\<ge>w_tick u. x_fault X n = None" "0 < x_order_view_batch X" and fresh: "fresh_ids X s" "w_accounting u = w_accounting s"
    and og: "origin X h = Some (Some ts, Some src, m, cur, oc)" and pf: "posted_from X h (w_tick s) tps es" "tps \<noteq> []"
    and dec: "x_oid_from_hex X m = Inr d" "x_oid_from_hex X (aesrc_Id src) = Inr d'" "x_timestamp X (Some ts) = Inr v"
    and pl: "event_paylinks h = ret []" and vr: "\<forall>i\<in>set (event_ids h). view_ready X (w_orders u) i"
  shows "\<exists>t docs. saveAccountingEntries X h es u = (Inr (), t) \<and> w_accounting t = w_accounting u @ docs \<and>
    list_all2 (entry_doc X) es docs"
proof -
  obtain docs where d: "map_entries X es = ret (map Inr docs)" using posted_from_encodes[OF X(1) og dec pf(1)] by blast
  then have l: "list_all2 (entry_doc X) es docs" using map_entries_docs[of X es u "map Inr docs" u docs] by (simp add: ret_def)
  have "es \<noteq> []" using pf by (cases tps; cases es) auto
  then have ne: "docs \<noteq> []" using l by auto
  have i: "insert_docs mgoae_Id docs (w_accounting u) = (w_accounting u @ docs, True)"
    using fresh by (intro posted_inserted[OF X(1) _ _ pf(1) l]) (auto simp: fresh_ids_def)
  note mi = insert_completes[OF X(2)[rule_format, OF order_refl] d ne i]
  show ?thesis
  proof (cases "event_ids h")
    case Nil then show ?thesis using l by (simp add: saveAccountingEntries_def run_go mi pl)
  next
    case (Cons i ids)
    let ?v = "u\<lparr>w_tick := Suc (w_tick u), w_accounting := w_accounting u @ docs\<rparr>"
    have "\<exists>t. for_each (event_ids h) (refresh_view X) ?v = (Inr (), t)"
      using X(2) vr by (intro refresh_all_complete) auto
    then obtain t where t: "updateOrderView X (event_ids h) ?v = (Inr (), t)"
      using Cons order_view_batches[OF X(3), of "event_ids h"] by auto
    have "w_accounting t = w_accounting u @ docs"
      by (rule keepsD[OF keeps_updateOrderView _ t]) (simp_all add: view_stable_def)
    then show ?thesis using l Cons t by (auto simp: saveAccountingEntries_def run_go mi pl)
  qed
qed

end
