(* ===== verification/Payments.thy ===== *)
theory Payments
  imports JournalRun
begin

text \<open>
  Payments in the journal: the entries of a payment are stored together or not at all, their amounts
  are those of the ledger, and a second notification of the same payment stores nothing.
\<close>

lemma no_refund_tax: "AE_RealRefundTaxFee \<notin> set payment_types"
  by (simp add: payment_types_def entry_types)

text \<open>C1: A payment notification stores all fifteen entries of the payment or none. Whatever fails on the
  way, the journal is either unchanged or has grown by one entry of each payment type, in order, all of the
  order, its merchant and the royalty currency, with the amounts of the payment ledger; and a notification
  that succeeds for an order in a processable status has stored them.\<close>

theorem payment_all_or_nothing:
  assumes "codecs_ok X" and "fresh_ids X s" and "onPaymentNotify X ordr s = (r, t)"
  shows "\<exists>docs. w_accounting t = w_accounting s @ docs \<and>
    (docs \<noteq> [] \<longrightarrow> map mgoae_Type docs = payment_types \<and>
      (\<forall>d\<in>set docs. x_oid_from_hex X (order_Id ordr) = Inr (mgoae_SourceId d) \<and> mgoae_SourceType d = CollectionOrder \<and>
         x_oid_from_hex X (x_order_merchant_id X ordr) = Inr (mgoae_MerchantId d) \<and>
         mgoae_Object d = ObjectTypeBalanceTransaction \<and> mgoae_Currency d = x_order_royalty_currency X ordr) \<and>
      (\<exists>country costM costS. payment_ledger X ordr country costM costS (map mgoae_Amount docs))) \<and>
    (r = Inr () \<and> x_order_public_status X ordr \<in> set processableOrderStatus \<longrightarrow> docs \<noteq> [])"
proof (cases "x_order_public_status X ordr \<in> set processableOrderStatus")
  case False
  then show ?thesis using assms(3) by (intro exI[of _ "[]"]) (simp add: onPaymentNotify_def run_go)
next
  case True
  from onPaymentNotify_steps[OF assms(3) True] show ?thesis
  proof
    assume "w_accounting t = w_accounting s \<and> r \<noteq> Inr ()"
    then show ?thesis by (intro exI[of _ "[]"]) simp
  next
    assume "\<exists>country merchant u r'. w_accounting u = w_accounting s \<and> w_tick s \<le> w_tick u \<and>
      processEvent X (payment_handler ordr country merchant) Payment u = (r', t) \<and> (r = Inr () \<longleftrightarrow> (\<exists>es. r' = Inr es))"
    then obtain country merchant u r' where u: "w_accounting u = w_accounting s" "w_tick s \<le> w_tick u"
      and run: "processEvent X (payment_handler ordr country merchant) Payment u = (r', t)"
      and r: "r = Inr () \<longleftrightarrow> (\<exists>es. r' = Inr es)" by blast
    let ?h = "payment_handler ordr country merchant"
    have h: "h_order ?h = Some ordr" "h_country ?h = Some country" "h_refund ?h = None"
      by (simp_all add: payment_handler_def)
    have og: "origin X ?h = Some (order_PaymentMethodOrderClosedAt ordr,
        Some \<lparr>aesrc_Id = order_Id ordr, aesrc_Type = CollectionOrder\<rparr>, x_order_merchant_id X ordr,
        x_order_royalty_currency X ordr, order_OperatingCompanyId ordr)"
      by (simp add: origin_def payment_handler_def)
    note shape = payment_shape[OF h]
    have "fresh_ids X u" using assms(2) u(2,1) by (rule fresh_ids_mono)
    from event_result[OF assms(1) this quiet_payment conjunct1[OF shape] run[unfolded processEvent_def, simplified]]
    show ?thesis
    proof
      assume "w_accounting t = w_accounting u \<and> (\<forall>es. r' \<noteq> Inr es)"
      then show ?thesis using u r by (intro exI[of _ "[]"]) simp
    next
      assume "\<exists>es docs v. processPaymentEvent X ?h u = (Inr es, v) \<and> list_all2 (entry_doc X) es docs \<and>
        w_accounting t = w_accounting u @ docs"
      then obtain es docs v where e: "processPaymentEvent X ?h u = (Inr es, v)" "list_all2 (entry_doc X) es docs"
        "w_accounting t = w_accounting u @ docs" by blast
      have am: "map mgoae_Amount docs = map ae_Amount es"
        using e(2) by (induction rule: list_all2_induct) (auto simp: entry_doc_def)
      have ty: "map mgoae_Type docs = payment_types" using posted_types[OF conjunct1[OF shape[OF e(1)]] e(2)] .
      have "mgoae_Type d \<in> set payment_types" if "d \<in> set docs" for d
        using that unfolding ty[symmetric] by simp
      then have "\<forall>d\<in>set docs. mgoae_Type d \<noteq> AE_RealRefundTaxFee" using no_refund_tax by metis
      then have D: "\<forall>d\<in>set docs. x_oid_from_hex X (order_Id ordr) = Inr (mgoae_SourceId d) \<and> mgoae_SourceType d = CollectionOrder \<and>
         x_oid_from_hex X (x_order_merchant_id X ordr) = Inr (mgoae_MerchantId d) \<and>
         mgoae_Object d = ObjectTypeBalanceTransaction \<and> mgoae_Currency d = x_order_royalty_currency X ordr"
        using posted_docs[OF conjunct1[OF shape[OF e(1)]] e(2) og] by simp
      have L: "\<exists>country costM costS. payment_ledger X ordr country costM costS (map mgoae_Amount docs)"
        unfolding am using conjunct2[OF shape[OF e(1)]] by blast
      have N: "docs \<noteq> []" using ty by (auto simp: payment_types_def)
      show ?thesis using e(3) u(1) ty D L N by (intro exI[of _ docs] conjI impI) simp_all
    qed
  qed
qed

section \<open>A payment\<close>

text \<open>The sample payment, with its tariffs in the cache.\<close>

definition sample_pccs :: pccs where
  "sample_pccs = \<lparr>pccs_Id = sample_hex 8, pccs_Name = ''VISA'', pccs_Region = ''europe'', pccs_Country = ''DE'',
     pccs_Percent = Fin 0, pccs_FixAmount = Fin 1, pccs_FixAmountCurrency = ''EUR'',
     pccs_CreatedAt = Some (Timestamp 0 0), pccs_UpdatedAt = Some (Timestamp 0 0), pccs_IsActive = True,
     pccs_MccCode = ''m'', pccs_OperatingCompanyId = ''oc''\<rparr>"

definition sample_tariff_cache :: "string \<rightharpoonup> cached" where
  "sample_tariff_cache =
    [cachePaymentChannelCostMerchantKey (sample_hex 2) ''VISA'' ''EUR'' ''europe'' ''DE'' ''m'' \<mapsto>
       CachedPccmSets [(''DE'', [region_tariff (Fin 1)])],
     cachePaymentChannelCostSystemKey ''VISA'' ''europe'' ''DE'' ''m'' ''oc'' \<mapsto> CachedPccs sample_pccs]"

definition payment_world :: world where
  "payment_world = empty_world\<lparr>w_merchants := [sample_merchant], w_countries := [sample_country],
     w_price_groups := [\<lparr>pg_Id = ''g'', pg_Currency = ''EUR'', pg_Region = ''EUR'', pg_IsActive = True\<rparr>], w_cache := sample_tariff_cache,
     w_orders := [sample_order_doc]\<rparr>"

text \<open>A schedule in which at most one call fails.\<close>

definition failing :: "nat option \<Rightarrow> ext" where
  "failing K = sample_ext\<lparr>x_fault := (\<lambda>n. if K = Some n then Some (ErrOther ''timeout'') else None)\<rparr>"

lemma failing_never: "failing None = sample_ext"
  by (simp add: failing_def sample_ext_def)

text \<open>The state in which the tariffs of the payment are found and every later call succeeds.\<close>

definition payment_ready :: "nat option \<Rightarrow> world \<Rightarrow> bool" where
  "payment_ready K s \<longleftrightarrow> (\<forall>k. K = Some k \<longrightarrow> k < w_tick s) \<and> w_cache s = sample_tariff_cache \<and>
     w_price_groups s = [\<lparr>pg_Id = ''g'', pg_Currency = ''EUR'', pg_Region = ''EUR'', pg_IsActive = True\<rparr>]"

lemma payment_ready_up: "tick_up (payment_ready K)"
  by (auto simp: tick_up_def payment_ready_def)

lemma payment_ready_fault: "payment_ready K s \<Longrightarrow> x_fault (failing K) (w_tick s) = None"
  by (auto simp: payment_ready_def failing_def)

lemma failing_answers: "answers (failing K)"
  by (simp add: answers_def sample_ext_def failing_def)

lemma failing_codecs: "codecs_ok (failing K)"
  using sample_codecs_ok by (simp add: failing_def codecs_ok_def)

abbreviation sample_handler :: handler where
  "sample_handler \<equiv> payment_handler sample_order sample_country sample_merchant"

lemmas sample_accessors = failing_def sample_ext_def sample_order_defs sample_country_def sample_merchant_def payment_handler_def

lemma failing_call [simp]: "payment_ready K s \<Longrightarrow> calling (failing K) s = (Inr (), s\<lparr>w_tick := Suc (w_tick s)\<rparr>)"
  by (simp add: calling_def payment_ready_fault)

lemma payment_ready_tick [simp]: "payment_ready K s \<Longrightarrow> payment_ready K (s\<lparr>w_tick := Suc (w_tick s)\<rparr>)"
  by (auto simp: payment_ready_def)

lemma sample_local_currency: "ok (payment_ready K) (local_currency (failing K) sample_handler) (\<lambda>_. True)"
proof -
  have "payment_ready K s \<Longrightarrow> w_price_groups s = [\<lparr>pg_Id = ''g'', pg_Currency = ''EUR'', pg_Region = ''EUR'', pg_IsActive = True\<rparr>]" for s
    by (simp add: payment_ready_def)
  then show ?thesis
    by (auto simp: ok_def local_currency_def payment_handler_def sample_country_def priceGroup_GetById_def find_one_def run_go)
qed

lemma sample_tariffs_cached [simp]:
  "sample_tariff_cache (cachePaymentChannelCostMerchantKey (sample_hex 2) ''VISA'' ''EUR'' ''europe'' ''DE'' ''m'') =
     Some (CachedPccmSets [(''DE'', [region_tariff (Fin 1)])])"
  "sample_tariff_cache (cachePaymentChannelCostSystemKey ''VISA'' ''europe'' ''DE'' ''m'' ''oc'') = Some (CachedPccs sample_pccs)"
  by (simp_all add: sample_tariff_cache_def cachePaymentChannelCostMerchantKey_def cachePaymentChannelCostSystemKey_def)

lemma payment_ready_cache: "payment_ready K s \<Longrightarrow> w_cache s = sample_tariff_cache"
  by (simp add: payment_ready_def)

lemma failing_accessors [simp]:
  "x_order_cost_method_name (failing K) ordr = Inr ''VISA''" "x_order_merchant_id (failing K) = order_ProjectMerchantId"
  "x_order_royalty_currency (failing K) ordr = ''EUR''" "x_order_country (failing K) ordr = ''DE''"
  "x_order_public_status (failing K) = order_Status" "x_order_view_batch (failing K) = 200"
  "x_oid_from_hex (failing K) = sample_from_hex" "x_timestamp (failing K) = sample_timestamp"
  by (simp_all add: failing_def sample_ext_def)

lemma sample_merchant_cost:
  "ok (payment_ready K) (h_getPaymentChannelCostMerchant (failing K) sample_handler (Fin 100)) (\<lambda>_. True)"
  by (auto simp: ok_def h_getPaymentChannelCostMerchant_def getPaymentChannelCostMerchant_def pccmrepo_Find_def find_costs_def
      cache_get_def run_go payment_ready_cache sample_order_defs sample_country_def sample_merchant_def payment_handler_def
      getMccCode_def first_set_def region_tariff_def replace_err_def sort_slice_def)

lemma sample_system_cost: "ok (payment_ready K) (h_getPaymentChannelCostSystem (failing K) sample_handler) (\<lambda>_. True)"
  by (auto simp: ok_def h_getPaymentChannelCostSystem_def pccsrepo_Find_def cache_get_def run_go payment_ready_cache
      sample_order_defs sample_country_def sample_merchant_def payment_handler_def getMccCode_def
      getOperatingCompanyId_def first_set_def Let_def replace_err_def)

lemma sample_origin: "origin (failing K) sample_handler = Some (Some (Timestamp 500 0),
    Some \<lparr>aesrc_Id = sample_hex 1, aesrc_Type = CollectionOrder\<rparr>, sample_hex 2, ''EUR'', ''oc'')"
  by (simp add: origin_def sample_order_defs payment_handler_def)

lemma sample_gross:
  assumes "post_original (failing K) sample_handler AE_RealGrossRevenue
     (GetExchangePsByDateCommon (failing K) sample_handler (order_ChargeCurrency sample_order) (order_ChargeAmount sample_order))
     b c s = (Inr e, t)"
  shows "ae_Amount e = Fin 100"
proof -
  have "x_to_precise (failing K) a = a" for a by (simp add: sample_accessors)
  then show ?thesis using post_original_ret_amount[OF _ sample_origin, of K AE_RealGrossRevenue "Fin 100"] assms
    by (simp add: GetExchange_same[of _ sample_order] sample_order_defs payment_handler_def)
qed

lemma failing_decodes: "order_from_mgo (failing K) = order_from_mgo sample_ext"
proof -
  have "item_from_mgo (failing K) = item_from_mgo sample_ext" "getPaymentMethodOrder (failing K) = getPaymentMethodOrder sample_ext"
    by (auto simp: item_from_mgo_def getPaymentMethodOrder_def failing_def)
  then show ?thesis by (auto simp: order_from_mgo_def failing_def)
qed

lemma failing_view_ready: "view_ready (failing K) [sample_order_doc] (sample_hex 1)"
proof -
  have "view_encodable (failing K) sample_order"
    by (simp add: view_encodable_def decodes_def ts_ok_def) (simp add: sample_order_defs sample_hex_roundtrip)
  moreover have "canon_id (failing K) (sample_hex 1)"
    by (simp add: canon_id_def failing_def sample_hex_roundtrip) (simp add: sample_hex_def)
  ultimately show ?thesis
    by (simp add: view_ready_def order_at_def sample_hex_roundtrip failing_decodes sample_order_decoded)
qed

lemma sample_payment_run:
  assumes ready: "payment_ready K (s\<lparr>w_tick := w_tick s + 3\<rparr>)" and early: "K \<noteq> Some (w_tick s)" "K \<noteq> Some (Suc (w_tick s))"
    and docs: "w_countries s = [sample_country]" "w_merchants s = [sample_merchant]" "w_orders s = [sample_order_doc]"
    and check: "aerepo_GetByObjectSource (failing K) ObjectTypeBalanceTransaction (order_Id sample_order) CollectionOrder
        (s\<lparr>w_tick := w_tick s + 2\<rparr>) = (Inl err, s\<lparr>w_tick := w_tick s + 3\<rparr>)"
    and fresh: "fresh_ids (failing K) s"
  shows "\<exists>t docs. onPaymentNotify (failing K) sample_order s = (Inr (), t) \<and> w_accounting t = w_accounting s @ docs \<and>
    map mgoae_Type docs = payment_types"
proof -
  let ?u = "s\<lparr>w_tick := w_tick s + 2\<rparr>"
  have h: "h_order sample_handler = Some sample_order" "h_country sample_handler = Some sample_country" "h_refund sample_handler = None"
    by (simp_all add: payment_handler_def)
  obtain es u where p: "processPaymentEvent (failing K) sample_handler ?u = (Inr es, u)" and u: "payment_ready K u"
    using payment_completes[OF failing_answers payment_ready_up sample_local_currency h _ check ready,
        where gross = "\<lambda>a. a = Fin 100"] sample_gross sample_merchant_cost sample_system_cost
    by (auto simp: sample_order_defs sample_hex_def)
  have f: "fresh_ids (failing K) ?u" using fresh_ids_mono[OF fresh, of ?u] by simp
  have a: "w_accounting u = w_accounting ?u" using quiet_accounting[OF quiet_payment p] by simp
  have o: "w_orders u = [sample_order_doc]" using quiet_same(3)[OF quiet_payment p] docs(3) by simp
  have ids: "event_ids sample_handler = [order_Id sample_order]" by (simp add: event_ids_def payment_handler_def)
  have nf: "\<forall>n\<ge>w_tick u. x_fault (failing K) n = None" using u by (auto simp: payment_ready_def failing_def)
  have shape: "posted_from (failing K) sample_handler (w_tick ?u) payment_types es" using payment_shape[OF h p] ..
  have "\<exists>t docs. saveAccountingEntries (failing K) sample_handler es u = (Inr (), t) \<and>
      w_accounting t = w_accounting u @ docs \<and> list_all2 (entry_doc (failing K)) es docs"
    by (rule event_completes[OF failing_codecs nf _ f a sample_origin shape])
      (simp_all add: payment_types_def sample_hex_roundtrip event_paylinks_def issuer_is_paylink_def ids o
        failing_view_ready[unfolded One_nat_def], simp_all add: payment_handler_def issuer_is_paylink_def sample_order_defs)
  then obtain t docs where t: "saveAccountingEntries (failing K) sample_handler es u = (Inr (), t)"
    "w_accounting t = w_accounting s @ docs" "list_all2 (entry_doc (failing K)) es docs" using a by auto
  have faults: "x_fault (failing K) (w_tick s) = None" "x_fault (failing K) (Suc (w_tick s)) = None"
    using early by (auto simp: failing_def)
  have "onPaymentNotify (failing K) sample_order s = (Inr (), t)"
    using p t(1) faults docs
    by (simp add: onPaymentNotify_def processEvent_def country_GetByIsoCodeA2_def merchant_GetById_def find_one_def calling_def
        run_go replace_err_def processableOrderStatus_def)
      (simp add: sample_order_defs sample_country_def sample_merchant_def payment_handler_def run_go)
  then show ?thesis using t posted_types[OF shape t(3)] by blast
qed

lemma payment_world_fresh: "fresh_ids sample_ext payment_world"
  by (auto simp: fresh_ids_def payment_world_def empty_world_def inj_on_def)

lemma payment_all_or_nothing_witness:
  "\<exists>t. onPaymentNotify sample_ext sample_order payment_world = (Inr (), t) \<and> map mgoae_Type (w_accounting t) = payment_types"
proof -
  have "\<exists>t docs. onPaymentNotify (failing None) sample_order payment_world = (Inr (), t) \<and>
      w_accounting t = w_accounting payment_world @ docs \<and> map mgoae_Type docs = payment_types"
    by (rule sample_payment_run[where err = ErrNoDocuments, OF _ _ _ _ _ _ _ payment_world_fresh[folded failing_never]])
      (simp_all add: failing_never aerepo_GetByObjectSource_def find_one_def calling_def run_go
        payment_world_def empty_world_def sample_order_defs sample_hex_roundtrip payment_ready_def)
  then obtain t where t: "onPaymentNotify sample_ext sample_order payment_world = (Inr (), t)" unfolding failing_never by blast
  have "x_order_public_status sample_ext sample_order \<in> set processableOrderStatus" "w_accounting payment_world = []"
    by (simp_all add: sample_ext_def sample_order_defs processableOrderStatus_def payment_world_def empty_world_def)
  then show ?thesis using payment_all_or_nothing[OF sample_codecs_ok payment_world_fresh t] t by auto
qed

section \<open>The second notification\<close>

lemma entry_decodes:
  "codecs_ok X \<Longrightarrow> ts_valid (mgoae_CreatedAt d) \<and> ts_valid (mgoae_AvailableOn d) \<Longrightarrow> \<exists>e. ae_from_mgo X d = Inr e"
  using codecs_ts[of X "mgoae_CreatedAt d"] codecs_ts[of X "mgoae_AvailableOn d"] by (auto simp: ae_from_mgo_def)

lemma find_in_set: "find p xs = Some x \<Longrightarrow> x \<in> set xs"
  by (auto simp: find_Some_iff)

lemma posted_entry_found:
  assumes "codecs_ok X" and "\<forall>d\<in>set (w_accounting s). ts_valid (mgoae_CreatedAt d) \<and> ts_valid (mgoae_AvailableOn d)"
    and "x_fault X (w_tick s) = None" and "d \<in> set (w_accounting s)"
    and "mgoae_Object d = object \<and> mgoae_SourceType d = tp" and "x_oid_from_hex X i = Inr (mgoae_SourceId d)"
  shows "\<exists>e. aerepo_GetByObjectSource X object i tp s = (Inr e, s\<lparr>w_tick := Suc (w_tick s)\<rparr>)"
proof -
  let ?p = "\<lambda>e. mgoae_Object e = object \<and> ae_of_source (mgoae_SourceId d) tp e"
  obtain e where e: "find ?p (w_accounting s) = Some e" "e \<in> set (w_accounting s)"
    using assms(4,5) by (cases "find ?p (w_accounting s)") (auto simp: find_None_iff ae_of_source_def dest: find_in_set)
  then show ?thesis using entry_decodes[OF assms(1), of e] assms(2,3,6)
    by (auto simp: aerepo_GetByObjectSource_def find_one_def calling_def run_go)
qed

text \<open>C34: A payment that is in the journal is not posted again: when no call fails, a notification of an order
  that has an entry leaves the journal unchanged and reports that the entries exist (or that the country or
  the merchant of the order is unknown).\<close>

theorem payment_posted_once:
  assumes "codecs_ok X" and "\<forall>n. x_fault X n = None"
    and "\<forall>d\<in>set (w_accounting s). ts_valid (mgoae_CreatedAt d) \<and> ts_valid (mgoae_AvailableOn d)"
    and "d \<in> set (w_accounting s)" and "mgoae_Object d = ObjectTypeBalanceTransaction" and "mgoae_SourceType d = CollectionOrder"
    and "x_oid_from_hex X (order_Id ordr) = Inr (mgoae_SourceId d)"
    and "x_order_public_status X ordr \<in> set processableOrderStatus"
  shows "w_accounting (snd (onPaymentNotify X ordr s)) = w_accounting s \<and>
    fst (onPaymentNotify X ordr s) \<in> {Inl ErrNoDocuments, Inl merchantErrorNotFound, Inl accountingEntryAlreadyCreated}"
proof -
  let ?u = "s\<lparr>w_tick := w_tick s + 2\<rparr>"
  obtain e where e: "aerepo_GetByObjectSource X ObjectTypeBalanceTransaction (order_Id ordr) CollectionOrder ?u =
      (Inr e, ?u\<lparr>w_tick := Suc (w_tick ?u)\<rparr>)"
    using posted_entry_found[OF assms(1), of ?u d ObjectTypeBalanceTransaction CollectionOrder "order_Id ordr"] assms(2-7) by auto
  have p: "\<exists>t. processEvent X (payment_handler ordr c m) Payment ?u = (Inl accountingEntryAlreadyCreated, t) \<and>
      w_accounting t = w_accounting s" for c m
    using e by (simp add: processEvent_def processPaymentEvent_def payment_handler_def run_go)
  show ?thesis
  proof (cases "find (\<lambda>c. country_IsoCodeA2 c = x_order_country X ordr) (w_countries s)")
    case None
    then show ?thesis using assms(2,8)
      by (simp add: onPaymentNotify_def country_GetByIsoCodeA2_def find_one_def calling_def run_go)
  next
    case (Some c)
    note c = this
    show ?thesis
    proof (cases "find (\<lambda>m. merchant_Id m = x_order_merchant_id X ordr) (w_merchants s)")
      case None
      then show ?thesis using assms(2,8) c
        by (simp add: onPaymentNotify_def country_GetByIsoCodeA2_def merchant_GetById_def find_one_def calling_def run_go replace_err_def)
    next
      case (Some m)
      from p[of c m] obtain t where "processEvent X (payment_handler ordr c m) Payment ?u = (Inl accountingEntryAlreadyCreated, t)"
        "w_accounting t = w_accounting s" by blast
      then show ?thesis using assms(2,8) c Some
        by (simp add: onPaymentNotify_def country_GetByIsoCodeA2_def merchant_GetById_def find_one_def calling_def run_go
            replace_err_def payment_handler_def)
    qed
  qed
qed

text \<open>The sample payment, with one entry of it in the journal.\<close>

definition posted_entry :: mgo_accounting_entry where
  "posted_entry = \<lparr>mgoae_Id = 50, mgoae_Object = ObjectTypeBalanceTransaction, mgoae_Type = AE_RealGrossRevenue,
     mgoae_SourceId = 1, mgoae_SourceType = CollectionOrder, mgoae_MerchantId = 2, mgoae_Amount = Fin 100,
     mgoae_Currency = ''EUR'', mgoae_Reason = [], mgoae_Status = BalanceTransactionStatusAvailable,
     mgoae_Country = ''DE'', mgoae_OriginalAmount = Fin 100, mgoae_OriginalCurrency = ''EUR'',
     mgoae_LocalAmount = Fin 100, mgoae_LocalCurrency = ''EUR'', mgoae_CreatedAt = 0, mgoae_AvailableOn = time_zero,
     mgoae_OperatingCompanyId = ''oc'', mgoae_AmountRounded = Fin 100, mgoae_OriginalAmountRounded = Fin 100,
     mgoae_LocalAmountRounded = Fin 100\<rparr>"

abbreviation posted_world :: world where
  "posted_world \<equiv> payment_world\<lparr>w_accounting := [posted_entry]\<rparr>"

lemma payment_posted_once_witness:
  "w_accounting (snd (onPaymentNotify sample_ext sample_order posted_world)) = [posted_entry]"
proof -
  have "\<forall>n. x_fault sample_ext n = None" by simp
  moreover have "ts_valid (mgoae_CreatedAt posted_entry) \<and> ts_valid (mgoae_AvailableOn posted_entry)"
    by (simp add: posted_entry_def ts_valid_def time_zero_def)
  ultimately show ?thesis
    using payment_posted_once[OF sample_codecs_ok, of posted_world posted_entry sample_order]
    by (simp add: posted_entry_def sample_hex_roundtrip processableOrderStatus_def)
qed

text \<open>C35: The check fails open: the error of the existence check is dropped, so when that one call fails, a
  payment that is in the journal is posted a second time and the notification reports success. (For a refund
  the same failure is returned.)\<close>

theorem failed_check_posts_again:
  "\<exists>t. onPaymentNotify (failing (Some 2)) sample_order posted_world = (Inr (), t) \<and>
    map mgoae_Type (w_accounting t) = AE_RealGrossRevenue # payment_types"
proof -
  have f: "fresh_ids (failing (Some 2)) posted_world"
    by (auto simp: fresh_ids_def inj_on_def posted_entry_def payment_world_def empty_world_def failing_def)
  have "\<exists>t docs. onPaymentNotify (failing (Some 2)) sample_order posted_world = (Inr (), t) \<and>
      w_accounting t = w_accounting posted_world @ docs \<and> map mgoae_Type docs = payment_types"
    by (rule sample_payment_run[where err = "ErrOther ''timeout''", OF _ _ _ _ _ _ _ f])
      (simp_all add: aerepo_GetByObjectSource_def find_one_def calling_def run_go failing_def
        payment_world_def empty_world_def sample_order_defs sample_hex_roundtrip payment_ready_def)
  then show ?thesis by (auto simp: posted_entry_def)
qed

end
