(* ===== verification/RefundPostings.thy ===== *)
theory RefundPostings
  imports RefundJournal Payments
begin

text \<open>
  What a refund notification does to the journal, and one that runs to completion.
\<close>

text \<open>C2: A refund notification stores all eleven entries of the refund or none. Whatever fails on the way,
  the journal is unchanged or has grown by one entry of each refund type, in order, all under the refund's own
  order, with the amounts of the refund ledger over the entries of the payment that were in the journal before;
  and a notification that succeeds has stored them.\<close>

theorem refund_all_or_nothing:
  assumes "codecs_ok X" and "fresh_ids X s" and "onRefundNotify X refund ordr s = (r, t)"
  shows "\<exists>docs. w_accounting t = w_accounting s @ docs \<and>
    (docs \<noteq> [] \<longrightarrow> map mgoae_Type docs = refund_types \<and>
      (\<forall>d\<in>set docs. x_oid_from_hex X (refund_CreatedOrderId refund) = Inr (mgoae_SourceId d) \<and>
         mgoae_SourceType d = CollectionRefund \<and> mgoae_Object d = ObjectTypeBalanceTransaction) \<and>
      (\<exists>refundOrder country costM costS. refund_ledger X refund ordr refundOrder country s costM costS (map mgoae_Amount docs))) \<and>
    (r = Inr () \<and> x_order_public_status X ordr \<in> set processableOrderStatus \<longrightarrow> docs \<noteq> [])"
proof (cases "x_order_public_status X ordr \<in> set processableOrderStatus")
  case False
  then show ?thesis using assms(3) by (intro exI[of _ "[]"]) (simp add: onRefundNotify_def run_go)
next
  case True
  from onRefundNotify_steps[OF assms(3) True] show ?thesis
  proof (elim disjE exE conjE)
    fix country refundOrder merchant u r'
    assume u: "w_accounting u = w_accounting s" "w_tick s \<le> w_tick u" and r: "r = Inr () \<longleftrightarrow> (\<exists>es. r' = Inr es)"
      and run: "processEvent X (refund_handler refund ordr refundOrder merchant country) Refunding u = (r', t)"
    let ?h = "refund_handler refund ordr refundOrder merchant country"
    have h: "h_refund ?h = Some refund" "h_order ?h = Some ordr" "h_refundOrder ?h = Some refundOrder" "h_country ?h = Some country"
      by (simp_all add: refund_handler_def)
    have og: "origin X ?h = Some (order_PaymentMethodOrderClosedAt refundOrder,
        Some \<lparr>aesrc_Id = refund_CreatedOrderId refund, aesrc_Type = CollectionRefund\<rparr>, x_order_merchant_id X refundOrder,
        x_order_royalty_currency X refundOrder, order_OperatingCompanyId refundOrder)"
      by (simp add: origin_def refund_handler_def)
    note shape = refund_shape[OF h]
    have f: "fresh_ids X u" using assms(2) u(2,1) by (rule fresh_ids_mono)
    have "(w_accounting t = w_accounting u \<and> (\<forall>es. r' \<noteq> Inr es)) \<or> (\<exists>es docs v. processRefundEvent X ?h u = (Inr es, v) \<and>
        list_all2 (entry_doc X) es docs \<and> w_accounting t = w_accounting u @ docs)"
      by (rule event_result[OF assms(1) f quiet_refund conjunct1[OF shape] run[unfolded processEvent_def, simplified]])
    then show ?thesis
    proof (elim disjE exE conjE)
      assume "w_accounting t = w_accounting u" "\<forall>es. r' \<noteq> Inr es"
      then show ?thesis using u r by (intro exI[of _ "[]"]) simp
    next
      fix es docs v assume e: "processRefundEvent X ?h u = (Inr es, v)" "list_all2 (entry_doc X) es docs"
        "w_accounting t = w_accounting u @ docs"
      have am: "map mgoae_Amount docs = map ae_Amount es"
        using e(2) by (induction rule: list_all2_induct) (auto simp: entry_doc_def)
      have ty: "map mgoae_Type docs = refund_types" using posted_types[OF conjunct1[OF shape[OF e(1)]] e(2)] .
      have D: "\<forall>d\<in>set docs. x_oid_from_hex X (refund_CreatedOrderId refund) = Inr (mgoae_SourceId d) \<and>
         mgoae_SourceType d = CollectionRefund \<and> mgoae_Object d = ObjectTypeBalanceTransaction"
        using posted_docs[OF conjunct1[OF shape[OF e(1)]] e(2) og] by simp
      have L: "\<exists>costM costS. refund_ledger X refund ordr refundOrder country s costM costS (map mgoae_Amount docs)"
        unfolding am using conjunct2[OF shape[OF e(1)]] by (simp only: refund_ledger_at[OF u(1)])
      have N: "docs \<noteq> []" using ty by (auto simp: refund_types_def)
      show ?thesis using e(3) u(1) ty D L N by (intro exI[of _ docs] conjI impI) auto
    qed
  qed (auto intro: exI[of _ "[]"])
qed

section \<open>A refund\<close>

text \<open>The sample payment is refunded in full; its tax entry is in the journal and the tariffs are in the cache.\<close>

definition sample_refund_order :: order where
  "sample_refund_order = sample_order\<lparr>order_Id := sample_hex 3, order_Type := OrderTypeRefund, order_Status := ''refunded''\<rparr>"

definition sample_refund_doc :: mgo_order where
  "sample_refund_doc = sample_order_doc\<lparr>order_Id := 3, order_Type := OrderTypeRefund, order_Status := ''refunded''\<rparr>"

lemma sample_refund_doc_id [simp]: "order_Id sample_refund_doc = 3"
  by (simp add: sample_refund_doc_def)

lemma sample_refund_decoded: "order_from_mgo sample_ext sample_refund_doc = Inr sample_refund_order"
  by (simp add: order_from_mgo_def sample_refund_doc_def sample_refund_order_def sample_order_doc_def sample_order_defs
      sample_timestamp_proto_def getPaymentMethodOrder_def)

definition sample_refund :: refund where
  "sample_refund = \<lparr>refund_Id = sample_hex 4, refund_OriginalOrderId = sample_hex 1, refund_OriginalOrderUuid = ''o1'',
     refund_ExternalId = [], refund_Amount = Fin 100, refund_CreatorId = ''u'', refund_Currency = ''EUR'',
     refund_Status = 4, refund_CreatedAt = Some (Timestamp 500 0), refund_UpdatedAt = Some (Timestamp 500 0),
     refund_PayerData = None, refund_SalesTax = Fin 0, refund_IsChargeback = False,
     refund_CreatedOrderId = sample_hex 3, refund_Reason = []\<rparr>"

definition tax_entry :: mgo_accounting_entry where
  "tax_entry = posted_entry\<lparr>mgoae_Type := AE_RealTaxFee, mgoae_Amount := Fin 20\<rparr>"

definition sample_mbcm :: mbcm where
  "sample_mbcm = \<lparr>mbcm_Id = sample_hex 5, mbcm_MerchantId = sample_hex 2, mbcm_Name = ''VISA'', mbcm_PayoutCurrency = ''EUR'',
     mbcm_UndoReason = ''reversal'', mbcm_Region = ''europe'', mbcm_Country = ''DE'', mbcm_DaysFrom = 0,
     mbcm_PaymentStage = 1, mbcm_Percent = Fin 0, mbcm_FixAmount = Fin 1, mbcm_FixAmountCurrency = ''EUR'',
     mbcm_IsPaidByMerchant = True, mbcm_CreatedAt = Some (Timestamp 0 0), mbcm_UpdatedAt = Some (Timestamp 0 0),
     mbcm_IsActive = True, mbcm_MccCode = ''m''\<rparr>"

definition sample_mbcs :: mbcs where
  "sample_mbcs = \<lparr>mbcs_Id = sample_hex 6, mbcs_Name = ''VISA'', mbcs_PayoutCurrency = ''EUR'', mbcs_UndoReason = ''reversal'',
     mbcs_Region = ''europe'', mbcs_Country = ''DE'', mbcs_DaysFrom = 0, mbcs_PaymentStage = 1, mbcs_Percent = Fin 0,
     mbcs_FixAmount = Fin 1, mbcs_CreatedAt = Some (Timestamp 0 0), mbcs_UpdatedAt = Some (Timestamp 0 0),
     mbcs_IsActive = True, mbcs_MccCode = ''m'', mbcs_OperatingCompanyId = ''oc'', mbcs_FixAmountCurrency = ''EUR''\<rparr>"

definition refund_tariff_cache :: "string \<rightharpoonup> cached" where
  "refund_tariff_cache =
    [cacheMoneyBackCostMerchantKey (sample_hex 2) ''VISA'' ''EUR'' ''reversal'' ''europe'' ''DE'' 1 ''m'' \<mapsto>
       CachedMbcmSets [(''DE'', [sample_mbcm])],
     cacheMoneyBackCostSystemKey ''VISA'' ''EUR'' ''reversal'' ''europe'' ''DE'' 1 ''m'' ''oc'' \<mapsto>
       CachedMbcsSets [(''DE'', [sample_mbcs])]]"

definition refund_world :: world where
  "refund_world = payment_world\<lparr>w_orders := [sample_order_doc, sample_refund_doc], w_accounting := [tax_entry], w_cache := refund_tariff_cache\<rparr>"

definition refund_ready :: "world \<Rightarrow> bool" where
  "refund_ready s \<longleftrightarrow> w_accounting s = [tax_entry] \<and> w_cache s = refund_tariff_cache \<and>
     w_price_groups s = [\<lparr>pg_Id = ''g'', pg_Currency = ''EUR'', pg_Region = ''EUR'', pg_IsActive = True\<rparr>]"

lemma refund_ready_up: "tick_up refund_ready"
  by (auto simp: tick_up_def refund_ready_def)

abbreviation sample_refunding :: handler where
  "sample_refunding \<equiv> refund_handler sample_refund sample_order sample_refund_order sample_merchant sample_country"

lemma refund_tariffs_cached [simp]:
  "refund_tariff_cache (cacheMoneyBackCostMerchantKey (sample_hex 2) ''VISA'' ''EUR'' ''reversal'' ''europe'' ''DE'' 1 ''m'') =
     Some (CachedMbcmSets [(''DE'', [sample_mbcm])])"
  "refund_tariff_cache (cacheMoneyBackCostSystemKey ''VISA'' ''EUR'' ''reversal'' ''europe'' ''DE'' 1 ''m'' ''oc'') =
     Some (CachedMbcsSets [(''DE'', [sample_mbcs])])"
  by (simp_all add: refund_tariff_cache_def cacheMoneyBackCostMerchantKey_def cacheMoneyBackCostSystemKey_def)

lemma sample_days: "days_between sample_ext sample_order sample_refund = 0"
  by (simp add: days_between_def time_unchecked_def time_sub_def hours_def float_to_int32_def sample_order_defs
      sample_refund_def Let_def int32_def second_def)

lemmas refund_samples = sample_order_defs sample_country_def sample_merchant_def sample_refund_def sample_refund_order_def
  refund_handler_def

lemma sample_refund_local: "ok refund_ready (local_currency sample_ext sample_refunding) (\<lambda>_. True)"
  by (auto simp: ok_def local_currency_def refund_samples priceGroup_GetById_def find_one_def calling_def run_go refund_ready_def)

lemma sample_refund_costM:
  "ok refund_ready (h_getMoneyBackCostMerchant sample_ext sample_refunding (refund_reason sample_refund)) (\<lambda>_. True)"
proof -
  have "x_order_cost_method_name sample_ext sample_order = Inr ''VISA''" "x_order_merchant_id sample_ext sample_order = sample_hex 2"
    "x_order_royalty_currency sample_ext sample_order = ''EUR''" "refund_reason sample_refund = ''reversal''"
    "getMccCode sample_refunding = ''m''" "country_PayerTariffRegion sample_country = ''europe''"
    "country_IsoCodeA2 sample_country = ''DE''"
    by (simp_all add: sample_ext_def refund_samples refund_reason_def getMccCode_def first_set_def)
  then show ?thesis
    by (auto simp: ok_def h_getMoneyBackCostMerchant_def getMoneyBackCostMerchant_def mbcmrepo_Find_def find_costs_def sample_days
        cache_get_def calling_def run_go refund_ready_def refund_handler_def sample_mbcm_def sort_slice_def)
qed

lemma sample_refund_costS:
  "ok refund_ready (h_getMoneyBackCostSystem sample_ext sample_refunding (refund_reason sample_refund)) (\<lambda>_. True)"
proof -
  have "x_order_cost_method_name sample_ext sample_order = Inr ''VISA''"
    "x_order_royalty_currency sample_ext sample_order = ''EUR''" "refund_reason sample_refund = ''reversal''"
    "getMccCode sample_refunding = ''m''" "country_PayerTariffRegion sample_country = ''europe''"
    "getOperatingCompanyId sample_refunding = ''oc''" "country_IsoCodeA2 sample_country = ''DE''"
    by (simp_all add: sample_ext_def refund_samples refund_reason_def getMccCode_def getOperatingCompanyId_def first_set_def)
  then show ?thesis
    by (auto simp: ok_def h_getMoneyBackCostSystem_def getMoneyBackCostSystem_def mbcsrepo_Find_def find_costs_def sample_days
        cache_get_def calling_def run_go refund_ready_def refund_handler_def sample_mbcs_def sort_slice_def)
qed

lemma sample_refund_origin: "origin sample_ext sample_refunding = Some (Some (Timestamp 500 0),
    Some \<lparr>aesrc_Id = sample_hex 3, aesrc_Type = CollectionRefund\<rparr>, sample_hex 2, ''EUR'', ''oc'')"
  by (simp add: origin_def refund_samples)

lemma sample_tax_found:
  assumes "posted sample_ext sample_refunding [] n blank"
  shows "ok refund_ready (attempt (aerepo_ApplyObjectSource sample_ext ObjectTypeBalanceTransaction AE_RealTaxFee
    (order_Id sample_order) CollectionOrder blank)) (\<lambda>r. \<exists>e. r = Inr e)"
proof -
  have d: "\<exists>e. ae_from_mgo sample_ext tax_entry = Inr e"
    by (rule entry_decodes[OF sample_codecs_ok]) (simp add: tax_entry_def posted_entry_def ts_valid_def time_zero_def)
  obtain doc where "ae_to_mgo sample_ext blank = ret doc"
    using posted_encodes[OF sample_codecs_ok assms sample_refund_origin, of 2 3 500000000000]
    by (auto simp: sample_hex_roundtrip)
  then show ?thesis using d
    by (auto simp: ok_def aerepo_ApplyObjectSource_def find_one_def calling_def run_go refund_ready_def tax_entry_def
        posted_entry_def sample_order_defs sample_hex_roundtrip ae_of_source_def)
qed

lemma sample_refund_event:
  assumes "refund_ready s"
  shows "\<exists>es t. processRefundEvent sample_ext sample_refunding s = (Inr es, t) \<and> refund_ready t"
proof -
  let ?X = sample_ext and ?h = sample_refunding and ?I = refund_ready
  have h: "h_refund ?h = Some sample_refund" "h_order ?h = Some sample_order" "h_refundOrder ?h = Some sample_refund_order"
    "h_country ?h = Some sample_country" by (simp_all add: refund_handler_def)
  note og = sample_refund_origin and t = refund_ready_up
  have b: "answers ?X" using failing_answers[of None] by (simp add: failing_never)
  have st: "aesrc_Type \<lparr>aesrc_Id = sample_hex 3, aesrc_Type = CollectionRefund\<rparr> \<in> set availableAccountingEntriesSourceTypes"
    "aesrc_Id \<lparr>aesrc_Id = sample_hex 3, aesrc_Type = CollectionRefund\<rparr> \<noteq> []"
    by (simp_all add: availableAccountingEntriesSourceTypes_def sample_hex_def)
  note P = ok_post[OF b t sample_refund_local og _ st]
  note ex = ok_exchange[OF b t h(2)] ok_exchange_cb[OF b t h(4)]
  note A = ok_addEntry[OF b t sample_refund_local]
  have src: "posted ?X ?h tp n e \<Longrightarrow> ae_Source e = Some \<lparr>aesrc_Id = sample_hex 3, aesrc_Type = CollectionRefund\<rparr>" for tp n e
    using posted_fields(3)[OF _ og] .
  have N: "ok ?I (newEntry ?X ?h tp) (\<lambda>e. \<exists>n. e = head_of ?X ?h
     (Some (Timestamp 500 0), Some \<lparr>aesrc_Id = sample_hex 3, aesrc_Type = CollectionRefund\<rparr>, sample_hex 2, ''EUR'', ''oc'') tp n)" for tp
    by (rule ok_newEntry[OF og t])
  have av: "set refund_types \<subseteq> set availableAccountingEntries"
    by (simp add: refund_types_def availableAccountingEntries_def)
  have A': "ok ?I (addEntry ?X ?h e) (\<lambda>_. True)"
    if "ae_head e = ae_head (head_of ?X ?h (Some (Timestamp 500 0),
      Some \<lparr>aesrc_Id = sample_hex 3, aesrc_Type = CollectionRefund\<rparr>, sample_hex 2, ''EUR'', ''oc'') tp n)"
      "tp \<in> set refund_types" for e tp n
  proof -
    have "ae_Type e = tp" "ae_Source e = Some \<lparr>aesrc_Id = sample_hex 3, aesrc_Type = CollectionRefund\<rparr>"
      using arg_cong[OF that(1), of ae_Type] arg_cong[OF that(1), of ae_Source] by (simp_all add: ae_head_def head_of_def)
    then show ?thesis using A[OF _ _ st, of e] that(2) av by auto
  qed
  have Po: "ok ?I amount (\<lambda>_. True) \<Longrightarrow> tp \<in> set refund_types \<Longrightarrow> ok ?I (post ?X ?h tp amount) (\<lambda>_. True)" for amount tp
    using P(1)[of tp amount] av by auto
  have Pp: "ok ?I amount (\<lambda>_. True) \<Longrightarrow> tp \<in> set refund_types \<Longrightarrow> ok ?I (post_original ?X ?h tp amount v c) (\<lambda>_. True)" for amount tp v c
    using P(2)[of tp amount] av by auto
  have blank: "posted ?X ?h [] n (head_of ?X ?h (Some (Timestamp 500 0),
      Some \<lparr>aesrc_Id = sample_hex 3, aesrc_Type = CollectionRefund\<rparr>, sample_hex 2, ''EUR'', ''oc'') [] n)" for n
    by (simp add: posted_def og)
  have r: "ok ?I (ret a) (\<lambda>_. True)" for a :: 'a by (rule ok_ret) simp
  have rf: "ok ?I (ret a) (\<lambda>_. True)" for a :: float64 by (rule ok_ret) simp
  have share: "flt 1 (refund_Amount sample_refund div order_ChargeAmount sample_order) = False"
    and vat: "country_VatEnabled sample_country = False" and paid: "mbcm_IsPaidByMerchant m \<in> {True, False}" for m :: mbcm
    by (simp_all add: refund_samples one_float64_def)
  have check: "attempt (aerepo_GetByObjectSource ?X ObjectTypeBalanceTransaction (refund_CreatedOrderId sample_refund) CollectionRefund) s
      = (Inr (Inl ErrNoDocuments), s\<lparr>w_tick := Suc (w_tick s)\<rparr>)" "?I (s\<lparr>w_tick := Suc (w_tick s)\<rparr>)"
    using assms by (auto simp: aerepo_GetByObjectSource_def find_one_def calling_def run_go refund_ready_def tax_entry_def
        posted_entry_def sample_refund_def sample_hex_roundtrip ae_of_source_def source_collections)
  have price: "ok ?I (if mbcm_IsPaidByMerchant m then
             bind (GetExchangePsByDateCommon ?X ?h (mbcm_FixAmountCurrency m) (mbcm_FixAmount m)) (\<lambda>a.
             bind (GetExchangePsByDateMerchant ?X ?h (mbcm_FixAmountCurrency m) (mbcm_FixAmount m)) (\<lambda>b.
             ret (a, b))) else ret (0, 0)) (\<lambda>_. True)" for m
    by (auto intro!: ok_bind[OF ex(1)] ok_bind[OF ex(2)] ok_ret)
  have ty: "AE_RealRefund \<in> set refund_types" "AE_RealRefundTaxFee \<in> set refund_types" "AE_RealRefundFee \<in> set refund_types"
    "AE_RealRefundFixedFee \<in> set refund_types" "AE_MerchantRefund \<in> set refund_types" "AE_MerchantRefundFee \<in> set refund_types"
    "AE_MerchantRefundFixedFeeCostValue \<in> set refund_types" "AE_MerchantRefundFixedFee \<in> set refund_types"
    "AE_ReverseTaxFee \<in> set refund_types" "AE_ReverseTaxFeeDelta \<in> set refund_types" "AE_PsReverseTaxFeeDelta \<in> set refund_types"
    by (simp_all add: refund_types_def)
  show ?thesis unfolding processRefundEvent_def h deref_Some bind_ret Let_def
    apply (rule ok_after[where I = ?I], rule check(1), rule check(2))
    apply (simp only: sum.case simp_thms if_False share vat reverse_tax_deltas_def bind_ret prod.case)
    apply (rule ok_bind[OF sample_refund_costM], rule ok_bind[OF sample_refund_costS])
    apply (rule ok_bind[OF Pp[OF ex(1) ty(1)]])
    apply (rule ok_bind[OF N], erule exE, hypsubst, rule ok_bind[OF sample_tax_found[OF blank]], erule exE, hypsubst, simp only: sum.case)
    apply (rule ok_bind[OF N], erule exE, hypsubst, rule ok_bind[OF A'[OF _ ty(2)]], simp)
    apply (rule ok_bind[OF Po[OF rf ty(3)]], rule ok_bind[OF Po[OF ex(1) ty(4)]], rule ok_bind[OF Po[OF ex(2) ty(5)]])
    apply (rule ok_bind[OF Po[OF rf ty(6)]])
    apply (rule ok_bind[OF N], erule exE, hypsubst, rule ok_bind[OF N], erule exE, hypsubst)
    apply (rule ok_bind[OF price], simp only: case_prod_beta)
    apply (rule ok_bind[OF A'[OF _ ty(7)]], simp, rule ok_bind[OF A'[OF _ ty(8)]], simp)
    apply (rule ok_bind[OF N], erule exE, hypsubst, rule ok_bind[OF N], erule exE, hypsubst)
    apply (rule ok_bind[OF A'[OF _ ty(9)]], simp)
    apply (rule ok_bind[OF N], erule exE, hypsubst, rule ok_bind[OF N], erule exE, hypsubst)
    apply (rule ok_bind[OF A'[OF _ ty(10)]], simp, rule ok_bind[OF A'[OF _ ty(11)]], simp)
    by (rule ok_ret) simp
qed

lemma sample_refund_ids: "event_ids sample_refunding = [order_Id sample_order, order_Id sample_refund_order]"
  by (simp add: event_ids_def refund_handler_def)

lemma sample_refund_views:
  "\<forall>i\<in>set (event_ids sample_refunding). view_ready sample_ext [sample_order_doc, sample_refund_doc] i"
proof -
  have o: "order_Id sample_order = sample_hex 1" "order_Id sample_refund_order = sample_hex 3"
    by (simp_all add: sample_order_defs sample_refund_order_def)
  have "view_encodable sample_ext sample_refund_order"
    using sample_order_encodable by (simp add: view_encodable_def sample_refund_order_def)
  then show ?thesis unfolding sample_refund_ids using sample_order_encodable
    by (simp add: o view_ready_def sample_canon_id order_at_def sample_hex_roundtrip sample_order_decoded sample_refund_decoded)
qed

lemma refund_runs_sample: "\<exists>t. onRefundNotify sample_ext sample_refund sample_order refund_world = (Inr (), t)"
proof -
  let ?u = "refund_world\<lparr>w_tick := 3\<rparr>"
  have a: "refund_ready ?u" by (simp add: refund_ready_def refund_world_def payment_world_def)
  obtain es u where p: "processRefundEvent sample_ext sample_refunding ?u = (Inr es, u)"
    using sample_refund_event[OF a] by blast
  have h: "h_refund sample_refunding = Some sample_refund" "h_order sample_refunding = Some sample_order"
    "h_refundOrder sample_refunding = Some sample_refund_order" "h_country sample_refunding = Some sample_country"
    by (simp_all add: refund_handler_def)
  have f: "fresh_ids sample_ext ?u"
    by (auto simp: fresh_ids_def inj_on_def refund_world_def tax_entry_def posted_entry_def)
  have q: "w_accounting u = w_accounting ?u" using quiet_accounting[OF quiet_refund p] by simp
  have o: "w_orders u = [sample_order_doc, sample_refund_doc]"
    using quiet_same(3)[OF quiet_refund p] by (simp add: refund_world_def)
  have b: "0 < x_order_view_batch sample_ext" by (simp add: sample_ext_def)
  have nf: "\<forall>n\<ge>w_tick u. x_fault sample_ext n = None" by simp
  have "\<exists>t docs. saveAccountingEntries sample_ext sample_refunding es u = (Inr (), t) \<and>
      w_accounting t = w_accounting u @ docs \<and> list_all2 (entry_doc sample_ext) es docs"
    by (rule event_completes[OF sample_codecs_ok nf b f q sample_refund_origin conjunct1[OF refund_shape[OF h p]]])
      (simp_all add: o sample_refund_views, simp_all add: refund_types_def sample_hex_roundtrip event_paylinks_def
        refund_handler_def issuer_is_paylink_def sample_refund_order_def sample_order_defs)
  then obtain t where t: "saveAccountingEntries sample_ext sample_refunding es u = (Inr (), t)" by blast
  have x: "x_order_public_status sample_ext sample_order = ''processed''" "x_order_country sample_ext sample_order = ''DE''"
    "x_order_merchant_id sample_ext sample_refund_order = sample_hex 2"
    by (simp_all add: sample_ext_def sample_order_defs sample_refund_order_def)
  have w: "w_tick refund_world = 0" "w_countries refund_world = [sample_country]" "w_merchants refund_world = [sample_merchant]"
    "w_orders refund_world = [sample_order_doc, sample_refund_doc]"
    by (simp_all add: refund_world_def payment_world_def empty_world_def)
  have i: "country_IsoCodeA2 sample_country = ''DE''" "merchant_Id sample_merchant = sample_hex 2"
    "order_Id sample_refund_order = sample_hex 3" "order_ProjectMerchantId sample_refund_order = sample_hex 2" "refund_CreatedOrderId sample_refund = sample_hex 3"
    by (simp_all add: refund_samples)
  have "onRefundNotify sample_ext sample_refund sample_order refund_world = (Inr (), t)"
    using p t
    by (simp add: onRefundNotify_def processEvent_def country_GetByIsoCodeA2_def merchant_GetById_def getOrderById_def
        orderrepo_GetById_def repo_get_def sample_order_decoded sample_refund_decoded sample_hex_roundtrip find_one_def calling_def run_go replace_err_def processableOrderStatus_def x w i refund_handler_def[symmetric] numeral_3_eq_3)
  then show ?thesis by blast
qed

lemma refund_all_or_nothing_witness:
  "\<exists>t docs. onRefundNotify sample_ext sample_refund sample_order refund_world = (Inr (), t) \<and>
    w_accounting t = tax_entry # docs \<and> map mgoae_Type docs = refund_types"
proof -
  obtain t where t: "onRefundNotify sample_ext sample_refund sample_order refund_world = (Inr (), t)"
    using refund_runs_sample by blast
  have f: "fresh_ids sample_ext refund_world"
    by (auto simp: fresh_ids_def inj_on_def refund_world_def tax_entry_def posted_entry_def)
  have "x_order_public_status sample_ext sample_order \<in> set processableOrderStatus" "w_accounting refund_world = [tax_entry]"
    by (simp_all add: sample_ext_def sample_order_defs processableOrderStatus_def refund_world_def)
  then show ?thesis using refund_all_or_nothing[OF sample_codecs_ok f t] t by auto
qed

text \<open>The refund check fails closed: whenever the journal cannot be asked for earlier entries of the
  refund, or has one, the notification fails and stores nothing.\<close>

theorem refund_check_fails_closed:
  assumes "x_order_public_status X ordr \<in> set processableOrderStatus"
    and "\<forall>u. w_accounting u = w_accounting s \<longrightarrow> fst (aerepo_GetByObjectSource X ObjectTypeBalanceTransaction (refund_CreatedOrderId refund) CollectionRefund u)
      \<noteq> Inl ErrNoDocuments"
  shows "fst (onRefundNotify X refund ordr s) \<noteq> Inr () \<and> w_accounting (snd (onRefundNotify X refund ordr s)) = w_accounting s"
proof -
  obtain r t where run: "onRefundNotify X refund ordr s = (r, t)" by fastforce
  from onRefundNotify_steps[OF run assms(1)] show ?thesis
  proof (elim disjE exE conjE)
    fix country refundOrder merchant u r'
    let ?h = "refund_handler refund ordr refundOrder merchant country"
    let ?check = "aerepo_GetByObjectSource X ObjectTypeBalanceTransaction (refund_CreatedOrderId refund) CollectionRefund"
    assume u: "w_accounting u = w_accounting s" and r: "r = Inr () \<longleftrightarrow> (\<exists>es. r' = Inr es)"
      and p: "processEvent X ?h Refunding u = (r', t)"
    obtain c v where c: "?check u = (c, v)" by fastforce
    have "c \<noteq> Inl ErrNoDocuments" using assms(2) c u by (metis fst_conv)
    then have "(\<exists>e. r' = Inl e) \<and> t = v" using p c
      by (cases c) (auto simp: processEvent_def processRefundEvent_def refund_handler_def run_go)
    then show ?thesis using run r u quiet_accounting[OF quiet_ae_queries, OF c] by auto
  qed (use run in auto)
qed


lemma refund_check_fails_closed_witness:
  "fst (onRefundNotify (sample_ext\<lparr>x_fault := (\<lambda>n. if n = 3 then Some (ErrOther ''timeout'') else None)\<rparr>)
     sample_refund sample_order (refund_world\<lparr>w_accounting := [tax_entry\<lparr>mgoae_SourceId := 3, mgoae_SourceType := CollectionRefund\<rparr>]\<rparr>)) \<noteq> Inr ()"
proof -
  let ?X = "sample_ext\<lparr>x_fault := (\<lambda>n. if n = 3 then Some (ErrOther ''timeout'') else None)\<rparr>"
  let ?s = "refund_world\<lparr>w_accounting := [tax_entry\<lparr>mgoae_SourceId := 3, mgoae_SourceType := CollectionRefund\<rparr>]\<rparr>"
  have "fst (aerepo_GetByObjectSource ?X ObjectTypeBalanceTransaction (refund_CreatedOrderId sample_refund) CollectionRefund u)
      \<noteq> Inl ErrNoDocuments" if "w_accounting u = w_accounting ?s" for u
    using that by (auto simp: aerepo_GetByObjectSource_def find_one_def calling_def run_go tax_entry_def
        posted_entry_def sample_refund_def sample_hex_roundtrip ae_of_source_def ae_from_mgo_def sample_timestamp_proto_def)
  moreover have "x_order_public_status ?X sample_order \<in> set processableOrderStatus"
    by (simp add: sample_ext_def sample_order_defs processableOrderStatus_def)
  ultimately show ?thesis using refund_check_fails_closed[of ?X sample_order ?s sample_refund] by blast
qed

end
