(* ===== verification/Adjustments.thy ===== *)
theory Adjustments
  imports Corrections RefundPostings
begin

text \<open>
  What entries made by hand do to the journal (CreateAccountingEntry) and what a rebuild of the
  entries of a refund loses (RebuildAccountingEntries).
\<close>

section \<open>An entry made by hand\<close>

lemma insert_docs_ok: "insert_docs idf xs ds = (ds', True) \<Longrightarrow> ds' = ds @ xs"
  by (induction xs arbitrary: ds) (fastforce split: if_splits)+

lemma save_inserts:
  assumes "saveAccountingEntries X h es s = (Inr (), t)"
  shows "\<exists>docs. list_all2 (entry_doc X) es docs \<and> w_accounting t = w_accounting s @ docs"
proof -
  from assms obtain u where m: "aerepo_MultipleInsert X es s = (Inr (), u)" and r: "bind (event_paylinks h) (\<lambda>paylinks.
     if event_ids h = [] then ret ()
     else bind (updateOrderView X (event_ids h)) (\<lambda>_. for_each paylinks (update_paylink_stat X))) u = (Inr (), t)"
    unfolding saveAccountingEntries_def bind_Inr[of "aerepo_MultipleInsert X es"] by auto
  have "w_accounting t = w_accounting u" using keepsD[OF tail_keeps_accounting[of "w_accounting u" h X] refl r] .
  then show ?thesis using MultipleInsert_result[OF m] insert_docs_ok by fastforce
qed

lemma correction_entry:
  assumes "processManualCorrectionEvent X h s = (Inr es, t)" and "h_req h = Some req"
  shows "\<exists>e. es = [e] \<and> ae_Type e = cae_Type req \<and> ae_Amount e = x_to_precise X (cae_Amount req) \<and>
    ae_Currency e = cae_Currency req \<and> ae_Reason e = cae_Reason req \<and> ae_Status e = cae_Status req \<and>
    (\<forall>m. h_merchant h = Some m \<longrightarrow> ae_MerchantId e = merchant_Id m \<and>
      ae_Source e = Some \<lparr>aesrc_Id = merchant_Id m, aesrc_Type = CollectionMerchant\<rparr>)"
proof -
  from assms obtain e0 u created e1 v e where n: "newEntry X h (cae_Type req) s = (Inr e0, u)"
    and m: "(case h_merchant h of None \<Rightarrow> ret (e0\<lparr>ae_Amount := cae_Amount req, ae_Currency := cae_Currency req,
          ae_Reason := cae_Reason req, ae_Status := cae_Status req, ae_CreatedAt := Some created\<rparr>)
       | Some merchant \<Rightarrow> bind (deref (ae_Source (e0\<lparr>ae_Amount := cae_Amount req, ae_Currency := cae_Currency req,
          ae_Reason := cae_Reason req, ae_Status := cae_Status req, ae_CreatedAt := Some created\<rparr>))) (\<lambda>_.
          ret ((e0\<lparr>ae_Amount := cae_Amount req, ae_Currency := cae_Currency req, ae_Reason := cae_Reason req,
            ae_Status := cae_Status req, ae_CreatedAt := Some created\<rparr>)
            \<lparr>ae_Source := Some \<lparr>aesrc_Id = merchant_Id merchant, aesrc_Type = CollectionMerchant\<rparr>,
             ae_MerchantId := merchant_Id merchant\<rparr>))) u = (Inr e1, v)"
    and a: "addEntry X h e1 v = (Inr e, t)" and es: "es = [e]"
    unfolding processManualCorrectionEvent_def Let_def success by auto
  have ty: "ae_Type e0 = cae_Type req" using n by (auto simp: newEntry_def success split: prod.splits)
  have h: "ae_Type e = ae_Type e1" "ae_Reason e = ae_Reason e1" "ae_Status e = ae_Status e1" "ae_Source e = ae_Source e1"
    "ae_MerchantId e = ae_MerchantId e1"
    using arg_cong[OF addEntry_head(2)[OF a], of ae_Type] arg_cong[OF addEntry_head(2)[OF a], of ae_Reason]
      arg_cong[OF addEntry_head(2)[OF a], of ae_Status] arg_cong[OF addEntry_head(2)[OF a], of ae_Source]
      arg_cong[OF addEntry_head(2)[OF a], of ae_MerchantId] by (simp_all add: ae_head_def)
  show ?thesis using es ty h addEntry_head(3,7)[OF a] m
    by (cases "h_merchant h") (auto simp: success)
qed

lemma quiet_steps [quiet_intros]:
  "quiet (ae_order_step X req p)" "quiet (ae_refund_step X req p)" "quiet (ae_merchant_step X req p)"
  unfolding ae_order_step_def ae_refund_step_def ae_merchant_step_def refundrepo_GetById_def by (intro quiet_intros)+

lemma quiet_and_then [quiet_intros]: "quiet m \<Longrightarrow> (\<And>a. quiet (k a)) \<Longrightarrow> quiet (and_then m k)"
  unfolding and_then_def by (intro quiet_intros)

lemma order_step_keeps: "ae_order_step X req p s = (Inr (Inr q), t) \<Longrightarrow> h_req (fst q) = h_req (fst p) \<and> h_merchant (fst q) = h_merchant (fst p)"
  by (cases p) (auto simp: ae_order_step_def bind_Inr run_Inr run_sum split: if_split_asm)

lemma refund_step_keeps: "ae_refund_step X req p s = (Inr (Inr q), t) \<Longrightarrow> h_req (fst q) = h_req (fst p) \<and> h_merchant (fst q) = h_merchant (fst p)"
  by (cases p) (auto simp: ae_refund_step_def bind_Inr run_Inr run_sum split: if_split_asm)

lemma find_one_in: "find_one X get p s = (Inr d, t) \<Longrightarrow> (\<And>n. get (s\<lparr>w_tick := n\<rparr>) = get s) \<Longrightarrow> d \<in> set (get s) \<and> p d"
  by (auto simp: find_one_def success gets_def calling_def rpc_success throw_def ret_def find_Some_iff split: option.splits)

lemma merchant_step_result:
  assumes "ae_merchant_step X req p s = (Inr (Inr q), t)"
  shows "h_req (fst q) = h_req (fst p) \<and> (if cae_MerchantId req = [] then h_merchant (fst q) = h_merchant (fst p)
    else \<exists>m\<in>set (w_merchants s). merchant_Id m = cae_MerchantId req \<and> h_merchant (fst q) = Some m)"
proof (cases p)
  case (Pair h c)
  show ?thesis
  proof (cases "cae_MerchantId req = []")
    case False
    then obtain m u where "merchant_GetById X (cae_MerchantId req) s = (Inr m, u)" "fst q = h\<lparr>h_merchant := Some m\<rparr>"
      using assms Pair by (auto simp: ae_merchant_step_def bind_Inr run_Inr run_sum)
    then show ?thesis using False Pair find_one_in[of X w_merchants "\<lambda>x. merchant_Id x = cae_MerchantId req" s m u]
      by (auto simp: merchant_GetById_def)
  qed (use assms Pair in \<open>auto simp: ae_merchant_step_def success run_Inr\<close>)
qed

lemma update_balance_keeps_accounting: "keeps (\<lambda>s. w_accounting s = v) (updateMerchantBalance X i)"
proof -
  have t: "tick_stable (\<lambda>s. w_accounting s = v)" by (simp add: tick_stable_def)
  have i: "keeps (\<lambda>s. w_accounting s = v) (balrepo_Insert X b)" for b
    unfolding balrepo_Insert_def repo_insert_def insert_one_def cache_set_def balance_to_mgo_def time_or_now_def
    by (intro keeps_intros t) (simp_all add: keeps_def go_defs)
  show ?thesis
    unfolding updateMerchantBalance_def Let_def merchant_GetById_def find_one_def find_all_def rrrepo_GetBalanceAmount_def porepo_GetBalanceAmount_def
      getRollingReserveForBalance_def porepo_GetLast_def find_first_sorted_def find_sorted_def
      aerepo_GetRollingReserveForBalance_def
    by (intro keeps_intros i t) (auto split: list.splits intro!: keeps_intros t)
qed

lemma update_balance_accounting: "updateMerchantBalance X i s = (r, t) \<Longrightarrow> w_accounting t = w_accounting s"
  using keepsD[OF update_balance_keeps_accounting refl] .

lemma step_errors:
  "ae_order_step X req p s = (Inr (Inl rsp), t) \<Longrightarrow> rspStatus rsp = ResponseStatusNotFound"
  "ae_refund_step X req p s = (Inr (Inl rsp), t) \<Longrightarrow> rspStatus rsp = ResponseStatusNotFound"
  "ae_merchant_step X req p s = (Inr (Inl rsp), t) \<Longrightarrow> rspStatus rsp = ResponseStatusNotFound"
  by (cases p, auto simp: ae_order_step_def ae_refund_step_def ae_merchant_step_def rsp_error_def bind_Inr run_Inr run_sum
      split: if_split_asm)+

lemma and_then_Inr: "and_then m k s = (Inr r, t) \<longleftrightarrow>
    (\<exists>rsp. m s = (Inr (Inl rsp), t) \<and> r = Inl rsp) \<or> (\<exists>a u. m s = (Inr (Inr a), u) \<and> k a u = (Inr r, t))"
  by (auto simp: and_then_def bind_Inr run_Inr run_sum)

lemma prefix_result:
  assumes "and_then (and_then (ae_order_step X req (h, c)) (ae_refund_step X req)) (ae_merchant_step X req) s = (Inr r, t)"
  shows "case r of Inl rsp \<Rightarrow> rspStatus rsp = ResponseStatusNotFound
    | Inr (h', c') \<Rightarrow> h_req h' = h_req h \<and> w_accounting t = w_accounting s \<and>
        (cae_MerchantId req \<noteq> [] \<longrightarrow> (\<exists>m. h_merchant h' = Some m \<and> merchant_Id m = cae_MerchantId req))"
proof -
  have "quiet (and_then (and_then (ae_order_step X req (h, c)) (ae_refund_step X req)) (ae_merchant_step X req))"
    by (intro quiet_intros)
  note q = quiet_accounting[OF this, OF assms]
  show ?thesis
  proof (cases r)
    case (Inl rsp)
    then show ?thesis using assms by (auto simp: and_then_Inr dest: step_errors)
  next
    case (Inr q')
    then obtain a b u v where st: "ae_order_step X req (h, c) s = (Inr (Inr a), u)" "ae_refund_step X req a u = (Inr (Inr b), v)"
      "ae_merchant_step X req b v = (Inr (Inr q'), t)" using assms by (auto simp: and_then_Inr)
    show ?thesis using Inr q order_step_keeps[OF st(1)] refund_step_keeps[OF st(2)] merchant_step_result[OF st(3)]
      by (cases q') auto
  qed
qed

text \<open>An entry made by hand is what was asked for: a response that is OK means that exactly one entry was
  added to the journal, of the requested (known) type, with the amount at the journal's precision and the
  requested currency, reason and status, and that the response carries it; for a request that names a merchant
  it is an entry of that merchant.\<close>

theorem manual_entry_recorded:
  assumes "CreateAccountingEntry X req s = (Inr rsp, t)" and "rspStatus rsp = ResponseStatusOk"
  shows "\<exists>e d. rspItem rsp = Some e \<and> w_accounting t = w_accounting s @ [d] \<and> entry_doc X e d \<and>
    ae_Type e = cae_Type req \<and> cae_Type req \<in> set availableAccountingEntries \<and>
    ae_Amount e = x_to_precise X (cae_Amount req) \<and> ae_Currency e = cae_Currency req \<and>
    ae_Reason e = cae_Reason req \<and> ae_Status e = cae_Status req \<and>
    (cae_MerchantId req \<noteq> [] \<longrightarrow> ae_MerchantId e = cae_MerchantId req \<and>
      ae_Source e = Some \<lparr>aesrc_Id = cae_MerchantId req, aesrc_Type = CollectionMerchant\<rparr>)"
proof -
  let ?h0 = "\<lparr>h_order = None, h_refund = None, h_refundOrder = None, h_merchant = None, h_country = None,
              h_datetime = None, h_req = Some req\<rparr>"
  let ?pre = "and_then (and_then (ae_order_step X req (?h0, [])) (ae_refund_step X req)) (ae_merchant_step X req)"
  have not_ok: "rsp_error st e \<noteq> rsp" if "st \<noteq> ResponseStatusOk" for st e
    using assms(2) that by (auto simp: rsp_error_def)
  have av: "cae_Type req \<in> set availableAccountingEntries"
    using assms not_ok by (auto simp: CreateAccountingEntry_def run_Inr split: if_split_asm)
  obtain r1 u where pre: "?pre s = (Inr r1, u)" and k: "(case r1 of Inl rsp \<Rightarrow> ret rsp
        | Inr (h, code) \<Rightarrow>
          bind (attempt (country_GetByIsoCodeA2 X (if code = [] then cae_Country req else code))) (\<lambda>c. case c of
            Inl _ \<Rightarrow> ret (rsp_error ResponseStatusSystemError accountingEntryErrorCountryNotFound)
          | Inr country \<Rightarrow>
            bind (try_go (processEvent X (h\<lparr>h_country := Some country\<rparr>) ManualCorrection)) (\<lambda>p. case p of
              Inl _ \<Rightarrow> ret (rsp_error ResponseStatusSystemError accountingEntryErrorUnknown)
            | Inr entries \<Rightarrow>
              if cae_Type req \<in> set accountingEntriesForRollingReserve then
                bind (deref (h_merchant h)) (\<lambda>merchant.
                bind (try_go (updateMerchantBalance X (merchant_Id merchant))) (\<lambda>u. case u of
                  Inl _ \<Rightarrow> ret (rsp_error ResponseStatusSystemError accountingEntryBalanceUpdateFailed)
                | Inr _ \<Rightarrow> ret (rsp_ok (hd entries))))
              else ret (rsp_ok (hd entries))))) u = (Inr rsp, t)"
    using assms(1) av by (auto simp: CreateAccountingEntry_def bind_Inr)
  note P = prefix_result[OF pre]
  obtain h code where r1: "r1 = Inr (h, code)"
    using P k assms(2) by (cases r1) (auto simp: run_Inr)
  obtain country u1 entries u2 where c: "country_GetByIsoCodeA2 X (if code = [] then cae_Country req else code) u = (Inr country, u1)"
    and e: "processEvent X (h\<lparr>h_country := Some country\<rparr>) ManualCorrection u1 = (Inr entries, u2)"
    and fin: "rsp = rsp_ok (hd entries)" "w_accounting t = w_accounting u2"
    using k assms(2) unfolding r1
    by (auto simp: bind_Inr run_Inr run_sum rsp_error_def try_go_success split: if_split_asm dest!: update_balance_accounting)
  then obtain v where p: "processManualCorrectionEvent X (h\<lparr>h_country := Some country\<rparr>) u1 = (Inr entries, v)"
    and sv: "saveAccountingEntries X (h\<lparr>h_country := Some country\<rparr>) entries v = (Inr (), u2)"
    by (auto simp: processEvent_def success)
  have q: "w_accounting v = w_accounting s"
    using quiet_accounting[OF quiet_correction, OF p] quiet_accounting[OF quiet_lookups(1), OF c] P r1 by simp
  obtain en where en: "entries = [en]" "ae_Type en = cae_Type req" "ae_Amount en = x_to_precise X (cae_Amount req)"
    "ae_Currency en = cae_Currency req" "ae_Reason en = cae_Reason req" "ae_Status en = cae_Status req"
    "\<forall>m. h_merchant h = Some m \<longrightarrow> ae_MerchantId en = merchant_Id m \<and>
       ae_Source en = Some \<lparr>aesrc_Id = merchant_Id m, aesrc_Type = CollectionMerchant\<rparr>"
    using correction_entry[OF p, of req] P r1 by auto
  obtain d where d: "entry_doc X en d" "w_accounting u2 = w_accounting v @ [d]"
    using save_inserts[OF sv] en(1) by (auto simp: list_all2_Cons1)
  show ?thesis using fin en d q av P r1 by (intro exI[of _ en] exI[of _ d]) (auto simp: rsp_ok_def)
qed

text \<open>A royalty correction of ten euros for the sample merchant.\<close>

definition sample_correction :: create_entry_request where
  "sample_correction = \<lparr>cae_Type = AE_RoyaltyCorrection, cae_OrderId = [], cae_RefundId = [], cae_MerchantId = sample_hex 2,
     cae_Amount = Fin 10, cae_Currency = ''EUR'', cae_Reason = ''r'', cae_Status = ''available'', cae_Date = 500,
     cae_Country = []\<rparr>"

lemma correction_available [simp]: "AE_RoyaltyCorrection \<in> set availableAccountingEntries"
  by (simp add: availableAccountingEntries_def)

lemma correction_no_reserve [simp]: "AE_RoyaltyCorrection \<notin> set accountingEntriesForRollingReserve"
  by (simp add: accountingEntriesForRollingReserve_def AE_RoyaltyCorrection_def AE_RollingReserveCreate_def
      AE_RollingReserveRelease_def)

definition correction_handler :: handler where
  "correction_handler = \<lparr>h_order = None, h_refund = None, h_refundOrder = None, h_merchant = Some sample_merchant,
     h_country = Some sample_country, h_datetime = None, h_req = Some sample_correction\<rparr>"

lemma sample_hex_nonempty [simp]: "sample_hex i \<noteq> []"
  by (simp add: sample_hex_def)

lemma payment_world_fields [simp]:
  "w_tick payment_world = 0" "w_accounting payment_world = []" "w_merchants payment_world = [sample_merchant]"
  "w_countries payment_world = [sample_country]" "w_orders payment_world = [sample_order_doc]" "w_price_groups payment_world = [\<lparr>pg_Id = ''g'', pg_Currency = ''EUR'', pg_Region = ''EUR'', pg_IsActive = True\<rparr>]"
  by (simp_all add: payment_world_def empty_world_def)

lemma sample_numbers [simp]: "x_money_round sample_ext n k v = Inr v" "x_to_precise sample_ext v = v"
  "x_merchant_payout_currency sample_ext m = ''EUR''"
  by (simp_all add: sample_ext_def)

lemma sample_correction_event:
  "\<exists>e t d. processManualCorrectionEvent sample_ext correction_handler (payment_world\<lparr>w_tick := 2\<rparr>) = (Inr [e], t) \<and>
    ae_to_mgo sample_ext e = ret d \<and> w_accounting t = []"
  by (simp add: processManualCorrectionEvent_def newEntry_def entry_origin_def clock_defs run_go correction_handler_def
      sample_correction_def sample_merchant_def sample_country_def addEntry_def availableAccountingEntriesSourceTypes_def
      fill_original_def fill_local_def local_currency_def priceGroup_GetById_def find_one_def calling_def
      round_entry_def service_round_def replace_err_def Let_def sample_timestamp_proto_def zero_float64_def is_zero_def
      ae_to_mgo_def oid_or_new_def time_or_now_def time_or_zero_def sample_hex_roundtrip)
    (auto simp: ret_def)

lemma manual_entry_recorded_witness:
  "\<exists>rsp t e. CreateAccountingEntry sample_ext sample_correction payment_world = (Inr rsp, t) \<and> rspItem rsp = Some e \<and>
    ae_Amount e = Fin 10 \<and> length (w_accounting t) = 1"
proof -
  obtain e u d where p: "processManualCorrectionEvent sample_ext correction_handler (payment_world\<lparr>w_tick := 2\<rparr>) = (Inr [e], u)"
    and d: "ae_to_mgo sample_ext e = ret d" and u: "w_accounting u = []" using sample_correction_event by blast
  have "aerepo_MultipleInsert sample_ext [e] u = (Inr (), u\<lparr>w_tick := Suc (w_tick u), w_accounting := [d]\<rparr>)"
    by (rule insert_completes[where docs = "[d]"]) (simp_all add: d u)
  then obtain t where s: "saveAccountingEntries sample_ext correction_handler [e] u = (Inr (), t)"
    by (simp add: saveAccountingEntries_def run_go event_paylinks_def event_ids_def correction_handler_def)
  have fields: "cae_Type sample_correction = AE_RoyaltyCorrection" "cae_OrderId sample_correction = []"
    "cae_RefundId sample_correction = []" "cae_MerchantId sample_correction = sample_hex 2"
    "merchant_Id sample_merchant = sample_hex 2" "merchant_Company sample_merchant = Some ''c''"
    "merchant_CompanyCountry sample_merchant = ''DE''" "country_IsoCodeA2 sample_country = ''DE''"
    by (simp_all add: sample_correction_def sample_merchant_def sample_country_def)
  have "CreateAccountingEntry sample_ext sample_correction payment_world = (Inr (rsp_ok e), t)"
    using p s
    by (simp add: CreateAccountingEntry_def and_then_def ae_order_step_def ae_refund_step_def ae_merchant_step_def valid_hex_def
        processEvent_def merchant_GetById_def country_GetByIsoCodeA2_def find_one_def calling_def run_go
        fields try_go_def attempt_def correction_handler_def numeral_2_eq_2)
  from manual_entry_recorded[OF this] this show ?thesis by (auto simp: rsp_ok_def sample_correction_def)
qed

section \<open>A reserve without a merchant\<close>

text \<open>A rolling reserve asked for by order only.\<close>

definition reserve_request :: create_entry_request where
  "reserve_request = sample_correction\<lparr>cae_Type := AE_RollingReserveCreate, cae_OrderId := sample_hex 1, cae_MerchantId := []\<rparr>"

definition reserve_handler :: handler where
  "reserve_handler = correction_handler\<lparr>h_order := Some sample_order, h_merchant := None, h_req := Some reserve_request,
     h_datetime := order_PaymentMethodOrderClosedAt sample_order\<rparr>"

lemma reserve_event:
  "\<exists>e t d. processManualCorrectionEvent sample_ext reserve_handler (payment_world\<lparr>w_tick := 2\<rparr>) = (Inr [e], t) \<and>
    ae_to_mgo sample_ext e = ret d \<and> w_accounting t = []"
  by (simp add: processManualCorrectionEvent_def newEntry_def entry_origin_def clock_defs run_go correction_handler_def
      reserve_handler_def reserve_request_def sample_order_defs availableAccountingEntries_def
      sample_correction_def sample_country_def addEntry_def availableAccountingEntriesSourceTypes_def
      fill_original_def fill_local_def local_currency_def priceGroup_GetById_def find_one_def calling_def
      round_entry_def service_round_def replace_err_def Let_def sample_timestamp_proto_def zero_float64_def is_zero_def
      ae_to_mgo_def oid_or_new_def time_or_now_def time_or_zero_def sample_hex_roundtrip)
    (auto simp: ret_def)

text \<open>A rolling reserve created for an order, without naming the merchant, ends in a nil dereference after
  the entry has been stored: the caller gets no response, the journal keeps the entry, and the balance of the
  merchant is not brought up to date.\<close>

theorem reserve_without_merchant_panics:
  "\<exists>t. CreateAccountingEntry sample_ext reserve_request payment_world = (Inl go_panic, t) \<and>
    length (w_accounting t) = 1 \<and> w_balances t = []"
proof -
  let ?w = payment_world
  obtain e u d where p: "processManualCorrectionEvent sample_ext reserve_handler (?w\<lparr>w_tick := 2\<rparr>) = (Inr [e], u)"
    and d: "ae_to_mgo sample_ext e = ret d" and u: "w_accounting u = []" using reserve_event by auto
  have ub: "w_balances u = []"
    using quietD[OF quiet_correction, OF p] by (cases u) (simp add: payment_world_def empty_world_def)
  have mi: "aerepo_MultipleInsert sample_ext [e] u = (Inr (), u\<lparr>w_tick := Suc (w_tick u), w_accounting := [d]\<rparr>)"
    by (rule insert_completes[where docs = "[d]"]) (simp_all add: d u)
  have ids: "event_ids reserve_handler = [sample_hex 1]" "event_paylinks reserve_handler = ret []"
    by (simp_all add: event_ids_def event_paylinks_def reserve_handler_def correction_handler_def issuer_is_paylink_def sample_order_defs)
  let ?v = "u\<lparr>w_tick := Suc (w_tick u), w_accounting := [d]\<rparr>"
  have uo: "w_orders u = [sample_order_doc]" using quiet_same(3)[OF quiet_correction p] by simp
  have "order_Id sample_order = sample_hex 1" by (simp add: sample_order_defs)
  then obtain t where r: "updateOrderView sample_ext [sample_hex 1] ?v = (Inr (), t)"
    using refresh_all_complete[of ?v sample_ext "[sample_hex 1]"] order_view_batches[of sample_ext "[sample_hex 1]"]
      sample_view_ready uo by auto
  then have s: "saveAccountingEntries sample_ext reserve_handler [e] u = (Inr (), t)"
    by (simp add: saveAccountingEntries_def run_go mi ids)
  have t: "w_accounting t = [d]" by (rule keepsD[OF keeps_updateOrderView _ r]) (simp_all add: view_stable_def)
  have tb: "w_balances t = []" by (rule keepsD[OF keeps_updateOrderView _ r]) (simp_all add: view_stable_def ub)
  have fields: "cae_Type reserve_request = AE_RollingReserveCreate" "cae_OrderId reserve_request = sample_hex 1"
    "cae_RefundId reserve_request = []" "cae_MerchantId reserve_request = []" "x_order_country sample_ext sample_order = ''DE''"
    "order_Id sample_order = sample_hex 1" "country_IsoCodeA2 sample_country = ''DE''"
    "AE_RollingReserveCreate \<in> set availableAccountingEntries" "AE_RollingReserveCreate \<in> set accountingEntriesForRollingReserve"
    by (simp_all add: reserve_request_def sample_correction_def sample_country_def sample_ext_def sample_order_defs
        availableAccountingEntries_def accountingEntriesForRollingReserve_def)
  have "CreateAccountingEntry sample_ext reserve_request ?w = (Inl go_panic, t)"
    using p s
    by (simp add: CreateAccountingEntry_def and_then_def ae_order_step_def ae_refund_step_def ae_merchant_step_def valid_hex_def
        processEvent_def getOrderById_def orderrepo_GetById_def repo_get_def sample_order_decoded country_GetByIsoCodeA2_def find_one_def calling_def run_go sample_hex_roundtrip
        fields try_go_def attempt_def replace_err_def deref_def reserve_handler_def correction_handler_def numeral_2_eq_2)
  then show ?thesis using t tb by auto
qed

section \<open>Rebuilding the entries of a refund\<close>

text \<open>Without a tax entry under the given original order, no refund is posted.\<close>

lemma refund_needs_tax_entry:
  assumes no: "\<nexists>e. stored_entry X ordr AE_RealTaxFee s e" and run: "onRefundNotify X refund ordr s = (r, t)"
  shows "w_accounting t = w_accounting s"
proof (cases "x_order_public_status X ordr \<in> set processableOrderStatus")
  case False then show ?thesis using run by (simp add: onRefundNotify_def run_go)
next
  case True
  from onRefundNotify_steps[OF run True] show ?thesis
  proof (elim disjE exE conjE)
    fix country refundOrder merchant u r'
    let ?h = "refund_handler refund ordr refundOrder merchant country"
    assume u: "w_accounting u = w_accounting s" and p: "processEvent X ?h Refunding u = (r', t)"
    obtain r1 v where v: "processRefundEvent X ?h u = (r1, v)" by fastforce
    have h: "h_refund ?h = Some refund" "h_order ?h = Some ordr" "h_refundOrder ?h = Some refundOrder" "h_country ?h = Some country"
      by (simp_all add: refund_handler_def)
    have "\<nexists>e. stored_entry X ordr AE_RealTaxFee u e" using no by (simp add: stored_entry_at[OF u])
    then have "\<nexists>es. r1 = Inr es" using refund_shape[OF h, of X u _ v] v by (auto simp: refund_ledger_def Let_def)
    then have "t = v" using p v by (cases r1) (auto simp: processEvent_def run_go)
    then show ?thesis using quiet_accounting[OF quiet_refund, OF v] u by simp
  qed simp
qed

text \<open>A forced rebuild of the entries of a refund removes them and never makes new ones: the refund's own
  order is handed over as the original order, under which there is no tax entry, and the resulting error is
  dropped, so the call reports success over a journal that has lost the entries.\<close>

theorem rebuild_loses_refund_entries:
  assumes "order_at X (w_orders s) i = Some ordr" and "order_Type ordr = OrderTypeRefund"
    and "canon_id X i" and "x_oid_from_hex X i = Inr oid"
    and "\<forall>d\<in>set (w_accounting s). \<not> ae_of_source oid CollectionOrder d"
    and "RebuildAccountingEntries X i True s = (Inr (), t)"
  shows "w_accounting t = filter (\<lambda>d. \<not> ae_of_source oid CollectionRefund d) (w_accounting s)"
proof -
  have ty: "OrderTypeRefund = CollectionRefund" "OrderTypeRefund \<noteq> OrderTypeOrder"
    by (simp_all add: OrderTypeRefund_def OrderTypeOrder_def CollectionRefund_def)
  have oi: "order_Id ordr = i" using assms(1,3) by (rule order_at_id)
  obtain o' u where o: "getOrderById X i s = (Inr o', u)"
    and rest: "bind (aerepo_DeleteBySource X i (order_Type o')) (\<lambda>_.
      if order_Type o' = OrderTypeOrder then onPaymentNotify X o'
      else if order_Type o' = OrderTypeRefund then
        bind (deref (order_Refund o')) (\<lambda>r.
        bind (refundrepo_GetById X (oref_ReceiptNumber r)) (\<lambda>refund.
        bind (try_go (onRefundNotify X refund o')) (\<lambda>_. ret ())))
      else throw (ErrOther ''Unsupported order type'')) u = (Inr (), t)"
    using assms(6)[unfolded RebuildAccountingEntries_def run_guard if_True bind_Inr[of "getOrderById X i"]] by blast
  have "o' = ordr" using o assms(1) by (auto simp: getOrderById_def success dest: orderrepo_GetById_success)
  note rest = rest[unfolded this]
  have u: "w_accounting u = w_accounting s" using quiet_accounting[OF quiet_lookups(3), OF o] by simp
  obtain v receipt w refund r where d: "aerepo_DeleteBySource X i (order_Type ordr) u = (Inr (), v)"
    and g: "refundrepo_GetById X receipt v = (Inr refund, w)"
    and n: "onRefundNotify X refund ordr w = (r, t)"
    using rest assms(2) ty(2)
    by (auto simp: success try_go_def run_sum split: if_split_asm)
  have v: "w_accounting v = filter (\<lambda>d. \<not> ae_of_source oid CollectionRefund d) (w_accounting s)"
    using d u assms(2,4) ty(1) by (auto simp: aerepo_DeleteBySource_def delete_many_def success calling_def rpc_success modify_def)
  have w: "w_accounting w = w_accounting v"
    using quiet_accounting[OF quiet_gets, OF g[unfolded refundrepo_GetById_def]] by simp
  have "\<nexists>e. stored_entry X ordr AE_RealTaxFee w e"
    using assms(4,5) v w oi by (auto simp: stored_entry_def ae_of_source_def)
  then show ?thesis using refund_needs_tax_entry[OF _ n] v w by simp
qed

text \<open>The refund order of the sample payment, with one entry of the refund in the journal.\<close>

lemma rebuild_loses_refund_entries_witness:
  "\<exists>t. RebuildAccountingEntries sample_ext (sample_hex 3) True (empty_world\<lparr>
      w_orders := [sample_refund_doc\<lparr>order_Refund := Some \<lparr>oref_Amount = Fin 100, oref_Currency = ''EUR'', oref_Reason = [],
        oref_Code = [], oref_ReceiptNumber = sample_hex 4, oref_ReceiptUrl = []\<rparr>\<rparr>],
      w_refunds := [\<lparr>mgorefund_Id = 4, mgorefund_OriginalOrderId = 1, mgorefund_OriginalOrderUuid = ''o1'',
        mgorefund_ExternalId = [], mgorefund_Amount = Fin 100, mgorefund_CreatorId = 7, mgorefund_Currency = ''EUR'',
        mgorefund_Status = 4, mgorefund_CreatedAt = 0, mgorefund_UpdatedAt = 0, mgorefund_PayerData = None,
        mgorefund_SalesTax = Fin 0, mgorefund_IsChargeback = False, mgorefund_CreatedOrderId = 3, mgorefund_Reason = []\<rparr>],
      w_accounting := [tax_entry, tax_entry\<lparr>mgoae_Type := AE_RealRefund, mgoae_SourceId := 3,
        mgoae_SourceType := CollectionRefund\<rparr>]\<rparr>) = (Inr (), t) \<and> w_accounting t = [tax_entry]"
  (is "\<exists>t. RebuildAccountingEntries _ _ _ ?w = _ \<and> _")
proof -
  let ?r = "\<lparr>oref_Amount = Fin 100, oref_Currency = ''EUR'', oref_Reason = [], oref_Code = [],
    oref_ReceiptNumber = sample_hex 4, oref_ReceiptUrl = []\<rparr>"
  have o: "order_from_mgo sample_ext (sample_refund_doc\<lparr>order_Refund := Some ?r\<rparr>) =
      Inr (sample_refund_order\<lparr>order_Refund := Some ?r\<rparr>)"
    by (simp add: order_from_mgo_def sample_refund_doc_def sample_refund_order_def sample_order_doc_def sample_order_defs
        sample_timestamp_proto_def getPaymentMethodOrder_def)
  have ty: "order_Type sample_refund_order = ''refund''" "order_Status sample_refund_order = ''refunded''"
    by (simp_all add: sample_refund_order_def OrderTypeRefund_def)
  have "wp (RebuildAccountingEntries sample_ext (sample_hex 3) True) (\<lambda>r t. r = Inr ()) ?w"
    by (simp add: RebuildAccountingEntries_def getOrderById_def orderrepo_GetById_def find_one_def aerepo_DeleteBySource_def delete_many_def
        o ty sample_hex_roundtrip OrderTypeRefund_def OrderTypeOrder_def deref_def refundrepo_GetById_def
        repo_get_def refund_from_mgo_def sample_timestamp_proto_def onRefundNotify_def processableOrderStatus_def
        country_GetByIsoCodeA2_def empty_world_def go_panic_def go_hangs_def)
  then obtain t where t: "RebuildAccountingEntries sample_ext (sample_hex 3) True ?w = (Inr (), t)"
    by (auto simp: wp_def split: prod.splits)
  have "w_accounting t = [tax_entry]"
    using rebuild_loses_refund_entries[OF _ _ _ _ _ t, of "sample_refund_order\<lparr>order_Refund := Some ?r\<rparr>" 3]
    by (simp add: order_at_def o ty OrderTypeRefund_def sample_canon_id sample_hex_roundtrip ae_of_source_def tax_entry_def posted_entry_def
        source_collections)
  then show ?thesis using t by blast
qed

end
