(* ===== verification/RoyaltySummary.thy ===== *)
theory RoyaltySummary
  imports OrderView "HOL-Library.Option_ord" "HOL-Library.Char_ord" "HOL-Library.List_Lexorder"
    "HOL-Library.Product_Lexorder"
begin

text \<open>
  The sums of a royalty report (internal/repository/order\_view.go: getRoyaltySummaryGroupingQuery,
  GetRoyaltySummary, GetRoyaltySummaryRoundedAmounts, GetRoyaltyForMerchants). The aggregation
  is given as the function that its stages denote: the views of the period are matched, unwound
  into one row per item, and the rows are grouped by product and region and as a whole. The
  sums and the rounding are the database's (\<open>x_mongo_sum\<close>, \<open>x_mongo_round2\<close>). A project without
  an English name has no product (\<open>None\<close>), which sorts before every name.
\<close>

section \<open>The stages\<close>

record royalty_row =
  row_Id :: oid
  row_Product :: "string option"
  row_Region :: string
  row_Type :: string
  row_GrossRevenue :: float64
  row_RefundGrossRevenue :: float64
  row_TaxFeeTotal :: float64
  row_RefundTaxFeeTotal :: float64
  row_FeesTotal :: float64
  row_RefundFeesTotal :: float64
  row_NetRevenue :: float64
  row_RefundReverseRevenue :: float64

text \<open>\<open>$match\<close>.\<close>

definition statusForRoyaltySummary :: "string list" where
  "statusForRoyaltySummary = [''processed'', ''refunded'', ''chargeback'']"

definition royalty_match :: "oid \<Rightarrow> string \<Rightarrow> gotime \<Rightarrow> gotime \<Rightarrow> mgo_order_view \<Rightarrow> bool" where
  "royalty_match m currency from to v \<longleftrightarrow> ov_MerchantId v = m \<and> ov_MerchantPayoutCurrency v = currency \<and>
     from \<le> ov_TransactionDate v \<and> ov_TransactionDate v \<le> to \<and>
     ov_Status v \<in> set statusForRoyaltySummary \<and> ov_IsProduction v"

text \<open>
  \<open>$project\<close>, \<open>$unwind\<close>, \<open>$project\<close>: an order without items has one row, named after the project;
  every item of the others has a row with the amounts of the whole order. \<open>pick\<close> chooses the
  amount or the rounded amount, \<open>r\<close> is the rounding of the last \<open>$project\<close>.
\<close>

definition project_product :: "mgo_order_view \<Rightarrow> string option" where
  "project_product v = map_option snd (find (\<lambda>(lang, name). lang = ''en'') (ov_ProjectName v))"

definition row_of :: "(money \<Rightarrow> float64) \<Rightarrow> (float64 \<Rightarrow> float64) \<Rightarrow> mgo_order_view \<Rightarrow> mgo_order_item option \<Rightarrow> royalty_row" where
  "row_of pick r v item = (let p = ov_PaymentFigures v; f = ov_RefundFigures v in
     \<lparr>row_Id = ov_Id v,
      row_Product = (case item of None \<Rightarrow> project_product v | Some i \<Rightarrow> Some (oi_Name i)),
      row_Region = ov_CountryCode v, row_Type = ov_Type v,
      row_GrossRevenue = r (pick (pf_GrossRevenue p)),
      row_RefundGrossRevenue = r (pick (rf_RefundGrossRevenue f)),
      row_TaxFeeTotal = r (pick (pf_TaxFeeTotal p)),
      row_RefundTaxFeeTotal = r (pick (rf_RefundTaxFeeTotal f)),
      row_FeesTotal = r (pick (pf_FeesTotal p)),
      row_RefundFeesTotal = r (pick (rf_RefundFeesTotal f)),
      row_NetRevenue = r (pick (pf_NetRevenue p)),
      row_RefundReverseRevenue = r (pick (rf_RefundReverseRevenue f))\<rparr>)"

definition rows_of :: "(money \<Rightarrow> float64) \<Rightarrow> (float64 \<Rightarrow> float64) \<Rightarrow> mgo_order_view \<Rightarrow> royalty_row list" where
  "rows_of pick r v = (if ov_Items v = [] then [row_of pick r v None]
     else map (\<lambda>i. row_of pick r v (Some i)) (ov_Items v))"

text \<open>\<open>$group\<close>, \<open>$addFields\<close> and, for the rounded amounts, \<open>$project\<close> with \<open>$round\<close>.\<close>

definition summary_of_rows :: "ext \<Rightarrow> (float64 \<Rightarrow> float64) \<Rightarrow> royalty_row list \<Rightarrow> rr_product_summary" where
  "summary_of_rows X r rows = (let total = (\<lambda>f. x_mongo_sum X (map f rows));
       sales = length (filter (\<lambda>w. row_Type w = ''order'') rows) in
     \<lparr>rrp_Product = (case row_Product (hd rows) of None \<Rightarrow> [] | Some p \<Rightarrow> p), rrp_Region = row_Region (hd rows),
      rrp_TotalTransactions = int (length rows), rrp_SalesCount = int sales,
      rrp_ReturnsCount = int (length rows) - int sales,
      rrp_GrossSalesAmount = r (total row_GrossRevenue), rrp_GrossReturnsAmount = r (total row_RefundGrossRevenue),
      rrp_GrossTotalAmount = r (total row_GrossRevenue - total row_RefundGrossRevenue),
      rrp_TotalFees = r (x_mongo_sum X [total row_FeesTotal, total row_RefundFeesTotal]),
      rrp_TotalVat = r (total row_TaxFeeTotal - total row_RefundTaxFeeTotal),
      rrp_PayoutAmount = r (total row_NetRevenue - total row_RefundReverseRevenue)\<rparr>)"

definition row_key :: "royalty_row \<Rightarrow> string option \<times> string" where
  "row_key w = (row_Product w, row_Region w)"

definition summary_groups :: "ext \<Rightarrow> (float64 \<Rightarrow> float64) \<Rightarrow> royalty_row list \<Rightarrow> rr_product_summary list" where
  "summary_groups X r rows =
     map (\<lambda>k. summary_of_rows X r (filter (\<lambda>w. row_key w = k) rows)) (sort (remdups (map row_key rows)))"

definition royaltySummaryItemPrecise :: "ext \<Rightarrow> rr_product_summary \<Rightarrow> rr_product_summary" where
  "royaltySummaryItemPrecise X i =
     i\<lparr>rrp_GrossSalesAmount := x_to_precise X (rrp_GrossSalesAmount i),
       rrp_GrossReturnsAmount := x_to_precise X (rrp_GrossReturnsAmount i),
       rrp_GrossTotalAmount := x_to_precise X (rrp_GrossTotalAmount i),
       rrp_TotalFees := x_to_precise X (rrp_TotalFees i), rrp_TotalVat := x_to_precise X (rrp_TotalVat i),
       rrp_PayoutAmount := x_to_precise X (rrp_PayoutAmount i)\<rparr>"

text \<open>The whole, which stays the zero item when nothing matched.\<close>

definition empty_summary :: rr_product_summary where
  "empty_summary = \<lparr>rrp_Product = [], rrp_Region = [], rrp_TotalTransactions = 0, rrp_SalesCount = 0,
     rrp_ReturnsCount = 0, rrp_GrossSalesAmount = 0, rrp_GrossReturnsAmount = 0, rrp_GrossTotalAmount = 0,
     rrp_TotalFees = 0, rrp_TotalVat = 0, rrp_PayoutAmount = 0\<rparr>"

definition summary_total :: "ext \<Rightarrow> (float64 \<Rightarrow> float64) \<Rightarrow> royalty_row list \<Rightarrow> rr_product_summary" where
  "summary_total X r rows = (if rows = [] then empty_summary
     else (summary_of_rows X r rows)\<lparr>rrp_Product := [], rrp_Region := []\<rparr>)"

section \<open>The queries\<close>

type_synonym royalty_summary = "rr_product_summary list \<times> rr_product_summary \<times> oid list"

definition royalty_summary_of :: "ext \<Rightarrow> (money \<Rightarrow> float64) \<Rightarrow> (float64 \<Rightarrow> float64) \<Rightarrow> mgo_order_view list \<Rightarrow> royalty_summary" where
  "royalty_summary_of X pick r views = (let rows = concat (map (rows_of pick r) views) in
     (map (royaltySummaryItemPrecise X) (summary_groups X r rows),
      royaltySummaryItemPrecise X (summary_total X r rows), map row_Id rows))"

definition GetRoyaltySummary :: "ext \<Rightarrow> string \<Rightarrow> string \<Rightarrow> gotime \<Rightarrow> gotime \<Rightarrow> royalty_summary io" where
  "GetRoyaltySummary X merchantId currency from to =
     bind (find_all X w_order_views (royalty_match (oid_or_nil X merchantId) currency from to)) (\<lambda>views.
     ret (royalty_summary_of X mo_Amount (\<lambda>a. a) views))"

definition GetRoyaltySummaryRoundedAmounts :: "ext \<Rightarrow> string \<Rightarrow> string \<Rightarrow> gotime \<Rightarrow> gotime \<Rightarrow> royalty_summary io" where
  "GetRoyaltySummaryRoundedAmounts X merchantId currency from to =
     bind (find_all X w_order_views (royalty_match (oid_or_nil X merchantId) currency from to)) (\<lambda>views.
     ret (royalty_summary_of X mo_AmountRounded (x_mongo_round2 X) views))"

text \<open>The merchants with orders in a period (in the order of their first documents; the database leaves it open).\<close>

definition GetRoyaltyForMerchants :: "ext \<Rightarrow> string list \<Rightarrow> gotime \<Rightarrow> gotime \<Rightarrow> oid list io" where
  "GetRoyaltyForMerchants X statuses from to =
     bind (find_all X w_order_views (\<lambda>v. from \<le> ov_TransactionDate v \<and> ov_TransactionDate v \<le> to \<and>
         ov_Status v \<in> set statuses \<and> ov_IsProduction v)) (\<lambda>views.
     ret (rev (remdups (rev (map ov_ProjectMerchantId views)))))"

section \<open>What is counted\<close>

lemma row_of_simps [simp]:
  "row_Id (row_of pick r v i) = ov_Id v" "row_Region (row_of pick r v i) = ov_CountryCode v"
  "row_NetRevenue (row_of pick r v i) = r (pick (pf_NetRevenue (ov_PaymentFigures v)))"
  "row_RefundReverseRevenue (row_of pick r v i) = r (pick (rf_RefundReverseRevenue (ov_RefundFigures v)))"
  "row_FeesTotal (row_of pick r v i) = r (pick (pf_FeesTotal (ov_PaymentFigures v)))"
  "row_RefundFeesTotal (row_of pick r v i) = r (pick (rf_RefundFeesTotal (ov_RefundFigures v)))"
  by (simp_all add: row_of_def Let_def)

lemma length_rows_of: "length (rows_of pick r v) = max 1 (length (ov_Items v))"
  by (cases "ov_Items v") (simp_all add: rows_of_def)

lemma map_rows_of:
  assumes "\<And>i. f (row_of pick r v i) = a"
  shows "map f (rows_of pick r v) = replicate (max 1 (length (ov_Items v))) a"
proof -
  have "map f (rows_of pick r v) = replicate (length (rows_of pick r v)) a"
    using assms by (auto simp: rows_of_def map_replicate_const intro!: replicate_eqI)
  then show ?thesis by (simp add: length_rows_of)
qed

lemma sum_group_lengths:
  "distinct ks \<Longrightarrow> (\<And>x. x \<in> set xs \<Longrightarrow> k x \<in> set ks) \<Longrightarrow>
    (\<Sum>c\<leftarrow>ks. int (length (filter (\<lambda>x. k x = c) xs))) = int (length xs)"
proof (induction xs)
  case (Cons x xs)
  have "(\<Sum>c\<leftarrow>ks. int (length (filter (\<lambda>x. k x = c) (x # xs)))) =
      (\<Sum>c\<leftarrow>ks. (if k x = c then 1 else 0) + int (length (filter (\<lambda>x. k x = c) xs)))"
    by (rule arg_cong[where f = sum_list], rule map_cong) auto
  also have "\<dots> = (\<Sum>c\<leftarrow>ks. if k x = c then 1 else 0) + int (length xs)"
    using Cons by (simp add: sum_list_addf)
  also have "(\<Sum>c\<leftarrow>ks. if k x = c then 1 else 0) = (1 :: int)"
    using Cons.prems by (subst sum_list_distinct_conv_sum_set) simp_all
  finally show ?case by simp
qed simp

lemma summary_counts_simps [simp]:
  "rrp_TotalTransactions (royaltySummaryItemPrecise X i) = rrp_TotalTransactions i"
  "rrp_SalesCount (royaltySummaryItemPrecise X i) = rrp_SalesCount i"
  "rrp_ReturnsCount (royaltySummaryItemPrecise X i) = rrp_ReturnsCount i"
  "rrp_PayoutAmount (royaltySummaryItemPrecise X i) = x_to_precise X (rrp_PayoutAmount i)"
  "rrp_TotalTransactions (summary_of_rows X r rows) = int (length rows)"
  "rrp_SalesCount (summary_of_rows X r rows) = int (length (filter (\<lambda>w. row_Type w = ''order'') rows))"
  "rrp_ReturnsCount (summary_of_rows X r rows) = int (length rows) - rrp_SalesCount (summary_of_rows X r rows)"
  by (simp_all add: royaltySummaryItemPrecise_def summary_of_rows_def Let_def)

lemma summary_total_simps:
  assumes "rows \<noteq> []"
  shows "rrp_TotalTransactions (summary_total X r rows) = int (length rows)"
    "rrp_PayoutAmount (summary_total X r rows) =
      r (x_mongo_sum X (map row_NetRevenue rows) - x_mongo_sum X (map row_RefundReverseRevenue rows))"
  using assms by (simp_all add: summary_total_def summary_of_rows_def Let_def)

text \<open>
  What a period sold, said on its own: each item of an order under its name, an order without items under the
  English name of its project; with the country and the type of the order.
\<close>

definition sold :: "mgo_order_view list \<Rightarrow> (string option \<times> string \<times> string) list" where
  "sold views = concat (map (\<lambda>v. map (\<lambda>p. (p, ov_CountryCode v, ov_Type v))
     (if ov_Items v = [] then [map_of (ov_ProjectName v) ''en''] else map (\<lambda>i. Some (oi_Name i)) (ov_Items v))) views)"

definition sold_as :: "string option \<Rightarrow> string \<Rightarrow> (string option \<times> string \<times> string) list \<Rightarrow> string list" where
  "sold_as p c rows = map (snd \<circ> snd) (filter (\<lambda>(p', c', ty). p' = p \<and> c' = c) rows)"

text \<open>The counts of a line: all its sales and returns, those of type order, and the others.\<close>

definition line_counts :: "rr_product_summary \<Rightarrow> string list \<Rightarrow> bool" where
  "line_counts i tys \<longleftrightarrow> rrp_TotalTransactions i = int (length tys) \<and>
     rrp_SalesCount i = int (length (filter (\<lambda>ty. ty = ''order'') tys)) \<and>
     rrp_ReturnsCount i = int (length (filter (\<lambda>ty. ty \<noteq> ''order'') tys))"

lemma project_product_en: "project_product v = map_of (ov_ProjectName v) ''en''"
proof -
  have "map_option snd (find (\<lambda>(lang, name). lang = l) ns) = map_of ns l" for l :: string and ns :: "(string \<times> string) list"
    by (induction ns) auto
  then show ?thesis by (simp add: project_product_def)
qed

lemma sold_rows:
  "sold views = map (\<lambda>w. (row_Product w, row_Region w, row_Type w)) (concat (map (rows_of pick r) views))"
  by (induction views) (simp_all add: sold_def rows_of_def row_of_def Let_def project_product_en o_def)

lemma line_counts_rows:
  "line_counts (royaltySummaryItemPrecise X (summary_of_rows X r rows)) (map row_Type rows)"
proof -
  have "int (length (filter (\<lambda>ty. ty = ''order'') tys)) + int (length (filter (\<lambda>ty. ty \<noteq> ''order'') tys)) = int (length tys)"
    for tys :: "string list" by (induction tys) auto
  from this[of "map row_Type rows"] show ?thesis by (simp add: line_counts_def filter_map o_def)
qed

lemma line_counts_total:
  "line_counts (royaltySummaryItemPrecise X (summary_total X r rows)) (map row_Type rows)"
proof (cases "rows = []")
  case True
  then show ?thesis by (simp add: summary_total_def line_counts_def royaltySummaryItemPrecise_def empty_summary_def)
next
  case False
  then show ?thesis
    using line_counts_rows[of X r rows] by (simp add: summary_total_def line_counts_def royaltySummaryItemPrecise_def)
qed

lemma sold_as_rows:
  "sold_as p c (map (\<lambda>w. (row_Product w, row_Region w, row_Type w)) rows) = map row_Type (filter (\<lambda>w. row_key w = (p, c)) rows)"
  by (induction rows) (auto simp: sold_as_def row_key_def)

text \<open>C15: A royalty summary has one line for every product and country that something was sold or returned under, in
  order, and no other line; a line counts the sales and the returns of exactly this product in this country. The
  whole counts all of them, and the ids are those of the orders, once for every item of an order and once for an
  order without items.\<close>

theorem royalty_summary_partition:
  assumes "royalty_summary_of X pick r views = (items, whole, ids)"
  shows "\<exists>ks. distinct ks \<and> sorted ks \<and> set ks = (\<lambda>(p, c, ty). (p, c)) ` set (sold views) \<and>
    list_all2 (\<lambda>(p, c) i. rrp_Product i = (case p of None \<Rightarrow> [] | Some n \<Rightarrow> n) \<and> rrp_Region i = c \<and>
      line_counts i (sold_as p c (sold views))) ks items \<and>
    line_counts whole (map (snd \<circ> snd) (sold views)) \<and>
    ids = concat (map (\<lambda>v. replicate (max 1 (length (ov_Items v))) (ov_Id v)) views)"
proof -
  let ?rows = "concat (map (rows_of pick r) views)" and ?ks = "\<lambda>rows. sort (remdups (map row_key rows))"
  have i: "items = map (royaltySummaryItemPrecise X) (summary_groups X r ?rows)"
    and t: "whole = royaltySummaryItemPrecise X (summary_total X r ?rows)" and d: "ids = map row_Id ?rows"
    using assms by (simp_all add: royalty_summary_of_def Let_def)
  note sold = sold_rows[of views pick r]
  have key: "row_Product w = p \<and> row_Region w = c" if "row_key w = (p, c)" for w p c
    using that by (simp add: row_key_def)
  have line: "rrp_Product j = (case p of None \<Rightarrow> [] | Some n \<Rightarrow> n) \<and> rrp_Region j = c \<and> line_counts j (sold_as p c (sold views))"
    if k: "(p, c) \<in> set (?ks ?rows)" and j: "j = royaltySummaryItemPrecise X (summary_of_rows X r (filter (\<lambda>w. row_key w = (p, c)) ?rows))" for p c j
  proof -
    let ?g = "filter (\<lambda>w. row_key w = (p, c)) ?rows"
    have "?g \<noteq> []" using k by (auto simp: filter_empty_conv simp del: set_concat)
    then have "hd ?g \<in> set ?g" by (rule hd_in_set)
    then have "row_Product (hd ?g) = p \<and> row_Region (hd ?g) = c" using key by auto
    then show ?thesis using line_counts_rows[of X r ?g] unfolding j sold sold_as_rows
      by (simp add: royaltySummaryItemPrecise_def summary_of_rows_def Let_def)
  qed
  let ?P = "\<lambda>(p, c) j. rrp_Product j = (case p of None \<Rightarrow> [] | Some n \<Rightarrow> n) \<and> rrp_Region j = c \<and>
      line_counts j (sold_as p c (sold views))"
  let ?g = "\<lambda>k. royaltySummaryItemPrecise X (summary_of_rows X r (filter (\<lambda>w. row_key w = k) ?rows))"
  have "?P k (?g k)" if "k \<in> set (?ks ?rows)" for k
    using line[of "fst k" "snd k" "?g k"] that by (cases k) (simp only: prod.case fst_conv snd_conv simp_thms)
  then have "list_all2 ?P (?ks ?rows) (map ?g (?ks ?rows))"
    unfolding list_all2_map2 list_all2_same by (rule ballI)
  then have "list_all2 ?P (?ks ?rows) items" by (simp only: i summary_groups_def map_map o_def)
  moreover have "line_counts whole (map (snd \<circ> snd) (sold views))"
    using line_counts_total[of X r ?rows] unfolding t sold by (simp only: map_map o_def snd_conv)
  moreover have "set (?ks ?rows) = (\<lambda>(p, c, ty). (p, c)) ` set (sold views)"
    unfolding sold by (auto simp: row_key_def image_image)
  moreover have "ids = concat (map (\<lambda>v. replicate (max 1 (length (ov_Items v))) (ov_Id v)) views)"
    by (simp add: d map_concat o_def map_rows_of)
  ultimately show ?thesis by (intro exI[of _ "?ks ?rows"]) simp
qed

text \<open>C16: As long as no order has more than one item, the whole of a royalty summary is the sum over the
  orders: every order is counted once, and the amount to be paid out is the rounded difference of the sums of
  their net revenues and of their reversed revenues.\<close>

theorem royalty_summary_of_single_items:
  assumes "\<forall>v\<in>set views. length (ov_Items v) \<le> 1" and "views \<noteq> []"
    and "royalty_summary_of X pick r views = (items, whole, ids)"
  shows "ids = map ov_Id views \<and> rrp_TotalTransactions whole = int (length views) \<and>
    rrp_PayoutAmount whole = x_to_precise X (r
      (x_mongo_sum X (map (\<lambda>v. r (pick (pf_NetRevenue (ov_PaymentFigures v)))) views)
       - x_mongo_sum X (map (\<lambda>v. r (pick (rf_RefundReverseRevenue (ov_RefundFigures v)))) views)))"
proof -
  let ?rows = "concat (map (rows_of pick r) views)"
  have t: "whole = royaltySummaryItemPrecise X (summary_total X r ?rows)"
    using assms(3) by (simp add: royalty_summary_of_def Let_def)
  have one: "max 1 (length (ov_Items v)) = 1" if "v \<in> set views" for v using assms(1) that by (auto simp: max_def)
  have m: "map f ?rows = map g views" if "\<And>v i. f (row_of pick r v i) = g v" for f :: "royalty_row \<Rightarrow> 'x" and g
  proof -
    have "map f ?rows = concat (map (\<lambda>v. map f (rows_of pick r v)) views)" by (simp add: map_concat o_def)
    also have "\<dots> = concat (map (\<lambda>v. [g v]) views)"
    proof (rule arg_cong[where f = concat], rule map_cong[OF refl])
      fix v assume "v \<in> set views"
      then show "map f (rows_of pick r v) = [g v]" using map_rows_of[where f = f and a = "g v" and v = v, OF that] one[of v] by simp
    qed
    finally show ?thesis by simp
  qed
  have ids: "ids = map ov_Id views"
    using m[of row_Id ov_Id] assms(3) by (simp add: royalty_summary_of_def Let_def)
  have l: "length ?rows = length views" using m[of row_Id ov_Id] by (metis length_map row_of_simps(1))
  then have "?rows \<noteq> []" using assms(2) by (metis length_0_conv)
  note z = summary_total_simps[OF this]
  show ?thesis unfolding t summary_counts_simps z l ids
    using m[of row_NetRevenue] m[of row_RefundReverseRevenue] by simp
qed

text \<open>C17: An order of several items is counted once per item: its row carries the amounts of the whole order,
  so the amount to be paid out for it is the one of as many orders as it has items.\<close>

theorem items_multiply_payout:
  assumes "ov_Items v \<noteq> []" and "royalty_summary_of X pick r [v] = (items, whole, ids)"
  shows "ids = replicate (length (ov_Items v)) (ov_Id v) \<and>
    rrp_TotalTransactions whole = int (length (ov_Items v)) \<and>
    rrp_PayoutAmount whole = x_to_precise X (r
      (x_mongo_sum X (replicate (length (ov_Items v)) (r (pick (pf_NetRevenue (ov_PaymentFigures v)))))
       - x_mongo_sum X (replicate (length (ov_Items v)) (r (pick (rf_RefundReverseRevenue (ov_RefundFigures v)))))))"
proof -
  let ?n = "length (ov_Items v)"
  have n: "max 1 ?n = ?n" and z: "rows_of pick r v \<noteq> []"
    using assms(1) by (auto simp: rows_of_def max_def Suc_le_eq)
  have m: "map f (rows_of pick r v) = replicate ?n (f (row_of pick r v None))"
    if "\<And>i. f (row_of pick r v i) = f (row_of pick r v None)" for f :: "royalty_row \<Rightarrow> 'x"
    using map_rows_of[where f = f, OF that] unfolding n .
  have w: "whole = royaltySummaryItemPrecise X (summary_total X r (rows_of pick r v))"
    and d: "ids = map row_Id (rows_of pick r v)"
    using assms(2) by (simp_all add: royalty_summary_of_def Let_def)
  show ?thesis unfolding w d summary_counts_simps summary_total_simps[OF z] length_rows_of n
    using m[of row_Id] m[of row_NetRevenue] m[of row_RefundReverseRevenue] by simp
qed

section \<open>A period\<close>

text \<open>The view of the sample payment with two items; its net revenue is 60 EUR.\<close>

definition sample_item :: mgo_order_item where
  "sample_item = \<lparr>oi_Id = 11, oi_Object = ''product'', oi_Sku = ''s'', oi_Name = ''Sword'', oi_Description = [],
     oi_Amount = Fin 40, oi_Currency = ''EUR'', oi_Images = [], oi_Url = [], oi_Metadata = None, oi_Code = [], oi_PlatformId = [],
     oi_CreatedAt = 0, oi_UpdatedAt = 0\<rparr>"

definition sample_view :: "mgo_order_item list \<Rightarrow> mgo_order_view" where
  "sample_view is = \<lparr>ov_Id = 1, ov_Uuid = ''o1'', ov_TotalPaymentAmount = Fin 100, ov_Currency = ''EUR'',
     ov_ProjectId = 3, ov_ProjectMerchantId = 2, ov_ProjectName = [(''en'', ''Game'')], ov_ProjectFirstPaymentAt = 0, ov_CreatedAt = 0,
     ov_Transaction = ''tx'', ov_PaymentMethod = None, ov_CountryCode = ''DE'', ov_MerchantId = 2, ov_Locale = [],
     ov_Status = ''processed'', ov_TransactionDate = 500, ov_Type = ''order'', ov_IsVatDeduction = False,
     ov_PaymentFigures = (payment_figures_of (\<lambda>_. empty_entry))\<lparr>
       pf_NetRevenue := \<lparr>mo_Amount = Fin 60, mo_Currency = ''EUR'', mo_AmountRounded = Fin 60\<rparr>\<rparr>,
     ov_RefundFigures = refund_figures_of (\<lambda>_. empty_entry), ov_Items = is, ov_MerchantPayoutCurrency = ''EUR'',
     ov_ParentOrder = None, ov_Refund = None, ov_MccCode = ''m'', ov_OperatingCompanyId = ''oc'', ov_IsHighRisk = False,
     ov_RefundAllowed = True, ov_OrderCharge = zero_money, ov_VatPayer = ''buyer'', ov_IsProduction = True,
     ov_OrderChargeBeforeVat = zero_money, ov_TaxRate = 0, ov_PaymentMethodTerminalId = [], ov_Recurring = False,
     ov_RecurringId = [], ov_RoyaltyReportId = [], ov_AmountBeforeVat = Fin 80,
     ov_ReportSummary = \<lparr>rs_Status = ''processed'', rs_Charge = zero_money, rs_Gross = zero_money, rs_Vat = zero_money,
       rs_Fees = zero_money, rs_Revenue = zero_money\<rparr>\<rparr>"

lemma royalty_summary_partition_witness:
  "\<exists>line whole ids. royalty_summary_of sample_ext mo_AmountRounded (\<lambda>a. a)
      [sample_view [sample_item, sample_item], (sample_view [sample_item])\<lparr>ov_Type := ''refund''\<rparr>] = ([line], whole, ids) \<and>
    rrp_Product line = ''Sword'' \<and> rrp_SalesCount line = 2 \<and> rrp_ReturnsCount line = 1 \<and> rrp_TotalTransactions whole = 3 \<and> ids = [1, 1, 1]"
proof -
  let ?vs = "[sample_view [sample_item, sample_item], (sample_view [sample_item])\<lparr>ov_Type := ''refund''\<rparr>]"
  obtain items whole ids where r: "royalty_summary_of sample_ext mo_AmountRounded (\<lambda>a. a) ?vs = (items, whole, ids)"
    by (metis prod_cases3)
  have sold: "sold ?vs = [(Some ''Sword'', ''DE'', ''order''), (Some ''Sword'', ''DE'', ''order''), (Some ''Sword'', ''DE'', ''refund'')]"
    by (simp add: sold_def sample_view_def sample_item_def)
  from royalty_summary_partition[OF r] obtain ks where ks: "distinct ks" "set ks = {(Some ''Sword'', ''DE'')}"
    and lines: "list_all2 (\<lambda>(p, c) i. rrp_Product i = (case p of None \<Rightarrow> [] | Some n \<Rightarrow> n) \<and> rrp_Region i = c \<and>
      line_counts i (sold_as p c (sold ?vs))) ks items"
    and whole: "line_counts whole (map (snd \<circ> snd) (sold ?vs))" "ids = [1, 1, 1]"
    unfolding sold by (auto simp: sample_view_def)
  have "ks = [(Some ''Sword'', ''DE'')]"
    using ks by (cases ks; cases "tl ks") auto
  then obtain line where "items = [line]" "rrp_Product line = ''Sword''"
      "line_counts line (sold_as (Some ''Sword'') ''DE'' (sold ?vs))"
    using lines by (auto simp: list_all2_Cons1)
  then show ?thesis using r whole unfolding sold by (auto simp: line_counts_def sold_as_def)
qed

lemma royalty_summary_of_single_items_witness:
  "\<exists>items whole ids. royalty_summary_of sample_ext mo_AmountRounded (\<lambda>a. a) [sample_view []] = (items, whole, ids) \<and>
    ids = [1] \<and> rrp_PayoutAmount whole = Fin 60"
proof -
  obtain items whole ids where r: "royalty_summary_of sample_ext mo_AmountRounded (\<lambda>a. a) [sample_view []] =
      (items, whole, ids)" by (metis prod_cases3)
  from royalty_summary_of_single_items[OF _ _ this] have "ids = [1] \<and> rrp_PayoutAmount whole = Fin 60"
    by (simp add: sample_view_def sample_ext_def refund_figures_of_def figure_def empty_entry_def minus_float64_def zero_float64_def
        helper_Round_int[of 0, simplified])
  then show ?thesis using r by blast
qed

lemma items_multiply_payout_witness:
  "\<exists>items whole ids. royalty_summary_of sample_ext mo_AmountRounded (\<lambda>a. a) [sample_view [sample_item, sample_item]] =
    (items, whole, ids) \<and> ids = [1, 1] \<and> rrp_PayoutAmount whole = Fin 120"
proof -
  obtain items whole ids where r: "royalty_summary_of sample_ext mo_AmountRounded (\<lambda>a. a)
      [sample_view [sample_item, sample_item]] = (items, whole, ids)" by (metis prod_cases3)
  from items_multiply_payout[OF _ this] have "ids = [1, 1] \<and> rrp_PayoutAmount whole = Fin 120"
    by (simp add: sample_view_def sample_ext_def refund_figures_of_def figure_def empty_entry_def minus_float64_def zero_float64_def
        helper_Round_int[of 0, simplified])
  then show ?thesis using r by blast
qed

end
