(* ===== verification/RoyaltyReports.thy ===== *)
theory RoyaltyReports
  imports Corrections RoyaltySummary
begin

text \<open>
  Royalty reports (internal/service/royalty\_report.go): a report per merchant and period is built
  from the order view and the corrections and reserves of the journal, reviewed by the merchant or
  accepted when its time is over, corrected by an administrator, taken into a payout document and
  paid. Lists of paginated documents, uploaded files and the mail to the financier are left out.
\<close>

section \<open>Errors and constants\<close>

definition royaltyReportErrorReportNotFound :: go_err where
  "royaltyReportErrorReportNotFound = ResponseErrorMessage ''rr00001'' ''royalty report with specified identifier not found''"
definition royaltyReportErrorReportStatusChangeDenied :: go_err where
  "royaltyReportErrorReportStatusChangeDenied = ResponseErrorMessage ''rr00002'' ''change royalty report to new status denied''"
definition royaltyReportErrorCorrectionReasonRequired :: go_err where
  "royaltyReportErrorCorrectionReasonRequired = ResponseErrorMessage ''rr00003'' ''correction reason required''"
definition royaltyReportEntryErrorUnknown :: go_err where
  "royaltyReportEntryErrorUnknown = ResponseErrorMessage ''rr00004'' ''unknown error. try request later''"
definition royaltyReportUpdateBalanceError :: go_err where
  "royaltyReportUpdateBalanceError = ResponseErrorMessage ''rr00005'' ''update balance failed''"
definition royaltyReportErrorAlreadyExistsAndCannotBeUpdated :: go_err where
  "royaltyReportErrorAlreadyExistsAndCannotBeUpdated =
     ResponseErrorMessage ''rr00008'' ''report for this merchant and period already exists and can not be updated''"
definition royaltyReportErrorCorrectionAmountRequired :: go_err where
  "royaltyReportErrorCorrectionAmountRequired = ResponseErrorMessage ''rr00009'' ''correction amount required and must be not zero''"
definition royaltyReportErrorPayoutDocumentIdInvalid :: go_err where
  "royaltyReportErrorPayoutDocumentIdInvalid = ResponseErrorMessage ''rr00010'' ''payout document id is invalid''"
definition royaltyReportErrorNotOwnedByMerchant :: go_err where
  "royaltyReportErrorNotOwnedByMerchant = ResponseErrorMessage ''rr00011'' ''payout document is not owned by merchant''"
definition royaltyReportErrorMerchantNotFound :: go_err where
  "royaltyReportErrorMerchantNotFound = ResponseErrorMessage ''rr00012'' ''royalty report merchant owner not found''"
definition merchantOperatingCompanyNotFound :: go_err where
  "merchantOperatingCompanyNotFound = ResponseErrorMessage ''mr000030'' ''merchant operating company not found''"

definition RoyaltyReportChangeSourceAuto :: string where "RoyaltyReportChangeSourceAuto = ''auto''"
definition RoyaltyReportChangeSourceMerchant :: string where "RoyaltyReportChangeSourceMerchant = ''merchant''"
definition RoyaltyReportChangeSourceAdmin :: string where "RoyaltyReportChangeSourceAdmin = ''admin''"
definition EmailRoyaltyReportMessage :: string where "EmailRoyaltyReportMessage = ''Royalty report updated''"

definition orderStatusForRoyaltyReports :: "string list" where
  "orderStatusForRoyaltyReports = [''processed'', ''refunded'', ''chargeback'']"

definition rollingReserveAccountingEntriesList :: "string list" where
  "rollingReserveAccountingEntriesList = [AE_RollingReserveCreate, AE_RollingReserveRelease]"

section \<open>Mails and files\<close>

definition reporterServiceCreateFile :: "ext \<Rightarrow> string \<Rightarrow> string \<Rightarrow> unit io" where
  "reporterServiceCreateFile X reportType i = send X (SentReportFile reportType i)"

definition renderRoyaltyReport :: "ext \<Rightarrow> royalty_report \<Rightarrow> unit io" where
  "renderRoyaltyReport X report = reporterServiceCreateFile X ''royalty'' (rr_Id report)"

definition onRoyaltyReportStatusChanged :: "ext \<Rightarrow> royalty_report \<Rightarrow> unit io" where
  "onRoyaltyReportStatusChanged X report =
     bind (replace_err merchantErrorNotFound (merchant_GetById X (rr_MerchantId report))) (\<lambda>merchant.
     bind (reporterServiceCreateFile X ''royalty_accountant'' (rr_Id report)) (\<lambda>_.
     reporterServiceCreateFile X ''royalty_transactions_accountant'' (rr_Id report)))"

definition royaltyReportChangedEmail :: "ext \<Rightarrow> royalty_report \<Rightarrow> unit io" where
  "royaltyReportChangedEmail X report =
     bind (replace_err royaltyReportErrorMerchantNotFound (merchant_GetById X (rr_MerchantId report))) (\<lambda>merchant.
     bind (replace_err royaltyReportEntryErrorUnknown (lift (x_timestamp X (rr_PeriodFrom report)))) (\<lambda>periodFrom.
     bind (replace_err royaltyReportEntryErrorUnknown (lift (x_timestamp X (rr_PeriodTo report)))) (\<lambda>periodTo.
     bind (time_now X) (\<lambda>now.
     replace_err royaltyReportEntryErrorUnknown (send X (SentEmail (x_email_template X ''UpdateRoyaltyReport'')
       (x_merchant_owner_email X merchant)
       [(''merchant_id'', merchant_Id merchant), (''royalty_report_id'', rr_Id report),
        (''period_from'', x_format_time X ''2006-01-02'' periodFrom),
        (''period_to'', x_format_time X ''2006-01-02'' periodTo),
        (''license_agreement'', merchant_AgreementNumber merchant),
        (''merchant_greeting'', x_merchant_owner_name X merchant),
        (''royalty_reports_url'', x_config_url X ''royalty_reports''),
        (''current_year'', x_format_time X ''2006'' now)]))))))"

text \<open>Failures of this notification are only logged.\<close>

definition sendRoyaltyReportNotification :: "ext \<Rightarrow> royalty_report \<Rightarrow> unit io" where
  "sendRoyaltyReportNotification X report =
     bind (attempt (merchant_GetById X (rr_MerchantId report))) (\<lambda>m. case m of
       Inl _ \<Rightarrow> ret ()
     | Inr merchant \<Rightarrow>
       bind (if x_merchant_has_authorized_email X merchant
         then bind (time_now X) (\<lambda>now. bind (attempt (send X (SentEmail (x_email_template X ''UpdateRoyaltyReport'')
             (x_merchant_owner_email X merchant)
             [(''merchant_id'', merchant_Id merchant), (''royalty_report_id'', rr_Id report),
              (''period_from'', rr_StringPeriodFrom report), (''period_to'', rr_StringPeriodTo report),
              (''license_agreement'', merchant_AgreementNumber merchant),
              (''status'', x_rr_status_name X (rr_Status report)),
              (''merchant_greeting'', x_merchant_owner_name X merchant),
              (''royalty_reports_url'', x_config_url X ''royalty_reports''),
              (''current_year'', x_format_time X ''2006'' now)]))) (\<lambda>_. ret ()))
         else ret ()) (\<lambda>_.
       bind (attempt (send X (SentCentrifugo (x_merchant_channel X (rr_MerchantId report)) EmailRoyaltyReportMessage)))
         (\<lambda>_. ret ())))"

section \<open>Building a report\<close>

definition correction_item :: "accounting_entry \<Rightarrow> rr_correction" where
  "correction_item e = \<lparr>rrc_AccountingEntryId = ae_Id e, rrc_Amount = ae_AmountRounded e, rrc_Currency = [],
     rrc_Reason = ae_Reason e, rrc_EntryDate = ae_CreatedAt e\<rparr>"

definition getRoyaltyReportCorrections ::
  "ext \<Rightarrow> gotime \<Rightarrow> gotime \<Rightarrow> string \<Rightarrow> string \<Rightarrow> (rr_correction list \<times> float64) io" where
  "getRoyaltyReportCorrections X from to merchantId currency =
     bind (aerepo_GetCorrectionsForRoyaltyReport X merchantId currency from to) (\<lambda>es.
     ret (map correction_item es, float_sum (map ae_AmountRounded es)))"

definition getRoyaltyReportRollingReserves ::
  "ext \<Rightarrow> gotime \<Rightarrow> gotime \<Rightarrow> string \<Rightarrow> string \<Rightarrow> (rr_correction list \<times> float64) io" where
  "getRoyaltyReportRollingReserves X from to merchantId currency =
     bind (aerepo_GetRollingReservesForRoyaltyReport X merchantId currency rollingReserveAccountingEntriesList from to) (\<lambda>es.
     ret (map correction_item es, float_sum (map ae_AmountRounded es)))"

definition buildMerchantRoyaltyReportRoundedAmounts ::
  "ext \<Rightarrow> gotime \<Rightarrow> gotime \<Rightarrow> merchant \<Rightarrow> (royalty_report \<times> oid list) io" where
  "buildMerchantRoyaltyReportRoundedAmounts X from to merchant =
     (let currency = x_merchant_payout_currency X merchant in
     bind (GetRoyaltySummaryRoundedAmounts X (merchant_Id merchant) currency from to) (\<lambda>(items, whole, ordersIds).
     bind (getRoyaltyReportCorrections X from to (merchant_Id merchant) currency) (\<lambda>(corrections, correctionsTotal).
     bind (getRoyaltyReportRollingReserves X from to (merchant_Id merchant) currency) (\<lambda>(reserves, reservesTotal).
     bind (new_oid X) (\<lambda>i.
     bind (timestamp_now X) (\<lambda>createdAt.
     bind (timestamp_now X) (\<lambda>updatedAt.
     bind (lift (x_timestamp_proto X from)) (\<lambda>periodFrom.
     bind (lift (x_timestamp_proto X to)) (\<lambda>periodTo.
     bind (lift (x_timestamp X (Some periodTo))) (\<lambda>to'.
     bind (time_now X) (\<lambda>now.
     bind (lift (x_timestamp_proto X (now + x_royalty_report_accept_timeout X * second))) (\<lambda>acceptExpireAt.
     ret (\<lparr>rr_Id = x_oid_hex X i, rr_MerchantId = merchant_Id merchant, rr_CreatedAt = Some createdAt,
           rr_UpdatedAt = Some updatedAt, rr_PayoutDate = None, rr_Status = RRPending,
           rr_PeriodFrom = Some periodFrom, rr_PeriodTo = Some periodTo, rr_AcceptExpireAt = Some acceptExpireAt,
           rr_AcceptedAt = None,
           rr_Totals = Some (no_totals\<lparr>rrt_TransactionsCount := rrp_TotalTransactions whole,
             rrt_FeeAmount := rrp_TotalFees whole, rrt_VatAmount := rrp_TotalVat whole,
             rrt_PayoutAmount := rrp_PayoutAmount whole, rrt_CorrectionAmount := correctionsTotal,
             rrt_RollingReserveAmount := reservesTotal\<rparr>),
           rr_Currency = currency,
           rr_Summary = Some \<lparr>rrs_ProductsItems = items, rrs_ProductsTotal = Some whole,
             rrs_Corrections = corrections, rrs_RollingReserves = reserves\<rparr>,
           rr_DisputeReason = [], rr_DisputeStartedAt = None, rr_DisputeClosedAt = None,
           rr_IsAutoAccepted = False, rr_PayoutDocumentId = [],
           rr_OperatingCompanyId = merchant_OperatingCompanyId merchant,
           rr_StringPeriodFrom = x_format_time X ''2006-01-02'' from,
           rr_StringPeriodTo = x_format_time X ''2006-01-02'' (x_end_of_day X to')\<rparr>, ordersIds)))))))))))))"

text \<open>The VAT between the operating company and the merchant, and the amount that is finally paid.\<close>

definition GetB2bVatRate :: "string \<Rightarrow> string \<Rightarrow> go_err + float64" where
  "GetB2bVatRate operatingCompanyCountry merchantCountry =
     (if operatingCompanyCountry = ''CY'' \<and> merchantCountry = ''CY'' then Inr (rnd (19 / 100)) else Inr 0)"

definition with_b2b_vat :: "rr_totals \<Rightarrow> rr_totals" where
  "with_b2b_vat t = (let vat = rrt_FeeAmount t * rrt_B2BVatRate t in
     t\<lparr>rrt_B2BVatBase := rrt_FeeAmount t, rrt_B2BVatAmount := round_cents vat,
       rrt_FinalPayoutAmount := round_cents (rrt_PayoutAmount t + rrt_CorrectionAmount t - vat)\<rparr>)"

definition the_totals :: "royalty_report \<Rightarrow> rr_totals" where
  "the_totals r = (case rr_Totals r of None \<Rightarrow> no_totals | Some t \<Rightarrow> t)"

text \<open>\<open>IncludeOrdersToRoyaltyReport\<close> of internal/repository/order.go.\<close>

definition IncludeOrdersToRoyaltyReport :: "ext \<Rightarrow> string \<Rightarrow> oid list \<Rightarrow> unit io" where
  "IncludeOrdersToRoyaltyReport X royaltyReportId orderIds =
     bind (calling X) (\<lambda>_. modify (w_orders_update (map (\<lambda>p.
       if order_Id p \<in> set orderIds then p\<lparr>order_RoyaltyReportId := royaltyReportId\<rparr> else p))))"

definition markOrdersIncludedToRoyaltyReport :: "ext \<Rightarrow> string \<Rightarrow> oid list \<Rightarrow> unit io" where
  "markOrdersIncludedToRoyaltyReport X royaltyReportId orderIds =
     bind (IncludeOrdersToRoyaltyReport X royaltyReportId orderIds) (\<lambda>_.
     updateOrderView X (map (x_oid_hex X) orderIds))"

text \<open>
  A report of the period that is still pending is computed anew under its old id; its state is kept.
  (\<open>reflect.DeepEqual\<close> is equality of the two messages.)
\<close>

definition refreshed_report :: "royalty_report \<Rightarrow> royalty_report \<Rightarrow> royalty_report" where
  "refreshed_report old new = new\<lparr>rr_Id := rr_Id old, rr_CreatedAt := rr_CreatedAt old, rr_UpdatedAt := rr_UpdatedAt old,
     rr_PayoutDate := rr_PayoutDate old, rr_Status := rr_Status old, rr_AcceptExpireAt := rr_AcceptExpireAt old,
     rr_AcceptedAt := rr_AcceptedAt old, rr_DisputeReason := rr_DisputeReason old,
     rr_DisputeStartedAt := rr_DisputeStartedAt old, rr_DisputeClosedAt := rr_DisputeClosedAt old,
     rr_IsAutoAccepted := rr_IsAutoAccepted old, rr_PayoutDocumentId := rr_PayoutDocumentId old\<rparr>"

definition createMerchantRoyaltyReport :: "ext \<Rightarrow> gotime \<Rightarrow> gotime \<Rightarrow> oid \<Rightarrow> unit io" where
  "createMerchantRoyaltyReport X from to merchantId =
     bind (replace_err merchantErrorNotFound (merchant_GetById X (x_oid_hex X merchantId))) (\<lambda>merchant.
     bind (rrrepo_GetReportExists X (merchant_Id merchant) (x_merchant_payout_currency X merchant) from to) (\<lambda>existingReport.
     if (case existingReport of None \<Rightarrow> False | Some e \<Rightarrow> rr_Status e \<noteq> RRPending)
     then throw royaltyReportErrorAlreadyExistsAndCannotBeUpdated else
     bind (buildMerchantRoyaltyReportRoundedAmounts X from to merchant) (\<lambda>(report0, ordersIds).
     bind (replace_err merchantOperatingCompanyNotFound (operatingCompany_GetById X (rr_OperatingCompanyId report0))) (\<lambda>oc.
     bind (deref (merchant_Company merchant)) (\<lambda>_.
     bind (lift (GetB2bVatRate (oc_Country oc) (merchant_CompanyCountry merchant))) (\<lambda>rate.
     let newReport = report0\<lparr>rr_Totals := Some (with_b2b_vat ((the_totals report0)\<lparr>rrt_B2BVatRate := rate\<rparr>))\<rparr>;
         finish = (\<lambda>r. bind (markOrdersIncludedToRoyaltyReport X (rr_Id r) ordersIds) (\<lambda>_. renderRoyaltyReport X r)) in
     case existingReport of
       None \<Rightarrow> bind (rrrepo_Insert X newReport [] RoyaltyReportChangeSourceAuto) (\<lambda>_. finish newReport)
     | Some e \<Rightarrow> (let r = refreshed_report e newReport in
         if e = r then ret ()
         else bind (timestamp_now X) (\<lambda>updatedAt. let r' = r\<lparr>rr_UpdatedAt := Some updatedAt\<rparr> in
              bind (rrrepo_Update X r' [] RoyaltyReportChangeSourceAuto) (\<lambda>_. finish r')))))))))"

text \<open>The reports of the last full period; what fails for one merchant does not stop the others.\<close>

fun create_reports :: "ext \<Rightarrow> gotime \<Rightarrow> gotime \<Rightarrow> oid list \<Rightarrow> string list io" where
  "create_reports X from to [] = ret []"
| "create_reports X from to (m # ms) =
     bind (try_go (createMerchantRoyaltyReport X from to m)) (\<lambda>r.
     bind (create_reports X from to ms) (\<lambda>done.
     ret (case r of Inl _ \<Rightarrow> done | Inr _ \<Rightarrow> x_oid_hex X m # done)))"

definition royalty_period :: "ext \<Rightarrow> (gotime \<times> gotime) io" where
  "royalty_period X = bind (time_now X) (\<lambda>now.
     let to = x_monday X now - 1; from = to - x_royalty_report_period X * second + 1 in
     ret (x_beginning_of_day X from, to))"

definition CreateRoyaltyReport :: "ext \<Rightarrow> string list \<Rightarrow> string list io" where
  "CreateRoyaltyReport X requested =
     bind (royalty_period X) (\<lambda>(from, to).
     bind (if requested \<noteq> [] then ret (concat (map (\<lambda>v. case x_oid_from_hex X v of Inl _ \<Rightarrow> [] | Inr d \<Rightarrow> [d]) requested))
           else bind (attempt (GetRoyaltyForMerchants X orderStatusForRoyaltyReports from to)) (\<lambda>r.
             ret (case r of Inl _ \<Rightarrow> [] | Inr ms \<Rightarrow> ms))) (\<lambda>merchants.
     create_reports X from to merchants))"

section \<open>The life of a report\<close>

definition accept_report :: "ext \<Rightarrow> royalty_report \<Rightarrow> unit io" where
  "accept_report X report0 =
     bind (timestamp_now X) (\<lambda>acceptedAt.
     bind (timestamp_now X) (\<lambda>updatedAt.
     let report = report0\<lparr>rr_Status := RRAccepted, rr_AcceptedAt := Some acceptedAt,
           rr_UpdatedAt := Some updatedAt, rr_IsAutoAccepted := True\<rparr> in
     bind (rrrepo_Update X report [] RoyaltyReportChangeSourceAuto) (\<lambda>_.
     bind (updateMerchantBalance X (rr_MerchantId report)) (\<lambda>_.
     bind (royaltyReportChangedEmail X report) (\<lambda>_.
     onRoyaltyReportStatusChanged X report)))))"

definition AutoAcceptRoyaltyReports :: "ext \<Rightarrow> unit io" where
  "AutoAcceptRoyaltyReports X =
     bind (time_now X) (\<lambda>now.
     bind (rrrepo_GetByAcceptedExpireWithStatus X now RRPending) (\<lambda>reports.
     for_each reports (accept_report X)))"

record review_request =
  rv_ReportId :: string
  rv_MerchantId :: string
  rv_IsAccepted :: bool
  rv_DisputeReason :: string
  rv_Ip :: string

text \<open>
  The answer of the owner. The guard on the merchant asks for the error of the lookup that has
  just succeeded.
\<close>

definition MerchantReviewRoyaltyReport :: "ext \<Rightarrow> review_request \<Rightarrow> unit response io" where
  "MerchantReviewRoyaltyReport X req =
     bind (attempt (rrrepo_GetById X (rv_ReportId req))) (\<lambda>got. case got of
       Inl err \<Rightarrow> if err = ErrNoDocuments then ret (rsp_error ResponseStatusNotFound royaltyReportErrorReportNotFound)
                  else throw err
     | Inr report0 \<Rightarrow> (let err = (None :: go_err option) in
       if rr_MerchantId report0 \<noteq> rv_MerchantId req \<and> err = Some ErrNoDocuments
       then ret (rsp_error ResponseStatusBadData royaltyReportErrorNotOwnedByMerchant)
       else if rr_Status report0 \<noteq> RRPending
       then ret (rsp_error ResponseStatusBadData royaltyReportErrorReportStatusChangeDenied)
       else
       bind (timestamp_now X) (\<lambda>t.
       bind (timestamp_now X) (\<lambda>updatedAt.
       let report = (if rv_IsAccepted req then report0\<lparr>rr_Status := RRAccepted, rr_AcceptedAt := Some t\<rparr>
             else report0\<lparr>rr_Status := RRDispute, rr_DisputeReason := rv_DisputeReason req, rr_DisputeStartedAt := Some t\<rparr>)
             \<lparr>rr_UpdatedAt := Some updatedAt\<rparr> in
       bind (attempt (rrrepo_Update X report (rv_Ip req) RoyaltyReportChangeSourceMerchant)) (\<lambda>u. case u of
         Inl e \<Rightarrow> message_or_error ResponseStatusSystemError e
       | Inr _ \<Rightarrow>
       bind (if rv_IsAccepted req then attempt (bind (updateMerchantBalance X (rr_MerchantId report)) (\<lambda>_. ret ()))
             else ret (Inr ())) (\<lambda>b. case b of
         Inl _ \<Rightarrow> ret (rsp_error ResponseStatusSystemError royaltyReportUpdateBalanceError)
       | Inr _ \<Rightarrow>
       bind (attempt (onRoyaltyReportStatusChanged X report)) (\<lambda>c. case c of
         Inl _ \<Rightarrow> ret (rsp_error ResponseStatusSystemError royaltyReportEntryErrorUnknown)
       | Inr _ \<Rightarrow>
       bind (attempt (royaltyReportChangedEmail X report)) (\<lambda>m. case m of
         Inl e \<Rightarrow> if is_message e then ret (rsp_error ResponseStatusSystemError e) else throw go_panic
       | Inr _ \<Rightarrow> ret (rsp_status_only ResponseStatusOk)))))))))"

definition GetRoyaltyReport :: "ext \<Rightarrow> string \<Rightarrow> string \<Rightarrow> royalty_report response io" where
  "GetRoyaltyReport X reportId merchantId =
     bind (attempt (rrrepo_GetById X reportId)) (\<lambda>got. case got of
       Inl err \<Rightarrow> if err = ErrNoDocuments then ret (rsp_error ResponseStatusNotFound royaltyReportErrorReportNotFound)
                  else ret (rsp_error ResponseStatusSystemError royaltyReportEntryErrorUnknown)
     | Inr report \<Rightarrow> if merchantId \<noteq> [] \<and> rr_MerchantId report \<noteq> merchantId
         then ret (rsp_error ResponseStatusBadData royaltyReportErrorNotOwnedByMerchant)
         else ret (rsp_ok report))"

record correction_request =
  cr_Reason :: string
  cr_Amount :: float64

record change_request =
  ch_ReportId :: string
  ch_MerchantId :: string
  ch_Status :: rr_status
  ch_Correction :: "correction_request option"
  ch_Ip :: string

text \<open>A correction of a disputed report: posted in the journal, then the report is computed anew.\<close>

definition empty_report_summary :: rr_summary where
  "empty_report_summary = \<lparr>rrs_ProductsItems = [], rrs_ProductsTotal = None, rrs_Corrections = [], rrs_RollingReserves = []\<rparr>"

definition correct_report :: "ext \<Rightarrow> royalty_report \<Rightarrow> correction_request \<Rightarrow> (unit response + royalty_report) io" where
  "correct_report X report c = (let failed = Inl (rsp_error ResponseStatusSystemError royaltyReportEntryErrorUnknown) in
     if cr_Reason c = [] then ret (Inl (rsp_error ResponseStatusBadData royaltyReportErrorCorrectionReasonRequired))
     else if feq (cr_Amount c) 0 then ret (Inl (rsp_error ResponseStatusBadData royaltyReportErrorCorrectionAmountRequired))
     else case (x_timestamp X (rr_PeriodFrom report), x_timestamp X (rr_PeriodTo report)) of
       (Inr from, Inr to) \<Rightarrow>
         bind (try_go (CreateAccountingEntry X \<lparr>cae_Type = AE_RoyaltyCorrection, cae_OrderId = [], cae_RefundId = [],
           cae_MerchantId = rr_MerchantId report, cae_Amount = cr_Amount c, cae_Currency = rr_Currency report,
           cae_Reason = cr_Reason c, cae_Status = [], cae_Date = (to - second) div second, cae_Country = []\<rparr>)) (\<lambda>r. case r of
           Inl _ \<Rightarrow> ret failed
         | Inr rsp \<Rightarrow> if rspStatus rsp \<noteq> ResponseStatusOk then ret failed else
           bind (attempt (getRoyaltyReportCorrections X from to (rr_MerchantId report) (rr_Currency report))) (\<lambda>g. case g of
             Inl _ \<Rightarrow> ret failed
           | Inr (corrections, amount) \<Rightarrow>
             ret (Inr (report\<lparr>
               rr_Summary := Some ((case rr_Summary report of None \<Rightarrow> empty_report_summary | Some s \<Rightarrow> s)\<lparr>rrs_Corrections := corrections\<rparr>),
               rr_Totals := Some (with_b2b_vat ((the_totals report)\<lparr>rrt_CorrectionAmount := amount\<rparr>))\<rparr>))))
     | _ \<Rightarrow> ret failed)"

definition ChangeRoyaltyReport :: "ext \<Rightarrow> change_request \<Rightarrow> unit response io" where
  "ChangeRoyaltyReport X req =
     bind (attempt (rrrepo_GetById X (ch_ReportId req))) (\<lambda>got. case got of
       Inl err \<Rightarrow> if err = ErrNoDocuments then ret (rsp_error ResponseStatusNotFound royaltyReportErrorReportNotFound)
                  else ret (rsp_error ResponseStatusSystemError royaltyReportEntryErrorUnknown)
     | Inr report0 \<Rightarrow>
       if rr_MerchantId report0 \<noteq> ch_MerchantId req
       then ret (rsp_error ResponseStatusBadData royaltyReportErrorNotOwnedByMerchant)
       else if ch_Status req \<noteq> rr_no_status \<and> \<not> x_report_changes_available X report0 (ch_Status req)
       then ret (rsp_error ResponseStatusBadData royaltyReportErrorReportStatusChangeDenied)
       else
       bind (case (rr_Status report0, ch_Correction req) of
           (RRDispute, Some c) \<Rightarrow> bind (correct_report X report0 c) (\<lambda>r. ret (case r of Inl x \<Rightarrow> Inl x | Inr y \<Rightarrow> Inr (y, True)))
         | _ \<Rightarrow> ret (Inr (report0, False))) (\<lambda>corrected. case corrected of
         Inl answer \<Rightarrow> ret answer
       | Inr (report1, changed) \<Rightarrow>
       let newStatus = (ch_Status req \<noteq> rr_no_status \<and> ch_Status req \<noteq> rr_Status report1) in
       bind (if newStatus \<and> rr_Status report1 = RRDispute
             then bind (timestamp_now X) (\<lambda>t. ret (report1\<lparr>rr_DisputeClosedAt := Some t\<rparr>)) else ret report1) (\<lambda>report2.
       bind (if newStatus \<and> ch_Status req = RRAccepted
             then bind (timestamp_now X) (\<lambda>t. ret (report2\<lparr>rr_AcceptedAt := Some t\<rparr>)) else ret report2) (\<lambda>report3.
       if \<not> (changed \<or> newStatus) then ret (rsp_status_only ResponseStatusNotModified)
       else
       bind (timestamp_now X) (\<lambda>updatedAt.
       let report = (if newStatus then report3\<lparr>rr_Status := ch_Status req\<rparr> else report3)\<lparr>rr_UpdatedAt := Some updatedAt\<rparr> in
       bind (attempt (rrrepo_Update X report (ch_Ip req) RoyaltyReportChangeSourceAdmin)) (\<lambda>u. case u of
         Inl e \<Rightarrow> message_or_error ResponseStatusSystemError e
       | Inr _ \<Rightarrow>
         bind (sendRoyaltyReportNotification X report) (\<lambda>_.
         bind (updateMerchantBalance X (rr_MerchantId report)) (\<lambda>_.
         ret (rsp_status_only ResponseStatusOk)))))))))"

section \<open>Payment\<close>

definition check_payout_id :: "ext \<Rightarrow> string \<Rightarrow> unit io" where
  "check_payout_id X payoutDocumentId = (case x_oid_from_hex X payoutDocumentId of
     Inl _ \<Rightarrow> throw royaltyReportErrorPayoutDocumentIdInvalid | Inr _ \<Rightarrow> ret ())"

definition royaltyReportSetPaid :: "ext \<Rightarrow> string list \<Rightarrow> string \<Rightarrow> string \<Rightarrow> string \<Rightarrow> unit io" where
  "royaltyReportSetPaid X reportIds payoutDocumentId ip source =
     bind (check_payout_id X payoutDocumentId) (\<lambda>_.
     for_each reportIds (\<lambda>i.
       bind (rrrepo_GetById X i) (\<lambda>rr.
       bind (timestamp_now X) (\<lambda>now.
       rrrepo_Update X (rr\<lparr>rr_PayoutDocumentId := payoutDocumentId, rr_Status := RRPaid, rr_PayoutDate := Some now\<rparr>) ip source))))"

definition royaltyReportSetPayoutDocumentId :: "ext \<Rightarrow> string list \<Rightarrow> string \<Rightarrow> string \<Rightarrow> string \<Rightarrow> unit io" where
  "royaltyReportSetPayoutDocumentId X reportIds payoutDocumentId ip source =
     bind (check_payout_id X payoutDocumentId) (\<lambda>_.
     for_each reportIds (\<lambda>i.
       bind (rrrepo_GetById X i) (\<lambda>rr.
       rrrepo_Update X (rr\<lparr>rr_PayoutDocumentId := payoutDocumentId, rr_Status := RRWaitForPayment\<rparr>) ip source)))"

text \<open>\<open>royaltyReportUnsetPaid\<close> of internal/service/payouts.go.\<close>

definition royaltyReportUnsetPaid :: "ext \<Rightarrow> string list \<Rightarrow> string \<Rightarrow> string \<Rightarrow> unit io" where
  "royaltyReportUnsetPaid X reportIds ip source =
     for_each reportIds (\<lambda>i.
       bind (rrrepo_GetById X i) (\<lambda>rr.
       rrrepo_Update X (rr\<lparr>rr_PayoutDocumentId := [], rr_Status := RRAccepted, rr_PayoutDate := None\<rparr>) ip source))"

end
