(* ===== verification/PayoutDocuments.thy ===== *)
theory PayoutDocuments
  imports RoyaltyReports
begin

text \<open>
  Payout documents (internal/service/payouts.go): the accepted royalty reports of a merchant are
  gathered into a payout, checked against the tariff and the balance, linked to it and, when an
  administrator settles the payout, marked as paid or released again.
\<close>

section \<open>Errors and constants\<close>

definition payoutChangeSourceMerchant :: string where "payoutChangeSourceMerchant = ''merchant''"
definition payoutChangeSourceAdmin :: string where "payoutChangeSourceAdmin = ''admin''"
definition payoutArrivalInDays :: int where "payoutArrivalInDays = 5"

definition errorPayoutSourcesNotFound :: go_err where
  "errorPayoutSourcesNotFound = ResponseErrorMessage ''po000001'' ''no source documents found for payout''"
definition errorPayoutSourcesPending :: go_err where
  "errorPayoutSourcesPending = ResponseErrorMessage ''po000002'' ''you have at least one royalty report waiting for acceptance''"
definition errorPayoutSourcesDispute :: go_err where
  "errorPayoutSourcesDispute = ResponseErrorMessage ''po000003'' ''you have at least one unclosed dispute in your royalty reports''"
definition errorPayoutNotFound :: go_err where
  "errorPayoutNotFound = ResponseErrorMessage ''po000004'' ''payout document not found''"
definition errorPayoutAmountInvalid :: go_err where
  "errorPayoutAmountInvalid = ResponseErrorMessage ''po000005'' ''payout amount is invalid''"
definition errorPayoutUpdateBalance :: go_err where
  "errorPayoutUpdateBalance = ResponseErrorMessage ''po000008'' ''balance update failed''"
definition errorPayoutBalanceError :: go_err where
  "errorPayoutBalanceError = ResponseErrorMessage ''po000009'' ''getting balance failed''"
definition errorPayoutNotEnoughBalance :: go_err where
  "errorPayoutNotEnoughBalance = ResponseErrorMessage ''po000010'' ''not enough balance for payout''"
definition errorPayoutUpdateRoyaltyReports :: go_err where
  "errorPayoutUpdateRoyaltyReports = ResponseErrorMessage ''po000012'' ''royalty reports update failed''"
definition errorPayoutStatusChangeIsForbidden :: go_err where
  "errorPayoutStatusChangeIsForbidden = ResponseErrorMessage ''po000014'' ''status change is forbidden''"
definition errorPayoutManualPayoutsDisabled :: go_err where
  "errorPayoutManualPayoutsDisabled = ResponseErrorMessage ''po000015'' ''manual payouts disabled''"
definition errorPayoutAutoPayoutsDisabled :: go_err where
  "errorPayoutAutoPayoutsDisabled = ResponseErrorMessage ''po000016'' ''auto payouts disabled''"
definition errorPayoutAutoPayoutsWithErrors :: go_err where
  "errorPayoutAutoPayoutsWithErrors = ResponseErrorMessage ''po000017'' ''auto payouts creation finished with errors''"
definition errorPayoutRequireFailureFields :: go_err where
  "errorPayoutRequireFailureFields = ResponseErrorMessage ''po000018''
     ''fields failure_code and failure_message is required when status changing to failure''"
definition errorPayoutTarrifNotFound :: go_err where
  "errorPayoutTarrifNotFound = ResponseErrorMessage ''po000019'' ''not found minimal tarrif for payout currency''"
definition errorPayoutTarrifMinimal :: go_err where
  "errorPayoutTarrifMinimal = ResponseErrorMessage ''po000020'' ''minimal payout should be greater''"

definition statusForUpdateBalance :: "string list" where
  "statusForUpdateBalance = [PayoutDocumentStatusPending, PayoutDocumentStatusPaid, PayoutDocumentStatusSkip]"
definition statusForBecomePaid :: "string list" where
  "statusForBecomePaid = [PayoutDocumentStatusPaid]"
definition statusForBecomeFailed :: "string list" where
  "statusForBecomeFailed = [PayoutDocumentStatusFailed, PayoutDocumentStatusCanceled, PayoutDocumentStatusSkip]"

section \<open>The sources of a payout\<close>

definition getPayoutDocumentSources :: "ext \<Rightarrow> merchant \<Rightarrow> royalty_report list io" where
  "getPayoutDocumentSources X merchant =
     bind (attempt (rrrepo_GetNonPayoutReports X (merchant_Id merchant) (x_merchant_payout_currency X merchant))) (\<lambda>r.
     case r of
       Inl err \<Rightarrow> throw (if err \<noteq> ErrNoDocuments then err else errorPayoutSourcesNotFound)
     | Inr result \<Rightarrow>
       if result = [] then throw errorPayoutSourcesNotFound
       else case find (\<lambda>v. rr_Status v \<in> {RRPending, RRDispute}) result of
         None \<Rightarrow> ret result
       | Some v \<Rightarrow> throw (if rr_Status v = RRPending then errorPayoutSourcesPending else errorPayoutSourcesDispute))"

text \<open>\<open>GatPayoutAutoincrementId\<close> of internal/repository/autoincrement.go: the counter after it was incremented.\<close>

definition GatPayoutAutoincrementId :: "ext \<Rightarrow> int io" where
  "GatPayoutAutoincrementId X = bind (time_now X) (\<lambda>_. bind (calling X) (\<lambda>_.
     bind (modify (w_autoincrement_update (\<lambda>n. n + 1))) (\<lambda>_. gets w_autoincrement)))"

text \<open>
  What the loop over the sources adds up, and what is rounded after it. The rate is that of the
  last report.
\<close>

fun report_period :: "ext \<Rightarrow> royalty_report \<Rightarrow> go_err + gotime list" where
  "report_period X r = bind_err (x_timestamp X (rr_PeriodFrom r)) (\<lambda>from.
     bind_err (x_timestamp X (rr_PeriodTo r)) (\<lambda>to. Inr [from, to]))"

definition add_report :: "payout \<Rightarrow> royalty_report \<Rightarrow> payout" where
  "add_report pd r = (let t = the_totals r in
     pd\<lparr>po_TotalFees := po_TotalFees pd + rrt_PayoutAmount t,
        po_FeesExcludingVat := po_FeesExcludingVat pd + rrt_FinalPayoutAmount t,
        po_Balance := po_Balance pd + (rrt_FinalPayoutAmount t - rrt_RollingReserveAmount t),
        po_TotalTransactions := po_TotalTransactions pd + rrt_TransactionsCount t,
        po_B2BVatBase := po_B2BVatBase pd + rrt_B2BVatBase t,
        po_B2BVatRate := rrt_B2BVatRate t,
        po_B2BVatAmount := po_B2BVatAmount pd + rrt_B2BVatAmount t,
        po_SourceId := po_SourceId pd @ [rr_Id r]\<rparr>)"

text \<open>A report without totals is a nil dereference.\<close>

fun add_reports :: "ext \<Rightarrow> payout \<Rightarrow> royalty_report list \<Rightarrow> (payout \<times> gotime list) io" where
  "add_reports X pd [] = ret (pd, [])"
| "add_reports X pd (r # rs) =
     bind (deref (rr_Totals r)) (\<lambda>_.
     bind (lift (report_period X r)) (\<lambda>ts.
     bind (add_reports X (add_report pd r) rs) (\<lambda>(pd', times).
     ret (pd', ts @ times))))"

definition round_payout :: "payout \<Rightarrow> payout" where
  "round_payout pd = pd\<lparr>po_TotalFees := round_cents (po_TotalFees pd), po_Balance := round_cents (po_Balance pd),
     po_B2BVatBase := round_cents (po_B2BVatBase pd), po_B2BVatRate := round_cents (po_B2BVatRate pd),
     po_B2BVatAmount := round_cents (po_B2BVatAmount pd), po_FeesExcludingVat := round_cents (po_FeesExcludingVat pd)\<rparr>"

section \<open>Creating a payout\<close>

record payout_request =
  pr_MerchantId :: string
  pr_Description :: string
  pr_Ip :: string
  pr_Initiator :: string
  pr_IsAutoGeneration :: bool

definition new_payout :: "ext \<Rightarrow> merchant \<Rightarrow> payout_request \<Rightarrow> payout io" where
  "new_payout X merchant req =
     bind (time_now X) (\<lambda>now.
     bind (lift (x_timestamp_proto X (x_end_of_day X now + 3600 * 24 * payoutArrivalInDays * second))) (\<lambda>arrivalDate.
     bind (GatPayoutAutoincrementId X) (\<lambda>autoincrementId.
     bind (new_oid X) (\<lambda>i.
     bind (timestamp_now X) (\<lambda>createdAt.
     bind (timestamp_now X) (\<lambda>updatedAt.
     ret \<lparr>po_Id = x_oid_hex X i, po_MerchantId = merchant_Id merchant, po_SourceId = [], po_TotalFees = 0,
          po_Balance = 0, po_Currency = [], po_PeriodFrom = None, po_PeriodTo = None, po_TotalTransactions = 0,
          po_Description = pr_Description req, po_Destination = merchant_Banking merchant,
          po_MerchantAgreementNumber = merchant_AgreementNumber merchant, po_Company = merchant_Company merchant,
          po_Status = PayoutDocumentStatusPending, po_Transaction = [], po_FailureCode = [], po_FailureMessage = [],
          po_FailureTransaction = [], po_CreatedAt = Some createdAt, po_UpdatedAt = Some updatedAt,
          po_ArrivalDate = Some arrivalDate, po_PaidAt = None,
          po_OperatingCompanyId = merchant_OperatingCompanyId merchant, po_AutoincrementId = autoincrementId,
          po_StringPeriodFrom = [], po_StringPeriodTo = [], po_B2BVatBase = 0, po_B2BVatRate = 0,
          po_B2BVatAmount = 0, po_FeesExcludingVat = 0\<rparr>))))))"

definition renderPayoutDocument :: "ext \<Rightarrow> payout \<Rightarrow> unit io" where
  "renderPayoutDocument X pd =
     bind (reporterServiceCreateFile X ''payout'' (po_Id pd)) (\<lambda>_.
     reporterServiceCreateFile X ''payout_finance'' (po_Id pd))"

text \<open>The checks of the amount: an answer, or the go-ahead with the status the document gets.\<close>

definition check_payout :: "ext \<Rightarrow> merchant \<Rightarrow> payout_request \<Rightarrow> payout \<Rightarrow> (payout response + string) io" where
  "check_payout X merchant req pd =
     (let bad = (\<lambda>e. ret (Inl (rsp_error ResponseStatusBadData e))) in
     case merchant_Tariff merchant of None \<Rightarrow> bad errorPayoutTarrifNotFound
     | Some tariff \<Rightarrow> (case tariff_MinimalPayout tariff (x_merchant_payout_currency X merchant) of
         None \<Rightarrow> bad errorPayoutTarrifNotFound
       | Some minimal \<Rightarrow>
         if flt (po_Balance pd) minimal
         then (if pr_IsAutoGeneration req then ret (Inl (rsp_status_only ResponseStatusOk)) else bad errorPayoutTarrifMinimal)
         else if fle (po_Balance pd) 0 then bad errorPayoutAmountInvalid
         else bind (attempt (getMerchantBalance X (merchant_Id merchant))) (\<lambda>b. case b of
             Inl _ \<Rightarrow> ret (Inl (rsp_error ResponseStatusSystemError errorPayoutBalanceError))
           | Inr balance \<Rightarrow>
             if flt (x_to_precise X (balance_Debit balance - balance_Credit balance)) (po_Balance pd)
             then bad errorPayoutNotEnoughBalance
             else ret (Inr (if flt (po_Balance pd) (merchant_MinPayoutAmount merchant)
                            then PayoutDocumentStatusSkip else po_Status pd)))))"

text \<open>Storing the document, linking its sources to it and bringing the balance up to date.\<close>

definition store_payout :: "ext \<Rightarrow> payout_request \<Rightarrow> merchant \<Rightarrow> payout \<Rightarrow> payout response io" where
  "store_payout X req merchant pd =
     bind (attempt (porepo_Insert X pd (pr_Ip req) payoutChangeSourceMerchant)) (\<lambda>i. case i of
       Inl e \<Rightarrow> message_or_error ResponseStatusSystemError e
     | Inr _ \<Rightarrow>
     bind (attempt (royaltyReportSetPayoutDocumentId X (po_SourceId pd) (po_Id pd) (pr_Ip req) (pr_Initiator req))) (\<lambda>l. case l of
       Inl e \<Rightarrow> message_or_error ResponseStatusSystemError e
     | Inr _ \<Rightarrow>
     bind (attempt (updateMerchantBalance X (merchant_Id merchant))) (\<lambda>u. case u of
       Inl e \<Rightarrow> ret (rsp_error ResponseStatusSystemError (if is_message e then e else merchantErrorUnknown))
     | Inr _ \<Rightarrow>
     bind (renderPayoutDocument X pd) (\<lambda>_. ret (rsp_ok pd)))))"

definition createPayoutDocument :: "ext \<Rightarrow> merchant \<Rightarrow> payout_request \<Rightarrow> payout response io" where
  "createPayoutDocument X merchant req =
     bind (new_payout X merchant req) (\<lambda>pd0.
     bind (attempt (getPayoutDocumentSources X merchant)) (\<lambda>src. case src of
       Inl e \<Rightarrow> message_or_error ResponseStatusBadData e
     | Inr reports \<Rightarrow>
     bind (add_reports X (pd0\<lparr>po_Currency := rr_Currency (hd reports)\<rparr>) reports) (\<lambda>(pd1, times).
     let pd2 = round_payout pd1 in
     bind (check_payout X merchant req pd2) (\<lambda>checked. case checked of
       Inl answer \<Rightarrow> ret answer
     | Inr status \<Rightarrow>
     bind (lift (x_timestamp_proto X (hd (sort times)))) (\<lambda>periodFrom.
     bind (lift (x_timestamp_proto X (last (sort times)))) (\<lambda>periodTo.
     let stringTimes = sort (concat (map (\<lambda>r. [rr_StringPeriodFrom r, rr_StringPeriodTo r]) reports)) in
     store_payout X req merchant (pd2\<lparr>po_Status := status, po_PeriodFrom := Some periodFrom,
       po_PeriodTo := Some periodTo, po_StringPeriodFrom := hd stringTimes,
       po_StringPeriodTo := last stringTimes\<rparr>)))))))"

definition CreatePayoutDocument :: "ext \<Rightarrow> payout_request \<Rightarrow> payout response io" where
  "CreatePayoutDocument X req =
     bind (replace_err merchantErrorNotFound (merchant_GetById X (pr_MerchantId req))) (\<lambda>merchant.
     if merchant_ManualPayoutsEnabled merchant = pr_IsAutoGeneration req
     then ret (rsp_error ResponseStatusBadData
       (if pr_IsAutoGeneration req then errorPayoutAutoPayoutsDisabled else errorPayoutManualPayoutsDisabled))
     else createPayoutDocument X merchant req)"

text \<open>
  One response is handed to the creation for all merchants; an answer always sets its status, and its
  message unless the status is Ok, so nothing of the answer for another merchant is looked at.
\<close>

definition auto_request :: "string \<Rightarrow> payout_request" where
  "auto_request merchantId = \<lparr>pr_MerchantId = merchantId, pr_Description = [], pr_Ip = ''0.0.0.0'',
     pr_Initiator = RoyaltyReportChangeSourceAuto, pr_IsAutoGeneration = True\<rparr>"

fun auto_payouts :: "ext \<Rightarrow> merchant list \<Rightarrow> bool io" where
  "auto_payouts X [] = ret False"
| "auto_payouts X (m # ms) =
     bind (try_go (createPayoutDocument X m (auto_request (merchant_Id m)))) (\<lambda>r.
     bind (auto_payouts X ms) (\<lambda>errors.
     ret (errors \<or> (case r of
       Inl e \<Rightarrow> e \<noteq> errorPayoutSourcesNotFound
     | Inr rsp \<Rightarrow> rspStatus rsp \<noteq> ResponseStatusOk \<and>
         rspMessage rsp \<notin> {Some errorPayoutAmountInvalid, Some errorPayoutSourcesNotFound}))))"

definition GetMerchantsWithAutoPayouts :: "ext \<Rightarrow> merchant list io" where
  "GetMerchantsWithAutoPayouts X = find_all X w_merchants (\<lambda>m. \<not> merchant_ManualPayoutsEnabled m)"

definition AutoCreatePayoutDocuments :: "ext \<Rightarrow> unit io" where
  "AutoCreatePayoutDocuments X =
     bind (GetMerchantsWithAutoPayouts X) (\<lambda>merchants.
     bind (auto_payouts X merchants) (\<lambda>wasErrors.
     if wasErrors then throw errorPayoutAutoPayoutsWithErrors else ret ()))"

section \<open>Reading payouts\<close>

definition GetPayoutDocument :: "ext \<Rightarrow> string \<Rightarrow> string \<Rightarrow> payout response io" where
  "GetPayoutDocument X payoutId merchantId =
     bind (attempt (porepo_GetByIdMerchantId X payoutId merchantId)) (\<lambda>r. case r of
       Inl e \<Rightarrow> if e = ErrNoDocuments then ret (rsp_error ResponseStatusNotFound errorPayoutNotFound)
                else message_or_error ResponseStatusBadData e
     | Inr pd \<Rightarrow> ret (rsp_ok pd))"

definition GetPayoutDocumentRoyaltyReports :: "ext \<Rightarrow> string \<Rightarrow> string \<Rightarrow> royalty_report list response io" where
  "GetPayoutDocumentRoyaltyReports X payoutId merchantId =
     bind (attempt (porepo_GetByIdMerchantId X payoutId merchantId)) (\<lambda>r. case r of
       Inl e \<Rightarrow> if e = ErrNoDocuments then ret (rsp_error ResponseStatusNotFound errorPayoutNotFound)
                else message_or_error ResponseStatusBadData e
     | Inr pd \<Rightarrow>
       bind (attempt (rrrepo_GetByPayoutId X (po_Id pd))) (\<lambda>q. case q of
         Inl e \<Rightarrow> message_or_error ResponseStatusBadData e
       | Inr items \<Rightarrow> ret (rsp_ok items)))"

section \<open>Settling a payout\<close>

record payout_update =
  pu_PayoutDocumentId :: string
  pu_Status :: string
  pu_Transaction :: string
  pu_FailureCode :: string
  pu_FailureMessage :: string
  pu_FailureTransaction :: string
  pu_Ip :: string

text \<open>The fields that an update sets; \<open>set_if\<close> is \<open>if req.F != "" && pd.F != req.F\<close>.\<close>

definition set_if :: "string \<Rightarrow> string \<Rightarrow> string" where
  "set_if requested current = (if requested \<noteq> [] then requested else current)"

definition changed_payout :: "payout_update \<Rightarrow> timestamp \<Rightarrow> payout \<Rightarrow> payout" where
  "changed_payout req paidAt pd = (let newStatus = (pu_Status req \<noteq> [] \<and> po_Status pd \<noteq> pu_Status req) in
     pd\<lparr>po_Status := set_if (pu_Status req) (po_Status pd),
        po_PaidAt := (if newStatus \<and> pu_Status req = PayoutDocumentStatusPaid then Some paidAt else po_PaidAt pd),
        po_Transaction := set_if (pu_Transaction req) (po_Transaction pd),
        po_FailureCode := set_if (pu_FailureCode req) (po_FailureCode pd),
        po_FailureMessage := set_if (pu_FailureMessage req) (po_FailureMessage pd),
        po_FailureTransaction := set_if (pu_FailureTransaction req) (po_FailureTransaction pd)\<rparr>)"

definition payout_changes_asked :: "payout_update \<Rightarrow> payout \<Rightarrow> bool" where
  "payout_changes_asked req pd \<longleftrightarrow> (pu_Status req \<noteq> [] \<and> po_Status pd \<noteq> pu_Status req) \<or>
     (pu_Transaction req \<noteq> [] \<and> po_Transaction pd \<noteq> pu_Transaction req) \<or>
     (pu_FailureCode req \<noteq> [] \<and> po_FailureCode pd \<noteq> pu_FailureCode req) \<or>
     (pu_FailureMessage req \<noteq> [] \<and> po_FailureMessage pd \<noteq> pu_FailureMessage req) \<or>
     (pu_FailureTransaction req \<noteq> [] \<and> po_FailureTransaction pd \<noteq> pu_FailureTransaction req)"

text \<open>What becomes of the source reports; no answer means that the update goes on.\<close>

definition settle_reports :: "ext \<Rightarrow> payout_update \<Rightarrow> payout \<Rightarrow> payout \<Rightarrow> (payout response option) io" where
  "settle_reports X req old pd =
     bind (if pu_Status req \<in> set statusForBecomePaid \<and> po_Status old \<noteq> pu_Status req
           then attempt (royaltyReportSetPaid X (po_SourceId pd) (po_Id pd) (pu_Ip req) RoyaltyReportChangeSourceAdmin)
           else if pu_Status req \<in> set statusForBecomeFailed \<and> po_Status old \<notin> set statusForBecomeFailed
           then attempt (royaltyReportUnsetPaid X (po_SourceId pd) (pu_Ip req) RoyaltyReportChangeSourceAdmin)
           else ret (Inr ())) (\<lambda>r.
     ret (case r of Inl _ \<Rightarrow> Some (rsp_error ResponseStatusSystemError errorPayoutUpdateRoyaltyReports) | Inr _ \<Rightarrow> None))"

definition UpdatePayoutDocument :: "ext \<Rightarrow> payout_update \<Rightarrow> payout response io" where
  "UpdatePayoutDocument X req =
     bind (attempt (porepo_GetById X (pu_PayoutDocumentId req))) (\<lambda>got. case got of
       Inl e \<Rightarrow> if e = ErrNoDocuments then ret (rsp_error ResponseStatusNotFound errorPayoutNotFound) else throw e
     | Inr old \<Rightarrow> (let newStatus = (pu_Status req \<noteq> [] \<and> po_Status old \<noteq> pu_Status req) in
       if newStatus \<and> po_Status old \<noteq> PayoutDocumentStatusPending
       then ret (rsp_error ResponseStatusBadData errorPayoutStatusChangeIsForbidden)
       else if newStatus \<and> pu_Status req = PayoutDocumentStatusFailed \<and> (pu_FailureCode req = [] \<or> pu_FailureMessage req = [])
       then ret (rsp_error ResponseStatusBadData errorPayoutRequireFailureFields)
       else
       bind (if newStatus \<and> pu_Status req = PayoutDocumentStatusPaid then timestamp_now X
             else ret (Timestamp 0 0)) (\<lambda>paidAt.
       let pd = changed_payout req paidAt old; changed = payout_changes_asked req old in
       bind (if changed
             then bind (attempt (porepo_Update X pd (pu_Ip req) payoutChangeSourceAdmin)) (\<lambda>u. case u of
                 Inl e \<Rightarrow> bind (message_or_error ResponseStatusSystemError e) (\<lambda>rsp. ret (Some rsp))
               | Inr _ \<Rightarrow> settle_reports X req old pd)
             else ret None) (\<lambda>answered. case answered of
         Some rsp \<Rightarrow> ret rsp
       | None \<Rightarrow>
         bind (if newStatus \<and> pu_Status req \<in> set statusForUpdateBalance
               then attempt (bind (updateMerchantBalance X (po_MerchantId pd)) (\<lambda>_. ret ())) else ret (Inr ())) (\<lambda>b. case b of
           Inl _ \<Rightarrow> ret (rsp_error ResponseStatusSystemError errorPayoutUpdateBalance)
         | Inr _ \<Rightarrow> ret \<lparr>rspStatus = (if changed then ResponseStatusOk else ResponseStatusNotModified),
             rspMessage = None, rspItem = Some pd\<rparr>)))))"

end
