(* ===== verification/Frames.thy ===== *)
theory Frames
  imports PayoutDocuments OrderViewCurrent
begin

text \<open>
  What the writing repositories leave alone: a predicate that does not depend on the calls made, the
  cache and the collections a computation writes is kept by it, whatever its outcome.
\<close>

definition report_stable :: "(world \<Rightarrow> bool) \<Rightarrow> bool" where
  "report_stable I \<longleftrightarrow> calm I \<and> (\<forall>s f. I s \<longrightarrow> I (w_reports_update f s)) \<and> (\<forall>s f. I s \<longrightarrow> I (w_report_changes_update f s))"

definition payout_stable :: "(world \<Rightarrow> bool) \<Rightarrow> bool" where
  "payout_stable I \<longleftrightarrow> calm I \<and> (\<forall>s f. I s \<longrightarrow> I (w_payouts_update f s)) \<and> (\<forall>s f. I s \<longrightarrow> I (w_payout_changes_update f s))"

definition balance_stable :: "(world \<Rightarrow> bool) \<Rightarrow> bool" where
  "balance_stable I \<longleftrightarrow> calm I \<and> (\<forall>s f. I s \<longrightarrow> I (w_balances_update f s))"

lemmas stable_defs = report_stable_def payout_stable_def balance_stable_def sending_stable_def calm_def view_stable_def

section \<open>Queries\<close>

lemma quiet_encoders [quiet_intros]: "quiet (rr_to_mgo X r)" "quiet (po_to_mgo X p)" "quiet (balance_to_mgo X b)"
  unfolding rr_to_mgo_def po_to_mgo_def balance_to_mgo_def by (intro quiet_intros)+

lemma quiet_report_queries [quiet_intros]:
  "quiet (rrrepo_GetById X i)" "quiet (rrrepo_GetNonPayoutReports X m c)" "quiet (rrrepo_GetByPayoutId X i)"
  "quiet (rrrepo_GetByAcceptedExpireWithStatus X now st)" "quiet (rrrepo_GetReportExists X m c f u)"
  "quiet (rrrepo_GetBalanceAmount X m c)"
  unfolding rrrepo_GetById_def rrrepo_GetNonPayoutReports_def rrrepo_GetByPayoutId_def
    rrrepo_GetByAcceptedExpireWithStatus_def rrrepo_GetReportExists_def rrrepo_GetBalanceAmount_def
  by (intro quiet_intros)+

lemma quiet_payout_queries [quiet_intros]:
  "quiet (porepo_GetById X i)" "quiet (porepo_GetBalanceAmount X m c)" "quiet (porepo_GetLast X m c)"
  unfolding porepo_GetById_def porepo_updateCaches_def porepo_GetBalanceAmount_def porepo_GetLast_def
  by (intro quiet_intros)+

lemma quiet_merchant [quiet_intros]: "quiet (merchant_GetById X i)"
  unfolding merchant_GetById_def by (intro quiet_intros)

lemma quiet_journal_sums [quiet_intros]:
  "quiet (aerepo_GetRollingReserveForBalance X m c types t)" "quiet (aerepo_ForRoyaltyReport X m c types f u)"
  "quiet (aerepo_GetCorrectionsForRoyaltyReport X m c f u)" "quiet (aerepo_GetRollingReservesForRoyaltyReport X m c types f u)"
  unfolding aerepo_GetRollingReserveForBalance_def aerepo_GetCorrectionsForRoyaltyReport_def
    aerepo_GetRollingReservesForRoyaltyReport_def aerepo_ForRoyaltyReport_def by (intro quiet_intros)+

lemma quiet_balance_queries [quiet_intros]:
  "quiet (getMerchantBalance X i)" "quiet (getRollingReserveForBalance X i c)"
  unfolding getMerchantBalance_def getRollingReserveForBalance_def balrepo_GetByIdAndCurrency_def cache_get_nil_def
  by (intro quiet_intros)+

section \<open>Writes\<close>

lemma keeps_report_writes:
  assumes I: "report_stable I"
  shows "keeps I (rrrepo_Insert X rr ip src)" "keeps I (rrrepo_Update X rr ip src)"
proof -
  have c: "calm I" and r: "I s \<Longrightarrow> I (w_reports_update f s)" and h: "I s \<Longrightarrow> I (w_report_changes_update g s)" for s f g
    using I by (simp_all add: report_stable_def)
  note q = keeps_quiet[OF c]
  have a: "keeps I (onRoyaltyReportChange X rr ip src)" unfolding onRoyaltyReportChange_def
    by (intro keeps_bind keeps_pure keeps_written[OF c h] q[OF quiet_calls(4)] q[OF quiet_calls(5)])
  show "keeps I (rrrepo_Insert X rr ip src)" unfolding rrrepo_Insert_def repo_insert_def
    by (intro keeps_bind keeps_pure a keeps_written[OF c r] q[OF quiet_encoders(1)] q[OF quiet_store(4)])
  show "keeps I (rrrepo_Update X rr ip src)" unfolding rrrepo_Update_def
    by (intro keeps_sum keeps_bind keeps_pure keeps_attempt a keeps_written[OF c r] q[OF quiet_encoders(1)] q[OF quiet_store(4)])
qed

lemma keeps_payout_writes:
  assumes I: "payout_stable I"
  shows "keeps I (porepo_Insert X pd ip src)" "keeps I (porepo_Update X pd ip src)"
proof -
  have c: "calm I" and r: "I s \<Longrightarrow> I (w_payouts_update f s)" and h: "I s \<Longrightarrow> I (w_payout_changes_update g s)" for s f g
    using I by (simp_all add: payout_stable_def)
  note q = keeps_quiet[OF c]
  have a: "keeps I (onPayoutDocumentChange X pd ip src)" unfolding onPayoutDocumentChange_def
    by (intro keeps_bind keeps_pure keeps_written[OF c h] q[OF quiet_calls(4)] q[OF quiet_calls(6)])
  have u: "keeps I (porepo_updateCaches X pd)" unfolding porepo_updateCaches_def by (intro keeps_bind q[OF quiet_store(4)])
  show "keeps I (porepo_Insert X pd ip src)" unfolding porepo_Insert_def repo_insert_def
    by (intro keeps_bind keeps_pure a u keeps_written[OF c r] q[OF quiet_encoders(2)])
  show "keeps I (porepo_Update X pd ip src)" unfolding porepo_Update_def repo_update_def
    by (intro keeps_bind keeps_pure a u keeps_written[OF c r] q[OF quiet_encoders(2)])
qed

lemma keeps_balance_update:
  assumes I: "balance_stable I" shows "keeps I (updateMerchantBalance X i)"
proof -
  have c: "calm I" and r: "I s \<Longrightarrow> I (w_balances_update f s)" for s f
    using I by (simp_all add: balance_stable_def)
  note q = keeps_quiet[OF c]
  have b: "keeps I (balrepo_Insert X b)" for b unfolding balrepo_Insert_def repo_insert_def
    by (intro keeps_bind keeps_pure keeps_attempt keeps_written[OF c r] q[OF quiet_encoders(3)] q[OF quiet_store(4)])
  show ?thesis unfolding updateMerchantBalance_def Let_def
    by (intro keeps_bind keeps_if keeps_pure keeps_replace_err b q[OF quiet_merchant] q[OF quiet_report_queries(6)]
        q[OF quiet_payout_queries(2)] q[OF quiet_balance_queries(2)] q[OF quiet_calls(4)] q[OF quiet_calls(6)])
qed

lemma keeps_report_loops:
  assumes I: "report_stable I"
  shows "keeps I (royaltyReportSetPaid X ids p ip src)" "keeps I (royaltyReportSetPayoutDocumentId X ids p ip src)"
    "keeps I (royaltyReportUnsetPaid X ids ip src)"
proof -
  note w = keeps_report_writes(2)[OF I] and q = keeps_quiet[of I] 
  have c: "calm I" using I by (simp add: report_stable_def)
  have k: "keeps I (check_payout_id X p)" unfolding check_payout_id_def by (intro keeps_sum keeps_pure)
  note L = keeps_bind keeps_for_each w k keeps_quiet[OF c quiet_report_queries(1)] keeps_quiet[OF c quiet_calls(6)]
  show "keeps I (royaltyReportSetPaid X ids p ip src)" unfolding royaltyReportSetPaid_def by (intro L)
  show "keeps I (royaltyReportSetPayoutDocumentId X ids p ip src)" unfolding royaltyReportSetPayoutDocumentId_def by (intro L)
  show "keeps I (royaltyReportUnsetPaid X ids ip src)" unfolding royaltyReportUnsetPaid_def by (intro L)
qed

lemma keeps_send_file:
  assumes I: "sending_stable I"
  shows "keeps I (send X m)" "keeps I (reporterServiceCreateFile X tp i)"
proof -
  have c: "calm I" and r: "I s \<Longrightarrow> I (w_sent_update f s)" for s f using I by (simp_all add: sending_stable_def)
  show s: "keeps I (send X m)" for m unfolding send_def by (intro keeps_bind keeps_quiet[OF c quiet_calls(3)] keeps_modify r)
  show "keeps I (reporterServiceCreateFile X tp i)" unfolding reporterServiceCreateFile_def by (rule s)
qed

end
