(* ===== verification/ReportLinks.thy ===== *)
theory ReportLinks
  imports Frames
begin

text \<open>
  Marking reports: what the three loops over the reports of a payout do to the collection, given
  that every cached report lies under its own key.
\<close>

section \<open>One report\<close>

definition reports_keyed :: "world \<Rightarrow> bool" where
  "reports_keyed s \<longleftrightarrow> (\<forall>i r. w_cache s (cacheKeyRoyaltyReport i) = Some (CachedReport r) \<longrightarrow> rr_Id r = i)"

lemma reports_keyed_set: "reports_keyed s \<Longrightarrow> (\<And>r. v = CachedReport r \<Longrightarrow> k = cacheKeyRoyaltyReport (rr_Id r)) \<Longrightarrow>
    reports_keyed (s\<lparr>w_cache := (w_cache s)(k \<mapsto> v), w_tick := n\<rparr>)"
  by (auto simp: reports_keyed_def cacheKeyRoyaltyReport_def)

lemma rr_to_mgo_doc:
  assumes "rr_to_mgo X r s = (Inr m, t)"
  shows "mgorr_Status m = rr_Status r" "mgorr_PayoutDocumentId m = rr_PayoutDocumentId r" "mgorr_Currency m = rr_Currency r"
    "rr_Id r \<noteq> [] \<Longrightarrow> x_oid_from_hex X (rr_Id r) = Inr (mgorr_Id m)"
    "x_oid_from_hex X (rr_MerchantId r) = Inr (mgorr_MerchantId m)" "mgorr_Totals m = rr_Totals r"
    "x_timestamp X (rr_PeriodFrom r) = Inr (mgorr_PeriodFrom m)" "x_timestamp X (rr_PeriodTo r) = Inr (mgorr_PeriodTo m)"
  using assms unfolding rr_to_mgo_def success oid_or_new_def by (auto simp: success)

lemma keeps_keyed:
  "keeps reports_keyed (rrrepo_Update X rr ip src)"
proof -
  have q: "tick_stable reports_keyed" by (simp add: tick_stable_def reports_keyed_def)
  have c: "keeps reports_keyed (cache_set X (cacheKeyRoyaltyReport (rr_Id rr)) (CachedReport rr))"
    by (auto simp: keeps_wp reports_keyed_def cacheKeyRoyaltyReport_def split: option.split)
  have m: "keeps reports_keyed (time_or_now X t)" "keeps reports_keyed (time_or_zero X t)" "keeps reports_keyed (oid_or_new X i)" for t i
    unfolding time_or_now_def time_or_zero_def oid_or_new_def by (intro keeps_intros q)+
  have w: "keeps reports_keyed (replace_one X w_reports_update p d)"
    "keeps reports_keyed (insert_one X w_report_changes w_report_changes_update idf e)" for p d idf e
    unfolding replace_one_def insert_one_def
    by (intro keeps_intros keeps_modify q; simp add: reports_keyed_def)+
  show ?thesis unfolding rrrepo_Update_def rr_to_mgo_def onRoyaltyReportChange_def
    by (intro keeps_intros q c m w)
qed

text \<open>The report that a lookup returns has the id that was asked for.\<close>

lemma GetById_keyed:
  assumes "codecs_ok X" and "canon_id X i" and "reports_keyed s" and run: "rrrepo_GetById X i s = (Inr rr, t)"
  shows "rr_Id rr = i \<and> reports_keyed t"
proof -
  let ?Q = "\<lambda>r t. reports_keyed t \<and> (\<forall>rr. r = Inr rr \<longrightarrow> rr_Id rr = i)"
  have d: "rr_from_mgo X m = Inr rr \<Longrightarrow> rr_Id rr = x_oid_hex X (mgorr_Id m)" for m rr
    by (auto simp: rr_from_mgo_def bind_err_eq_Inr)
  have "wp (rrrepo_GetById X i) ?Q s" using assms(2,3)
    by (auto simp: rrrepo_GetById_def wp_cache_get repo_get_def reports.wp_find_one canon_id_def reports_keyed_def
        cacheKeyRoyaltyReport_def bind_eq_None_conv bind_eq_Some_conv dest!: d find_SomeD split: option.split sum.split sum.splits cached.splits elim!: as_report.elims)
  then show ?thesis using run by (auto dest: wpD)
qed

lemma audit_keeps_reports:
  assumes "onRoyaltyReportChange X rr ip src s = (r, t)"
  shows "w_reports t = w_reports s"
proof -
  have I: "calm (\<lambda>u. w_reports u = w_reports s)" by (simp add: calm_def)
  have k: "keeps (\<lambda>u. w_reports u = w_reports s) (onRoyaltyReportChange X rr ip src)" unfolding onRoyaltyReportChange_def
    by (intro keeps_bind keeps_pure keeps_written[OF I] keeps_quiet[OF I quiet_calls(4)] keeps_quiet[OF I quiet_calls(5)]) simp
  show ?thesis by (rule keepsD[OF k _ assms]) simp
qed

lemma replaced_success:
  "replace_one X upd p d s = (Inr (), t) \<longleftrightarrow>
    x_fault X (w_tick s) = None \<and> t = upd (replace_first p d) (s\<lparr>w_tick := Suc (w_tick s)\<rparr>)"
  by (auto simp: replace_one_def success calling_def rpc_success modify_def split: option.splits)

lemma Update_result:
  assumes run: "rrrepo_Update X rr ip src s = (Inr (), t)" and i: "x_oid_from_hex X (rr_Id rr) = Inr oid" "rr_Id rr \<noteq> []"
  shows "\<exists>m. mgorr_Id m = oid \<and> mgorr_Status m = rr_Status rr \<and> mgorr_PayoutDocumentId m = rr_PayoutDocumentId rr \<and>
    mgorr_Currency m = rr_Currency rr \<and> x_oid_from_hex X (rr_MerchantId rr) = Inr (mgorr_MerchantId m) \<and>
    w_reports t = replace_first (\<lambda>d. mgorr_Id d = oid) m (w_reports s)"
proof -
  from run i obtain m u v w c where m: "rr_to_mgo X rr s = (Inr m, u)"
    and p: "replace_one X w_reports_update (\<lambda>d. mgorr_Id d = oid) m u = (Inr (), v)"
    and a: "onRoyaltyReportChange X rr ip src v = (Inr (), w)"
    and c: "cache_set X (cacheKeyRoyaltyReport (rr_Id rr)) (CachedReport rr) w = (c, t)"
    unfolding rrrepo_Update_def by (auto simp: success)
  have "w_reports t = w_reports v" using quiet_same(5)[OF quiet_store(4) c] audit_keeps_reports[OF a] by simp
  also have "\<dots> = replace_first (\<lambda>d. mgorr_Id d = oid) m (w_reports u)" using p by (simp add: replaced_success)
  also have "w_reports u = w_reports s" by (rule quiet_same(5)[OF quiet_encoders(1) m])
  finally show ?thesis using rr_to_mgo_doc[OF m] i by (intro exI[of _ m]) auto
qed

section \<open>A loop over reports\<close>

lemma marked_report:
  assumes X: "codecs_ok X" "canon_id X i" and s: "reports_keyed s" "distinct (map mgorr_Id (w_reports s))"
    and g: "rrrepo_GetById X i s = (Inr rr, u)" and q: "quiet m" "m u = (r, v)" "w_cache v = w_cache u"
    and up: "rrrepo_Update X rr' ip src v = (Inr (), t)" and rr': "rr_Id rr' = rr_Id rr"
  shows "reports_keyed t \<and> map mgorr_Id (w_reports t) = map mgorr_Id (w_reports s) \<and>
    (\<forall>d\<in>set (w_reports t). if x_oid_hex X (mgorr_Id d) = i
       then mgorr_Status d = rr_Status rr' \<and> mgorr_PayoutDocumentId d = rr_PayoutDocumentId rr' else d \<in> set (w_reports s)) \<and>
    (\<forall>d\<in>set (w_reports s). x_oid_hex X (mgorr_Id d) \<noteq> i \<longrightarrow> d \<in> set (w_reports t))"
proof -
  obtain oid where oid: "x_oid_from_hex X i = Inr oid" "x_oid_hex X oid = i" "i \<noteq> []" using X(2) by (rule canon_idE)
  have k: "rr_Id rr = i" "reports_keyed u" using GetById_keyed[OF X s(1) g] by simp_all
  have kv: "reports_keyed v" using k(2) q(3) by (simp add: reports_keyed_def)
  have wv: "w_reports v = w_reports s" using quiet_same(5)[OF q(1,2)] quiet_same(5)[OF quiet_report_queries(1) g] by simp
  obtain m where m: "mgorr_Id m = oid" "mgorr_Status m = rr_Status rr'" "mgorr_PayoutDocumentId m = rr_PayoutDocumentId rr'"
    "w_reports t = replace_first (\<lambda>d. mgorr_Id d = oid) m (w_reports s)"
    using Update_result[OF up] oid rr' k(1) unfolding wv by metis
  have hex: "x_oid_hex X a = i \<longleftrightarrow> a = oid" for a using codecs_hex(1)[OF X(1)] oid(1,2) by (metis sum.inject(2))
  have u: "replace_first (\<lambda>d. mgorr_Id d = oid) m (w_reports s) =
      map (\<lambda>d. if mgorr_Id d = oid then m else d) (w_reports s)"
  proof (cases "find (\<lambda>d. mgorr_Id d = oid) (w_reports s)")
    case None
    then show ?thesis by (simp add: find_None_iff replace_first_none map_idI)
  next
    case (Some d)
    then show ?thesis using replace_first_unique[OF s(2), of "\<lambda>d. mgorr_Id d = oid" oid d "\<lambda>_. m"] by simp
  qed
  have "map mgorr_Id (w_reports t) = map mgorr_Id (w_reports s)" by (simp add: m(4) u m(1))
  moreover have "reports_keyed t" by (rule keepsD[OF keeps_keyed kv up])
  moreover have "if x_oid_hex X (mgorr_Id d) = i then mgorr_Status d = rr_Status rr' \<and> mgorr_PayoutDocumentId d = rr_PayoutDocumentId rr'
      else d \<in> set (w_reports s)" if d: "d \<in> set (w_reports t)" for d
  proof -
    obtain e where e: "e \<in> set (w_reports s)" "d = (if mgorr_Id e = oid then m else e)"
      using d unfolding m(4) u by auto
    show ?thesis using e m(1-3) by (cases "mgorr_Id e = oid") (simp_all add: hex)
  qed
  moreover have "d \<in> set (w_reports t)" if "d \<in> set (w_reports s)" "x_oid_hex X (mgorr_Id d) \<noteq> i" for d
    using that unfolding m(4) u hex by (auto intro!: image_eqI[of _ _ d])
  ultimately show ?thesis by blast
qed

definition reports_marked :: "ext \<Rightarrow> rr_status \<Rightarrow> string \<Rightarrow> string list \<Rightarrow> world \<Rightarrow> world \<Rightarrow> bool" where
  "reports_marked X st p ids s t \<longleftrightarrow> map mgorr_Id (w_reports t) = map mgorr_Id (w_reports s) \<and>
     (\<forall>d\<in>set (w_reports t). if x_oid_hex X (mgorr_Id d) \<in> set ids
        then mgorr_Status d = st \<and> mgorr_PayoutDocumentId d = p else d \<in> set (w_reports s)) \<and>
     (\<forall>d\<in>set (w_reports s). x_oid_hex X (mgorr_Id d) \<notin> set ids \<longrightarrow> d \<in> set (w_reports t))"

lemma reports_marked_nil: "reports_marked X st p [] s s"
  by (simp add: reports_marked_def)

lemma reports_marked_cons:
  assumes "reports_marked X st p [i] s u" and "reports_marked X st p ids u t"
  shows "reports_marked X st p (i # ids) s t"
proof -
  have a: "map mgorr_Id (w_reports t) = map mgorr_Id (w_reports s)" using assms by (simp add: reports_marked_def)
  have b: "if x_oid_hex X (mgorr_Id d) \<in> set (i # ids) then mgorr_Status d = st \<and> mgorr_PayoutDocumentId d = p
      else d \<in> set (w_reports s)" if d: "d \<in> set (w_reports t)" for d
  proof (cases "x_oid_hex X (mgorr_Id d) \<in> set ids")
    case True then show ?thesis using assms(2) d by (simp add: reports_marked_def)
  next
    case False
    then have "d \<in> set (w_reports u)" using assms(2) d by (auto simp: reports_marked_def)
    then show ?thesis using assms(1) False by (auto simp: reports_marked_def split: if_splits)
  qed
  have c: "d \<in> set (w_reports t)" if "d \<in> set (w_reports s)" "x_oid_hex X (mgorr_Id d) \<notin> set (i # ids)" for d
  proof -
    have "d \<in> set (w_reports u)" using that assms(1)[unfolded reports_marked_def] by simp
    then show ?thesis using that(2) assms(2)[unfolded reports_marked_def] by simp
  qed
  show ?thesis unfolding reports_marked_def using a b c by blast
qed

lemma loop_marks:
  assumes step: "\<And>i s t. i \<in> set ids \<Longrightarrow> reports_keyed s \<Longrightarrow> distinct (map mgorr_Id (w_reports s)) \<Longrightarrow>
      f i s = (Inr (), t) \<Longrightarrow> reports_keyed t \<and> reports_marked X st p [i] s t"
    and "reports_keyed s" and "distinct (map mgorr_Id (w_reports s))" and "for_each ids f s = (Inr (), t)"
  shows "reports_keyed t \<and> reports_marked X st p ids s t"
  using assms
proof (induction ids arbitrary: s)
  case Nil then show ?case by (simp add: run_Inr reports_marked_nil)
next
  case (Cons i ids)
  from Cons.prems(4) obtain u where u: "f i s = (Inr (), u)" and r: "for_each ids f u = (Inr (), t)" by (auto simp: success)
  have m: "reports_keyed u \<and> reports_marked X st p [i] s u" using Cons.prems(1)[OF _ Cons.prems(2,3) u] by simp
  then have d: "distinct (map mgorr_Id (w_reports u))" using Cons.prems(3) by (simp add: reports_marked_def)
  have "reports_keyed t \<and> reports_marked X st p ids u t"
    using Cons.prems(1) m d r by (intro Cons.IH) auto
  then show ?case using reports_marked_cons m by blast
qed

lemma marked_one:
  assumes "codecs_ok X" "canon_id X i" "reports_keyed s" "distinct (map mgorr_Id (w_reports s))"
    and "rrrepo_GetById X i s = (Inr rr, u)" "quiet m" "m u = (r, v)" "w_cache v = w_cache u"
    and "rrrepo_Update X rr' ip src v = (Inr (), t)" "rr_Id rr' = rr_Id rr" "rr_Status rr' = st" "rr_PayoutDocumentId rr' = p"
  shows "reports_keyed t \<and> reports_marked X st p [i] s t"
  using marked_report[OF assms(1-10)] assms(11,12) by (auto simp: reports_marked_def)

text \<open>The three loops.\<close>

lemma reports_set_payout:
  assumes "codecs_ok X" "\<forall>i\<in>set ids. canon_id X i" "reports_keyed s" "distinct (map mgorr_Id (w_reports s))"
    and "royaltyReportSetPayoutDocumentId X ids p ip src s = (Inr (), t)"
  shows "reports_keyed t \<and> reports_marked X RRWaitForPayment p ids s t"
proof -
  have r: "for_each ids (\<lambda>i. bind (rrrepo_GetById X i) (\<lambda>rr.
       rrrepo_Update X (rr\<lparr>rr_PayoutDocumentId := p, rr_Status := RRWaitForPayment\<rparr>) ip src)) s = (Inr (), t)"
    using assms(5) unfolding royaltyReportSetPayoutDocumentId_def check_payout_id_def by (auto simp: success split: sum.splits)
  show ?thesis
  proof (rule loop_marks[OF _ assms(3,4) r])
    fix i s t assume i: "i \<in> set ids" and k: "reports_keyed s" "distinct (map mgorr_Id (w_reports s))"
      and run: "bind (rrrepo_GetById X i) (\<lambda>rr. rrrepo_Update X (rr\<lparr>rr_PayoutDocumentId := p, rr_Status := RRWaitForPayment\<rparr>) ip src) s = (Inr (), t)"
    from run obtain rr u where g: "rrrepo_GetById X i s = (Inr rr, u)"
      and up: "rrrepo_Update X (rr\<lparr>rr_PayoutDocumentId := p, rr_Status := RRWaitForPayment\<rparr>) ip src u = (Inr (), t)"
      by (auto simp: success)
    show "reports_keyed t \<and> reports_marked X RRWaitForPayment p [i] s t"
      by (rule marked_one[OF assms(1) _ k g quiet_pure(1)[of "()"] _ _ up]) (use assms(2) i in \<open>simp_all add: ret_def\<close>)
  qed
qed

lemma reports_set_paid:
  assumes "codecs_ok X" "\<forall>i\<in>set ids. canon_id X i" "reports_keyed s" "distinct (map mgorr_Id (w_reports s))"
    and "royaltyReportSetPaid X ids p ip src s = (Inr (), t)"
  shows "reports_keyed t \<and> reports_marked X RRPaid p ids s t"
proof -
  have r: "for_each ids (\<lambda>i. bind (rrrepo_GetById X i) (\<lambda>rr. bind (timestamp_now X) (\<lambda>now.
       rrrepo_Update X (rr\<lparr>rr_PayoutDocumentId := p, rr_Status := RRPaid, rr_PayoutDate := Some now\<rparr>) ip src))) s = (Inr (), t)"
    using assms(5) unfolding royaltyReportSetPaid_def check_payout_id_def by (auto simp: success split: sum.splits)
  show ?thesis
  proof (rule loop_marks[OF _ assms(3,4) r])
    fix i s t assume i: "i \<in> set ids" and k: "reports_keyed s" "distinct (map mgorr_Id (w_reports s))"
      and run: "bind (rrrepo_GetById X i) (\<lambda>rr. bind (timestamp_now X) (\<lambda>now.
        rrrepo_Update X (rr\<lparr>rr_PayoutDocumentId := p, rr_Status := RRPaid, rr_PayoutDate := Some now\<rparr>) ip src)) s = (Inr (), t)"
    from run obtain rr u v now where g: "rrrepo_GetById X i s = (Inr rr, u)" and n: "timestamp_now X u = (Inr now, v)"
      and up: "rrrepo_Update X (rr\<lparr>rr_PayoutDocumentId := p, rr_Status := RRPaid, rr_PayoutDate := Some now\<rparr>) ip src v = (Inr (), t)"
      by (auto simp: success)
    have "w_cache v = w_cache u" using n by (auto simp: timestamp_now_def)
    then show "reports_keyed t \<and> reports_marked X RRPaid p [i] s t"
      by (intro marked_one[OF assms(1) _ k g quiet_calls(6) n _ up]) (use assms(2) i in simp_all)
  qed
qed

lemma reports_unset_paid:
  assumes "codecs_ok X" "\<forall>i\<in>set ids. canon_id X i" "reports_keyed s" "distinct (map mgorr_Id (w_reports s))"
    and "royaltyReportUnsetPaid X ids ip src s = (Inr (), t)"
  shows "reports_keyed t \<and> reports_marked X RRAccepted [] ids s t"
proof -
  have r: "for_each ids (\<lambda>i. bind (rrrepo_GetById X i) (\<lambda>rr.
       rrrepo_Update X (rr\<lparr>rr_PayoutDocumentId := [], rr_Status := RRAccepted, rr_PayoutDate := None\<rparr>) ip src)) s = (Inr (), t)"
    using assms(5) unfolding royaltyReportUnsetPaid_def .
  show ?thesis
  proof (rule loop_marks[OF _ assms(3,4) r])
    fix i s t assume i: "i \<in> set ids" and k: "reports_keyed s" "distinct (map mgorr_Id (w_reports s))"
      and run: "bind (rrrepo_GetById X i) (\<lambda>rr. rrrepo_Update X (rr\<lparr>rr_PayoutDocumentId := [], rr_Status := RRAccepted, rr_PayoutDate := None\<rparr>) ip src) s = (Inr (), t)"
    from run obtain rr u where g: "rrrepo_GetById X i s = (Inr rr, u)"
      and up: "rrrepo_Update X (rr\<lparr>rr_PayoutDocumentId := [], rr_Status := RRAccepted, rr_PayoutDate := None\<rparr>) ip src u = (Inr (), t)"
      by (auto simp: success)
    show "reports_keyed t \<and> reports_marked X RRAccepted [] [i] s t"
      by (rule marked_one[OF assms(1) _ k g quiet_pure(1)[of "()"] _ _ up]) (use assms(2) i in \<open>simp_all add: ret_def\<close>)
  qed
qed

end
