(* ===== verification/PayoutCreation.thy ===== *)
theory PayoutCreation
  imports ReportLinks
begin

text \<open>
  What a payout that has been created stands for: its amount lies within the tariff and the balance
  of the merchant, and it has taken all reports that could be paid out.
\<close>

section \<open>The steps of a creation\<close>

lemma check_payout_result:
  assumes "check_payout X m req pd s = (Inr r, t)"
  shows "(\<exists>a. r = Inl a \<and> rspItem a = None) \<or>
    (\<exists>tariff minimal balance u. merchant_Tariff m = Some tariff \<and>
       tariff_MinimalPayout tariff (x_merchant_payout_currency X m) = Some minimal \<and>
       getMerchantBalance X (merchant_Id m) s = (Inr balance, t) \<and>
       \<not> flt (po_Balance pd) minimal \<and> \<not> fle (po_Balance pd) 0 \<and>
       \<not> flt (x_to_precise X (balance_Debit balance - balance_Credit balance)) (po_Balance pd) \<and>
       r = Inr (if flt (po_Balance pd) (merchant_MinPayoutAmount m) then PayoutDocumentStatusSkip else po_Status pd))"
proof -
  obtain b u where g: "getMerchantBalance X (merchant_Id m) s = (b, u)" by fastforce
  show ?thesis using assms g
    by (cases b) (auto simp: check_payout_def Let_def run_go rsp_defs split: option.splits if_splits)
qed

lemma add_report_fields [simp]:
  "po_SourceId (add_report pd r) = po_SourceId pd @ [rr_Id r]" "po_Id (add_report pd r) = po_Id pd"
  "po_Status (add_report pd r) = po_Status pd" "po_MerchantId (add_report pd r) = po_MerchantId pd"
  "po_Currency (add_report pd r) = po_Currency pd"
  "po_TotalFees (add_report pd r) = po_TotalFees pd + rrt_PayoutAmount (the_totals r)"
  "po_Balance (add_report pd r) = po_Balance pd + (rrt_FinalPayoutAmount (the_totals r) - rrt_RollingReserveAmount (the_totals r))"
  by (simp_all add: add_report_def Let_def)

lemma round_payout_fields [simp]:
  "po_SourceId (round_payout pd) = po_SourceId pd" "po_Id (round_payout pd) = po_Id pd"
  "po_Status (round_payout pd) = po_Status pd" "po_MerchantId (round_payout pd) = po_MerchantId pd"
  "po_Currency (round_payout pd) = po_Currency pd" "po_TotalFees (round_payout pd) = round_cents (po_TotalFees pd)"
  "po_Balance (round_payout pd) = round_cents (po_Balance pd)"
  by (simp_all add: round_payout_def)

lemma add_reports_fold: "add_reports X pd rs s = (Inr (pd', dates), t) \<Longrightarrow> pd' = foldl add_report pd rs \<and> t = s"
  by (induction rs arbitrary: pd dates) (auto simp: success)

lemma fold_report_fields:
  "po_SourceId (foldl add_report pd rs) = po_SourceId pd @ map rr_Id rs" "po_Id (foldl add_report pd rs) = po_Id pd"
  "po_Status (foldl add_report pd rs) = po_Status pd" "po_MerchantId (foldl add_report pd rs) = po_MerchantId pd"
  "po_Currency (foldl add_report pd rs) = po_Currency pd"
  "po_TotalFees (foldl add_report pd rs) = foldl (+) (po_TotalFees pd) (map (\<lambda>r. rrt_PayoutAmount (the_totals r)) rs)"
  "po_Balance (foldl add_report pd rs) = foldl (+) (po_Balance pd)
     (map (\<lambda>r. rrt_FinalPayoutAmount (the_totals r) - rrt_RollingReserveAmount (the_totals r)) rs)"
  by (induction rs arbitrary: pd) simp_all

lemma new_payout_keeps:
  assumes I: "\<And>u n. I u \<Longrightarrow> I (u\<lparr>w_tick := n\<rparr>)" "\<And>u f. I u \<Longrightarrow> I (w_autoincrement_update f u)"
  shows "keeps I (new_payout X m req)"
proof -
  have t: "tick_stable I" using I(1) by (simp add: tick_stable_def)
  show ?thesis unfolding new_payout_def GatPayoutAutoincrementId_def
    by (intro keeps_bind keeps_pure keeps_clocks[OF t] keeps_external[OF t] keeps_modify I(2))
qed

lemma new_payout_fields:
  assumes "new_payout X m req s = (Inr pd, t)"
  shows "po_SourceId pd = []" "po_Status pd = PayoutDocumentStatusPending" "po_MerchantId pd = merchant_Id m"
    "\<exists>n. po_Id pd = x_oid_hex X (x_new_oid X n)" "po_Balance pd = 0" "po_TotalFees pd = 0"
  using assms unfolding new_payout_def GatPayoutAutoincrementId_def clock_defs
  by (auto simp: success reading_def calling_def rpc_success modify_def gets_def)

lemma sources_result:
  assumes "getPayoutDocumentSources X m s = (Inr reports, t)"
  shows "rrrepo_GetNonPayoutReports X (merchant_Id m) (x_merchant_payout_currency X m) s = (Inr reports, t) \<and>
    reports \<noteq> [] \<and> (\<forall>r\<in>set reports. rr_Status r \<notin> {RRPending, RRDispute})"
proof -
  obtain r u where g: "rrrepo_GetNonPayoutReports X (merchant_Id m) (x_merchant_payout_currency X m) s = (r, u)" by fastforce
  show ?thesis using assms g
    by (cases r) (auto simp: getPayoutDocumentSources_def run_go find_None_iff split: if_splits option.splits)
qed

definition eligible_report :: "oid \<Rightarrow> string \<Rightarrow> mgo_royalty_report \<Rightarrow> bool" where
  "eligible_report m currency d \<longleftrightarrow> mgorr_MerchantId d = m \<and> mgorr_Currency d = currency \<and>
     mgorr_Status d \<in> {RRPending, RRAccepted, RRDispute} \<and> mgorr_PayoutDocumentId d = []"

lemma map_err_Inr: "map_err f xs = Inr ys \<Longrightarrow> list_all2 (\<lambda>x y. f x = Inr y) xs ys"
  by (induction xs arbitrary: ys) (auto split: sum.splits)

lemma list_all2_member: "list_all2 P xs ys \<Longrightarrow> x \<in> set xs \<Longrightarrow> \<exists>y\<in>set ys. P x y"
  by (induction rule: list_all2_induct) auto

lemma decoded_report: "rr_from_mgo X d = Inr r \<Longrightarrow> rr_Id r = x_oid_hex X (mgorr_Id d) \<and> rr_Status r = mgorr_Status d \<and>
    rr_Currency r = mgorr_Currency d \<and> rr_Totals r = mgorr_Totals d"
  by (auto simp: rr_from_mgo_def bind_err_eq_Inr)

lemma nonpayout_result:
  assumes "rrrepo_GetNonPayoutReports X i c s = (Inr reports, t)"
  shows "\<exists>m. x_oid_from_hex X i = Inr m \<and>
    list_all2 (\<lambda>d r. rr_from_mgo X d = Inr r) (sort_key mgorr_PeriodFrom (filter (eligible_report m c) (w_reports s))) reports"
proof -
  from assms obtain m ds where m: "x_oid_from_hex X i = Inr m"
    and ds: "find_sorted X w_reports (\<lambda>d. mgorr_MerchantId d = m \<and> mgorr_Currency d = c \<and>
         mgorr_Status d \<in> {RRPending, RRAccepted, RRDispute} \<and> mgorr_PayoutDocumentId d = []) mgorr_PeriodFrom s = (Inr ds, t)"
    and r: "map_err (rr_from_mgo X) ds = Inr reports"
    unfolding rrrepo_GetNonPayoutReports_def by (auto simp: success)
  have "ds = sort_key mgorr_PeriodFrom (filter (eligible_report m c) (w_reports s))"
    using ds by (auto simp: find_sorted_def find_all_def success calling_def rpc_success gets_def eligible_report_def[abs_def]
        split: option.splits)
  then show ?thesis using m map_err_Inr[OF r] by auto
qed

text \<open>A creation that returns a document has gone through all steps.\<close>

lemma created_steps:
  assumes run: "CreatePayoutDocument X req s = (Inr rsp, t)" and item: "rspItem rsp = Some pd"
  obtains m s1 pd0 s2 reports s3 pd1 dates s4 status s5 s6 s7 s8 b where
    "merchant_GetById X (pr_MerchantId req) s = (Inr m, s1)" "merchant_ManualPayoutsEnabled m \<noteq> pr_IsAutoGeneration req"
    "new_payout X m req s1 = (Inr pd0, s2)" "getPayoutDocumentSources X m s2 = (Inr reports, s3)"
    "add_reports X (pd0\<lparr>po_Currency := rr_Currency (hd reports)\<rparr>) reports s3 = (Inr (pd1, dates), s4)"
    "check_payout X m req (round_payout pd1) s4 = (Inr (Inr status), s5)"
    "\<exists>pf pt sf st. pd = (round_payout pd1)\<lparr>po_Status := status, po_PeriodFrom := Some pf, po_PeriodTo := Some pt,
       po_StringPeriodFrom := sf, po_StringPeriodTo := st\<rparr>"
    "porepo_Insert X pd (pr_Ip req) payoutChangeSourceMerchant s5 = (Inr (), s6)"
    "royaltyReportSetPayoutDocumentId X (po_SourceId pd) (po_Id pd) (pr_Ip req) (pr_Initiator req) s6 = (Inr (), s7)"
    "updateMerchantBalance X (merchant_Id m) s7 = (Inr b, s8)" "renderPayoutDocument X pd s8 = (Inr (), t)"
    "rsp = rsp_ok pd"
proof -
  have msg: "message_or_error st e u = (Inr rsp', v) \<Longrightarrow> rspItem rsp' = None" for st e u and rsp' :: "payout response" and v
    by (auto simp: message_or_error_def success rsp_error_def split: if_splits)
  from run obtain m s1 where 1: "merchant_GetById X (pr_MerchantId req) s = (Inr m, s1)"
      "merchant_ManualPayoutsEnabled m \<noteq> pr_IsAutoGeneration req" and c: "createPayoutDocument X m req s1 = (Inr rsp, t)"
    using item unfolding CreatePayoutDocument_def by (auto simp: success rsp_error_def split: if_splits)
  from c obtain pd0 s2 src s3 where 2: "new_payout X m req s1 = (Inr pd0, s2)"
    and g: "getPayoutDocumentSources X m s2 = (src, s3)"
    and r: "(case src of Inl e \<Rightarrow> message_or_error ResponseStatusBadData e
     | Inr reports \<Rightarrow>
     bind (add_reports X (pd0\<lparr>po_Currency := rr_Currency (hd reports)\<rparr>) reports) (\<lambda>(pd1, times).
     let pd2 = round_payout pd1 in
     bind (check_payout X m req pd2) (\<lambda>checked. case checked of
       Inl answer \<Rightarrow> ret answer
     | Inr status \<Rightarrow>
     bind (lift (x_timestamp_proto X (hd (sort times)))) (\<lambda>periodFrom.
     bind (lift (x_timestamp_proto X (last (sort times)))) (\<lambda>periodTo.
     let stringTimes = sort (concat (map (\<lambda>r. [rr_StringPeriodFrom r, rr_StringPeriodTo r]) reports)) in
     store_payout X req m (pd2\<lparr>po_Status := status, po_PeriodFrom := Some periodFrom,
       po_PeriodTo := Some periodTo, po_StringPeriodFrom := hd stringTimes,
       po_StringPeriodTo := last stringTimes\<rparr>)))))) s3 = (Inr rsp, t)"
    unfolding createPayoutDocument_def success by blast
  obtain reports where src: "src = Inr reports" using r item msg by (cases src) auto
  from r[unfolded src sum.case bind_Inr[of "add_reports X (pd0\<lparr>po_Currency := rr_Currency (hd reports)\<rparr>) reports"]]
  obtain p s4 where 3: "add_reports X (pd0\<lparr>po_Currency := rr_Currency (hd reports)\<rparr>) reports s3 = (Inr p, s4)"
    and r: "(case p of (pd1, dates) \<Rightarrow>
     let pd2 = round_payout pd1 in
     bind (check_payout X m req pd2) (\<lambda>checked. case checked of
       Inl answer \<Rightarrow> ret answer
     | Inr status \<Rightarrow>
     bind (lift (x_timestamp_proto X (hd (sort dates)))) (\<lambda>periodFrom.
     bind (lift (x_timestamp_proto X (last (sort dates)))) (\<lambda>periodTo.
     let stringTimes = sort (concat (map (\<lambda>r. [rr_StringPeriodFrom r, rr_StringPeriodTo r]) reports)) in
     store_payout X req m (pd2\<lparr>po_Status := status, po_PeriodFrom := Some periodFrom,
       po_PeriodTo := Some periodTo, po_StringPeriodFrom := hd stringTimes,
       po_StringPeriodTo := last stringTimes\<rparr>))))) s4 = (Inr rsp, t)" by blast
  obtain pd1 dates where p: "p = (pd1, dates)" by fastforce
  note 3 = 3[unfolded p]
  from r[unfolded p prod.case Let_def bind_Inr[of "check_payout X m req (round_payout pd1)"]] obtain checked s5 where
    4: "check_payout X m req (round_payout pd1) s4 = (Inr checked, s5)"
    and r: "(case checked of Inl answer \<Rightarrow> ret answer
     | Inr status \<Rightarrow>
     bind (lift (x_timestamp_proto X (hd (sort dates)))) (\<lambda>periodFrom.
     bind (lift (x_timestamp_proto X (last (sort dates)))) (\<lambda>periodTo.
     store_payout X req m ((round_payout pd1)\<lparr>po_Status := status, po_PeriodFrom := Some periodFrom,
       po_PeriodTo := Some periodTo,
       po_StringPeriodFrom := hd (sort (concat (map (\<lambda>r. [rr_StringPeriodFrom r, rr_StringPeriodTo r]) reports))),
       po_StringPeriodTo := last (sort (concat (map (\<lambda>r. [rr_StringPeriodFrom r, rr_StringPeriodTo r]) reports)))\<rparr>)))) s5 = (Inr rsp, t)"
    by blast
  obtain status where ch: "checked = Inr status"
    using r item check_payout_result[OF 4] by (cases checked) (auto simp: success)
  from r[unfolded ch] obtain pf pt sf st where
    st: "store_payout X req m ((round_payout pd1)\<lparr>po_Status := status, po_PeriodFrom := Some pf,
       po_PeriodTo := Some pt, po_StringPeriodFrom := sf, po_StringPeriodTo := st\<rparr>) s5 = (Inr rsp, t)"
    unfolding sum.case success by blast
  let ?pd = "(round_payout pd1)\<lparr>po_Status := status, po_PeriodFrom := Some pf,
       po_PeriodTo := Some pt, po_StringPeriodFrom := sf, po_StringPeriodTo := st\<rparr>"
  from st obtain s6 s7 b s8 where
    "porepo_Insert X ?pd (pr_Ip req) payoutChangeSourceMerchant s5 = (Inr (), s6)"
    "royaltyReportSetPayoutDocumentId X (po_SourceId ?pd) (po_Id ?pd) (pr_Ip req) (pr_Initiator req) s6 = (Inr (), s7)"
    "updateMerchantBalance X (merchant_Id m) s7 = (Inr b, s8)" "renderPayoutDocument X ?pd s8 = (Inr (), t)"
    "rsp = rsp_ok ?pd"
    using item msg unfolding store_payout_def success run_sum by (fastforce simp: rsp_error_def)
  moreover have "pd = ?pd" using item calculation(5) by (simp add: rsp_ok_def)
  ultimately show thesis using that[OF 1 2 g[unfolded src] 3 4[unfolded ch]] by blast
qed

section \<open>What the steps leave alone\<close>

lemma quiet_creation [quiet_intros]: "quiet (getPayoutDocumentSources X m)" "quiet (check_payout X m req pd)"
  unfolding getPayoutDocumentSources_def check_payout_def Let_def by (intro quiet_intros)+

lemma keyed_ticks: "tick_stable reports_keyed"
  by (simp add: tick_stable_def reports_keyed_def)

lemma keyed_set: "(\<And>r. v \<noteq> CachedReport r) \<Longrightarrow> keeps reports_keyed (cache_set X k v)"
  by (auto simp: keeps_wp reports_keyed_def split: option.split)

lemma keyed_queries:
  "keeps reports_keyed (find_one X get p)" "keeps reports_keyed (find_all X get p)" "keeps reports_keyed (cache_get X sel k)"
  unfolding find_one_def find_all_def cache_get_def by (intro keeps_intros keyed_ticks)+

lemma keyed_sorted: "keeps reports_keyed (find_sorted X get p k)" "keeps reports_keyed (find_first_sorted X get p k)"
proof -
  show s: "keeps reports_keyed (find_sorted X get p k)" unfolding find_sorted_def by (intro keeps_intros keyed_queries)
  have "keeps reports_keyed (case ds of [] \<Rightarrow> throw ErrNoDocuments | d # _ \<Rightarrow> ret d)" for ds :: "'b list"
    by (cases ds) auto
  then show "keeps reports_keyed (find_first_sorted X get p k)" unfolding find_first_sorted_def by (intro keeps_bind s)
qed

lemma keyed_writes:
  "keeps reports_keyed (insert_one X w_payouts w_payouts_update mgopo_Id d)"
  "keeps reports_keyed (insert_one X w_payout_changes w_payout_changes_update change_Id e)"
  "keeps reports_keyed (replace_one X w_payouts_update p d)"
  unfolding insert_one_def replace_one_def by (intro keeps_intros keeps_modify keyed_ticks; simp add: reports_keyed_def)+

lemma keyed_payout:
  "keeps reports_keyed (po_to_mgo X pd)" "keeps reports_keyed (onPayoutDocumentChange X pd ip src)"
  "keeps reports_keyed (porepo_updateCaches X pd)" "keeps reports_keyed (porepo_GetById X i)"
  "keeps reports_keyed (porepo_Update X pd ip src)"
proof -
  have t: "keeps reports_keyed (time_or_now X u)" "keeps reports_keyed (time_or_zero X u)" "keeps reports_keyed (oid_or_new X i)" for u i
    unfolding time_or_now_def time_or_zero_def oid_or_new_def by (intro keeps_intros keyed_ticks)+
  show m: "keeps reports_keyed (po_to_mgo X pd)" unfolding po_to_mgo_def by (intro keeps_intros t)
  show c: "keeps reports_keyed (onPayoutDocumentChange X pd ip src)"
    unfolding onPayoutDocumentChange_def by (intro keeps_intros keyed_writes keyed_ticks)
  show u: "keeps reports_keyed (porepo_updateCaches X pd)" for pd
    unfolding porepo_updateCaches_def by (intro keeps_intros keyed_set) simp_all
  show "keeps reports_keyed (porepo_GetById X i)"
    unfolding porepo_GetById_def repo_get_def by (intro keeps_intros keyed_queries u)
  show "keeps reports_keyed (porepo_Update X pd ip src)"
    unfolding porepo_Update_def repo_update_def by (intro keeps_intros keyed_writes(3) m c u)
qed

lemma keyed_steps:
  "keeps reports_keyed (merchant_GetById X i)" "keeps reports_keyed (new_payout X m req)"
  "keeps reports_keyed (getPayoutDocumentSources X m)" "keeps reports_keyed (check_payout X m req pd)"
  "keeps reports_keyed (porepo_Insert X pd ip src)"
proof -
  note q = keyed_queries keyed_sorted keyed_ticks
  show m: "keeps reports_keyed (merchant_GetById X i)" for i unfolding merchant_GetById_def by (intro q)
  show "keeps reports_keyed (new_payout X m req)" by (rule new_payout_keeps) (simp_all add: reports_keyed_def)
  show "keeps reports_keyed (getPayoutDocumentSources X m)"
    unfolding getPayoutDocumentSources_def rrrepo_GetNonPayoutReports_def by (intro keeps_intros q)
  have b: "keeps reports_keyed (getMerchantBalance X i)" for i
    unfolding getMerchantBalance_def balrepo_GetByIdAndCurrency_def cache_get_nil_def by (intro keeps_intros q m keyed_set) simp_all
  show "keeps reports_keyed (check_payout X m req pd)" unfolding check_payout_def Let_def by (intro keeps_intros b)
  show "keeps reports_keyed (porepo_Insert X pd ip src)"
    unfolding porepo_Insert_def repo_insert_def by (intro keeps_intros keyed_writes keyed_payout(1-3))
qed

text \<open>The reports from the start of a creation to its links, and from there to its end.\<close>

lemma creation_frames:
  assumes "merchant_GetById X i s = (Inr m, s1)" "new_payout X m req s1 = (Inr pd0, s2)"
    "getPayoutDocumentSources X m s2 = (Inr reports, s3)" "add_reports X pd0' reports s3 = (Inr (pd1, dates), s4)"
    "check_payout X m req pd2 s4 = (Inr c, s5)" "porepo_Insert X pd (pr_Ip req) src s5 = (Inr (), s6)"
  shows "w_reports s2 = w_reports s" "w_reports s6 = w_reports s" "w_merchants s = w_merchants s4" "w_balances s4 = w_balances s"
    "reports_keyed s \<Longrightarrow> reports_keyed s6"
proof -
  have n: "w_reports s2 = w_reports s1 \<and> w_merchants s2 = w_merchants s1 \<and> w_balances s2 = w_balances s1"
    by (rule keepsD[OF new_payout_keeps[of "\<lambda>u. w_reports u = w_reports s1 \<and> w_merchants u = w_merchants s1 \<and> w_balances u = w_balances s1"]
          _ assms(2)]) simp_all
  note q = quiet_same[OF quiet_merchant assms(1)] quiet_same[OF quiet_creation(1) assms(3)] quiet_same[OF quiet_creation(2) assms(5)]
  have s4: "s4 = s3" using add_reports_fold[OF assms(4)] by simp
  have i: "w_reports s6 = w_reports s5"
    by (rule keepsD[OF keeps_payout_writes(1)[of "\<lambda>u. w_reports u = w_reports s5"] _ assms(6)]) (simp_all add: stable_defs)
  show "w_reports s2 = w_reports s" "w_reports s6 = w_reports s" "w_merchants s = w_merchants s4" "w_balances s4 = w_balances s"
    using n q s4 i by simp_all
  show "reports_keyed s6" if k: "reports_keyed s"
  proof -
    have 1: "reports_keyed s1" by (rule keepsD[OF keyed_steps(1) k assms(1)])
    have 2: "reports_keyed s2" by (rule keepsD[OF keyed_steps(2) 1 assms(2)])
    have 3: "reports_keyed s4" unfolding s4 by (rule keepsD[OF keyed_steps(3) 2 assms(3)])
    have 5: "reports_keyed s5" by (rule keepsD[OF keyed_steps(4) 3 assms(5)])
    show ?thesis by (rule keepsD[OF keyed_steps(5) 5 assms(6)])
  qed
qed

lemma creation_end:
  assumes "updateMerchantBalance X i s7 = (Inr b, s8)" "renderPayoutDocument X pd s8 = (Inr (), t)"
  shows "w_reports t = w_reports s7"
proof -
  have "w_reports s8 = w_reports s7"
    by (rule keepsD[OF keeps_balance_update[of "\<lambda>u. w_reports u = w_reports s7"] _ assms(1)]) (simp_all add: stable_defs)
  moreover have k: "keeps (\<lambda>u. w_reports u = w_reports s8) (renderPayoutDocument X pd)"
    unfolding renderPayoutDocument_def by (intro keeps_bind keeps_send_file) (simp_all add: stable_defs)
  moreover have "w_reports t = w_reports s8" by (rule keepsD[OF k _ assms(2)]) simp
  ultimately show ?thesis by simp
qed

lemma canon_hex: "codecs_ok X \<Longrightarrow> canon_id X (x_oid_hex X d)"
  by (simp add: canon_id_def codecs_hex)

text \<open>C11: A payout takes all reports of the merchant that can be paid out, and they were all accepted: after a
  creation that returns a document, the sources of the document are exactly the reports that were in no
  payout, each of them now waits for payment under this document, no other report has changed, and none is
  left that another payout could take.\<close>

theorem payout_takes_its_reports:
  assumes "codecs_ok X" and "reports_keyed s" and "distinct (map mgorr_Id (w_reports s))"
    and "CreatePayoutDocument X req s = (Inr rsp, t)" and "rspItem rsp = Some pd"
  shows "\<exists>m oid cur. find (\<lambda>m. merchant_Id m = pr_MerchantId req) (w_merchants s) = Some m \<and>
    x_oid_from_hex X (merchant_Id m) = Inr oid \<and> cur = x_merchant_payout_currency X m \<and>
    filter (eligible_report oid cur) (w_reports s) \<noteq> [] \<and>
    set (po_SourceId pd) = (\<lambda>d. x_oid_hex X (mgorr_Id d)) ` set (filter (eligible_report oid cur) (w_reports s)) \<and>
    (\<forall>d\<in>set (w_reports s). eligible_report oid cur d \<longrightarrow> mgorr_Status d = RRAccepted) \<and>
    (\<forall>d\<in>set (w_reports t). \<not> eligible_report oid cur d \<and> (if x_oid_hex X (mgorr_Id d) \<in> set (po_SourceId pd)
       then mgorr_Status d = RRWaitForPayment \<and> mgorr_PayoutDocumentId d = po_Id pd else d \<in> set (w_reports s)))"
proof -
  obtain m s1 pd0 s2 reports s3 pd1 dates s4 status s5 s6 s7 s8 b where st:
    "merchant_GetById X (pr_MerchantId req) s = (Inr m, s1)" "new_payout X m req s1 = (Inr pd0, s2)"
    "getPayoutDocumentSources X m s2 = (Inr reports, s3)"
    "add_reports X (pd0\<lparr>po_Currency := rr_Currency (hd reports)\<rparr>) reports s3 = (Inr (pd1, dates), s4)"
    "check_payout X m req (round_payout pd1) s4 = (Inr (Inr status), s5)"
    and pd: "\<exists>pf pt sf st. pd = (round_payout pd1)\<lparr>po_Status := status, po_PeriodFrom := Some pf, po_PeriodTo := Some pt,
       po_StringPeriodFrom := sf, po_StringPeriodTo := st\<rparr>"
    and ins: "porepo_Insert X pd (pr_Ip req) payoutChangeSourceMerchant s5 = (Inr (), s6)"
    and link: "royaltyReportSetPayoutDocumentId X (po_SourceId pd) (po_Id pd) (pr_Ip req) (pr_Initiator req) s6 = (Inr (), s7)"
    and tail: "updateMerchantBalance X (merchant_Id m) s7 = (Inr b, s8)" "renderPayoutDocument X pd s8 = (Inr (), t)"
    using created_steps[OF assms(4,5)] by metis
  note fr = creation_frames[OF st ins] and src = sources_result[OF st(3)]
  obtain oid where oid: "x_oid_from_hex X (merchant_Id m) = Inr oid"
    and dec: "list_all2 (\<lambda>d r. rr_from_mgo X d = Inr r) (sort_key mgorr_PeriodFrom
      (filter (eligible_report oid (x_merchant_payout_currency X m)) (w_reports s))) reports"
    using nonpayout_result[of X "merchant_Id m" "x_merchant_payout_currency X m" s2 reports s3] src fr(1) by auto
  let ?E = "filter (eligible_report oid (x_merchant_payout_currency X m)) (w_reports s)"
  have fm: "find (\<lambda>m. merchant_Id m = pr_MerchantId req) (w_merchants s) = Some m"
    using st(1) by (auto simp: merchant_GetById_def find_one_def success calling_def rpc_success gets_def split: option.splits)
  have ne: "?E \<noteq> []" using dec src by (auto simp: list_all2_iff)
  have ids: "map rr_Id reports = map (\<lambda>d. x_oid_hex X (mgorr_Id d)) (sort_key mgorr_PeriodFrom ?E)"
    using dec by (induction rule: list_all2_induct) (auto dest: decoded_report)
  have "po_SourceId pd = po_SourceId pd0 @ map rr_Id reports" "po_Id pd = po_Id pd0"
    using pd add_reports_fold[OF st(4)] by (auto simp: fold_report_fields)
  then have sid: "po_SourceId pd = map (\<lambda>d. x_oid_hex X (mgorr_Id d)) (sort_key mgorr_PeriodFrom ?E)"
    and pid0: "po_Id pd = po_Id pd0" using new_payout_fields(1)[OF st(2)] ids by auto
  obtain n where "po_Id pd0 = x_oid_hex X (x_new_oid X n)" using new_payout_fields(4)[OF st(2)] by blast
  then have pid: "po_Id pd \<noteq> []" unfolding pid0 using codecs_hex(2)[OF assms(1)] by simp
  have stat: "mgorr_Status d = RRAccepted" if d: "d \<in> set ?E" for d
  proof -
    obtain r where "r \<in> set reports" "rr_from_mgo X d = Inr r"
      using list_all2_member[OF dec, of d] d by auto
    then have "mgorr_Status d \<notin> {RRPending, RRDispute}" using src by (auto dest!: decoded_report)
    then show ?thesis using d by (auto simp: eligible_report_def)
  qed
  have canon: "\<forall>i\<in>set (po_SourceId pd). canon_id X i" unfolding sid by (auto simp: canon_hex[OF assms(1)])
  have "reports_marked X RRWaitForPayment (po_Id pd) (po_SourceId pd) s6 s7"
    using reports_set_payout[OF assms(1) canon fr(5)[OF assms(2)] _ link] assms(3) fr(2) by simp
  then have mk: "\<forall>d\<in>set (w_reports t). if x_oid_hex X (mgorr_Id d) \<in> set (po_SourceId pd)
      then mgorr_Status d = RRWaitForPayment \<and> mgorr_PayoutDocumentId d = po_Id pd else d \<in> set (w_reports s)"
    unfolding reports_marked_def creation_end[OF tail] fr(2) by simp
  have set: "set (po_SourceId pd) = (\<lambda>d. x_oid_hex X (mgorr_Id d)) ` set ?E" unfolding sid by simp
  have none: "\<not> eligible_report oid (x_merchant_payout_currency X m) d" if d: "d \<in> set (w_reports t)" for d
  proof (cases "x_oid_hex X (mgorr_Id d) \<in> set (po_SourceId pd)")
    case True then show ?thesis using mk d pid by (auto simp: eligible_report_def)
  next
    case False then show ?thesis using mk d unfolding set by auto
  qed
  show ?thesis using fm oid ne set stat none mk
    by (intro exI[of _ m] exI[of _ oid] exI[of _ "x_merchant_payout_currency X m"]) auto
qed

text \<open>C12: The amount of a payout: it is the rounded sum of what its reports leave after VAT, corrections and
  reserves; it is positive and not below the minimum of the tariff for the payout currency, and it does not
  exceed the difference of debit and credit in the balance of the merchant. The document is skipped
  exactly when the amount is below the merchant's own minimum, and pending otherwise.\<close>

theorem payout_within_balance:
  assumes "CreatePayoutDocument X req s = (Inr rsp, t)" and "rspItem rsp = Some pd"
  shows "\<exists>m tariff minimal balance u v reports. find (\<lambda>m. merchant_Id m = pr_MerchantId req) (w_merchants s) = Some m \<and>
    merchant_Tariff m = Some tariff \<and> tariff_MinimalPayout tariff (x_merchant_payout_currency X m) = Some minimal \<and>
    getMerchantBalance X (merchant_Id m) u = (Inr balance, v) \<and> w_balances u = w_balances s \<and>
    map rr_Id reports = po_SourceId pd \<and>
    po_Balance pd = round_cents (float_sum (map (\<lambda>r. rrt_FinalPayoutAmount (the_totals r) - rrt_RollingReserveAmount (the_totals r)) reports)) \<and>
    po_TotalFees pd = round_cents (float_sum (map (\<lambda>r. rrt_PayoutAmount (the_totals r)) reports)) \<and>
    \<not> fle (po_Balance pd) 0 \<and> \<not> flt (po_Balance pd) minimal \<and>
    \<not> flt (x_to_precise X (balance_Debit balance - balance_Credit balance)) (po_Balance pd) \<and>
    po_Status pd = (if flt (po_Balance pd) (merchant_MinPayoutAmount m) then PayoutDocumentStatusSkip else PayoutDocumentStatusPending)"
proof -
  obtain m s1 pd0 s2 reports s3 pd1 dates s4 status s5 s6 where st:
    "merchant_GetById X (pr_MerchantId req) s = (Inr m, s1)" "new_payout X m req s1 = (Inr pd0, s2)"
    "getPayoutDocumentSources X m s2 = (Inr reports, s3)"
    "add_reports X (pd0\<lparr>po_Currency := rr_Currency (hd reports)\<rparr>) reports s3 = (Inr (pd1, dates), s4)"
    "check_payout X m req (round_payout pd1) s4 = (Inr (Inr status), s5)"
    and pd: "\<exists>pf pt sf st. pd = (round_payout pd1)\<lparr>po_Status := status, po_PeriodFrom := Some pf, po_PeriodTo := Some pt,
       po_StringPeriodFrom := sf, po_StringPeriodTo := st\<rparr>"
    and ins: "porepo_Insert X pd (pr_Ip req) payoutChangeSourceMerchant s5 = (Inr (), s6)"
    using created_steps[OF assms] by metis
  have fm: "find (\<lambda>m. merchant_Id m = pr_MerchantId req) (w_merchants s) = Some m"
    using st(1) by (auto simp: merchant_GetById_def find_one_def success calling_def rpc_success gets_def split: option.splits)
  have f: "pd1 = foldl add_report (pd0\<lparr>po_Currency := rr_Currency (hd reports)\<rparr>) reports" using add_reports_fold[OF st(4)] by simp
  note p0 = new_payout_fields[OF st(2)]
  obtain tariff minimal balance where c: "merchant_Tariff m = Some tariff"
    "tariff_MinimalPayout tariff (x_merchant_payout_currency X m) = Some minimal"
    "getMerchantBalance X (merchant_Id m) s4 = (Inr balance, s5)"
    "\<not> flt (po_Balance (round_payout pd1)) minimal" "\<not> fle (po_Balance (round_payout pd1)) 0"
    "\<not> flt (x_to_precise X (balance_Debit balance - balance_Credit balance)) (po_Balance (round_payout pd1))"
    "status = (if flt (po_Balance (round_payout pd1)) (merchant_MinPayoutAmount m) then PayoutDocumentStatusSkip
       else po_Status (round_payout pd1))"
    using check_payout_result[OF st(5)] by auto
  have amounts: "po_Balance pd = po_Balance (round_payout pd1)" "po_TotalFees pd = po_TotalFees (round_payout pd1)"
    "po_SourceId pd = po_SourceId (round_payout pd1)" "po_Status pd = status" using pd by auto
  show ?thesis
    using c fm creation_frames(4)[OF st ins] p0 unfolding amounts
    by (intro exI[of _ m] exI[of _ tariff] exI[of _ minimal] exI[of _ balance] exI[of _ s4] exI[of _ s5] exI[of _ reports])
      (simp add: f fold_report_fields float_sum_def)
qed

end
