(* ===== verification/PayoutSamples.thy ===== *)
theory PayoutSamples
  imports PayoutCreation
begin

text \<open>
  One payout at the sample environment: the accepted report of the sample merchant, the balance that
  covers it, and the runs that turn them into a payout document and settle it.
\<close>

section \<open>The documents\<close>

definition sample_payout_request :: payout_request where
  "sample_payout_request = \<lparr>pr_MerchantId = sample_hex 2, pr_Description = [], pr_Ip = ''0.0.0.0'',
     pr_Initiator = ''admin'', pr_IsAutoGeneration = False\<rparr>"

definition sample_balance :: mgo_merchant_balance where
  "sample_balance = \<lparr>mgobalance_Id = 9, mgobalance_MerchantId = 2, mgobalance_Currency = ''EUR'',
     mgobalance_Debit = Fin 100, mgobalance_Credit = 0, mgobalance_RollingReserve = 0, mgobalance_Total = Fin 100,
     mgobalance_CreatedAt = 0\<rparr>"

definition payout_world :: world where
  "payout_world = sample_world\<lparr>w_tick := 1, w_balances := [sample_balance]\<rparr>"

definition sample_totals :: rr_totals where
  "sample_totals = no_totals\<lparr>rrt_PayoutAmount := Fin 100, rrt_FinalPayoutAmount := Fin 100\<rparr>"

text \<open>The report as the repository decodes it, with a status and a payout.\<close>

definition sample_rr :: "rr_status \<Rightarrow> string \<Rightarrow> royalty_report" where
  "sample_rr st p = \<lparr>rr_Id = sample_hex 4, rr_MerchantId = sample_hex 2, rr_CreatedAt = Some (Timestamp 0 0),
     rr_UpdatedAt = Some (Timestamp 0 0), rr_PayoutDate = Some (Timestamp (-62135596800) 0), rr_Status = st,
     rr_PeriodFrom = Some (Timestamp 0 0), rr_PeriodTo = Some (Timestamp 0 5),
     rr_AcceptExpireAt = Some (Timestamp 0 9), rr_AcceptedAt = Some (Timestamp 0 0), rr_Totals = Some sample_totals,
     rr_Currency = ''EUR'', rr_Summary = None, rr_DisputeReason = [],
     rr_DisputeStartedAt = Some (Timestamp (-62135596800) 0),
     rr_DisputeClosedAt = Some (Timestamp (-62135596800) 0), rr_IsAutoAccepted = False, rr_PayoutDocumentId = p,
     rr_OperatingCompanyId = ''oc'', rr_StringPeriodFrom = ''f'', rr_StringPeriodTo = ''t''\<rparr>"

text \<open>The payout that the run creates, and its document.\<close>

definition sample_payout :: "string \<Rightarrow> payout" where
  "sample_payout st = \<lparr>po_Id = sample_hex 105, po_MerchantId = sample_hex 2, po_SourceId = [sample_hex 4],
     po_TotalFees = Fin 100, po_Balance = Fin 100, po_Currency = ''EUR'', po_PeriodFrom = Some (Timestamp 0 0),
     po_PeriodTo = Some (Timestamp 0 5), po_TotalTransactions = 0, po_Description = [], po_Destination = Some ''b'',
     po_MerchantAgreementNumber = ''a'', po_Company = Some ''c'', po_Status = st, po_Transaction = [],
     po_FailureCode = [], po_FailureMessage = [], po_FailureTransaction = [],
     po_CreatedAt = Some (Timestamp 1006 0), po_UpdatedAt = Some (Timestamp 1007 0),
     po_ArrivalDate = Some (Timestamp 518399 999999999), po_PaidAt = None, po_OperatingCompanyId = ''oc'',
     po_AutoincrementId = 1, po_StringPeriodFrom = ''f'', po_StringPeriodTo = ''t'', po_B2BVatBase = Fin 0,
     po_B2BVatRate = Fin 0, po_B2BVatAmount = Fin 0, po_FeesExcludingVat = Fin 100\<rparr>"

definition sample_payout_doc :: "string \<Rightarrow> mgo_payout" where
  "sample_payout_doc st = \<lparr>mgopo_Id = 105, mgopo_MerchantId = 2, mgopo_SourceId = [sample_hex 4],
     mgopo_TotalFees = Fin 100, mgopo_Balance = Fin 100, mgopo_Currency = ''EUR'', mgopo_PeriodFrom = 0,
     mgopo_PeriodTo = 5, mgopo_TotalTransactions = 0, mgopo_Description = [], mgopo_Destination = Some ''b'',
     mgopo_MerchantAgreementNumber = ''a'', mgopo_Company = Some ''c'', mgopo_Status = st, mgopo_Transaction = [],
     mgopo_FailureCode = [], mgopo_FailureMessage = [], mgopo_FailureTransaction = [],
     mgopo_CreatedAt = 1006000000000, mgopo_UpdatedAt = 1007000000000, mgopo_ArrivalDate = 518399999999999,
     mgopo_PaidAt = time_zero, mgopo_OperatingCompanyId = ''oc'',
     mgopo_AutoincrementId = 1, mgopo_StringPeriodFrom = ''f'', mgopo_StringPeriodTo = ''t'', mgopo_B2BVatBase = Fin 0,
     mgopo_B2BVatRate = Fin 0, mgopo_B2BVatAmount = Fin 0, mgopo_FeesExcludingVat = Fin 100\<rparr>"

section \<open>Running steps\<close>

text \<open>Only the next step is simplified; its continuation waits.\<close>

lemma step_congs: "m = m' \<Longrightarrow> bind m k = bind m' k" "m = m' \<Longrightarrow> s = s' \<Longrightarrow> wp m Q s = wp m' Q s'"
  by simp_all

lemma wp_run: "wp m (\<lambda>r t. P t \<and> r = x) s \<Longrightarrow> \<exists>t. m s = (x, t) \<and> P t"
  by (auto simp: wp_def split: prod.splits)


lemma payout_world_fields [simp]:
  "w_payouts payout_world = []" "w_balances payout_world = [sample_balance]" "w_merchants payout_world = [sample_merchant]"
  "w_reports payout_world = [sample_report RRAccepted]" "w_tick payout_world = 1" "w_cache payout_world = Map.empty"
  "w_autoincrement payout_world = 0" "w_payout_changes payout_world = []" "w_report_changes payout_world = []"
  by (simp_all add: payout_world_def sample_world_def empty_world_def)

lemma sample_hexes [simp]: "sample_from_hex (sample_hex n) = Inr n" "sample_hex n \<noteq> []" "[] \<noteq> sample_hex n"
  by (simp_all add: sample_hex_roundtrip) (simp_all add: sample_hex_def)

lemma sample_tools [simp]:
  "x_payout_hash sample_ext p = Inr ''h''" "x_report_hash sample_ext r = Inr ''h''" "x_to_precise sample_ext y = y"
  "x_end_of_day sample_ext t = t - t mod 86400000000000 + 86399999999999"
  by (simp_all add: sample_ext_def)

lemma sample_cents [simp]: "round_cents (Fin 100) = Fin 100" "round_cents (Fin 0) = Fin 0"
proof -
  have "\<lfloor>20001 / 2 :: rat\<rfloor> = 10000" "\<lfloor>1 / 2 :: rat\<rfloor> = 0" by (simp_all add: floor_eq_iff)
  then show "round_cents (Fin 100) = Fin 100" "round_cents (Fin 0) = Fin 0"
    by (simp_all add: round_cents_def go_round_def)
qed

lemma sample_minus [simp]: "Fin 100 - Fin 0 = Fin 100"
  by (simp add: minus_float64_def)

lemma sample_merchant_terms:
  "merchant_ManualPayoutsEnabled sample_merchant" "merchant_MinPayoutAmount sample_merchant = 0"
  "merchant_Tariff sample_merchant = Some \<lparr>tariff_MinimalPayout = [''EUR'' \<mapsto> 0]\<rparr>"
  "merchant_Banking sample_merchant = Some ''b''" "merchant_AgreementNumber sample_merchant = ''a''"
  "merchant_Company sample_merchant = Some ''c''" "merchant_OperatingCompanyId sample_merchant = ''oc''"
  by (simp_all add: sample_merchant_def)

lemma sample_report_fields [simp]:
  "mgorr_Id (sample_report st) = 4" "mgorr_MerchantId (sample_report st) = 2" "mgorr_Currency (sample_report st) = ''EUR''"
  "mgorr_Status (sample_report st) = st" "mgorr_PayoutDocumentId (sample_report st) = []"
  "mgorr_PeriodFrom (sample_report st) = 0"
  by (simp_all add: sample_report_def)

lemma sample_rr_fields [simp]:
  "rr_Id (sample_rr st p) = sample_hex 4" "rr_Currency (sample_rr st p) = ''EUR''" "rr_Status (sample_rr st p) = st"
  "rr_PeriodFrom (sample_rr st p) = Some (Timestamp 0 0)" "rr_PeriodTo (sample_rr st p) = Some (Timestamp 0 5)"
  "rr_StringPeriodFrom (sample_rr st p) = ''f''" "rr_StringPeriodTo (sample_rr st p) = ''t''"
  "rr_Totals (sample_rr st p) = Some sample_totals"
  "sample_rr st p\<lparr>rr_PayoutDocumentId := q, rr_Status := st'\<rparr> = sample_rr st' q"
  by (simp_all add: sample_rr_def)

lemma sample_totals_fields [simp]:
  "rrt_PayoutAmount sample_totals = Fin 100" "rrt_FinalPayoutAmount sample_totals = Fin 100"
  "rrt_RollingReserveAmount sample_totals = 0" "rrt_TransactionsCount sample_totals = 0"
  "rrt_B2BVatBase sample_totals = 0" "rrt_B2BVatRate sample_totals = 0" "rrt_B2BVatAmount sample_totals = 0"
  by (simp_all add: sample_totals_def no_totals_def)

lemma sample_payout_fields [simp]:
  "po_Id (sample_payout st) = sample_hex 105" "po_MerchantId (sample_payout st) = sample_hex 2"
  "po_SourceId (sample_payout st) = [sample_hex 4]" "po_Status (sample_payout st) = st"
  by (simp_all add: sample_payout_def)

lemma sample_doc_fields [simp]:
  "mgopo_Id (sample_payout_doc st) = 105" "payout_valid (sample_payout_doc st)"
  by (simp_all add: sample_payout_doc_def payout_valid_def ts_valid_def time_zero_def)

text \<open>The cached report and the cached documents lie under different keys.\<close>

lemma sample_keys [simp]:
  "cacheKeyRoyaltyReport i \<noteq> cacheKeyMerchantBalances a c" "cacheKeyRoyaltyReport i \<noteq> cacheKeyPayoutDocument p"
  "cacheKeyRoyaltyReport i \<noteq> cacheKeyPayoutDocumentMerchant p m"
  by (simp_all add: cacheKeyRoyaltyReport_def cacheKeyMerchantBalances_def cacheKeyPayoutDocument_def
      cacheKeyPayoutDocumentMerchant_def)

lemma sample_report_decoded [simp]: "rr_from_mgo sample_ext (sample_report st) = Inr (sample_rr st [])"
  by (simp add: sample_report_def rr_from_mgo_def sample_timestamp_proto_def summary_map_def sample_rr_def time_zero_def
      sample_totals_def)

lemma sample_report_encoded:
  "wp (rr_to_mgo sample_ext (sample_rr st p)) Q s = Q (Inr (sample_report st\<lparr>mgorr_PayoutDocumentId := p\<rparr>)) s"
  by (simp add: sample_report_def rr_to_mgo_def oid_or_new_def time_or_now_def time_or_zero_def summary_map_def
      sample_rr_def time_zero_def sample_totals_def)

lemma sample_payout_encoded: "wp (po_to_mgo sample_ext (sample_payout st)) Q s = Q (Inr (sample_payout_doc st)) s"
  by (simp add: sample_payout_def sample_payout_doc_def po_to_mgo_def oid_or_new_def time_or_now_def time_or_zero_def)

text \<open>What the steps up to the insertion need of the state and keep of it.\<close>

definition payout_ready :: "world \<Rightarrow> bool" where
  "payout_ready s \<longleftrightarrow> w_reports s = [sample_report RRAccepted] \<and> w_balances s = [sample_balance] \<and>
     w_merchants s = [sample_merchant] \<and> w_payouts s = [] \<and> w_payout_changes s = [] \<and> w_report_changes s = [] \<and>
     w_cache s (cacheKeyRoyaltyReport (sample_hex 4)) = None"

lemma payout_ready_changes [simp]:
  "payout_ready (s\<lparr>w_tick := n\<rparr>) = payout_ready s" "payout_ready (w_autoincrement_update f s) = payout_ready s"
  "payout_ready payout_world"
  by (simp_all add: payout_ready_def)

lemma sample_new_payout:
  assumes "payout_ready s" "w_tick s = 2" "w_autoincrement s = 0"
  shows "wp (new_payout sample_ext sample_merchant sample_payout_request) (\<lambda>r t. payout_ready t \<and> r =
    Inr ((sample_payout PayoutDocumentStatusPending)\<lparr>po_SourceId := [], po_TotalFees := 0, po_Balance := 0, po_Currency := [],
       po_PeriodFrom := None, po_PeriodTo := None, po_StringPeriodFrom := [], po_StringPeriodTo := [],
       po_B2BVatBase := 0, po_B2BVatRate := 0, po_B2BVatAmount := 0, po_FeesExcludingVat := 0\<rparr>)) s"
  using assms by (simp add: new_payout_def GatPayoutAutoincrementId_def clock_defs sample_timestamp_proto_def
      payoutArrivalInDays_def second_def sample_payout_def sample_payout_request_def sample_merchant_terms)

lemma sample_sources:
  assumes "payout_ready s"
  shows "wp (getPayoutDocumentSources sample_ext sample_merchant) (\<lambda>r t. payout_ready t \<and> r = Inr [sample_rr RRAccepted []]) s"
  using assms by (simp add: getPayoutDocumentSources_def rrrepo_GetNonPayoutReports_def find_sorted_def reports.wp_find_all)
    (simp add: payout_ready_def reports.wp_find_all)

lemma sample_check:
  assumes "payout_ready s" "po_Balance pd = Fin 100" "po_Status pd = st"
  shows "wp (check_payout sample_ext sample_merchant sample_payout_request pd) (\<lambda>r t. payout_ready t \<and> r = Inr (Inr st)) s"
  using assms by (simp add: check_payout_def sample_merchant_terms zero_float64_def getMerchantBalance_def merchant_GetById_def
      find_one_def balrepo_GetByIdAndCurrency_def cache_get_nil_def wp_cache_get find_first_sorted_def find_sorted_def
      balances.wp_find_all payout_ready_def sample_balance_def balance_of_def balance_from_mgo_def sample_timestamp_proto_def)

text \<open>The insertion, the link, the new balance.\<close>

definition payout_stored :: "world \<Rightarrow> bool" where
  "payout_stored s \<longleftrightarrow> w_balances s = [sample_balance] \<and> w_merchants s = [sample_merchant] \<and>
     w_payouts s = [sample_payout_doc PayoutDocumentStatusPending]"

lemma sample_insert:
  assumes "payout_ready s"
  shows "wp (porepo_Insert sample_ext (sample_payout PayoutDocumentStatusPending) ip src) (\<lambda>r t. r = Inr () \<and> payout_stored t \<and>
     w_reports t = [sample_report RRAccepted] \<and> w_report_changes t = [] \<and> w_cache t (cacheKeyRoyaltyReport (sample_hex 4)) = None) s"
  using assms by (simp add: porepo_Insert_def porepo_updateCaches_def repo_insert_def sample_payout_encoded payout_ready_def
      payouts.wp_insert_one onPayoutDocumentChange_def payout_changes.wp_insert_one clock_defs payout_stored_def)

lemma sample_link:
  assumes "payout_stored s" "w_reports s = [sample_report RRAccepted]" "w_report_changes s = []"
    "w_cache s (cacheKeyRoyaltyReport (sample_hex 4)) = None"
  shows "wp (royaltyReportSetPayoutDocumentId sample_ext [sample_hex 4] (sample_hex 105) ip src) (\<lambda>r t. r = Inr () \<and> payout_stored t) s"
  using assms by (simp add: royaltyReportSetPayoutDocumentId_def check_payout_id_def rrrepo_GetById_def repo_get_def wp_cache_get
      reports.wp_find_one rrrepo_Update_def sample_report_encoded reports.wp_replace_one onRoyaltyReportChange_def
      report_changes.wp_insert_one payout_stored_def clock_defs)

lemma sample_balance_update:
  assumes "payout_stored s"
  shows "wp (updateMerchantBalance sample_ext (sample_hex 2)) (\<lambda>r t. \<exists>b. r = Inr b) s"
proof -
  have "\<exists>b t. updateMerchantBalance sample_ext (sample_hex 2) s = (Inr b, t)"
    by (rule update_balance_returns[OF sample_codecs_ok sample_clock_ok, of _ 2 _ sample_merchant])
      (use assms in \<open>simp_all add: payout_stored_def sample_balance_def\<close>)
  then show ?thesis by (auto simp: wp_def)
qed

text \<open>The whole creation.\<close>

lemma sample_complete:
  "(round_payout (add_report ((sample_payout PayoutDocumentStatusPending)\<lparr>po_SourceId := [], po_TotalFees := 0, po_Balance := 0,
      po_PeriodFrom := None, po_PeriodTo := None, po_StringPeriodFrom := [], po_StringPeriodTo := [],
      po_B2BVatBase := 0, po_B2BVatRate := 0, po_B2BVatAmount := 0, po_FeesExcludingVat := 0, po_Currency := ''EUR''\<rparr>) (sample_rr RRAccepted [])))
    \<lparr>po_Status := PayoutDocumentStatusPending, po_PeriodFrom := Some (Timestamp 0 0), po_PeriodTo := Some (Timestamp 0 5),
     po_StringPeriodFrom := ''f'', po_StringPeriodTo := ''t''\<rparr> = sample_payout PayoutDocumentStatusPending"
  by (simp add: round_payout_def add_report_def the_totals_def Let_def sample_payout_def zero_float64_def)

lemma sample_stored:
  assumes "payout_ready s"
  shows "wp (store_payout sample_ext sample_payout_request sample_merchant (sample_payout PayoutDocumentStatusPending))
    (\<lambda>r t. r = Inr (rsp_ok (sample_payout PayoutDocumentStatusPending))) s"
proof -
  let ?p = "sample_payout PayoutDocumentStatusPending"
  obtain t1 where 1: "porepo_Insert sample_ext ?p (pr_Ip sample_payout_request) payoutChangeSourceMerchant s = (Inr (), t1)"
    "payout_stored t1" "w_reports t1 = [sample_report RRAccepted]" "w_report_changes t1 = []"
    "w_cache t1 (cacheKeyRoyaltyReport (sample_hex 4)) = None"
    using sample_insert[OF assms] by (auto simp: wp_def split: prod.splits)
  obtain t2 where 2: "royaltyReportSetPayoutDocumentId sample_ext [sample_hex 4] (sample_hex 105) (pr_Ip sample_payout_request)
      (pr_Initiator sample_payout_request) t1 = (Inr (), t2)" "payout_stored t2"
    using sample_link[OF 1(2-)] by (auto simp: wp_def split: prod.splits)
  obtain b t3 where 3: "updateMerchantBalance sample_ext (sample_hex 2) t2 = (Inr b, t3)"
    using sample_balance_update[OF 2(2)] by (auto simp: wp_def split: prod.splits)
  show ?thesis unfolding wp_def
    by (simp add: store_payout_def run_go 1(1) 2(1) 3 renderPayoutDocument_def reporterServiceCreateFile_def send_def calling_def)
qed

lemma sample_creation: "\<exists>t. CreatePayoutDocument sample_ext sample_payout_request payout_world =
    (Inr (rsp_ok (sample_payout PayoutDocumentStatusPending)), t)"
proof -
  let ?p = "sample_payout PayoutDocumentStatusPending"
  let ?new = "?p\<lparr>po_SourceId := [], po_TotalFees := 0, po_Balance := 0, po_Currency := [],
       po_PeriodFrom := None, po_PeriodTo := None, po_StringPeriodFrom := [], po_StringPeriodTo := [],
       po_B2BVatBase := 0, po_B2BVatRate := 0, po_B2BVatAmount := 0, po_FeesExcludingVat := 0\<rparr>"
  let ?sum = "round_payout (add_report (?new\<lparr>po_Currency := ''EUR''\<rparr>) (sample_rr RRAccepted []))"
  let ?start = "payout_world\<lparr>w_tick := 2\<rparr>"
  obtain s2 where 2: "new_payout sample_ext sample_merchant sample_payout_request ?start = (Inr ?new, s2)" "payout_ready s2"
    using wp_run[OF sample_new_payout[of ?start]] by auto
  obtain s3 where 3: "getPayoutDocumentSources sample_ext sample_merchant s2 = (Inr [sample_rr RRAccepted []], s3)" "payout_ready s3"
    using wp_run[OF sample_sources[OF 2(2)]] by blast
  have a: "add_reports sample_ext (?new\<lparr>po_Currency := ''EUR''\<rparr>) [sample_rr RRAccepted []] s3 =
      (Inr (add_report (?new\<lparr>po_Currency := ''EUR''\<rparr>) (sample_rr RRAccepted []), [0, 5]), s3)"
    by (simp add: run_go deref_def)
  have c: "po_Balance ?sum = Fin 100" "po_Status ?sum = PayoutDocumentStatusPending"
    by (simp_all add: the_totals_def zero_float64_def)
  obtain s4 where 4: "check_payout sample_ext sample_merchant sample_payout_request ?sum s3 = (Inr (Inr PayoutDocumentStatusPending), s4)"
    "payout_ready s4" using wp_run[OF sample_check[OF 3(2) c]] by blast
  obtain t where 5: "store_payout sample_ext sample_payout_request sample_merchant ?p s4 = (Inr (rsp_ok ?p), t)"
    using sample_stored[OF 4(2)] by (auto simp: wp_def split: prod.splits)
  have "createPayoutDocument sample_ext sample_merchant sample_payout_request ?start = (Inr (rsp_ok ?p), t)"
    unfolding createPayoutDocument_def run_go 2(1) 3(1)
    by (simp add: run_go 3(1) deref_def Let_def 4(1)[simplified] sample_timestamp_proto_def sample_complete 5)
  moreover have "merchant_GetById sample_ext (sample_hex 2) payout_world = (Inr sample_merchant, ?start)"
    by (simp add: merchant_GetById_def find_one_def calling_def run_go)
  ultimately show ?thesis
    by (simp add: CreatePayoutDocument_def run_go sample_payout_request_def sample_merchant_terms)
qed

section \<open>The creation properties at this run\<close>

lemma payout_takes_its_reports_witness:
  "\<exists>t. CreatePayoutDocument sample_ext sample_payout_request payout_world =
     (Inr (rsp_ok (sample_payout PayoutDocumentStatusPending)), t) \<and> filter (eligible_report 2 ''EUR'') (w_reports t) = []"
proof -
  obtain t where t: "CreatePayoutDocument sample_ext sample_payout_request payout_world =
      (Inr (rsp_ok (sample_payout PayoutDocumentStatusPending)), t)" using sample_creation by blast
  have k: "reports_keyed payout_world" "distinct (map mgorr_Id (w_reports payout_world))" by (simp_all add: reports_keyed_def)
  have "pr_MerchantId sample_payout_request = sample_hex 2" by (simp add: sample_payout_request_def)
  then have "\<forall>d\<in>set (w_reports t). \<not> eligible_report 2 ''EUR'' d"
    using payout_takes_its_reports[OF sample_codecs_ok k t, of "sample_payout PayoutDocumentStatusPending"]
    by (auto simp: rsp_ok_def)
  then have "filter (eligible_report 2 ''EUR'') (w_reports t) = []" by (simp add: filter_empty_conv)
  then show ?thesis using t by blast
qed

lemma payout_within_balance_witness:
  "\<exists>t balance u v. CreatePayoutDocument sample_ext sample_payout_request payout_world =
     (Inr (rsp_ok (sample_payout PayoutDocumentStatusPending)), t) \<and>
   getMerchantBalance sample_ext (sample_hex 2) u = (Inr balance, v) \<and> w_balances u = [sample_balance] \<and>
   \<not> flt (balance_Debit balance - balance_Credit balance) (Fin 100)"
proof -
  obtain t where t: "CreatePayoutDocument sample_ext sample_payout_request payout_world =
      (Inr (rsp_ok (sample_payout PayoutDocumentStatusPending)), t)" using sample_creation by blast
  have "pr_MerchantId sample_payout_request = sample_hex 2" "po_Balance (sample_payout PayoutDocumentStatusPending) = Fin 100"
    by (simp_all add: sample_payout_request_def sample_payout_def)
  then show ?thesis
    using payout_within_balance[OF t, of "sample_payout PayoutDocumentStatusPending"] t
    by (auto simp: rsp_ok_def)
qed

end
