(* ===== verification/PayoutLife.thy ===== *)
theory PayoutLife
  imports PayoutSamples
begin

text \<open>
  What becomes of a payout: an administrator settles it, and with it the reports it is made of; and
  what of its life cycle the code guarantees.
\<close>

section \<open>The steps of a settlement\<close>

text \<open>The new status, if the request asks for one.\<close>

definition asks_status :: "payout_update \<Rightarrow> payout \<Rightarrow> bool" where
  "asks_status req old \<longleftrightarrow> pu_Status req \<noteq> [] \<and> po_Status old \<noteq> pu_Status req"

lemma unit_result: "(r :: go_err + unit) = Inr () \<or> (\<exists>e. r = Inl e)"
  by (cases r) auto

lemma settle_success:
  assumes "settle_reports X req old pd s = (Inr a, t)"
  shows "(a \<noteq> None \<longrightarrow> rspItem (the a) = None) \<and> (a = None \<longrightarrow>
     (if pu_Status req \<in> set statusForBecomePaid \<and> po_Status old \<noteq> pu_Status req
      then royaltyReportSetPaid X (po_SourceId pd) (po_Id pd) (pu_Ip req) RoyaltyReportChangeSourceAdmin s = (Inr (), t)
      else if pu_Status req \<in> set statusForBecomeFailed \<and> po_Status old \<notin> set statusForBecomeFailed
      then royaltyReportUnsetPaid X (po_SourceId pd) (pu_Ip req) RoyaltyReportChangeSourceAdmin s = (Inr (), t)
      else t = s))"
proof -
  from assms obtain r where r: "(if pu_Status req \<in> set statusForBecomePaid \<and> po_Status old \<noteq> pu_Status req
           then attempt (royaltyReportSetPaid X (po_SourceId pd) (po_Id pd) (pu_Ip req) RoyaltyReportChangeSourceAdmin)
           else if pu_Status req \<in> set statusForBecomeFailed \<and> po_Status old \<notin> set statusForBecomeFailed
           then attempt (royaltyReportUnsetPaid X (po_SourceId pd) (pu_Ip req) RoyaltyReportChangeSourceAdmin)
           else ret (Inr ())) s = (Inr r, t)"
    and a: "a = (case r of Inl _ \<Rightarrow> Some (rsp_error ResponseStatusSystemError errorPayoutUpdateRoyaltyReports) | Inr _ \<Rightarrow> None)"
    unfolding settle_reports_def success by blast
  show ?thesis using r a unit_result[of r] by (auto simp: success rsp_error_def split: if_splits)
qed

text \<open>An update that returns a document has gone through all steps.\<close>

lemma settled_steps:
  assumes run: "UpdatePayoutDocument X req s = (Inr rsp, t)" and item: "rspItem rsp = Some pd"
  obtains old s1 paidAt s2 s3 where
    "porepo_GetById X (pu_PayoutDocumentId req) s = (Inr old, s1)"
    "asks_status req old \<Longrightarrow> po_Status old = PayoutDocumentStatusPending"
    "(if asks_status req old \<and> pu_Status req = PayoutDocumentStatusPaid then timestamp_now X else ret (Timestamp 0 0)) s1 = (Inr paidAt, s2)"
    "pd = changed_payout req paidAt old"
    "if payout_changes_asked req old
     then \<exists>v. porepo_Update X pd (pu_Ip req) payoutChangeSourceAdmin s2 = (Inr (), v) \<and> settle_reports X req old pd v = (Inr None, s3)
     else s3 = s2"
    "t = s3 \<or> (\<exists>b. updateMerchantBalance X (po_MerchantId pd) s3 = (Inr b, t))"
proof -
  have msg: "message_or_error st e u = (Inr rsp', v) \<Longrightarrow> rspItem rsp' = None" for st e u and rsp' :: "payout response" and v
    by (auto simp: message_or_error_def success rsp_error_def split: if_splits)
  obtain got s1 where 1: "porepo_GetById X (pu_PayoutDocumentId req) s = (got, s1)" by fastforce
  obtain old where old: "got = Inr old"
    using run item 1 by (cases got) (auto simp: UpdatePayoutDocument_def run_go rsp_error_def split: if_splits)
  let ?new = "asks_status req old" and ?m = "if asks_status req old \<and> pu_Status req = PayoutDocumentStatusPaid then timestamp_now X else ret (Timestamp 0 0)"
  have ok: "?new \<Longrightarrow> po_Status old = PayoutDocumentStatusPending"
    using run item 1 old by (auto simp: UpdatePayoutDocument_def run_go asks_status_def Let_def rsp_error_def split: if_splits)
  obtain p s2 where 2: "?m s1 = (p, s2)" by fastforce
  obtain paidAt where p: "p = Inr paidAt" using 2 by (auto simp: timestamp_now_def ret_def split: if_splits)
  let ?pd = "changed_payout req paidAt old"
  let ?stored = "if payout_changes_asked req old
         then bind (attempt (porepo_Update X ?pd (pu_Ip req) payoutChangeSourceAdmin)) (\<lambda>u. case u of
             Inl e \<Rightarrow> bind (message_or_error ResponseStatusSystemError e) (\<lambda>rsp. ret (Some rsp))
           | Inr _ \<Rightarrow> settle_reports X req old ?pd)
         else ret None"
  let ?finish = "\<lambda>answered. case answered of Some rsp \<Rightarrow> ret rsp
       | None \<Rightarrow>
         bind (if ?new \<and> pu_Status req \<in> set statusForUpdateBalance
               then attempt (bind (updateMerchantBalance X (po_MerchantId ?pd)) (\<lambda>_. ret ())) else ret (Inr ())) (\<lambda>b. case b of
           Inl _ \<Rightarrow> ret (rsp_error ResponseStatusSystemError errorPayoutUpdateBalance)
         | Inr _ \<Rightarrow> ret \<lparr>rspStatus = (if payout_changes_asked req old then ResponseStatusOk else ResponseStatusNotModified),
             rspMessage = None, rspItem = Some ?pd\<rparr>)"
  have fail: "\<not> (?new \<and> pu_Status req = PayoutDocumentStatusFailed \<and> (pu_FailureCode req = [] \<or> pu_FailureMessage req = []))"
    using run item 1 old ok by (auto simp: UpdatePayoutDocument_def run_go asks_status_def Let_def rsp_error_def split: if_splits)
  note g = 1[unfolded old] 2[unfolded p]
  have guards: "(?new \<and> po_Status old \<noteq> PayoutDocumentStatusPending) = False"
    "(?new \<and> pu_Status req = PayoutDocumentStatusFailed \<and> (pu_FailureCode req = [] \<or> pu_FailureMessage req = [])) = False"
    using ok fail by blast+
  have "bind ?m (\<lambda>paidAt. let pd = changed_payout req paidAt old; changed = payout_changes_asked req old in
       bind (if changed
             then bind (attempt (porepo_Update X pd (pu_Ip req) payoutChangeSourceAdmin)) (\<lambda>u. case u of
                 Inl e \<Rightarrow> bind (message_or_error ResponseStatusSystemError e) (\<lambda>rsp. ret (Some rsp))
               | Inr _ \<Rightarrow> settle_reports X req old pd)
             else ret None) (\<lambda>answered. case answered of
         Some rsp \<Rightarrow> ret rsp
       | None \<Rightarrow>
         bind (if ?new \<and> pu_Status req \<in> set statusForUpdateBalance
               then attempt (bind (updateMerchantBalance X (po_MerchantId pd)) (\<lambda>_. ret ())) else ret (Inr ())) (\<lambda>b. case b of
           Inl _ \<Rightarrow> ret (rsp_error ResponseStatusSystemError errorPayoutUpdateBalance)
         | Inr _ \<Rightarrow> ret \<lparr>rspStatus = (if changed then ResponseStatusOk else ResponseStatusNotModified),
             rspMessage = None, rspItem = Some pd\<rparr>))) s1 = (Inr rsp, t)"
    using run guards
    unfolding UpdatePayoutDocument_def run_bind[of "attempt (porepo_GetById X (pu_PayoutDocumentId req))"]
      run_attempt[of "porepo_GetById X (pu_PayoutDocumentId req)"] g(1)
    by (simp only: prod.case sum.case Let_def if_False flip: asks_status_def)
  then have "bind ?stored ?finish s2 = (Inr rsp, t)"
    unfolding run_bind[of ?m] g(2) by (simp only: prod.case sum.case Let_def)
  then obtain answered s3 where 3: "?stored s2 = (Inr answered, s3)" and 4: "?finish answered s3 = (Inr rsp, t)"
    unfolding bind_Inr by blast
  have w: "answered = Some a \<Longrightarrow> rspItem a = None" for a
    using 3 msg settle_success[of X req old ?pd _ answered s3]
    by (auto simp: success run_sum rsp_error_def split: if_splits dest!: msg)
  have none: "answered = None" using 4 w item by (cases answered) (auto simp: run_Inr)
  have stored: "if payout_changes_asked req old
     then \<exists>v. porepo_Update X ?pd (pu_Ip req) payoutChangeSourceAdmin s2 = (Inr (), v) \<and> settle_reports X req old ?pd v = (Inr None, s3)
     else s3 = s2"
    using 3 unfolding none by (auto simp: success run_sum split: if_splits)
  have last: "pd = ?pd" "t = s3 \<or> (\<exists>b. updateMerchantBalance X (po_MerchantId ?pd) s3 = (Inr b, t))"
    using 4 item unfolding none by (auto simp: success run_sum rsp_error_def split: if_splits)
  show thesis
    by (rule that[OF g(1) ok g(2) last(1)]) (use stored last in simp_all)
qed

section \<open>Settlement\<close>

lemma settle_statuses:
  "set statusForBecomePaid = {PayoutDocumentStatusPaid}"
  "set statusForBecomeFailed = {PayoutDocumentStatusFailed, PayoutDocumentStatusCanceled, PayoutDocumentStatusSkip}"
  "PayoutDocumentStatusPending \<notin> set statusForBecomeFailed" "PayoutDocumentStatusPaid \<notin> set statusForBecomeFailed" "[] \<notin> set statusForBecomeFailed"
  "[] \<noteq> PayoutDocumentStatusPaid" "PayoutDocumentStatusPaid \<noteq> PayoutDocumentStatusPending"
  by (auto simp: statusForBecomePaid_def statusForBecomeFailed_def payout_statuses)

lemma payout_lookup_runs:
  assumes "porepo_GetById X i s = (Inr old, u)"
  shows "w_reports u = w_reports s" "reports_keyed s \<Longrightarrow> reports_keyed u"
  using quiet_same(5)[OF quiet_payout_queries(1) assms] keepsD[OF keyed_payout(4) _ assms] by simp_all

text \<open>C13: Settling a payout settles its reports: when an update makes a pending payout paid, each of its reports
  becomes paid under it; when it makes it failed, cancelled or skipped, each is accepted again and in no
  payout, so that it can be paid out anew. Every other report, and every report when the update asks for
  none of these, stays as it was; and only a pending payout can get a new status at all.\<close>

theorem settlement_moves_reports:
  assumes "codecs_ok X" and "reports_keyed s" and "distinct (map mgorr_Id (w_reports s))"
    and "porepo_GetById X (pu_PayoutDocumentId req) s = (Inr old, u)" and "\<forall>i\<in>set (po_SourceId old). canon_id X i"
    and "UpdatePayoutDocument X req s = (Inr rsp, t)" and "rspItem rsp = Some pd"
  shows "po_SourceId pd = po_SourceId old \<and> po_Id pd = po_Id old \<and>
    (if pu_Status req = [] \<or> pu_Status req = po_Status old then po_Status pd = po_Status old \<and> w_reports t = w_reports s
     else po_Status old = PayoutDocumentStatusPending \<and> po_Status pd = pu_Status req \<and>
       (if pu_Status req = PayoutDocumentStatusPaid then reports_marked X RRPaid (po_Id pd) (po_SourceId pd) s t
        else if pu_Status req \<in> set statusForBecomeFailed then reports_marked X RRAccepted [] (po_SourceId pd) s t
        else w_reports t = w_reports s))"
proof -
  obtain s1 paidAt s2 s3 where st: "porepo_GetById X (pu_PayoutDocumentId req) s = (Inr old, s1)"
    "asks_status req old \<Longrightarrow> po_Status old = PayoutDocumentStatusPending"
    "(if asks_status req old \<and> pu_Status req = PayoutDocumentStatusPaid then timestamp_now X else ret (Timestamp 0 0)) s1 = (Inr paidAt, s2)"
    "pd = changed_payout req paidAt old"
    "if payout_changes_asked req old
     then \<exists>v. porepo_Update X pd (pu_Ip req) payoutChangeSourceAdmin s2 = (Inr (), v) \<and> settle_reports X req old pd v = (Inr None, s3)
     else s3 = s2"
    and last: "t = s3 \<or> (\<exists>b. updateMerchantBalance X (po_MerchantId pd) s3 = (Inr b, t))"
    using settled_steps[OF assms(6,7)] assms(4) by (smt (verit) Pair_inject sum.inject(2))
  have pd: "po_SourceId pd = po_SourceId old" "po_Id pd = po_Id old"
    "po_Status pd = (if pu_Status req = [] then po_Status old else pu_Status req)"
    by (simp_all add: st(4) changed_payout_def set_if_def Let_def)
  have clock: "w_reports s2 = w_reports s1 \<and> (reports_keyed s1 \<longrightarrow> reports_keyed s2)"
    using st(3) by (auto simp: timestamp_now_def ret_def reports_keyed_def split: if_splits)
  have s2: "w_reports s2 = w_reports s" "reports_keyed s2"
    using clock payout_lookup_runs[OF st(1)] assms(2) by auto
  have t: "w_reports t = w_reports s3"
    using last by (auto intro: keepsD[OF keeps_balance_update[of "\<lambda>u. w_reports u = w_reports s3"]] simp: stable_defs)
  show ?thesis
  proof (cases "payout_changes_asked req old")
    case False
    then have "\<not> asks_status req old" "s3 = s2" using st(5) by (auto simp: payout_changes_asked_def asks_status_def)
    then show ?thesis using pd t s2 by (auto simp: asks_status_def)
  next
    case True
    then obtain v where v: "porepo_Update X pd (pu_Ip req) payoutChangeSourceAdmin s2 = (Inr (), v)"
      and settle: "settle_reports X req old pd v = (Inr None, s3)" using st(5) by auto
    have same: "w_reports v = w_reports s"
      using keepsD[OF keeps_payout_writes(2)[of "\<lambda>u. w_reports u = w_reports s2"] _ v] s2(1) by (simp add: stable_defs)
    have k: "reports_keyed v" by (rule keepsD[OF keyed_payout(5) s2(2) v])
    have d: "distinct (map mgorr_Id (w_reports v))" using assms(3) same by simp
    have canon: "\<forall>i\<in>set (po_SourceId pd). canon_id X i" using assms(5) pd by simp
    have marked: "reports_marked X x p ids v s3 = reports_marked X x p ids s t" for x p ids
      using same t by (simp add: reports_marked_def)
    note S = settle_success[OF settle, simplified]
    show ?thesis
    proof (cases "asks_status req old")
      case False
      then have same_status: "pu_Status req = [] \<or> pu_Status req = po_Status old" by (auto simp: asks_status_def)
      have "[] \<notin> set statusForBecomePaid" by (simp add: settle_statuses(1,6))
      then have "\<not> (pu_Status req \<in> set statusForBecomePaid \<and> po_Status old \<noteq> pu_Status req)"
        "\<not> (pu_Status req \<in> set statusForBecomeFailed \<and> po_Status old \<notin> set statusForBecomeFailed)"
        using same_status settle_statuses(5) by auto
      then have "s3 = v" using S by presburger
      then show ?thesis using same_status pd t same by (cases "pu_Status req = []") simp_all
    next
      case True
      note p = st(2)[OF True] and a = True[unfolded asks_status_def]
      have paid: "reports_marked X RRPaid (po_Id pd) (po_SourceId pd) s t" if "pu_Status req = PayoutDocumentStatusPaid"
      proof -
        have "royaltyReportSetPaid X (po_SourceId pd) (po_Id pd) (pu_Ip req) RoyaltyReportChangeSourceAdmin v = (Inr (), s3)"
          using S that a by (simp add: settle_statuses(1))
        then show ?thesis using reports_set_paid[OF assms(1) canon k d] marked by blast
      qed
      have returned: "reports_marked X RRAccepted [] (po_SourceId pd) s t" if "pu_Status req \<in> set statusForBecomeFailed"
      proof -
        have "pu_Status req \<notin> set statusForBecomePaid" using that settle_statuses(4) unfolding settle_statuses(1) by (metis singletonD)
        then have "royaltyReportUnsetPaid X (po_SourceId pd) (pu_Ip req) RoyaltyReportChangeSourceAdmin v = (Inr (), s3)"
          using S that p settle_statuses(3) by simp
        then show ?thesis using reports_unset_paid[OF assms(1) canon k d] marked by blast
      qed
      have "w_reports t = w_reports s" if "pu_Status req \<noteq> PayoutDocumentStatusPaid" "pu_Status req \<notin> set statusForBecomeFailed"
        using S that t same by (simp add: settle_statuses(1))
      then show ?thesis using pd a p paid returned by auto
    qed
  qed
qed

end
