(* ===== verification/PayoutFinal.thy ===== *)
theory PayoutFinal
  imports PayoutLife
begin

text \<open>
  A settled payout is final: the life of the payout documents as a step relation over the calls that are
  answered, and what becomes of it when a cache write fails.
\<close>

section \<open>The cache of payouts follows the collection\<close>

text \<open>An ObjectID in hex has no colon, so the two kinds of keys of the payouts differ.\<close>

definition hex_plain :: "ext \<Rightarrow> bool" where
  "hex_plain X \<longleftrightarrow> (\<forall>d. CHR '':'' \<notin> set (x_oid_hex X d))"

definition payout_coherent :: "ext \<Rightarrow> world \<Rightarrow> bool" where
  "payout_coherent X s \<longleftrightarrow> distinct (map mgopo_Id (w_payouts s)) \<and>
     (\<forall>i p. w_cache s (cacheKeyPayoutDocument i) = Some (CachedPayout p) \<longrightarrow> CHR '':'' \<notin> set i \<longrightarrow>
        po_Id p = i \<and> (\<exists>d\<in>set (w_payouts s). x_oid_hex X (mgopo_Id d) = i \<and> mgopo_Status d = po_Status p))"

lemma payout_keys_differ:
  assumes "CHR '':'' \<notin> set i"
  shows "cacheKeyPayoutDocument i \<noteq> cacheKeyPayoutDocumentMerchant j m"
proof
  assume "cacheKeyPayoutDocument i = cacheKeyPayoutDocumentMerchant j m"
  then have "i = j @ '':merchant:id:'' @ m" by (simp add: cacheKeyPayoutDocument_def cacheKeyPayoutDocumentMerchant_def)
  then show False using assms by simp
qed

lemma payout_key_inject [simp]: "cacheKeyPayoutDocument i = cacheKeyPayoutDocument j \<longleftrightarrow> i = j"
  by (simp add: cacheKeyPayoutDocument_def)

section \<open>Handlers that leave the payouts alone\<close>

text \<open>
  The interface between the payouts and everything else: a predicate that only depends on the payout
  documents and the cached payouts is kept by every computation that caches no payouts and does not
  write their collection.
\<close>

locale payout_blind =
  fixes I :: "world \<Rightarrow> bool"
  assumes tick: "I s \<Longrightarrow> I (s\<lparr>w_tick := n\<rparr>)"
    and cached: "I s \<Longrightarrow> (\<And>p. v \<noteq> CachedPayout p) \<Longrightarrow> I (w_cache_update (\<lambda>m. m(k \<mapsto> v)) s)"
    and reports: "I s \<Longrightarrow> I (w_reports_update f s)"
    and report_changes: "I s \<Longrightarrow> I (w_report_changes_update g s)"
    and payout_changes: "I s \<Longrightarrow> I (w_payout_changes_update g s)"
    and balances: "I s \<Longrightarrow> I (w_balances_update b s)"
    and sent: "I s \<Longrightarrow> I (w_sent_update h s)"
    and counter: "I s \<Longrightarrow> I (w_autoincrement_update c s)"
begin

lemma stable: "tick_stable I" "sent_stable I"
  using tick sent by (auto simp: tick_stable_def sent_stable_def)

lemma set_other: "(\<And>p. v \<noteq> CachedPayout p) \<Longrightarrow> keeps I (cache_set X k v)"
  unfolding cache_set_def by (intro keeps_bind keeps_external keeps_modify stable cached)

lemma reads:
  "keeps I (find_one X get p)" "keeps I (find_all X get p)" "keeps I (cache_get X sel k)"
  unfolding find_one_def find_all_def cache_get_def by (intro keeps_intros stable)+

lemma sorted_reads: "keeps I (find_sorted X get p k)" "keeps I (find_first_sorted X get p k)"
proof -
  show s: "keeps I (find_sorted X get p k)" unfolding find_sorted_def by (intro keeps_intros reads)
  have "keeps I (case ds of [] \<Rightarrow> throw ErrNoDocuments | d # _ \<Rightarrow> ret d)" for ds :: "'b list"
    by (cases ds) auto
  then show "keeps I (find_first_sorted X get p k)" unfolding find_first_sorted_def by (intro keeps_bind s)
qed

lemma times: "keeps I (time_or_now X t)" "keeps I (time_or_zero X t)" "keeps I (oid_or_new X i)"
  unfolding time_or_now_def time_or_zero_def oid_or_new_def by (intro keeps_intros stable)+

lemma encoders: "keeps I (rr_to_mgo X r)" "keeps I (po_to_mgo X p)" "keeps I (balance_to_mgo X b)"
  unfolding rr_to_mgo_def po_to_mgo_def balance_to_mgo_def by (intro keeps_intros times stable)+

lemma writes:
  "keeps I (replace_one X w_reports_update p d)" "keeps I (insert_one X w_report_changes w_report_changes_update idf e)"
  "keeps I (insert_one X w_payout_changes w_payout_changes_update idf e)" "keeps I (insert_one X w_balances w_balances_update idb b)"
  unfolding replace_one_def insert_one_def
  by (intro keeps_intros keeps_modify stable reports report_changes payout_changes balances; assumption)+

lemma merchant: "keeps I (merchant_GetById X i)"
  unfolding merchant_GetById_def by (intro reads)

lemma report_lookup: "keeps I (rrrepo_GetById X i)"
  unfolding rrrepo_GetById_def repo_get_def by (intro keeps_intros reads set_other) simp_all

lemma report_update: "keeps I (rrrepo_Update X rr ip src)"
  unfolding rrrepo_Update_def onRoyaltyReportChange_def
  by (intro keeps_intros stable encoders writes set_other) simp_all

lemma report_loops:
  "keeps I (royaltyReportSetPaid X ids p ip src)" "keeps I (royaltyReportSetPayoutDocumentId X ids p ip src)"
  "keeps I (royaltyReportUnsetPaid X ids ip src)"
  unfolding royaltyReportSetPaid_def royaltyReportSetPayoutDocumentId_def royaltyReportUnsetPaid_def check_payout_id_def
  by (intro keeps_intros stable report_lookup report_update)+

lemma settling: "keeps I (settle_reports X req old pd)"
  unfolding settle_reports_def by (intro keeps_intros report_loops)

lemma balance_lookup: "keeps I (getMerchantBalance X i)"
  unfolding getMerchantBalance_def balrepo_GetByIdAndCurrency_def cache_get_nil_def
  by (intro keeps_intros merchant reads sorted_reads set_other) simp_all

lemma balance_update: "keeps I (updateMerchantBalance X i)"
  unfolding updateMerchantBalance_def getRollingReserveForBalance_def rrrepo_GetBalanceAmount_def
    porepo_GetBalanceAmount_def porepo_GetLast_def aerepo_GetRollingReserveForBalance_def balrepo_Insert_def repo_insert_def Let_def
  by (intro keeps_intros merchant reads sorted_reads stable encoders writes set_other) simp_all

lemma reviewing: "keeps I (MerchantReviewRoyaltyReport X rv)"
  unfolding MerchantReviewRoyaltyReport_def onRoyaltyReportStatusChanged_def royaltyReportChangedEmail_def
    reporterServiceCreateFile_def message_or_error_def Let_def
  by (intro keeps_intros stable merchant report_lookup report_update balance_update)

lemma audit: "keeps I (onPayoutDocumentChange X pd ip src)"
  unfolding onPayoutDocumentChange_def by (intro keeps_intros stable writes)

lemma new_document: "keeps I (new_payout X m req)"
  by (rule new_payout_keeps) (intro tick counter; assumption)+

lemma sources: "keeps I (getPayoutDocumentSources X m)"
  unfolding getPayoutDocumentSources_def rrrepo_GetNonPayoutReports_def by (intro keeps_intros sorted_reads)

lemma amount_check: "keeps I (check_payout X m req pd)"
  unfolding check_payout_def Let_def by (intro keeps_intros balance_lookup)

lemma files: "keeps I (renderPayoutDocument X pd)"
  unfolding renderPayoutDocument_def reporterServiceCreateFile_def by (intro keeps_intros stable)

end

interpretation coherent: payout_blind "payout_coherent X" for X
  by unfold_locales (auto simp: payout_coherent_def)

interpretation fixed: payout_blind "\<lambda>s. payout_coherent X s \<and> w_payouts s = ps" for X ps
  by unfold_locales (auto simp: payout_coherent_def)

section \<open>Steps on a payout\<close>

lemma caches_success:
  assumes "porepo_updateCaches X pd s = (Inr (), t)"
  shows "w_payouts t = w_payouts s \<and> w_cache t = (w_cache s)(cacheKeyPayoutDocument (po_Id pd) \<mapsto> CachedPayout pd,
    cacheKeyPayoutDocumentMerchant (po_Id pd) (po_MerchantId pd) \<mapsto> CachedPayout pd)"
  using assms by (auto simp: porepo_updateCaches_def cache_set_def success calling_def rpc_success modify_def split: option.splits)

text \<open>The documents under which the cached payouts are coherent may change as long as the cached status follows.\<close>

lemma coherent_caches:
  assumes "payout_coherent X s" and "porepo_updateCaches X pd s = (Inr (), t)"
    and "d \<in> set (w_payouts s)" "x_oid_hex X (mgopo_Id d) = po_Id pd" "mgopo_Status d = po_Status pd"
  shows "payout_coherent X t"
  using assms caches_success[OF assms(2)] payout_keys_differ unfolding payout_coherent_def
  by (auto split: if_splits)

lemma po_from_mgo_fields: "po_from_mgo X d = Inr p \<Longrightarrow> po_Id p = x_oid_hex X (mgopo_Id d) \<and> po_Status p = mgopo_Status d"
  by (auto simp: po_from_mgo_def bind_err_eq_Inr)

lemma po_to_mgo_fields:
  "po_to_mgo X p s = (Inr m, t) \<Longrightarrow> mgopo_Status m = po_Status p \<and> (po_Id p \<noteq> [] \<longrightarrow> x_oid_from_hex X (po_Id p) = Inr (mgopo_Id m))"
  unfolding po_to_mgo_def success oid_or_new_def by (auto simp: success)

lemma lookup_success:
  assumes "codecs_ok X" "hex_plain X" "payout_coherent X s" "canon_id X i" and run: "porepo_GetById X i s = (Inr p, t)"
  shows "po_Id p = i \<and> payout_coherent X t \<and> w_payouts t = w_payouts s \<and>
    (\<exists>d\<in>set (w_payouts s). x_oid_hex X (mgopo_Id d) = i \<and> mgopo_Status d = po_Status p)"
proof -
  obtain oid where oid: "x_oid_from_hex X i = Inr oid" "x_oid_hex X oid = i" using assms(4) by (rule canon_idE)
  have plain: "CHR '':'' \<notin> set i" using assms(2) oid(2) unfolding hex_plain_def by blast
  obtain c u where c: "cache_get X as_payout (cacheKeyPayoutDocument i) s = (c, u)" by fastforce
  have u: "payout_coherent X u" by (rule keepsD[OF coherent.reads(3) assms(3) c])
  have same: "w_payouts u = w_payouts s" by (rule quiet_same(6)[OF quiet_store(3) c])
  show ?thesis
  proof (cases c)
    case (Inr q)
    then have "q = p" "t = u" using run c by (auto simp: porepo_GetById_def run_go)
    moreover have "w_cache s (cacheKeyPayoutDocument i) = Some (CachedPayout q)"
      using c Inr by (auto simp: cache_get_def success calling_def rpc_success gets_def elim!: as_payout.elims split: option.splits)
    ultimately show ?thesis using assms(3) plain u same by (auto simp: payout_coherent_def)
  next
    case (Inl e)
    then obtain v where g: "repo_get X w_payouts mgopo_Id (po_from_mgo X) i u = (Inr p, v)"
      and w: "porepo_updateCaches X p v = (Inr (), t)"
      using run c by (auto simp: porepo_GetById_def run_go success split: prod.splits sum.splits)
    obtain d where d: "find (\<lambda>m. mgopo_Id m = oid) (w_payouts u) = Some d" "po_from_mgo X d = Inr p"
      and v: "w_payouts v = w_payouts u" "payout_coherent X v"
      using g oid(1) u by (auto simp: repo_get_def success find_one_def calling_def rpc_success gets_def
          intro: coherent.tick split: option.splits)
    note f = find_SomeD[OF d(1)] po_from_mgo_fields[OF d(2)]
    have "payout_coherent X t" by (rule coherent_caches[OF v(2) w, of d]) (use f v in auto)
    then show ?thesis using f caches_success[OF w] v same oid(2) by auto
  qed
qed

text \<open>A stored update: one document is replaced, the caches follow, and all others keep their status.\<close>

lemma update_success:
  assumes "codecs_ok X" "hex_plain X" "payout_coherent X s" "canon_id X (po_Id p)"
    and "d \<in> set (w_payouts s)" "x_oid_hex X (mgopo_Id d) = po_Id p"
    and run: "porepo_Update X p ip src s = (Inr (), t)"
  shows "payout_coherent X t \<and> map mgopo_Id (w_payouts t) = map mgopo_Id (w_payouts s) \<and>
    (\<forall>e\<in>set (w_payouts t). if mgopo_Id e = mgopo_Id d then mgopo_Status e = po_Status p else e \<in> set (w_payouts s))"
proof -
  obtain oid where oid: "x_oid_from_hex X (po_Id p) = Inr oid" "x_oid_hex X oid = po_Id p" "po_Id p \<noteq> []"
    using assms(4) by (rule canon_idE)
  have d: "mgopo_Id d = oid" using assms(6) oid codecs_hex(1)[OF assms(1)] by (metis sum.inject(2))
  obtain m u v w where m: "po_to_mgo X p s = (Inr m, u)"
    and r: "replace_one X w_payouts_update (\<lambda>x. mgopo_Id x = oid) m u = (Inr (), v)"
    and a: "onPayoutDocumentChange X p ip src v = (Inr (), w)" and c: "porepo_updateCaches X p w = (Inr (), t)"
    using run oid(1) unfolding porepo_Update_def repo_update_def by (auto simp: success)
  have u: "payout_coherent X u" "w_payouts u = w_payouts s"
    using keepsD[OF coherent.encoders(2) assms(3) m] quiet_same(6)[OF quiet_encoders(2) m] by simp_all
  have mm: "mgopo_Id m = oid" "mgopo_Status m = po_Status p" using po_to_mgo_fields[OF m] oid by auto
  have v: "v = w_payouts_update (replace_first (\<lambda>x. mgopo_Id x = oid) m) (u\<lparr>w_tick := Suc (w_tick u)\<rparr>)"
    using r by (simp add: replaced_success)
  have dist: "distinct (map mgopo_Id (w_payouts u))" using u(1) by (simp add: payout_coherent_def)
  have repl: "replace_first (\<lambda>x. mgopo_Id x = oid) m (w_payouts u) = map (\<lambda>x. if mgopo_Id x = oid then m else x) (w_payouts u)"
  proof (cases "find (\<lambda>x. mgopo_Id x = oid) (w_payouts u)")
    case None then show ?thesis by (simp add: find_None_iff replace_first_none map_idI)
  next
    case (Some e)
    then show ?thesis using replace_first_unique[OF dist, of "\<lambda>x. mgopo_Id x = oid" oid e "\<lambda>_. m"] by simp
  qed
  have k: "keeps (\<lambda>x. w_payouts x = w_payouts v \<and> w_cache x = w_cache v) (onPayoutDocumentChange X p ip src)"
    unfolding onPayoutDocumentChange_def insert_one_def by (intro keeps_intros keeps_modify) (simp_all add: tick_stable_def)
  have w: "w_payouts w = map (\<lambda>x. if mgopo_Id x = oid then m else x) (w_payouts s)" "w_cache w = w_cache u"
    using keepsD[OF k _ a] v u(2) repl by auto
  have t: "w_payouts t = map (\<lambda>x. if mgopo_Id x = oid then m else x) (w_payouts s)"
    "w_cache t = (w_cache u)(cacheKeyPayoutDocument (po_Id p) \<mapsto> CachedPayout p,
      cacheKeyPayoutDocumentMerchant (po_Id p) (po_MerchantId p) \<mapsto> CachedPayout p)"
    using caches_success[OF c] w by auto
  have ids: "map mgopo_Id (w_payouts t) = map mgopo_Id (w_payouts s)" by (simp add: t(1) mm(1))
  have in_t: "e \<in> set (w_payouts t) \<longleftrightarrow> e = m \<or> (e \<in> set (w_payouts s) \<and> mgopo_Id e \<noteq> oid)" for e
    unfolding t(1) using assms(5) d by (auto simp: image_iff)
  have coh: "po_Id q = i \<and> (\<exists>e\<in>set (w_payouts t). x_oid_hex X (mgopo_Id e) = i \<and> mgopo_Status e = po_Status q)"
    if q: "w_cache t (cacheKeyPayoutDocument i) = Some (CachedPayout q)" and i: "CHR '':'' \<notin> set i" for i q
  proof (cases "i = po_Id p")
    case True
    then have "q = p" using q payout_keys_differ[OF i] unfolding t(2) by simp
    then show ?thesis using True in_t[of m] mm oid(2) by auto
  next
    case False
    then have "w_cache u (cacheKeyPayoutDocument i) = Some (CachedPayout q)"
      using q payout_keys_differ[OF i] unfolding t(2) by simp
    then obtain e where "po_Id q = i" "e \<in> set (w_payouts s)" "x_oid_hex X (mgopo_Id e) = i" "mgopo_Status e = po_Status q"
      using u i unfolding payout_coherent_def by auto
    then show ?thesis using in_t[of e] False oid(2) by auto
  qed
  have "payout_coherent X t" unfolding payout_coherent_def ids using coh assms(3) by (simp add: payout_coherent_def)
  then show ?thesis using ids in_t mm d by auto
qed

lemma insert_success:
  assumes "codecs_ok X" "hex_plain X" "payout_coherent X s" "canon_id X (po_Id p)"
    and run: "porepo_Insert X p ip src s = (Inr (), t)"
  shows "payout_coherent X t \<and> (\<exists>m. w_payouts t = w_payouts s @ [m] \<and> mgopo_Status m = po_Status p)"
proof -
  obtain oid where oid: "x_oid_from_hex X (po_Id p) = Inr oid" "x_oid_hex X oid = po_Id p" "po_Id p \<noteq> []"
    using assms(4) by (rule canon_idE)
  obtain m u v w where m: "po_to_mgo X p s = (Inr m, u)"
    and i: "insert_one X w_payouts w_payouts_update mgopo_Id m u = (Inr (), v)"
    and a: "onPayoutDocumentChange X p ip src v = (Inr (), w)" and c: "porepo_updateCaches X p w = (Inr (), t)"
    using run unfolding porepo_Insert_def repo_insert_def by (auto simp: success)
  have u: "payout_coherent X u" "w_payouts u = w_payouts s"
    using keepsD[OF coherent.encoders(2) assms(3) m] quiet_same(6)[OF quiet_encoders(2) m] by simp_all
  have mm: "mgopo_Id m = oid" "mgopo_Status m = po_Status p" using po_to_mgo_fields[OF m] oid by auto
  have "wp (insert_one X w_payouts w_payouts_update mgopo_Id m) (\<lambda>r t. r = Inr () \<longrightarrow> mgopo_Id m \<notin> mgopo_Id ` set (w_payouts u) \<and>
      w_payouts t = w_payouts u @ [m] \<and> w_cache t = w_cache u) u"
    by (auto simp: payouts.wp_insert_one split: option.split)
  from wpD[OF this i] have v: "mgopo_Id m \<notin> mgopo_Id ` set (w_payouts u)" "w_payouts v = w_payouts u @ [m]" "w_cache v = w_cache u"
    by auto
  have cv: "payout_coherent X v" using u(1) v by (fastforce simp: payout_coherent_def)
  have cw: "payout_coherent X w \<and> w_payouts w = w_payouts v" by (rule keepsD[OF fixed.audit _ a]) (use cv in simp)
  have "payout_coherent X t" by (rule coherent_caches[OF _ c, of m]) (use cw v mm oid in auto)
  then show ?thesis using caches_success[OF c] cw v u mm by auto
qed

section \<open>The life of a payout\<close>

text \<open>The calls that are answered with a document.\<close>

inductive payout_step :: "ext \<Rightarrow> world \<Rightarrow> world \<Rightarrow> bool" for X where
  create: "CreatePayoutDocument X req s = (Inr rsp, t) \<Longrightarrow> rspItem rsp = Some pd \<Longrightarrow> payout_step X s t"
| settle: "UpdatePayoutDocument X upd s = (Inr rsp, t) \<Longrightarrow> rspItem rsp = Some pd \<Longrightarrow>
    canon_id X (pu_PayoutDocumentId upd) \<Longrightarrow> payout_step X s t"
| review: "MerchantReviewRoyaltyReport X rv s = (answer, t) \<Longrightarrow> payout_step X s t"

text \<open>A settled document keeps its status.\<close>

definition payouts_kept :: "world \<Rightarrow> world \<Rightarrow> bool" where
  "payouts_kept s t \<longleftrightarrow> (\<forall>d\<in>set (w_payouts s). \<exists>e\<in>set (w_payouts t). mgopo_Id e = mgopo_Id d \<and>
     (mgopo_Status d \<noteq> PayoutDocumentStatusPending \<longrightarrow> mgopo_Status e = mgopo_Status d))"

lemma payouts_kept_refl: "w_payouts t = w_payouts s \<Longrightarrow> payouts_kept s t"
  by (auto simp: payouts_kept_def)

lemma payouts_kept_trans:
  assumes "payouts_kept s t" and "payouts_kept t u"
  shows "payouts_kept s u"
  unfolding payouts_kept_def
proof
  fix d assume "d \<in> set (w_payouts s)"
  then obtain e where e: "e \<in> set (w_payouts t)" "mgopo_Id e = mgopo_Id d"
    "mgopo_Status d \<noteq> PayoutDocumentStatusPending \<longrightarrow> mgopo_Status e = mgopo_Status d"
    using assms(1) unfolding payouts_kept_def by blast
  then obtain f where "f \<in> set (w_payouts u)" "mgopo_Id f = mgopo_Id e"
    "mgopo_Status e \<noteq> PayoutDocumentStatusPending \<longrightarrow> mgopo_Status f = mgopo_Status e"
    using assms(2) unfolding payouts_kept_def by blast
  then show "\<exists>f\<in>set (w_payouts u). mgopo_Id f = mgopo_Id d \<and>
      (mgopo_Status d \<noteq> PayoutDocumentStatusPending \<longrightarrow> mgopo_Status f = mgopo_Status d)"
    using e by (intro bexI[of _ f]) auto
qed

lemma settle_step:
  assumes X: "codecs_ok X" "hex_plain X" and s: "payout_coherent X s" and c: "canon_id X (pu_PayoutDocumentId req)"
    and run: "UpdatePayoutDocument X req s = (Inr rsp, t)" and item: "rspItem rsp = Some pd"
  shows "payout_coherent X t \<and> payouts_kept s t"
proof -
  obtain old s1 paidAt s2 s3 where st: "porepo_GetById X (pu_PayoutDocumentId req) s = (Inr old, s1)"
    "asks_status req old \<Longrightarrow> po_Status old = PayoutDocumentStatusPending"
    "(if asks_status req old \<and> pu_Status req = PayoutDocumentStatusPaid then timestamp_now X else ret (Timestamp 0 0)) s1 = (Inr paidAt, s2)"
    "pd = changed_payout req paidAt old"
    "if payout_changes_asked req old
     then \<exists>v. porepo_Update X pd (pu_Ip req) payoutChangeSourceAdmin s2 = (Inr (), v) \<and> settle_reports X req old pd v = (Inr None, s3)
     else s3 = s2"
    and last: "t = s3 \<or> (\<exists>b. updateMerchantBalance X (po_MerchantId pd) s3 = (Inr b, t))"
    using settled_steps[OF run item] by metis
  obtain d where l: "po_Id old = pu_PayoutDocumentId req" "payout_coherent X s1" "w_payouts s1 = w_payouts s"
    and d: "d \<in> set (w_payouts s)" "x_oid_hex X (mgopo_Id d) = po_Id old" "mgopo_Status d = po_Status old"
    using lookup_success[OF X s c st(1)] by auto
  have pd: "po_Id pd = po_Id old" "\<not> asks_status req old \<Longrightarrow> po_Status pd = po_Status old"
    by (auto simp: st(4) changed_payout_def set_if_def Let_def asks_status_def)
  have s2: "payout_coherent X s2" "w_payouts s2 = w_payouts s"
    using st(3) l by (auto simp: timestamp_now_def ret_def intro: coherent.tick split: if_splits)
  have s3: "payout_coherent X s3 \<and> payouts_kept s s3"
  proof (cases "payout_changes_asked req old")
    case False then show ?thesis using st(5) s2 by (simp add: payouts_kept_refl)
  next
    case True
    then obtain v where v: "porepo_Update X pd (pu_Ip req) payoutChangeSourceAdmin s2 = (Inr (), v)"
      and r: "settle_reports X req old pd v = (Inr None, s3)" using st(5) by auto
    note u = update_success[OF X s2(1) _ _ _ v, of d, unfolded s2(2) pd(1), OF _ d(1,2)]
    have 3: "payout_coherent X s3 \<and> w_payouts s3 = w_payouts v"
      by (rule keepsD[OF fixed.settling _ r]) (use u c l(1) in simp)
    have dist: "x = y" if "x \<in> set (w_payouts s)" "y \<in> set (w_payouts s)" "mgopo_Id x = mgopo_Id y" for x y
      using s that by (auto simp: payout_coherent_def distinct_map dest: inj_onD)
    have v: "map mgopo_Id (w_payouts v) = map mgopo_Id (w_payouts s)"
      "e \<in> set (w_payouts v) \<Longrightarrow> if mgopo_Id e = mgopo_Id d then mgopo_Status e = po_Status pd else e \<in> set (w_payouts s)" for e
      using u c l(1) by auto
    have "payouts_kept s v" unfolding payouts_kept_def
    proof
      fix x assume x: "x \<in> set (w_payouts s)"
      then obtain e where e: "e \<in> set (w_payouts v)" "mgopo_Id e = mgopo_Id x"
        using v(1) by (metis (no_types, lifting) imageE image_eqI set_map)
      have "mgopo_Status e = mgopo_Status x" if "mgopo_Status x \<noteq> PayoutDocumentStatusPending"
      proof (cases "mgopo_Id x = mgopo_Id d")
        case True
        then have "x = d" using dist x d(1) by blast
        then show ?thesis using v(2)[OF e(1)] e(2) that st(2) pd(2) d(3) True by auto
      next
        case False
        then have "e \<in> set (w_payouts s)" using v(2)[OF e(1)] e(2) by simp
        then have "x = e" using dist[OF x] e(2) by simp
        then show ?thesis by simp
      qed
      then show "\<exists>e\<in>set (w_payouts v). mgopo_Id e = mgopo_Id x \<and>
          (mgopo_Status x \<noteq> PayoutDocumentStatusPending \<longrightarrow> mgopo_Status e = mgopo_Status x)"
        using e by blast
    qed
    then show ?thesis using 3 payouts_kept_refl payouts_kept_trans by metis
  qed
  then show ?thesis using last keepsD[OF fixed.balance_update[of X "w_payouts s3"]] payouts_kept_refl payouts_kept_trans
    by blast
qed

lemma create_step:
  assumes X: "codecs_ok X" "hex_plain X" and s: "payout_coherent X s"
    and run: "CreatePayoutDocument X req s = (Inr rsp, t)" and item: "rspItem rsp = Some pd"
  shows "payout_coherent X t \<and> payouts_kept s t"
proof -
  obtain m s1 pd0 s2 reports s3 pd1 dates s4 status s5 s6 s7 s8 b where st:
    "merchant_GetById X (pr_MerchantId req) s = (Inr m, s1)" "new_payout X m req s1 = (Inr pd0, s2)"
    "getPayoutDocumentSources X m s2 = (Inr reports, s3)"
    "add_reports X (pd0\<lparr>po_Currency := rr_Currency (hd reports)\<rparr>) reports s3 = (Inr (pd1, dates), s4)"
    "check_payout X m req (round_payout pd1) s4 = (Inr (Inr status), s5)"
    and pd: "\<exists>pf pt sf st. pd = (round_payout pd1)\<lparr>po_Status := status, po_PeriodFrom := Some pf, po_PeriodTo := Some pt,
       po_StringPeriodFrom := sf, po_StringPeriodTo := st\<rparr>"
    and ins: "porepo_Insert X pd (pr_Ip req) payoutChangeSourceMerchant s5 = (Inr (), s6)"
    and link: "royaltyReportSetPayoutDocumentId X (po_SourceId pd) (po_Id pd) (pr_Ip req) (pr_Initiator req) s6 = (Inr (), s7)"
    and tail: "updateMerchantBalance X (merchant_Id m) s7 = (Inr b, s8)" "renderPayoutDocument X pd s8 = (Inr (), t)"
    using created_steps[OF run item] by metis
  let ?I = "\<lambda>u. payout_coherent X u \<and> w_payouts u = w_payouts s"
  have "?I s1" by (rule keepsD[OF fixed.merchant _ st(1)]) (simp add: s)
  then have "?I s2" by (rule keepsD[OF fixed.new_document _ st(2)])
  then have "?I s3" by (rule keepsD[OF fixed.sources _ st(3)])
  then have "?I s4" using add_reports_fold[OF st(4)] by simp
  then have s5: "?I s5" by (rule keepsD[OF fixed.amount_check _ st(5)])
  obtain n where "po_Id pd0 = x_oid_hex X (x_new_oid X n)" using new_payout_fields(4)[OF st(2)] by blast
  moreover have "po_Id pd = po_Id pd0" using pd add_reports_fold[OF st(4)] by (auto simp: fold_report_fields)
  ultimately have "canon_id X (po_Id pd)" by (simp add: canon_hex[OF X(1)])
  from insert_success[OF X _ this ins] s5 obtain d where
    s6: "payout_coherent X s6" "w_payouts s6 = w_payouts s @ [d]" by auto
  let ?J = "\<lambda>u. payout_coherent X u \<and> w_payouts u = w_payouts s @ [d]"
  have "?J s7" by (rule keepsD[OF fixed.report_loops(2) _ link]) (simp add: s6)
  then have "?J s8" by (rule keepsD[OF fixed.balance_update _ tail(1)])
  then have "?J t" by (rule keepsD[OF fixed.files _ tail(2)])
  then show ?thesis by (auto simp: payouts_kept_def)
qed

text \<open>C14: A settled payout is final: along any sequence of payouts created, settlements answered with the document
  and reviews of reports, the cached payouts follow the stored ones, no payout disappears, and a payout that
  is paid, failed, cancelled or skipped keeps this status for ever.\<close>

theorem settled_payout_is_final:
  assumes "codecs_ok X" and "hex_plain X" and "payout_coherent X s" and "(payout_step X)\<^sup>*\<^sup>* s t"
    and "d \<in> set (w_payouts s)" and "mgopo_Status d \<noteq> PayoutDocumentStatusPending"
  shows "payout_coherent X t \<and> (\<exists>e\<in>set (w_payouts t). mgopo_Id e = mgopo_Id d \<and> mgopo_Status e = mgopo_Status d)"
proof -
  have "payout_coherent X u \<and> payouts_kept s u" if "(payout_step X)\<^sup>*\<^sup>* s u" for u
    using that
  proof (induction rule: rtranclp_induct)
    case base then show ?case using assms(3) by (simp add: payouts_kept_refl)
  next
    case (step u v)
    have "payout_coherent X v \<and> payouts_kept u v" using step.hyps(2)
    proof cases
      case create then show ?thesis using create_step[OF assms(1,2)] step.IH by blast
    next
      case settle then show ?thesis using settle_step[OF assms(1,2)] step.IH by blast
    next
      case review then show ?thesis
        using keepsD[OF fixed.reviewing[of X "w_payouts u"]] step.IH payouts_kept_refl by blast
    qed
    then show ?case using step.IH payouts_kept_trans by blast
  qed
  then show ?thesis using assms(4-6) unfolding payouts_kept_def by metis
qed

end
