(* ===== verification/PayoutSettled.thy ===== *)
theory PayoutSettled
  imports PayoutFinal
begin

text \<open>
  A settlement at the sample environment: of two payouts one is already paid and the other becomes paid,
  and its report with it.
\<close>

section \<open>The world before the settlement\<close>

definition sample_settlement :: payout_update where
  "sample_settlement = \<lparr>pu_PayoutDocumentId = sample_hex 105, pu_Status = PayoutDocumentStatusPaid, pu_Transaction = ''t'',
     pu_FailureCode = [], pu_FailureMessage = [], pu_FailureTransaction = [], pu_Ip = ''0.0.0.0''\<rparr>"

definition sample_paid_doc :: mgo_payout where
  "sample_paid_doc = (sample_payout_doc PayoutDocumentStatusPaid)\<lparr>mgopo_Id := 104, mgopo_SourceId := []\<rparr>"

definition sample_linked :: mgo_royalty_report where
  "sample_linked = (sample_report RRWaitForPayment)\<lparr>mgorr_PayoutDocumentId := sample_hex 105\<rparr>"

definition settle_world :: world where
  "settle_world = payout_world\<lparr>w_payouts := [sample_paid_doc, sample_payout_doc PayoutDocumentStatusPending],
     w_reports := [sample_linked]\<rparr>"

text \<open>The payout as it is decoded and as it is settled.\<close>

definition decoded_payout :: payout where
  "decoded_payout = (sample_payout PayoutDocumentStatusPending)\<lparr>po_PaidAt := Some (Timestamp (-62135596800) 0)\<rparr>"

definition settled_payout :: payout where
  "settled_payout = (sample_payout PayoutDocumentStatusPaid)\<lparr>po_Transaction := ''t'', po_PaidAt := Some (Timestamp 1005 0)\<rparr>"

definition settled_doc :: mgo_payout where
  "settled_doc = (sample_payout_doc PayoutDocumentStatusPaid)\<lparr>mgopo_Transaction := ''t'', mgopo_PaidAt := 1005000000000\<rparr>"

lemma sample_paid_doc_valid [simp]: "payout_valid sample_paid_doc"
  by (simp add: sample_paid_doc_def sample_payout_doc_def payout_valid_def ts_valid_def time_zero_def)

text \<open>What the steps keep, with the status of the stored payout.\<close>

definition settling :: "mgo_payout \<Rightarrow> world \<Rightarrow> bool" where
  "settling d s \<longleftrightarrow> w_payouts s = [sample_paid_doc, d] \<and> w_reports s = [sample_linked] \<and> w_balances s = [sample_balance] \<and>
     w_merchants s = [sample_merchant] \<and> w_report_changes s = [] \<and>
     w_cache s (cacheKeyRoyaltyReport (sample_hex 4)) = None"

lemma settle_world_facts: "settling (sample_payout_doc PayoutDocumentStatusPending) settle_world" "w_tick settle_world = 1"
  "w_payout_changes settle_world = []"
  "w_cache settle_world = Map.empty"
  by (simp_all add: settling_def settle_world_def)

lemma sample_payout_decoded: "po_from_mgo sample_ext (sample_payout_doc PayoutDocumentStatusPending) = Inr decoded_payout"
  by (simp add: po_from_mgo_def sample_payout_doc_def sample_timestamp_proto_def decoded_payout_def sample_payout_def time_zero_def)

lemma sample_paid_doc_id [simp]: "mgopo_Id sample_paid_doc = 104"
  by (simp add: sample_paid_doc_def)

lemma sample_payout_lookup:
  "wp (porepo_GetById sample_ext (sample_hex 105)) (\<lambda>r t. (settling (sample_payout_doc PayoutDocumentStatusPending) t \<and> w_tick t = 5 \<and> w_payout_changes t = []) \<and>
     r = Inr decoded_payout) settle_world"
  using settle_world_facts
  by (simp add: porepo_GetById_def wp_cache_get repo_get_def payouts.wp_find_one settling_def sample_payout_decoded
      porepo_updateCaches_def)

section \<open>The steps\<close>

lemma settled_payout_fields [simp]:
  "po_Id settled_payout = sample_hex 105" "po_MerchantId settled_payout = sample_hex 2"
  "po_SourceId settled_payout = [sample_hex 4]" "mgopo_Id settled_doc = 105" "payout_valid settled_doc"
  by (simp_all add: settled_payout_def settled_doc_def sample_payout_doc_def payout_valid_def ts_valid_def time_zero_def)

lemma settled_payout_encoded: "wp (po_to_mgo sample_ext settled_payout) Q s = Q (Inr settled_doc) s"
  by (simp add: settled_payout_def settled_doc_def sample_payout_def sample_payout_doc_def po_to_mgo_def oid_or_new_def
      time_or_now_def time_or_zero_def)

lemma sample_settled_update:
  assumes "settling (sample_payout_doc PayoutDocumentStatusPending) s" "w_payout_changes s = []"
  shows "wp (porepo_Update sample_ext settled_payout ip src) (\<lambda>r t. settling settled_doc t \<and> r = Inr ()) s"
  using assms by (simp add: porepo_Update_def porepo_updateCaches_def repo_update_def settled_payout_encoded settling_def
      payouts.wp_replace_one onPayoutDocumentChange_def payout_changes.wp_insert_one clock_defs)

definition settled_world :: "world \<Rightarrow> bool" where
  "settled_world s \<longleftrightarrow> w_payouts s = [sample_paid_doc, settled_doc] \<and> w_balances s = [sample_balance] \<and>
     w_merchants s = [sample_merchant]"

lemma sample_linked_decoded [simp]: "rr_from_mgo sample_ext sample_linked = Inr (sample_rr RRWaitForPayment (sample_hex 105))"
  by (simp add: sample_linked_def sample_report_def rr_from_mgo_def sample_timestamp_proto_def summary_map_def sample_rr_def
      time_zero_def sample_totals_def)

lemma sample_paid_report_encoded:
  "wp (rr_to_mgo sample_ext (sample_rr st p\<lparr>rr_PayoutDate := Some (Timestamp (1000 + int n) 0)\<rparr>)) Q s =
     Q (Inr (sample_report st\<lparr>mgorr_PayoutDocumentId := p, mgorr_PayoutDate := (1000 + int n) * 1000000000\<rparr>)) s"
  by (simp add: sample_report_def rr_to_mgo_def oid_or_new_def time_or_now_def time_or_zero_def summary_map_def
      sample_rr_def time_zero_def sample_totals_def)

lemma sample_linked_fields [simp]: "mgorr_Id sample_linked = 4"
  by (simp add: sample_linked_def)

lemma sample_reports_paid:
  assumes "settling settled_doc s"
  shows "wp (royaltyReportSetPaid sample_ext [sample_hex 4] (sample_hex 105) ip src) (\<lambda>r t. settled_world t \<and> r = Inr ()) s"
  using assms by (simp add: royaltyReportSetPaid_def check_payout_id_def rrrepo_GetById_def repo_get_def wp_cache_get
      reports.wp_find_one rrrepo_Update_def sample_paid_report_encoded reports.wp_replace_one onRoyaltyReportChange_def
      report_changes.wp_insert_one settled_world_def settling_def clock_defs)

section \<open>The settlement\<close>

lemma sample_settlement_fields [simp]:
  "pu_PayoutDocumentId sample_settlement = sample_hex 105" "pu_Status sample_settlement = PayoutDocumentStatusPaid"
  "pu_Ip sample_settlement = ''0.0.0.0''"
  by (simp_all add: sample_settlement_def)

lemma decoded_status [simp]: "po_Status decoded_payout = PayoutDocumentStatusPending"
  by (simp add: decoded_payout_def)

lemma sample_change: "changed_payout sample_settlement (Timestamp 1005 0) decoded_payout = settled_payout"
  by (simp add: changed_payout_def sample_settlement_def set_if_def Let_def decoded_payout_def settled_payout_def
      sample_payout_def payout_statuses)

lemma sample_settled: "\<exists>t. UpdatePayoutDocument sample_ext sample_settlement settle_world = (Inr (rsp_ok settled_payout), t)"
proof -
  obtain s1 where 1: "porepo_GetById sample_ext (sample_hex 105) settle_world = (Inr decoded_payout, s1)"
    "settling (sample_payout_doc PayoutDocumentStatusPending) s1" "w_tick s1 = 5" "w_payout_changes s1 = []"
    using wp_run[OF sample_payout_lookup] by blast
  let ?s2 = "s1\<lparr>w_tick := 6\<rparr>"
  have 2: "timestamp_now sample_ext s1 = (Inr (Timestamp 1005 0), ?s2)" using 1(3) by (simp add: timestamp_now_def)
  have "settling (sample_payout_doc PayoutDocumentStatusPending) ?s2" using 1(2) by (simp add: settling_def)
  then obtain s3 where 3: "porepo_Update sample_ext settled_payout ''0.0.0.0'' payoutChangeSourceAdmin ?s2 = (Inr (), s3)"
    "settling settled_doc s3" using wp_run[OF sample_settled_update] 1(4) by fastforce
  obtain s4 where 4: "royaltyReportSetPaid sample_ext [sample_hex 4] (sample_hex 105) ''0.0.0.0'' RoyaltyReportChangeSourceAdmin s3 =
      (Inr (), s4)" "settled_world s4" using wp_run[OF sample_reports_paid[OF 3(2)]] by blast
  obtain b t where 5: "updateMerchantBalance sample_ext (sample_hex 2) s4 = (Inr b, t)"
    using update_balance_returns[OF sample_codecs_ok sample_clock_ok, of "sample_hex 2" 2 s4 sample_merchant] 4(2)
    by (auto simp: settled_world_def sample_balance_def)
  have g: "PayoutDocumentStatusPaid \<noteq> []" "PayoutDocumentStatusPending \<noteq> PayoutDocumentStatusPaid"
    "PayoutDocumentStatusPaid \<noteq> PayoutDocumentStatusFailed" "PayoutDocumentStatusPaid \<in> set statusForBecomePaid"
    "PayoutDocumentStatusPaid \<in> set statusForUpdateBalance"
    by (simp_all add: payout_statuses statusForBecomePaid_def statusForUpdateBalance_def)
  show ?thesis
    by (simp add: UpdatePayoutDocument_def run_go 1(1) 2 sample_change g payout_changes_asked_def 3(1) settle_reports_def 4(1) 5
        rsp_ok_def)
qed

section \<open>The properties of settlements at this run\<close>

lemma settle_world_keyed: "reports_keyed settle_world" "distinct (map mgorr_Id (w_reports settle_world))"
  by (simp_all add: reports_keyed_def settle_world_def)

lemma settlement_moves_reports_witness:
  "\<exists>t. UpdatePayoutDocument sample_ext sample_settlement settle_world = (Inr (rsp_ok settled_payout), t) \<and>
     reports_marked sample_ext RRPaid (sample_hex 105) [sample_hex 4] settle_world t"
proof -
  obtain t where t: "UpdatePayoutDocument sample_ext sample_settlement settle_world = (Inr (rsp_ok settled_payout), t)"
    using sample_settled by blast
  obtain u where u: "porepo_GetById sample_ext (pu_PayoutDocumentId sample_settlement) settle_world = (Inr decoded_payout, u)"
    using wp_run[OF sample_payout_lookup] by auto
  have "\<forall>i\<in>set (po_SourceId decoded_payout). canon_id sample_ext i" "rspItem (rsp_ok settled_payout) = Some settled_payout"
    by (simp_all add: decoded_payout_def sample_canon_id rsp_ok_def)
  then have "reports_marked sample_ext RRPaid (po_Id settled_payout) (po_SourceId settled_payout) settle_world t"
    using settlement_moves_reports[OF sample_codecs_ok settle_world_keyed u _ t, of settled_payout]
    by (auto simp: payout_statuses)
  then show ?thesis using t by auto
qed

lemma sample_hex_plain: "hex_plain sample_ext"
  by (simp add: hex_plain_def sample_hex_def)

lemma settle_world_coherent: "payout_coherent sample_ext settle_world"
  using settle_world_facts by (simp add: payout_coherent_def settling_def)

lemma settled_payout_is_final_witness:
  "\<exists>t. (payout_step sample_ext)\<^sup>*\<^sup>* settle_world t \<and> payout_coherent sample_ext t \<and>
     (\<exists>e\<in>set (w_payouts t). mgopo_Id e = 104 \<and> mgopo_Status e = PayoutDocumentStatusPaid)"
proof -
  obtain t where t: "UpdatePayoutDocument sample_ext sample_settlement settle_world = (Inr (rsp_ok settled_payout), t)"
    using sample_settled by blast
  have "payout_step sample_ext settle_world t"
    by (rule payout_step.settle[OF t]) (simp_all add: rsp_ok_def sample_canon_id)
  then have steps: "(payout_step sample_ext)\<^sup>*\<^sup>* settle_world t" by blast
  have d: "sample_paid_doc \<in> set (w_payouts settle_world)" "mgopo_Status sample_paid_doc = PayoutDocumentStatusPaid"
    by (simp_all add: settle_world_def sample_paid_doc_def sample_payout_doc_def)
  then have "mgopo_Status sample_paid_doc \<noteq> PayoutDocumentStatusPending" by (simp add: payout_statuses)
  from settled_payout_is_final[OF sample_codecs_ok sample_hex_plain settle_world_coherent steps d(1) this]
  show ?thesis using steps d(2) by auto
qed

end
