(* ===== verification/Catalogue.thy ===== *)
theory Catalogue
  imports Effects
begin

text \<open>
  Payment methods: the mapper of internal/repository/models/payment\_method.go, the repository of
  internal/repository/payment\_method.go with its caches, and the settings that a payment is made with
  (getPaymentSettings of internal/service/payment\_method.go). A stored method has a list of settings; the
  message has them in a map whose keys name currency, category code, operating company and brand.
\<close>

section \<open>Keys of settings\<close>

text \<open>\<open>strings.ToUpper\<close> and \<open>strings.ToLower\<close> on the letters of ASCII.\<close>

definition upper_char :: "char \<Rightarrow> char" where
  "upper_char c = (let n = (of_char c :: nat) in if 97 \<le> n \<and> n \<le> 122 then char_of (n - 32) else c)"

definition go_upper :: "string \<Rightarrow> string" where "go_upper = map upper_char"

definition lower_char :: "char \<Rightarrow> char" where
  "lower_char c = (let n = (of_char c :: nat) in if 65 \<le> n \<and> n \<le> 90 then char_of (n + 32) else c)"

definition go_lower :: "string \<Rightarrow> string" where "go_lower = map lower_char"

definition GetPaymentMethodKey :: "string \<Rightarrow> string \<Rightarrow> string \<Rightarrow> string \<Rightarrow> string" where
  "GetPaymentMethodKey currency mccCode operatingCompanyId brand =
     go_upper currency @ '':'' @ mccCode @ '':'' @ go_lower operatingCompanyId @ '':'' @ go_upper brand"

section \<open>The mapper\<close>

text \<open>Of several settings with one key, apart from the brand, the first one met is stored.\<close>

definition param_key :: "pm_params \<Rightarrow> string" where
  "param_key p = GetPaymentMethodKey (pmp_Currency p) (pmp_MccCode p) (pmp_OperatingCompanyId p) []"

fun first_params :: "string list \<Rightarrow> pm_params list \<Rightarrow> pm_params list" where
  "first_params seen [] = []"
| "first_params seen (p # ps) = (if param_key p \<in> set seen then first_params seen ps
     else p # first_params (param_key p # seen) ps)"

definition settings_to_mgo :: "pm_params go_map \<Rightarrow> pm_params list option" where
  "settings_to_mgo m = map_option (\<lambda>kvs. first_params [] (map snd kvs)) m"

text \<open>Each of the settings is found under its key without a brand and under that of each of its brands; later ones win.\<close>

definition settings_from_mgo :: "pm_params list option \<Rightarrow> pm_params go_map" where
  "settings_from_mgo ps = map_option (\<lambda>ps. rev (concat (map (\<lambda>p. (param_key p, p) # map (\<lambda>b.
     (GetPaymentMethodKey (pmp_Currency p) (pmp_MccCode p) (pmp_OperatingCompanyId p) b, p)) (pmp_Brand p)) ps))) ps"

definition method_doc_to_mgo :: "ext \<Rightarrow> payment_method \<Rightarrow> mgo_payment_method io" where
  "method_doc_to_mgo X m =
     bind (oid_or_new X (pm_Id m)) (\<lambda>oid.
     bind (time_or_now X (pm_CreatedAt m)) (\<lambda>createdAt.
     bind (time_or_now X (pm_UpdatedAt m)) (\<lambda>updatedAt.
     bind (if pm_PaymentSystemId m \<noteq> [] then lift (x_oid_from_hex X (pm_PaymentSystemId m)) else ret nil_oid) (\<lambda>systemOid.
     ret \<lparr>pm_Id = oid, pm_Name = pm_Name m, pm_Group = pm_Group m, pm_ExternalId = pm_ExternalId m,
          pm_LimitsCurrency = pm_LimitsCurrency m, pm_MinPaymentAmount = pm_MinPaymentAmount m,
          pm_MaxPaymentAmount = pm_MaxPaymentAmount m, pm_TestSettings = settings_to_mgo (pm_TestSettings m),
          pm_ProductionSettings = settings_to_mgo (pm_ProductionSettings m), pm_IsActive = pm_IsActive m,
          pm_CreatedAt = createdAt, pm_UpdatedAt = updatedAt, pm_PaymentSystemId = systemOid, pm_Type = pm_Type m,
          pm_AccountRegexp = pm_AccountRegexp m, pm_RefundAllowed = pm_RefundAllowed m,
          pm_RecurringAllowed = pm_RecurringAllowed m\<rparr>))))"

definition method_doc_from_mgo :: "ext \<Rightarrow> mgo_payment_method \<Rightarrow> go_err + payment_method" where
  "method_doc_from_mgo X m =
     bind_err (x_timestamp_proto X (pm_CreatedAt m)) (\<lambda>createdAt.
     bind_err (x_timestamp_proto X (pm_UpdatedAt m)) (\<lambda>updatedAt.
     Inr \<lparr>pm_Id = x_oid_hex X (pm_Id m), pm_Name = pm_Name m, pm_Group = pm_Group m, pm_ExternalId = pm_ExternalId m,
          pm_LimitsCurrency = pm_LimitsCurrency m, pm_MinPaymentAmount = pm_MinPaymentAmount m,
          pm_MaxPaymentAmount = pm_MaxPaymentAmount m, pm_TestSettings = settings_from_mgo (pm_TestSettings m),
          pm_ProductionSettings = settings_from_mgo (pm_ProductionSettings m), pm_IsActive = pm_IsActive m,
          pm_CreatedAt = Some createdAt, pm_UpdatedAt = Some updatedAt,
          pm_PaymentSystemId = x_oid_hex X (pm_PaymentSystemId m), pm_Type = pm_Type m,
          pm_AccountRegexp = pm_AccountRegexp m, pm_RefundAllowed = pm_RefundAllowed m,
          pm_RecurringAllowed = pm_RecurringAllowed m\<rparr>))"

section \<open>The repository\<close>

definition cachePaymentMethodId :: "string \<Rightarrow> string" where
  "cachePaymentMethodId i = ''payment_method:id:'' @ i"
definition cachePaymentMethodGroup :: "string \<Rightarrow> string" where
  "cachePaymentMethodGroup groupAlias = ''payment_method:group:'' @ groupAlias"
definition cachePaymentMethodAll :: string where "cachePaymentMethodAll = ''payment_method:all''"
definition cachePaymentMethodModeCurrencyMccCompany :: "string \<Rightarrow> string \<Rightarrow> string \<Rightarrow> string \<Rightarrow> string" where
  "cachePaymentMethodModeCurrencyMccCompany mode currency mcc oc =
     ''payment_method:mode:'' @ mode @ '':currency:'' @ currency @ '':mcc:'' @ mcc @ '':oc:'' @ oc"

definition fieldTestSettings :: string where "fieldTestSettings = ''test_settings''"
definition fieldProductionSettings :: string where "fieldProductionSettings = ''production_settings''"

fun as_payment_method :: "cached \<Rightarrow> payment_method option" where
  "as_payment_method (CachedPaymentMethod m) = Some m"
| "as_payment_method _ = None"

fun as_payment_methods :: "cached \<Rightarrow> payment_method list option" where
  "as_payment_methods (CachedPaymentMethods ms) = Some ms"
| "as_payment_methods _ = None"

definition settings_of :: "('i, 't, 's) payment_method_of \<Rightarrow> bool \<Rightarrow> 's list option" where
  "settings_of m isProduction = (if isProduction then pm_ProductionSettings m else pm_TestSettings m)"

definition settings_field :: "bool \<Rightarrow> string" where
  "settings_field isProduction = (if isProduction then fieldProductionSettings else fieldTestSettings)"

text \<open>\<open>$elemMatch\<close> on a list of settings.\<close>

definition some_setting :: "(pm_params \<Rightarrow> bool) \<Rightarrow> bool \<Rightarrow> mgo_payment_method \<Rightarrow> bool" where
  "some_setting p isProduction m \<longleftrightarrow> (case settings_of m isProduction of None \<Rightarrow> False | Some ps \<Rightarrow> list_ex p ps)"

definition reset_settings :: "ext \<Rightarrow> string \<Rightarrow> pm_params go_map \<Rightarrow> unit io" where
  "reset_settings X field m = for_each (case m of None \<Rightarrow> [] | Some kvs \<Rightarrow> kvs) (\<lambda>(k, p). cache_delete X
     (cachePaymentMethodModeCurrencyMccCompany field (pmp_Currency p) (pmp_MccCode p) (pmp_OperatingCompanyId p)))"

definition methodrepo_resetCaches :: "ext \<Rightarrow> payment_method \<Rightarrow> unit io" where
  "methodrepo_resetCaches X m =
     bind (cache_delete X cachePaymentMethodAll) (\<lambda>_.
     bind (cache_delete X (cachePaymentMethodId (pm_Id m))) (\<lambda>_.
     bind (cache_delete X (cachePaymentMethodGroup (pm_Group m))) (\<lambda>_.
     bind (reset_settings X fieldTestSettings (pm_TestSettings m)) (\<lambda>_.
     reset_settings X fieldProductionSettings (pm_ProductionSettings m)))))"

definition methodrepo_Insert :: "ext \<Rightarrow> payment_method \<Rightarrow> unit io" where
  "methodrepo_Insert X m =
     bind (repo_insert X w_payment_methods w_payment_methods_update pm_Id (method_doc_to_mgo X) m) (\<lambda>_.
     bind (methodrepo_resetCaches X m) (\<lambda>_.
     cache_set X (cachePaymentMethodId (pm_Id m)) (CachedPaymentMethod m)))"

text \<open>\<open>FindOneAndReplace\<close> and \<open>FindOneAndDelete\<close> fail when there is no such document.\<close>

definition methodrepo_Update :: "ext \<Rightarrow> payment_method \<Rightarrow> unit io" where
  "methodrepo_Update X m =
     bind (lift (x_oid_from_hex X (pm_Id m))) (\<lambda>oid.
     bind (method_doc_to_mgo X m) (\<lambda>d.
     bind (find_one_and_update X w_payment_methods w_payment_methods_update (\<lambda>x. pm_Id x = oid) (\<lambda>_. d)) (\<lambda>_.
     bind (methodrepo_resetCaches X m) (\<lambda>_.
     cache_set X (cachePaymentMethodId (pm_Id m)) (CachedPaymentMethod m)))))"

fun remove_first :: "('a \<Rightarrow> bool) \<Rightarrow> 'a list \<Rightarrow> 'a list" where
  "remove_first p [] = []"
| "remove_first p (x # xs) = (if p x then xs else x # remove_first p xs)"

definition methodrepo_Delete :: "ext \<Rightarrow> payment_method \<Rightarrow> unit io" where
  "methodrepo_Delete X m =
     bind (lift (x_oid_from_hex X (pm_Id m))) (\<lambda>oid.
     bind (find_one X w_payment_methods (\<lambda>x. pm_Id x = oid)) (\<lambda>_.
     bind (modify (w_payment_methods_update (remove_first (\<lambda>x. pm_Id x = oid)))) (\<lambda>_.
     methodrepo_resetCaches X m)))"

text \<open>What is read is cached; that the cache cannot be written is only logged.\<close>

definition methodrepo_GetById :: "ext \<Rightarrow> string \<Rightarrow> payment_method io" where
  "methodrepo_GetById X i =
     bind (attempt (cache_get X as_payment_method (cachePaymentMethodId i))) (\<lambda>r. case r of
       Inr m \<Rightarrow> ret m
     | Inl _ \<Rightarrow>
       bind (lift (x_oid_from_hex X i)) (\<lambda>oid.
       bind (find_one X w_payment_methods (\<lambda>x. pm_Id x = oid)) (\<lambda>d.
       bind (lift (method_doc_from_mgo X d)) (\<lambda>m.
       bind (attempt (cache_set X (cachePaymentMethodId i) (CachedPaymentMethod m))) (\<lambda>_. ret m)))))"

text \<open>The key of the cache has the group alone, not the mode and the currency that the query asks for.\<close>

definition methodrepo_GetByGroupAndCurrency :: "ext \<Rightarrow> bool \<Rightarrow> string \<Rightarrow> string \<Rightarrow> payment_method io" where
  "methodrepo_GetByGroupAndCurrency X isProduction groupAlias currency =
     bind (attempt (cache_get X as_payment_method (cachePaymentMethodGroup groupAlias))) (\<lambda>r. case r of
       Inr m \<Rightarrow> ret m
     | Inl _ \<Rightarrow>
       bind (find_one X w_payment_methods (\<lambda>x. pm_Group x = groupAlias \<and>
         some_setting (\<lambda>p. pmp_Currency p = currency) isProduction x)) (\<lambda>d.
       bind (lift (method_doc_from_mgo X d)) (\<lambda>m.
       bind (attempt (cache_set X (cachePaymentMethodGroup groupAlias) (CachedPaymentMethod m))) (\<lambda>_. ret m))))"

definition methodrepo_ListByOrder :: "ext \<Rightarrow> order \<Rightarrow> payment_method list io" where
  "methodrepo_ListByOrder X ordr =
     (let key = cachePaymentMethodModeCurrencyMccCompany (settings_field (order_IsProduction ordr))
            (order_Currency ordr) (order_MccCode ordr) (order_OperatingCompanyId ordr) in
     bind (attempt (cache_get X as_payment_methods key)) (\<lambda>r. case r of
       Inr ms \<Rightarrow> ret ms
     | Inl _ \<Rightarrow>
       bind (find_all X w_payment_methods (\<lambda>x. pm_IsActive x \<and> some_setting (\<lambda>p. pmp_Currency p = order_Currency ordr \<and>
         pmp_MccCode p = order_MccCode ordr \<and> pmp_OperatingCompanyId p = order_OperatingCompanyId ordr)
         (order_IsProduction ordr) x)) (\<lambda>ds.
       bind (lift (map_err (method_doc_from_mgo X) ds)) (\<lambda>ms.
       bind (cache_set X key (CachedPaymentMethods ms)) (\<lambda>_. ret ms)))))"

section \<open>The settings of a payment\<close>

definition orderErrorPaymentMethodEmptySettings :: go_err where
  "orderErrorPaymentMethodEmptySettings = ResponseErrorMessage ''fm000009'' ''payment Method setting for project is empty''"

definition getPaymentSettings ::
  "ext \<Rightarrow> payment_method \<Rightarrow> string \<Rightarrow> string \<Rightarrow> string \<Rightarrow> string \<Rightarrow> bool \<Rightarrow> go_err + pm_params" where
  "getPaymentSettings X m currency mccCode operatingCompanyId brand isProduction =
     (case settings_of m isProduction of None \<Rightarrow> Inl orderErrorPaymentMethodEmptySettings
      | Some settings \<Rightarrow> (case map_of settings (GetPaymentMethodKey currency mccCode operatingCompanyId brand) of
          None \<Rightarrow> Inl orderErrorPaymentMethodEmptySettings
        | Some setting \<Rightarrow> if \<not> x_setting_complete X setting then Inl orderErrorPaymentMethodEmptySettings
            else Inr (setting\<lparr>pmp_Currency := currency,
              pmp_ApiUrl := (if isProduction then x_cardpay_api_url X else x_cardpay_sandbox_url X)\<rparr>)))"

section \<open>Amounts in a currency\<close>

definition getCurrencyPrecision :: "ext \<Rightarrow> string \<Rightarrow> int" where
  "getCurrencyPrecision X currency = (case x_currency_precision X currency of None \<Rightarrow> 2 | Some p \<Rightarrow> p)"

definition FormatAmount :: "ext \<Rightarrow> float64 \<Rightarrow> string \<Rightarrow> float64" where
  "FormatAmount X amount currency = x_to_fixed X amount (getCurrencyPrecision X currency)"

end
