(* ===== verification/CardPay.thy ===== *)
theory CardPay
  imports MerchantBalance Catalogue
begin

text \<open>
  The CardPay gateway (internal/payment_system/cardpay.go): the tokens it keeps per terminal, the requests
  it makes, and what a callback does to an order or a refund. A request is what is sent; what comes back is a
  parameter. The mutex around the tokens is a flag of the state.
\<close>

section \<open>Constants and errors\<close>

text \<open>The constants of the external package; only their being different matters.\<close>

definition CardPayStatusInProgress :: string where "CardPayStatusInProgress = ''IN_PROGRESS''"
definition CardPayStatusPending :: string where "CardPayStatusPending = ''PENDING''"
definition CardPayStatusRefunded :: string where "CardPayStatusRefunded = ''REFUNDED''"
definition CardPayStatusDeclined :: string where "CardPayStatusDeclined = ''DECLINED''"
definition CardPayStatusAuthorized :: string where "CardPayStatusAuthorized = ''AUTHORIZED''"
definition CardPayStatusCompleted :: string where "CardPayStatusCompleted = ''COMPLETED''"
definition CardPayStatusCancelled :: string where "CardPayStatusCancelled = ''CANCELLED''"

lemmas cardpay_statuses = CardPayStatusInProgress_def CardPayStatusPending_def CardPayStatusRefunded_def
  CardPayStatusDeclined_def CardPayStatusAuthorized_def CardPayStatusCompleted_def CardPayStatusCancelled_def

definition PaymentSystemGroupAliasBankCard :: string where "PaymentSystemGroupAliasBankCard = ''BANKCARD''"
definition PaymentSystemGroupAliasBitcoin :: string where "PaymentSystemGroupAliasBitcoin = ''BITCOIN''"
definition ewallet_aliases :: "string list" where "ewallet_aliases = [''QIWI'', ''WEBMONEY'', ''NETELLER'', ''ALIPAY'']"

definition successRefundResponseStatuses :: "string list" where
  "successRefundResponseStatuses = [CardPayStatusAuthorized, CardPayStatusInProgress, CardPayStatusPending,
     CardPayStatusRefunded, CardPayStatusCompleted]"

definition CardPayDateFormat :: string where "CardPayDateFormat = ''2006-01-02T15:04:05Z''"

definition paymentSystemErrorAuthenticateFailed :: go_err where
  "paymentSystemErrorAuthenticateFailed = ResponseErrorMessage ''ph000002'' ''authentication failed''"
definition paymentSystemErrorUnknownPaymentMethod :: go_err where
  "paymentSystemErrorUnknownPaymentMethod = ResponseErrorMessage ''ph000003'' ''unknown payment Method''"
definition paymentSystemErrorCreateRequestFailed :: go_err where
  "paymentSystemErrorCreateRequestFailed = ResponseErrorMessage ''ph000004'' ''order can't be create. try request later''"
definition paymentSystemErrorRequestSignatureIsInvalid :: go_err where
  "paymentSystemErrorRequestSignatureIsInvalid = ResponseErrorMessage ''ph000006'' ''request signature is invalid''"
definition paymentSystemErrorRequestTimeFieldIsInvalid :: go_err where
  "paymentSystemErrorRequestTimeFieldIsInvalid = ResponseErrorMessage ''ph000007'' ''time field in request is invalid''"
definition paymentSystemErrorRequestRecurringIdFieldIsInvalid :: go_err where
  "paymentSystemErrorRequestRecurringIdFieldIsInvalid = ResponseErrorMessage ''ph000008'' ''recurring id field in request is invalid''"
definition paymentSystemErrorRequestStatusIsInvalid :: go_err where
  "paymentSystemErrorRequestStatusIsInvalid = ResponseErrorMessage ''ph000009'' ''status is invalid''"
definition paymentSystemErrorRequestPaymentMethodIsInvalid :: go_err where
  "paymentSystemErrorRequestPaymentMethodIsInvalid =
     ResponseErrorMessage ''ph000010'' ''payment Method from request not match with value in order''"
definition PaymentSystemErrorRequestAmountOrCurrencyIsInvalid :: go_err where
  "PaymentSystemErrorRequestAmountOrCurrencyIsInvalid =
     ResponseErrorMessage ''ph000011'' ''amount or currency from request not match with value in order''"
definition PaymentSystemErrorRefundRequestAmountOrCurrencyIsInvalid :: go_err where
  "PaymentSystemErrorRefundRequestAmountOrCurrencyIsInvalid =
     ResponseErrorMessage ''ph000012'' ''amount or currency from request not match with value in refund''"
definition PaymentSystemErrorRequestTemporarySkipped :: go_err where
  "PaymentSystemErrorRequestTemporarySkipped = ResponseErrorMessage ''ph000013'' ''notification skipped with temporary status''"
definition paymentSystemErrorRecurringFailed :: go_err where
  "paymentSystemErrorRecurringFailed = ResponseErrorMessage ''ph000014'' ''recurring payment failed''"
definition paymentSystemErrorCreateRecurringPlanFailed :: go_err where
  "paymentSystemErrorCreateRecurringPlanFailed = ResponseErrorMessage ''ph000015'' ''create recurring plan failed''"
definition paymentSystemErrorCreateRecurringSubscriptionFailed :: go_err where
  "paymentSystemErrorCreateRecurringSubscriptionFailed =
     ResponseErrorMessage ''ph000016'' ''create recurring subscription failed''"
definition paymentSystemErrorDeleteRecurringPlanFailed :: go_err where
  "paymentSystemErrorDeleteRecurringPlanFailed = ResponseErrorMessage ''ph000017'' ''delete recurring plan failed''"
definition paymentSystemErrorUpdateRecurringSubscriptionFailed :: go_err where
  "paymentSystemErrorUpdateRecurringSubscriptionFailed =
     ResponseErrorMessage ''ph000018'' ''update recurring subscription failed''"
definition PaymentSystemErrorCreateRefundFailed :: go_err where
  "PaymentSystemErrorCreateRefundFailed = ErrOther ''refund can't be create. try request later''"
definition PaymentSystemErrorCreateRefundRejected :: go_err where
  "PaymentSystemErrorCreateRefundRejected = ErrOther ''refund create request rejected''"

text \<open>The actions of pkg/constant.go with their methods and paths; \<open>%s\<close> is filled with the parameter.\<close>

datatype cp_action = PaymentSystemActionAuthenticate | PaymentSystemActionRefresh | PaymentSystemActionCreatePayment
  | PaymentSystemActionRecurringPayment | PaymentSystemActionRefund | PaymentSystemActionRecurringPlan
  | PaymentSystemActionDeleteRecurringPlan string | PaymentSystemActionUpdateRecurringSubscription string

fun CardPayPaths :: "cp_action \<Rightarrow> string \<times> string" where
  "CardPayPaths PaymentSystemActionAuthenticate = (''/api/auth/token'', ''POST'')"
| "CardPayPaths PaymentSystemActionRefresh = (''/api/auth/token'', ''POST'')"
| "CardPayPaths PaymentSystemActionCreatePayment = (''/api/payments'', ''POST'')"
| "CardPayPaths PaymentSystemActionRecurringPayment = (''/api/recurrings'', ''POST'')"
| "CardPayPaths PaymentSystemActionRefund = (''/api/refunds'', ''POST'')"
| "CardPayPaths PaymentSystemActionRecurringPlan = (''/api/recurring_plans'', ''POST'')"
| "CardPayPaths (PaymentSystemActionDeleteRecurringPlan i) = (''/api/recurring_plans/'' @ i, ''DELETE'')"
| "CardPayPaths (PaymentSystemActionUpdateRecurringSubscription i) = (''/api/recurring_subscriptions/'' @ i, ''PATCH'')"

text \<open>The fields of the requests and of the parameters of a transaction, constants of the external package.\<close>

definition PaymentCreateFieldPan :: string where "PaymentCreateFieldPan = ''pan''"
definition PaymentCreateFieldCvv :: string where "PaymentCreateFieldCvv = ''cvv''"
definition PaymentCreateFieldMonth :: string where "PaymentCreateFieldMonth = ''month''"
definition PaymentCreateFieldYear :: string where "PaymentCreateFieldYear = ''year''"
definition PaymentCreateFieldHolder :: string where "PaymentCreateFieldHolder = ''card_holder''"
definition PaymentCreateFieldEWallet :: string where "PaymentCreateFieldEWallet = ''ewallet''"
definition PaymentCreateFieldCrypto :: string where "PaymentCreateFieldCrypto = ''address''"
definition PaymentCreateFieldStoreData :: string where "PaymentCreateFieldStoreData = ''store_data''"
definition PaymentCreateFieldRecurringId :: string where "PaymentCreateFieldRecurringId = ''recurring_id''"
definition TxnParamsFieldDeclineCode :: string where "TxnParamsFieldDeclineCode = ''decline_code''"
definition TxnParamsFieldDeclineReason :: string where "TxnParamsFieldDeclineReason = ''decline_reason''"
definition TxnParamsFieldBankCardIs3DS :: string where "TxnParamsFieldBankCardIs3DS = ''is_3ds''"

section \<open>Requests\<close>

definition getUrl :: "ext \<Rightarrow> string \<Rightarrow> cp_action \<Rightarrow> go_err + string" where
  "getUrl X apiUrl action = x_url_with_path X apiUrl (fst (CardPayPaths action))"

text \<open>\<open>httpClient.Do\<close>: the request has left before the answer, or the failure, comes.\<close>

definition http_do :: "ext \<Rightarrow> http_request \<Rightarrow> http_response io" where
  "http_do X req = bind (modify (w_sent_update (\<lambda>ms. ms @ [SentHttp req]))) (\<lambda>_. rpc (\<lambda>n. x_http X n req))"

text \<open>A request whose answer must have a given status, and its body.\<close>

definition http_body_of :: "ext \<Rightarrow> http_request \<Rightarrow> int \<Rightarrow> go_err \<Rightarrow> string io" where
  "http_body_of X req code failed = bind (http_do X req) (\<lambda>rsp.
     if hrsp_StatusCode rsp \<noteq> code then throw failed else lift (hrsp_Body rsp))"

text \<open>\<open>order.PaymentMethod.Params\<close>.\<close>

definition pm_params_of :: "order \<Rightarrow> pm_params io" where
  "pm_params_of ordr = bind (deref (order_PaymentMethod ordr)) (\<lambda>pm. deref (opm_Params pm))"

section \<open>Tokens\<close>

text \<open>
  \<open>setToken\<close> takes the lock, and gives it back unless the answer is not valid JSON; taking it while it is
  held never returns.
\<close>

definition setToken :: "ext \<Rightarrow> string \<Rightarrow> string \<Rightarrow> unit io" where
  "setToken X b pmKey = bind (gets w_token_lock) (\<lambda>locked. if locked then throw go_hangs else
     bind (modify (w_token_lock_update (\<lambda>_. True))) (\<lambda>_.
     bind (lift (x_json_token X b)) (\<lambda>decoded.
     bind (deref decoded) (\<lambda>token.
     bind (time_now X) (\<lambda>now1.
     bind (time_now X) (\<lambda>now2.
     bind (modify (w_tokens_update (\<lambda>m. m(pmKey \<mapsto> token\<lparr>
       ct_AccessTokenExpireTime := now1 + second * ct_AccessTokenExpire token,
       ct_RefreshTokenExpireTime := now2 + second * ct_RefreshTokenExpire token\<rparr>)))) (\<lambda>_.
     modify (w_token_lock_update (\<lambda>_. False)))))))))"

text \<open>The form of an authentication: a password, or the refresh token.\<close>

definition token_request :: "ext \<Rightarrow> order \<Rightarrow> cp_action \<Rightarrow> (string \<times> string) list \<Rightarrow> unit io" where
  "token_request X ordr action form =
     bind (lift (getUrl X (x_order_api_url X ordr) action)) (\<lambda>u.
     bind (http_body_of X \<lparr>hreq_Method = snd (CardPayPaths action), hreq_Url = u, hreq_Authorization = [],
             hreq_Body = FormBody form\<rparr> 200 paymentSystemErrorAuthenticateFailed) (\<lambda>b.
     bind (pm_params_of ordr) (\<lambda>params.
     setToken X b (pmp_TerminalId params))))"

definition cp_refresh :: "ext \<Rightarrow> order \<Rightarrow> unit io" where
  "cp_refresh X ordr =
     bind (pm_params_of ordr) (\<lambda>params.
     bind (gets w_tokens) (\<lambda>tokens.
     bind (deref (tokens (pmp_TerminalId params))) (\<lambda>token.
     token_request X ordr PaymentSystemActionRefresh
       [(''grant_type'', ''refresh_token''), (''terminal_code'', pmp_TerminalId params),
        (''refresh_token'', ct_RefreshToken token)])))"

text \<open>\<open>getToken\<close>; instants are compared in whole seconds. A failed refresh is no token.\<close>

definition unix :: "gotime \<Rightarrow> int" where "unix t = t div second"

definition getToken :: "ext \<Rightarrow> order \<Rightarrow> card_token option io" where
  "getToken X ordr =
     bind (pm_params_of ordr) (\<lambda>params.
     bind (gets w_tokens) (\<lambda>tokens. case tokens (pmp_TerminalId params) of None \<Rightarrow> ret None
     | Some token \<Rightarrow>
     bind (time_now X) (\<lambda>now.
     if 0 < ct_AccessTokenExpire token \<and> unix now \<le> unix (ct_AccessTokenExpireTime token) then ret (Some token)
     else if ct_RefreshTokenExpire token \<le> 0 \<or> unix (ct_RefreshTokenExpireTime token) < unix now then ret None
     else bind (try_go (cp_refresh X ordr)) (\<lambda>r. case r of Inl _ \<Rightarrow> ret None
       | Inr _ \<Rightarrow> gets (\<lambda>s. w_tokens s (pmp_TerminalId params))))))"

definition cp_auth :: "ext \<Rightarrow> order \<Rightarrow> unit io" where
  "cp_auth X ordr =
     bind (getToken X ordr) (\<lambda>token. if token \<noteq> None then ret () else
     bind (pm_params_of ordr) (\<lambda>params.
     token_request X ordr PaymentSystemActionAuthenticate
       [(''grant_type'', ''password''), (''terminal_code'', pmp_TerminalId params), (''password'', pmp_Secret params)]))"

text \<open>\<open>json.Marshal\<close> fails on a number that is not finite.\<close>

fun json_number :: "float64 \<Rightarrow> bool" where
  "json_number (Fin _) = True"
| "json_number _ = False"

fun body_numbers :: "http_body \<Rightarrow> float64 list" where
  "body_numbers (OrderBody b) = map cpi_Price (cpm_Items (cpo_MerchantOrder b)) @
     (case cpo_PaymentData b of None \<Rightarrow> [] | Some (c, a) \<Rightarrow> [a]) @ (case cpo_RecurringData b of None \<Rightarrow> [] | Some r \<Rightarrow> [cprd_Amount r])"
| "body_numbers (RefundBody b) = [cprf_Amount b]"
| "body_numbers (PlanBody b) = [cppl_Amount b]"
| "body_numbers (SubscriptionBody b) = [cprd_Amount (cps_RecurringData b)]"
| "body_numbers _ = []"

definition json_marshal :: "http_body \<Rightarrow> go_err + http_body" where
  "json_marshal b = (if list_all json_number (body_numbers b) then Inr b else Inl (ErrOther ''json: unsupported value''))"

text \<open>
  \<open>strings.Title\<close> on the letters of ASCII: a word starts after a character that is
  neither a letter nor a digit nor an underscore.
\<close>

definition title_separator :: "char \<Rightarrow> bool" where
  "title_separator c = (let n = (of_char c :: nat) in
     n < 128 \<and> \<not> (48 \<le> n \<and> n \<le> 57 \<or> 65 \<le> n \<and> n \<le> 90 \<or> 97 \<le> n \<and> n \<le> 122 \<or> n = 95))"

fun go_title_from :: "bool \<Rightarrow> string \<Rightarrow> string" where
  "go_title_from inside [] = []"
| "go_title_from inside (c # cs) = (if inside then c else upper_char c) # go_title_from (\<not> title_separator c) cs"

definition go_title :: "string \<Rightarrow> string" where "go_title = go_title_from False"

definition getRequestWithAuth :: "ext \<Rightarrow> order \<Rightarrow> http_body \<Rightarrow> cp_action \<Rightarrow> http_request io" where
  "getRequestWithAuth X ordr data action =
     bind (cp_auth X ordr) (\<lambda>_.
     bind (lift (getUrl X (x_order_api_url X ordr) action)) (\<lambda>u.
     bind (lift (json_marshal data)) (\<lambda>body.
     bind (getToken X ordr) (\<lambda>found.
     bind (deref found) (\<lambda>token.
     ret \<lparr>hreq_Method = snd (CardPayPaths action), hreq_Url = u,
          hreq_Authorization = go_title (ct_TokenType token) @ '' '' @ ct_AccessToken token, hreq_Body = body\<rparr>)))))"

text \<open>The time of a request.\<close>

definition request_time :: "ext \<Rightarrow> string io" where
  "request_time X = bind (time_now X) (\<lambda>now. ret (x_format_time X CardPayDateFormat now))"

end
