(* ===== verification/CardPayHandler.thy ===== *)
theory CardPayHandler
  imports CardPay RefundRepo
begin

text \<open>
  What the CardPay gateway does for the rest of the service (internal/payment\_system/cardpay.go): it
  creates payments, refunds and subscriptions, and takes callbacks apart. The orders, refunds and
  subscriptions that the code changes in place are returned beside the error. The registry of gateways
  (internal/service/payment\_system.go) with its test gateways closes the file.
\<close>

section \<open>Payments\<close>

text \<open>The first runes of a string in UTF-8: a rune starts at a byte that is no continuation.\<close>

definition utf8_continuation :: "char \<Rightarrow> bool" where
  "utf8_continuation c = (let n = (of_char c :: nat) in 128 \<le> n \<and> n < 192)"

fun take_runes :: "nat \<Rightarrow> string \<Rightarrow> string" where
  "take_runes n [] = []"
| "take_runes n (c # cs) = (if utf8_continuation c then c # take_runes n cs
     else case n of 0 \<Rightarrow> [] | Suc m \<Rightarrow> c # take_runes m cs)"

definition cardPayMaxItemNameLength :: nat where "cardPayMaxItemNameLength = 50"
definition cardPayMaxItemDescriptionLength :: nat where "cardPayMaxItemDescriptionLength = 200"

definition cp_item_of :: "order_item \<Rightarrow> cp_item" where
  "cp_item_of it = \<lparr>cpi_Name = take_runes cardPayMaxItemNameLength (oi_Name it),
     cpi_Description = take_runes cardPayMaxItemDescriptionLength (oi_Description it), cpi_Count = 1,
     cpi_Price = oi_Amount it\<rparr>"

definition cp_customer_of :: "order_user \<Rightarrow> cp_customer" where
  "cp_customer_of user = \<lparr>cpu_Email = ou_TechEmail user, cpu_Ip = ou_Ip user, cpu_Account = ou_Id user\<rparr>"

definition cp_return_urls_of :: "string \<Rightarrow> string \<Rightarrow> cp_return_urls" where
  "cp_return_urls_of successUrl failUrl =
     \<lparr>cpl_CancelUrl = failUrl, cpl_DeclineUrl = failUrl, cpl_SuccessUrl = successUrl\<rparr>"

definition cp_card_of :: "string go_map \<Rightarrow> cp_card" where
  "cp_card_of requisites = \<lparr>cpc_Pan = go_get requisites PaymentCreateFieldPan,
     cpc_Holder = go_upper (go_get requisites PaymentCreateFieldHolder),
     cpc_Cvv = go_get requisites PaymentCreateFieldCvv,
     cpc_Expire = go_get requisites PaymentCreateFieldMonth @ ''/'' @ go_get requisites PaymentCreateFieldYear\<rparr>"

definition geBankCardCardPayOrder :: "cp_order \<Rightarrow> string go_map \<Rightarrow> cp_order" where
  "geBankCardCardPayOrder cpo requisites = cpo\<lparr>cpo_CardAccount := Some (cp_card_of requisites)\<rparr>"

definition getEWalletCardPayOrder :: "cp_order \<Rightarrow> string go_map \<Rightarrow> cp_order" where
  "getEWalletCardPayOrder cpo requisites =
     cpo\<lparr>cpo_EWalletAccount := Some (go_get requisites PaymentCreateFieldEWallet)\<rparr>"

definition getCryptoCurrencyCardPayOrder :: "cp_order \<Rightarrow> string go_map \<Rightarrow> cp_order" where
  "getCryptoCurrencyCardPayOrder cpo requisites =
     cpo\<lparr>cpo_CryptoCurrencyAccount := Some (go_get requisites PaymentCreateFieldCrypto)\<rparr>"

definition cp_account :: "string \<Rightarrow> cp_order \<Rightarrow> string go_map \<Rightarrow> go_err + cp_order" where
  "cp_account externalId cpo requisites =
     (if externalId = PaymentSystemGroupAliasBankCard then Inr (geBankCardCardPayOrder cpo requisites)
      else if externalId \<in> set ewallet_aliases then Inr (getEWalletCardPayOrder cpo requisites)
      else if externalId = PaymentSystemGroupAliasBitcoin then Inr (getCryptoCurrencyCardPayOrder cpo requisites)
      else Inl paymentSystemErrorUnknownPaymentMethod)"

definition cardPayInitiatorCardholder :: string where "cardPayInitiatorCardholder = ''cit''"

definition getCardPayOrder :: "ext \<Rightarrow> order \<Rightarrow> string \<Rightarrow> string \<Rightarrow> string go_map \<Rightarrow> cp_order io" where
  "getCardPayOrder X ordr successUrl failUrl requisites =
     bind (request_time X) (\<lambda>time.
     bind (deref (order_PaymentMethod ordr)) (\<lambda>pm.
     bind (deref (order_User ordr)) (\<lambda>user.
     let description = oco_Description (order_Carried ordr);
         recurringId = go_get requisites PaymentCreateFieldRecurringId;
         cpo = \<lparr>cpo_RequestId = order_Id ordr, cpo_RequestTime = time,
           cpo_MerchantOrder = \<lparr>cpm_Id = order_Id ordr, cpm_Description = description,
             cpm_Items = map cp_item_of (order_Items ordr)\<rparr>,
           cpo_Description = description, cpo_PaymentMethod = opm_ExternalId pm, cpo_PaymentData = None,
           cpo_RecurringData = None, cpo_CardAccount = None, cpo_Customer = cp_customer_of user,
           cpo_EWalletAccount = None, cpo_CryptoCurrencyAccount = None,
           cpo_ReturnUrls = cp_return_urls_of successUrl failUrl\<rparr>
     in if (x_pm_is_bank_card X pm \<and> go_get requisites PaymentCreateFieldStoreData = ''1'') \<or> recurringId \<noteq> [] then
          let recurring = \<lparr>cprd_Currency = order_ChargeCurrency ordr, cprd_Amount = order_ChargeAmount ordr,
                cprd_Filing = (if recurringId \<noteq> [] then Some recurringId else None),
                cprd_Initiator = cardPayInitiatorCardholder, cprd_Plan = None\<rparr>
          in if recurringId \<noteq> [] then ret (cpo\<lparr>cpo_RecurringData := Some recurring\<rparr>)
             else lift (cp_account (opm_ExternalId pm) (cpo\<lparr>cpo_RecurringData := Some recurring\<rparr>) requisites)
        else lift (cp_account (opm_ExternalId pm)
               (cpo\<lparr>cpo_PaymentData := Some (order_ChargeCurrency ordr, order_ChargeAmount ordr)\<rparr>) requisites))))"

definition IsSuccessStatus_recurring :: "string option \<Rightarrow> bool" where
  "IsSuccessStatus_recurring recurringData = (case recurringData of None \<Rightarrow> False
     | Some status \<Rightarrow> status \<in> {CardPayStatusInProgress, CardPayStatusPending, CardPayStatusAuthorized, CardPayStatusCompleted})"

definition has_filing :: "cp_order \<Rightarrow> bool" where
  "has_filing data = (case cpo_RecurringData data of None \<Rightarrow> False | Some r \<Rightarrow> cprd_Filing r \<noteq> None)"

definition send_payment :: "ext \<Rightarrow> order \<Rightarrow> cp_order \<Rightarrow> string io" where
  "send_payment X ordr data =
     (let action = (if cpo_RecurringData data \<noteq> None then PaymentSystemActionRecurringPayment
                    else PaymentSystemActionCreatePayment) in
     bind (getRequestWithAuth X ordr (OrderBody data) action) (\<lambda>req.
     bind (http_body_of X req 200 paymentSystemErrorCreateRequestFailed) (\<lambda>b.
     bind (if has_filing data then
             bind (lift (x_json_recurring_status X b)) (\<lambda>decoded.
             bind (deref decoded) (\<lambda>cpRsp.
             if IsSuccessStatus_recurring cpRsp then ret () else throw paymentSystemErrorRecurringFailed))
           else ret ()) (\<lambda>_.
     bind (lift (x_json_redirect_url X b)) deref))))"

text \<open>An order that CardPay cannot express is answered with no URL and no error.\<close>

definition cardpay_CreatePayment :: "ext \<Rightarrow> order \<Rightarrow> string \<Rightarrow> string \<Rightarrow> string go_map \<Rightarrow>
    (order \<times> (go_err + string)) io" where
  "cardpay_CreatePayment X ordr successUrl failUrl requisites =
     bind (try_go (getCardPayOrder X ordr successUrl failUrl requisites)) (\<lambda>r. case r of
       Inl _ \<Rightarrow> ret (ordr, Inr [])
     | Inr data \<Rightarrow>
       let pending = ordr\<lparr>order_PrivateStatus := OrderStatusPaymentSystemRejectOnCreate\<rparr> in
       bind (try_go (send_payment X pending data)) (\<lambda>r. case r of
         Inl e \<Rightarrow> ret (pending, Inl e)
       | Inr redirectUrl \<Rightarrow> ret (pending\<lparr>order_PrivateStatus := OrderStatusPaymentSystemCreate\<rparr>, Inr redirectUrl)))"

section \<open>Callbacks of payments\<close>

definition StatusOK :: int where "StatusOK = 0"
definition StatusErrorValidation :: int where "StatusErrorValidation = 1"
definition StatusErrorSystem :: int where "StatusErrorSystem = 2"
definition StatusTemporary :: int where "StatusTemporary = 4"

lemmas gateway_statuses = StatusOK_def StatusErrorValidation_def StatusErrorSystem_def StatusTemporary_def

text \<open>Whether the signature is the SHA-512 of the raw request and the secret of the payment method.\<close>

definition checkCallbackRequestSignature :: "ext \<Rightarrow> order \<Rightarrow> string \<Rightarrow> string \<Rightarrow> bool io" where
  "checkCallbackRequestSignature X ordr raw signature =
     bind (pm_params_of ordr) (\<lambda>params. ret (x_sha512_hex X (raw @ pmp_SecretCallback params) = signature))"

definition txn_params_of :: "ext \<Rightarrow> payment_callback \<Rightarrow> string go_map option" where
  "txn_params_of X req =
     (if pcb_PaymentMethod req = PaymentSystemGroupAliasBankCard then Some (x_pcb_bank_card_params X req)
      else if pcb_PaymentMethod req \<in> set ewallet_aliases then Some (x_pcb_ewallet_params X req)
      else if pcb_PaymentMethod req = PaymentSystemGroupAliasBitcoin then Some (x_pcb_crypto_params X req)
      else None)"

definition with_decline_reason :: "order \<Rightarrow> order" where
  "with_decline_reason ordr =
     (let params = order_PaymentMethodTxnParams ordr in
      if go_has params TxnParamsFieldDeclineCode \<or> go_has params TxnParamsFieldDeclineReason
      then ordr\<lparr>order_Cancellation := Some \<lparr>ocan_Code = go_get params TxnParamsFieldDeclineCode,
             ocan_Reason = go_get params TxnParamsFieldDeclineReason\<rparr>\<rparr>
      else ordr)"

text \<open>A completed recurring payment names its filing.\<close>

definition filing_missing :: "ext \<Rightarrow> payment_callback \<Rightarrow> bool io" where
  "filing_missing X req =
     (if x_pcb_is_recurring X req \<and> x_pcb_is_success X req
      then bind (deref (pcb_RecurringData req)) (\<lambda>d. ret (fst d = None \<or> fst d = Some []))
      else ret False)"

text \<open>The instant of the callback, as a timestamp.\<close>

definition callback_time :: "ext \<Rightarrow> string \<Rightarrow> go_err + timestamp" where
  "callback_time X v = bind_err (x_parse_time X CardPayDateFormat v) (x_timestamp_proto X)"

text \<open>The status that the answer gives to the order; every other status is skipped for now.\<close>

definition settle_payment :: "ext \<Rightarrow> order \<Rightarrow> payment_callback \<Rightarrow> order_payment_method \<Rightarrow> order option io" where
  "settle_payment X ordr req pm =
     (let status = x_pcb_status X req in
      if status = CardPayStatusDeclined
      then ret (Some (with_decline_reason (ordr\<lparr>order_PrivateStatus := OrderStatusPaymentSystemDeclined\<rparr>)))
      else if status = CardPayStatusCancelled then bind (timestamp_now X) (\<lambda>now.
        ret (Some (with_decline_reason (ordr\<lparr>order_PrivateStatus := OrderStatusPaymentSystemCanceled,
          order_CanceledAt := Some now\<rparr>))))
      else if status = CardPayStatusCompleted
      then ret (Some (ordr\<lparr>order_PrivateStatus := OrderStatusPaymentSystemComplete,
             order_IsRefundAllowed := opm_RefundAllowed pm\<rparr>))
      else ret None)"

definition cardpay_ProcessPayment :: "ext \<Rightarrow> order \<Rightarrow> payment_callback \<Rightarrow> string \<Rightarrow> string \<Rightarrow>
    (order \<times> (int \<times> go_err) option) io" where
  "cardpay_ProcessPayment X ordr0 req raw signature =
     (let ordr = ordr0\<lparr>order_PrivateStatus := OrderStatusPaymentSystemReject\<rparr>;
          invalid = (\<lambda>e. ret (ordr, Some (StatusErrorValidation, e)))
      in bind (checkCallbackRequestSignature X ordr raw signature) (\<lambda>signed.
         if \<not> signed then invalid paymentSystemErrorRequestSignatureIsInvalid
         else if \<not> x_pcb_allowed_status X req then invalid paymentSystemErrorRequestStatusIsInvalid
         else bind (filing_missing X req) (\<lambda>missing.
         if missing then invalid paymentSystemErrorRequestRecurringIdFieldIsInvalid
         else case callback_time X (pcb_CallbackTime req) of
           Inl _ \<Rightarrow> invalid paymentSystemErrorRequestTimeFieldIsInvalid
         | Inr ts \<Rightarrow>
         bind (deref (order_PaymentMethod ordr)) (\<lambda>pm.
         if pcb_PaymentMethod req \<noteq> opm_ExternalId pm then invalid paymentSystemErrorRequestPaymentMethodIsInvalid
         else if \<not> feq (x_pcb_amount X req) (order_ChargeAmount ordr) \<or> x_pcb_currency X req \<noteq> order_ChargeCurrency ordr
         then invalid PaymentSystemErrorRequestAmountOrCurrencyIsInvalid
         else case txn_params_of X req of
           None \<Rightarrow> invalid paymentSystemErrorRequestPaymentMethodIsInvalid
         | Some params \<Rightarrow>
         let paid = ordr\<lparr>order_PaymentMethodTxnParams := params\<rparr> in
         bind (settle_payment X paid req pm) (\<lambda>settled. case settled of
           None \<Rightarrow> ret (paid, Some (StatusTemporary, PaymentSystemErrorRequestTemporarySkipped))
         | Some o' \<Rightarrow> ret (o'\<lparr>order_Transaction := x_pcb_id X req, order_PaymentMethodOrderClosedAt := Some ts\<rparr>, None))))))"

text \<open>What the callback says about recurring payments and saved cards.\<close>

definition cardpay_IsRecurringCallback :: "ext \<Rightarrow> payment_callback \<Rightarrow> bool" where
  "cardpay_IsRecurringCallback X req \<longleftrightarrow> pcb_PaymentMethod req = PaymentSystemGroupAliasBankCard \<and> x_pcb_is_recurring X req"

definition cardpay_CanSaveCard :: "ext \<Rightarrow> payment_callback \<Rightarrow> bool" where
  "cardpay_CanSaveCard X req \<longleftrightarrow>
     pcb_PaymentMethod req = PaymentSystemGroupAliasBankCard \<and> x_pcb_is_recurring_with_filing X req"

definition cardpay_GetRecurringId :: "payment_callback \<Rightarrow> string io" where
  "cardpay_GetRecurringId req = bind (deref (pcb_RecurringData req)) (\<lambda>d. deref (fst d))"

definition cardpay_IsSubscriptionCallback :: "payment_callback \<Rightarrow> bool" where
  "cardpay_IsSubscriptionCallback req = (case pcb_RecurringData req of None \<Rightarrow> False
     | Some d \<Rightarrow> snd d \<noteq> None \<and> snd d \<noteq> Some [])"

section \<open>Refunds\<close>

definition IsSuccessStatus_refund :: "string \<Rightarrow> bool" where
  "IsSuccessStatus_refund status \<longleftrightarrow> status \<in> set successRefundResponseStatuses"

text \<open>
  A refund is rejected until its request has been accepted; whatever fails before the status is read is one
  error for the caller.
\<close>

definition send_refund :: "ext \<Rightarrow> order \<Rightarrow> refund \<Rightarrow> string \<Rightarrow> (string \<times> string) io" where
  "send_refund X ordr refund time =
     bind (getRequestWithAuth X ordr (RefundBody \<lparr>cprf_RequestId = refund_Id refund, cprf_RequestTime = time,
             cprf_MerchantOrder = \<lparr>cpm_Id = refund_Id refund, cpm_Description = refund_Reason refund, cpm_Items = []\<rparr>,
             cprf_PaymentId = order_Transaction ordr, cprf_Amount = refund_Amount refund,
             cprf_Currency = refund_Currency refund\<rparr>) PaymentSystemActionRefund) (\<lambda>req.
     bind (http_body_of X req 201 PaymentSystemErrorCreateRefundFailed) (\<lambda>b.
     bind (lift (x_json_refund_data X b)) deref))"

definition cardpay_CreateRefund :: "ext \<Rightarrow> order \<Rightarrow> refund \<Rightarrow> (refund \<times> go_err option) io" where
  "cardpay_CreateRefund X ordr refund =
     bind (request_time X) (\<lambda>time.
     let rejected = refund\<lparr>refund_Status := RefundStatusRejected\<rparr> in
     bind (try_go (send_refund X ordr rejected time)) (\<lambda>r. case r of
       Inl _ \<Rightarrow> ret (rejected, Some PaymentSystemErrorCreateRefundFailed)
     | Inr (status, externalId) \<Rightarrow>
       if \<not> IsSuccessStatus_refund status then ret (rejected, Some PaymentSystemErrorCreateRefundRejected)
       else ret (refund\<lparr>refund_Status := RefundStatusInProgress, refund_ExternalId := externalId\<rparr>, None)))"

definition cardpay_ProcessRefund :: "ext \<Rightarrow> order \<Rightarrow> refund \<Rightarrow> refund_callback \<Rightarrow> string \<Rightarrow> string \<Rightarrow>
    (refund \<times> (rsp_status \<times> go_err) option) io" where
  "cardpay_ProcessRefund X ordr refund req raw signature =
     (let rejected = refund\<lparr>refund_Status := RefundStatusRejected\<rparr>;
          invalid = (\<lambda>e. ret (rejected, Some (ResponseStatusBadData, e)));
          finish = (\<lambda>status d. bind (timestamp_now X) (\<lambda>now. ret (refund\<lparr>refund_Status := status,
            refund_ExternalId := rfd_Id d, refund_UpdatedAt := Some now\<rparr>, None)))
      in bind (checkCallbackRequestSignature X ordr raw signature) (\<lambda>signed.
         if \<not> signed then invalid paymentSystemErrorRequestSignatureIsInvalid
         else if \<not> x_rcb_allowed_status X req then invalid paymentSystemErrorRequestStatusIsInvalid
         else bind (deref (order_PaymentMethod ordr)) (\<lambda>pm.
         if rcb_PaymentMethod req \<noteq> opm_ExternalId pm then invalid paymentSystemErrorRequestPaymentMethodIsInvalid
         else bind (deref (rcb_RefundData req)) (\<lambda>d.
         if \<not> feq (rfd_Amount d) (refund_Amount refund) \<or> rfd_Currency d \<noteq> refund_Currency refund
         then invalid PaymentSystemErrorRefundRequestAmountOrCurrencyIsInvalid
         else if rfd_Status d = CardPayStatusDeclined then finish RefundStatusPaymentSystemDeclined d
         else if rfd_Status d = CardPayStatusCancelled then finish RefundStatusPaymentSystemCanceled d
         else if rfd_Status d = CardPayStatusCompleted then finish RefundStatusCompleted d
         else ret (refund, Some (ResponseStatusTemporary, PaymentSystemErrorRequestTemporarySkipped))))))"

section \<open>Subscriptions\<close>

definition cardPayStatusActive :: string where "cardPayStatusActive = ''ACTIVE''"
definition cardPayStatusCancelled :: string where "cardPayStatusCancelled = ''CANCELLED''"

definition createRecurringPlan :: "ext \<Rightarrow> order \<Rightarrow> string io" where
  "createRecurringPlan X ordr =
     bind (request_time X) (\<lambda>time.
     bind (deref (oco_RecurringSettings (order_Carried ordr))) (\<lambda>settings.
     bind (getRequestWithAuth X ordr (PlanBody \<lparr>cppl_RequestId = order_Id ordr, cppl_RequestTime = time,
             cppl_Amount = order_ChargeAmount ordr, cppl_Currency = order_ChargeCurrency ordr,
             cppl_Interval = rset_Interval settings, cppl_Name = order_Id ordr, cppl_Period = rset_Period settings,
             cppl_Retries = 1\<rparr>) PaymentSystemActionRecurringPlan) (\<lambda>req.
     bind (http_body_of X req 200 paymentSystemErrorCreateRecurringPlanFailed) (\<lambda>b.
     bind (lift (x_json_plan X b)) (\<lambda>decoded.
     bind (deref decoded) (\<lambda>(planId, status).
     if status \<noteq> cardPayStatusActive then throw paymentSystemErrorCreateRecurringPlanFailed else ret planId))))))"

text \<open>The ids and URLs of the answer: the subscription and where the customer is sent.\<close>

definition createRecurringSubscription :: "ext \<Rightarrow> order \<Rightarrow> string \<Rightarrow> string \<Rightarrow> string \<Rightarrow> string go_map \<Rightarrow> (string \<times> string) io" where
  "createRecurringSubscription X ordr planId successUrl failUrl requisites =
     bind (request_time X) (\<lambda>time.
     bind (deref (order_User ordr)) (\<lambda>user.
     bind (deref (order_PaymentMethod ordr)) (\<lambda>pm.
     bind (getRequestWithAuth X ordr (SubscriptionBody \<lparr>cps_RequestId = planId, cps_RequestTime = time,
             cps_CardAccount = (if opm_ExternalId pm = PaymentSystemGroupAliasBankCard
               then Some (cp_card_of requisites) else None),
             cps_Customer = cp_customer_of user,
             cps_MerchantOrder = \<lparr>cpm_Id = order_Id ordr, cpm_Description = oco_Description (order_Carried ordr), cpm_Items = []\<rparr>,
             cps_PaymentMethod = opm_ExternalId pm,
             cps_RecurringData = \<lparr>cprd_Currency = [], cprd_Amount = 0, cprd_Filing = None,
               cprd_Initiator = cardPayInitiatorCardholder, cprd_Plan = Some planId\<rparr>,
             cps_ReturnUrls = cp_return_urls_of successUrl failUrl\<rparr>) PaymentSystemActionRecurringPayment) (\<lambda>req.
     bind (http_body_of X req 200 paymentSystemErrorCreateRecurringSubscriptionFailed) (\<lambda>b.
     bind (lift (x_json_subscription X b)) (\<lambda>decoded.
     bind (deref decoded) (\<lambda>(redirectUrl, subscriptionId). ret (subscriptionId, redirectUrl))))))))"

definition cardpay_CreateRecurringSubscription :: "ext \<Rightarrow> order \<Rightarrow> subscription \<Rightarrow> string \<Rightarrow> string \<Rightarrow> string go_map \<Rightarrow>
    (subscription \<times> (go_err + string)) io" where
  "cardpay_CreateRecurringSubscription X ordr sub successUrl failUrl requisites =
     bind (try_go (createRecurringPlan X ordr)) (\<lambda>r. case r of
       Inl e \<Rightarrow> ret (sub\<lparr>sub_CardpayPlanId := []\<rparr>, Inl e)
     | Inr planId \<Rightarrow>
       let planned = sub\<lparr>sub_CardpayPlanId := planId\<rparr> in
       bind (try_go (createRecurringSubscription X ordr planId successUrl failUrl requisites)) (\<lambda>r. case r of
         Inl e \<Rightarrow> ret (planned\<lparr>sub_CardpaySubscriptionId := []\<rparr>, Inl e)
       | Inr (subscriptionId, redirectUrl) \<Rightarrow>
           ret (planned\<lparr>sub_CardpaySubscriptionId := subscriptionId\<rparr>, Inr redirectUrl)))"

definition updateRecurringSubscription :: "ext \<Rightarrow> order \<Rightarrow> subscription \<Rightarrow> string \<Rightarrow> unit io" where
  "updateRecurringSubscription X ordr sub status =
     bind (request_time X) (\<lambda>time1.
     bind (request_time X) (\<lambda>time2.
     bind (getRequestWithAuth X ordr (UpdateBody \<lparr>cpup_RequestId = sub_CardpaySubscriptionId sub @ time1,
             cpup_RequestTime = time2, cpup_Operation = ''CHANGE_STATUS'', cpup_StatusTo = status\<rparr>)
             (PaymentSystemActionUpdateRecurringSubscription (sub_CardpaySubscriptionId sub))) (\<lambda>req.
     bind (http_do X req) (\<lambda>rsp.
     if hrsp_StatusCode rsp \<notin> {200, 404} then throw paymentSystemErrorUpdateRecurringSubscriptionFailed else ret ()))))"

definition cardpay_DeleteRecurringSubscription :: "ext \<Rightarrow> order \<Rightarrow> subscription \<Rightarrow> unit io" where
  "cardpay_DeleteRecurringSubscription X ordr sub = updateRecurringSubscription X ordr sub cardPayStatusCancelled"

definition deleteRecurringPlan :: "ext \<Rightarrow> order \<Rightarrow> subscription \<Rightarrow> unit io" where
  "deleteRecurringPlan X ordr sub =
     bind (getRequestWithAuth X ordr NoBody (PaymentSystemActionDeleteRecurringPlan (sub_CardpayPlanId sub))) (\<lambda>req.
     bind (http_do X req) (\<lambda>rsp.
     if hrsp_StatusCode rsp \<noteq> 200 then throw paymentSystemErrorDeleteRecurringPlanFailed else ret ()))"

section \<open>The registry of gateways\<close>

text \<open>The handlers that the service registers, with the test gateways that are registered beside CardPay.\<close>

datatype gateway = GatewayCardPay | GatewayMockOk | GatewayMockError | GatewayCardPayMock

definition PaymentSystemHandlerCardPay :: string where "PaymentSystemHandlerCardPay = ''cardpay''"
definition PaymentSystemHandlerMockOk :: string where "PaymentSystemHandlerMockOk = ''mock_ok''"
definition PaymentSystemHandlerMockError :: string where "PaymentSystemHandlerMockError = ''mock_error''"
definition PaymentSystemHandlerCardPayMock :: string where "PaymentSystemHandlerCardPayMock = ''cardpay_mock''"

lemmas gateway_names = PaymentSystemHandlerCardPay_def PaymentSystemHandlerMockOk_def
  PaymentSystemHandlerMockError_def PaymentSystemHandlerCardPayMock_def

definition PaymentSystemErrorHandlerNotFound :: go_err where
  "PaymentSystemErrorHandlerNotFound = ResponseErrorMessage ''ph000001'' ''handler for specified payment system not found''"

definition GetGateway :: "string \<Rightarrow> go_err + gateway" where
  "GetGateway name =
     (if name = PaymentSystemHandlerCardPay then Inr GatewayCardPay
      else if name = PaymentSystemHandlerMockOk then Inr GatewayMockOk
      else if name = PaymentSystemHandlerMockError then Inr GatewayMockError
      else if name = PaymentSystemHandlerCardPayMock then Inr GatewayCardPayMock
      else Inl PaymentSystemErrorHandlerNotFound)"

definition mock_time :: "ext \<Rightarrow> string \<Rightarrow> timestamp option" where
  "mock_time X v = (case x_timestamp_proto X (case x_parse_time X CardPayDateFormat v of
       Inl _ \<Rightarrow> time_zero | Inr t \<Rightarrow> t) of Inl _ \<Rightarrow> None | Inr ts \<Rightarrow> Some ts)"

definition mock_ProcessPayment :: "ext \<Rightarrow> order \<Rightarrow> payment_callback \<Rightarrow> (order \<times> (int \<times> go_err) option) io" where
  "mock_ProcessPayment X ordr req =
     bind (deref (pcb_MaskedPan req)) (\<lambda>pan.
     ret (ordr\<lparr>order_PaymentMethodTxnParams := Some [(''emission_country'', ''US''), (''token'', []), (''rrn'', []),
            (''is_3ds'', ''1''), (''pan'', pan), (''card_holder'', ''UNIT TEST'')],
          order_PrivateStatus := OrderStatusPaymentSystemComplete, order_Transaction := x_pcb_id X req,
          order_PaymentMethodOrderClosedAt := mock_time X (pcb_CallbackTime req)\<rparr>,
        if feq (x_pcb_amount X req) (Fin 123)
        then Some (StatusErrorValidation, PaymentSystemErrorRequestAmountOrCurrencyIsInvalid) else None))"

fun gw_CreatePayment :: "ext \<Rightarrow> gateway \<Rightarrow> order \<Rightarrow> string \<Rightarrow> string \<Rightarrow> string go_map \<Rightarrow> (order \<times> (go_err + string)) io" where
  "gw_CreatePayment X GatewayCardPay ordr successUrl failUrl requisites =
     cardpay_CreatePayment X ordr successUrl failUrl requisites"
| "gw_CreatePayment X GatewayCardPayMock ordr successUrl failUrl requisites =
     ret (ordr\<lparr>order_PrivateStatus := OrderStatusPaymentSystemCreate\<rparr>, Inr ''http://localhost'')"
| "gw_CreatePayment X _ ordr successUrl failUrl requisites = ret (ordr, Inr [])"

fun gw_ProcessPayment :: "ext \<Rightarrow> gateway \<Rightarrow> order \<Rightarrow> payment_callback \<Rightarrow> string \<Rightarrow> string \<Rightarrow>
    (order \<times> (int \<times> go_err) option) io" where
  "gw_ProcessPayment X GatewayCardPay ordr req raw signature = cardpay_ProcessPayment X ordr req raw signature"
| "gw_ProcessPayment X GatewayCardPayMock ordr req raw signature = mock_ProcessPayment X ordr req"
| "gw_ProcessPayment X _ ordr req raw signature = ret (ordr, None)"

fun gw_CreateRefund :: "ext \<Rightarrow> gateway \<Rightarrow> order \<Rightarrow> refund \<Rightarrow> (refund \<times> go_err option) io" where
  "gw_CreateRefund X GatewayCardPay ordr refund = cardpay_CreateRefund X ordr refund"
| "gw_CreateRefund X GatewayMockOk ordr refund = bind (new_oid X) (\<lambda>oid.
     ret (refund\<lparr>refund_Status := RefundStatusInProgress, refund_ExternalId := x_oid_hex X oid\<rparr>, None))"
| "gw_CreateRefund X GatewayMockError ordr refund =
     ret (refund\<lparr>refund_Status := RefundStatusRejected\<rparr>, Some PaymentSystemErrorCreateRefundFailed)"
| "gw_CreateRefund X GatewayCardPayMock ordr refund =
     ret (refund\<lparr>refund_Status := RefundStatusInProgress, refund_ExternalId := ''0987654321''\<rparr>, None)"

text \<open>One of the test gateways also changes the order.\<close>

fun gw_ProcessRefund :: "ext \<Rightarrow> gateway \<Rightarrow> order \<Rightarrow> refund \<Rightarrow> refund_callback \<Rightarrow> string \<Rightarrow> string \<Rightarrow>
    (order \<times> refund \<times> (rsp_status \<times> go_err) option) io" where
  "gw_ProcessRefund X GatewayCardPay ordr refund req raw signature =
     bind (cardpay_ProcessRefund X ordr refund req raw signature) (\<lambda>(r, e). ret (ordr, r, e))"
| "gw_ProcessRefund X GatewayMockOk ordr refund req raw signature = bind (new_oid X) (\<lambda>oid.
     ret (ordr, refund\<lparr>refund_Status := RefundStatusCompleted, refund_ExternalId := x_oid_hex X oid\<rparr>, None))"
| "gw_ProcessRefund X GatewayMockError ordr refund req raw signature =
     ret (ordr, refund\<lparr>refund_Status := RefundStatusRejected\<rparr>,
       Some (ResponseStatusBadData, PaymentSystemErrorRefundRequestAmountOrCurrencyIsInvalid))"
| "gw_ProcessRefund X GatewayCardPayMock ordr refund req raw signature =
     (let ts = mock_time X (rcb_CallbackTime req) in
      ret (ordr\<lparr>order_PaymentMethodOrderClosedAt := ts\<rparr>,
        refund\<lparr>refund_Status := (if refund_Reason refund = ''unit test decline'' then RefundStatusPaymentSystemDeclined
                 else RefundStatusCompleted),
               refund_ExternalId := ''0987654321'', refund_UpdatedAt := ts\<rparr>, None))"

fun gw_IsSubscriptionCallback :: "gateway \<Rightarrow> payment_callback \<Rightarrow> bool" where
  "gw_IsSubscriptionCallback GatewayCardPay req = cardpay_IsSubscriptionCallback req"
| "gw_IsSubscriptionCallback _ req = False"

fun gw_CanSaveCard :: "ext \<Rightarrow> gateway \<Rightarrow> payment_callback \<Rightarrow> bool" where
  "gw_CanSaveCard X GatewayCardPay req = cardpay_CanSaveCard X req"
| "gw_CanSaveCard X _ req = False"

fun gw_GetRecurringId :: "gateway \<Rightarrow> payment_callback \<Rightarrow> string io" where
  "gw_GetRecurringId GatewayCardPay req = cardpay_GetRecurringId req"
| "gw_GetRecurringId GatewayCardPayMock req = ret ''0987654321''"
| "gw_GetRecurringId _ req = ret []"

fun gw_DeleteRecurringSubscription :: "ext \<Rightarrow> gateway \<Rightarrow> order \<Rightarrow> subscription \<Rightarrow> unit io" where
  "gw_DeleteRecurringSubscription X GatewayCardPay ordr sub = cardpay_DeleteRecurringSubscription X ordr sub"
| "gw_DeleteRecurringSubscription X _ ordr sub = ret ()"

fun gw_CreateRecurringSubscription :: "ext \<Rightarrow> gateway \<Rightarrow> order \<Rightarrow> subscription \<Rightarrow> string \<Rightarrow> string \<Rightarrow> string go_map \<Rightarrow>
    (subscription \<times> (go_err + string)) io" where
  "gw_CreateRecurringSubscription X GatewayCardPay ordr sub successUrl failUrl requisites =
     cardpay_CreateRecurringSubscription X ordr sub successUrl failUrl requisites"
| "gw_CreateRecurringSubscription X GatewayCardPayMock ordr sub successUrl failUrl requisites =
     ret (sub, Inr ''http://localhost'')"
| "gw_CreateRecurringSubscription X _ ordr sub successUrl failUrl requisites = ret (sub, Inr [])"

end
