(* ===== verification/Customers.thy ===== *)
theory Customers
  imports Catalogue "HOL-Library.AList"
begin

text \<open>
  Customers: the mapper of internal/repository/models/customer.go, the repository of
  internal/repository/customer.go, and what internal/service/token.go and customer.go do with a customer. A
  customer is found by one of the identities a merchant knows; whatever a request says of the customer is
  written into it, with histories of addresses and languages.
\<close>

section \<open>Errors\<close>

definition orderErrorUnknown :: go_err where
  "orderErrorUnknown = ResponseErrorMessage ''fm000025'' ''unknown error. try request later''"
definition orderErrorPayerRegionUnknown :: go_err where
  "orderErrorPayerRegionUnknown = ResponseErrorMessage ''fm000011'' ''payer region can't be found''"
definition tokenErrorUnknown :: go_err where
  "tokenErrorUnknown = ResponseErrorMessage ''tk000001'' ''unknown token error''"
definition customerNotFound :: go_err where
  "customerNotFound = ResponseErrorMessage ''tk000002'' ''customer by specified data not found''"
definition tokenErrorNotFound :: go_err where
  "tokenErrorNotFound = ResponseErrorMessage ''tk000003'' ''token not found''"
definition errorCustomerOrderTypeNotSupport :: go_err where
  "errorCustomerOrderTypeNotSupport = ResponseErrorMessage ''cm000001'' ''order type is not support''"
definition errorCustomerUnknown :: go_err where
  "errorCustomerUnknown = ResponseErrorMessage ''cm000002'' ''unknown error''"

section \<open>The mapper\<close>

text \<open>
  Where the error of a conversion is dropped: an instant is that of the contents of the timestamp, whether
  or not they are valid, and a timestamp is nil.
\<close>

definition instant_of :: "timestamp option \<Rightarrow> gotime" where
  "instant_of t = (case t of None \<Rightarrow> 0 | Some (Timestamp s n) \<Rightarrow> s * 1000000000 + n)"

definition timestamp_or_nil :: "ext \<Rightarrow> gotime \<Rightarrow> timestamp option" where
  "timestamp_or_nil X t = (case x_timestamp_proto X t of Inl _ \<Rightarrow> None | Inr ts \<Rightarrow> Some ts)"

definition identity_to_mgo :: "ext \<Rightarrow> customer_identity \<Rightarrow> go_err + (oid, gotime) customer_identity_of" where
  "identity_to_mgo X v =
     bind_err (x_oid_from_hex X (ci_MerchantId v)) (\<lambda>merchantOid.
     bind_err (x_oid_from_hex X (ci_ProjectId v)) (\<lambda>projectOid.
     Inr \<lparr>ci_MerchantId = merchantOid, ci_ProjectId = projectOid, ci_Type = ci_Type v, ci_Value = ci_Value v,
          ci_Verified = ci_Verified v, ci_CreatedAt = instant_of (ci_CreatedAt v)\<rparr>))"

definition identity_from_mgo :: "ext \<Rightarrow> (oid, gotime) customer_identity_of \<Rightarrow> customer_identity" where
  "identity_from_mgo X v = \<lparr>ci_MerchantId = x_oid_hex X (ci_MerchantId v), ci_ProjectId = x_oid_hex X (ci_ProjectId v),
     ci_Type = ci_Type v, ci_Value = ci_Value v, ci_Verified = ci_Verified v,
     ci_CreatedAt = timestamp_or_nil X (ci_CreatedAt v)\<rparr>"

definition ip_history_map :: "('s \<Rightarrow> 't) \<Rightarrow> 's ip_history_of \<Rightarrow> 't ip_history_of" where
  "ip_history_map f v = \<lparr>ih_Ip = ih_Ip v, ih_IpString = ih_IpString v, ih_Address = ih_Address v, ih_CreatedAt = f (ih_CreatedAt v)\<rparr>"

definition address_history_map :: "('s \<Rightarrow> 't) \<Rightarrow> 's address_history_of \<Rightarrow> 't address_history_of" where
  "address_history_map f v = \<lparr>ah_Country = ah_Country v, ah_City = ah_City v, ah_PostalCode = ah_PostalCode v,
     ah_State = ah_State v, ah_CreatedAt = f (ah_CreatedAt v)\<rparr>"

definition value_history_map :: "('s \<Rightarrow> 't) \<Rightarrow> 's value_history_of \<Rightarrow> 't value_history_of" where
  "value_history_map f v = \<lparr>vh_Value = vh_Value v, vh_CreatedAt = f (vh_CreatedAt v)\<rparr>"

definition activity_map :: "('s \<Rightarrow> go_err + 't) \<Rightarrow> 's payment_activity_of \<Rightarrow> go_err + 't payment_activity_of" where
  "activity_map f a =
     bind_err (f (pa_LastPayment a)) (\<lambda>payment.
     bind_err (f (pa_LastRefund a)) (\<lambda>refund.
     Inr \<lparr>pa_CountPayment = pa_CountPayment a, pa_CountRefund = pa_CountRefund a, pa_LastPayment = payment,
          pa_LastRefund = refund, pa_RevenuePayment = pa_RevenuePayment a, pa_RevenueRefund = pa_RevenueRefund a,
          pa_RevenueTotal = pa_RevenueTotal a\<rparr>))"

definition activity_instant :: "ext \<Rightarrow> timestamp option \<Rightarrow> go_err + gotime" where
  "activity_instant X t = (case t of None \<Rightarrow> Inr time_zero | Some _ \<Rightarrow> x_timestamp X t)"

definition activity_timestamp :: "ext \<Rightarrow> gotime \<Rightarrow> go_err + timestamp option" where
  "activity_timestamp X t = bind_err (x_timestamp_proto X t) (\<lambda>ts. Inr (Some ts))"

definition customer_to_mgo :: "ext \<Rightarrow> customer \<Rightarrow> mgo_customer io" where
  "customer_to_mgo X c =
     bind (oid_or_new X (cust_Id c)) (\<lambda>oid.
     bind (time_or_now X (cust_CreatedAt c)) (\<lambda>createdAt.
     bind (time_or_now X (cust_UpdatedAt c)) (\<lambda>updatedAt.
     bind (lift (map_err (identity_to_mgo X) (cust_Identity c))) (\<lambda>identity.
     bind (lift (map_err (\<lambda>(k, a). bind_err (activity_map (activity_instant X) a) (\<lambda>d. Inr (k, d)))
       (case cust_PaymentActivity c of None \<Rightarrow> [] | Some kvs \<Rightarrow> kvs))) (\<lambda>activity.
     ret \<lparr>cust_Id = oid, cust_TechEmail = cust_TechEmail c, cust_ExternalId = cust_ExternalId c, cust_Email = cust_Email c,
          cust_EmailVerified = cust_EmailVerified c, cust_Phone = cust_Phone c, cust_PhoneVerified = cust_PhoneVerified c,
          cust_Name = cust_Name c, cust_Ip = cust_Ip c, cust_IpString = cust_IpString c, cust_Locale = cust_Locale c,
          cust_AcceptLanguage = cust_AcceptLanguage c, cust_UserAgent = cust_UserAgent c, cust_Address = cust_Address c,
          cust_Identity = identity, cust_IpHistory = map (ip_history_map instant_of) (cust_IpHistory c),
          cust_AddressHistory = map (address_history_map instant_of) (cust_AddressHistory c),
          cust_LocaleHistory = map (value_history_map instant_of) (cust_LocaleHistory c),
          cust_AcceptLanguageHistory = map (value_history_map instant_of) (cust_AcceptLanguageHistory c),
          cust_Metadata = cust_Metadata c, cust_CreatedAt = createdAt, cust_UpdatedAt = updatedAt,
          cust_NotifySale = cust_NotifySale c, cust_NotifySaleEmail = cust_NotifySaleEmail c,
          cust_NotifyNewRegion = cust_NotifyNewRegion c, cust_NotifyNewRegionEmail = cust_NotifyNewRegionEmail c,
          cust_PaymentActivity = activity, cust_Uuid = cust_Uuid c\<rparr>)))))"

definition customer_from_mgo :: "ext \<Rightarrow> mgo_customer \<Rightarrow> go_err + customer" where
  "customer_from_mgo X d =
     bind_err (x_timestamp_proto X (cust_CreatedAt d)) (\<lambda>createdAt.
     bind_err (x_timestamp_proto X (cust_UpdatedAt d)) (\<lambda>updatedAt.
     bind_err (map_err (\<lambda>(k, a). bind_err (activity_map (activity_timestamp X) a) (\<lambda>m. Inr (k, m)))
       (cust_PaymentActivity d)) (\<lambda>activity.
     Inr \<lparr>cust_Id = x_oid_hex X (cust_Id d), cust_TechEmail = cust_TechEmail d, cust_ExternalId = cust_ExternalId d,
          cust_Email = cust_Email d, cust_EmailVerified = cust_EmailVerified d, cust_Phone = cust_Phone d,
          cust_PhoneVerified = cust_PhoneVerified d, cust_Name = cust_Name d, cust_Ip = cust_Ip d,
          cust_IpString = cust_IpString d, cust_Locale = cust_Locale d, cust_AcceptLanguage = cust_AcceptLanguage d,
          cust_UserAgent = cust_UserAgent d, cust_Address = cust_Address d,
          cust_Identity = map (identity_from_mgo X) (cust_Identity d),
          cust_IpHistory = map (ip_history_map (timestamp_or_nil X)) (cust_IpHistory d),
          cust_AddressHistory = map (address_history_map (timestamp_or_nil X)) (cust_AddressHistory d),
          cust_LocaleHistory = map (value_history_map (timestamp_or_nil X)) (cust_LocaleHistory d),
          cust_AcceptLanguageHistory = map (value_history_map (timestamp_or_nil X)) (cust_AcceptLanguageHistory d),
          cust_Metadata = cust_Metadata d, cust_CreatedAt = Some createdAt, cust_UpdatedAt = Some updatedAt,
          cust_NotifySale = cust_NotifySale d, cust_NotifySaleEmail = cust_NotifySaleEmail d,
          cust_NotifyNewRegion = cust_NotifyNewRegion d, cust_NotifyNewRegionEmail = cust_NotifyNewRegionEmail d,
          cust_PaymentActivity = Some (foldl (\<lambda>m (k, a). AList.update k a m) [] activity), cust_Uuid = cust_Uuid d\<rparr>)))"

section \<open>The repository\<close>

definition customerrepo_Insert :: "ext \<Rightarrow> customer \<Rightarrow> unit io" where
  "customerrepo_Insert X = repo_insert X w_customers w_customers_update cust_Id (customer_to_mgo X)"

definition customerrepo_Update :: "ext \<Rightarrow> customer \<Rightarrow> unit io" where
  "customerrepo_Update X = repo_update X w_customers_update cust_Id cust_Id (customer_to_mgo X)"

definition customerrepo_GetById :: "ext \<Rightarrow> string \<Rightarrow> customer io" where
  "customerrepo_GetById X = repo_get X w_customers cust_Id (customer_from_mgo X)"

definition UserIdentityTypeEmail :: string where "UserIdentityTypeEmail = ''email''"
definition UserIdentityTypePhone :: string where "UserIdentityTypePhone = ''phone''"
definition UserIdentityTypeExternal :: string where "UserIdentityTypeExternal = ''external''"

text \<open>One of the identities that the request names is enough.\<close>

definition identity_queries :: "token_user \<Rightarrow> (string \<times> string) list" where
  "identity_queries user =
     (if tu_Id user \<noteq> [] then [(UserIdentityTypeExternal, tu_Id user)] else []) @
     (case tu_Email user of None \<Rightarrow> [] | Some (v, _) \<Rightarrow> if v \<noteq> [] then [(UserIdentityTypeEmail, v)] else []) @
     (case tu_Phone user of None \<Rightarrow> [] | Some (v, _) \<Rightarrow> if v \<noteq> [] then [(UserIdentityTypePhone, v)] else [])"

definition has_identity :: "oid \<Rightarrow> (string \<times> string) list \<Rightarrow> mgo_customer \<Rightarrow> bool" where
  "has_identity merchant qs d \<longleftrightarrow> list_ex (\<lambda>(t, v). list_ex (\<lambda>i. ci_Type i = t \<and> ci_MerchantId i = merchant \<and> ci_Value i = v)
     (cust_Identity d)) qs"

definition customerrepo_Find :: "ext \<Rightarrow> string \<Rightarrow> token_user \<Rightarrow> customer io" where
  "customerrepo_Find X merchantId user =
     bind (if merchantId \<noteq> [] then lift (x_oid_from_hex X merchantId) else ret nil_oid) (\<lambda>merchantOid.
     if identity_queries user = [] then throw ErrNoDocuments
     else bind (find_one X w_customers (has_identity merchantOid (identity_queries user))) (\<lambda>d.
       lift (customer_from_mgo X d)))"

section \<open>Addresses and languages\<close>

definition getAddressByIp :: "ext \<Rightarrow> string \<Rightarrow> address io" where
  "getAddressByIp X ip =
     bind (replace_err orderErrorPayerRegionUnknown (rpc (\<lambda>n. x_geo_ip X n ip))) (\<lambda>rsp.
     bind (deref (geo_Country rsp)) (\<lambda>country.
     bind (deref (geo_CityNames rsp)) (\<lambda>names.
     ret \<lparr>ad_Country = country, ad_City = go_get names ''en'',
          ad_PostalCode = (case geo_PostalCode rsp of None \<Rightarrow> [] | Some code \<Rightarrow> code),
          ad_State = (case geo_Subdivisions rsp of [] \<Rightarrow> [] | s # _ \<Rightarrow> s)\<rparr>)))"

definition getCountryFromAcceptLanguage :: "string \<Rightarrow> string \<times> string" where
  "getCountryFromAcceptLanguage acceptLanguage =
     (let it = takeWhile (\<lambda>c. c \<noteq> CHR '','') acceptLanguage in
      if CHR ''-'' \<notin> set it then ([], [])
      else (it, go_upper (takeWhile (\<lambda>c. c \<noteq> CHR ''-'') (tl (dropWhile (\<lambda>c. c \<noteq> CHR ''-'') it)))))"

section \<open>What a request says of a customer\<close>

text \<open>
  An identity that differs only in whether it is verified is replaced; every other new identity is
  added, also one that is there already.
\<close>

definition identity_changes :: "customer_identity \<Rightarrow> customer_identity \<Rightarrow> bool" where
  "identity_changes new v \<longleftrightarrow> ci_Type v = ci_Type new \<and> ci_ProjectId v = ci_ProjectId new \<and>
     ci_MerchantId v = ci_MerchantId new \<and> ci_Value v = ci_Value new \<and> ci_Verified v \<noteq> ci_Verified new"

definition processCustomerIdentity :: "customer_identity list \<Rightarrow> customer_identity \<Rightarrow> customer_identity list" where
  "processCustomerIdentity current new =
     (if list_ex (identity_changes new) current then map (\<lambda>v. if identity_changes new v then new else v) current
      else current @ [new])"

definition add_identity :: "ext \<Rightarrow> string \<Rightarrow> string \<Rightarrow> string \<Rightarrow> string \<Rightarrow> bool \<Rightarrow> customer \<Rightarrow> customer io" where
  "add_identity X merchantId projectId t v verified c =
     bind (timestamp_now X) (\<lambda>now.
     ret (c\<lparr>cust_Identity := processCustomerIdentity (cust_Identity c) \<lparr>ci_MerchantId = merchantId, ci_ProjectId = projectId,
       ci_Type = t, ci_Value = v, ci_Verified = verified, ci_CreatedAt = Some now\<rparr>\<rparr>))"

definition process_identities :: "ext \<Rightarrow> token_user \<Rightarrow> string \<Rightarrow> string \<Rightarrow> customer \<Rightarrow> customer io" where
  "process_identities X user merchantId projectId c =
     bind (if tu_Id user \<noteq> [] \<and> tu_Id user \<noteq> cust_ExternalId c
       then add_identity X merchantId projectId UserIdentityTypeExternal (tu_Id user) True (c\<lparr>cust_ExternalId := tu_Id user\<rparr>)
       else ret c) (\<lambda>c.
     bind (case tu_Email user of None \<Rightarrow> ret c
       | Some (v, verified) \<Rightarrow> if cust_Email c \<noteq> v \<or> cust_EmailVerified c \<noteq> verified
           then add_identity X merchantId projectId UserIdentityTypeEmail v verified
             (c\<lparr>cust_Email := v, cust_EmailVerified := verified\<rparr>)
           else ret c) (\<lambda>c.
     case tu_Phone user of None \<Rightarrow> ret c
       | Some (v, verified) \<Rightarrow> if cust_Phone c \<noteq> v \<or> cust_PhoneVerified c \<noteq> verified
           then add_identity X merchantId projectId UserIdentityTypePhone v verified
             (c\<lparr>cust_Phone := v, cust_PhoneVerified := verified\<rparr>)
           else ret c))"

text \<open>A new address of the network is looked up; the request gets its place when it has no address of its own.\<close>

definition process_ip :: "ext \<Rightarrow> token_user \<Rightarrow> customer \<Rightarrow> (token_user \<times> customer) io" where
  "process_ip X user c = (case tu_Ip user of None \<Rightarrow> ret (user, c)
     | Some ip \<Rightarrow> if ip = [] then ret (user, c) else
       let c = c\<lparr>cust_Ip := x_parse_ip X ip, cust_IpString := ip\<rparr> in
       if list_ex (\<lambda>v. ih_IpString v = ip) (cust_IpHistory c) then ret (user, c)
       else bind (timestamp_now X) (\<lambda>now.
         bind (try_go (getAddressByIp X ip)) (\<lambda>r.
         let found = (case r of Inl _ \<Rightarrow> None | Inr a \<Rightarrow> Some a);
             history = \<lparr>ih_Ip = x_parse_ip X ip, ih_IpString = ip, ih_Address = found, ih_CreatedAt = Some now\<rparr>
         in ret (if tu_Address user = None \<and> found \<noteq> None then user\<lparr>tu_Address := found\<rparr> else user,
                 c\<lparr>cust_IpHistory := cust_IpHistory c @ [history]\<rparr>))))"

definition process_locale :: "ext \<Rightarrow> token_user \<Rightarrow> customer \<Rightarrow> customer io" where
  "process_locale X user c = (case tu_Locale user of None \<Rightarrow> ret c
     | Some locale \<Rightarrow> if locale \<noteq> [] \<and> cust_Locale c \<noteq> locale then
         bind (timestamp_now X) (\<lambda>now.
         ret (c\<lparr>cust_Locale := locale, cust_LocaleHistory := (if cust_Locale c \<noteq> []
           then cust_LocaleHistory c @ [\<lparr>vh_Value = cust_Locale c, vh_CreatedAt = Some now\<rparr>] else cust_LocaleHistory c)\<rparr>))
       else ret c)"

text \<open>
  The addresses of the request and of the customer are compared as pointers, which never are the same: the
  customer was just read or created.
\<close>

definition process_address :: "ext \<Rightarrow> token_user \<Rightarrow> customer \<Rightarrow> customer io" where
  "process_address X user c = (case tu_Address user of None \<Rightarrow> ret c
     | Some a \<Rightarrow> let c = c\<lparr>cust_Address := Some a\<rparr> in
       if list_ex (\<lambda>v. ah_Country v = ad_Country a \<and> ah_PostalCode v = ad_PostalCode a) (cust_AddressHistory c) then ret c
       else bind (timestamp_now X) (\<lambda>now. ret (c\<lparr>cust_AddressHistory := cust_AddressHistory c @
         [\<lparr>ah_Country = ad_Country a, ah_City = ad_City a, ah_PostalCode = ad_PostalCode a, ah_State = ad_State a,
           ah_CreatedAt = Some now\<rparr>]\<rparr>)))"

definition process_browser :: "ext \<Rightarrow> token_user \<Rightarrow> customer \<Rightarrow> customer io" where
  "process_browser X user c =
     (let c = (if tu_UserAgent user \<noteq> [] then c\<lparr>cust_UserAgent := tu_UserAgent user\<rparr> else c) in
      if tu_AcceptLanguage user \<noteq> [] \<and> cust_AcceptLanguage c \<noteq> tu_AcceptLanguage user then
        bind (timestamp_now X) (\<lambda>now.
        ret (c\<lparr>cust_AcceptLanguage := tu_AcceptLanguage user, cust_AcceptLanguageHistory := (if cust_AcceptLanguage c \<noteq> []
          then cust_AcceptLanguageHistory c @ [\<lparr>vh_Value = cust_AcceptLanguage c, vh_CreatedAt = Some now\<rparr>]
          else cust_AcceptLanguageHistory c)\<rparr>))
      else ret c)"

definition no_activity :: payment_activity where
  "no_activity = \<lparr>pa_CountPayment = 0, pa_CountRefund = 0, pa_LastPayment = None, pa_LastRefund = None,
     pa_RevenuePayment = 0, pa_RevenueRefund = 0, pa_RevenueTotal = 0\<rparr>"

text \<open>Writing into a nil map panics.\<close>

definition process_activity :: "ext \<Rightarrow> string \<Rightarrow> customer \<Rightarrow> customer io" where
  "process_activity X merchantId c =
     bind (case cust_PaymentActivity c of None \<Rightarrow> throw go_panic
       | Some m \<Rightarrow> ret (if map_of m merchantId = None
           then c\<lparr>cust_PaymentActivity := Some (AList.update merchantId no_activity m)\<rparr> else c)) (\<lambda>c.
     if cust_Uuid c = [] then bind (reading (x_uuid X)) (\<lambda>u. ret (c\<lparr>cust_Uuid := u\<rparr>)) else ret c)"

definition processCustomer :: "ext \<Rightarrow> token_user \<Rightarrow> string \<Rightarrow> string \<Rightarrow> customer \<Rightarrow> (token_user \<times> customer) io" where
  "processCustomer X user merchantId projectId c =
     bind (process_identities X user merchantId projectId c) (\<lambda>c.
     let c = (case tu_Name user of None \<Rightarrow> c | Some name \<Rightarrow> c\<lparr>cust_Name := name\<rparr>) in
     bind (process_ip X user c) (\<lambda>(user, c).
     bind (process_locale X user c) (\<lambda>c.
     bind (process_address X user c) (\<lambda>c.
     bind (process_browser X user c) (\<lambda>c.
     bind (process_activity X merchantId c) (\<lambda>c. ret (user, c)))))))"

section \<open>Customers of the service\<close>

definition TechEmailDomain :: string where "TechEmailDomain = ''@paysuper.com''"

definition createCustomer :: "ext \<Rightarrow> token_user \<Rightarrow> string \<Rightarrow> string \<Rightarrow> (token_user \<times> customer) io" where
  "createCustomer X user merchantId projectId =
     bind (new_oid X) (\<lambda>oid.
     bind (reading (x_uuid X)) (\<lambda>uuid.
     bind (timestamp_now X) (\<lambda>createdAt.
     bind (timestamp_now X) (\<lambda>updatedAt.
     bind (processCustomer X user merchantId projectId
       \<lparr>cust_Id = x_oid_hex X oid, cust_TechEmail = x_oid_hex X oid @ TechEmailDomain, cust_ExternalId = [], cust_Email = [],
        cust_EmailVerified = False, cust_Phone = [], cust_PhoneVerified = False, cust_Name = [], cust_Ip = [],
        cust_IpString = [], cust_Locale = [], cust_AcceptLanguage = [], cust_UserAgent = [], cust_Address = None,
        cust_Identity = [], cust_IpHistory = [], cust_AddressHistory = [], cust_LocaleHistory = [],
        cust_AcceptLanguageHistory = [], cust_Metadata = tu_Metadata user, cust_CreatedAt = Some createdAt,
        cust_UpdatedAt = Some updatedAt, cust_NotifySale = False, cust_NotifySaleEmail = [],
        cust_NotifyNewRegion = False, cust_NotifyNewRegionEmail = [], cust_PaymentActivity = Some [], cust_Uuid = uuid\<rparr>) (\<lambda>(user, c).
     bind (try_go (customerrepo_Insert X c)) (\<lambda>r. case r of Inl _ \<Rightarrow> throw tokenErrorUnknown
       | Inr _ \<Rightarrow> ret (user, c)))))))"

definition updateCustomer :: "ext \<Rightarrow> token_user \<Rightarrow> string \<Rightarrow> string \<Rightarrow> customer \<Rightarrow> (token_user \<times> customer) io" where
  "updateCustomer X user merchantId projectId c =
     bind (processCustomer X user merchantId projectId c) (\<lambda>(user, c).
     bind (try_go (customerrepo_Update X c)) (\<lambda>r. case r of Inl _ \<Rightarrow> throw tokenErrorUnknown
       | Inr _ \<Rightarrow> ret (user, c)))"

definition getCustomerById :: "ext \<Rightarrow> string \<Rightarrow> customer io" where
  "getCustomerById X i = bind (try_go (customerrepo_GetById X i)) (\<lambda>r. case r of
     Inl e \<Rightarrow> throw (if e \<noteq> ErrNoDocuments then orderErrorUnknown else customerNotFound) | Inr c \<Rightarrow> ret c)"

definition findCustomer :: "ext \<Rightarrow> token_user \<Rightarrow> string \<Rightarrow> customer io" where
  "findCustomer X user merchantId = bind (try_go (customerrepo_Find X merchantId user)) (\<lambda>r. case r of
     Inl e \<Rightarrow> throw (if e \<noteq> ErrNoDocuments then orderErrorUnknown else customerNotFound) | Inr c \<Rightarrow> ret c)"

text \<open>The language of a request is always taken from the header, also when the caller has set another one.\<close>

definition request_user :: "token_user \<Rightarrow> string \<Rightarrow> string \<Rightarrow> string \<Rightarrow> token_user" where
  "request_user user ip acceptLanguage userAgent = user\<lparr>tu_Ip := Some ip, tu_AcceptLanguage := acceptLanguage,
     tu_UserAgent := userAgent, tu_Locale := Some (fst (getCountryFromAcceptLanguage acceptLanguage))\<rparr>"

definition updateCustomerFromRequest :: "ext \<Rightarrow> order \<Rightarrow> token_user \<Rightarrow> string \<Rightarrow> string \<Rightarrow> string \<Rightarrow> customer io" where
  "updateCustomerFromRequest X ordr user ip acceptLanguage userAgent =
     bind (deref (order_User ordr)) (\<lambda>u.
     bind (getCustomerById X (ou_Id u)) (\<lambda>c.
     bind (updateCustomer X (request_user user ip acceptLanguage userAgent) (order_ProjectMerchantId ordr) (order_ProjectId ordr) c)
       (\<lambda>(_, c). ret c)))"

definition createCustomerFromRequest :: "ext \<Rightarrow> order \<Rightarrow> token_user \<Rightarrow> string \<Rightarrow> string \<Rightarrow> string \<Rightarrow> customer io" where
  "createCustomerFromRequest X ordr user ip acceptLanguage userAgent =
     bind (createCustomer X (request_user user ip acceptLanguage userAgent) (order_ProjectMerchantId ordr) (order_ProjectId ordr))
       (\<lambda>(_, c). ret c)"

definition no_token_user :: token_user where
  "no_token_user = \<lparr>tu_Id = [], tu_Email = None, tu_Phone = None, tu_Name = None, tu_Ip = None, tu_Locale = None,
     tu_Address = None, tu_Metadata = None, tu_UserAgent = [], tu_AcceptLanguage = []\<rparr>"

definition updateCustomerFromRequestLocale :: "ext \<Rightarrow> order \<Rightarrow> string \<Rightarrow> string \<Rightarrow> string \<Rightarrow> string \<Rightarrow> unit io" where
  "updateCustomerFromRequestLocale X ordr ip acceptLanguage userAgent locale =
     bind (try_go (updateCustomerFromRequest X ordr (no_token_user\<lparr>tu_Locale := Some locale\<rparr>) ip acceptLanguage userAgent))
       (\<lambda>_. ret ())"

definition transformOrderUser2TokenRequest :: "order_user \<Rightarrow> token_user" where
  "transformOrderUser2TokenRequest u =
     \<lparr>tu_Id = ou_ExternalId u,
      tu_Email = (if ou_Email u \<noteq> [] then Some (ou_Email u, ou_EmailVerified u) else None),
      tu_Phone = (if ou_Phone u \<noteq> [] then Some (ou_Phone u, ou_PhoneVerified u) else None),
      tu_Name = (if ou_Name u \<noteq> [] then Some (ou_Name u) else None),
      tu_Ip = (if ou_Ip u \<noteq> [] then Some (ou_Ip u) else None),
      tu_Locale = (if ou_Locale u \<noteq> [] then Some (ou_Locale u) else None),
      tu_Address = ou_Address u,
      tu_Metadata = (case ou_Metadata u of Some (kv # kvs) \<Rightarrow> Some (kv # kvs) | _ \<Rightarrow> None),
      tu_UserAgent = [], tu_AcceptLanguage = []\<rparr>"

section \<open>Tokens and cookies\<close>

definition token_getKey :: "string \<Rightarrow> string" where "token_getKey token = ''paysuper:token:'' @ token"

definition setToken_customer :: "ext \<Rightarrow> string \<Rightarrow> customer_token \<Rightarrow> unit io" where
  "setToken_customer X token t = bind (calling X) (\<lambda>_. modify (w_customer_tokens_update (\<lambda>m. m(token_getKey token \<mapsto> t))))"

text \<open>A token that has expired is no longer there.\<close>

definition getTokenBy :: "ext \<Rightarrow> string \<Rightarrow> customer_token io" where
  "getTokenBy X token =
     replace_err tokenErrorNotFound (bind (calling X) (\<lambda>_.
     bind (reading (\<lambda>n. x_token_expired X n (token_getKey token))) (\<lambda>expired.
     bind (gets (\<lambda>s. w_customer_tokens s (token_getKey token))) (\<lambda>t.
     case t of None \<Rightarrow> throw cache_miss | Some v \<Rightarrow> if expired then throw cache_miss else ret v))))"

definition createToken :: "ext \<Rightarrow> token_user \<Rightarrow> token_settings \<Rightarrow> customer \<Rightarrow> string io" where
  "createToken X user settings c =
     bind (reading (x_token_string X)) (\<lambda>token.
     bind (setToken_customer X token \<lparr>tok_CustomerId = cust_Id c, tok_User = user, tok_Settings = settings\<rparr>) (\<lambda>_. ret token))"

definition decryptBrowserCookie :: "ext \<Rightarrow> string \<Rightarrow> browser_customer io" where
  "decryptBrowserCookie X cookie = lift (x_cookie_decrypt X cookie)"

definition generateBrowserCookie :: "ext \<Rightarrow> browser_customer \<Rightarrow> string io" where
  "generateBrowserCookie X c = rpc (\<lambda>n. x_cookie_encrypt X n c)"

section \<open>The activity of a customer\<close>

text \<open>The revenue of the payments is that of the last one; only the total adds up.\<close>

definition record_activity :: "bool \<Rightarrow> timestamp option \<Rightarrow> float64 \<Rightarrow> payment_activity \<Rightarrow> payment_activity" where
  "record_activity isOrder processingAt amount a =
     (let a = (if isOrder
        then a\<lparr>pa_CountPayment := pa_CountPayment a + 1, pa_LastPayment := processingAt, pa_RevenuePayment := amount,
               pa_RevenueTotal := pa_RevenueTotal a + amount\<rparr>
        else a\<lparr>pa_CountRefund := pa_CountRefund a + 1, pa_LastRefund := processingAt, pa_RevenueRefund := amount,
               pa_RevenueTotal := pa_RevenueTotal a - amount\<rparr>)
      in a\<lparr>pa_RevenuePayment := round_cents (pa_RevenuePayment a), pa_RevenueRefund := round_cents (pa_RevenueRefund a),
           pa_RevenueTotal := round_cents (pa_RevenueTotal a)\<rparr>)"

definition SetCustomerPaymentActivity ::
  "ext \<Rightarrow> string \<Rightarrow> string \<Rightarrow> string \<Rightarrow> timestamp option \<Rightarrow> float64 \<Rightarrow> unit response io" where
  "SetCustomerPaymentActivity X customerId merchantId orderType processingAt amount =
     (if orderType \<noteq> ''order'' \<and> orderType \<noteq> ''refund'' then ret (rsp_error ResponseStatusBadData errorCustomerOrderTypeNotSupport)
      else bind (try_go (customerrepo_GetById X customerId)) (\<lambda>r. case r of
        Inl _ \<Rightarrow> ret (rsp_error ResponseStatusNotFound customerNotFound)
      | Inr c \<Rightarrow>
        bind (deref (cust_PaymentActivity c)) (\<lambda>m.
        let old = (case map_of m merchantId of Some a \<Rightarrow> a
              | None \<Rightarrow> no_activity\<lparr>pa_LastPayment := Some (Timestamp 0 0), pa_LastRefund := Some (Timestamp 0 0)\<rparr>);
            new = record_activity (orderType = ''order'') processingAt amount old in
        bind (try_go (customerrepo_Update X (c\<lparr>cust_PaymentActivity := Some (AList.update merchantId new m)\<rparr>))) (\<lambda>r. case r of
          Inl _ \<Rightarrow> ret (rsp_error ResponseStatusSystemError errorCustomerUnknown)
        | Inr _ \<Rightarrow> ret (rsp_status_only ResponseStatusOk)))))"

end
