(* ===== verification/Pricing.thy ===== *)
theory Pricing
  imports Customers Keys
begin

text \<open>
  What an order costs (internal/service/order.go, with the lookups of product.go and key\_product.go):
  the products of the order, their prices in a group with the fallback to the group of the merchant,
  prices in a virtual currency, the tax, and the amount that a bank card is charged in its own currency. An order
  that the code changes in place is returned; where it is changed before an error is returned, no caller
  stores it.
\<close>

section \<open>Constants and errors\<close>

definition DefaultLanguage :: string where "DefaultLanguage = ''en''"
definition VatPayerBuyer :: string where "VatPayerBuyer = ''buyer''"
definition VatPayerSeller :: string where "VatPayerSeller = ''seller''"
definition VatPayerNobody :: string where "VatPayerNobody = ''nobody''"

lemmas vat_payers = VatPayerBuyer_def VatPayerSeller_def VatPayerNobody_def

definition OrderType_simple :: string where "OrderType_simple = ''simple''"
definition OrderType_key :: string where "OrderType_key = ''key''"
definition OrderType_product :: string where "OrderType_product = ''product''"
definition OrderTypeVirtualCurrency :: string where "OrderTypeVirtualCurrency = ''virtual_currency''"

lemmas order_types = OrderType_simple_def OrderType_key_def OrderType_product_def OrderTypeVirtualCurrency_def

definition CountryCodeUSA :: string where "CountryCodeUSA = ''US''"
definition taxTypeVat :: string where "taxTypeVat = ''vat''"
definition taxTypeSalesTax :: string where "taxTypeSalesTax = ''sales_tax''"

definition productErrorIdListEmpty :: go_err where
  "productErrorIdListEmpty = ResponseErrorMessage ''pd000007'' ''ids list is empty''"
definition productNoPriceInCurrencyError :: go_err where
  "productNoPriceInCurrencyError = ResponseErrorMessage ''pd000019'' ''no product price in requested currency''"
definition keyProductIdsIsEmpty :: go_err where "keyProductIdsIsEmpty = ResponseErrorMessage ''kp000007'' ''ids is empty''"
definition keyProductInternalError :: go_err where "keyProductInternalError = ResponseErrorMessage ''kp000018'' ''unknown error''"
definition orderErrorProjectInactive :: go_err where
  "orderErrorProjectInactive = ResponseErrorMessage ''fm000003'' ''project with specified identifier is inactive''"
definition orderErrorConvertionCurrency :: go_err where
  "orderErrorConvertionCurrency = ResponseErrorMessage ''fm000008'' ''currency conversion error''"
definition orderErrorAmountLowerThanMinAllowedPaymentMethod :: go_err where
  "orderErrorAmountLowerThanMinAllowedPaymentMethod =
     ResponseErrorMessage ''fm000018'' ''order amount is lower than min allowed payment amount for payment Method''"
definition orderErrorAmountGreaterThanMaxAllowedPaymentMethod :: go_err where
  "orderErrorAmountGreaterThanMaxAllowedPaymentMethod =
     ResponseErrorMessage ''fm000019'' ''order amount is greater than max allowed payment amount for payment Method''"
definition orderErrorProductsEmpty :: go_err where
  "orderErrorProductsEmpty = ResponseErrorMessage ''fm000031'' ''products set is empty''"
definition orderErrorProductsInvalid :: go_err where
  "orderErrorProductsInvalid = ResponseErrorMessage ''fm000032'' ''some products in set are invalid or inactive''"
definition orderErrorNoProductsCommonCurrency :: go_err where
  "orderErrorNoProductsCommonCurrency =
     ResponseErrorMessage ''fm000033'' ''no common prices neither in requested currency nor in default currency''"
definition orderErrorNoNameInDefaultLanguage :: go_err where
  "orderErrorNoNameInDefaultLanguage = ResponseErrorMessage ''fm000034'' ''no name in default language %s''"
definition orderErrorNoNameInRequiredLanguage :: go_err where
  "orderErrorNoNameInRequiredLanguage = ResponseErrorMessage ''fm000035'' ''no name in required language %s''"
definition orderErrorNoDescriptionInDefaultLanguage :: go_err where
  "orderErrorNoDescriptionInDefaultLanguage = ResponseErrorMessage ''fm000036'' ''no description in default language %s''"
definition orderErrorNoDescriptionInRequiredLanguage :: go_err where
  "orderErrorNoDescriptionInRequiredLanguage = ResponseErrorMessage ''fm000037'' ''no description in required language %s''"
definition orderErrorProductsPrice :: go_err where
  "orderErrorProductsPrice = ResponseErrorMessage ''fm000051'' ''can't get product price''"
definition orderErrorNoPlatforms :: go_err where
  "orderErrorNoPlatforms = ResponseErrorMessage ''fm000062'' ''no available platforms''"
definition orderErrorVirtualCurrencyNotFilled :: go_err where
  "orderErrorVirtualCurrencyNotFilled = ResponseErrorMessage ''fm000065'' ''virtual currency is not filled''"
definition orderErrorVatPayerUnknown :: go_err where
  "orderErrorVatPayerUnknown = ResponseErrorMessage ''fm000079'' ''vat payer unknown''"
definition orderErrorPaymentMethodLimitsNotConfigured :: go_err where
  "orderErrorPaymentMethodLimitsNotConfigured = ResponseErrorMessage ''fm000089'' ''payment method limits is not configured''"
definition virtualCurrencyPayoutCurrencyMissed :: go_err where
  "virtualCurrencyPayoutCurrencyMissed =
     ResponseErrorMessage ''vc000001'' ''virtual currency don't have price in merchant payout currency''"

section \<open>Products of an order\<close>

text \<open>Products that cannot be read, are switched off or belong to another project are skipped.\<close>

definition GetProductsForOrder :: "ext \<Rightarrow> string \<Rightarrow> string list \<Rightarrow> product list io" where
  "GetProductsForOrder X projectId ids =
     (if ids = [] then throw productErrorIdListEmpty
      else fold_go (\<lambda>found i. bind (try_go (product_GetById X i)) (\<lambda>r. case r of Inl _ \<Rightarrow> ret found
        | Inr p \<Rightarrow> ret (if prod_Enabled p \<and> prod_ProjectId p = projectId then found @ [p] else found))) [] ids)"

definition GetOrderProducts :: "ext \<Rightarrow> string \<Rightarrow> string list \<Rightarrow> product list io" where
  "GetOrderProducts X projectId ids =
     (if ids = [] then throw orderErrorProductsEmpty
      else bind (try_go (GetProductsForOrder X projectId ids)) (\<lambda>r. case r of
        Inl e \<Rightarrow> throw (if is_message e then e else orderErrorUnknown)
      | Inr products \<Rightarrow> if length products \<noteq> length ids then throw orderErrorProductsInvalid else ret products))"

text \<open>Ids that are none are left out of the query.\<close>

definition keyproductrepo_FindByIdsProjectId :: "ext \<Rightarrow> string list \<Rightarrow> string \<Rightarrow> key_product list io" where
  "keyproductrepo_FindByIdsProjectId X ids projectId =
     bind (lift (x_oid_from_hex X projectId)) (\<lambda>projectOid.
     find_all X w_key_products (\<lambda>p.
       list_ex (\<lambda>i. case x_oid_from_hex X i of Inl _ \<Rightarrow> False | Inr oid \<Rightarrow> kp_Id p = x_oid_hex X oid) ids \<and>
       kp_Enabled p \<and> \<not> kp_Deleted p \<and> kp_ProjectId p = x_oid_hex X projectOid))"

definition GetKeyProductsForOrder :: "ext \<Rightarrow> string \<Rightarrow> string list \<Rightarrow> key_product list response io" where
  "GetKeyProductsForOrder X projectId ids =
     (if ids = [] then ret (rsp_error ResponseStatusBadData keyProductIdsIsEmpty)
      else bind (try_go (keyproductrepo_FindByIdsProjectId X ids projectId)) (\<lambda>r. case r of
        Inl _ \<Rightarrow> ret (rsp_error ResponseStatusSystemError keyProductInternalError)
      | Inr ps \<Rightarrow> ret (empty_rsp\<lparr>rspItem := Some ps\<rparr>)))"

text \<open>The status of the answer is not looked at; an answer without products counts none.\<close>

definition GetOrderKeyProducts :: "ext \<Rightarrow> string \<Rightarrow> string list \<Rightarrow> key_product list io" where
  "GetOrderKeyProducts X projectId ids =
     (if ids = [] then throw orderErrorProductsEmpty
      else bind (GetKeyProductsForOrder X projectId ids) (\<lambda>rsp.
        let products = (case rspItem rsp of None \<Rightarrow> [] | Some ps \<Rightarrow> ps) in
        if length products \<noteq> length ids then throw orderErrorProductsInvalid else ret products))"

definition GetOrderProductsAmount :: "ext \<Rightarrow> product list \<Rightarrow> price_group \<Rightarrow> go_err + float64" where
  "GetOrderProductsAmount X products pgrp =
     (if products = [] then Inl orderErrorProductsEmpty
      else bind_err (map_err (\<lambda>p. x_product_price X p pgrp) products) (\<lambda>amounts.
        Inr (x_format_amount X (float_sum amounts))))"

definition GetOrderKeyProductsAmount :: "ext \<Rightarrow> key_product list \<Rightarrow> price_group \<Rightarrow> string \<Rightarrow> go_err + float64" where
  "GetOrderKeyProductsAmount X products pgrp platformId =
     (if products = [] then Inl orderErrorProductsEmpty
      else case map_err (\<lambda>p. x_key_price X p pgrp platformId) products of
        Inl _ \<Rightarrow> Inl orderErrorNoProductsCommonCurrency
      | Inr amounts \<Rightarrow> Inr (float_sum amounts))"

section \<open>Items\<close>

text \<open>A text in the language of the customer, or in the default language.\<close>

definition localized :: "(string \<Rightarrow> go_err + string) \<Rightarrow> string \<Rightarrow> go_err \<Rightarrow> go_err \<Rightarrow> go_err + string" where
  "localized get language required dflt =
     (case get language of Inr v \<Rightarrow> Inr v
      | Inl _ \<Rightarrow> if language = DefaultLanguage then Inl required
          else (case get DefaultLanguage of Inl _ \<Rightarrow> Inl dflt | Inr v \<Rightarrow> Inr v))"

definition product_item :: "ext \<Rightarrow> string \<Rightarrow> price_group \<Rightarrow> product \<Rightarrow> go_err + order_item" where
  "product_item X language pgrp p =
     (case x_product_price X p pgrp of Inl _ \<Rightarrow> Inl orderErrorProductsPrice | Inr amount \<Rightarrow>
      bind_err (localized (x_product_name X p) language orderErrorNoNameInRequiredLanguage orderErrorNoNameInDefaultLanguage) (\<lambda>name.
      bind_err (localized (x_product_description X p) language orderErrorNoDescriptionInRequiredLanguage
        orderErrorNoDescriptionInDefaultLanguage) (\<lambda>description.
      Inr \<lparr>oi_Id = prod_Id p, oi_Object = prod_Object p, oi_Sku = prod_Sku p, oi_Name = name, oi_Description = description,
           oi_Amount = amount, oi_Currency = pg_Currency pgrp, oi_Images = prod_Images p, oi_Url = prod_Url p,
           oi_Metadata = prod_Metadata p, oi_Code = [], oi_PlatformId = [], oi_CreatedAt = prod_CreatedAt p,
           oi_UpdatedAt = prod_UpdatedAt p\<rparr>)))"

definition GetOrderProductsItems :: "ext \<Rightarrow> product list \<Rightarrow> string \<Rightarrow> price_group \<Rightarrow> go_err + order_item list" where
  "GetOrderProductsItems X products language pgrp =
     (if products = [] then Inl orderErrorProductsEmpty else map_err (product_item X language pgrp) products)"

definition image_languages :: "string list" where
  "image_languages = [''en'', ''ru'', ''fr'', ''es'', ''de'', ''zh'', ''ar'', ''pt'', ''it'', ''pl'', ''tr'', ''el'', ''ko'',
     ''vl'', ''ja'', ''he'', ''th'', ''cs'', ''bg'', ''fi'', ''sv'', ''da'']"

definition getImageByLanguage :: "string \<Rightarrow> string go_map \<Rightarrow> string" where
  "getImageByLanguage lng images = (case images of None \<Rightarrow> []
     | Some _ \<Rightarrow> let image = (if go_lower lng \<in> set image_languages then go_get images (go_lower lng) else [])
         in if image = [] then go_get images ''en'' else image)"

definition key_item :: "ext \<Rightarrow> string \<Rightarrow> price_group \<Rightarrow> string \<Rightarrow> key_product \<Rightarrow> go_err + order_item" where
  "key_item X language pgrp platformId p =
     (case x_key_price X p pgrp platformId of Inl _ \<Rightarrow> Inl orderErrorProductsPrice | Inr amount \<Rightarrow>
      bind_err (localized (x_key_name X p) language orderErrorNoNameInRequiredLanguage orderErrorNoNameInDefaultLanguage) (\<lambda>name.
      bind_err (localized (x_key_description X p) language orderErrorNoDescriptionInRequiredLanguage
        orderErrorNoDescriptionInDefaultLanguage) (\<lambda>description.
      Inr \<lparr>oi_Id = kp_Id p, oi_Object = kp_Object p, oi_Sku = kp_Sku p, oi_Name = name, oi_Description = description,
           oi_Amount = amount, oi_Currency = pg_Currency pgrp, oi_Images = [getImageByLanguage DefaultLanguage (kp_Cover p)],
           oi_Url = kp_Url p, oi_Metadata = kp_Metadata p, oi_Code = [], oi_PlatformId = platformId,
           oi_CreatedAt = kp_CreatedAt p, oi_UpdatedAt = kp_UpdatedAt p\<rparr>)))"

definition GetOrderKeyProductsItems :: "ext \<Rightarrow> key_product list \<Rightarrow> string \<Rightarrow> price_group \<Rightarrow> string \<Rightarrow> go_err + order_item list" where
  "GetOrderKeyProductsItems X products language pgrp platformId =
     (if products = [] then Inl orderErrorProductsEmpty else map_err (key_item X language pgrp platformId) products)"

section \<open>Platforms\<close>

definition intersect :: "string list \<Rightarrow> string list \<Rightarrow> string list" where
  "intersect a b = filter (\<lambda>v. v \<in> set a) b"

text \<open>The platforms that each product has keys for; a count that fails counts as zero.\<close>

definition platforms_to_check :: "ext \<Rightarrow> key_product \<Rightarrow> string list io" where
  "platforms_to_check X p = fold_go (\<lambda>acc pl.
     bind (try_go (keyrepo_CountKeysByProductPlatform X (kp_Id p) pl)) (\<lambda>r. case r of Inl _ \<Rightarrow> ret acc
     | Inr count \<Rightarrow> ret (if 0 < count then acc @ [pl] else acc))) [] (kp_Platforms p)"

definition filterPlatforms :: "ext \<Rightarrow> key_product list \<Rightarrow> string list io" where
  "filterPlatforms X products = (case products of [] \<Rightarrow> ret []
     | p # ps \<Rightarrow> bind (platforms_to_check X p) (\<lambda>first.
         fold_go (\<lambda>acc q. bind (platforms_to_check X q) (\<lambda>here. ret (intersect acc here))) first ps))"

text \<open>
  Platforms that are not known are nil; comparing them panics, and so does taking the id of the first one.
\<close>

definition sort_platforms :: "string list \<Rightarrow> platform option list io" where
  "sort_platforms ids = (let platforms = map availablePlatforms ids in
     if 1 < length platforms \<and> None \<in> set platforms then throw go_panic
     else ret (sort_key (\<lambda>p. case p of None \<Rightarrow> 0 | Some v \<Rightarrow> plat_Order v) platforms))"

section \<open>The amount in a price pgrp\<close>

definition GetAmountForVirtualCurrency :: "float64 \<Rightarrow> price_group \<Rightarrow> product_price list \<Rightarrow> go_err + float64" where
  "GetAmountForVirtualCurrency virtualAmount pgrp prices =
     (case find (\<lambda>p. pp_Currency p = pg_Currency pgrp) prices of None \<Rightarrow> Inl virtualCurrencyPayoutCurrencyMissed
      | Some p \<Rightarrow> Inr (virtualAmount * pp_Amount p))"

definition processAmountForFiatCurrency ::
  "ext \<Rightarrow> product list \<Rightarrow> price_group \<Rightarrow> price_group \<Rightarrow> go_err + (float64 \<times> price_group)" where
  "processAmountForFiatCurrency X products pgrp dflt =
     (case GetOrderProductsAmount X products pgrp of Inr amount \<Rightarrow> Inr (amount, pgrp)
      | Inl e \<Rightarrow> if e \<noteq> x_no_price_error X then Inl e
          else if pg_Id pgrp = pg_Id dflt then Inl e
          else bind_err (GetOrderProductsAmount X products dflt) (\<lambda>amount. Inr (amount, dflt)))"

definition virtual_group :: "ext \<Rightarrow> price_group" where
  "virtual_group X = \<lparr>pg_Id = [], pg_Currency = x_virtual_price_group X, pg_Region = [], pg_IsActive = False\<rparr>"

definition processAmountForVirtualCurrency ::
  "ext \<Rightarrow> project \<Rightarrow> product list \<Rightarrow> price_group \<Rightarrow> price_group \<Rightarrow> go_err + (float64 \<times> price_group)" where
  "processAmountForVirtualCurrency X project products pgrp dflt =
     (case project_VirtualCurrency project of None \<Rightarrow> Inl orderErrorVirtualCurrencyNotFilled
      | Some vc \<Rightarrow> if vc_Prices vc = [] then Inl orderErrorVirtualCurrencyNotFilled
          else bind_err (GetOrderProductsAmount X products (virtual_group X)) (\<lambda>virtualAmount.
            case GetAmountForVirtualCurrency virtualAmount pgrp (vc_Prices vc) of Inr amount \<Rightarrow> Inr (amount, pgrp)
            | Inl e \<Rightarrow> if pg_Id pgrp = pg_Id dflt then Inl e
                else bind_err (GetAmountForVirtualCurrency virtualAmount dflt (vc_Prices vc)) (\<lambda>amount.
                  Inr (amount, dflt))))"

definition checkVirtualCurrencyProduct :: "product list \<Rightarrow> bool" where
  "checkVirtualCurrencyProduct products \<longleftrightarrow> products \<noteq> [] \<and>
     list_all (\<lambda>p. case prod_Prices p of [q] \<Rightarrow> pp_IsVirtualCurrency q | _ \<Rightarrow> False) products"

text \<open>The project with its products, and the merchant's price group, which stands in for a missing one.\<close>

definition active_project :: "ext \<Rightarrow> string \<Rightarrow> project io" where
  "active_project X projectId = bind (project_GetById X projectId) (\<lambda>project.
     if x_project_is_deleted X project then throw orderErrorProjectInactive else ret project)"

definition merchant_group :: "ext \<Rightarrow> string \<Rightarrow> price_group io" where
  "merchant_group X merchantId = bind (merchant_GetById X merchantId) (\<lambda>merchant.
     priceGroup_GetByRegion X (x_merchant_payout_currency X merchant))"

definition processProducts ::
  "ext \<Rightarrow> string \<Rightarrow> string list \<Rightarrow> price_group option \<Rightarrow> string \<Rightarrow> (float64 \<times> price_group \<times> order_item list \<times> bool) io" where
  "processProducts X projectId productIds priceGroup locale =
     bind (active_project X projectId) (\<lambda>project.
     bind (GetOrderProducts X (project_Id project) productIds) (\<lambda>products.
     bind (merchant_group X (project_MerchantId project)) (\<lambda>dflt.
     let pgrp = (case priceGroup of None \<Rightarrow> dflt | Some g \<Rightarrow> g);
         virtual = checkVirtualCurrencyProduct products in
     bind (lift (if virtual then processAmountForVirtualCurrency X project products pgrp dflt
                 else processAmountForFiatCurrency X products pgrp dflt)) (\<lambda>(amount, used).
     bind (lift (GetOrderProductsItems X products locale (if virtual then virtual_group X else used))) (\<lambda>items.
     ret (FormatAmount X amount (pg_Currency used), used, items, virtual))))))"

definition processKeyProducts ::
  "ext \<Rightarrow> string \<Rightarrow> string list \<Rightarrow> price_group option \<Rightarrow> string \<Rightarrow> string \<Rightarrow>
    (float64 \<times> price_group \<times> order_item list \<times> platform option list) io" where
  "processKeyProducts X projectId productIds priceGroup locale platformId =
     bind (active_project X projectId) (\<lambda>project.
     bind (GetOrderKeyProducts X (project_Id project) productIds) (\<lambda>products.
     bind (filterPlatforms X products) (\<lambda>platformIds.
     if platformIds = [] then throw orderErrorNoPlatforms
     else
     bind (sort_platforms platformIds) (\<lambda>platforms.
     bind (if platformId = [] then bind (deref (hd platforms)) (\<lambda>p. ret (plat_Id p)) else ret platformId) (\<lambda>platformId.
     bind (merchant_group X (project_MerchantId project)) (\<lambda>dflt.
     let pgrp = (case priceGroup of None \<Rightarrow> dflt | Some g \<Rightarrow> g) in
     bind (lift (case GetOrderKeyProductsAmount X products pgrp platformId of Inr amount \<Rightarrow> Inr (amount, pgrp)
       | Inl e \<Rightarrow> if e \<noteq> orderErrorNoProductsCommonCurrency then Inl e
           else if pg_Id pgrp = pg_Id dflt then Inl e
           else bind_err (GetOrderKeyProductsAmount X products dflt platformId) (\<lambda>amount. Inr (amount, dflt)))) (\<lambda>(amount, used).
     bind (lift (GetOrderKeyProductsItems X products locale used platformId)) (\<lambda>items.
     ret (FormatAmount X amount (pg_Currency used), used, items, platforms)))))))))"

section \<open>The amount of an order\<close>

text \<open>
  The price group of an order. That the merchant has none is not noticed here: the group is nil then.
\<close>

definition getOrderPriceGroup :: "ext \<Rightarrow> order \<Rightarrow> price_group option io" where
  "getOrderPriceGroup X ordr =
     (if oco_IsCurrencyPredefined (order_Carried ordr)
      then bind (priceGroup_GetByRegion X (order_Currency ordr)) (\<lambda>g. ret (Some g))
      else
      bind (merchant_GetById X (x_order_merchant_id X ordr)) (\<lambda>merchant.
      bind (try_go (priceGroup_GetByRegion X (x_merchant_payout_currency X merchant))) (\<lambda>r.
      let dflt = (case r of Inl _ \<Rightarrow> None | Inr g \<Rightarrow> Some g) in
      if x_order_country X ordr = [] then ret dflt
      else bind (try_go (country_GetByIsoCodeA2 X (x_order_country X ordr))) (\<lambda>r. case r of
          Inl _ \<Rightarrow> ret dflt
        | Inr country \<Rightarrow> bind (priceGroup_GetById X (country_PriceGroupId country)) (\<lambda>g. ret (Some g))))))"

definition order_locale :: "order \<Rightarrow> string" where
  "order_locale ordr = (case order_User ordr of None \<Rightarrow> DefaultLanguage
     | Some u \<Rightarrow> if ou_Locale u \<noteq> [] then ou_Locale u else DefaultLanguage)"

definition with_amount :: "string \<Rightarrow> float64 \<Rightarrow> order \<Rightarrow> order" where
  "with_amount currency amount ordr = ordr\<lparr>order_Currency := currency, order_OrderAmount := amount,
     order_TotalPaymentAmount := amount, order_ChargeAmount := amount, order_ChargeCurrency := currency\<rparr>"

definition ProcessOrderProducts :: "ext \<Rightarrow> order \<Rightarrow> order io" where
  "ProcessOrderProducts X ordr =
     (if order_ProductType ordr \<noteq> OrderType_product then ret ordr
      else
      bind (getOrderPriceGroup X ordr) (\<lambda>pgrp.
      bind (processProducts X (order_ProjectId ordr) (oco_Products (order_Carried ordr)) pgrp (order_locale ordr))
        (\<lambda>(amount, used, items, virtual).
      ret (with_amount (pg_Currency used) amount ordr\<lparr>order_Items := items\<rparr>))))"

definition ProcessOrderKeyProducts :: "ext \<Rightarrow> order \<Rightarrow> (order \<times> platform option list) io" where
  "ProcessOrderKeyProducts X ordr =
     (if order_ProductType ordr \<noteq> OrderType_key then ret (ordr, [])
      else
      bind (getOrderPriceGroup X ordr) (\<lambda>pgrp.
      bind (processKeyProducts X (order_ProjectId ordr) (oco_Products (order_Carried ordr)) pgrp (order_locale ordr)
        (order_PlatformId ordr)) (\<lambda>(amount, used, items, platforms).
      let ordr = (if order_PlatformId ordr = [] then (case items of [] \<Rightarrow> ordr | it # _ \<Rightarrow> ordr\<lparr>order_PlatformId := oi_PlatformId it\<rparr>)
                  else ordr)
      in ret (with_amount (pg_Currency used) amount ordr\<lparr>order_Items := items\<rparr>, platforms))))"

text \<open>
  The price of an amount in virtual currency. When the group of the country has no price, the price of the
  merchant's group is taken, but the currency stays that of the country.
\<close>

definition ProcessOrderVirtualCurrency :: "ext \<Rightarrow> order \<Rightarrow> order io" where
  "ProcessOrderVirtualCurrency X ordr =
     bind (try_go (merchant_GetById X (order_ProjectMerchantId ordr))) (\<lambda>r.
     bind (deref (case r of Inl _ \<Rightarrow> None | Inr m \<Rightarrow> Some m)) (\<lambda>merchant.
     let defaultCurrency = x_merchant_payout_currency X merchant in
     if defaultCurrency = [] then throw orderErrorNoProductsCommonCurrency
     else
     bind (replace_err orderErrorUnknown (priceGroup_GetByRegion X defaultCurrency)) (\<lambda>dflt.
     bind (if x_order_country X ordr = [] then ret (dflt, defaultCurrency)
       else bind (replace_err orderErrorUnknown (country_GetByIsoCodeA2 X (x_order_country X ordr))) (\<lambda>country.
         bind (replace_err orderErrorUnknown (priceGroup_GetById X (country_PriceGroupId country))) (\<lambda>g.
         ret (g, pg_Currency g)))) (\<lambda>(pgrp, currency).
     bind (replace_err orderErrorVirtualCurrencyNotFilled (bind (project_GetById X (order_ProjectId ordr)) (\<lambda>project.
       deref (project_VirtualCurrency project)))) (\<lambda>vc.
     bind (lift (case GetAmountForVirtualCurrency (order_VirtualCurrencyAmount ordr) pgrp (vc_Prices vc) of
         Inr amount \<Rightarrow> Inr amount
       | Inl e \<Rightarrow> if pg_Id pgrp = pg_Id dflt then Inl e
           else GetAmountForVirtualCurrency (order_VirtualCurrencyAmount ordr) dflt (vc_Prices vc))) (\<lambda>amount.
     ret (with_amount currency (FormatAmount X amount currency) ordr)))))))"

section \<open>Tax\<close>

definition with_tax :: "string \<Rightarrow> order \<Rightarrow> order" where
  "with_tax taxType ordr = ordr\<lparr>order_TaxRate := 0, order_TaxAmount := 0,
     order_Carried := (order_Carried ordr)\<lparr>oco_TaxType := taxType, oco_TaxCurrency := order_Currency ordr\<rparr>,
     order_TotalPaymentAmount := order_OrderAmount ordr, order_ChargeAmount := order_OrderAmount ordr,
     order_ChargeCurrency := order_Currency ordr\<rparr>"

definition taxed :: "ext \<Rightarrow> float64 \<Rightarrow> order \<Rightarrow> go_err + order" where
  "taxed X rate ordr =
     (if order_VatPayer ordr = VatPayerBuyer then
        let tax = FormatAmount X (order_OrderAmount ordr * rate) (order_Currency ordr);
            total = FormatAmount X (order_OrderAmount ordr + tax) (order_Currency ordr)
        in Inr (ordr\<lparr>order_TaxRate := rate, order_TaxAmount := tax, order_TotalPaymentAmount := total, order_ChargeAmount := total\<rparr>)
      else if order_VatPayer ordr = VatPayerSeller then
        Inr (ordr\<lparr>order_TaxRate := rate,
          order_TaxAmount := FormatAmount X (x_percent_part X (order_TotalPaymentAmount ordr) rate) (order_Currency ordr)\<rparr>)
      else Inl orderErrorVatPayerUnknown)"

definition processOrderVat :: "ext \<Rightarrow> order \<Rightarrow> order io" where
  "processOrderVat X ordr =
     (let countryCode = x_order_country X ordr; plain = with_tax taxTypeVat ordr;
          ordr = with_tax (if countryCode = CountryCodeUSA then taxTypeSalesTax else taxTypeVat) ordr in
      if countryCode = [] then ret plain
      else if order_VatPayer ordr = VatPayerNobody then ret ordr
      else
      bind (country_GetByIsoCodeA2 X countryCode) (\<lambda>country.
      if \<not> country_VatEnabled country then ret ordr
      else
      bind (rpc (\<lambda>n. x_tax_rate X n countryCode
        (if countryCode = CountryCodeUSA then x_order_postal_code X ordr else []))) (\<lambda>rate.
      lift (taxed X rate ordr))))"

section \<open>The amount that is charged\<close>

definition ExchangeAmountToPaymentMethodLimitsCurrency :: "ext \<Rightarrow> float64 \<Rightarrow> string \<Rightarrow> string \<Rightarrow> float64 io" where
  "ExchangeAmountToPaymentMethodLimitsCurrency X amount currency limitsCurrency =
     (if is_zero amount \<or> currency = limitsCurrency then ret amount
      else replace_err orderErrorConvertionCurrency (rpc (\<lambda>n. x_exchange_common X n
        \<lparr>ex_From = currency, ex_To = limitsCurrency, ex_RateType = RateTypeOxr, ex_Direction = ExchangeDirectionSell,
         ex_Source = [], ex_Amount = amount, ex_Datetime = None\<rparr>)))"

definition within_method_limits :: "payment_method \<Rightarrow> float64 \<Rightarrow> go_err + unit" where
  "within_method_limits pm amount =
     (if flt amount (pm_MinPaymentAmount pm) then Inl orderErrorAmountLowerThanMinAllowedPaymentMethod
      else if flt 0 (pm_MaxPaymentAmount pm) \<and> flt (pm_MaxPaymentAmount pm) amount
        then Inl orderErrorAmountGreaterThanMaxAllowedPaymentMethod
      else Inr ())"

definition PaymentCreateBankCardFieldBrand :: string where
  "PaymentCreateBankCardFieldBrand = ''card_brand''"
definition PaymentCreateBankCardFieldIssuerCountryIsoCode :: string where
  "PaymentCreateBankCardFieldIssuerCountryIsoCode = ''bank_issuer_country_iso_code''"

text \<open>
  The charge in the currency of the country that issued the card, when the currency is supported and
  the payment method has settings for it.
\<close>

definition charge_in_currency :: "ext \<Rightarrow> order \<Rightarrow> payment_method \<Rightarrow> string \<Rightarrow> order io" where
  "charge_in_currency X ordr pm currency =
     bind (replace_err orderErrorConvertionCurrency (rpc (\<lambda>n. x_exchange_common X n
       \<lparr>ex_From = order_Currency ordr, ex_To = currency, ex_RateType = RateTypePaysuper, ex_Direction = ExchangeDirectionSell,
        ex_Source = [], ex_Amount = order_TotalPaymentAmount ordr, ex_Datetime = None\<rparr>))) (\<lambda>exchanged.
     bind (replace_err orderErrorConvertionCurrency
       (ExchangeAmountToPaymentMethodLimitsCurrency X exchanged currency (pm_LimitsCurrency pm))) (\<lambda>limitsCheckAmount.
     bind (lift (within_method_limits pm limitsCheckAmount)) (\<lambda>_.
     ret (ordr\<lparr>order_ChargeCurrency := currency, order_ChargeAmount := FormatAmount X exchanged currency\<rparr>))))"

definition setOrderChargeAmountAndCurrency :: "ext \<Rightarrow> order \<Rightarrow> order io" where
  "setOrderChargeAmountAndCurrency X ordr0 =
     (let ordr = ordr0\<lparr>order_ChargeAmount := order_TotalPaymentAmount ordr0, order_ChargeCurrency := order_Currency ordr0\<rparr>;
          binCountryCode = go_get (order_PaymentRequisites ordr) PaymentCreateBankCardFieldIssuerCountryIsoCode in
      if binCountryCode = [] \<or> go_get (order_PaymentRequisites ordr) PaymentCreateBankCardFieldBrand = [] then ret ordr
      else case order_PaymentMethod ordr of None \<Rightarrow> ret ordr
      | Some method \<Rightarrow>
        let binCardBrand = go_get (order_PaymentRequisites ordr) PaymentCreateBankCardFieldBrand;
            carried = order_Carried ordr;
            ordr = (if oco_PaymentIpCountry carried \<noteq> [] then ordr\<lparr>order_Carried := carried\<lparr>oco_IsIpCountryMismatchBin :=
                      oco_PaymentIpCountry carried \<noteq> binCountryCode\<rparr>\<rparr> else ordr) in
        bind (country_GetByIsoCodeA2 X binCountryCode) (\<lambda>binCountry.
        if country_Currency binCountry = order_Currency ordr then ret ordr
        else bind (rpc (x_price_currencies X)) (\<lambda>currencies.
          if country_Currency binCountry \<notin> set currencies then ret ordr
          else bind (try_go (methodrepo_GetById X (opm_Id method))) (\<lambda>r. case r of Inl _ \<Rightarrow> ret ordr
            | Inr pm \<Rightarrow>
              if \<not> x_method_has_limits X pm then throw orderErrorPaymentMethodLimitsNotConfigured
              else case getPaymentSettings X pm (country_Currency binCountry) (order_MccCode ordr)
                  (order_OperatingCompanyId ordr) binCardBrand (order_IsProduction ordr) of
                Inl _ \<Rightarrow> ret ordr
              | Inr _ \<Rightarrow> charge_in_currency X ordr pm (country_Currency binCountry)))))"

end
