(* ===== verification/Orders.thy ===== *)
theory Orders
  imports Corrections CardPayHandler Pricing
begin

text \<open>
  Orders after they have been created (internal/repository/order.go and internal/service/order.go): the
  other methods of the repository, the update of an order with all that follows from a new status (keys are
  given out or returned, the merchant is notified), and the receipts. An order that the code changes in
  place is returned.
\<close>

section \<open>The repository\<close>

definition orderrepo_Insert :: "ext \<Rightarrow> order \<Rightarrow> unit io" where
  "orderrepo_Insert X = repo_insert X w_orders w_orders_update order_Id (order_to_mgo X)"

definition orderrepo_Update :: "ext \<Rightarrow> order \<Rightarrow> unit io" where
  "orderrepo_Update X = repo_update X w_orders_update order_Id order_Id (order_to_mgo X)"

definition orderrepo_GetOneBy :: "ext \<Rightarrow> (mgo_order \<Rightarrow> bool) \<Rightarrow> order io" where
  "orderrepo_GetOneBy X p = bind (find_one X w_orders p) (\<lambda>d. lift (order_from_mgo X d))"

definition orderrepo_GetManyBy :: "ext \<Rightarrow> (mgo_order \<Rightarrow> bool) \<Rightarrow> order list io" where
  "orderrepo_GetManyBy X p = bind (find_all X w_orders p) (\<lambda>ds. lift (map_err (order_from_mgo X) ds))"

definition orderrepo_GetByUuid :: "ext \<Rightarrow> string \<Rightarrow> order io" where
  "orderrepo_GetByUuid X uuid = orderrepo_GetOneBy X (\<lambda>d. order_Uuid d = uuid)"

text \<open>Without a merchant every order of the uuid will do.\<close>

definition orderrepo_GetByUuidAndMerchantId :: "ext \<Rightarrow> string \<Rightarrow> string \<Rightarrow> order io" where
  "orderrepo_GetByUuidAndMerchantId X uuid merchantId =
     (if merchantId = [] then orderrepo_GetOneBy X (\<lambda>d. order_Uuid d = uuid)
      else bind (lift (x_oid_from_hex X merchantId)) (\<lambda>oid.
        orderrepo_GetOneBy X (\<lambda>d. order_Uuid d = uuid \<and> order_ProjectMerchantId d = oid)))"

definition orderrepo_GetByRefundReceiptNumber :: "ext \<Rightarrow> string \<Rightarrow> order io" where
  "orderrepo_GetByRefundReceiptNumber X i = orderrepo_GetOneBy X (\<lambda>d. case order_Refund d of None \<Rightarrow> False
     | Some r \<Rightarrow> oref_ReceiptNumber r = i)"

text \<open>The first production payment of a merchant, by the time it was closed.\<close>

definition first_payment_row :: "oid \<Rightarrow> mgo_order \<Rightarrow> bool" where
  "first_payment_row merchant d \<longleftrightarrow> order_ProjectMerchantId d = merchant \<and> order_Status d = ''processed'' \<and>
     order_IsProduction d \<and> \<not> order_Canceled d"

definition orderrepo_GetFirstPaymentForMerchant :: "ext \<Rightarrow> string \<Rightarrow> order io" where
  "orderrepo_GetFirstPaymentForMerchant X merchantId =
     (if merchantId = [] then throw (ErrOther ''merchant_id must be provided'')
      else bind (lift (x_oid_from_hex X merchantId)) (\<lambda>oid.
        bind (find_first_sorted X w_orders (first_payment_row oid) order_PaymentMethodOrderClosedAt) (\<lambda>d.
        lift (order_from_mgo X d))))"

definition getOrderByUuid :: "ext \<Rightarrow> string \<Rightarrow> order io" where
  "getOrderByUuid X uuid = replace_err orderErrorNotFound (orderrepo_GetByUuid X uuid)"

definition orderErrorOrderAlreadyComplete :: go_err where
  "orderErrorOrderAlreadyComplete = ResponseErrorMessage ''fm000047'' ''order with specified identifier paid early''"
definition orderErrorFormInputTimeExpired :: go_err where
  "orderErrorFormInputTimeExpired = ResponseErrorMessage ''fm000023'' ''time to enter date on payment form expired''"
definition orderErrorOrderCreatedAnotherProject :: go_err where
  "orderErrorOrderCreatedAnotherProject = ResponseErrorMessage ''fm000022'' ''order created for another project''"

definition getOrderByUuidToForm :: "ext \<Rightarrow> string \<Rightarrow> order io" where
  "getOrderByUuidToForm X uuid =
     bind (getOrderByUuid X uuid) (\<lambda>ordr.
     if x_order_has_ended_status X ordr then throw orderErrorOrderAlreadyComplete
     else bind (reading (\<lambda>n. x_order_form_time_ended X n ordr)) (\<lambda>ended.
       if ended then throw orderErrorFormInputTimeExpired else ret ordr))"

definition IsOrderCanBePaying :: "ext \<Rightarrow> string \<Rightarrow> string \<Rightarrow> order response io" where
  "IsOrderCanBePaying X orderId projectId =
     bind (try_go (getOrderByUuidToForm X orderId)) (\<lambda>r. case r of
       Inl e \<Rightarrow> if is_message e then ret (rsp_error ResponseStatusBadData e) else throw e
     | Inr ordr \<Rightarrow> if order_ProjectId ordr \<noteq> projectId
         then ret (rsp_error ResponseStatusBadData orderErrorOrderCreatedAnotherProject) else ret (rsp_ok ordr))"

section \<open>Receipts\<close>

definition orderErrorMerchantForOrderNotFound :: go_err where
  "orderErrorMerchantForOrderNotFound = ResponseErrorMessage ''fm000060'' ''merchant for order not found''"
definition orderErrorDuringFormattingCurrency :: go_err where
  "orderErrorDuringFormattingCurrency = ResponseErrorMessage ''fm000058'' ''error during formatting currency''"
definition orderErrorDuringFormattingDate :: go_err where
  "orderErrorDuringFormattingDate = ResponseErrorMessage ''fm000059'' ''error during formatting date''"
definition projectErrorUnknown :: go_err where
  "projectErrorUnknown = ResponseErrorMessage ''pr000001'' ''project unknown error''"
definition projectErrorVirtualCurrencyNameDefaultLangRequired :: go_err where
  "projectErrorVirtualCurrencyNameDefaultLangRequired =
     ResponseErrorMessage ''pr000008'' ''project virtual currency name in \"en\" locale is required''"
definition orderErrorReceiptNotEquals :: go_err where
  "orderErrorReceiptNotEquals = ResponseErrorMessage ''fm000057'' ''receipts not equals''"

definition format_currency :: "ext \<Rightarrow> float64 \<Rightarrow> string \<Rightarrow> string io" where
  "format_currency X amount currency = (case x_format_currency X amount currency of
     (None, v) \<Rightarrow> ret v | (Some _, _) \<Rightarrow> throw orderErrorDuringFormattingCurrency)"

text \<open>A price in a virtual currency is used although formatting it fails.\<close>

definition item_price :: "ext \<Rightarrow> bool \<Rightarrow> string \<Rightarrow> order_item \<Rightarrow> (string \<times> string) io" where
  "item_price X virtual currency it = (case x_format_currency X (oi_Amount it) currency of
     (err, price) \<Rightarrow> if err \<noteq> None \<and> \<not> virtual then throw orderErrorDuringFormattingCurrency else ret (oi_Name it, price))"

definition receipt_currency :: "ext \<Rightarrow> order \<Rightarrow> string io" where
  "receipt_currency X ordr =
     (if oco_IsBuyForVirtualCurrency (order_Carried ordr) then
        bind (replace_err projectErrorUnknown (project_GetById X (order_ProjectId ordr))) (\<lambda>project.
        bind (deref (project_VirtualCurrency project)) (\<lambda>virtual.
        case map_of (vc_Name virtual) DefaultLanguage of None \<Rightarrow> throw projectErrorVirtualCurrencyNameDefaultLangRequired
        | Some currency \<Rightarrow> ret currency))
      else ret (order_Currency ordr))"

definition getOrderReceiptObject :: "ext \<Rightarrow> order \<Rightarrow> order_receipt io" where
  "getOrderReceiptObject X ordr =
     bind (replace_err orderErrorMerchantForOrderNotFound (merchant_GetById X (x_order_merchant_id X ordr))) (\<lambda>merchant.
     bind (format_currency X (order_OrderAmount ordr) (order_Currency ordr)) (\<lambda>totalPrice.
     bind (format_currency X (order_TotalPaymentAmount ordr) (order_Currency ordr)) (\<lambda>totalAmount.
     bind (format_currency X (order_TaxAmount ordr) (oco_TaxCurrency (order_Carried ordr))) (\<lambda>vatInOrderCurrency.
     bind (format_currency X (x_order_tax_in_charge_currency X ordr) (order_ChargeCurrency ordr)) (\<lambda>vatInChargeCurrency.
     bind (format_currency X (order_ChargeAmount ordr) (order_ChargeCurrency ordr)) (\<lambda>totalCharge.
     bind (deref (order_CreatedAt ordr)) (\<lambda>created.
     bind (replace_err orderErrorDuringFormattingDate (lift (x_format_datetime X (ts_seconds created)))) (\<lambda>date.
     bind (receipt_currency X ordr) (\<lambda>currency.
     bind (fold_go (\<lambda>acc it. bind (item_price X (oco_IsBuyForVirtualCurrency (order_Carried ordr)) currency it)
             (\<lambda>p. ret (acc @ [p]))) [] (order_Items ordr)) (\<lambda>items.
     let platformName = (case availablePlatforms (order_PlatformId ordr) of None \<Rightarrow> [] | Some p \<Rightarrow> plat_Name p) in
     bind (operatingCompany_GetById X (order_OperatingCompanyId ordr)) (\<lambda>oc.
     let merchantName = (if x_merchant_trademark X merchant = [] then x_merchant_company_name X merchant
                         else x_merchant_trademark X merchant) in
     bind (deref (order_User ordr)) (\<lambda>user.
     bind (rpc (\<lambda>n. x_find_subscriptions X n (order_ProjectMerchantId ordr) (ou_Id user))) (\<lambda>subscriptions.
     let settings = (if order_Recurring ordr then oco_RecurringSettings (order_Carried ordr) else None) in
     ret \<lparr>rcp_TotalPrice = totalPrice, rcp_TransactionId = order_Uuid ordr, rcp_TransactionDate = date,
          rcp_ProjectName = (case map_of (order_ProjectName ordr) DefaultLanguage of None \<Rightarrow> [] | Some n \<Rightarrow> n),
          rcp_MerchantName = merchantName, rcp_Items = items, rcp_OrderType = order_Type ordr,
          rcp_PlatformName = platformName, rcp_PaymentPartner = oc_Name oc, rcp_VatPayer = order_VatPayer ordr,
          rcp_VatInOrderCurrency = vatInOrderCurrency, rcp_VatInChargeCurrency = vatInChargeCurrency,
          rcp_TotalAmount = totalAmount, rcp_TotalCharge = totalCharge, rcp_ReceiptId = order_ReceiptId ordr,
          rcp_Url = order_ReceiptUrl ordr, rcp_VatRate = x_sprintf_2f X (order_TaxRate ordr * Fin 100) @ ''%'',
          rcp_CustomerEmail = ou_Email user, rcp_CustomerUuid = ou_Uuid user,
          rcp_SubscriptionViewUrl = (if order_Recurring ordr
            then x_checkout_url X @ ''/subscriptions/'' @ order_RecurringId ordr else []),
          rcp_SubscriptionsManagementUrl = (if 0 < subscriptions then x_checkout_url X @ ''/subscriptions'' else []),
          rcp_RecurringPeriod = (case settings of None \<Rightarrow> [] | Some r \<Rightarrow> rset_Period r),
          rcp_RecurringInterval = (case settings of None \<Rightarrow> [] | Some r \<Rightarrow> show_int (rset_Interval r)),
          rcp_RecurringDateEnd = (case settings of None \<Rightarrow> [] | Some r \<Rightarrow> rset_DateEnd r)\<rparr>)))))))))))))"

text \<open>The error of the repository is taken for a message of the service; it never is one.\<close>

definition OrderReceipt :: "ext \<Rightarrow> string \<Rightarrow> string \<Rightarrow> order_receipt response io" where
  "OrderReceipt X orderId receiptId =
     bind (try_go (orderrepo_GetByUuid X orderId)) (\<lambda>r. case r of
       Inl e \<Rightarrow> if is_message e then ret (rsp_error ResponseStatusBadData e) else throw go_panic
     | Inr ordr \<Rightarrow>
       if order_ReceiptId ordr \<noteq> receiptId then ret (rsp_error ResponseStatusBadData orderErrorReceiptNotEquals)
       else bind (try_go (getOrderReceiptObject X ordr)) (\<lambda>r. case r of
         Inl e \<Rightarrow> if is_message e then ret (rsp_error ResponseStatusBadData e) else throw e
       | Inr receipt \<Rightarrow> ret (rsp_ok receipt)))"

section \<open>Mails\<close>

text \<open>
  The items are taken out of the receipt before the model of the mail is built, so the number of items that
  the summary asks for is always zero.
\<close>

definition getPayloadForReceipt :: "ext \<Rightarrow> order \<Rightarrow> mail_payload io" where
  "getPayloadForReceipt X ordr =
     (let template = (if order_Type ordr = OrderTypeRefund then x_email_template X ''refund_transaction''
                      else x_email_template X ''success_transaction'') in
     bind (getOrderReceiptObject X ordr) (\<lambda>receipt.
     let items = (if rcp_Items receipt \<noteq> [] then map (\<lambda>(name, price). (name, False, price)) (rcp_Items receipt)
                  else [(''In-game purchase'', True, rcp_TotalPrice receipt)]);
         receipt = receipt\<lparr>rcp_Items := []\<rparr>
     in bind (lift (x_receipt_model X receipt)) (\<lambda>model.
     let model = filter (\<lambda>(k, v). \<not> (k = ''platform'' \<and> v = [])) model in
     bind (time_now X) (\<lambda>now.
     ret \<lparr>mail_TemplateAlias = template,
          mail_TemplateModel = AList.update ''current_year'' (x_format_time X ''2006'' now) model,
          mail_To = order_ReceiptEmail ordr,
          mail_Object = Some \<lparr>mob_Items = items, mob_ShowSummary = (1 < length (rcp_Items receipt)),
            mob_SubTotal = (if rcp_TotalAmount receipt \<noteq> rcp_TotalCharge receipt
              then Some (rcp_TotalAmount receipt, rcp_TotalCharge receipt) else None),
            mob_Vat = (if rcp_VatRate receipt \<noteq> ''0%''
              then Some (rcp_VatRate receipt, rcp_VatInOrderCurrency receipt, rcp_VatPayer receipt = VatPayerSeller)
              else None)\<rparr>\<rparr>))))"

definition sendMailWithReceipt :: "ext \<Rightarrow> order \<Rightarrow> unit io" where
  "sendMailWithReceipt X ordr =
     bind (try_go (getPayloadForReceipt X ordr)) (\<lambda>r. case r of Inl _ \<Rightarrow> ret ()
     | Inr payload \<Rightarrow> bind (try_go (send X (SentPostmark payload))) (\<lambda>_. ret ()))"

text \<open>The item of a key gets its code, and the customer a mail; without such an item nothing happens.\<close>

fun code_first :: "key \<Rightarrow> order_item list \<Rightarrow> order_item list" where
  "code_first k [] = []"
| "code_first k (it # its) = (if oi_Id it = key_KeyProductId k then it\<lparr>oi_Code := key_Code k\<rparr> # its
     else it # code_first k its)"

definition sendMailWithCode :: "ext \<Rightarrow> order \<Rightarrow> key \<Rightarrow> order io" where
  "sendMailWithCode X ordr k =
     (case find (\<lambda>it. oi_Id it = key_KeyProductId k) (order_Items ordr) of None \<Rightarrow> ret ordr
     | Some it \<Rightarrow>
       let (icon, url, name) = (case availablePlatforms (order_PlatformId ordr) of None \<Rightarrow> ([], [], [])
             | Some p \<Rightarrow> (plat_Icon p, plat_ActivationInstructionUrl p, plat_Name p)) in
       bind (time_now X) (\<lambda>now.
       bind (try_go (send X (SentPostmark \<lparr>mail_TemplateAlias = x_email_template X ''activation_game_key'',
         mail_TemplateModel = [(''code'', key_Code k), (''platform_icon'', icon), (''product_name'', oi_Name it),
           (''activation_instruction_url'', url), (''platform_name'', name), (''receipt_url'', order_ReceiptUrl ordr),
           (''current_year'', x_format_time X ''2006'' now)] @
           (case oi_Images it of [] \<Rightarrow> [] | img # _ \<Rightarrow> [(''product_image'', img)]),
         mail_To = order_ReceiptEmail ordr, mail_Object = None\<rparr>))) (\<lambda>_.
       ret (ordr\<lparr>order_Items := code_first k (order_Items ordr)\<rparr>))))"

section \<open>Updating an order\<close>

definition GetReceiptPurchaseUrl :: "ext \<Rightarrow> string \<Rightarrow> string \<Rightarrow> string" where
  "GetReceiptPurchaseUrl X transactionId receiptId =
     x_checkout_url X @ ''/pay/receipt/purchase/'' @ receiptId @ ''/'' @ transactionId"

definition GetReceiptRefundUrl :: "ext \<Rightarrow> string \<Rightarrow> string \<Rightarrow> string" where
  "GetReceiptRefundUrl X transactionId receiptId =
     x_checkout_url X @ ''/pay/receipt/refund/'' @ receiptId @ ''/'' @ transactionId"

text \<open>
  The keys of an order that was cancelled are released, those of a processed one are redeemed and mailed.
  What the calls answer is only logged.
\<close>

definition finish_key :: "ext \<Rightarrow> order \<Rightarrow> string \<Rightarrow> order io" where
  "finish_key X ordr k = bind (FinishRedeemKeyForOrder X k) (\<lambda>rsp.
     if rspStatus rsp \<noteq> ResponseStatusOk then ret ordr
     else bind (deref (rspItem rsp)) (sendMailWithCode X ordr))"

definition orderNotifyKeyProducts :: "ext \<Rightarrow> order \<Rightarrow> order io" where
  "orderNotifyKeyProducts X ordr =
     (if order_IsKeyProductNotified ordr then ret ordr
      else if x_order_public_status X ordr \<in> {OrderPublicStatusCanceled, OrderPublicStatusRejected} then
        bind (for_each (order_Keys ordr) (\<lambda>k. bind (CancelRedeemKeyForOrder X k) (\<lambda>_. ret ()))) (\<lambda>_.
        ret (ordr\<lparr>order_IsKeyProductNotified := True\<rparr>))
      else if x_order_public_status X ordr = OrderPublicStatusProcessed then
        bind (fold_go (finish_key X) ordr (order_Keys ordr)) (\<lambda>ordr.
        ret (ordr\<lparr>order_IsKeyProductNotified := True\<rparr>))
      else ret ordr)"

definition orderNotifyMerchant :: "ext \<Rightarrow> order \<Rightarrow> order io" where
  "orderNotifyMerchant X ordr =
     bind (try_go (send X (SentMerchantNotification ordr))) (\<lambda>r.
     let notified = ordr\<lparr>order_IsNotificationsSent := x_set_notification X (order_IsNotificationsSent ordr)
           (x_order_public_status X ordr) (case r of Inl _ \<Rightarrow> False | Inr _ \<Rightarrow> True)\<rparr>
     in bind (try_go (orderrepo_Update X notified)) (\<lambda>_. ret notified))"

definition with_receipt_url :: "ext \<Rightarrow> order \<Rightarrow> order" where
  "with_receipt_url X ordr =
     (if order_Type ordr = OrderTypeRefund
      then ordr\<lparr>order_ReceiptUrl := GetReceiptRefundUrl X (order_Uuid ordr) (order_ReceiptId ordr)\<rparr>
      else if order_Type ordr = OrderTypeOrder
      then ordr\<lparr>order_ReceiptUrl := GetReceiptPurchaseUrl X (order_Uuid ordr) (order_ReceiptId ordr)\<rparr>
      else ordr)"

text \<open>The update itself, with the notifications of a key product and of the project.\<close>

definition store_and_notify :: "ext \<Rightarrow> bool \<Rightarrow> order \<Rightarrow> (order \<times> go_err option) io" where
  "store_and_notify X statusChanged ordr =
     bind (try_go (orderrepo_Update X ordr)) (\<lambda>r. case r of
       Inl e \<Rightarrow> ret (ordr, Some (if e = ErrNoDocuments then orderErrorNotFound else orderErrorUnknown))
     | Inr _ \<Rightarrow>
       bind (if order_ProductType ordr = OrderType_key then orderNotifyKeyProducts X ordr else ret ordr) (\<lambda>ordr.
       bind (if statusChanged \<and> x_order_need_callback X ordr then orderNotifyMerchant X ordr else ret ordr) (\<lambda>ordr.
       ret (ordr, None))))"

definition updateOrder :: "ext \<Rightarrow> order \<Rightarrow> (order \<times> go_err option) io" where
  "updateOrder X ordr0 =
     (let status = x_order_public_status X ordr0; ordr1 = ordr0\<lparr>order_Status := status\<rparr> in
      bind (try_go (getOrderById X (order_Id ordr1))) (\<lambda>originalOrder.
      let statusChanged = (case originalOrder of Inl _ \<Rightarrow> False | Inr o' \<Rightarrow> x_order_public_status X o' \<noteq> status);
          needReceipt = (statusChanged \<and>
            status \<in> {OrderPublicStatusChargeback, OrderPublicStatusRefunded, OrderPublicStatusProcessed})
      in store_and_notify X statusChanged (if needReceipt then with_receipt_url X ordr1 else ordr1)))"

end
