(* ===== verification/Refunds.thy ===== *)
theory Refunds
  imports Orders
begin

text \<open>
  Refunds (internal/service/refund.go): a refund is requested at the gateway for the whole charge of an
  order; the gateway later reports how it ended, and a completed refund becomes an order of its own, with
  its postings. The period of a VAT report (internal/service/vat\_reports.go) decides whether the tax of
  the payment has been reported already.
\<close>

section \<open>Errors and requests\<close>

definition refundErrorUnknown :: go_err where
  "refundErrorUnknown = ResponseErrorMessage ''rf000001'' ''refund can't be create. try request later''"
definition refundErrorNotAllowed :: go_err where
  "refundErrorNotAllowed = ResponseErrorMessage ''rf000002'' ''create refund for order not allowed''"
definition refundErrorAlreadyRefunded :: go_err where
  "refundErrorAlreadyRefunded = ResponseErrorMessage ''rf000003'' ''amount by order was fully refunded''"
definition refundErrorPaymentAmountLess :: go_err where
  "refundErrorPaymentAmountLess = ResponseErrorMessage ''rf000004''
     ''refund unavailable, because payment amount less than total refunds amount''"
definition refundErrorNotFound :: go_err where
  "refundErrorNotFound = ResponseErrorMessage ''rf000005'' ''refund with specified data not found''"
definition refundErrorOrderNotFound :: go_err where
  "refundErrorOrderNotFound = ResponseErrorMessage ''rf000006''
     ''information about payment for refund with specified data not found''"
definition refundErrorCostsRatesNotFound :: go_err where
  "refundErrorCostsRatesNotFound = ResponseErrorMessage ''rf000007''
     ''settings to calculate commissions for refund not found''"

definition callbackRequestIncorrect :: string where "callbackRequestIncorrect = ''callback request has incorrect format''"
definition callbackHandlerIncorrect :: string where "callbackHandlerIncorrect = ''unknown callback type''"

text \<open>\<open>NewBillingServerResponseError\<close>: a message with the status to answer with.\<close>

fun response_error :: "rsp_status \<Rightarrow> go_err \<Rightarrow> go_err" where
  "response_error st (ResponseErrorMessage c m) = ResponseError st c m"
| "response_error st e = e"

record create_refund_request =
  crr_OrderId :: string
  crr_MerchantId :: string
  crr_CreatorId :: string
  crr_Reason :: string
  crr_IsChargeback :: bool

section \<open>The VAT period\<close>

definition errorVatReportPeriodNotConfiguredForCountry :: go_err where
  "errorVatReportPeriodNotConfiguredForCountry = ResponseErrorMessage ''vr000002'' ''vat period not configured for country''"

definition getVatReportTime :: "ext \<Rightarrow> int \<Rightarrow> gotime \<Rightarrow> (gotime \<times> gotime) io" where
  "getVatReportTime X vatPeriodMonth date =
     bind (if date = time_zero then time_now X else ret date) (\<lambda>nowTime.
     if vatPeriodMonth = 1 then ret (x_beginning_of_month X nowTime, x_end_of_month X nowTime)
     else if vatPeriodMonth = 2 then
       let first = x_beginning_of_month X nowTime; last_day = x_end_of_month X nowTime in
       ret (if x_month X first mod 2 = 0 then (x_beginning_of_month X (x_add_days X first (- 1)), last_day)
            else (first, x_end_of_month X (x_add_days X last_day 1)))
     else if vatPeriodMonth = 3 then ret (x_beginning_of_quarter X nowTime, x_end_of_quarter X nowTime)
     else throw errorVatReportPeriodNotConfiguredForCountry)"

definition getLastVatReportTime :: "ext \<Rightarrow> int \<Rightarrow> (gotime \<times> gotime) io" where
  "getLastVatReportTime X vatPeriodMonth = getVatReportTime X vatPeriodMonth time_zero"

section \<open>Creating a refund\<close>

definition processOrder :: "ext \<Rightarrow> create_refund_request \<Rightarrow> order io" where
  "processOrder X req =
     bind (replace_err (response_error ResponseStatusNotFound refundErrorNotFound)
       (orderrepo_GetByUuidAndMerchantId X (crr_OrderId req) (crr_MerchantId req))) (\<lambda>ordr.
     if order_PrivateStatus ordr = OrderStatusRefund
     then throw (response_error ResponseStatusBadData refundErrorAlreadyRefunded)
     else if \<not> x_order_refund_allowed X ordr then throw (response_error ResponseStatusBadData refundErrorNotAllowed)
     else ret ordr)"

definition UndoReasonReversal :: string where "UndoReasonReversal = ''reversal''"
definition UndoReasonChargeback :: string where "UndoReasonChargeback = ''chargeback''"

text \<open>Whether both tariffs of the refund are configured; any error means no.\<close>

definition money_back_costs :: "ext \<Rightarrow> bool \<Rightarrow> order \<Rightarrow> unit io" where
  "money_back_costs X isChargeback ordr =
     bind (country_GetByIsoCodeA2 X (x_order_country X ordr)) (\<lambda>country.
     bind (lift (x_order_cost_method_name X ordr)) (\<lambda>methodName.
     bind (time_now X) (\<lambda>refundAt.
     let reason = (if isChargeback then UndoReasonChargeback else UndoReasonReversal);
         days = float_to_int32 (hours (time_sub refundAt (time_unchecked X (order_PaymentMethodOrderClosedAt ordr))) div Fin 24)
     in
     bind (getMoneyBackCostSystem X methodName (x_order_royalty_currency X ordr) reason
             (country_PayerTariffRegion country) (country_IsoCodeA2 country) 1 days (order_MccCode ordr)
             (order_OperatingCompanyId ordr)) (\<lambda>_.
     bind (getMoneyBackCostMerchant X (x_order_merchant_id X ordr) methodName (x_order_royalty_currency X ordr) reason
             (country_PayerTariffRegion country) (country_IsoCodeA2 country) 1 days (order_MccCode ordr)) (\<lambda>_.
     ret ())))))"

definition hasMoneyBackCosts :: "ext \<Rightarrow> bool \<Rightarrow> order \<Rightarrow> bool io" where
  "hasMoneyBackCosts X isChargeback ordr =
     bind (try_go (money_back_costs X isChargeback ordr)) (\<lambda>r. case r of Inl _ \<Rightarrow> ret False | Inr _ \<Rightarrow> ret True)"

definition processRefundsByOrder :: "ext \<Rightarrow> order \<Rightarrow> unit io" where
  "processRefundsByOrder X ordr =
     bind (replace_err (response_error ResponseStatusBadData refundErrorUnknown)
       (refundrepo_GetAmountByOrderId X (order_Id ordr))) (\<lambda>refundedAmount.
     if flt 0 refundedAmount then throw (response_error ResponseStatusBadData refundErrorPaymentAmountLess) else ret ())"

text \<open>The refund of an order: always the whole charge, chargeback or not.\<close>

definition new_refund :: "ext \<Rightarrow> create_refund_request \<Rightarrow> order \<Rightarrow> oid \<Rightarrow> timestamp \<Rightarrow> timestamp \<Rightarrow> refund" where
  "new_refund X req ordr oid createdAt updatedAt =
     \<lparr>refund_Id = x_oid_hex X oid, refund_OriginalOrderId = order_Id ordr, refund_OriginalOrderUuid = order_Uuid ordr,
      refund_ExternalId = [], refund_Amount = order_ChargeAmount ordr, refund_CreatorId = crr_CreatorId req,
      refund_Currency = order_ChargeCurrency ordr, refund_Status = RefundStatusCreated,
      refund_CreatedAt = Some createdAt, refund_UpdatedAt = Some updatedAt,
      refund_PayerData = Some \<lparr>payer_Country = x_order_country X ordr, payer_Zip = x_order_postal_code X ordr,
        payer_State = x_order_state X ordr\<rparr>,
      refund_SalesTax = to_float32 (order_TaxAmount ordr), refund_IsChargeback = crr_IsChargeback req,
      refund_CreatedOrderId = [],
      refund_Reason = (if crr_Reason req \<noteq> [] then crr_Reason req else ''Refund by order #'' @ order_Id ordr)\<rparr>"

definition processCreateRefund :: "ext \<Rightarrow> create_refund_request \<Rightarrow> (order \<times> refund) io" where
  "processCreateRefund X req =
     bind (processOrder X req) (\<lambda>ordr.
     bind (hasMoneyBackCosts X (crr_IsChargeback req) ordr) (\<lambda>costs.
     if \<not> costs then throw (response_error ResponseStatusBadData refundErrorCostsRatesNotFound)
     else bind (processRefundsByOrder X ordr) (\<lambda>_.
     bind (new_oid X) (\<lambda>oid.
     bind (timestamp_now X) (\<lambda>createdAt.
     bind (timestamp_now X) (\<lambda>updatedAt.
     let refund = new_refund X req ordr oid createdAt updatedAt in
     bind (replace_err (response_error ResponseStatusBadData orderErrorUnknown) (refundrepo_Insert X refund)) (\<lambda>_.
     ret (ordr, refund))))))))"

text \<open>The status and the message of an error of that kind.\<close>

fun error_response :: "go_err \<Rightarrow> 'a response io" where
  "error_response (ResponseError st c m) = ret (rsp_error st (ResponseErrorMessage c m))"
| "error_response _ = throw go_panic"

definition CreateRefund :: "ext \<Rightarrow> create_refund_request \<Rightarrow> refund response io" where
  "CreateRefund X req =
     bind (try_go (processCreateRefund X req)) (\<lambda>r. case r of Inl e \<Rightarrow> error_response e
     | Inr (ordr, refund) \<Rightarrow>
       bind (deref (order_PaymentMethod ordr)) (\<lambda>pm. case GetGateway (opm_Handler pm) of
         Inl e \<Rightarrow> ret (rsp_error ResponseStatusBadData e)
       | Inr h \<Rightarrow>
         bind (gw_CreateRefund X h ordr refund) (\<lambda>(refund, handlerErr).
         bind (try_go (refundrepo_Update X refund)) (\<lambda>r. case r of
           Inl _ \<Rightarrow> ret (rsp_error ResponseStatusBadData orderErrorUnknown)
         | Inr _ \<Rightarrow> if handlerErr \<noteq> None then ret (rsp_error ResponseStatusBadData refundErrorUnknown)
             else ret (rsp_ok refund)))))"

section \<open>Reading refunds\<close>

text \<open>The refunds of an order of the merchant with their number; every error is an empty answer.\<close>

definition list_refunds :: "ext \<Rightarrow> string \<Rightarrow> string \<Rightarrow> nat \<Rightarrow> nat \<Rightarrow> (refund list \<times> int) io" where
  "list_refunds X orderId merchantId limit offset =
     bind (orderrepo_GetByUuid X orderId) (\<lambda>ordr.
     if x_order_merchant_id X ordr \<noteq> merchantId then ret ([], 0)
     else bind (refundrepo_FindByOrderUuid X orderId limit offset) (\<lambda>refunds.
     bind (refundrepo_CountByOrderUuid X orderId) (\<lambda>count. ret (refunds, count))))"

definition ListRefunds :: "ext \<Rightarrow> string \<Rightarrow> string \<Rightarrow> nat \<Rightarrow> nat \<Rightarrow> (refund list \<times> int) io" where
  "ListRefunds X orderId merchantId limit offset =
     bind (try_go (list_refunds X orderId merchantId limit offset)) (\<lambda>r. case r of
       Inl _ \<Rightarrow> ret ([], 0) | Inr found \<Rightarrow> ret found)"

definition GetRefund :: "ext \<Rightarrow> string \<Rightarrow> string \<Rightarrow> string \<Rightarrow> refund response io" where
  "GetRefund X orderId merchantId refundId =
     bind (try_go (orderrepo_GetByUuidAndMerchantId X orderId merchantId)) (\<lambda>r. case r of
       Inl _ \<Rightarrow> ret (rsp_error ResponseStatusNotFound refundErrorNotFound)
     | Inr _ \<Rightarrow>
       bind (try_go (refundrepo_GetById X refundId)) (\<lambda>r. case r of
         Inl _ \<Rightarrow> ret (rsp_error ResponseStatusNotFound refundErrorNotFound)
       | Inr refund \<Rightarrow> ret (rsp_ok refund)))"

section \<open>The order of a refund\<close>

definition vat_deduction :: "ext \<Rightarrow> order \<Rightarrow> bool io" where
  "vat_deduction X ordr =
     bind (country_GetByIsoCodeA2 X (x_order_country X ordr)) (\<lambda>country.
     if \<not> country_VatEnabled country then ret False
     else bind (getLastVatReportTime X (country_VatPeriodMonth country)) (\<lambda>(start, _).
       bind (lift (x_timestamp X (order_PaymentMethodOrderClosedAt ordr))) (\<lambda>orderPayedAt.
       ret (unix orderPayedAt < unix start))))"

definition refund_order_of :: "ext \<Rightarrow> order \<Rightarrow> refund \<Rightarrow> bool \<Rightarrow> oid \<Rightarrow> string \<Rightarrow> timestamp \<Rightarrow> timestamp \<Rightarrow> timestamp \<Rightarrow> order" where
  "refund_order_of X ordr refund isVatDeduction oid uuid createdAt updatedAt refundedAt =
     ordr\<lparr>order_Id := x_oid_hex X oid, order_Uuid := uuid, order_Type := OrderTypeRefund,
       order_PrivateStatus := (if refund_IsChargeback refund then OrderStatusChargeback else OrderStatusRefund),
       order_Status := (if refund_IsChargeback refund then OrderPublicStatusChargeback else OrderPublicStatusRefunded),
       order_CreatedAt := Some createdAt, order_UpdatedAt := Some updatedAt, order_RefundedAt := Some refundedAt,
       order_IsRefundAllowed := False, order_Refunded := True,
       order_Refund := Some \<lparr>oref_Amount = refund_Amount refund, oref_Currency = refund_Currency refund,
         oref_Reason = refund_Reason refund, oref_Code = [], oref_ReceiptNumber = refund_Id refund, oref_ReceiptUrl = []\<rparr>,
       order_ParentOrder := Some (order_Id ordr, order_Uuid ordr), order_IsVatDeduction := isVatDeduction,
       order_ParentPaymentAt := order_PaymentMethodOrderClosedAt ordr, order_RoyaltyReportId := [],
       order_ChargeAmount := refund_Amount refund\<rparr>"

text \<open>
  The amounts, by who pays the tax: the refund order, and the original order where the copy shares its tax.
\<close>

definition refund_amounts :: "ext \<Rightarrow> order \<Rightarrow> order \<Rightarrow> refund \<Rightarrow> go_err + order \<times> order" where
  "refund_amounts X ordr refundOrder refund =
     (if order_VatPayer refundOrder = VatPayerBuyer then
        Inr (ordr, refundOrder\<lparr>order_OrderAmount :=
          x_format_amount X (order_TotalPaymentAmount refundOrder - order_TaxAmount refundOrder)\<rparr>)
      else if order_VatPayer refundOrder = VatPayerSeller then
        let tax = x_format_amount X (x_percent_part X (refund_Amount refund) (order_TaxRate refundOrder)) in
        Inr (if x_copy_shares X then ordr\<lparr>order_TaxAmount := tax\<rparr> else ordr, refundOrder\<lparr>order_TaxAmount := tax\<rparr>)
      else if order_VatPayer refundOrder = VatPayerNobody then Inr (ordr, refundOrder)
      else Inl orderErrorVatPayerUnknown)"

definition createOrderByRefund :: "ext \<Rightarrow> order \<Rightarrow> refund \<Rightarrow> (order \<times> order) io" where
  "createOrderByRefund X ordr refund =
     bind (replace_err refundErrorUnknown (vat_deduction X ordr)) (\<lambda>isVatDeduction.
     bind (new_oid X) (\<lambda>oid.
     bind (reading (x_uuid X)) (\<lambda>uuid.
     bind (timestamp_now X) (\<lambda>createdAt.
     bind (timestamp_now X) (\<lambda>updatedAt.
     bind (timestamp_now X) (\<lambda>refundedAt.
     bind (lift (refund_amounts X ordr
        (refund_order_of X ordr refund isVatDeduction oid uuid createdAt updatedAt refundedAt) refund)) (\<lambda>(ordr, refundOrder).
     bind (reading (x_uuid X)) (\<lambda>receiptId.
     let refundOrder = refundOrder\<lparr>order_ReceiptId := receiptId,
           order_ReceiptUrl := GetReceiptRefundUrl X (order_Uuid refundOrder) receiptId\<rparr> in
     bind (replace_err refundErrorUnknown (orderrepo_Insert X refundOrder)) (\<lambda>_.
     ret (ordr, refundOrder))))))))))"

section \<open>The callback of the gateway\<close>

text \<open>\<open>PaymentNotifyResponse\<close>: a status and the text of an error.\<close>

type_synonym refund_notify_response = "rsp_status \<times> string"

text \<open>The total of a subscription loses one payment.\<close>

definition refund_subscription :: "ext \<Rightarrow> order \<Rightarrow> unit io" where
  "refund_subscription X ordr =
     (if \<not> order_Recurring ordr then ret ()
      else bind (try_go (rpc (\<lambda>n. x_get_subscription X n (order_RecurringId ordr)))) (\<lambda>r. case r of Inl _ \<Rightarrow> ret ()
      | Inr (_, _, found) \<Rightarrow> bind (deref found) (\<lambda>sub.
        let sub = sub\<lparr>sub_TotalAmount := sub_TotalAmount sub - sub_Amount sub\<rparr> in
        bind (modify (w_sent_update (\<lambda>ms. ms @ [SentSubscription sub]))) (\<lambda>_.
        bind (try_go (rpc (\<lambda>n. x_update_subscription X n sub))) (\<lambda>_. ret ())))))"

text \<open>An order that has been refunded in full.\<close>

definition refunded_order :: "order \<Rightarrow> refund \<Rightarrow> float64 \<Rightarrow> timestamp \<Rightarrow> timestamp \<Rightarrow> order" where
  "refunded_order ordr refund refundedAmount updatedAt refundedAt =
     ordr\<lparr>order_PrivateStatus := (if refund_IsChargeback refund then OrderStatusChargeback else OrderStatusRefund),
       order_Status := (if refund_IsChargeback refund then OrderPublicStatusChargeback else OrderPublicStatusRefunded),
       order_UpdatedAt := Some updatedAt, order_RefundedAt := Some refundedAt, order_Refunded := True,
       order_IsRefundAllowed := False,
       order_Refund := Some \<lparr>oref_Amount = refundedAmount, oref_Currency = order_ChargeCurrency ordr,
         oref_Reason = refund_Reason refund, oref_Code = [], oref_ReceiptNumber = refund_Id refund, oref_ReceiptUrl = []\<rparr>\<rparr>"

text \<open>The errors of the amount and of the update are dropped.\<close>

definition settle_original :: "ext \<Rightarrow> order \<Rightarrow> refund \<Rightarrow> order io" where
  "settle_original X ordr refund =
     bind (try_go (refundrepo_GetAmountByOrderId X (order_Id ordr))) (\<lambda>r.
     let refundedAmount = (case r of Inl _ \<Rightarrow> 0 | Inr a \<Rightarrow> a) in
     if \<not> feq refundedAmount (order_ChargeAmount ordr) then ret ordr
     else bind (timestamp_now X) (\<lambda>updatedAt.
     bind (timestamp_now X) (\<lambda>refundedAt.
     bind (updateOrder X (refunded_order ordr refund refundedAmount updatedAt refundedAt)) (\<lambda>(ordr, _). ret ordr))))"

definition finish_refund :: "ext \<Rightarrow> order \<Rightarrow> order \<Rightarrow> refund \<Rightarrow> refund_notify_response io" where
  "finish_refund X ordr refundOrder refund =
     bind (settle_original X ordr refund) (\<lambda>ordr.
     bind (try_go (onRefundNotify X refund ordr)) (\<lambda>r. case r of
       Inl e \<Rightarrow> ret (ResponseStatusSystemError, x_error_text X e)
     | Inr _ \<Rightarrow> bind (sendMailWithReceipt X refundOrder) (\<lambda>_.
       bind (refund_subscription X ordr) (\<lambda>_. ret (ResponseStatusOk, [])))))"

text \<open>The refund order is created once: a repeated callback finds it by the id that the refund keeps.\<close>

definition refund_order :: "ext \<Rightarrow> order \<Rightarrow> refund \<Rightarrow> (order \<times> order \<times> refund) io" where
  "refund_order X ordr refund =
     (if refund_CreatedOrderId refund = [] then
        bind (createOrderByRefund X ordr refund) (\<lambda>(ordr, refundOrder).
        ret (ordr, refundOrder, refund\<lparr>refund_CreatedOrderId := order_Id refundOrder\<rparr>))
      else bind (getOrderById X (refund_CreatedOrderId refund)) (\<lambda>refundOrder. ret (ordr, refundOrder, refund)))"

definition refund_completed :: "ext \<Rightarrow> order \<Rightarrow> refund \<Rightarrow> refund_notify_response io" where
  "refund_completed X ordr refund =
     bind (try_go (refund_order X ordr refund)) (\<lambda>r. case r of
       Inl e \<Rightarrow> ret (ResponseStatusSystemError, x_error_text X e)
     | Inr (ordr, refundOrder, refund) \<Rightarrow>
       bind (try_go (refundrepo_Update X refund)) (\<lambda>r. case r of
         Inl _ \<Rightarrow> ret (ResponseStatusSystemError, x_error_text X orderErrorUnknown)
       | Inr _ \<Rightarrow> finish_refund X ordr refundOrder refund))"

text \<open>A refund that the gateway turned down may be asked for again.\<close>

definition reopen_order :: "ext \<Rightarrow> order \<Rightarrow> refund \<Rightarrow> unit io" where
  "reopen_order X ordr refund =
     bind (deref (order_PaymentMethod ordr)) (\<lambda>pm.
     bind (orderrepo_Update X (ordr\<lparr>order_IsRefundAllowed := opm_RefundAllowed pm\<rparr>)) (\<lambda>_.
     bind (updateOrderView X [order_Id ordr]) (\<lambda>_.
     refundrepo_Update X refund)))"

definition refund_declined :: "ext \<Rightarrow> order \<Rightarrow> refund \<Rightarrow> refund_notify_response io" where
  "refund_declined X ordr refund =
     bind (try_go (reopen_order X ordr refund)) (\<lambda>r. case r of
       Inl _ \<Rightarrow> ret (ResponseStatusSystemError, x_error_text X orderErrorUnknown)
     | Inr _ \<Rightarrow> ret (ResponseStatusOk, []))"

definition handle_refund :: "ext \<Rightarrow> gateway \<Rightarrow> order \<Rightarrow> refund \<Rightarrow> refund_callback \<Rightarrow> string \<Rightarrow> string \<Rightarrow>
    refund_notify_response io" where
  "handle_refund X h ordr refund data body signature =
     bind (gw_ProcessRefund X h ordr refund data body signature) (\<lambda>(ordr, refund, pErr).
     bind (try_go (refundrepo_Update X refund)) (\<lambda>r. case r of
       Inl _ \<Rightarrow> ret (ResponseStatusSystemError, x_error_text X orderErrorUnknown)
     | Inr _ \<Rightarrow> (case pErr of
         Some (st, e) \<Rightarrow> ret (if st = ResponseStatusTemporary then ResponseStatusOk else st, x_error_text X (response_error st e))
       | None \<Rightarrow> if refund_Status refund = RefundStatusCompleted then refund_completed X ordr refund
                 else refund_declined X ordr refund)))"

definition ProcessRefundCallback :: "ext \<Rightarrow> string \<Rightarrow> string \<Rightarrow> string \<Rightarrow> refund_notify_response io" where
  "ProcessRefundCallback X handler body signature =
     (if handler \<noteq> PaymentSystemHandlerCardPay then ret (ResponseStatusBadData, callbackHandlerIncorrect)
      else case x_json_refund_callback X body of
        Inl _ \<Rightarrow> ret (ResponseStatusBadData, callbackRequestIncorrect)
      | Inr decoded \<Rightarrow>
        bind (deref decoded) (\<lambda>data.
        if rcb_RefundData data = None then ret (ResponseStatusBadData, callbackRequestIncorrect)
        else bind (deref (rcb_MerchantOrderId data)) (\<lambda>refundId.
        bind (try_go (refundrepo_GetById X refundId)) (\<lambda>r. case r of
          Inl _ \<Rightarrow> ret (ResponseStatusNotFound, x_error_text X refundErrorNotFound)
        | Inr refund \<Rightarrow>
        bind (try_go (getOrderById X (refund_OriginalOrderId refund))) (\<lambda>r. case r of
          Inl _ \<Rightarrow> ret (ResponseStatusNotFound, x_error_text X refundErrorOrderNotFound)
        | Inr ordr \<Rightarrow>
        bind (deref (order_PaymentMethod ordr)) (\<lambda>pm. case GetGateway (opm_Handler pm) of
          Inl _ \<Rightarrow> ret (ResponseStatusSystemError, x_error_text X orderErrorUnknown)
        | Inr h \<Rightarrow> handle_refund X h ordr refund data body signature))))))"

end
