(* ===== verification/PaymentCallback.thy ===== *)
theory PaymentCallback
  imports Refunds
begin

text \<open>
  The callback of the gateway for a payment (PaymentCallbackProcess of internal/service/order.go): the
  gateway's answer is read into the order, the order is stored with all that follows from its new status,
  and a payment that went through is posted.
\<close>

section \<open>Lookups and errors\<close>

definition paymentsystem_GetById :: "ext \<Rightarrow> string \<Rightarrow> payment_system io" where
  "paymentsystem_GetById X i = find_one X w_payment_systems (\<lambda>p. psys_Id p = i \<and> psys_IsActive p)"

text \<open>The merchant is replaced and put into the cache; the cache itself is left out.\<close>

definition merchant_Update :: "ext \<Rightarrow> merchant \<Rightarrow> unit io" where
  "merchant_Update X m = bind (lift (x_oid_from_hex X (merchant_Id m))) (\<lambda>_.
     bind (replace_one X w_merchants_update (\<lambda>x. merchant_Id x = merchant_Id m) m) (\<lambda>_. calling X))"

definition orderErrorAlreadyProcessed :: go_err where
  "orderErrorAlreadyProcessed = ResponseErrorMessage ''fm000075'' ''order is already processed''"
definition orderErrorPaymentSystemInactive :: go_err where
  "orderErrorPaymentSystemInactive =
     ResponseErrorMessage ''fm000010'' ''payment system for specified payment Method is inactive''"
definition orderErrorPaymentMethodNotFound :: go_err where
  "orderErrorPaymentMethodNotFound =
     ResponseErrorMessage ''fm000006'' ''payment Method with specified identifier not found''"
definition paymentRequestIncorrect :: string where "paymentRequestIncorrect = ''payment request has incorrect format''"
definition subscriptionUpdateFailed :: string where
  "subscriptionUpdateFailed = ''unable to update recurring subscription''"

section \<open>What the order keeps of the payment\<close>

definition fillPaymentDataCard :: "ext \<Rightarrow> order \<Rightarrow> order io" where
  "fillPaymentDataCard X ordr =
     (let params = order_PaymentMethodTxnParams ordr; requisites = order_PaymentRequisites ordr;
          pan = (if go_get params PaymentCreateFieldPan = [] then go_get requisites ''pan''
                 else go_get params PaymentCreateFieldPan);
          card = \<lparr>pmc_Masked = pan, pmc_First6 = (if 6 \<le> length pan then take 6 pan else []),
            pmc_Last4 = (if 6 \<le> length pan then drop (length pan - 4) pan else []),
            pmc_ExpiryMonth = go_get requisites ''month'', pmc_ExpiryYear = go_get requisites ''year'',
            pmc_Brand = go_get requisites ''card_brand'', pmc_Fingerprint = [],
            pmc_Secure3D = (go_get params TxnParamsFieldBankCardIs3DS = ''1'')\<rparr>
      in bind (deref (order_PaymentMethod ordr)) (\<lambda>pm.
         bind (reading (\<lambda>n. x_card_fingerprint X n card)) (\<lambda>fp.
         let card = (case fp of Inl _ \<Rightarrow> card | Inr v \<Rightarrow> card\<lparr>pmc_Fingerprint := v\<rparr>) in
         ret (ordr\<lparr>order_PaymentMethodPayerAccount := pan, order_PaymentMethod := Some (pm\<lparr>opm_Card := Some card\<rparr>)\<rparr>))))"

definition fillPaymentDataEwallet :: "order \<Rightarrow> order io" where
  "fillPaymentDataEwallet ordr =
     (let account = go_get (order_PaymentMethodTxnParams ordr) PaymentCreateFieldEWallet in
      bind (deref (order_PaymentMethod ordr)) (\<lambda>pm.
      ret (ordr\<lparr>order_PaymentMethodPayerAccount := account,
        order_PaymentMethod := Some (pm\<lparr>opm_Wallet := Some \<lparr>pma_Brand = opm_Name pm, pma_Account = account\<rparr>\<rparr>)\<rparr>)))"

definition fillPaymentDataCrypto :: "order \<Rightarrow> order io" where
  "fillPaymentDataCrypto ordr =
     (let address = go_get (order_PaymentMethodTxnParams ordr) PaymentCreateFieldCrypto in
      bind (deref (order_PaymentMethod ordr)) (\<lambda>pm.
      ret (ordr\<lparr>order_PaymentMethodPayerAccount := address,
        order_PaymentMethod := Some (pm\<lparr>opm_CryptoCurrency := Some \<lparr>pma_Brand = opm_Name pm, pma_Account = address\<rparr>\<rparr>)\<rparr>)))"

definition fill_payment_data :: "ext \<Rightarrow> order \<Rightarrow> order io" where
  "fill_payment_data X ordr =
     bind (deref (order_PaymentMethod ordr)) (\<lambda>pm.
     if opm_ExternalId pm = PaymentSystemGroupAliasBankCard then fillPaymentDataCard X ordr
     else if opm_ExternalId pm \<in> set ewallet_aliases then fillPaymentDataEwallet ordr
     else if opm_ExternalId pm = PaymentSystemGroupAliasBitcoin then fillPaymentDataCrypto ordr
     else ret ordr)"

text \<open>The first payment of the merchant, whatever became of it.\<close>

definition note_first_payment :: "ext \<Rightarrow> merchant \<Rightarrow> order \<Rightarrow> order io" where
  "note_first_payment X merchant ordr =
     (if \<not> order_IsProduction ordr then ret ordr
      else case merchant_FirstPaymentAt merchant of
        Some paidAt \<Rightarrow> if 0 < ts_seconds paidAt
          then ret (if order_ProjectFirstPaymentAt ordr = None then ordr\<lparr>order_ProjectFirstPaymentAt := Some paidAt\<rparr> else ordr)
          else bind (merchant_Update X (merchant\<lparr>merchant_FirstPaymentAt := order_PaymentMethodOrderClosedAt ordr\<rparr>))
            (\<lambda>_. ret (ordr\<lparr>order_ProjectFirstPaymentAt := order_PaymentMethodOrderClosedAt ordr\<rparr>))
      | None \<Rightarrow> bind (merchant_Update X (merchant\<lparr>merchant_FirstPaymentAt := order_PaymentMethodOrderClosedAt ordr\<rparr>))
            (\<lambda>_. ret (ordr\<lparr>order_ProjectFirstPaymentAt := order_PaymentMethodOrderClosedAt ordr\<rparr>)))"

section \<open>Subscriptions\<close>

definition find_subscription :: "ext \<Rightarrow> order \<Rightarrow> subscription io" where
  "find_subscription X ordr = bind (rpc (\<lambda>n. x_get_subscription X n (order_RecurringId ordr))) (\<lambda>(st, message, found).
     if st \<noteq> ResponseStatusOk then throw (ErrOther message) else deref found)"

text \<open>Every payment of a subscription after the first is an order of its own, inserted as a new one.\<close>

definition renewal_order :: "ext \<Rightarrow> order \<Rightarrow> order io" where
  "renewal_order X ordr =
     bind (new_oid X) (\<lambda>oid.
     bind (reading (x_uuid X)) (\<lambda>uuid.
     bind (reading (x_uuid X)) (\<lambda>receiptId.
     bind (timestamp_now X) (\<lambda>createdAt.
     bind (timestamp_now X) (\<lambda>updatedAt.
     let newOrder = ordr\<lparr>order_Id := x_oid_hex X oid, order_Uuid := uuid, order_ReceiptId := receiptId,
           order_CreatedAt := Some createdAt, order_UpdatedAt := Some updatedAt, order_Canceled := False,
           order_CanceledAt := None, order_ReceiptUrl := [], order_RoyaltyReportId := [],
           order_PrivateStatus := OrderStatusNew, order_ParentOrder := Some (order_Id ordr, order_Uuid ordr)\<rparr> in
     bind (orderrepo_Insert X newOrder) (\<lambda>_.
     ret (newOrder\<lparr>order_PrivateStatus := order_PrivateStatus ordr\<rparr>)))))))"

definition settle_subscription :: "ext \<Rightarrow> gateway \<Rightarrow> order \<Rightarrow> subscription option \<Rightarrow> unit io" where
  "settle_subscription X h ordr subscription = (case subscription of None \<Rightarrow> ret () | Some sub \<Rightarrow>
     if order_PrivateStatus ordr \<noteq> OrderStatusPaymentSystemComplete then gw_DeleteRecurringSubscription X h ordr sub
     else bind (time_now X) (\<lambda>t.
       let sub = sub\<lparr>sub_IsActive := True,
             sub_LastPaymentAt := (case x_timestamp_proto X (t - t mod second) of Inl _ \<Rightarrow> None | Inr ts \<Rightarrow> Some ts),
             sub_TotalAmount := sub_TotalAmount sub + sub_Amount sub\<rparr> in
       bind (modify (w_sent_update (\<lambda>ms. ms @ [SentSubscription sub]))) (\<lambda>_.
       bind (try_go (rpc (\<lambda>n. x_update_subscription X n sub))) (\<lambda>r.
       if r = Inr ResponseStatusOk then ret () else throw (ErrOther subscriptionUpdateFailed)))))"

section \<open>Saved cards\<close>

definition go_put :: "'v go_map \<Rightarrow> string \<Rightarrow> 'v \<Rightarrow> 'v go_map io" where
  "go_put m k v = bind (deref m) (\<lambda>kvs. ret (Some (AList.update k v kvs)))"

text \<open>The card is saved first; an order that cannot be read again is a nil pointer in the log statement.\<close>

definition saveRecurringCard :: "ext \<Rightarrow> order \<Rightarrow> string \<Rightarrow> unit io" where
  "saveRecurringCard X ordr recurringId =
     bind (deref (order_User ordr)) (\<lambda>user.
     bind (try_go (send X (SentSavedCard \<lparr>sc_Token = ou_Id user, sc_ProjectId = order_ProjectId ordr,
       sc_MerchantId = order_ProjectMerchantId ordr,
       sc_MaskedPan = go_get (order_PaymentMethodTxnParams ordr) PaymentCreateFieldPan,
       sc_CardHolder = go_get (order_PaymentMethodTxnParams ordr) PaymentCreateFieldHolder,
       sc_Month = go_get (order_PaymentRequisites ordr) PaymentCreateFieldMonth,
       sc_Year = go_get (order_PaymentRequisites ordr) PaymentCreateFieldYear, sc_RecurringId = recurringId\<rparr>))) (\<lambda>r.
     case r of Inl _ \<Rightarrow> ret ()
     | Inr _ \<Rightarrow> bind (try_go (orderrepo_GetById X (order_Id ordr))) (\<lambda>r. case r of
         Inl _ \<Rightarrow> throw go_panic
       | Inr found \<Rightarrow> bind (go_put (order_PaymentRequisites found) ''saved'' ''1'') (\<lambda>requisites.
           bind (updateOrder X (found\<lparr>order_PaymentRequisites := requisites\<rparr>)) (\<lambda>_. ret ())))))"

section \<open>The handler\<close>

type_synonym payment_notify_response = "int \<times> string"

definition paymentSystemPaymentCallbackComplete :: "ext \<Rightarrow> order \<Rightarrow> unit io" where
  "paymentSystemPaymentCallbackComplete X ordr = send X (SentCentrifugo (x_order_channel X (order_Uuid ordr))
     (''{\"order_id\":\"'' @ order_Uuid ordr @ ''\",\"status\":\"PAYMENT_SYSTEM_PROCESSING_SUCCESS\"}''))"

fun message_text :: "go_err \<Rightarrow> string" where
  "message_text (ResponseErrorMessage c m) = m"
| "message_text _ = []"

text \<open>After the order has been stored: subscription, payment form, postings, mail and saved card.\<close>

definition payment_accepted :: "ext \<Rightarrow> gateway \<Rightarrow> payment_callback \<Rightarrow> order \<Rightarrow> subscription option \<Rightarrow> payment_notify_response io" where
  "payment_accepted X h data ordr subscription =
     (let complete = (order_PrivateStatus ordr = OrderStatusPaymentSystemComplete) in
      bind (settle_subscription X h ordr subscription) (\<lambda>_.
      bind (try_go (if complete then paymentSystemPaymentCallbackComplete X ordr else ret ())) (\<lambda>r. case r of
        Inl e \<Rightarrow> ret (StatusErrorSystem, x_error_text X e)
      | Inr _ \<Rightarrow>
        bind (try_go (onPaymentNotify X ordr)) (\<lambda>r. case r of
          Inl e \<Rightarrow> if is_message e then ret (StatusErrorSystem, message_text e) else throw e
        | Inr _ \<Rightarrow>
          bind (if complete then sendMailWithReceipt X ordr else ret ()) (\<lambda>_.
          bind (if gw_CanSaveCard X h data then bind (gw_GetRecurringId h data) (saveRecurringCard X ordr) else ret ()) (\<lambda>_.
          ret (StatusOK, [])))))))"

text \<open>What the answer of the gateway leaves to be stored; the order may be a new one of a subscription.\<close>

definition payment_order :: "ext \<Rightarrow> gateway \<Rightarrow> payment_callback \<Rightarrow> order \<Rightarrow> (order \<times> subscription option) io" where
  "payment_order X h data ordr =
     bind (fill_payment_data X ordr) (\<lambda>ordr.
     bind (merchant_GetById X (x_order_merchant_id X ordr)) (\<lambda>merchant.
     bind (note_first_payment X merchant ordr) (\<lambda>ordr.
     if \<not> gw_IsSubscriptionCallback h data then ret (ordr, None)
     else bind (find_subscription X ordr) (\<lambda>sub.
       if sub_LastPaymentAt sub = None then ret (ordr, Some sub)
       else bind (renewal_order X ordr) (\<lambda>ordr. ret (ordr, Some sub))))))"

definition process_payment :: "ext \<Rightarrow> gateway \<Rightarrow> payment_callback \<Rightarrow> order \<Rightarrow> string \<Rightarrow> string \<Rightarrow> payment_notify_response io" where
  "process_payment X h data ordr body signature =
     bind (gw_ProcessPayment X h ordr data body signature) (\<lambda>(ordr, pErr).
     let failure = (case pErr of None \<Rightarrow> (StatusOK, []) | Some (st, e) \<Rightarrow> (st, x_error_text X e)) in
     if fst failure = StatusTemporary then ret failure
     else bind (payment_order X h data ordr) (\<lambda>(ordr, subscription).
       bind (updateOrder X ordr) (\<lambda>(ordr, err). case err of
         Some e \<Rightarrow> if is_message e then ret (StatusErrorSystem, message_text e) else throw e
       | None \<Rightarrow> if pErr \<noteq> None then ret failure else payment_accepted X h data ordr subscription)))"

text \<open>The gateway of the order and the decoded request; only payments in progress take one.\<close>

definition callback_request :: "ext \<Rightarrow> order \<Rightarrow> string \<Rightarrow> (gateway \<times> payment_callback) io" where
  "callback_request X ordr body =
     (if order_PrivateStatus ordr \<noteq> OrderStatusProjectInProgress then throw orderErrorAlreadyProcessed
      else bind (deref (order_PaymentMethod ordr)) (\<lambda>pm.
      bind (replace_err orderErrorPaymentSystemInactive (paymentsystem_GetById X (opm_PaymentSystemId pm))) (\<lambda>ps.
      if psys_Handler ps \<notin> {PaymentSystemHandlerCardPay, PaymentSystemHandlerCardPayMock}
      then throw orderErrorPaymentMethodNotFound
      else bind (replace_err (ErrOther paymentRequestIncorrect) (lift (x_json_payment_callback X body))) (\<lambda>data.
      bind (lift (GetGateway (psys_Handler ps))) (\<lambda>h. ret (h, data))))))"

definition PaymentCallbackProcess :: "ext \<Rightarrow> string \<Rightarrow> string \<Rightarrow> string \<Rightarrow> payment_notify_response io" where
  "PaymentCallbackProcess X orderId body signature =
     bind (replace_err orderErrorNotFound (getOrderById X orderId)) (\<lambda>ordr.
     bind (callback_request X ordr body) (\<lambda>(h, data). process_payment X h data ordr body signature))"

end
