(* ===== verification/TokenLock.thy ===== *)
theory TokenLock
  imports PaymentCallback
begin

text \<open>
  The lock around the tokens of CardPay: an answer that is not valid JSON leaves it taken, and nobody gives
  it back. From then on the tokens never change, and a request that needs a new one does not come back.
\<close>

definition stuck :: "(string \<rightharpoonup> card_token) \<Rightarrow> world \<Rightarrow> bool" where
  "stuck tokens s \<longleftrightarrow> w_token_lock s \<and> w_tokens s = tokens"

lemma stuck_sending: "sending_stable (stuck tokens)" and stuck_calm: "calm (stuck tokens)"
  by (simp_all add: sending_stable_def calm_def stuck_def)

lemmas keeps_stuck = keeps_quiet[OF stuck_calm]

lemma keeps_http: "keeps (stuck tokens) (http_do X req)"
  unfolding http_do_def by (intro keeps_bind keeps_modify keeps_stuck quiet_calls) (simp add: stuck_def)

lemma setToken_stuck: "w_token_lock s \<Longrightarrow> setToken X b k s = (Inl go_hangs, s)"
  by (simp add: setToken_def run_go)

lemma quiet_cardpay [quiet_intros]: "quiet (pm_params_of ordr)" "quiet (request_time X)"
  unfolding pm_params_of_def request_time_def by (intro quiet_intros)+

lemma keeps_token_request: "keeps (stuck tokens) (token_request X ordr action form)"
proof -
  have s: "keeps (stuck tokens) (setToken X b k)" for b k
    by (rule keepsI) (auto simp: stuck_def setToken_stuck)
  have h: "keeps (stuck tokens) (http_body_of X req code failed)" for req code failed
    unfolding http_body_of_def by (intro keeps_bind keeps_http keeps_if keeps_pure)
  show ?thesis unfolding token_request_def
    by (intro keeps_bind keeps_pure s h keeps_stuck quiet_cardpay)
qed

lemma keeps_getToken: "keeps (stuck tokens) (getToken X ordr)"
proof -
  have "keeps (stuck tokens) (cp_refresh X ordr)"
    unfolding cp_refresh_def by (intro keeps_bind keeps_pure keeps_effects keeps_token_request keeps_stuck quiet_cardpay)
  note r = keeps_effects(2)[OF this] and q = keeps_stuck[OF quiet_cardpay(1)] keeps_stuck[OF quiet_calls(5)]
  show ?thesis unfolding getToken_def
    by (intro keeps_bind keeps_option keeps_if keeps_sum keeps_pure r q)
qed

lemma keeps_getRequestWithAuth: "keeps (stuck tokens) (getRequestWithAuth X ordr data action)"
  unfolding getRequestWithAuth_def cp_auth_def
  by (intro keeps_bind keeps_if keeps_pure keeps_effects keeps_getToken keeps_token_request keeps_stuck quiet_cardpay)

text \<open>Requests one after the other, whatever they answer.\<close>

primrec cp_requests :: "ext \<Rightarrow> (order \<times> http_body \<times> cp_action) list \<Rightarrow> world \<Rightarrow> world" where
  "cp_requests X [] s = s"
| "cp_requests X (r # rs) s = cp_requests X rs (snd (getRequestWithAuth X (fst r) (fst (snd r)) (snd (snd r)) s))"

lemma requests_stuck: "stuck tokens s \<Longrightarrow> stuck tokens (cp_requests X rs s)"
proof (induction rs arbitrary: s)
  case (Cons r rs)
  obtain q t where run: "getRequestWithAuth X (fst r) (fst (snd r)) (snd (snd r)) s = (q, t)" by fastforce
  show ?case using Cons.IH keepsD[OF keeps_getRequestWithAuth Cons.prems run] run by simp
qed simp

text \<open>A terminal without a token asks for one, and the answer waits for the lock.\<close>

lemma request_waits:
  assumes s: "stuck tokens s" and pm: "order_PaymentMethod ordr = Some pm" "opm_Params pm = Some params"
    and no: "tokens (pmp_TerminalId params) = None"
    and url: "getUrl X (x_order_api_url X ordr) PaymentSystemActionAuthenticate = Inr u"
    and answer: "\<And>n req. \<exists>b. x_http X n req = Inr \<lparr>hrsp_StatusCode = 200, hrsp_Body = Inr b\<rparr>"
  shows "fst (getRequestWithAuth X ordr data action s) = Inl go_hangs"
proof -
  obtain b where b: "\<And>n req. x_http X n req = Inr \<lparr>hrsp_StatusCode = 200, hrsp_Body = Inr (b n req)\<rparr>"
    using answer by metis
  have p: "pm_params_of ordr = ret params" by (simp add: pm_params_of_def pm)
  have t: "getToken X ordr s = (Inr None, s)" using s no by (simp add: getToken_def p run_go stuck_def)
  have l: "w_token_lock s" using s by (simp add: stuck_def)
  have "fst (cp_auth X ordr s) = Inl go_hangs"
    unfolding cp_auth_def run_bind[of "getToken X ordr"] t
    by (simp add: p token_request_def url http_body_of_def http_do_def run_go b l setToken_stuck)
  then show ?thesis
    by (cases "cp_auth X ordr s") (simp add: getRequestWithAuth_def run_bind[of "cp_auth X ordr"])
qed

text \<open>C22: after an answer of the token endpoint that is not valid JSON, no request of a terminal without a token
  ever comes back, whatever requests are made in between, although the endpoint answers them.
\<close>

theorem token_lock_deadlock:
  assumes bad: "x_json_token X b = Inl e" and free: "\<not> w_token_lock s"
    and pm: "order_PaymentMethod ordr = Some pm" "opm_Params pm = Some params"
    and no: "w_tokens s (pmp_TerminalId params) = None"
    and url: "getUrl X (x_order_api_url X ordr) PaymentSystemActionAuthenticate = Inr u"
    and answer: "\<And>n req. \<exists>b'. x_http X n req = Inr \<lparr>hrsp_StatusCode = 200, hrsp_Body = Inr b'\<rparr>"
  shows "fst (setToken X b k s) = Inl e \<and>
    fst (getRequestWithAuth X ordr data action (cp_requests X rs (snd (setToken X b k s)))) = Inl go_hangs"
proof -
  have run: "setToken X b k s = (Inl e, s\<lparr>w_token_lock := True\<rparr>)"
    using free by (simp add: setToken_def run_go bad)
  have "stuck (w_tokens s) (s\<lparr>w_token_lock := True\<rparr>)" by (simp add: stuck_def)
  from request_waits[OF requests_stuck[OF this] pm no url answer] show ?thesis using run by simp
qed

text \<open>An empty answer to the first request; all the others are answered, and other terminals ask as well.\<close>

definition answering_ext :: ext where
  "answering_ext = sample_ext\<lparr>x_http := \<lambda>_ _. Inr \<lparr>hrsp_StatusCode = 200, hrsp_Body = Inr ''{}''\<rparr>\<rparr>"

definition busy_requests :: "(order \<times> http_body \<times> cp_action) list" where
  "busy_requests = [(sample_order, NoBody, PaymentSystemActionRefund), (sample_order, NoBody, PaymentSystemActionCreatePayment)]"

theorem token_lock_deadlock_witness:
  "fst (setToken answering_ext [] ''t'' empty_world) = Inl (ErrOther ''json'') \<and>
   fst (getRequestWithAuth answering_ext sample_order NoBody PaymentSystemActionRefund
     (cp_requests answering_ext busy_requests (snd (setToken answering_ext [] ''t'' empty_world)))) = Inl go_hangs"
proof (rule token_lock_deadlock)
  show "x_json_token answering_ext [] = Inl (ErrOther ''json'')" by (simp add: answering_ext_def sample_ext_def)
  show "order_PaymentMethod sample_order = Some (the (order_PaymentMethod sample_order))"
    "opm_Params (the (order_PaymentMethod sample_order)) = Some (the (opm_Params (the (order_PaymentMethod sample_order))))"
    by (simp_all add: sample_order_def sample_order_of_def)
  show "getUrl answering_ext (x_order_api_url answering_ext sample_order) PaymentSystemActionAuthenticate =
      Inr ''https://cardpay/api/auth/token''"
    by (simp add: getUrl_def answering_ext_def sample_ext_def)
qed (simp_all add: empty_world_def answering_ext_def)

end
