(* ===== verification/OrderUpdates.thy ===== *)
theory OrderUpdates
  imports PaymentCallback
begin

text \<open>
  What the update of an order writes: one document under the id of the order, with its private status, and
  nothing in the journal, the refunds or the balances.
\<close>

section \<open>Results of computations\<close>

text \<open>Whatever a computation returns has a property, so what follows it may rely on it.\<close>

definition yields :: "'a io \<Rightarrow> ('a \<Rightarrow> bool) \<Rightarrow> bool" where
  "yields m P \<longleftrightarrow> (\<forall>s a t. m s = (Inr a, t) \<longrightarrow> P a)"

named_theorems yields_intros \<open>rules for the results of computations\<close>

lemma yieldsD: "yields m P \<Longrightarrow> m s = (Inr a, t) \<Longrightarrow> P a"
  by (auto simp: yields_def)

lemma yields_any [yields_intros]: "(\<And>a. P a) \<Longrightarrow> yields m P"
  by (simp add: yields_def)

lemma yields_pure: "P a \<Longrightarrow> yields (ret a) P" "yields (throw e) P"
  by (simp_all add: yields_def go_defs)

lemma yields_bind: "yields m Q \<Longrightarrow> (\<And>a. Q a \<Longrightarrow> yields (k a) P) \<Longrightarrow> yields (bind m k) P"
  by (fastforce simp: yields_def bind_Inr)

lemma yields_bind_any: "(\<And>a. yields (k a) P) \<Longrightarrow> yields (bind m k) P"
  by (rule yields_bind[of _ "\<lambda>_. True"]) (auto simp: yields_def)

lemma yields_cases:
  "(b \<Longrightarrow> yields m P) \<Longrightarrow> (\<not> b \<Longrightarrow> yields n P) \<Longrightarrow> yields (if b then m else n) P"
  "(\<And>e. r = Inl e \<Longrightarrow> yields (f e) P) \<Longrightarrow> (\<And>a. r = Inr a \<Longrightarrow> yields (g a) P) \<Longrightarrow> yields (case r of Inl e \<Rightarrow> f e | Inr a \<Rightarrow> g a) P"
  "(x = None \<Longrightarrow> yields m P) \<Longrightarrow> (\<And>a. x = Some a \<Longrightarrow> yields (g' a) P) \<Longrightarrow> yields (case x of None \<Rightarrow> m | Some a \<Rightarrow> g' a) P"
  "(\<And>a b. yields (f' a b) P) \<Longrightarrow> yields (case y of (a, b) \<Rightarrow> f' a b) P"
  by (simp_all split: sum.split option.split prod.split)

lemma yields_fold_go:
  assumes "P acc" and "\<And>acc x. P acc \<Longrightarrow> yields (f acc x) P"
  shows "yields (fold_go f acc xs) P"
  using assms(1) by (induction xs arbitrary: acc) (auto intro: yields_pure yields_bind assms(2))

lemma keeps_bind_yields:
  "keeps I m \<Longrightarrow> yields m P \<Longrightarrow> (\<And>a. P a \<Longrightarrow> keeps I (k a)) \<Longrightarrow> keeps I (bind m k)"
  by (rule keepsI) (auto simp: bind_def split: prod.splits sum.splits dest: keepsD yieldsD)

section \<open>Documents of orders\<close>

lemma order_to_mgo_fields:
  assumes "order_to_mgo X m s = (Inr d, t)"
  shows "order_PrivateStatus d = order_PrivateStatus m" "order_Id m \<noteq> [] \<Longrightarrow> x_oid_from_hex X (order_Id m) = Inr (order_Id d)"
  using assms by (auto simp: order_to_mgo_def success invalid_id_def split: if_splits sum.splits)

lemma order_from_mgo_status: "order_from_mgo X d = Inr m \<Longrightarrow> order_PrivateStatus m = order_PrivateStatus d"
  by (auto simp: order_from_mgo_def bind_err_eq_Inr)

lemma quiet_order_to_mgo [quiet_intros]: "quiet (order_to_mgo X m)"
  unfolding order_to_mgo_def method_to_mgo_def by (intro quiet_intros)

text \<open>
  An invariant that orders of certain private statuses may be stored under: it looks at no call, no message,
  no key and no merchant.
\<close>

definition order_stable :: "(order_private_status \<Rightarrow> bool) \<Rightarrow> (world \<Rightarrow> bool) \<Rightarrow> bool" where
  "order_stable P I \<longleftrightarrow> sending_stable I \<and> (\<forall>s f. I s \<longrightarrow> I (w_keys_update f s)) \<and>
     (\<forall>s f. I s \<longrightarrow> I (w_merchants_update f s)) \<and>
     (\<forall>s d. I s \<longrightarrow> P (order_PrivateStatus d) \<longrightarrow>
        I (w_orders_update (replace_first (\<lambda>x. order_Id x = order_Id d) d) s)) \<and>
     (\<forall>s d. I s \<longrightarrow> P (order_PrivateStatus d) \<longrightarrow> I (w_orders_update (\<lambda>xs. xs @ [d]) s))"

lemma order_stable_calm: "order_stable P I \<Longrightarrow> calm I"
  by (simp add: order_stable_def sending_stable_def)

lemma keeps_orders:
  assumes I: "order_stable P I" and P: "P (order_PrivateStatus ordr)"
  shows "order_Id ordr \<noteq> [] \<Longrightarrow> keeps I (orderrepo_Update X ordr)" "keeps I (orderrepo_Insert X ordr)"
proof -
  note q = keeps_quiet[OF order_stable_calm[OF I]]
  note y = keeps_bind_yields[OF q[OF quiet_order_to_mgo]]
  have r: "keeps I (replace_one X w_orders_update (\<lambda>x. order_Id x = order_Id d) d)"
    if "order_PrivateStatus d = order_PrivateStatus ordr" for d
    unfolding replace_one_def using I P that
    by (intro keeps_bind q[OF quiet_calls(3)] keeps_modify) (simp add: order_stable_def)
  show "keeps I (orderrepo_Update X ordr)" if i: "order_Id ordr \<noteq> []"
  proof -
    have "keeps I (bind (order_to_mgo X ordr) (\<lambda>m. replace_one X w_orders_update (\<lambda>x. order_Id x = dd) m))"
      if "x_oid_from_hex X (order_Id ordr) = Inr dd" for dd
      using i that by (intro y[of X ordr "\<lambda>m. order_PrivateStatus m = order_PrivateStatus ordr \<and> order_Id m = dd"])
        (auto simp: yields_def intro: r dest: order_to_mgo_fields)
    then show ?thesis unfolding orderrepo_Update_def repo_update_def
      by (cases "x_oid_from_hex X (order_Id ordr)") (auto intro: keeps_pure)
  qed
  show "keeps I (orderrepo_Insert X ordr)" unfolding orderrepo_Insert_def repo_insert_def
  proof (rule y[of X ordr "\<lambda>m. order_PrivateStatus m = order_PrivateStatus ordr"])
    show "yields (order_to_mgo X ordr) (\<lambda>m. order_PrivateStatus m = order_PrivateStatus ordr)"
      by (auto simp: yields_def dest: order_to_mgo_fields)
    show "keeps I (insert_one X w_orders w_orders_update order_Id d)" if "order_PrivateStatus d = order_PrivateStatus ordr" for d
      unfolding insert_one_def using I P that
      by (intro keeps_bind keeps_if keeps_pure q[OF quiet_calls(3)] q[OF quiet_pure(4)] keeps_modify) (simp add: order_stable_def)
  qed
qed

section \<open>Updates\<close>

text \<open>The id and the private status of an order, which no notification changes.\<close>

definition same_order :: "order \<Rightarrow> order \<Rightarrow> bool" where
  "same_order a b \<longleftrightarrow> order_Id b = order_Id a \<and> order_PrivateStatus b = order_PrivateStatus a"

lemma same_order_refl [simp]: "same_order a a"
  by (simp add: same_order_def)

lemma yields_mail: "same_order a ordr \<Longrightarrow> yields (sendMailWithCode X ordr k) (same_order a)"
  unfolding sendMailWithCode_def Let_def
  by (intro yields_cases yields_pure yields_bind_any) (auto simp: same_order_def)

lemma yields_finish: "same_order a ordr \<Longrightarrow> yields (finish_key X ordr k) (same_order a)"
  unfolding finish_key_def by (intro yields_bind_any yields_cases yields_pure yields_mail)

lemma yields_notify:
  assumes "same_order a ordr"
  shows "yields (orderNotifyKeyProducts X ordr) (same_order a)" "yields (orderNotifyMerchant X ordr) (same_order a)"
proof -
  have f: "yields (fold_go (finish_key X) ordr ks) (same_order a)" for ks
    by (intro yields_fold_go assms yields_finish)
  have k: "yields (ret (o'\<lparr>order_IsKeyProductNotified := True\<rparr>)) (same_order a)" if "same_order a o'" for o'
    using that by (intro yields_pure) (simp add: same_order_def)
  show "yields (orderNotifyKeyProducts X ordr) (same_order a)" unfolding orderNotifyKeyProducts_def
    by (intro yields_cases yields_pure yields_bind_any[of "\<lambda>_. ret _"] yields_bind[OF f] k assms)
  show "yields (orderNotifyMerchant X ordr) (same_order a)" unfolding orderNotifyMerchant_def Let_def
    using assms by (intro yields_bind_any yields_pure) (simp add: same_order_def)
qed

lemma same_order_receipt: "same_order a ordr \<Longrightarrow> same_order a (with_receipt_url X ordr)"
  by (simp add: same_order_def with_receipt_url_def)

lemma keeps_keys:
  assumes I: "order_stable P I"
  shows "keeps I (CancelRedeemKeyForOrder X k)" "keeps I (FinishRedeemKeyForOrder X k)"
proof -
  note q = keeps_quiet[OF order_stable_calm[OF I]]
  have u: "keeps I (find_one_and_update X w_keys w_keys_update p f)" for p f
    unfolding find_one_and_update_def using I
    by (intro keeps_bind keeps_modify keeps_pure q[OF quiet_store(1)]) (simp add: order_stable_def)
  show "keeps I (CancelRedeemKeyForOrder X k)" "keeps I (FinishRedeemKeyForOrder X k)"
    unfolding CancelRedeemKeyForOrder_def keyrepo_CancelById_def FinishRedeemKeyForOrder_def keyrepo_FinishRedeemById_def
    by (intro keeps_bind keeps_attempt keeps_sum keeps_pure u q[OF quiet_calls(5)])+
qed

lemma keeps_notify_keys:
  assumes I: "order_stable P I"
  shows "keeps I (orderNotifyKeyProducts X ordr)"
proof -
  note q = keeps_quiet[OF order_stable_calm[OF I]]
  have send: "keeps I (send X m)" for m using I by (intro keeps_sending) (simp add: order_stable_def)
  have mail: "keeps I (sendMailWithCode X o' k)" for o' k
    unfolding sendMailWithCode_def Let_def case_prod_beta
    by (intro keeps_option keeps_pure keeps_bind keeps_effects send q[OF quiet_calls(5)])
  have "keeps I (finish_key X o' k)" for o' k
    unfolding finish_key_def by (intro keeps_bind keeps_if keeps_pure keeps_effects keeps_keys[OF I] mail)
  then show ?thesis unfolding orderNotifyKeyProducts_def
    by (intro keeps_if keeps_bind keeps_pure keeps_for_each keeps_fold_go keeps_keys[OF I])
qed

text \<open>What follows the update: notified keys and a notified project.\<close>

lemma keeps_updated:
  assumes I: "order_stable P I" and P: "P (order_PrivateStatus ordr)" "order_Id ordr \<noteq> []" and o': "same_order ordr o'"
  shows "keeps I (bind (if b then orderNotifyKeyProducts X o' else ret o') (\<lambda>ordr3.
      bind (if c \<and> x_order_need_callback X ordr3 then orderNotifyMerchant X ordr3 else ret ordr3) (\<lambda>ordr4.
      ret (ordr4, None))))"
proof -
  have nm: "keeps I (orderNotifyMerchant X o')" if "same_order ordr o'" for o'
    unfolding orderNotifyMerchant_def Let_def using that I P
    by (intro keeps_bind keeps_effects keeps_sending keeps_orders(1)[OF I] keeps_pure) (auto simp: order_stable_def same_order_def)
  show ?thesis
  proof (rule keeps_bind_yields[where P = "same_order ordr"])
    show "keeps I (if b then orderNotifyKeyProducts X o' else ret o')" by (intro keeps_if keeps_pure keeps_notify_keys[OF I])
    show "yields (if b then orderNotifyKeyProducts X o' else ret o') (same_order ordr)"
      using o' by (intro yields_cases yields_notify yields_pure)
  qed (intro keeps_bind keeps_if keeps_pure nm)
qed

lemma quiet_getOrder [quiet_intros]: "quiet (getOrderById X j)" "quiet (try_go (getOrderById X j))"
  unfolding getOrderById_def orderrepo_GetById_def by (intro quiet_intros)+

lemma keeps_updateOrder:
  assumes I: "order_stable P I" and P: "P (order_PrivateStatus ordr)" "order_Id ordr \<noteq> []"
  shows "keeps I (updateOrder X ordr)"
proof -
  have up: "keeps I (orderrepo_Update X o')" if "same_order ordr o'" for o'
    using that P by (intro keeps_orders(1)[OF I]) (auto simp: same_order_def)
  have "keeps I (store_and_notify X b o')" if "same_order ordr o'" for b o'
    unfolding store_and_notify_def using that
    by (intro keeps_bind keeps_sum keeps_pure keeps_effects(2) up keeps_updated[OF I P])
  then show ?thesis unfolding updateOrder_def Let_def
    by (intro keeps_bind keeps_quiet[OF order_stable_calm[OF I] quiet_getOrder(2)])
      (simp add: same_order_def with_receipt_url_def)
qed

end
