(* ===== verification/PaymentSafety.thy ===== *)
theory PaymentSafety
  imports OrderUpdates
begin

text \<open>
  Payments and their callbacks: only a callback that is signed with the secret of the payment method, and
  that names the amount, the currency and the method of the order, completes a payment. A callback that is
  not signed still rejects the order, and what the gateway sends afterwards is refused.
\<close>

section \<open>What the gateway makes of a callback\<close>

definition payment_authentic :: "ext \<Rightarrow> order \<Rightarrow> payment_callback \<Rightarrow> string \<Rightarrow> string \<Rightarrow> bool" where
  "payment_authentic X ordr req raw signature =
     (case Option.bind (order_PaymentMethod ordr) (\<lambda>pm. map_option (Pair pm) (opm_Params pm)) of None \<Rightarrow> False
      | Some (pm, params) \<Rightarrow> x_sha512_hex X (raw @ pmp_SecretCallback params) = signature \<and>
          x_pcb_allowed_status X req \<and> pcb_PaymentMethod req = opm_ExternalId pm \<and>
          feq (x_pcb_amount X req) (order_ChargeAmount ordr) \<and> x_pcb_currency X req = order_ChargeCurrency ordr)"

lemma yields_signature:
  "yields (checkCallbackRequestSignature X ordr raw sig) (\<lambda>ok. ok \<longrightarrow> (\<exists>pm params. order_PaymentMethod ordr = Some pm \<and>
     opm_Params pm = Some params \<and> x_sha512_hex X (raw @ pmp_SecretCallback params) = sig))"
  by (auto simp: yields_def checkCallbackRequestSignature_def pm_params_of_def success)

lemma yields_deref: "yields (deref p) (\<lambda>a. p = Some a)"
  by (auto simp: yields_def success)

lemma with_decline_status [simp]: "order_PrivateStatus (with_decline_reason ordr) = order_PrivateStatus ordr"
  "order_Id (with_decline_reason ordr) = order_Id ordr"
  by (simp_all add: with_decline_reason_def Let_def)

lemma yields_settle_payment:
  "yields (settle_payment X ordr req pm) (\<lambda>r. case r of None \<Rightarrow> True | Some o' \<Rightarrow> order_Id o' = order_Id ordr \<and>
     (order_PrivateStatus o' = OrderStatusPaymentSystemComplete \<longrightarrow> x_pcb_status X req = CardPayStatusCompleted))"
  unfolding settle_payment_def Let_def
  by (intro yields_cases yields_bind_any yields_pure) simp_all

text \<open>The gateway's answer: an error and a rejected order, or an authentic callback.\<close>

definition payment_outcome :: "ext \<Rightarrow> order \<Rightarrow> payment_callback \<Rightarrow> string \<Rightarrow> string \<Rightarrow> order \<times> (int \<times> go_err) option \<Rightarrow> bool" where
  "payment_outcome X ordr req raw signature r \<longleftrightarrow> order_Id (fst r) = order_Id ordr \<and>
     (snd r = None \<longrightarrow> payment_authentic X ordr req raw signature \<and>
       (order_PrivateStatus (fst r) = OrderStatusPaymentSystemComplete \<longrightarrow> x_pcb_status X req = CardPayStatusCompleted)) \<and>
     (snd r \<noteq> None \<longrightarrow> order_PrivateStatus (fst r) = OrderStatusPaymentSystemReject)"

lemma yields_cardpay_payment: "yields (cardpay_ProcessPayment X ordr req raw sig) (payment_outcome X ordr req raw sig)"
proof -
  let ?o = "ordr\<lparr>order_PrivateStatus := OrderStatusPaymentSystemReject\<rparr>"
  have invalid: "yields (ret (?o, Some v)) (payment_outcome X ordr req raw sig)" for v
    by (rule yields_pure) (simp add: payment_outcome_def)
  show ?thesis unfolding cardpay_ProcessPayment_def Let_def
  proof (rule yields_bind[OF yields_signature], intro yields_cases invalid yields_bind_any[of _ _ "filing_missing X req"]
      yields_bind[OF yields_deref] yields_bind[OF yields_settle_payment] yields_pure)
  qed (auto simp: payment_outcome_def payment_authentic_def)
qed

lemma quiet_cardpay_payment: "quiet (cardpay_ProcessPayment X ordr req raw sig)"
  unfolding cardpay_ProcessPayment_def Let_def checkCallbackRequestSignature_def pm_params_of_def filing_missing_def
    settle_payment_def
  by (intro quiet_intros)

text \<open>The shapes of the gateway's answer.\<close>

definition payment_answer :: "order \<Rightarrow> order \<times> (int \<times> go_err) option \<Rightarrow> bool" where
  "payment_answer ordr r = (case r of
     (o', None) \<Rightarrow> order_Id o' = order_Id ordr \<and> order_PaymentMethodOrderClosedAt o' \<noteq> None \<and>
       order_PrivateStatus o' \<in> {OrderStatusPaymentSystemComplete, OrderStatusPaymentSystemDeclined, OrderStatusPaymentSystemCanceled}
   | (o', Some (st, _)) \<Rightarrow> (\<exists>params. o' = ordr\<lparr>order_PrivateStatus := OrderStatusPaymentSystemReject, order_PaymentMethodTxnParams := params\<rparr> \<and>
       (st = StatusTemporary \<or> st = StatusErrorValidation \<and> params = order_PaymentMethodTxnParams ordr)))"

lemma yields_settled:
  "yields (settle_payment X ordr req pm) (\<lambda>r. case r of None \<Rightarrow> True | Some o' \<Rightarrow> order_Id o' = order_Id ordr \<and>
     order_PrivateStatus o' \<in> {OrderStatusPaymentSystemComplete, OrderStatusPaymentSystemDeclined, OrderStatusPaymentSystemCanceled})"
  unfolding settle_payment_def Let_def
  by (intro yields_cases yields_bind_any yields_pure) simp_all

text \<open>C23: whatever is sent to it, CardPay's handler answers in one of three ways: the payment is complete, declined
  or cancelled and has a time; the order is rejected, otherwise untouched, with a validation error; or it is
  put off with the temporary status, and then nothing but its transaction data has changed beside the status.
\<close>

theorem payment_answer_typed:
  assumes "cardpay_ProcessPayment X ordr req raw sig s = (Inr r, t)"
  shows "payment_answer ordr r"
proof -
  let ?o = "ordr\<lparr>order_PrivateStatus := OrderStatusPaymentSystemReject\<rparr>"
  have invalid: "yields (ret (?o, Some (StatusErrorValidation, v))) (payment_answer ordr)" for v
    by (rule yields_pure) (auto simp: payment_answer_def intro!: exI[of _ "order_PaymentMethodTxnParams ordr"])
  have "yields (cardpay_ProcessPayment X ordr req raw sig) (payment_answer ordr)"
    unfolding cardpay_ProcessPayment_def Let_def
  proof (rule yields_bind_any, intro yields_cases invalid yields_bind_any[of _ _ "filing_missing X req"]
      yields_bind_any[of _ _ "deref _"] yields_bind[OF yields_settled] yields_pure)
    fix params answer
    show "payment_answer ordr (?o\<lparr>order_PaymentMethodTxnParams := params\<rparr>, Some (StatusTemporary, PaymentSystemErrorRequestTemporarySkipped))"
      by (simp add: payment_answer_def) (rule exI, rule refl)
  qed (simp add: payment_answer_def)
  then show ?thesis using assms by (rule yieldsD)
qed

section \<open>What a callback stores\<close>

lemma quiet_fill [quiet_intros]: "quiet (fill_payment_data X ordr)"
  unfolding fill_payment_data_def fillPaymentDataCard_def fillPaymentDataEwallet_def fillPaymentDataCrypto_def Let_def
  by (intro quiet_intros)

lemma yields_fill: "yields (fill_payment_data X ordr) (same_order ordr)"
  unfolding fill_payment_data_def fillPaymentDataCard_def fillPaymentDataEwallet_def fillPaymentDataCrypto_def Let_def
  by (intro yields_bind_any yields_cases yields_pure) (simp_all add: same_order_def)

lemma yields_first_payment: "same_order a ordr \<Longrightarrow> yields (note_first_payment X merchant ordr) (same_order a)"
  unfolding note_first_payment_def
  by (intro yields_cases yields_bind_any yields_pure) (auto simp: same_order_def)

text \<open>The order that is stored has the status that the gateway gave it; a renewal gets an id of its own.\<close>

lemma yields_payment_order:
  assumes "codecs_ok X" and "order_Id ordr \<noteq> []"
  shows "yields (payment_order X h data ordr) (\<lambda>r. order_PrivateStatus (fst r) = order_PrivateStatus ordr \<and>
    order_Id (fst r) \<noteq> [] \<and> (\<not> gw_IsSubscriptionCallback h data \<longrightarrow> same_order ordr (fst r)))"
proof -
  have r: "yields (renewal_order X o') (\<lambda>r. order_PrivateStatus r = order_PrivateStatus o' \<and> order_Id r \<noteq> [])" for o'
    unfolding renewal_order_def Let_def
    by (intro yields_bind_any yields_pure) (use assms(1) in \<open>simp add: codecs_hex\<close>)
  show ?thesis unfolding payment_order_def
    by (rule yields_bind[OF yields_fill], rule yields_bind_any, rule yields_bind[OF yields_first_payment], assumption,
      intro yields_cases yields_bind_any[of _ _ "find_subscription X _"] yields_bind[OF r] yields_pure)
      (use assms(2) in \<open>auto simp: same_order_def\<close>)
qed

lemma keeps_payment_order:
  assumes I: "order_stable P I" and new: "P OrderStatusNew"
  shows "keeps I (payment_order X h data ordr)"
proof -
  note q = keeps_quiet[OF order_stable_calm[OF I]]
  have m: "keeps I (merchant_Update X m)" for m
    unfolding merchant_Update_def replace_one_def using I
    by (intro keeps_bind keeps_pure keeps_modify q[OF quiet_calls(3)]) (simp add: order_stable_def)
  have f: "keeps I (note_first_payment X merchant o')" for merchant o'
    unfolding note_first_payment_def by (intro keeps_if keeps_option keeps_bind keeps_pure m)
  have r: "keeps I (renewal_order X o')" for o'
    unfolding renewal_order_def Let_def using new
    by (intro keeps_bind keeps_pure keeps_orders(2)[OF I] q[OF quiet_calls(1)] q[OF quiet_calls(4)] q[OF quiet_calls(6)]) simp
  have l: "quiet (merchant_GetById X i)" "quiet (find_subscription X o')" for i o'
    unfolding merchant_GetById_def find_subscription_def by (intro quiet_intros)+
  show ?thesis unfolding payment_order_def
    by (intro keeps_bind keeps_if keeps_pure f r q[OF quiet_fill] q[OF l(1)] q[OF l(2)])
qed

text \<open>A callback that is not authentic stores nothing but rejected orders and new ones.\<close>

lemma keeps_rejected:
  assumes I: "order_stable P I" and P: "P OrderStatusPaymentSystemReject" "P OrderStatusNew"
    and c: "codecs_ok X" and i: "order_Id ordr \<noteq> []" and forged: "\<not> payment_authentic X ordr req body sig"
  shows "keeps I (process_payment X GatewayCardPay req ordr body sig)"
proof -
  note q = keeps_quiet[OF order_stable_calm[OF I]]
  have step: "keeps I (bind (payment_order X GatewayCardPay req o') (\<lambda>(ordr, subscription).
       bind (updateOrder X ordr) (\<lambda>(ordr, err). case err of
         Some e \<Rightarrow> if is_message e then ret (StatusErrorSystem, message_text e) else throw e
       | None \<Rightarrow> ret failure)))"
    if o': "order_Id o' = order_Id ordr" "order_PrivateStatus o' = OrderStatusPaymentSystemReject" for o' and failure :: "int \<times> string"
  proof (rule keeps_bind_yields[OF keeps_payment_order[OF I P(2)] yields_payment_order[OF c]])
    show "order_Id o' \<noteq> []" using o' i by simp
  qed (auto simp: o' P intro!: keeps_bind keeps_option keeps_if keeps_pure keeps_updateOrder[OF I])
  show ?thesis unfolding process_payment_def gw_ProcessPayment.simps Let_def
  proof (rule keeps_bind_yields[OF q[OF quiet_cardpay_payment] yields_cardpay_payment])
    fix r assume r: "payment_outcome X ordr req body sig r"
    obtain o' e where e: "r = (o', Some e)" using r forged by (cases r; cases "snd r") (auto simp: payment_outcome_def)
    show "keeps I (case r of (ordr, pErr) \<Rightarrow>
        if fst (case pErr of None \<Rightarrow> (StatusOK, []) | Some (st, e) \<Rightarrow> (st, x_error_text X e)) = StatusTemporary
        then ret (case pErr of None \<Rightarrow> (StatusOK, []) | Some (st, e) \<Rightarrow> (st, x_error_text X e))
        else bind (payment_order X GatewayCardPay req ordr) (\<lambda>(ordr, subscription).
          bind (updateOrder X ordr) (\<lambda>(ordr, err). case err of
            Some e \<Rightarrow> if is_message e then ret (StatusErrorSystem, message_text e) else throw e
          | None \<Rightarrow> if pErr \<noteq> None then ret (case pErr of None \<Rightarrow> (StatusOK, []) | Some (st, e) \<Rightarrow> (st, x_error_text X e))
              else payment_accepted X GatewayCardPay req ordr subscription)))"
      using r e by (auto simp: payment_outcome_def intro!: keeps_if keeps_pure step)
  qed
qed

section \<open>Forged callbacks\<close>

lemma keeps_bind_under:
  "keeps I m \<Longrightarrow> (\<And>s a t. I s \<Longrightarrow> m s = (Inr a, t) \<Longrightarrow> Q a) \<Longrightarrow> (\<And>a. Q a \<Longrightarrow> keeps I (k a)) \<Longrightarrow> keeps I (bind m k)"
  by (rule keepsI) (auto simp: bind_def split: prod.splits sum.splits dest: keepsD, meson keepsD)

lemma find_one_found: "find_one X w_payment_systems p s = (Inr d, t) \<Longrightarrow> d \<in> set (w_payment_systems s) \<and> p d"
  by (auto simp: find_one_def run_bind calling_def rpc_def run_simps dest!: find_SomeD split: option.splits prod.splits sum.splits)

text \<open>The gateway behind a stored payment system; the mock gateway of the tests is not configured.\<close>

definition only_cardpay :: "payment_system list \<Rightarrow> bool" where
  "only_cardpay systems \<longleftrightarrow> (\<forall>p\<in>set systems. psys_Handler p \<noteq> PaymentSystemHandlerCardPayMock)"

lemma callback_request_success:
  assumes "callback_request X ordr body s = (Inr (h, req), t)" and "only_cardpay (w_payment_systems s)"
  shows "h = GatewayCardPay \<and> x_json_payment_callback X body = Inr req"
  using assms by (auto simp: callback_request_def success paymentsystem_GetById_def only_cardpay_def GetGateway_def dest!: find_one_found)

lemma quiet_callback_request: "quiet (callback_request X ordr body)"
  unfolding callback_request_def paymentsystem_GetById_def by (intro quiet_intros)

text \<open>The payment systems, and the orders that a computation may leave completed.\<close>

definition completed_only :: "world \<Rightarrow> world \<Rightarrow> bool" where
  "completed_only s t \<longleftrightarrow> w_payment_systems t = w_payment_systems s \<and> w_accounting t = w_accounting s \<and>
     w_refunds t = w_refunds s \<and>
     (\<forall>d\<in>set (w_orders t). order_PrivateStatus d = OrderStatusPaymentSystemComplete \<longrightarrow> d \<in> set (w_orders s))"

lemma completed_stable: "order_stable (\<lambda>st. st \<noteq> OrderStatusPaymentSystemComplete) (completed_only s)"
  by (auto simp: order_stable_def sending_stable_def calm_def completed_only_def dest: subsetD[OF set_replace_first])

text \<open>C18: a callback of the gateway that is not authentic -- the signature is not that of its body under the
  secret of the order's payment method, its status is not one of a payment, or the method, the amount or the
  currency is not that of the order -- completes no order and posts nothing: the journal and the refunds stay
  as they are, and every order that is stored as completed afterwards was stored so before.
\<close>

theorem forged_payment_callback:
  assumes c: "codecs_ok X" and only: "only_cardpay (w_payment_systems s)" and ordr: "order_at X (w_orders s) i = Some ordr"
    and forged: "\<And>req. x_json_payment_callback X body = Inr req \<Longrightarrow> \<not> payment_authentic X ordr req body sig"
    and run: "PaymentCallbackProcess X i body sig s = (r, t)"
  shows "w_accounting t = w_accounting s \<and> w_refunds t = w_refunds s \<and>
    {d \<in> set (w_orders t). order_PrivateStatus d = OrderStatusPaymentSystemComplete} \<subseteq> set (w_orders s)"
proof -
  note I = completed_stable[of s]
  note q = keeps_quiet[OF order_stable_calm[OF I]]
  have i: "order_Id ordr \<noteq> []" using ordr codecs_hex(2)[OF c] by (force simp: order_at_iff dest!: decoded_order_Id)
  have tail: "keeps (completed_only s) (bind (callback_request X ordr body) (\<lambda>(h, data). process_payment X h data ordr body sig))"
  proof (rule keeps_bind_under[OF q[OF quiet_callback_request],
        where Q = "\<lambda>(h, data). h = GatewayCardPay \<and> x_json_payment_callback X body = Inr data"])
    show "case a of (h, data) \<Rightarrow> h = GatewayCardPay \<and> x_json_payment_callback X body = Inr data"
      if "completed_only s u" "callback_request X ordr body u = (Inr a, v)" for u a v
      using that only callback_request_success[of X ordr body u _ _ v] by (cases a) (auto simp: completed_only_def)
  qed (auto intro: keeps_rejected[OF I _ _ c i forged])
  have g: "quiet (replace_err orderErrorNotFound (getOrderById X i))"
    unfolding getOrderById_def orderrepo_GetById_def by (intro quiet_intros)
  obtain r1 u where get: "replace_err orderErrorNotFound (getOrderById X i) s = (r1, u)" by fastforce
  have u: "completed_only s u" using keepsD[OF q[OF g] _ get] by (simp add: completed_only_def)
  have "completed_only s t"
  proof (cases r1)
    case (Inl e)
    then show ?thesis using run get u by (simp add: PaymentCallbackProcess_def run_bind)
  next
    case (Inr o')
    then have "o' = ordr" using get ordr by (auto simp: success getOrderById_def dest: orderrepo_GetById_success)
    with Inr run get show ?thesis using keepsD[OF tail u] by (simp add: PaymentCallbackProcess_def run_bind)
  qed
  then show ?thesis by (auto simp: completed_only_def)
qed

text \<open>An order in progress at CardPay, and a callback whose signature is not that of its body.\<close>

definition callback_world :: world where
  "callback_world = empty_world\<lparr>
     w_orders := [sample_order_doc\<lparr>order_PrivateStatus := OrderStatusProjectInProgress\<rparr>],
     w_payment_systems := [\<lparr>psys_Id = sample_hex 8, psys_Handler = ''cardpay'', psys_IsActive = True\<rparr>],
     w_merchants := [sample_merchant\<lparr>merchant_FirstPaymentAt := Some (Timestamp 1 0)\<rparr>]\<rparr>"

definition callback_order :: order where
  "callback_order = sample_order\<lparr>order_PrivateStatus := OrderStatusProjectInProgress\<rparr>"

lemma callback_decoded:
  "order_from_mgo sample_ext (sample_order_doc\<lparr>order_PrivateStatus := OrderStatusProjectInProgress\<rparr>) = Inr callback_order"
  by (simp add: order_from_mgo_def sample_order_doc_def callback_order_def sample_order_defs sample_timestamp_proto_def getPaymentMethodOrder_def)

lemma callback_order_at: "order_at sample_ext (w_orders callback_world) (sample_hex 1) = Some callback_order"
  by (simp add: callback_world_def order_at_def sample_hex_roundtrip callback_decoded)

lemma callback_world_cardpay: "only_cardpay (w_payment_systems callback_world)"
  by (simp add: only_cardpay_def callback_world_def gateway_names)

theorem forged_payment_callback_witness:
  "w_accounting (snd (PaymentCallbackProcess sample_ext (sample_hex 1) ''COMPLETED'' ''forged'' callback_world)) = [] \<and>
   {d \<in> set (w_orders (snd (PaymentCallbackProcess sample_ext (sample_hex 1) ''COMPLETED'' ''forged'' callback_world))).
     order_PrivateStatus d = OrderStatusPaymentSystemComplete} = {}"
proof -
  have "\<not> payment_authentic sample_ext callback_order req ''COMPLETED'' ''forged''" for req
    by (simp add: payment_authentic_def callback_order_def sample_order_defs sample_ext_def)
  note forged_payment_callback[OF sample_codecs_ok callback_world_cardpay callback_order_at this surjective_pairing]
  then show ?thesis by (auto simp: callback_world_def empty_world_def)
qed

section \<open>What a refused callback leaves behind\<close>

definition stored_with :: "(order_private_status \<Rightarrow> bool) \<Rightarrow> oid \<Rightarrow> world \<Rightarrow> bool" where
  "stored_with P oid s \<longleftrightarrow> (\<exists>d. find (\<lambda>d. order_Id d = oid) (w_orders s) = Some d \<and> P (order_PrivateStatus d))"

lemma stored_stable: "order_stable P (stored_with P oid)"
proof -
  have "find (\<lambda>x. order_Id x = oid) (replace_first (\<lambda>x. order_Id x = order_Id d) d xs) =
      (if order_Id d = oid then Some d else Some d')"
    if "find (\<lambda>x. order_Id x = oid) xs = Some d'" for d d' :: mgo_order and xs
  proof (cases "order_Id d = oid")
    case True then show ?thesis using that by (auto simp: find_replace_first)
  next
    case False then show ?thesis using that by (subst find_replace_first_other) auto
  qed
  then show ?thesis
    by (auto simp: order_stable_def sending_stable_def calm_def stored_with_def find_append)
qed

text \<open>An update that found its order leaves it stored with the status it was given.\<close>

lemma updateOrder_stores:
  assumes run: "updateOrder X ordr s = (Inr (o', None), t)" and i: "order_Id ordr \<noteq> []" "x_oid_from_hex X (order_Id ordr) = Inr oid"
    and stored: "stored_with (\<lambda>_. True) oid s"
  shows "stored_with (\<lambda>st. st = order_PrivateStatus ordr) oid t"
proof -
  let ?I = "stored_with (\<lambda>st. st = order_PrivateStatus ordr) oid"
  have up: "?I v" if r: "orderrepo_Update X o' u = (Inr (), v)" and o': "same_order ordr o'" and u: "stored_with (\<lambda>_. True) oid u"
    for o' u v
  proof -
    obtain d w where d: "order_to_mgo X o' u = (Inr d, w)" and v: "replace_one X w_orders_update (\<lambda>x. order_Id x = oid) d w = (Inr (), v)"
      using r o' i by (auto simp: orderrepo_Update_def repo_update_def success same_order_def)
    have f: "order_PrivateStatus d = order_PrivateStatus ordr" "order_Id d = oid"
      using order_to_mgo_fields[OF d] o' i by (auto simp: same_order_def)
    have "stored_with (\<lambda>_. True) oid w"
      using keepsD[OF keeps_quiet[OF order_stable_calm[OF stored_stable] quiet_order_to_mgo] u d] .
    moreover have "w_orders v = replace_first (\<lambda>x. order_Id x = oid) d (w_orders w)"
      using v by (auto simp: replace_one_def success calling_def rpc_success modify_def)
    ultimately show ?thesis using f by (auto simp: stored_with_def find_replace_first)
  qed
  have stored': "?I v" if run: "store_and_notify X b o2 u = (Inr (o', None), v)" and o2: "same_order ordr o2"
    and u: "stored_with (\<lambda>_. True) oid u" for o2 b u v
  proof -
    obtain w where w: "orderrepo_Update X o2 u = (Inr (), w)" and tail: "bind (if order_ProductType o2 = OrderType_key then orderNotifyKeyProducts X o2 else ret o2) (\<lambda>ordr3.
          bind (if b \<and> x_order_need_callback X ordr3 then orderNotifyMerchant X ordr3 else ret ordr3) (\<lambda>ordr4.
          ret (ordr4, None :: go_err option))) w = (Inr (o', None), v)"
      using run unfolding store_and_notify_def bind_Inr[of "try_go _"] by (auto simp: run_Inr run_sum try_go_success)
    note k = keeps_updated[OF stored_stable[of "\<lambda>st. st = order_PrivateStatus ordr" oid] refl i(1) o2]
    show ?thesis using keepsD[OF k up[OF w o2 u] tail] .
  qed
  note k = keeps_quiet[OF order_stable_calm[OF stored_stable] quiet_getOrder(2)]
  obtain b u o2 where "store_and_notify X b o2 u = (Inr (o', None), t)" "same_order ordr o2" "stored_with (\<lambda>_. True) oid u"
    using run keepsD[OF k stored, of X "order_Id ordr"]
    by (fastforce simp: updateOrder_def Let_def bind_Inr same_order_def with_receipt_url_def)
  then show ?thesis by (rule stored')
qed

lemma yields_accepted: "yields (payment_accepted X h req ordr sub) (\<lambda>r. fst r \<noteq> StatusErrorValidation)"
  unfolding payment_accepted_def Let_def
  by (intro yields_bind_any yields_cases yields_pure) (simp_all add: gateway_statuses)

lemma refused_payment:
  assumes c: "codecs_ok X" and single: "\<not> cardpay_IsSubscriptionCallback req" and i: "order_Id ordr = x_oid_hex X oid"
    and stored: "stored_with (\<lambda>_. True) oid s"
    and run: "process_payment X GatewayCardPay req ordr body sig s = (Inr rsp, t)" and refused: "fst rsp = StatusErrorValidation"
  shows "stored_with (\<lambda>st. st = OrderStatusPaymentSystemReject) oid t"
proof -
  note I = stored_stable[of "\<lambda>_. True" oid]
  note q = keeps_quiet[OF order_stable_calm[OF I] quiet_cardpay_payment]
  obtain o1 e u where u: "cardpay_ProcessPayment X ordr req body sig s = (Inr (o1, e), u)"
    and tail: "(let failure = (case e of None \<Rightarrow> (StatusOK, []) | Some (st, e) \<Rightarrow> (st, x_error_text X e)) in
       if fst failure = StatusTemporary then ret failure
       else bind (payment_order X GatewayCardPay req o1) (\<lambda>(ordr, subscription).
         bind (updateOrder X ordr) (\<lambda>(ordr, err). case err of
           Some e \<Rightarrow> if is_message e then ret (StatusErrorSystem, message_text e) else throw e
         | None \<Rightarrow> if e \<noteq> None then ret failure else payment_accepted X GatewayCardPay req ordr subscription))) u = (Inr rsp, t)"
    using run unfolding process_payment_def by (auto simp: bind_Inr[of "cardpay_ProcessPayment _ _ _ _ _"])
  note o1 = yieldsD[OF yields_cardpay_payment u, unfolded payment_outcome_def fst_conv snd_conv]
  obtain o2 sub v where v: "payment_order X GatewayCardPay req o1 u = (Inr (o2, sub), v)"
    and tail: "bind (updateOrder X o2) (\<lambda>(ordr, err). case err of
           Some e \<Rightarrow> if is_message e then ret (StatusErrorSystem, message_text e) else throw e
         | None \<Rightarrow> if e \<noteq> None then ret (case e of None \<Rightarrow> (StatusOK, []) | Some (st, e) \<Rightarrow> (st, x_error_text X e))
             else payment_accepted X GatewayCardPay req ordr sub) v = (Inr rsp, t)"
    using tail refused by (auto simp: Let_def bind_Inr[of "payment_order _ _ _ _"] run_Inr gateway_statuses split: if_splits)
  have "order_Id o1 \<noteq> []" using o1 i codecs_hex(2)[OF c] by simp
  note o2 = yieldsD[OF yields_payment_order[OF c this] v]
  have u2: "stored_with (\<lambda>_. True) oid v"
    using keepsD[OF keeps_payment_order[OF I TrueI] keepsD[OF q stored u] v] .
  obtain o3 err w where w: "updateOrder X o2 v = (Inr (o3, err), w)"
    and tail: "(case err of Some e \<Rightarrow> if is_message e then ret (StatusErrorSystem, message_text e) else throw e
         | None \<Rightarrow> if e \<noteq> None then ret (case e of None \<Rightarrow> (StatusOK, []) | Some (st, e) \<Rightarrow> (st, x_error_text X e))
             else payment_accepted X GatewayCardPay req o3 sub) w = (Inr rsp, t)"
    using tail by (auto simp: bind_Inr[of "updateOrder _ _"] simp del: not_None_eq)
  have e: "err = None" "w = t" "e \<noteq> None"
    using tail refused by (auto simp: run_Inr gateway_statuses dest!: yieldsD[OF yields_accepted] split: if_splits option.splits)
  have status: "order_PrivateStatus o2 = OrderStatusPaymentSystemReject" "x_oid_from_hex X (order_Id o2) = Inr oid"
    using o1 o2 e(3) single i codecs_hex(1)[OF c] by (auto simp: same_order_def)
  show ?thesis using updateOrder_stores[OF w[unfolded e] _ status(2) u2] o2 status(1) by simp
qed

text \<open>C20: a callback of a payment that is not a subscription's and that CardPay's checks refuse, a forged one
  included, leaves the order stored as rejected, and whatever the gateway sends for this order afterwards, the
  genuine callback of the payment included, is refused. (A refused callback of a subscription rejects the order that
  was inserted for it instead.)
\<close>

theorem refused_callback_is_final:
  assumes c: "codecs_ok X" and only: "only_cardpay (w_payment_systems s)"
    and single: "\<And>req. x_json_payment_callback X body = Inr req \<Longrightarrow> \<not> cardpay_IsSubscriptionCallback req"
    and run: "PaymentCallbackProcess X i body sig s = (Inr rsp, t)" and refused: "fst rsp = StatusErrorValidation"
  shows "map_option order_PrivateStatus (find (\<lambda>d. x_oid_from_hex X i = Inr (order_Id d)) (w_orders t)) = Some OrderStatusPaymentSystemReject \<and>
    fst (PaymentCallbackProcess X i body' sig' t) \<in> {Inl orderErrorNotFound, Inl orderErrorAlreadyProcessed}"
proof -
  obtain ordr u where u: "getOrderById X i s = (Inr ordr, u)"
    and tail: "bind (callback_request X ordr body) (\<lambda>(h, data). process_payment X h data ordr body sig) u = (Inr rsp, t)"
    using run unfolding PaymentCallbackProcess_def by (auto simp: bind_Inr[of "replace_err _ _"] run_Inr)
  then obtain h req v where v: "callback_request X ordr body u = (Inr (h, req), v)"
    and tail: "process_payment X h req ordr body sig v = (Inr rsp, t)"
    by (auto simp: bind_Inr[of "callback_request _ _ _"])
  have "w_payment_systems u = w_payment_systems s"
    by (subst quietD[OF quiet_getOrder(1) u, THEN conjunct2]) simp
  then have req: "h = GatewayCardPay" "x_json_payment_callback X body = Inr req"
    using callback_request_success[OF v] only by simp_all
  have "order_at X (w_orders s) i = Some ordr"
    using u by (auto simp: getOrderById_def success dest: orderrepo_GetById_success)
  then obtain oid d where oid: "x_oid_from_hex X i = Inr oid" and d: "find (\<lambda>d. order_Id d = oid) (w_orders s) = Some d" "order_from_mgo X d = Inr ordr"
    by (auto simp: order_at_iff)
  have "w_orders v = w_orders s"
    using quiet_same(3)[OF quiet_getOrder(1) u] quiet_same(3)[OF quiet_callback_request v] by simp
  then have "stored_with (\<lambda>_. True) oid v" using d by (simp add: stored_with_def)
  from refused_payment[OF c single[OF req(2)] _ this tail[unfolded req(1)] refused]
  obtain d' where d': "find (\<lambda>d. order_Id d = oid) (w_orders t) = Some d'" "order_PrivateStatus d' = OrderStatusPaymentSystemReject"
    using decoded_order_Id[OF d(2)] find_SomeD[OF d(1)] by (auto simp: stored_with_def)
  have "fst (PaymentCallbackProcess X i body' sig' t) \<in> {Inl orderErrorNotFound, Inl orderErrorAlreadyProcessed}"
  proof (cases "getOrderById X i t")
    case (Pair r w)
    show ?thesis
    proof (cases r)
      case (Inl e)
      then show ?thesis using Pair by (simp add: PaymentCallbackProcess_def run_bind replace_err_def)
    next
      case (Inr o')
      then have "order_at X (w_orders t) i = Some o'" using Pair by (auto simp: getOrderById_def success dest: orderrepo_GetById_success)
      then have "order_PrivateStatus o' = OrderStatusPaymentSystemReject" using oid d' by (auto simp: order_at_iff dest: order_from_mgo_status)
      then show ?thesis using Pair Inr by (simp add: PaymentCallbackProcess_def callback_request_def run_bind replace_err_def throw_def)
    qed
  qed
  then show ?thesis using d' oid by (simp add: eq_commute[of oid])
qed

section \<open>A forged callback from its arrival to the refusal of the genuine one\<close>

text \<open>An instant of a message that is set and can be converted.\<close>

definition timed :: "ext \<Rightarrow> timestamp option \<Rightarrow> bool" where
  "timed X ts \<longleftrightarrow> (\<exists>t v. ts = Some t \<and> x_timestamp X ts = Inr v)"

text \<open>An order without items whose ids and instants can be converted is stored.\<close>

lemma order_encodes:
  assumes "x_oid_from_hex X (order_Id m) = Inr oid" "order_Id m \<noteq> []" "x_oid_from_hex X (order_ProjectId m) = Inr p"
    "x_oid_from_hex X (order_ProjectMerchantId m) = Inr mer" "order_Items m = []"
    "order_PaymentMethod m = Some pm" "payment_method_to_mgo X pm = Inr pmd"
    and times: "timed X (order_CreatedAt m)" "timed X (order_UpdatedAt m)" "timed X (order_ProjectLastRequestedAt m)"
    "timed X (order_PaymentMethodOrderClosedAt m)" "timed X (order_ExpireDateToFormInput m)" "timed X (order_ProjectFirstPaymentAt m)"
    "timed X (order_CanceledAt m)" "timed X (order_RefundedAt m)" "timed X (order_ParentPaymentAt m)"
  shows "\<exists>d. order_to_mgo X m s = (Inr d, s)"
  using assms unfolding timed_def
  by (auto simp: order_to_mgo_def run_go method_to_mgo_def time_or_now_def time_or_zero_def invalid_id_def)

text \<open>The order, the callback and every step of its handler.\<close>

lemma callback_fields [simp]:
  "order_Id callback_order = sample_hex 1" "order_PrivateStatus callback_order = OrderStatusProjectInProgress"
  "order_ProjectMerchantId callback_order = sample_hex 2" "order_IsProduction callback_order"
  "order_ProjectFirstPaymentAt callback_order = Some (Timestamp 500 0)"
  "order_ProductType callback_order = ''checkout''"
  by (simp_all add: callback_order_def sample_order_defs)

lemma callback_order_read: "getOrderById sample_ext (sample_hex 1) callback_world = (Inr callback_order, callback_world\<lparr>w_tick := 1\<rparr>)"
  by (simp add: getOrderById_def orderrepo_GetById_def repo_get_def run_go find_one_def calling_def replace_err_def
    sample_hex_roundtrip callback_world_def empty_world_def callback_decoded)

definition callback_method :: order_payment_method where "callback_method = the (order_PaymentMethod callback_order)"

lemma callback_method_at: "order_PaymentMethod callback_order = Some callback_method"
  by (simp add: callback_method_def callback_order_def sample_order_defs)

lemma callback_method_fields [simp]: "opm_ExternalId callback_method = ''BANKCARD''" "opm_PaymentSystemId callback_method = sample_hex 8"
  "opm_Params callback_method = Some \<lparr>pmp_TerminalId = ''t'', pmp_Secret = ''p'', pmp_SecretCallback = ''s'', pmp_Currency = ''EUR'', pmp_ApiUrl = [], pmp_MccCode = ''m'', pmp_OperatingCompanyId = ''oc'', pmp_Brand = []\<rparr>"
  by (simp_all add: callback_method_def callback_order_def sample_order_defs)

definition sample_request :: payment_callback where
  "sample_request = \<lparr>pcb_PaymentMethod = ''BANKCARD'', pcb_CallbackTime = ''now'', pcb_MaskedPan = None, pcb_RecurringData = None, pcb_Rest = ''COMPLETED''\<rparr>"

lemma callback_request_read: "callback_request sample_ext callback_order ''COMPLETED'' (callback_world\<lparr>w_tick := 1\<rparr>) =
    (Inr (GatewayCardPay, sample_request), callback_world\<lparr>w_tick := 2\<rparr>)"
  by (simp add: callback_request_def run_go deref_def callback_method_at paymentsystem_GetById_def find_one_def calling_def replace_err_def
    callback_world_def empty_world_def gateway_names GetGateway_def sample_request_def) (simp add: sample_ext_def sample_request_def)

lemma forged_gateway: "cardpay_ProcessPayment sample_ext callback_order sample_request ''COMPLETED'' ''forged'' s =
    (Inr (callback_order\<lparr>order_PrivateStatus := OrderStatusPaymentSystemReject\<rparr>,
       Some (StatusErrorValidation, paymentSystemErrorRequestSignatureIsInvalid)), s)"
  by (simp add: cardpay_ProcessPayment_def Let_def checkCallbackRequestSignature_def pm_params_of_def run_go callback_method_at)
   (simp add: sample_ext_def)


text \<open>The genuine callback completes the payment.\<close>

lemma callback_amounts: "order_ChargeAmount callback_order = Fin 100" "order_ChargeCurrency callback_order = ''EUR''"
  by (simp_all add: callback_order_def sample_order_defs)

lemma genuine_gateway: "\<exists>o'. cardpay_ProcessPayment sample_ext callback_order sample_request ''COMPLETED'' ''hCOMPLETEDs'' s = (Inr (o', None), s)"
proof -
  have x: "x_sha512_hex sample_ext v = CHR ''h'' # v" "x_pcb_allowed_status sample_ext req" "x_pcb_is_recurring sample_ext req = False"
    "x_pcb_amount sample_ext req = Fin 100" "x_pcb_currency sample_ext req = ''EUR''" "x_pcb_status sample_ext = pcb_Rest"
    "x_parse_time sample_ext f v' = Inr (600 * second)" for v req f v' by (simp_all add: sample_ext_def)
  show ?thesis
    by (simp add: cardpay_ProcessPayment_def Let_def checkCallbackRequestSignature_def pm_params_of_def run_go callback_method_at
      filing_missing_def callback_time_def txn_params_of_def settle_payment_def sample_request_def callback_amounts x
      PaymentSystemGroupAliasBankCard_def CardPayStatusDeclined_def CardPayStatusCancelled_def CardPayStatusCompleted_def
      sample_timestamp_proto_def)
qed

theorem payment_answer_typed_witness:
  "\<exists>o' t. cardpay_ProcessPayment sample_ext callback_order sample_request ''COMPLETED'' ''hCOMPLETEDs'' empty_world = (Inr (o', None), t) \<and>
     payment_answer callback_order (o', None)"
  using genuine_gateway[of empty_world] payment_answer_typed by blast

definition rejected_order :: order where
  "rejected_order = callback_order\<lparr>order_PrivateStatus := OrderStatusPaymentSystemReject,
     order_PaymentMethodPayerAccount := [], order_PaymentMethod := Some (callback_method\<lparr>opm_Card := Some
       \<lparr>pmc_Masked = [], pmc_First6 = [], pmc_Last4 = [], pmc_ExpiryMonth = [], pmc_ExpiryYear = [], pmc_Brand = [],
        pmc_Fingerprint = ''fp'', pmc_Secure3D = False\<rparr>\<rparr>)\<rparr>"

lemma rejected_fields [simp]:
  "order_Id rejected_order = sample_hex 1" "order_ProjectMerchantId rejected_order = sample_hex 2" "order_IsProduction rejected_order"
  "order_ProjectFirstPaymentAt rejected_order = Some (Timestamp 500 0)" "order_ProductType rejected_order = ''checkout''"
  "order_Status rejected_order = order_Status callback_order"
  by (simp_all add: rejected_order_def)

lemma callback_params: "order_PaymentMethodTxnParams callback_order = None" "order_PaymentRequisites callback_order = None"
  by (simp_all add: callback_order_def sample_order_defs)

lemma forged_payment_order: "payment_order sample_ext GatewayCardPay sample_request
    (callback_order\<lparr>order_PrivateStatus := OrderStatusPaymentSystemReject\<rparr>) (callback_world\<lparr>w_tick := 2\<rparr>) =
    (Inr (rejected_order, None), callback_world\<lparr>w_tick := 4\<rparr>)"
proof -
  have 1: "fill_payment_data sample_ext (callback_order\<lparr>order_PrivateStatus := OrderStatusPaymentSystemReject\<rparr>) (callback_world\<lparr>w_tick := 2\<rparr>) =
     (Inr rejected_order, callback_world\<lparr>w_tick := 3\<rparr>)"
  proof -
    have fp: "x_card_fingerprint sample_ext n c = Inr ''fp''" for n c by (simp add: sample_ext_def)
    have pm: "deref (order_PaymentMethod (callback_order\<lparr>order_PrivateStatus := st\<rparr>)) = ret callback_method" for st
      by (simp add: deref_def callback_method_at)
    show ?thesis unfolding fill_payment_data_def pm rejected_order_def fillPaymentDataCard_def
      by (simp add: run_go go_get_def callback_params reading_def PaymentSystemGroupAliasBankCard_def fp)
  qed
  have 2: "merchant_GetById sample_ext (sample_hex 2) (callback_world\<lparr>w_tick := 3\<rparr>) =
     (Inr (sample_merchant\<lparr>merchant_FirstPaymentAt := Some (Timestamp 1 0)\<rparr>), callback_world\<lparr>w_tick := 4\<rparr>)"
    by (simp add: merchant_GetById_def run_go find_one_def calling_def callback_world_def empty_world_def
      sample_hex_roundtrip sample_merchant_def replace_err_def)
  show ?thesis
    by (simp add: payment_order_def run_bind[of "fill_payment_data _ _"] run_bind[of "merchant_GetById _ _"] 1 2 note_first_payment_def
       run_go cardpay_IsSubscriptionCallback_def sample_request_def)
qed

lemma sample_timed: "timed sample_ext (sample_ts t)"
  by (simp add: timed_def sample_ts_def)

lemma rejected_encodes: "\<exists>d. order_to_mgo sample_ext rejected_order s = (Inr d, s)"
proof (rule order_encodes)
  show "x_oid_from_hex sample_ext (order_Id rejected_order) = Inr 1" "order_Id rejected_order \<noteq> []"
    "x_oid_from_hex sample_ext (order_ProjectMerchantId rejected_order) = Inr 2"
    by (simp_all add: sample_hex_roundtrip) (simp add: sample_hex_def)
  show "x_oid_from_hex sample_ext (order_ProjectId rejected_order) = Inr 3" "order_Items rejected_order = []"
    by (simp_all add: rejected_order_def callback_order_def sample_order_def sample_order_of_def sample_hex_roundtrip)
  show "order_PaymentMethod rejected_order = Some (the (order_PaymentMethod rejected_order))"
    by (simp add: rejected_order_def)
  have "x_oid_from_hex sample_ext (opm_Id callback_method) = Inr 7" "x_oid_from_hex sample_ext (opm_PaymentSystemId callback_method) = Inr 8"
    by (simp_all add: callback_method_def callback_order_def sample_order_defs sample_hex_roundtrip)
  then have "\<exists>pmd. payment_method_to_mgo sample_ext (callback_method\<lparr>opm_Card := c\<rparr>) = Inr pmd" for c
    by (simp add: payment_method_to_mgo_def)
  then show "payment_method_to_mgo sample_ext (the (order_PaymentMethod rejected_order)) =
      Inr (projr (payment_method_to_mgo sample_ext (the (order_PaymentMethod rejected_order))))"
    by (simp add: rejected_order_def) (metis sum.sel(2))
qed (simp_all add: rejected_order_def callback_order_def sample_order_def sample_order_of_def sample_timed)

lemma forged_update: "\<exists>t. updateOrder sample_ext rejected_order (callback_world\<lparr>w_tick := 4\<rparr>) = (Inr (rejected_order, None), t)"
proof -
  have o: "getOrderById sample_ext (sample_hex 1) (callback_world\<lparr>w_tick := 4\<rparr>) = (Inr callback_order, callback_world\<lparr>w_tick := 5\<rparr>)"
    by (simp add: getOrderById_def orderrepo_GetById_def repo_get_def run_go find_one_def calling_def replace_err_def
      sample_hex_roundtrip callback_world_def empty_world_def callback_decoded)
  obtain d where d: "order_to_mgo sample_ext rejected_order (callback_world\<lparr>w_tick := 5\<rparr>) = (Inr d, callback_world\<lparr>w_tick := 5\<rparr>)"
    using rejected_encodes by blast
  have "\<exists>t. orderrepo_Update sample_ext rejected_order (callback_world\<lparr>w_tick := 5\<rparr>) = (Inr (), t)"
    by (simp add: orderrepo_Update_def repo_update_def run_go sample_hex_roundtrip d[unfolded One_nat_def] replace_one_def calling_def)
  then obtain t where t: "orderrepo_Update sample_ext rejected_order (callback_world\<lparr>w_tick := 5\<rparr>) = (Inr (), t)" ..
  have s: "rejected_order\<lparr>order_Status := order_Status callback_order\<rparr> = rejected_order"
    by (simp add: rejected_order_def)
  have p: "x_order_public_status sample_ext = order_Status" by (simp add: sample_ext_def)
  show ?thesis
    by (simp add: updateOrder_def Let_def p s try_go_def run_go o[unfolded One_nat_def] store_and_notify_def t OrderType_key_def)
qed

lemma callback_refused:
  "\<exists>t. PaymentCallbackProcess sample_ext (sample_hex 1) ''COMPLETED'' ''forged'' callback_world =
     (Inr (StatusErrorValidation, x_error_text sample_ext paymentSystemErrorRequestSignatureIsInvalid), t)"
proof -
  obtain t where t: "updateOrder sample_ext rejected_order (callback_world\<lparr>w_tick := 4\<rparr>) = (Inr (rejected_order, None), t)"
    using forged_update ..
  show ?thesis
    by (simp add: PaymentCallbackProcess_def process_payment_def run_go replace_err_def callback_order_read[unfolded One_nat_def] callback_request_read[unfolded One_nat_def] forged_gateway forged_payment_order t
      gateway_statuses Let_def)
qed

text \<open>The forged callback is answered, and the genuine one is refused.\<close>

theorem refused_callback_is_final_witness:
  "\<exists>t. PaymentCallbackProcess sample_ext (sample_hex 1) ''COMPLETED'' ''forged'' callback_world =
       (Inr (StatusErrorValidation, x_error_text sample_ext paymentSystemErrorRequestSignatureIsInvalid), t) \<and>
     fst (PaymentCallbackProcess sample_ext (sample_hex 1) ''COMPLETED'' ''hCOMPLETEDs'' t) \<in>
       {Inl orderErrorNotFound, Inl orderErrorAlreadyProcessed}"
proof -
  obtain t where t: "PaymentCallbackProcess sample_ext (sample_hex 1) ''COMPLETED'' ''forged'' callback_world =
     (Inr (StatusErrorValidation, x_error_text sample_ext paymentSystemErrorRequestSignatureIsInvalid), t)"
    using callback_refused ..
  have "\<not> cardpay_IsSubscriptionCallback req" if "x_json_payment_callback sample_ext ''COMPLETED'' = Inr req" for req
    using that by (auto simp: sample_ext_def cardpay_IsSubscriptionCallback_def)
  from refused_callback_is_final[OF sample_codecs_ok callback_world_cardpay this t] t show ?thesis by auto
qed

end
