(* ===== verification/RefundSafety.thy ===== *)
theory RefundSafety
  imports PaymentSafety Journal
begin

text \<open>
  Refunds and their callbacks: while a refund of an order counts, no second one is created; but a callback
  that is not signed ends a refund as rejected, so that it no longer counts.
\<close>

section \<open>One refund at a time\<close>

lemma quiet_money_back [quiet_intros]: "quiet (hasMoneyBackCosts X b ordr)"
  unfolding hasMoneyBackCosts_def money_back_costs_def Let_def country_GetByIsoCodeA2_def
  by (intro quiet_intros)

lemma quiet_refunds_check [quiet_intros]: "quiet (processRefundsByOrder X ordr)"
  unfolding processRefundsByOrder_def refundrepo_GetAmountByOrderId_def Let_def by (intro quiet_intros)

lemma quiet_processOrder: "quiet (processOrder X req)"
  unfolding processOrder_def orderrepo_GetByUuidAndMerchantId_def orderrepo_GetOneBy_def by (intro quiet_intros)

lemma find_order_success:
  assumes "processOrder X req s = (Inr ordr, t)"
  shows "\<exists>d\<in>set (w_orders s). order_Uuid d = crr_OrderId req \<and> order_Id ordr = x_oid_hex X (order_Id d)"
proof -
  have f: "find_one X w_orders p u = (Inr d, v) \<Longrightarrow> d \<in> set (w_orders u) \<and> p d" for p u d v
    by (auto simp: find_one_def run_bind calling_def rpc_def run_simps dest!: find_SomeD split: option.splits prod.splits sum.splits)
  then show ?thesis using assms
    by (auto simp: processOrder_def success orderrepo_GetByUuidAndMerchantId_def orderrepo_GetOneBy_def split: if_splits
        dest!: f decoded_order_Id)
qed

text \<open>The refunds of an order that count, and their sum as the database computes it.\<close>

definition refunded_amount :: "ext \<Rightarrow> oid \<Rightarrow> mgo_refund list \<Rightarrow> float64" where
  "refunded_amount X oid ds = (case filter (refund_counts oid) ds of [] \<Rightarrow> 0 | counting \<Rightarrow> x_mongo_sum X (map mgorefund_Amount counting))"

lemma refunds_check_refuses:
  assumes "codecs_ok X" and "processRefundsByOrder X ordr s = (r, t)" and "order_Id ordr = x_oid_hex X oid"
    and "flt 0 (refunded_amount X oid (w_refunds s))"
  shows "\<exists>e. r = Inl e"
  using assms codecs_hex(1)[OF assms(1)]
  by (auto simp: processRefundsByOrder_def refundrepo_GetAmountByOrderId_def run_go replace_err_def find_all_def calling_def
      rpc_def refunded_amount_def split: sum.splits if_splits option.splits list.splits)

text \<open>C19: while the refunds of an order that are created, in progress or completed add up to a positive amount,
  a request for another refund of the order is refused: no refund is stored, and the gateway is not asked.
\<close>

theorem one_refund_at_a_time:
  assumes c: "codecs_ok X" and run: "CreateRefund X req s = (r, t)"
    and refunded: "\<And>d. d \<in> set (w_orders s) \<Longrightarrow> order_Uuid d = crr_OrderId req \<Longrightarrow> flt 0 (refunded_amount X (order_Id d) (w_refunds s))"
  shows "w_refunds t = w_refunds s \<and> w_sent t = w_sent s \<and> (\<forall>a. r \<noteq> Inr (rsp_ok a))"
proof -
  let ?I = "\<lambda>u. w_refunds u = w_refunds s \<and> w_orders u = w_orders s \<and> w_sent u = w_sent s"
  obtain r1 u where u: "processCreateRefund X req s = (r1, u)" by fastforce
  have "?I u \<and> (\<exists>e. r1 = Inl e)"
  proof -
    obtain r2 v where v: "processOrder X req s = (r2, v)" by fastforce
    note qv = quiet_same[OF quiet_processOrder v]
    show ?thesis
    proof (cases r2)
      case (Inl e) then show ?thesis using u v qv by (auto simp: processCreateRefund_def run_bind)
    next
      case (Inr ordr)
      then obtain d where d: "d \<in> set (w_orders s)" "order_Uuid d = crr_OrderId req" "order_Id ordr = x_oid_hex X (order_Id d)"
        using find_order_success v by blast
      obtain r3 w where w: "hasMoneyBackCosts X (crr_IsChargeback req) ordr v = (r3, w)" by fastforce
      note qw = quiet_same[OF quiet_money_back w]
      obtain r4 z where z: "processRefundsByOrder X ordr w = (r4, z)" by fastforce
      note qz = quiet_same[OF quiet_refunds_check z]
      obtain e where "r4 = Inl e" using refunds_check_refuses[OF c z d(3)] refunded[OF d(1,2)] qv qw by auto
      then show ?thesis using u v w z Inr qv qw qz
        by (cases r3) (auto simp: processCreateRefund_def run_bind throw_def split: if_splits)
    qed
  qed
  then obtain e where e: "?I u" "r1 = Inl e" by blast
  show ?thesis using run u e
    by (cases "e \<in> {go_panic, go_hangs}"; cases e) (auto simp: CreateRefund_def run_go try_go_def throw_def rsp_error_def rsp_ok_def)
qed

text \<open>A refund of the sample order that the gateway is still working on.\<close>

definition open_refund :: "int \<Rightarrow> mgo_refund" where
  "open_refund status = \<lparr>mgorefund_Id = 4, mgorefund_OriginalOrderId = 1, mgorefund_OriginalOrderUuid = ''o1'', mgorefund_ExternalId = ''r4'',
     mgorefund_Amount = Fin 100, mgorefund_CreatorId = 2, mgorefund_Currency = ''EUR'', mgorefund_Status = status,
     mgorefund_CreatedAt = 600 * second, mgorefund_UpdatedAt = 600 * second, mgorefund_PayerData = None, mgorefund_SalesTax = 0,
     mgorefund_IsChargeback = False, mgorefund_CreatedOrderId = nil_oid, mgorefund_Reason = ''r''\<rparr>"

definition refund_world :: world where
  "refund_world = empty_world\<lparr>w_orders := [sample_order_doc], w_refunds := [open_refund RefundStatusInProgress]\<rparr>"

definition second_request :: create_refund_request where
  "second_request = \<lparr>crr_OrderId = ''o1'', crr_MerchantId = sample_hex 2, crr_CreatorId = sample_hex 2, crr_Reason = [], crr_IsChargeback = False\<rparr>"

theorem one_refund_at_a_time_witness:
  "w_refunds (snd (CreateRefund sample_ext second_request refund_world)) = [open_refund RefundStatusInProgress] \<and>
   (\<forall>a. fst (CreateRefund sample_ext second_request refund_world) \<noteq> Inr (rsp_ok a))"
proof -
  have "x_mongo_sum sample_ext = foldl (+) 0" by (simp add: sample_ext_def)
  then have "flt 0 (refunded_amount sample_ext (order_Id d) (w_refunds refund_world))" if "d \<in> set (w_orders refund_world)" for d
    using that by (simp add: refund_world_def refunded_amount_def open_refund_def refund_counts_def refund_statuses zero_float64_def)
  from one_refund_at_a_time[OF sample_codecs_ok surjective_pairing this] show ?thesis
    by (simp add: refund_world_def)
qed

section \<open>Forged refund callbacks\<close>

lemma refundrepo_GetById_success:
  assumes "refundrepo_GetById X i s = (Inr r, t)"
  shows "\<exists>oid d. x_oid_from_hex X i = Inr oid \<and> find (\<lambda>d. mgorefund_Id d = oid) (w_refunds s) = Some d \<and> refund_from_mgo X d = Inr r"
  using assms by (auto simp: refundrepo_GetById_def repo_get_def success find_one_def calling_def rpc_def run_simps split: option.splits)

lemma quiet_refund_lookup [quiet_intros]: "quiet (refundrepo_GetById X i)"
  unfolding refundrepo_GetById_def by (intro quiet_intros)

lemma refund_to_mgo_fields:
  "refund_to_mgo X m s = (Inr d, t) \<Longrightarrow> mgorefund_Status d = refund_Status m"
  "refund_to_mgo X m s = (Inr d, t) \<Longrightarrow> refund_Id m \<noteq> [] \<Longrightarrow> x_oid_from_hex X (refund_Id m) = Inr (mgorefund_Id d)"
  by (auto simp: refund_to_mgo_def success)

lemma quiet_refund_to_mgo [quiet_intros]: "quiet (refund_to_mgo X m)"
  unfolding refund_to_mgo_def by (intro quiet_intros)

text \<open>A stored refund is the one document of its id that changes.\<close>

lemma refund_stored:
  assumes c: "codecs_ok X" and i: "refund_Id r = x_oid_hex X oid" and run: "refundrepo_Update X r s = (Inr (), t)"
  shows "\<exists>d. w_refunds t = replace_first (\<lambda>d. mgorefund_Id d = oid) d (w_refunds s) \<and> mgorefund_Status d = refund_Status r \<and>
    mgorefund_Id d = oid" "w_orders t = w_orders s" "w_accounting t = w_accounting s"
proof -
  obtain d u where d: "refund_to_mgo X r s = (Inr d, u)" and t: "replace_one X w_refunds_update (\<lambda>x. mgorefund_Id x = oid) d u = (Inr (), t)"
    using run i codecs_hex(1)[OF c] by (auto simp: refundrepo_Update_def repo_update_def success)
  note q = quiet_same[OF quiet_refund_to_mgo d]
  have t: "t = w_refunds_update (replace_first (\<lambda>x. mgorefund_Id x = oid) d) (u\<lparr>w_tick := Suc (w_tick u)\<rparr>)"
    using t by (auto simp: replace_one_def success calling_def rpc_success modify_def)
  have "mgorefund_Id d = oid" "mgorefund_Status d = refund_Status r"
    using refund_to_mgo_fields[OF d] i codecs_hex[OF c] by auto
  then show "\<exists>d. w_refunds t = replace_first (\<lambda>d. mgorefund_Id d = oid) d (w_refunds s) \<and> mgorefund_Status d = refund_Status r \<and>
      mgorefund_Id d = oid" "w_orders t = w_orders s" "w_accounting t = w_accounting s"
    using t q by auto
qed

lemma refund_refused:
  assumes sig: "checkCallbackRequestSignature X ordr raw sig s = (Inr False, s)"
  shows "cardpay_ProcessRefund X ordr r req raw sig s =
    (Inr (r\<lparr>refund_Status := RefundStatusRejected\<rparr>, Some (ResponseStatusBadData, paymentSystemErrorRequestSignatureIsInvalid)), s)"
  by (simp add: cardpay_ProcessRefund_def Let_def run_bind sig run_simps)

lemma refused_handled:
  assumes c: "codecs_ok X" and i: "refund_Id r = x_oid_hex X oid"
    and sig: "checkCallbackRequestSignature X ordr raw sig s = (Inr False, s)"
    and run: "handle_refund X GatewayCardPay ordr r data raw sig s = (Inr rsp, t)" and refused: "fst rsp = ResponseStatusBadData"
  shows "\<exists>d. w_refunds t = replace_first (\<lambda>d. mgorefund_Id d = oid) d (w_refunds s) \<and> mgorefund_Status d = RefundStatusRejected \<and>
    mgorefund_Id d = oid \<and> w_orders t = w_orders s \<and> w_accounting t = w_accounting s"
proof -
  let ?r = "r\<lparr>refund_Status := RefundStatusRejected\<rparr>"
  have "refundrepo_Update X ?r s = (Inr (), t)"
    using run refused
    by (auto simp: handle_refund_def run_bind refund_refused[OF sig] run_simps try_go_def run_attempt throw_def
        split: prod.splits sum.splits if_splits)
  from refund_stored[OF c _ this] i show ?thesis by auto
qed

text \<open>C21: a refund callback whose signature is wrong, and that is answered as such, still ends its refund as
  rejected: the refund is stored, the order and the journal stay as they are, and the refund no longer counts
  against the amount that may be refunded, whatever order that is asked for.
\<close>

theorem forged_refund_callback:
  assumes c: "codecs_ok X" and data: "x_json_refund_callback X body = Inr (Some data)" "rcb_MerchantOrderId data = Some rid"
    and refund: "x_oid_from_hex X rid = Inr oid" "find (\<lambda>d. mgorefund_Id d = oid) (w_refunds s) = Some doc"
    and ordr: "order_at X (w_orders s) (x_oid_hex X (mgorefund_OriginalOrderId doc)) = Some ordr"
    and pm: "order_PaymentMethod ordr = Some pm" "opm_Handler pm = PaymentSystemHandlerCardPay" "opm_Params pm = Some params"
    and forged: "x_sha512_hex X (body @ pmp_SecretCallback params) \<noteq> sig"
    and run: "ProcessRefundCallback X PaymentSystemHandlerCardPay body sig s = (Inr rsp, t)"
    and refused: "fst rsp = ResponseStatusBadData" "rcb_RefundData data \<noteq> None"
  shows "\<exists>d. w_refunds t = replace_first (\<lambda>d. mgorefund_Id d = oid) d (w_refunds s) \<and> mgorefund_Id d = oid \<and>
    mgorefund_Status d = RefundStatusRejected \<and> w_orders t = w_orders s \<and> w_accounting t = w_accounting s"
proof -
  obtain r1 u where u: "try_go (refundrepo_GetById X rid) s = (r1, u)" by fastforce
  note qu = quiet_same[OF quiet_try_go[OF quiet_refund_lookup] u]
  obtain r where r: "r1 = Inr (Inr r)"
    using run data refused u
    by (auto simp: ProcessRefundCallback_def run_bind run_simps
        split: sum.splits)
  then have "refund_from_mgo X doc = Inr r"
    using u refund refundrepo_GetById_success[of X rid s] by (auto simp: try_go_success)
  then have fields: "refund_Id r = x_oid_hex X oid" "refund_OriginalOrderId r = x_oid_hex X (mgorefund_OriginalOrderId doc)"
    using find_SomeD[OF refund(2)] by (auto simp: refund_from_mgo_def bind_err_eq_Inr)
  obtain r3 v where v: "try_go (getOrderById X (refund_OriginalOrderId r)) u = (r3, v)" by fastforce
  note qv = quiet_same[OF quiet_getOrder(2) v]
  obtain o' where o': "r3 = Inr (Inr o')"
    using run data refused u r v
    by (auto simp: ProcessRefundCallback_def run_bind run_simps
        split: sum.splits)
  then have "o' = ordr" using v ordr fields qu
    by (auto simp: try_go_success getOrderById_def success dest!: orderrepo_GetById_success)
  then have "handle_refund X GatewayCardPay ordr r data body sig v = (Inr rsp, t)"
    using run data refused(2) u r v o' pm by (simp add: ProcessRefundCallback_def run_bind run_simps GetGateway_def)
  moreover have "checkCallbackRequestSignature X ordr body sig v = (Inr False, v)"
    using forged pm by (simp add: checkCallbackRequestSignature_def pm_params_of_def run_go)
  ultimately show ?thesis using refused_handled[OF c fields(1) _ _ refused(1)] qu qv by metis
qed

definition open_refund_message :: refund where
  "open_refund_message = projr (refund_from_mgo sample_ext (open_refund RefundStatusInProgress))"

lemma open_refund_decoded: "refund_from_mgo sample_ext (open_refund RefundStatusInProgress) = Inr open_refund_message"
  by (simp add: open_refund_message_def refund_from_mgo_def open_refund_def sample_timestamp_proto_def)

lemma sample_id_set: "sample_hex d \<noteq> []"
  by (simp add: sample_hex_def)

lemma open_refund_fields: "refund_OriginalOrderId open_refund_message = sample_hex 1"
  by (simp add: open_refund_message_def refund_from_mgo_def open_refund_def sample_timestamp_proto_def)

lemma open_refund_encodes: "\<exists>d. refund_to_mgo sample_ext (open_refund_message\<lparr>refund_Status := st\<rparr>) s = (Inr d, s)"
  by (simp add: open_refund_message_def refund_from_mgo_def open_refund_def sample_timestamp_proto_def refund_to_mgo_def run_go
      sample_hex_roundtrip time_or_now_def replace_err_def second_def sample_id_set)

lemma open_refund_update:
  "\<exists>t. refundrepo_Update sample_ext (open_refund_message\<lparr>refund_Status := st\<rparr>) (refund_world\<lparr>w_tick := n\<rparr>) = (Inr (), t)"
proof -
  obtain d where "refund_to_mgo sample_ext (open_refund_message\<lparr>refund_Status := st\<rparr>) (refund_world\<lparr>w_tick := n\<rparr>) =
      (Inr d, refund_world\<lparr>w_tick := n\<rparr>)" using open_refund_encodes by blast
  moreover have "refund_Id open_refund_message = sample_hex 4"
    by (simp add: open_refund_message_def refund_from_mgo_def open_refund_def sample_timestamp_proto_def)
  ultimately show ?thesis
    by (simp add: refundrepo_Update_def repo_update_def run_go sample_hex_roundtrip replace_one_def calling_def)
qed

definition completed_refund :: refund_callback where
  "completed_refund = \<lparr>rcb_MerchantOrderId = Some (sample_hex 4), rcb_PaymentMethod = ''BANKCARD'', rcb_CallbackTime = ''now'',
     rcb_RefundData = Some \<lparr>rfd_Id = ''r4'', rfd_Status = ''COMPLETED'', rfd_Amount = Fin 100, rfd_Currency = ''EUR''\<rparr>, rcb_Rest = []\<rparr>"

lemma sample_refund_gateway:
  "x_json_refund_callback sample_ext ''COMPLETED'' = Inr (Some completed_refund)" "x_sha512_hex sample_ext v = CHR ''h'' # v"
  by (simp_all add: sample_ext_def completed_refund_def)

lemma sample_method:
  "\<exists>pm params. order_PaymentMethod sample_order = Some pm \<and> opm_Handler pm = PaymentSystemHandlerCardPay \<and> opm_Params pm = Some params"
  by (simp add: sample_order_defs PaymentSystemHandlerCardPay_def)

lemma refund_world_run:
  "\<exists>rsp t. ProcessRefundCallback sample_ext PaymentSystemHandlerCardPay ''COMPLETED'' ''forged'' refund_world = (Inr rsp, t) \<and>
     fst rsp = ResponseStatusBadData"
proof -
  have 1: "refundrepo_GetById sample_ext (sample_hex 4) refund_world = (Inr open_refund_message, refund_world\<lparr>w_tick := 1\<rparr>)"
    using open_refund_decoded
    by (simp add: refundrepo_GetById_def repo_get_def run_go find_one_def calling_def sample_hex_roundtrip refund_world_def empty_world_def)
       (simp add: open_refund_def run_go)
  have 2: "getOrderById sample_ext (sample_hex 1) (refund_world\<lparr>w_tick := 1\<rparr>) = (Inr sample_order, refund_world\<lparr>w_tick := 2\<rparr>)"
    by (simp add: getOrderById_def orderrepo_GetById_def repo_get_def run_go find_one_def calling_def replace_err_def
      sample_hex_roundtrip refund_world_def empty_world_def sample_order_decoded)
  have 3: "checkCallbackRequestSignature sample_ext sample_order ''COMPLETED'' ''forged'' s = (Inr False, s)" for s
    by (simp add: checkCallbackRequestSignature_def pm_params_of_def run_go sample_refund_gateway) (simp add: sample_order_defs run_go)
  obtain t where t: "refundrepo_Update sample_ext (open_refund_message\<lparr>refund_Status := RefundStatusRejected\<rparr>) (refund_world\<lparr>w_tick := 2\<rparr>) = (Inr (), t)"
    using open_refund_update by blast
  have 4: "handle_refund sample_ext GatewayCardPay sample_order open_refund_message completed_refund ''COMPLETED'' ''forged''
      (refund_world\<lparr>w_tick := 2\<rparr>) = (Inr (ResponseStatusBadData, x_error_text sample_ext (response_error ResponseStatusBadData
        paymentSystemErrorRequestSignatureIsInvalid)), t)"
    by (simp add: handle_refund_def run_bind refund_refused[OF 3] run_go try_go_def t)
  have 5: "rcb_MerchantOrderId completed_refund = Some (sample_hex 4)" "rcb_RefundData completed_refund \<noteq> None"
    by (simp_all add: completed_refund_def)
  obtain pm where 6: "order_PaymentMethod sample_order = Some pm" "opm_Handler pm = PaymentSystemHandlerCardPay"
    using sample_method by blast
  show ?thesis unfolding ProcessRefundCallback_def using 4 5
    by (simp add: sample_refund_gateway run_go try_go_def 1 2[unfolded One_nat_def] open_refund_fields GetGateway_def 6)
qed

theorem forged_refund_callback_witness:
  "\<exists>d. w_refunds (snd (ProcessRefundCallback sample_ext PaymentSystemHandlerCardPay ''COMPLETED'' ''forged'' refund_world)) = [d] \<and>
     mgorefund_Status d = RefundStatusRejected"
proof -
  obtain rsp t where t: "ProcessRefundCallback sample_ext PaymentSystemHandlerCardPay ''COMPLETED'' ''forged'' refund_world = (Inr rsp, t)"
    "fst rsp = ResponseStatusBadData" using refund_world_run by blast
  have f: "find (\<lambda>d. mgorefund_Id d = 4) (w_refunds refund_world) = Some (open_refund RefundStatusInProgress)"
    by (simp add: refund_world_def open_refund_def)
  have ordr: "order_at sample_ext (w_orders refund_world) (x_oid_hex sample_ext (mgorefund_OriginalOrderId (open_refund RefundStatusInProgress))) =
      Some sample_order"
    by (simp add: refund_world_def open_refund_def sample_order_at[unfolded One_nat_def])
  have d: "rcb_MerchantOrderId completed_refund = Some (sample_hex 4)" "rcb_RefundData completed_refund \<noteq> None"
    by (simp_all add: completed_refund_def)
  have i: "x_oid_from_hex sample_ext (sample_hex 4) = Inr 4" by (simp add: sample_hex_roundtrip)
  obtain pm params where m: "order_PaymentMethod sample_order = Some pm" "opm_Handler pm = PaymentSystemHandlerCardPay"
    "opm_Params pm = Some params" using sample_method by blast
  from forged_refund_callback[OF sample_codecs_ok sample_refund_gateway(1) d(1) i f ordr m _ t(1) t(2) d(2)]
  obtain d where "w_refunds t = replace_first (\<lambda>d. mgorefund_Id d = 4) d (w_refunds refund_world)" "mgorefund_Status d = RefundStatusRejected"
    by (auto simp: sample_refund_gateway)
  then show ?thesis using t(1) by (auto simp: refund_world_def open_refund_def)
qed

end
