(* ===== verification/OrderCreate.thy ===== *)
theory OrderCreate
  imports PaymentCallback
begin

text \<open>
  The creation of an order (OrderCreateProcess and OrderReCreateProcess of internal/service/order.go) and of a
  token for one (CreateToken of internal/service/token.go). The processor of a request carries the request,
  which a token overwrites, and what has been checked so far; each step returns the processor it changes.
\<close>

section \<open>Errors\<close>

definition orderErrorProjectIdIncorrect :: go_err where
  "orderErrorProjectIdIncorrect = ResponseErrorMessage ''fm000001'' ''project identifier is incorrect''"
definition orderErrorProjectNotFound :: go_err where
  "orderErrorProjectNotFound = ResponseErrorMessage ''fm000002'' ''project with specified identifier not found''"
definition orderErrorProjectMerchantInactive :: go_err where
  "orderErrorProjectMerchantInactive =
     ResponseErrorMessage ''fm000004'' ''merchant for project with specified identifier is inactive''"
definition orderErrorPaymentMethodInactive :: go_err where
  "orderErrorPaymentMethodInactive =
     ResponseErrorMessage ''fm000007'' ''payment Method with specified identifier is inactive''"
definition orderErrorDynamicNotifyUrlsNotAllowed :: go_err where
  "orderErrorDynamicNotifyUrlsNotAllowed =
     ResponseErrorMessage ''fm000013'' ''dynamic verify url or notify url not allowed for project''"
definition orderErrorDynamicRedirectUrlsNotAllowed :: go_err where
  "orderErrorDynamicRedirectUrlsNotAllowed =
     ResponseErrorMessage ''fm000014'' ''dynamic payer redirect urls not allowed for project''"
definition orderErrorCurrencyNotFound :: go_err where
  "orderErrorCurrencyNotFound = ResponseErrorMessage ''fm000015'' ''currency received from request not found''"
definition orderErrorAmountLowerThanMinAllowed :: go_err where
  "orderErrorAmountLowerThanMinAllowed =
     ResponseErrorMessage ''fm000016'' ''order amount is lower than min allowed payment amount for project''"
definition orderErrorAmountGreaterThanMaxAllowed :: go_err where
  "orderErrorAmountGreaterThanMaxAllowed =
     ResponseErrorMessage ''fm000017'' ''order amount is greater than max allowed payment amount for project''"
definition orderErrorCanNotCreate :: go_err where
  "orderErrorCanNotCreate = ResponseErrorMessage ''fm000020'' ''order can't create. try request later''"
definition orderErrorCurrencyIsRequired :: go_err where
  "orderErrorCurrencyIsRequired =
     ResponseErrorMessage ''fm000024'' ''parameter currency in create order request is required''"
definition orderCountryPaymentRestrictedError :: go_err where
  "orderCountryPaymentRestrictedError = ResponseErrorMessage ''fm000027'' ''payments from your country are not allowed''"
definition orderErrorProjectMerchantNotFound :: go_err where
  "orderErrorProjectMerchantNotFound =
     ResponseErrorMessage ''fm000038'' ''merchant for project with specified identifier not found''"
definition orderErrorSignatureInvalid :: go_err where
  "orderErrorSignatureInvalid = ResponseErrorMessage ''fm000048'' ''request signature is invalid''"
definition orderErrorCheckoutWithoutProducts :: go_err where
  "orderErrorCheckoutWithoutProducts = ResponseErrorMessage ''fm000052'' ''order products not specified''"
definition orderErrorCheckoutWithoutAmount :: go_err where
  "orderErrorCheckoutWithoutAmount = ResponseErrorMessage ''fm000053'' ''order amount not specified''"
definition orderErrorUnknownType :: go_err where
  "orderErrorUnknownType = ResponseErrorMessage ''fm000055'' ''unknown type of order''"
definition orderErrorMerchantBadTariffs :: go_err where
  "orderErrorMerchantBadTariffs = ResponseErrorMessage ''fm000056'' ''merchant don't have tariffs''"
definition orderErrorVirtualCurrencyFracNotSupported :: go_err where
  "orderErrorVirtualCurrencyFracNotSupported =
     ResponseErrorMessage ''fm000066'' ''fractional numbers is not supported for this virtual currency''"
definition orderErrorVirtualCurrencyLimits :: go_err where
  "orderErrorVirtualCurrencyLimits =
     ResponseErrorMessage ''fm000067'' ''amount of order is more than max amount or less than minimal amount for virtual currency''"
definition orderErrorCheckoutWithProducts :: go_err where
  "orderErrorCheckoutWithProducts =
     ResponseErrorMessage ''fm000069'' ''request to processing simple payment can't contain products list''"
definition orderErrorMerchantDoNotHaveBanking :: go_err where
  "orderErrorMerchantDoNotHaveBanking = ResponseErrorMessage ''fm000071'' ''merchant don't have completed banking info''"
definition orderErrorAmountLowerThanMinLimitSystem :: go_err where
  "orderErrorAmountLowerThanMinLimitSystem =
     ResponseErrorMessage ''fm000074'' ''order amount is lower than min system limit''"
definition orderErrorWrongPrivateStatus :: go_err where
  "orderErrorWrongPrivateStatus =
     ResponseErrorMessage ''fm000077'' ''order has wrong private status and cannot be recreated''"
definition orderErrorRecurringNotAllowed :: go_err where
  "orderErrorRecurringNotAllowed = ResponseErrorMessage ''fm000082'' ''payment method not allowed recurring payments''"
definition orderErrorRecurringDateEndInvalid :: go_err where
  "orderErrorRecurringDateEndInvalid = ResponseErrorMessage ''fm000083'' ''invalid the end date of recurring payments''"
definition orderErrorRecurringDateEndOutOfRange :: go_err where
  "orderErrorRecurringDateEndOutOfRange =
     ResponseErrorMessage ''fm000084'' ''subscription period cannot be less than the selected period and more than one year''"
definition orderErrorRecurringInvalidPeriod :: go_err where
  "orderErrorRecurringInvalidPeriod = ResponseErrorMessage ''fm000085'' ''recurring period subscription is invalid''"
definition orderErrorMerchantAccountIsSuspended :: go_err where
  "orderErrorMerchantAccountIsSuspended =
     ResponseErrorMessage ''fm000090'' ''payments for this project have been temporarily suspended''"
definition errorPaymentMinLimitSystemNotFound :: go_err where
  "errorPaymentMinLimitSystemNotFound = ResponseErrorMessage ''pmls0002'' ''payment min limit system not found''"

text \<open>The answer to an error of a step: a message of the service is answered, everything else is returned.\<close>

definition answering :: "rsp_status \<Rightarrow> 'a io \<Rightarrow> ('a \<Rightarrow> 'b response io) \<Rightarrow> 'b response io" where
  "answering st m k = bind (try_go m) (\<lambda>r. case r of
     Inl e \<Rightarrow> if is_message e then ret (rsp_error st e) else throw e
   | Inr a \<Rightarrow> k a)"

section \<open>The project and its merchant\<close>

definition no_checked :: order_checked where
  "no_checked = \<lparr>chk_project = None, chk_merchant = None, chk_currency = [], chk_amount = 0, chk_paymentMethod = None,
     chk_products = [], chk_items = [], chk_metadata = None, chk_privateMetadata = None, chk_user = None,
     chk_virtualAmount = 0, chk_mccCode = [], chk_operatingCompanyId = [], chk_priceGroup = None,
     chk_isCurrencyPredefined = False, chk_isBuyForVirtualCurrency = False, chk_recurringPeriod = [],
     chk_recurringInterval = 0, chk_recurringDateEnd = []\<rparr>"

definition setRedirectButtonCaption :: "string \<Rightarrow> project \<Rightarrow> project io" where
  "setRedirectButtonCaption caption p = bind (deref (pco_RedirectSettings (project_Carried p))) (\<lambda>rs.
     ret (p\<lparr>project_Carried := (project_Carried p)\<lparr>pco_RedirectSettings := Some (rs\<lparr>rs_ButtonCaption := caption\<rparr>)\<rparr>\<rparr>))"

definition processProject :: "ext \<Rightarrow> order_request \<Rightarrow> order_checked \<Rightarrow> order_checked io" where
  "processProject X req chk =
     bind (replace_err orderErrorProjectNotFound (project_GetById X (oreq_ProjectId req))) (\<lambda>project.
     if x_project_is_deleted X project then throw orderErrorProjectInactive
     else if project_MerchantId project = [] then throw orderErrorProjectMerchantNotFound
     else
     bind (replace_err orderErrorProjectMerchantNotFound (lift (x_oid_from_hex X (project_MerchantId project)))) (\<lambda>_.
     bind (replace_err orderErrorProjectMerchantNotFound (merchant_GetById X (project_MerchantId project))) (\<lambda>merchant.
     if x_merchant_is_deleted X merchant then throw orderErrorProjectMerchantInactive
     else
     bind (if oreq_ButtonCaption req \<noteq> [] then setRedirectButtonCaption (oreq_ButtonCaption req) project else ret project) (\<lambda>project.
     ret (chk\<lparr>chk_project := Some project, chk_merchant := Some merchant\<rparr>)))))"

definition processMerchant :: "ext \<Rightarrow> order_checked \<Rightarrow> unit io" where
  "processMerchant X chk =
     bind (deref (chk_merchant chk)) (\<lambda>merchant.
     if merchant_Banking merchant = None \<or> merchant_Banking merchant = Some [] then throw orderErrorMerchantDoNotHaveBanking
     else if \<not> x_merchant_has_tariff X merchant then throw orderErrorMerchantBadTariffs
     else if merchant_Status merchant = x_merchant_status_suspend X then throw orderErrorMerchantAccountIsSuspended
     else ret ())"

section \<open>Signature\<close>

definition signed_text :: "order_request \<Rightarrow> string" where
  "signed_text req = (if oreq_IsJson req then oreq_RawBody req
     else concat (map (\<lambda>(k, v). k @ ''='' @ v) (sort_key fst (case oreq_RawParams req of None \<Rightarrow> [] | Some kvs \<Rightarrow> kvs))))"

definition processSignature :: "ext \<Rightarrow> order_request \<Rightarrow> order_checked \<Rightarrow> unit io" where
  "processSignature X req chk =
     bind (deref (chk_project chk)) (\<lambda>project.
     if x_sha512_hex X (signed_text req @ pco_SecretKey (project_Carried project)) \<noteq> oreq_Signature req
     then throw orderErrorSignatureInvalid else ret ())"

section \<open>The customer\<close>

definition ObjectTypeUser :: string where "ObjectTypeUser = ''user''"

definition no_user :: order_user where
  "no_user = \<lparr>ou_Id = [], ou_Uuid = [], ou_Email = [], ou_TechEmail = [], ou_Ip = [], ou_Locale = [], ou_Object = [],
     ou_ExternalId = [], ou_Name = [], ou_EmailVerified = False, ou_Phone = [], ou_PhoneVerified = False,
     ou_Address = None, ou_Metadata = None, ou_Rest = []\<rparr>"

definition user_of_customer :: "customer \<Rightarrow> order_user \<Rightarrow> order_user" where
  "user_of_customer c u = u\<lparr>ou_Id := cust_Id c, ou_Uuid := cust_Uuid c, ou_Object := ObjectTypeUser,
     ou_TechEmail := cust_TechEmail c\<rparr>"

definition user_of_token :: "token_user \<Rightarrow> order_user" where
  "user_of_token u = no_user\<lparr>ou_ExternalId := tu_Id u, ou_Address := tu_Address u, ou_Metadata := tu_Metadata u,
     ou_Name := (case tu_Name u of None \<Rightarrow> [] | Some v \<Rightarrow> v),
     ou_Email := (case tu_Email u of None \<Rightarrow> [] | Some (v, _) \<Rightarrow> v),
     ou_EmailVerified := (case tu_Email u of None \<Rightarrow> False | Some (_, b) \<Rightarrow> b),
     ou_Phone := (case tu_Phone u of None \<Rightarrow> [] | Some (v, _) \<Rightarrow> v),
     ou_PhoneVerified := (case tu_Phone u of None \<Rightarrow> False | Some (_, b) \<Rightarrow> b),
     ou_Ip := (case tu_Ip u of None \<Rightarrow> [] | Some v \<Rightarrow> v),
     ou_Locale := (case tu_Locale u of None \<Rightarrow> [] | Some v \<Rightarrow> v)\<rparr>"

section \<open>Recurring payments\<close>

definition FilterDateFormat :: string where "FilterDateFormat = ''2006-01-02''"

definition RecurringPeriodDay :: string where "RecurringPeriodDay = ''day''"
definition RecurringPeriodWeek :: string where "RecurringPeriodWeek = ''week''"
definition RecurringPeriodMonth :: string where "RecurringPeriodMonth = ''month''"
definition RecurringPeriodYear :: string where "RecurringPeriodYear = ''year''"

lemmas recurring_periods = RecurringPeriodDay_def RecurringPeriodWeek_def RecurringPeriodMonth_def RecurringPeriodYear_def

text \<open>Midnight and the last second of a day of UTC, and the hours between two instants.\<close>

definition day_start :: "gotime \<Rightarrow> gotime" where "day_start t = t - t mod (86400 * second)"
definition day_last_second :: "gotime \<Rightarrow> gotime" where "day_last_second t = day_start t + 86399 * second"

definition go_hours :: "int \<Rightarrow> float64" where
  "go_hours d = (let hour = 3600 * second; q = (if d < 0 then - (- d div hour) else d div hour) in
     Fin (of_int q) + Fin (of_int (d - q * hour)) / Fin 3600000000000)"

definition go_floor :: "float64 \<Rightarrow> float64" where
  "go_floor x = (case x of Fin r \<Rightarrow> Fin (of_int \<lfloor>r\<rfloor>) | _ \<Rightarrow> x)"

definition recurring_interval :: "string \<Rightarrow> float64 \<Rightarrow> float64 option" where
  "recurring_interval period delta =
     (if period = RecurringPeriodDay then Some (delta / Fin 24)
      else if period = RecurringPeriodWeek then Some (delta / Fin 24 / Fin 7)
      else if period = RecurringPeriodMonth then Some ((delta / Fin 24 / Fin 365) * Fin 12)
      else if period = RecurringPeriodYear then Some (delta / Fin 24 / Fin 365)
      else None)"

definition recurring_out_of_range :: "string \<Rightarrow> float64 \<Rightarrow> float64 \<Rightarrow> bool" where
  "recurring_out_of_range period interval totalDays \<longleftrightarrow> flt interval 1 \<or> flt (Fin 365) totalDays \<or>
     period = RecurringPeriodDay \<and> flt (Fin 365) interval \<or> period = RecurringPeriodDay \<and> flt interval (Fin 7) \<or>
     period = RecurringPeriodWeek \<and> flt (Fin 52) interval \<or> period = RecurringPeriodMonth \<and> flt (Fin 12) interval \<or>
     period = RecurringPeriodYear \<and> flt 1 interval"

definition processRecurringSettings :: "ext \<Rightarrow> order_request \<Rightarrow> order_checked \<Rightarrow> order_checked io" where
  "processRecurringSettings X req chk =
     (if oreq_RecurringPeriod req = [] then ret chk
      else if (case chk_paymentMethod chk of None \<Rightarrow> False | Some pm \<Rightarrow> \<not> pm_RecurringAllowed pm)
      then throw orderErrorRecurringNotAllowed
      else
      bind (time_now X) (\<lambda>now.
      bind (if oreq_RecurringDateEnd req \<noteq> []
        then replace_err orderErrorRecurringDateEndInvalid (lift (x_parse_time X FilterDateFormat (oreq_RecurringDateEnd req)))
        else ret (x_add_year X now)) (\<lambda>until.
      let dateEnd = day_last_second until; delta = go_hours (dateEnd - day_start now) in
      case recurring_interval (oreq_RecurringPeriod req) delta of None \<Rightarrow> throw orderErrorRecurringInvalidPeriod
      | Some interval \<Rightarrow>
        if recurring_out_of_range (oreq_RecurringPeriod req) (go_floor interval) (go_floor (delta / Fin 24))
        then throw orderErrorRecurringDateEndOutOfRange
        else ret (chk\<lparr>chk_recurringPeriod := oreq_RecurringPeriod req, chk_recurringInterval := 1,
          chk_recurringDateEnd := x_format_time X FilterDateFormat dateEnd\<rparr>))))"

text \<open>
  A token overwrites the request. Its list of products is nil when it is empty, as it was stored as JSON.
\<close>

definition request_of_token :: "token_settings \<Rightarrow> order_request \<Rightarrow> order_request" where
  "request_of_token st req = (case tset_ReturnUrl st of
       None \<Rightarrow> (\<lambda>r. r)
     | Some (success, fail) \<Rightarrow> (\<lambda>r. r\<lparr>oreq_UrlSuccess := success, oreq_UrlFail := fail\<rparr>))
     (req\<lparr>oreq_Type := tset_Type st, oreq_PlatformId := tset_PlatformId st, oreq_ProjectId := tset_ProjectId st,
       oreq_Description := tset_Description st, oreq_Amount := tset_Amount st, oreq_Currency := tset_Currency st,
       oreq_Products := (if tset_ProductsIds st = [] then None else Some (tset_ProductsIds st)),
       oreq_Metadata := tset_Metadata st, oreq_PaymentMethod := tset_PaymentMethod st,
       oreq_ButtonCaption := tset_ButtonCaption st\<rparr>)"

definition processCustomerToken :: "ext \<Rightarrow> order_request \<Rightarrow> order_checked \<Rightarrow> (order_request \<times> order_checked) io" where
  "processCustomerToken X req chk =
     bind (getTokenBy X (oreq_Token req)) (\<lambda>token.
     bind (getCustomerById X (tok_CustomerId token)) (\<lambda>customer.
     let st = tok_Settings token; req = request_of_token st req;
         chk = chk\<lparr>chk_user := Some (user_of_customer customer (user_of_token (tok_User token)))\<rparr> in
     if tset_RecurringPeriod st = [] then ret (req, chk)
     else let req = req\<lparr>oreq_RecurringPeriod := tset_RecurringPeriod st, oreq_RecurringDateEnd := tset_RecurringDateEnd st\<rparr> in
       bind (processRecurringSettings X req chk) (\<lambda>chk. ret (req, chk))))"

text \<open>
  With a token no customer is looked up: the new, empty one is updated, whose map of activities is nil.
\<close>

definition zero_customer :: customer where
  "zero_customer = \<lparr>cust_Id = [], cust_TechEmail = [], cust_ExternalId = [], cust_Email = [], cust_EmailVerified = False,
     cust_Phone = [], cust_PhoneVerified = False, cust_Name = [], cust_Ip = [], cust_IpString = [], cust_Locale = [],
     cust_AcceptLanguage = [], cust_UserAgent = [], cust_Address = None, cust_Identity = [], cust_IpHistory = [],
     cust_AddressHistory = [], cust_LocaleHistory = [], cust_AcceptLanguageHistory = [], cust_Metadata = None,
     cust_CreatedAt = None, cust_UpdatedAt = None, cust_NotifySale = False, cust_NotifySaleEmail = [],
     cust_NotifyNewRegion = False, cust_NotifyNewRegionEmail = [], cust_PaymentActivity = None, cust_Uuid = []\<rparr>"

definition processUserData :: "ext \<Rightarrow> order_request \<Rightarrow> order_checked \<Rightarrow> order_checked io" where
  "processUserData X req chk =
     bind (deref (oreq_User req)) (\<lambda>u.
     bind (deref (chk_project chk)) (\<lambda>project.
     let user = transformOrderUser2TokenRequest u; merchantId = project_MerchantId project; projectId = project_Id project in
     bind (if oreq_Token req = [] then
         bind (try_go (findCustomer X user merchantId)) (\<lambda>r. ret (case r of Inl _ \<Rightarrow> None | Inr c \<Rightarrow> Some c))
       else ret (Some zero_customer)) (\<lambda>found.
     bind (case found of Some c \<Rightarrow> updateCustomer X user merchantId projectId c
       | None \<Rightarrow> createCustomer X user merchantId projectId) (\<lambda>(_, c).
     ret (chk\<lparr>chk_user := Some (user_of_customer c u)\<rparr>)))))"

definition processPayerIp :: "ext \<Rightarrow> order_checked \<Rightarrow> order_checked io" where
  "processPayerIp X chk =
     bind (deref (chk_user chk)) (\<lambda>u.
     bind (getAddressByIp X (ou_Ip u)) (\<lambda>address.
     ret (chk\<lparr>chk_user := Some (u\<lparr>ou_Address := Some address\<rparr>)\<rparr>)))"

text \<open>The country a customer has chosen before is restored while the address of the network is the same.\<close>

definition restored_address :: "browser_customer \<Rightarrow> order_user \<Rightarrow> order_user" where
  "restored_address c u =
     (if (case ou_Address u of None \<Rightarrow> False | Some a \<Rightarrow> ad_Country a = bc_IpCountry c) \<and> ou_Ip u = bc_Ip c \<and>
         bc_SelectedCountry c \<noteq> []
      then u\<lparr>ou_Address := Some \<lparr>ad_Country = bc_SelectedCountry c, ad_City = [], ad_PostalCode = [], ad_State = []\<rparr>\<rparr> else u)"

definition locate_user :: "ext \<Rightarrow> order_request \<Rightarrow> order_checked \<Rightarrow> order_checked io" where
  "locate_user X req chk = (case chk_user chk of None \<Rightarrow> ret chk
     | Some u \<Rightarrow> if ou_Ip u = [] \<or> x_user_has_address X u then ret chk
       else bind (processPayerIp X chk) (\<lambda>chk.
         if oreq_Cookie req = [] then ret chk
         else bind (try_go (decryptBrowserCookie X (oreq_Cookie req))) (\<lambda>r. case r of Inl _ \<Rightarrow> ret chk
           | Inr c \<Rightarrow> ret (chk\<lparr>chk_user := map_option (restored_address c) (chk_user chk)\<rparr>))))"

section \<open>The currency\<close>

definition group_of_region :: "ext \<Rightarrow> order_checked \<Rightarrow> order_checked io" where
  "group_of_region X chk = bind (try_go (priceGroup_GetByRegion X (chk_currency chk))) (\<lambda>r. case r of
     Inl _ \<Rightarrow> ret chk | Inr g \<Rightarrow> ret (chk\<lparr>chk_priceGroup := Some g\<rparr>))"

definition processCurrency :: "ext \<Rightarrow> order_request \<Rightarrow> string \<Rightarrow> order_checked \<Rightarrow> order_checked io" where
  "processCurrency X req orderType chk =
     (if oreq_Currency req \<noteq> [] then
        (if oreq_Currency req \<notin> set (x_supported_currencies X) then throw orderErrorCurrencyNotFound
         else group_of_region X (chk\<lparr>chk_currency := oreq_Currency req, chk_isCurrencyPredefined := True\<rparr>))
      else if orderType = OrderType_simple then throw orderErrorCurrencyIsRequired
      else
      let chk = chk\<lparr>chk_isCurrencyPredefined := False\<rparr>;
          countryCode = (case chk_user chk of None \<Rightarrow> [] | Some u \<Rightarrow> x_user_country X u);
          merchants = bind (deref (chk_merchant chk)) (\<lambda>m.
            group_of_region X (chk\<lparr>chk_currency := x_merchant_payout_currency X m\<rparr>)) in
      if countryCode = [] then merchants
      else bind (try_go (country_GetByIsoCodeA2 X countryCode)) (\<lambda>r. case r of Inl _ \<Rightarrow> merchants
        | Inr country \<Rightarrow> bind (try_go (priceGroup_GetById X (country_PriceGroupId country))) (\<lambda>r. case r of Inl _ \<Rightarrow> merchants
          | Inr g \<Rightarrow> ret (chk\<lparr>chk_currency := pg_Currency g, chk_priceGroup := Some g\<rparr>))))"

section \<open>The amount\<close>

definition ProjectSellCountTypeIntegral :: string where "ProjectSellCountTypeIntegral = ''integral''"

text \<open>\<open>math.Modf\<close>: the part behind the point, with the sign of the number.\<close>

definition go_frac :: "float64 \<Rightarrow> float64" where
  "go_frac x = (case x of Fin r \<Rightarrow> Fin (r - of_int (if 0 \<le> r then \<lfloor>r\<rfloor> else \<lceil>r\<rceil>)) | _ \<Rightarrow> NaN)"

definition processVirtualCurrency :: "ext \<Rightarrow> order_request \<Rightarrow> order_checked \<Rightarrow> order_checked io" where
  "processVirtualCurrency X req chk =
     bind (deref (chk_project chk)) (\<lambda>project.
     let amount = oreq_Amount req in
     case project_VirtualCurrency project of None \<Rightarrow> throw orderErrorVirtualCurrencyNotFilled
     | Some vc \<Rightarrow>
       if vc_Prices vc = [] then throw orderErrorVirtualCurrencyNotFilled
       else if vc_SellCountType vc = ProjectSellCountTypeIntegral \<and> flt 0 (go_frac amount)
       then throw orderErrorVirtualCurrencyFracNotSupported
       else if flt amount (vc_MinPurchaseValue vc) \<or> flt 0 (vc_MaxPurchaseValue vc) \<and> flt (vc_MaxPurchaseValue vc) amount
       then throw orderErrorVirtualCurrencyLimits
       else ret (chk\<lparr>chk_virtualAmount := amount\<rparr>))"

definition request_products :: "order_request \<Rightarrow> string list" where
  "request_products req = (case oreq_Products req of None \<Rightarrow> [] | Some ps \<Rightarrow> ps)"

definition processPaylinkProducts :: "ext \<Rightarrow> order_request \<Rightarrow> order_checked \<Rightarrow> order_checked io" where
  "processPaylinkProducts X req chk =
     bind (deref (chk_project chk)) (\<lambda>project.
     bind (processProducts X (project_Id project) (request_products req) (chk_priceGroup chk) DefaultLanguage)
       (\<lambda>(amount, used, items, virtual).
     ret (chk\<lparr>chk_isBuyForVirtualCurrency := virtual, chk_priceGroup := Some used, chk_products := request_products req,
       chk_currency := pg_Currency used, chk_amount := amount, chk_items := items\<rparr>)))"

definition processPaylinkKeyProducts :: "ext \<Rightarrow> order_request \<Rightarrow> order_checked \<Rightarrow> (order_request \<times> order_checked) io" where
  "processPaylinkKeyProducts X req chk =
     bind (deref (chk_project chk)) (\<lambda>project.
     bind (processKeyProducts X (project_Id project) (request_products req) (chk_priceGroup chk) DefaultLanguage
       (oreq_PlatformId req)) (\<lambda>(amount, used, items, _).
     ret (if oreq_PlatformId req = [] then (case items of [] \<Rightarrow> req | it # _ \<Rightarrow> req\<lparr>oreq_PlatformId := oi_PlatformId it\<rparr>) else req,
       chk\<lparr>chk_priceGroup := Some used, chk_products := request_products req, chk_currency := pg_Currency used,
         chk_amount := amount, chk_items := items\<rparr>)))"

definition processPaymentMethod :: "ext \<Rightarrow> payment_method \<Rightarrow> order_checked \<Rightarrow> order_checked io" where
  "processPaymentMethod X pm chk =
     (if \<not> pm_IsActive pm then throw orderErrorPaymentMethodInactive
      else
      bind (replace_err orderErrorPaymentSystemInactive (paymentsystem_GetById X (pm_PaymentSystemId pm))) (\<lambda>_.
      bind (deref (chk_project chk)) (\<lambda>project.
      bind (lift (getPaymentSettings X pm (chk_currency chk) (chk_mccCode chk) (chk_operatingCompanyId chk) []
        (x_project_is_production X project))) (\<lambda>_.
      ret (chk\<lparr>chk_paymentMethod := Some pm\<rparr>)))))"

section \<open>Limits\<close>

definition limits_amount :: "ext \<Rightarrow> project \<Rightarrow> order_checked \<Rightarrow> float64 io" where
  "limits_amount X project chk =
     (if project_LimitsCurrency project = [] \<or> project_LimitsCurrency project = chk_currency chk then ret (chk_amount chk)
      else if project_LimitsCurrency project \<notin> set (x_supported_currencies X) then throw orderErrorCurrencyNotFound
      else bind (deref (chk_merchant chk)) (\<lambda>merchant.
        replace_err orderErrorConvertionCurrency (rpc (\<lambda>n. x_exchange_merchant X n (merchant_Id merchant)
          \<lparr>ex_From = chk_currency chk, ex_To = project_LimitsCurrency project, ex_RateType = RateTypeOxr,
           ex_Direction = ExchangeDirectionSell, ex_Source = [], ex_Amount = chk_amount chk, ex_Datetime = None\<rparr>))))"

definition within_project_limits :: "ext \<Rightarrow> project \<Rightarrow> float64 \<Rightarrow> go_err + unit" where
  "within_project_limits X project amount =
     (if \<not> x_project_has_limits X project then Inr ()
      else if flt amount (project_MinPaymentAmount project) then Inl orderErrorAmountLowerThanMinAllowed
      else if flt 0 (project_MaxPaymentAmount project) \<and> flt (project_MaxPaymentAmount project) amount
        then Inl orderErrorAmountGreaterThanMaxAllowed
      else Inr ())"

definition processLimitAmounts :: "ext \<Rightarrow> order_checked \<Rightarrow> unit io" where
  "processLimitAmounts X chk =
     bind (replace_err errorPaymentMinLimitSystemNotFound (minLimit_GetByCurrency X (chk_currency chk))) (\<lambda>pmls.
     if flt (chk_amount chk) (pml_Amount pmls) then throw orderErrorAmountLowerThanMinLimitSystem
     else
     bind (deref (chk_project chk)) (\<lambda>project.
     bind (limits_amount X project chk) (\<lambda>amount.
     bind (lift (within_project_limits X project amount)) (\<lambda>_.
     case chk_paymentMethod chk of None \<Rightarrow> ret ()
     | Some pm \<Rightarrow>
       if \<not> x_method_has_limits X pm then throw orderErrorPaymentMethodLimitsNotConfigured
       else bind (replace_err orderErrorConvertionCurrency (ExchangeAmountToPaymentMethodLimitsCurrency X (chk_amount chk)
           (chk_currency chk) (pm_LimitsCurrency pm))) (\<lambda>amount.
         lift (within_method_limits pm amount))))))"

section \<open>Restrictions of countries\<close>

text \<open>
  Whether payments from a country are allowed. Where neither they nor a change of the country are, the order is
  declined and stored, if it is there already.
\<close>

definition set_restriction :: "country_restriction \<Rightarrow> order \<Rightarrow> order" where
  "set_restriction r ordr = ordr\<lparr>order_Carried := (order_Carried ordr)\<lparr>oco_CountryRestriction := Some r\<rparr>\<rparr>"

definition require_address :: "order \<Rightarrow> order" where
  "require_address ordr = ordr\<lparr>order_Carried := (order_Carried ordr)\<lparr>oco_UserAddressDataRequired := True\<rparr>\<rparr>"

definition applyCountryRestriction :: "ext \<Rightarrow> order \<Rightarrow> string \<Rightarrow> (order \<times> bool) io" where
  "applyCountryRestriction X ordr countryCode =
     (if countryCode = [] then
        ret (require_address (set_restriction \<lparr>cr_IsoCodeA2 = [], cr_PaymentsAllowed = False, cr_ChangeAllowed = True\<rparr> ordr), False)
      else
      bind (country_GetByIsoCodeA2 X countryCode) (\<lambda>country.
      bind (merchant_GetById X (x_order_merchant_id X ordr)) (\<lambda>merchant.
      let (paymentsAllowed, changeAllowed) = x_country_restrictions X country (x_merchant_is_high_risk X merchant);
          ordr = set_restriction \<lparr>cr_IsoCodeA2 = countryCode, cr_PaymentsAllowed = paymentsAllowed,
            cr_ChangeAllowed = changeAllowed\<rparr> ordr in
      if paymentsAllowed then ret (ordr, False)
      else if changeAllowed then ret (require_address ordr, False)
      else bind (updateOrder X (ordr\<lparr>order_PrivateStatus := OrderStatusPaymentSystemDeclined\<rparr>)) (\<lambda>(ordr, err).
        case err of None \<Rightarrow> ret (ordr, True)
        | Some e \<Rightarrow> if x_error_text X e = x_error_text X orderErrorNotFound then ret (ordr, True) else throw e))))"

section \<open>The order\<close>

definition getHostFromUrl :: "ext \<Rightarrow> string \<Rightarrow> string" where
  "getHostFromUrl X urlString = (case x_url_host X urlString of Inl _ \<Rightarrow> []
     | Inr h \<Rightarrow> (case x_split_host_port X h of Inl _ \<Rightarrow> h | Inr host \<Rightarrow> host))"

definition defaultPaymentFormOpeningMode :: string where "defaultPaymentFormOpeningMode = ''embed''"

definition possiblePaymentFormOpeningModes :: "string list" where
  "possiblePaymentFormOpeningModes = [''embed'', ''iframe'', ''standalone'']"

definition defaultExpireDateToFormInput :: int where "defaultExpireDateToFormInput = 30"

text \<open>The order as it is made from a request, before the customer, the URLs and the payment method.\<close>

definition new_order ::
  "ext \<Rightarrow> order_request \<Rightarrow> order_checked \<Rightarrow> project \<Rightarrow> merchant \<Rightarrow> string \<Rightarrow> timestamp \<Rightarrow> string \<Rightarrow> string \<Rightarrow> order" where
  "new_order X req chk project merchant i createdAt uuid receiptId =
     (let amount = FormatAmount X (chk_amount chk) (chk_currency chk) in
     \<lparr>order_Id = i, order_Uuid = uuid, order_Transaction = [], order_Object = [], order_Status = [],
      order_PrivateStatus = OrderStatusNew, order_CreatedAt = Some createdAt, order_UpdatedAt = None, order_CanceledAt = None,
      order_Canceled = False, order_Cancellation = None, order_Refunded = False, order_RefundedAt = None,
      order_ReceiptEmail = [], order_ReceiptPhone = [], order_ReceiptUrl = [], order_ReceiptId = receiptId,
      order_IssuerReferenceType = oreq_IssuerReferenceType req, order_IssuerReference = oreq_IssuerReference req,
      order_TotalPaymentAmount = amount, order_Currency = chk_currency chk, order_User = chk_user chk, order_TaxRate = 0,
      order_TaxAmount = 0, order_PaymentMethod = None, order_Items = chk_items chk, order_Refund = None,
      order_ProjectId = project_Id project, order_ProjectMerchantId = merchant_Id merchant,
      order_ProjectName = project_Name project, order_ProjectFirstPaymentAt = merchant_FirstPaymentAt merchant,
      order_ProjectCarried = (project_Carried project)\<lparr>pco_MerchantRoyaltyCurrency := x_merchant_payout_currency X merchant\<rparr>,
      order_ProjectLastRequestedAt = None, order_PaymentMethodOrderClosedAt = None, order_OrderAmount = amount,
      order_PaymentMethodPayerAccount = [], order_PaymentMethodTxnParams = None, order_PaymentRequisites = None,
      order_ExpireDateToFormInput = None, order_IsNotificationsSent = None, order_ParentOrder = None,
      order_ParentPaymentAt = None, order_Type = OrderTypeOrder, order_IsVatDeduction = False, order_CountryCode = [],
      order_PlatformId = oreq_PlatformId req, order_ProductType = oreq_Type req, order_Keys = [],
      order_IsKeyProductNotified = False, order_MccCode = merchant_MccCode merchant,
      order_OperatingCompanyId = merchant_OperatingCompanyId merchant, order_IsHighRisk = x_merchant_is_high_risk X merchant,
      order_ChargeCurrency = chk_currency chk, order_ChargeAmount = amount, order_IsRefundAllowed = False,
      order_VatPayer = project_VatPayer project, order_IsProduction = x_project_is_production X project,
      order_RoyaltyReportId = [], order_Recurring = False, order_RecurringId = [],
      order_VirtualCurrencyAmount = (if flt 0 (chk_virtualAmount chk) then chk_virtualAmount chk else 0),
      order_Carried = \<lparr>oco_Description = ''Payment by order # '' @ i, oco_ReceiptNumber = [], oco_AgreementVersion = [],
        oco_AgreementAccepted = False, oco_NotifySale = False, oco_NotifySaleEmail = [],
        oco_Issuer = Some \<lparr>iss_Url = oreq_IssuerUrl req, iss_Embedded = oreq_IsEmbedded req, iss_UtmSource = oreq_UtmSource req,
          iss_UtmCampaign = oreq_UtmCampaign req, iss_UtmMedium = oreq_UtmMedium req,
          iss_ReferrerHost = getHostFromUrl X (oreq_IssuerUrl req)\<rparr>,
        oco_BillingAddress = None, oco_TaxType = [], oco_TaxCurrency = [], oco_Metadata = chk_metadata chk,
        oco_PrivateMetadata = chk_privateMetadata chk, oco_ProjectParams = None, oco_IsJsonRequest = oreq_IsJson req,
        oco_UserAddressDataRequired = False, oco_Products = chk_products chk,
        oco_CountryRestriction = Some \<lparr>cr_IsoCodeA2 = [], cr_PaymentsAllowed = True, cr_ChangeAllowed = True\<rparr>,
        oco_IsBuyForVirtualCurrency = chk_isBuyForVirtualCurrency chk, oco_PaymentIpCountry = [],
        oco_IsIpCountryMismatchBin = False, oco_BillingCountryChangedByUser = False, oco_FormMode = [],
        oco_IsCurrencyPredefined = chk_isCurrencyPredefined chk,
        oco_MerchantInfo = Some (x_merchant_company_name X merchant, merchant_AgreementNumber merchant),
        oco_RecurringSettings = None\<rparr>\<rparr>)"

text \<open>The tax and the restrictions follow the address of the customer, when there is one.\<close>

definition order_for_user :: "ext \<Rightarrow> order_request \<Rightarrow> order \<Rightarrow> order io" where
  "order_for_user X req ordr = (case order_User ordr of
       None \<Rightarrow> ret (ordr\<lparr>order_User := Some (no_user\<lparr>ou_Object := ObjectTypeUser, ou_ExternalId := oreq_Account req\<rparr>)\<rparr>)
     | Some u \<Rightarrow> if ou_Address u = None then ret ordr
         else
         bind (processOrderVat X ordr) (\<lambda>ordr.
         bind (applyCountryRestriction X ordr (x_order_country X ordr)) (\<lambda>(ordr, restricted).
         if restricted then throw orderCountryPaymentRestrictedError else ret ordr)))"

definition order_with_urls :: "order_request \<Rightarrow> order \<Rightarrow> order" where
  "order_with_urls req ordr =
     (let carried = order_Carried ordr; pc = order_ProjectCarried ordr in
      ordr\<lparr>order_Carried := carried\<lparr>oco_Description := (if oreq_Description req \<noteq> [] then oreq_Description req else oco_Description carried)\<rparr>,
        order_ProjectCarried := pc\<lparr>
          pco_UrlSuccess := (if oreq_UrlSuccess req \<noteq> [] then oreq_UrlSuccess req else pco_UrlSuccess pc),
          pco_UrlFail := (if oreq_UrlFail req \<noteq> [] then oreq_UrlFail req else pco_UrlFail pc)\<rparr>\<rparr>)"

definition order_with_method :: "ext \<Rightarrow> order_checked \<Rightarrow> order \<Rightarrow> order io" where
  "order_with_method X chk ordr = (case chk_paymentMethod chk of None \<Rightarrow> ret ordr
     | Some pm \<Rightarrow>
       bind (paymentsystem_GetById X (pm_PaymentSystemId pm)) (\<lambda>ps.
       let method = \<lparr>opm_Id = pm_Id pm, opm_Name = pm_Name pm, opm_ExternalId = [], opm_Params = None,
             opm_PaymentSystemId = psys_Id ps, opm_Group = pm_Group pm, opm_Saved = False, opm_Handler = [], opm_Card = None,
             opm_Wallet = None, opm_CryptoCurrency = None, opm_RefundAllowed = False,
             opm_RecurringAllowed = pm_RecurringAllowed pm\<rparr>;
           ordr = ordr\<lparr>order_PaymentMethod := Some method\<rparr> in
       case x_order_cost_method_name X ordr of Inl _ \<Rightarrow> ret ordr
       | Inr methodName \<Rightarrow> bind (lift (getPaymentSettings X pm (chk_currency chk) (chk_mccCode chk)
             (chk_operatingCompanyId chk) methodName (order_IsProduction ordr))) (\<lambda>params.
           ret (ordr\<lparr>order_PaymentMethod := Some (method\<lparr>opm_Params := Some params\<rparr>)\<rparr>))))"

definition prepareOrder :: "ext \<Rightarrow> order_request \<Rightarrow> order_checked \<Rightarrow> order io" where
  "prepareOrder X req chk =
     bind (new_oid X) (\<lambda>oid.
     bind (deref (chk_project chk)) (\<lambda>project.
     if (oreq_UrlVerify req \<noteq> [] \<or> oreq_UrlNotify req \<noteq> []) \<and> \<not> project_AllowDynamicNotifyUrls project
     then throw orderErrorDynamicNotifyUrlsNotAllowed
     else if (oreq_UrlSuccess req \<noteq> [] \<or> oreq_UrlFail req \<noteq> []) \<and> \<not> project_AllowDynamicRedirectUrls project
     then throw orderErrorDynamicRedirectUrlsNotAllowed
     else
     bind (deref (chk_merchant chk)) (\<lambda>merchant.
     bind (timestamp_now X) (\<lambda>createdAt.
     bind (reading (x_uuid X)) (\<lambda>uuid.
     bind (reading (x_uuid X)) (\<lambda>receiptId.
     bind (order_for_user X req (new_order X req chk project merchant (x_oid_hex X oid) createdAt uuid receiptId)) (\<lambda>ordr.
     bind (order_with_method X chk (order_with_urls req ordr)) (\<lambda>ordr.
     bind (time_now X) (\<lambda>now.
     let carried = order_Carried ordr in
     ret (ordr\<lparr>order_ExpireDateToFormInput := timestamp_or_nil X (now + defaultExpireDateToFormInput * 60 * second),
       order_Carried := carried\<lparr>
         oco_FormMode := (if oreq_FormMode req \<in> set possiblePaymentFormOpeningModes then oreq_FormMode req
                          else defaultPaymentFormOpeningMode),
         oco_RecurringSettings := (if chk_recurringPeriod chk \<noteq> []
           then Some \<lparr>rset_Period = chk_recurringPeriod chk, rset_Interval = chk_recurringInterval chk,
             rset_DateEnd = chk_recurringDateEnd chk\<rparr> else oco_RecurringSettings carried)\<rparr>\<rparr>))))))))))"

section \<open>The handlers\<close>

definition notifyPaylinkError :: "ext \<Rightarrow> string \<Rightarrow> go_err \<Rightarrow> unit io" where
  "notifyPaylinkError X paylinkId e =
     bind (try_go (send X (SentPaylinkError paylinkId (x_error_text X e)))) (\<lambda>_. ret ())"

definition notify_paylink :: "ext \<Rightarrow> string go_map \<Rightarrow> go_err \<Rightarrow> unit io" where
  "notify_paylink X privateMetadata e = (let pid = go_get privateMetadata ''PaylinkId'' in
     if pid \<noteq> [] then notifyPaylinkError X pid e else ret ())"

text \<open>What the type of the order allows in a request.\<close>

definition type_allows :: "order_request \<Rightarrow> go_err option" where
  "type_allows req =
     (if oreq_Type req = OrderType_simple \<or> oreq_Type req = OrderTypeVirtualCurrency then
        (if oreq_Products req \<noteq> None then Some orderErrorCheckoutWithProducts
         else if fle (oreq_Amount req) 0 then Some orderErrorCheckoutWithoutAmount else None)
      else if oreq_Type req = OrderType_product \<or> oreq_Type req = OrderType_key then
        (if flt 0 (oreq_Amount req) then Some orderErrorCheckoutWithoutProducts else None)
      else Some orderErrorUnknownType)"

text \<open>The amount of the order by its type; a problem with the products is told to the owner of the paylink.\<close>

definition process_type :: "ext \<Rightarrow> order_request \<Rightarrow> order_checked \<Rightarrow> (order_request \<times> order_checked) io" where
  "process_type X req chk =
     (if oreq_Type req = OrderType_simple then
        ret (req, if is_zero (oreq_Amount req) then chk else chk\<lparr>chk_amount := oreq_Amount req\<rparr>)
      else if oreq_Type req = OrderTypeVirtualCurrency then
        bind (processVirtualCurrency X req chk) (\<lambda>chk. ret (req, chk))
      else if oreq_Type req = OrderType_product then
        bind (try_go (processPaylinkProducts X req chk)) (\<lambda>r. case r of
          Inl e \<Rightarrow> bind (notify_paylink X (oreq_PrivateMetadata req) e) (\<lambda>_.
            throw (if \<not> is_message e \<and> e = x_no_price_error X then productNoPriceInCurrencyError else e))
        | Inr chk \<Rightarrow> ret (req, chk))
      else if oreq_Type req = OrderType_key then
        bind (try_go (processPaylinkKeyProducts X req chk)) (\<lambda>r. case r of
          Inl e \<Rightarrow> bind (notify_paylink X (oreq_PrivateMetadata req) e) (\<lambda>_. throw e)
        | Inr (req, chk) \<Rightarrow> ret (req, chk))
      else ret (req, chk))"

definition process_method :: "ext \<Rightarrow> order_request \<Rightarrow> order_checked \<Rightarrow> order_checked io" where
  "process_method X req chk =
     (if oreq_PaymentMethod req = [] then ret chk
      else bind (deref (chk_project chk)) (\<lambda>project.
        bind (replace_err orderErrorPaymentMethodNotFound (methodrepo_GetByGroupAndCurrency X
          (x_project_is_production X project) (oreq_PaymentMethod req) (chk_currency chk))) (\<lambda>pm.
        processPaymentMethod X pm chk)))"

definition fill_codes :: "order_checked \<Rightarrow> order_checked io" where
  "fill_codes chk = bind (deref (chk_merchant chk)) (\<lambda>merchant.
     ret (chk\<lparr>chk_mccCode := (if chk_mccCode chk = [] then merchant_MccCode merchant else chk_mccCode chk),
       chk_operatingCompanyId := (if chk_operatingCompanyId chk = [] then merchant_OperatingCompanyId merchant
         else chk_operatingCompanyId chk)\<rparr>))"

text \<open>The request from its token, or the project's identifier of one without.\<close>

definition process_token :: "ext \<Rightarrow> order_request \<Rightarrow> (order_request \<times> order_checked) io" where
  "process_token X req =
     (if oreq_Token req \<noteq> [] then processCustomerToken X req no_checked
      else if oreq_ProjectId req = [] then throw orderErrorProjectIdIncorrect
      else bind (replace_err orderErrorProjectIdIncorrect (lift (x_oid_from_hex X (oreq_ProjectId req)))) (\<lambda>_.
        ret (req, no_checked)))"

definition check_signature :: "ext \<Rightarrow> order_request \<Rightarrow> order_checked \<Rightarrow> unit io" where
  "check_signature X req chk = bind (deref (chk_project chk)) (\<lambda>project.
     if oreq_Signature req \<noteq> [] \<or> project_SignatureRequired project then processSignature X req chk else ret ())"

definition create_order :: "ext \<Rightarrow> order_request \<Rightarrow> order io" where
  "create_order X req =
     bind (process_token X req) (\<lambda>(req, chk).
     bind (processProject X req chk) (\<lambda>chk.
     bind (processMerchant X chk) (\<lambda>_.
     bind (fill_codes chk) (\<lambda>chk.
     bind (check_signature X req chk) (\<lambda>_.
     bind (case type_allows req of None \<Rightarrow> ret () | Some e \<Rightarrow> throw e) (\<lambda>_.
     bind (if oreq_User req \<noteq> None then processUserData X req chk else ret chk) (\<lambda>chk.
     bind (locate_user X req chk) (\<lambda>chk.
     bind (processCurrency X req (oreq_Type req) chk) (\<lambda>chk.
     bind (process_type X req chk) (\<lambda>(req, chk).
     bind (process_method X req chk) (\<lambda>chk.
     bind (if oreq_Type req = OrderType_simple then processLimitAmounts X chk else ret ()) (\<lambda>_.
     bind (processRecurringSettings X req chk) (\<lambda>chk.
     bind (prepareOrder X req (chk\<lparr>chk_metadata := oreq_Metadata req, chk_privateMetadata := oreq_PrivateMetadata req\<rparr>)) (\<lambda>ordr.
     bind (try_go (orderrepo_Insert X ordr)) (\<lambda>r. case r of Inl _ \<Rightarrow> throw orderErrorCanNotCreate
       | Inr _ \<Rightarrow> ret ordr)))))))))))))))"

text \<open>
  Each step's message is answered as bad data, everything else is returned: the handler is the chain of its
  steps, answered as a whole.
\<close>

definition OrderCreateProcess :: "ext \<Rightarrow> order_request \<Rightarrow> order response io" where
  "OrderCreateProcess X req = answering ResponseStatusBadData (create_order X req) (\<lambda>ordr. ret (rsp_ok ordr))"

definition OrderReCreateProcess :: "ext \<Rightarrow> string \<Rightarrow> order response io" where
  "OrderReCreateProcess X orderId =
     bind (try_go (orderrepo_GetByUuid X orderId)) (\<lambda>r. case r of
       Inl _ \<Rightarrow> ret (rsp_error ResponseStatusNotFound orderErrorUnknown)
     | Inr ordr \<Rightarrow>
       if \<not> x_order_can_be_recreated X ordr then ret (rsp_error ResponseStatusBadData orderErrorWrongPrivateStatus)
       else
       bind (new_oid X) (\<lambda>oid.
       bind (reading (x_uuid X)) (\<lambda>uuid.
       bind (reading (x_uuid X)) (\<lambda>receiptId.
       bind (timestamp_now X) (\<lambda>createdAt.
       bind (timestamp_now X) (\<lambda>updatedAt.
       bind (deref (order_User ordr)) (\<lambda>u.
       let user = no_user\<lparr>ou_Id := ou_Id u, ou_Uuid := ou_Uuid u, ou_Phone := ou_Phone u, ou_PhoneVerified := ou_PhoneVerified u,
             ou_Metadata := oco_Metadata (order_Carried ordr), ou_Object := ou_Object u, ou_Name := ou_Name u,
             ou_ExternalId := ou_ExternalId u\<rparr>;
           newOrder = ordr\<lparr>order_PrivateStatus := OrderStatusNew, order_Status := OrderPublicStatusCreated,
             order_Id := x_oid_hex X oid, order_Uuid := uuid, order_ReceiptId := receiptId, order_CreatedAt := Some createdAt,
             order_UpdatedAt := Some updatedAt, order_Canceled := False, order_CanceledAt := None, order_ReceiptUrl := [],
             order_PaymentMethod := None, order_User := Some user\<rparr> in
       bind (try_go (orderrepo_Insert X newOrder)) (\<lambda>r. case r of
         Inl _ \<Rightarrow> ret (rsp_error ResponseStatusBadData orderErrorCanNotCreate)
       | Inr _ \<Rightarrow> ret (rsp_ok newOrder)))))))))"

end
