(* ===== verification/Tokens.thy ===== *)
theory Tokens
  imports OrderCreate
begin

text \<open>
  The token of a customer (CreateToken of internal/service/token.go): the settings of a future order are
  checked by the steps that create an order, the customer is stored, and user and settings are kept under a
  random token.
\<close>

section \<open>Errors\<close>

definition quoted :: "string \<Rightarrow> string" where "quoted t = [CHR 0x22] @ t @ [CHR 0x22]"

definition tokenErrorUserIdentityRequired :: go_err where
  "tokenErrorUserIdentityRequired =
     ResponseErrorMessage ''tk000004'' ''request must contain one or more parameters with user information''"
definition tokenErrorSettingsTypeRequired :: go_err where
  "tokenErrorSettingsTypeRequired = ResponseErrorMessage ''tk000005'' ''field settings.type is required''"
definition tokenErrorSettingsSimpleCheckoutParamsRequired :: go_err where
  "tokenErrorSettingsSimpleCheckoutParamsRequired = ResponseErrorMessage ''tk000006''
     (''fields settings.amount and settings.currency is required for creating payment token with type '' @ quoted ''simple'')"
definition tokenErrorSettingsProductAndKeyProductIdsParamsRequired :: go_err where
  "tokenErrorSettingsProductAndKeyProductIdsParamsRequired = ResponseErrorMessage ''tk000007''
     (''field settings.product_ids is required for creating payment token with type '' @ quoted ''product'' @ '' or '' @ quoted ''key'')"
definition tokenErrorSettingsAmountAndCurrencyParamNotAllowedForType :: go_err where
  "tokenErrorSettingsAmountAndCurrencyParamNotAllowedForType = ResponseErrorMessage ''tk000008''
     (''fields settings.amount and settings.currency not allowed for creating payment token with types '' @
       quoted ''product'' @ '' or '' @ quoted ''key'')"
definition tokenErrorSettingsProductIdsParamNotAllowedForType :: go_err where
  "tokenErrorSettingsProductIdsParamNotAllowedForType = ResponseErrorMessage ''tk000009''
     (''fields settings.product_ids not allowed for creating payment token with type '' @ quoted ''simple'')"

section \<open>The settings\<close>

definition identity_exists :: "token_user \<Rightarrow> bool" where
  "identity_exists user \<longleftrightarrow> tu_Id user \<noteq> [] \<or>
     (case tu_Email user of None \<Rightarrow> False | Some (v, _) \<Rightarrow> v \<noteq> []) \<or>
     (case tu_Phone user of None \<Rightarrow> False | Some (v, _) \<Rightarrow> v \<noteq> [])"

text \<open>The request that the steps see: the recurring settings of the token are not among its fields.\<close>

definition no_request :: order_request where
  "no_request = \<lparr>oreq_Token = [], oreq_ProjectId = [], oreq_Signature = [], oreq_Amount = 0, oreq_Currency = [], oreq_Type = [],
     oreq_Products = None, oreq_User = None, oreq_Cookie = [], oreq_PaymentMethod = [], oreq_RecurringPeriod = [],
     oreq_RecurringDateEnd = [], oreq_Metadata = None, oreq_PrivateMetadata = None, oreq_UrlVerify = [],
     oreq_UrlNotify = [], oreq_UrlSuccess = [], oreq_UrlFail = [], oreq_IsJson = False, oreq_RawParams = None,
     oreq_RawBody = [], oreq_IssuerUrl = [], oreq_IsEmbedded = False, oreq_IssuerReferenceType = [],
     oreq_IssuerReference = [], oreq_UtmSource = [], oreq_UtmCampaign = [], oreq_UtmMedium = [], oreq_PlatformId = [],
     oreq_Account = [], oreq_Description = [], oreq_FormMode = [], oreq_ButtonCaption = []\<rparr>"

definition token_request_of :: "token_settings \<Rightarrow> order_request" where
  "token_request_of st = no_request\<lparr>oreq_ProjectId := tset_ProjectId st, oreq_Amount := tset_Amount st,
     oreq_Currency := tset_Currency st, oreq_Products := (if tset_ProductsIds st = [] then None else Some (tset_ProductsIds st)),
     oreq_PlatformId := tset_PlatformId st\<rparr>"

text \<open>An error that is not a message of the service fails the type assertion.\<close>

definition asserting :: "'a io \<Rightarrow> 'a io" where
  "asserting m = bind (try_go m) (\<lambda>r. case r of Inl e \<Rightarrow> throw (if is_message e then e else go_panic) | Inr a \<Rightarrow> ret a)"

definition or_unknown :: "'a io \<Rightarrow> 'a io" where
  "or_unknown m = bind (try_go m) (\<lambda>r. case r of Inl e \<Rightarrow> throw (if is_message e then e else tokenErrorUnknown) | Inr a \<Rightarrow> ret a)"

definition product_settings :: "token_settings \<Rightarrow> go_err option" where
  "product_settings st =
     (if tset_Type st = OrderType_product \<or> tset_Type st = OrderType_key then
        (if flt 0 (tset_Amount st) \<or> tset_Currency st \<noteq> [] then Some tokenErrorSettingsAmountAndCurrencyParamNotAllowedForType
         else if tset_ProductsIds st = [] then Some tokenErrorSettingsProductAndKeyProductIdsParamsRequired else None)
      else None)"

definition locate_token :: "ext \<Rightarrow> token_user \<Rightarrow> order_checked \<Rightarrow> order_checked io" where
  "locate_token X user chk =
     (let located = (\<lambda>a. chk\<lparr>chk_user := map_option (\<lambda>u. u\<lparr>ou_Address := a\<rparr>) (chk_user chk)\<rparr>) in
      if (case tu_Address user of None \<Rightarrow> False | Some a \<Rightarrow> ad_Country a \<noteq> []) then ret (located (tu_Address user))
      else case tu_Ip user of None \<Rightarrow> ret chk
      | Some ip \<Rightarrow> bind (getAddressByIp X ip) (\<lambda>a. ret (located (Some a))))"

definition token_type :: "ext \<Rightarrow> token_settings \<Rightarrow> order_request \<Rightarrow> order_checked \<Rightarrow> unit io" where
  "token_type X st req chk =
     (if tset_Type st = OrderType_simple then
        (if tset_ProductsIds st \<noteq> [] then throw tokenErrorSettingsProductIdsParamNotAllowedForType
         else if fle (tset_Amount st) 0 \<or> tset_Currency st = [] then throw tokenErrorSettingsSimpleCheckoutParamsRequired
         else asserting (processLimitAmounts X (chk\<lparr>chk_amount := oreq_Amount req\<rparr>)))
      else if tset_Type st = OrderType_product then
        or_unknown (bind (processPaylinkProducts X req chk) (\<lambda>_. ret ()))
      else if tset_Type st = OrderType_key then
        or_unknown (bind (processPaylinkKeyProducts X req chk) (\<lambda>_. ret ()))
      else if tset_Type st = OrderTypeVirtualCurrency then
        asserting (bind (processVirtualCurrency X req chk) (\<lambda>_. ret ()))
      else throw tokenErrorSettingsTypeRequired)"

text \<open>Only that the customer is unknown lets a new one be created; here every other error is answered.\<close>

definition token_customer :: "ext \<Rightarrow> token_user \<Rightarrow> project \<Rightarrow> (token_user \<times> customer) io" where
  "token_customer X user project =
     bind (try_go (findCustomer X user (project_MerchantId project))) (\<lambda>r. case r of
       Inl e \<Rightarrow> if e \<noteq> customerNotFound then throw e
         else createCustomer X user (project_MerchantId project) (project_Id project)
     | Inr c \<Rightarrow> updateCustomer X user (project_MerchantId project) (project_Id project) c)"

definition create_token :: "ext \<Rightarrow> token_user \<Rightarrow> token_settings \<Rightarrow> string io" where
  "create_token X user st =
     (let req = token_request_of st in
     bind (asserting (processProject X req (no_checked\<lparr>chk_user := Some no_user\<rparr>))) (\<lambda>chk.
     bind (asserting (processMerchant X chk)) (\<lambda>_.
     bind (case product_settings st of None \<Rightarrow> ret () | Some e \<Rightarrow> throw e) (\<lambda>_.
     bind (locate_token X user chk) (\<lambda>chk.
     bind (asserting (processCurrency X req (tset_Type st) chk)) (\<lambda>chk.
     bind (token_type X st req chk) (\<lambda>_.
     bind (deref (chk_project chk)) (\<lambda>project.
     bind (token_customer X user project) (\<lambda>(user, customer).
     bind (if tset_RecurringPeriod st \<noteq> [] then processRecurringSettings X req chk else ret chk) (\<lambda>_.
     createToken X user st customer))))))))))"

definition CreateToken :: "ext \<Rightarrow> token_user \<Rightarrow> token_settings \<Rightarrow> string response io" where
  "CreateToken X user st =
     (if \<not> identity_exists user then ret (rsp_error ResponseStatusBadData tokenErrorUserIdentityRequired)
      else answering ResponseStatusBadData (create_token X user st) (\<lambda>token. ret (rsp_ok token)))"

end
