(* ===== verification/PaymentForm.thy ===== *)
theory PaymentForm
  imports Tokens
begin

text \<open>
  The payment form (internal/service/order.go): the data it is opened with and the changes of language,
  platform, account and billing address that the customer makes in it. Each of them prices the order anew and
  stores it.
\<close>

section \<open>Errors and helpers\<close>

definition orderErrorPaymentMethodNotAllowed :: go_err where
  "orderErrorPaymentMethodNotAllowed = ResponseErrorMessage ''fm000005'' ''payment Method not available for project''"
definition orderErrorCountryByPaymentAccountNotFound :: go_err where
  "orderErrorCountryByPaymentAccountNotFound =
     ResponseErrorMessage ''fm000029'' ''information about user country can't be found''"
definition orderErrorPaymentAccountIncorrect :: go_err where
  "orderErrorPaymentAccountIncorrect = ResponseErrorMessage ''fm000030'' ''account in payment system is incorrect''"
definition orderCountryPaymentRestricted :: go_err where
  "orderCountryPaymentRestricted = ResponseErrorMessage ''fm000063'' ''payments from your country are not allowed''"
definition orderErrorCostsRatesNotFound :: go_err where
  "orderErrorCostsRatesNotFound =
     ResponseErrorMessage ''fm000064'' ''settings to calculate commissions for order not found''"
definition orderErrorDontHaveReceiptUrl :: go_err where
  "orderErrorDontHaveReceiptUrl = ResponseErrorMessage ''fm000076'' ''processed order don't have receipt url''"
definition orderCountryChangeRestrictedError :: go_err where
  "orderCountryChangeRestrictedError = ResponseErrorMessage ''fm000078'' ''change country is not allowed''"

text \<open>
  A step of a handler: a message of the service is answered with the status and what the answer holds by
  then, any other error is returned.
\<close>

definition rsp_failed :: "rsp_status \<Rightarrow> go_err \<Rightarrow> 'b option \<Rightarrow> 'b response" where
  "rsp_failed st e item = \<lparr>rspStatus = st, rspMessage = Some e, rspItem = item\<rparr>"

definition step_or :: "rsp_status \<Rightarrow> 'b option \<Rightarrow> 'a io \<Rightarrow> ('a \<Rightarrow> 'b response io) \<Rightarrow> 'b response io" where
  "step_or st item m k = bind (try_go m) (\<lambda>r. case r of
     Inl e \<Rightarrow> if is_message e then ret (rsp_failed st e item) else throw e
   | Inr a \<Rightarrow> k a)"

text \<open>Storing the order, with what its update makes of it.\<close>

definition store_order :: "ext \<Rightarrow> order \<Rightarrow> order io" where
  "store_order X ordr = bind (updateOrder X ordr) (\<lambda>(ordr, err). case err of None \<Rightarrow> ret ordr | Some e \<Rightarrow> throw e)"

text \<open>A problem with the products is told to the owner of the paylink.\<close>

definition pricing :: "ext \<Rightarrow> order \<Rightarrow> 'a io \<Rightarrow> 'a io" where
  "pricing X ordr m = bind (try_go m) (\<lambda>r. case r of
     Inl e \<Rightarrow> bind (notify_paylink X (oco_PrivateMetadata (order_Carried ordr)) e) (\<lambda>_. throw e)
   | Inr a \<Rightarrow> ret a)"

text \<open>
  Orders without products are not priced anew; the error that is looked at then is the last one of the handler,
  if it has left one.
\<close>

definition left_over :: "go_err option \<Rightarrow> 'a \<Rightarrow> 'a io" where
  "left_over left a = (case left of None \<Rightarrow> ret a | Some e \<Rightarrow> throw e)"

definition price_products :: "ext \<Rightarrow> go_err option \<Rightarrow> order \<Rightarrow> order io" where
  "price_products X left ordr = pricing X ordr
     (if order_ProductType ordr = OrderType_product then ProcessOrderProducts X ordr
      else if order_ProductType ordr = OrderType_key then bind (ProcessOrderKeyProducts X ordr) (\<lambda>(ordr, _). ret ordr)
      else left_over left ordr)"

definition price_order :: "ext \<Rightarrow> order \<Rightarrow> (order \<times> platform option list) io" where
  "price_order X ordr = pricing X ordr
     (if order_ProductType ordr = OrderType_product then bind (ProcessOrderProducts X ordr) (\<lambda>ordr. ret (ordr, []))
      else if order_ProductType ordr = OrderType_key then ProcessOrderKeyProducts X ordr
      else if order_ProductType ordr = OrderTypeVirtualCurrency
        then bind (ProcessOrderVirtualCurrency X ordr) (\<lambda>ordr. ret (ordr, []))
      else ret (ordr, []))"

text \<open>Whether the payment could be accounted for: the tariffs of the system and of the merchant are there.\<close>

definition hasPaymentCosts :: "ext \<Rightarrow> order \<Rightarrow> bool io" where
  "hasPaymentCosts X ordr = bind (try_go (
     bind (country_GetByIsoCodeA2 X (x_order_country X ordr)) (\<lambda>country.
     bind (lift (x_order_cost_method_name X ordr)) (\<lambda>methodName.
     bind (pccsrepo_Find X methodName (country_PayerTariffRegion country) (country_IsoCodeA2 country) (order_MccCode ordr)
       (order_OperatingCompanyId ordr)) (\<lambda>_.
     getPaymentChannelCostMerchant X (x_order_merchant_id X ordr) methodName (x_order_royalty_currency X ordr)
       (order_ChargeAmount ordr) (country_PayerTariffRegion country) (country_IsoCodeA2 country) (order_MccCode ordr))))))
     (\<lambda>r. ret (case r of Inl _ \<Rightarrow> False | Inr _ \<Rightarrow> True))"

section \<open>Numbers in strings\<close>

text \<open>\<open>strconv.Atoi\<close>: a number out of the range of 64 bits is the nearest one in it, what is no number is 0.\<close>

definition is_digit :: "char \<Rightarrow> bool" where
  "is_digit c \<longleftrightarrow> (let n = (of_char c :: nat) in 48 \<le> n \<and> n \<le> 57)"

definition digit_value :: "char \<Rightarrow> int" where
  "digit_value c = (if is_digit c then int (of_char c) - 48 else 0)"

definition digits_value :: "string \<Rightarrow> int" where
  "digits_value = foldl (\<lambda>v c. v * 10 + digit_value c) 0"

definition parse_int :: "string \<Rightarrow> int option" where
  "parse_int s = (let (neg, ds) = (case s of [] \<Rightarrow> (False, [])
       | c # cs \<Rightarrow> if c = CHR ''-'' then (True, cs) else if c = CHR ''+'' then (False, cs) else (False, s)) in
     if ds = [] \<or> \<not> list_all is_digit ds then None
     else Some (if neg then - digits_value ds else digits_value ds))"

definition go_atoi :: "string \<Rightarrow> int" where
  "go_atoi s = (case parse_int s of None \<Rightarrow> 0 | Some v \<Rightarrow> max (- (2 ^ 63)) (min (2 ^ 63 - 1) v))"

definition bin_GetByBin :: "ext \<Rightarrow> int \<Rightarrow> bin_data io" where
  "bin_GetByBin X i = find_one X w_bins (\<lambda>b. bin_CardBin b = i)"

definition getBinData :: "ext \<Rightarrow> string \<Rightarrow> bin_data option io" where
  "getBinData X pan =
     (if length pan < 6 then ret None
      else case parse_int (take 6 pan) of None \<Rightarrow> ret None
      | Some i \<Rightarrow> bind (try_go (bin_GetByBin X i)) (\<lambda>r. ret (case r of Inl _ \<Rightarrow> None | Inr b \<Rightarrow> Some b)))"

section \<open>The payment methods of the form\<close>

definition processPaymentMethodsData :: "ext \<Rightarrow> order \<Rightarrow> form_method \<Rightarrow> form_method io" where
  "processPaymentMethodsData X ordr fm =
     (if \<not> x_form_method_is_bank_card X fm then ret (fm\<lparr>fm_HasSavedCards := False\<rparr>)
      else
      bind (deref (order_User ordr)) (\<lambda>u.
      bind (try_go (rpc (\<lambda>n. x_saved_cards X n (ou_Id u)))) (\<lambda>r. ret (case r of
          Inl _ \<Rightarrow> fm\<lparr>fm_HasSavedCards := False\<rparr>
        | Inr cards \<Rightarrow> fm\<lparr>fm_HasSavedCards := cards \<noteq> [], fm_SavedCards := cards\<rparr>))))"

text \<open>A method that is not active, whose limits the amount does not meet or that has no settings is left out.\<close>

definition form_method_of :: "ext \<Rightarrow> order \<Rightarrow> payment_method \<Rightarrow> form_method io" where
  "form_method_of X ordr pm =
     bind (paymentsystem_GetById X (pm_PaymentSystemId pm)) (\<lambda>ps.
     if \<not> psys_IsActive ps \<or> \<not> x_method_has_limits X pm then throw orderErrorPaymentMethodNotAllowed
     else
     bind (ExchangeAmountToPaymentMethodLimitsCurrency X (order_OrderAmount ordr) (order_Currency ordr) (pm_LimitsCurrency pm)) (\<lambda>amount.
     bind (lift (within_method_limits pm amount)) (\<lambda>_.
     bind (lift (getPaymentSettings X pm (order_Currency ordr) (order_MccCode ordr) (order_OperatingCompanyId ordr) []
       (order_IsProduction ordr))) (\<lambda>_.
     processPaymentMethodsData X ordr \<lparr>fm_Id = pm_Id pm, fm_Name = pm_Name pm, fm_Type = pm_Type pm, fm_Group = pm_Group pm,
       fm_AccountRegexp = pm_AccountRegexp pm, fm_HasSavedCards = False, fm_SavedCards = []\<rparr>))))"

definition processRenderFormPaymentMethods :: "ext \<Rightarrow> order \<Rightarrow> form_method list io" where
  "processRenderFormPaymentMethods X ordr =
     bind (replace_err orderErrorUnknown (methodrepo_ListByOrder X ordr)) (\<lambda>pms.
     bind (fold_go (\<lambda>acc pm. if \<not> pm_IsActive pm then ret acc
       else bind (try_go (form_method_of X ordr pm)) (\<lambda>r. ret (case r of Inl _ \<Rightarrow> acc | Inr fm \<Rightarrow> acc @ [fm]))) [] pms) (\<lambda>fms.
     if fms = [] then throw orderErrorPaymentMethodNotAllowed else ret fms))"

section \<open>Who opens the form\<close>

text \<open>
  The customer is returned also when storing what the request says of it fails; the cookie has its id by then.
\<close>

definition processCustomerData ::
  "ext \<Rightarrow> string \<Rightarrow> order \<Rightarrow> form_request \<Rightarrow> browser_customer \<Rightarrow> string \<Rightarrow> (customer option \<times> browser_customer) io" where
  "processCustomerData X customerId ordr req bc locale =
     bind (try_go (getCustomerById X customerId)) (\<lambda>r. case r of
       Inl _ \<Rightarrow> ret (None, bc)
     | Inr c \<Rightarrow>
       let user = no_token_user\<lparr>tu_Ip := Some (freq_Ip req), tu_Locale := Some locale,
             tu_AcceptLanguage := freq_Locale req, tu_UserAgent := freq_UserAgent req\<rparr>;
           bc = bc\<lparr>bc_CustomerId := cust_Id c\<rparr> in
       bind (try_go (processCustomer X user (order_ProjectMerchantId ordr) (order_ProjectId ordr) c)) (\<lambda>r. case r of
         Inl _ \<Rightarrow> ret (Some c, bc)
       | Inr (_, c) \<Rightarrow> bind (try_go (customerrepo_Update X c)) (\<lambda>_. ret (Some c, bc))))"

definition cookieCounterUpdateTime :: int where "cookieCounterUpdateTime = 1800"

definition new_virtual :: "ext \<Rightarrow> browser_customer \<Rightarrow> browser_customer io" where
  "new_virtual X bc = bind (reading (x_token_string X)) (\<lambda>t. ret (bc\<lparr>bc_VirtualCustomerId := t\<rparr>))"

definition known_customer :: "customer \<Rightarrow> order_user \<Rightarrow> order_user" where
  "known_customer c u = u\<lparr>ou_Id := cust_Id c, ou_TechEmail := cust_TechEmail c, ou_Uuid := cust_Uuid c\<rparr>"

text \<open>A customer who is not known yet: the one of the cookie, or a virtual one.\<close>

definition cookie_customer ::
  "ext \<Rightarrow> order \<Rightarrow> form_request \<Rightarrow> browser_customer \<Rightarrow> browser_customer \<Rightarrow> string \<Rightarrow> order_user \<Rightarrow>
    (order_user \<times> browser_customer \<times> customer option) io" where
  "cookie_customer X ordr req bc decrypted loc u =
     bind (time_now X) (\<lambda>now.
     let decrypted = (if unix now - unix (bc_UpdatedAt decrypted) \<le> cookieCounterUpdateTime
           then decrypted\<lparr>bc_SessionCount := int32 (bc_SessionCount decrypted + 1)\<rparr> else decrypted) in
     bind (if bc_CustomerId decrypted \<noteq> [] then
         bind (processCustomerData X (bc_CustomerId decrypted) ordr req decrypted loc) (\<lambda>(found, decrypted). case found of
           Some c \<Rightarrow> ret (known_customer c u, decrypted, Some c)
         | None \<Rightarrow> bind (new_virtual X bc) (\<lambda>bc. ret (u, bc, None)))
       else if bc_VirtualCustomerId decrypted = [] then bind (new_virtual X bc) (\<lambda>bc. ret (u, bc, None))
       else ret (u, bc\<lparr>bc_VirtualCustomerId := bc_VirtualCustomerId decrypted\<rparr>, None)) (\<lambda>(u, bc, c).
     ret (restored_address decrypted u, bc, c)))"

definition anonymous_user :: "browser_customer \<Rightarrow> order_user \<Rightarrow> order_user" where
  "anonymous_user bc u =
     (let u = (if ou_Id u = [] then u\<lparr>ou_Id := bc_VirtualCustomerId bc\<rparr> else u) in
      if ou_TechEmail u = [] then u\<lparr>ou_TechEmail := ou_Id u @ TechEmailDomain\<rparr> else u)"

definition identify_user ::
  "ext \<Rightarrow> order \<Rightarrow> form_request \<Rightarrow> string \<Rightarrow> order_user \<Rightarrow> (order_user \<times> browser_customer \<times> customer option) io" where
  "identify_user X ordr req loc u =
     bind (time_now X) (\<lambda>createdAt.
     bind (time_now X) (\<lambda>updatedAt.
     let bc = \<lparr>bc_CustomerId = [], bc_VirtualCustomerId = [], bc_Ip = freq_Ip req, bc_IpCountry = [], bc_SelectedCountry = [],
           bc_UserAgent = freq_UserAgent req, bc_AcceptLanguage = freq_Locale req, bc_SessionCount = 0,
           bc_CreatedAt = createdAt, bc_UpdatedAt = updatedAt\<rparr> in
     if (case x_oid_from_hex X (ou_Id u) of Inl _ \<Rightarrow> False | Inr _ \<Rightarrow> True) then
       bind (processCustomerData X (ou_Id u) ordr req bc loc) (\<lambda>(c, bc). ret (u, bc, c))
     else
       bind (if freq_Cookie req = [] then bind (new_virtual X bc) (\<lambda>bc. ret (u, bc, None))
         else bind (try_go (decryptBrowserCookie X (freq_Cookie req))) (\<lambda>r. case r of
             Inl _ \<Rightarrow> bind (new_virtual X bc) (\<lambda>bc. ret (u, bc, None))
           | Inr decrypted \<Rightarrow> cookie_customer X ordr req bc decrypted loc u)) (\<lambda>(u, bc, c).
       ret (anonymous_user bc u, bc, c))))"

section \<open>The data of the form\<close>

record form_project =
  fpr_Id :: string
  fpr_Name :: string
  fpr_UrlSuccess :: string
  fpr_UrlFail :: string
  fpr_RedirectSettings :: "redirect_settings option"
  fpr_FormDefaultText :: string

record form_data =
  fd_Id :: string
  fd_Type :: string
  fd_Account :: string
  fd_Description :: string
  fd_HasVat :: bool
  fd_Vat :: float64
  fd_VatInChargeCurrency :: float64
  fd_VatRate :: float64
  fd_Currency :: string
  fd_Project :: "form_project option"
  fd_Token :: string
  fd_Amount :: float64
  fd_TotalAmount :: float64
  fd_ChargeCurrency :: string
  fd_ChargeAmount :: float64
  fd_Items :: "order_item list"
  fd_Email :: string
  fd_UserAddressDataRequired :: bool
  fd_CountryPaymentsAllowed :: bool
  fd_CountryChangeAllowed :: bool
  fd_UserIpData :: "(string \<times> string \<times> string) option" \<comment> \<open>country, city and zip code\<close>
  fd_Lang :: string
  fd_VatPayer :: string
  fd_IsProduction :: bool
  fd_RecurringSettings :: "recurring_settings option"
  fd_RecurringManagementUrl :: string
  fd_IsAlreadyProcessed :: bool
  fd_ReceiptUrl :: string
  fd_Platforms :: "platform option list"
  fd_PaymentMethods :: "form_method list"

definition no_form_data :: form_data where
  "no_form_data = \<lparr>fd_Id = [], fd_Type = [], fd_Account = [], fd_Description = [], fd_HasVat = False, fd_Vat = 0,
     fd_VatInChargeCurrency = 0, fd_VatRate = 0, fd_Currency = [], fd_Project = None, fd_Token = [], fd_Amount = 0,
     fd_TotalAmount = 0, fd_ChargeCurrency = [], fd_ChargeAmount = 0, fd_Items = [], fd_Email = [],
     fd_UserAddressDataRequired = False, fd_CountryPaymentsAllowed = False, fd_CountryChangeAllowed = False,
     fd_UserIpData = None, fd_Lang = [], fd_VatPayer = [], fd_IsProduction = False, fd_RecurringSettings = None,
     fd_RecurringManagementUrl = [], fd_IsAlreadyProcessed = False, fd_ReceiptUrl = [], fd_Platforms = [],
     fd_PaymentMethods = []\<rparr>"

text \<open>A text in the language, or in the default one, or none.\<close>

definition form_text :: "(string \<times> string) list \<Rightarrow> string \<Rightarrow> string" where
  "form_text texts language = (case map_of texts language of Some t \<Rightarrow> t
     | None \<Rightarrow> (case map_of texts DefaultLanguage of Some t \<Rightarrow> t | None \<Rightarrow> []))"

definition fillPaymentFormJsonData :: "ext \<Rightarrow> order \<Rightarrow> form_data \<Rightarrow> form_data io" where
  "fillPaymentFormJsonData X ordr fd =
     bind (deref (order_User ordr)) (\<lambda>u.
     bind (time_now X) (\<lambda>now.
     bind (deref (ou_Address u)) (\<lambda>a.
     let language = takeWhile (\<lambda>c. c \<noteq> CHR ''-'') (ou_Locale u); carried = order_Carried ordr; pc = order_ProjectCarried ordr in
     ret (fd\<lparr>fd_Id := order_Uuid ordr, fd_Account := ou_ExternalId u, fd_Description := oco_Description carried,
       fd_HasVat := flt 0 (order_TaxAmount ordr), fd_Vat := order_TaxAmount ordr, fd_Currency := order_Currency ordr,
       fd_Project := Some \<lparr>fpr_Id = order_ProjectId ordr, fpr_Name = form_text (order_ProjectName ordr) language,
         fpr_UrlSuccess = pco_UrlSuccess pc, fpr_UrlFail = pco_UrlFail pc, fpr_RedirectSettings = pco_RedirectSettings pc,
         fpr_FormDefaultText = form_text (pco_FormDefaultText pc) language\<rparr>,
       fd_Token := x_channel_token X (order_Uuid ordr) (unix (now + 30 * 60 * second)),
       fd_Amount := order_OrderAmount ordr, fd_TotalAmount := order_TotalPaymentAmount ordr,
       fd_ChargeCurrency := order_ChargeCurrency ordr, fd_ChargeAmount := order_ChargeAmount ordr,
       fd_Items := order_Items ordr, fd_Email := ou_Email u, fd_UserAddressDataRequired := oco_UserAddressDataRequired carried,
       fd_CountryPaymentsAllowed := (case oco_CountryRestriction carried of None \<Rightarrow> True | Some r \<Rightarrow> cr_PaymentsAllowed r),
       fd_CountryChangeAllowed := (case oco_CountryRestriction carried of None \<Rightarrow> True | Some r \<Rightarrow> cr_ChangeAllowed r),
       fd_UserIpData := Some (ad_Country a, ad_City a, ad_PostalCode a), fd_Lang := ou_Locale u,
       fd_VatPayer := order_VatPayer ordr, fd_IsProduction := order_IsProduction ordr,
       fd_RecurringSettings := (case oco_RecurringSettings carried of None \<Rightarrow> fd_RecurringSettings fd | Some s \<Rightarrow> Some s)\<rparr>))))"

definition form_address :: "ext \<Rightarrow> form_request \<Rightarrow> order_user \<Rightarrow> order_user io" where
  "form_address X req u =
     (if \<not> x_user_has_address X u \<and> freq_Ip req \<noteq> [] then
        bind (getAddressByIp X (freq_Ip req)) (\<lambda>a. ret (u\<lparr>ou_Ip := freq_Ip req, ou_Address := Some a\<rparr>))
      else ret u)"

text \<open>
  The page of the subscriptions of a customer who has some. The client answers a call that failed with a nil
  response, whose list is read all the same.
\<close>

definition recurring_management_url :: "ext \<Rightarrow> order \<Rightarrow> customer option \<Rightarrow> string io" where
  "recurring_management_url X ordr customer =
     (if (case order_PaymentMethod ordr of None \<Rightarrow> False | Some m \<Rightarrow> opm_RecurringAllowed m) \<and>
         (case customer of None \<Rightarrow> False | Some c \<Rightarrow> cust_Id c \<noteq> []) then
        bind (try_go (rpc (\<lambda>n. x_find_subscriptions X n [] (cust_Id (the customer))))) (\<lambda>r. case r of
          Inl _ \<Rightarrow> throw go_panic
        | Inr n \<Rightarrow> ret (if 0 < n then x_checkout_url X @ ''/subscriptions'' else []))
      else ret [])"

definition form_issuer :: "ext \<Rightarrow> form_request \<Rightarrow> order \<Rightarrow> order" where
  "form_issuer X req ordr =
     (let carried = order_Carried ordr;
          i = (case oco_Issuer carried of Some i \<Rightarrow> i | None \<Rightarrow> \<lparr>iss_Url = [], iss_Embedded = freq_IsEmbedded req,
                 iss_UtmSource = [], iss_UtmCampaign = [], iss_UtmMedium = [], iss_ReferrerHost = []\<rparr>);
          or_else = (\<lambda>a b. if a = [] then b else a);
          url = or_else (iss_Url i) (freq_Referer req)
      in ordr\<lparr>order_IssuerReferenceType := or_else (order_IssuerReferenceType ordr) (freq_IssuerReferenceType req),
        order_IssuerReference := or_else (order_IssuerReference ordr) (freq_IssuerReference req),
        order_Carried := carried\<lparr>oco_Issuer := Some (i\<lparr>iss_Url := url,
          iss_UtmSource := or_else (iss_UtmSource i) (freq_UtmSource req),
          iss_UtmCampaign := or_else (iss_UtmCampaign i) (freq_UtmCampaign req),
          iss_UtmMedium := or_else (iss_UtmMedium i) (freq_UtmMedium req),
          iss_ReferrerHost := getHostFromUrl X url\<rparr>)\<rparr>\<rparr>)"

text \<open>The last part: the order is taxed and stored, and what it can be paid with is listed.\<close>

definition render_form ::
  "ext \<Rightarrow> form_request \<Rightarrow> browser_customer \<Rightarrow> order \<Rightarrow> form_data \<Rightarrow> (form_data response \<times> string) io" where
  "render_form X req bc ordr fd =
     bind (step_or ResponseStatusSystemError (Some fd) (processOrderVat X (form_issuer X req ordr)) (\<lambda>ordr.
     step_or ResponseStatusSystemError (Some fd) (store_order X ordr) (\<lambda>ordr.
     bind (try_go (processRenderFormPaymentMethods X ordr)) (\<lambda>r. case r of
       Inl e \<Rightarrow> if is_message e then ret (rsp_failed (if e = orderErrorPaymentMethodNotAllowed
           then ResponseStatusNotFound else ResponseStatusSystemError) e (Some fd)) else throw e
     | Inr pms \<Rightarrow> bind (fillPaymentFormJsonData X ordr fd) (\<lambda>fd. ret (rsp_ok (fd\<lparr>fd_PaymentMethods := pms,
         fd_VatInChargeCurrency := x_format_amount X (x_order_tax_in_charge_currency X ordr),
         fd_VatRate := x_to_precise X (order_TaxRate ordr)\<rparr>)))))))
     (\<lambda>rsp. if rspStatus rsp \<noteq> ResponseStatusOk then ret (rsp, [])
       else bind (try_go (generateBrowserCookie X bc)) (\<lambda>r. ret (rsp, case r of Inl _ \<Rightarrow> [] | Inr cookie \<Rightarrow> cookie)))"

definition with_user :: "order \<Rightarrow> order_user \<Rightarrow> order" where
  "with_user ordr u = ordr\<lparr>order_User := Some u\<rparr>"

definition form_locale :: "string \<Rightarrow> order_user \<Rightarrow> order_user" where
  "form_locale loc u = (if ou_Locale u = [] \<and> loc \<noteq> [] then u\<lparr>ou_Locale := loc\<rparr> else u)"

text \<open>An open order: who opens the form, whether payments are allowed there, and what the order costs then.\<close>

definition open_form :: "ext \<Rightarrow> form_request \<Rightarrow> order \<Rightarrow> form_data \<Rightarrow> (form_data response \<times> string) io" where
  "open_form X req ordr fd =
     bind (deref (order_User ordr)) (\<lambda>u.
     bind (try_go (form_address X req u)) (\<lambda>r. case r of
       Inl e \<Rightarrow> if is_message e then ret (rsp_failed ResponseStatusSystemError e (Some fd), []) else throw e
     | Inr u \<Rightarrow>
       let loc = fst (getCountryFromAcceptLanguage (freq_Locale req)) in
       bind (identify_user X (with_user ordr u) req loc u) (\<lambda>(u, bc, customer).
       bind (recurring_management_url X ordr customer) (\<lambda>url.
       let fd = fd\<lparr>fd_RecurringManagementUrl := url\<rparr>; ordr = with_user ordr (form_locale loc u) in
       bind (try_go (applyCountryRestriction X ordr (x_order_country X ordr))) (\<lambda>r. case r of
         Inl e \<Rightarrow> if is_message e then ret (rsp_failed ResponseStatusSystemError e (Some fd), []) else throw e
       | Inr (ordr, restricted) \<Rightarrow>
         if restricted then ret (rsp_failed ResponseStatusForbidden orderCountryPaymentRestricted
           (Some (fd\<lparr>fd_Id := order_Uuid ordr\<rparr>)), [])
         else bind (try_go (price_order X ordr)) (\<lambda>r. case r of
           Inl e \<Rightarrow> if is_message e then ret (rsp_failed ResponseStatusSystemError e (Some fd), []) else throw e
         | Inr (ordr, platforms) \<Rightarrow> render_form X req bc ordr (fd\<lparr>fd_Platforms := platforms\<rparr>)))))))"

definition PaymentFormJsonDataProcess :: "ext \<Rightarrow> form_request \<Rightarrow> (form_data response \<times> string) io" where
  "PaymentFormJsonDataProcess X req =
     bind (try_go (getOrderByUuidToForm X (freq_OrderId req))) (\<lambda>r. case r of
       Inl e \<Rightarrow> if is_message e then ret (rsp_failed ResponseStatusBadData e (Some no_form_data), []) else throw e
     | Inr ordr \<Rightarrow>
       let fd = no_form_data\<lparr>fd_Type := order_ProductType ordr\<rparr> in
       if x_order_declined_by_country X ordr
       then ret (rsp_failed ResponseStatusBadData orderCountryPaymentRestrictedError (Some fd), [])
       else if order_PrivateStatus ordr \<noteq> OrderStatusNew \<and> order_PrivateStatus ordr \<noteq> OrderStatusPaymentSystemComplete then
         (if order_ReceiptUrl ordr = [] then ret (rsp_failed ResponseStatusBadData orderErrorDontHaveReceiptUrl (Some fd), [])
          else bind (fillPaymentFormJsonData X ordr fd) (\<lambda>fd.
            ret (rsp_ok (fd\<lparr>fd_IsAlreadyProcessed := True, fd_ReceiptUrl := order_ReceiptUrl ordr\<rparr>), [])))
       else open_form X req ordr fd)"

section \<open>Changes of the form\<close>

definition PaymentFormLanguageChanged ::
  "ext \<Rightarrow> string \<Rightarrow> string \<Rightarrow> string \<Rightarrow> string \<Rightarrow> string \<Rightarrow> opaque response io" where
  "PaymentFormLanguageChanged X orderId lang ip acceptLanguage userAgent =
     step_or ResponseStatusBadData None (getOrderByUuidToForm X orderId) (\<lambda>ordr.
     let before = x_form_data_change X ordr in
     bind (deref (order_User ordr)) (\<lambda>u.
     if ou_Locale u = lang then ret (rsp_ok before)
     else
     bind (if (case x_oid_from_hex X (ou_Id u) of Inl _ \<Rightarrow> False | Inr _ \<Rightarrow> True)
       then updateCustomerFromRequestLocale X ordr ip acceptLanguage userAgent lang else ret ()) (\<lambda>_.
     step_or ResponseStatusBadData (Some before) (price_products X None (with_user ordr (u\<lparr>ou_Locale := lang\<rparr>))) (\<lambda>ordr.
     step_or ResponseStatusSystemError (Some before) (store_order X ordr) (\<lambda>ordr.
     ret (rsp_ok (x_form_data_change X ordr)))))))"

definition PaymentFormPlatformChanged :: "ext \<Rightarrow> string \<Rightarrow> string \<Rightarrow> opaque response io" where
  "PaymentFormPlatformChanged X orderId platform =
     step_or ResponseStatusBadData None (getOrderByUuidToForm X orderId) (\<lambda>ordr.
     step_or ResponseStatusBadData None (price_products X None (ordr\<lparr>order_PlatformId := platform\<rparr>)) (\<lambda>ordr.
     step_or ResponseStatusSystemError None (processOrderVat X ordr) (\<lambda>ordr.
     step_or ResponseStatusBadData None (setOrderChargeAmountAndCurrency X ordr) (\<lambda>ordr.
     step_or ResponseStatusSystemError None (store_order X ordr) (\<lambda>ordr.
     ret (rsp_ok (x_form_data_change X ordr)))))))"

definition PaymentSystemGroupAliasQiwi :: string where "PaymentSystemGroupAliasQiwi = ''QIWI''"

definition account_regexp :: "payment_method \<Rightarrow> string" where
  "account_regexp pm = (if pm_ExternalId pm = PaymentSystemGroupAliasBankCard
     then ''^'' @ [CHR 0x5C] @ ''d{6}(.*)'' @ [CHR 0x5C] @ ''d{4}$'' else pm_AccountRegexp pm)"

text \<open>The calling codes of the countries that can pay (pkg/constant.go).\<close>

definition CountryPhoneCodes :: "(int \<times> string) list" where
  "CountryPhoneCodes = [(7, ''RU''), (375, ''BY''), (994, ''AZ''), (91, ''IN''), (77, ''KZ''), (380, ''UA''), (44, ''GB''),
     (9955, ''GE''), (370, ''LT''), (992, ''TJ''), (66, ''TH''), (998, ''UZ''), (507, ''PA''), (374, ''AM''), (371, ''LV''),
     (90, ''TR''), (373, ''MD''), (972, ''IL''), (84, ''VN''), (372, ''EE''), (82, ''KR''), (996, ''KG'')]"

definition put_requisite :: "string \<Rightarrow> string \<Rightarrow> string go_map \<Rightarrow> string go_map" where
  "put_requisite k v m = Some (AList.update k v (case m of None \<Rightarrow> [] | Some kvs \<Rightarrow> kvs))"

definition account_country :: "ext \<Rightarrow> payment_method \<Rightarrow> string \<Rightarrow> order \<Rightarrow> order io" where
  "account_country X pm account ordr =
     (if pm_ExternalId pm = PaymentSystemGroupAliasBankCard then
        bind (getBinData X account) (\<lambda>data. case data of None \<Rightarrow> throw orderErrorCountryByPaymentAccountNotFound
          | Some b \<Rightarrow> ret (ordr\<lparr>order_PaymentRequisites :=
              put_requisite PaymentCreateBankCardFieldIssuerCountryIsoCode (bin_BankCountryIsoCode b)
                (put_requisite PaymentCreateBankCardFieldBrand (bin_CardBrand b) (order_PaymentRequisites ordr))\<rparr>))
      else if pm_ExternalId pm = PaymentSystemGroupAliasQiwi then
        (case x_phone_country_code X (''+'' @ account) CountryCodeUSA of
           Inl _ \<Rightarrow> throw orderErrorPaymentAccountIncorrect
         | Inr None \<Rightarrow> throw orderErrorPaymentAccountIncorrect
         | Inr (Some code) \<Rightarrow> if map_of CountryPhoneCodes code = None then throw orderErrorCountryByPaymentAccountNotFound
             else ret ordr)
      else ret ordr)"

definition method_of_payment :: "payment_method \<Rightarrow> payment_system \<Rightarrow> order_payment_method" where
  "method_of_payment pm ps = \<lparr>opm_Id = pm_Id pm, opm_Name = pm_Name pm, opm_ExternalId = pm_ExternalId pm,
     opm_Params = None, opm_PaymentSystemId = psys_Id ps, opm_Group = pm_Group pm, opm_Saved = False,
     opm_Handler = psys_Handler ps, opm_Card = None, opm_Wallet = None, opm_CryptoCurrency = None,
     opm_RefundAllowed = pm_RefundAllowed pm, opm_RecurringAllowed = False\<rparr>"

definition set_params :: "pm_params \<Rightarrow> order \<Rightarrow> order" where
  "set_params params ordr = ordr\<lparr>order_PaymentMethod := map_option (\<lambda>m. m\<lparr>opm_Params := Some params\<rparr>) (order_PaymentMethod ordr)\<rparr>"

text \<open>The charge and the settings of a payment method for the order.\<close>

definition charge_with :: "ext \<Rightarrow> payment_method \<Rightarrow> order_payment_method \<Rightarrow> order \<Rightarrow> order io" where
  "charge_with X pm method ordr =
     bind (setOrderChargeAmountAndCurrency X (ordr\<lparr>order_PaymentMethod := Some method\<rparr>)) (\<lambda>ordr.
     bind (lift (x_order_cost_method_name X ordr)) (\<lambda>methodName.
     bind (lift (getPaymentSettings X pm (order_ChargeCurrency ordr) (order_MccCode ordr) (order_OperatingCompanyId ordr)
       methodName (order_IsProduction ordr))) (\<lambda>params.
     ret (set_params params ordr))))"

definition change_account :: "ext \<Rightarrow> order \<Rightarrow> string \<Rightarrow> string \<Rightarrow> order io" where
  "change_account X ordr methodId account =
     bind (replace_err orderErrorPaymentMethodNotFound (methodrepo_GetById X methodId)) (\<lambda>pm.
     bind (replace_err orderErrorPaymentSystemInactive (paymentsystem_GetById X (pm_PaymentSystemId pm))) (\<lambda>ps.
     if x_regexp_match X (account_regexp pm) account \<noteq> Inr True then throw orderErrorPaymentAccountIncorrect
     else
     bind (account_country X pm account ordr) (\<lambda>ordr.
     bind (charge_with X pm (method_of_payment pm ps) ordr) (\<lambda>ordr.
     bind (hasPaymentCosts X ordr) (\<lambda>found.
     if found then ret ordr else throw orderErrorCostsRatesNotFound)))))"

text \<open>A project that is gone or deleted is an error of the call, not an answer.\<close>

definition PaymentFormPaymentAccountChanged :: "ext \<Rightarrow> string \<Rightarrow> string \<Rightarrow> string \<Rightarrow> opaque response io" where
  "PaymentFormPaymentAccountChanged X orderId methodId account =
     bind (try_go (asserting (getOrderByUuidToForm X orderId))) (\<lambda>r. case r of
       Inl e \<Rightarrow> ret (rsp_error ResponseStatusBadData e)
     | Inr ordr \<Rightarrow>
       bind (replace_err orderErrorProjectNotFound (project_GetById X (order_ProjectId ordr))) (\<lambda>project.
       if x_project_is_deleted X project then throw orderErrorProjectInactive
       else
       step_or ResponseStatusBadData None (change_account X ordr methodId account) (\<lambda>ordr.
       step_or ResponseStatusSystemError None (store_order X ordr) (\<lambda>ordr.
       ret (rsp_ok (x_form_data_change X ordr))))))"

section \<open>The billing address\<close>

record billing_item =
  bil_HasVat :: bool
  bil_VatRate :: float64
  bil_Vat :: float64
  bil_VatInChargeCurrency :: float64
  bil_Amount :: float64
  bil_TotalAmount :: float64
  bil_Currency :: string
  bil_ChargeCurrency :: string
  bil_ChargeAmount :: float64
  bil_Items :: "order_item list"
  bil_CountryChangeAllowed :: bool

definition billing_address :: "ext \<Rightarrow> string \<Rightarrow> string \<Rightarrow> address io" where
  "billing_address X country code =
     (let plain = (\<lambda>c. \<lparr>ad_Country = country, ad_City = [], ad_PostalCode = c, ad_State = []\<rparr>) in
      if country = CountryCodeUSA \<and> code \<noteq> [] then
        bind (try_go (zipCode_GetByZipAndCountry X code country)) (\<lambda>r. case r of
          Inl _ \<Rightarrow> ret (plain code)
        | Inr z \<Rightarrow> bind (deref (zip_StateCode z)) (\<lambda>state.
            ret \<lparr>ad_Country = zip_Country z, ad_City = zip_City z, ad_PostalCode = zip_Zip z, ad_State = state\<rparr>))
      else ret (plain []))"

definition new_browser :: "gotime \<Rightarrow> browser_customer" where
  "new_browser createdAt = \<lparr>bc_CustomerId = [], bc_VirtualCustomerId = [], bc_Ip = [], bc_IpCountry = [],
     bc_SelectedCountry = [], bc_UserAgent = [], bc_AcceptLanguage = [], bc_SessionCount = 0, bc_CreatedAt = createdAt,
     bc_UpdatedAt = time_zero\<rparr>"

text \<open>
  The country that was chosen is kept in the cookie, beside the one of the network. An error leaves the cookie
  empty, and stays the last error of the handler.
\<close>

definition address_cookie :: "ext \<Rightarrow> string \<Rightarrow> string \<Rightarrow> string \<Rightarrow> (string \<times> go_err option) io" where
  "address_cookie X cookie ip country =
     bind (time_now X) (\<lambda>createdAt.
     bind (if cookie = [] then ret (new_browser createdAt)
       else bind (try_go (decryptBrowserCookie X cookie)) (\<lambda>r. case r of
           Inl _ \<Rightarrow> bind (time_now X) (\<lambda>createdAt. ret (new_browser createdAt))
         | Inr c \<Rightarrow> ret c)) (\<lambda>customer.
     bind (try_go (getAddressByIp X ip)) (\<lambda>r. case r of
       Inl e \<Rightarrow> ret ([], Some e)
     | Inr address \<Rightarrow> bind (time_now X) (\<lambda>now.
         bind (try_go (generateBrowserCookie X (customer\<lparr>bc_Ip := ip, bc_IpCountry := ad_Country address,
           bc_SelectedCountry := country, bc_UpdatedAt := now\<rparr>))) (\<lambda>r.
         ret (case r of Inl e \<Rightarrow> ([], Some e) | Inr c \<Rightarrow> (c, None)))))))"

definition set_billing_address :: "address \<Rightarrow> order \<Rightarrow> order" where
  "set_billing_address a ordr = ordr\<lparr>order_Carried := (order_Carried ordr)\<lparr>oco_BillingAddress := Some a\<rparr>\<rparr>"

definition mark_country_changed :: "bool \<Rightarrow> order \<Rightarrow> order" where
  "mark_country_changed changed ordr = ordr\<lparr>order_Carried := (order_Carried ordr)\<lparr>oco_BillingCountryChangedByUser :=
     oco_BillingCountryChangedByUser (order_Carried ordr) \<or> changed\<rparr>\<rparr>"

definition billing_item_of :: "ext \<Rightarrow> order \<Rightarrow> billing_item" where
  "billing_item_of X ordr = \<lparr>bil_HasVat = flt 0 (order_TaxRate ordr), bil_VatRate = x_to_precise X (order_TaxRate ordr),
     bil_Vat = order_TaxAmount ordr,
     bil_VatInChargeCurrency = FormatAmount X (x_order_tax_in_charge_currency X ordr) (order_Currency ordr),
     bil_Amount = order_OrderAmount ordr, bil_TotalAmount = order_TotalPaymentAmount ordr, bil_Currency = order_Currency ordr,
     bil_ChargeCurrency = order_ChargeCurrency ordr, bil_ChargeAmount = order_ChargeAmount ordr,
     bil_Items = order_Items ordr, bil_CountryChangeAllowed = x_order_country_change_allowed X ordr\<rparr>"

text \<open>
  Without a name of the payment method yet, the tariffs are not asked for. An error of the products is
  returned, whatever it is.
\<close>

definition bill_order :: "ext \<Rightarrow> string \<Rightarrow> order \<Rightarrow> string \<times> go_err option \<Rightarrow> (billing_item response \<times> string) io" where
  "bill_order X initialCountry ordr kept =
     bind (price_products X (snd kept) ordr) (\<lambda>ordr.
     bind (step_or ResponseStatusSystemError None (processOrderVat X ordr) (\<lambda>ordr.
     step_or ResponseStatusBadData None (setOrderChargeAmountAndCurrency X ordr) (\<lambda>ordr.
     bind (case x_order_cost_method_name X ordr of Inl _ \<Rightarrow> ret True
       | Inr methodName \<Rightarrow> if methodName = [] then ret True else hasPaymentCosts X ordr) (\<lambda>payable.
     if \<not> payable then ret (rsp_error ResponseStatusBadData orderErrorCostsRatesNotFound)
     else
     step_or ResponseStatusSystemError None
       (store_order X (mark_country_changed (initialCountry \<noteq> x_order_country X ordr) ordr)) (\<lambda>ordr.
     ret (rsp_ok (billing_item_of X ordr)))))))
     (\<lambda>rsp. ret (rsp, if rspStatus rsp = ResponseStatusOk then fst kept else [])))"

definition bill_to :: "ext \<Rightarrow> string \<Rightarrow> string \<Rightarrow> string \<Rightarrow> string \<Rightarrow> order \<Rightarrow> (billing_item response \<times> string) io" where
  "bill_to X country code ip cookie ordr =
     (let initialCountry = x_order_country X ordr in
      bind (billing_address X country code) (\<lambda>address.
      if \<not> x_order_country_change_allowed X ordr \<and> initialCountry \<noteq> ad_Country address
      then ret (rsp_error ResponseStatusForbidden orderCountryChangeRestrictedError, [])
      else
      bind (try_go (applyCountryRestriction X (set_billing_address address ordr) (ad_Country address))) (\<lambda>r. case r of
        Inl e \<Rightarrow> ret (rsp_error ResponseStatusSystemError (if is_message e then e else orderErrorUnknown), [])
      | Inr (ordr, restricted) \<Rightarrow>
        if restricted then ret (rsp_error ResponseStatusForbidden orderCountryPaymentRestrictedError, [])
        else bind (address_cookie X cookie ip (ad_Country address)) (bill_order X initialCountry ordr))))"

definition ProcessBillingAddress ::
  "ext \<Rightarrow> string \<Rightarrow> string \<Rightarrow> string \<Rightarrow> string \<Rightarrow> string \<Rightarrow> (billing_item response \<times> string) io" where
  "ProcessBillingAddress X orderId country code ip cookie =
     bind (try_go (getOrderByUuidToForm X orderId)) (\<lambda>r. case r of
       Inl e \<Rightarrow> if is_message e then ret (rsp_error ResponseStatusBadData e, []) else throw e
     | Inr ordr \<Rightarrow> bill_to X country code ip cookie ordr)"

end
