(* ===== verification/BankCard.thy ===== *)
theory BankCard
  imports PaymentForm
begin

text \<open>
  The validator of bank cards (internal/service/bank\_card.go): what must be there, the expiry against the
  clock, and the check digit of the number.
\<close>

definition bankCardPanIsRequired :: go_err where
  "bankCardPanIsRequired = ResponseErrorMessage ''bc000001'' ''bank card number is required''"
definition bankCardCvvIsRequired :: go_err where
  "bankCardCvvIsRequired = ResponseErrorMessage ''bc000002'' ''bank card CVV number is required''"
definition bankCardExpireMonthIsRequired :: go_err where
  "bankCardExpireMonthIsRequired = ResponseErrorMessage ''bc000003'' ''bank card expire month is required''"
definition bankCardExpireYearIsRequired :: go_err where
  "bankCardExpireYearIsRequired = ResponseErrorMessage ''bc000004'' ''bank card expire year is required''"
definition bankCardHolderIsRequired :: go_err where
  "bankCardHolderIsRequired = ResponseErrorMessage ''bc000005'' ''bank card holder name is required''"
definition bankCardMonthIsInvalid :: go_err where
  "bankCardMonthIsInvalid = ResponseErrorMessage ''bc000006'' ''invalid month of card expiration''"
definition bankCardIsExpired :: go_err where
  "bankCardIsExpired = ResponseErrorMessage ''bc000007'' ''bank card is expired''"
definition bankCardCvvIsInvalid :: go_err where
  "bankCardCvvIsInvalid = ResponseErrorMessage ''bc000008'' ''bank card CVV is invalid''"
definition bankCardPanIsInvalid :: go_err where
  "bankCardPanIsInvalid = ResponseErrorMessage ''bc000009'' ''bank card number is invalid''"

record bank_card =
  bnk_Pan :: string
  bnk_Cvv :: string
  bnk_Month :: string
  bnk_Year :: string
  bnk_Holder :: string

section \<open>The number\<close>

definition luhn_double :: "int \<Rightarrow> int" where
  "luhn_double d = (let m = d * 2 in if 9 < m then m mod 10 + 1 else m)"

text \<open>The loop runs from the last character to the first one and doubles every other digit; a character that is no digit counts as 0.\<close>

fun luhn_loop :: "bool \<Rightarrow> int \<Rightarrow> string \<Rightarrow> int" where
  "luhn_loop alternate acc [] = acc"
| "luhn_loop alternate acc (c # cs) =
     luhn_loop (\<not> alternate) (acc + (if alternate then luhn_double (digit_value c) else digit_value c)) cs"

definition validateNumber :: "string \<Rightarrow> bool" where
  "validateNumber pan \<longleftrightarrow> 13 \<le> length pan \<and> length pan \<le> 19 \<and> luhn_loop False 0 (rev pan) mod 10 = 0"

section \<open>The expiry\<close>

definition century :: "ext \<Rightarrow> gotime \<Rightarrow> string" where
  "century X now = take 2 (show_int (x_year X now))"

definition validateExpire :: "ext \<Rightarrow> string \<Rightarrow> string \<Rightarrow> unit io" where
  "validateExpire X year month =
     bind (if length year < 3 then bind (time_now X) (\<lambda>now. ret (go_atoi (century X now @ year))) else ret (go_atoi year)) (\<lambda>y.
     if go_atoi month < 1 \<or> 12 < go_atoi month then throw bankCardMonthIsInvalid
     else
     bind (time_now X) (\<lambda>tn.
     if y < x_year X tn \<or> y = x_year X tn \<and> go_atoi month < x_month X tn then throw bankCardIsExpired else ret ()))"

definition validate_card :: "ext \<Rightarrow> bank_card \<Rightarrow> unit io" where
  "validate_card X v =
     (if bnk_Pan v = [] then throw bankCardPanIsRequired
      else if bnk_Cvv v = [] then throw bankCardCvvIsRequired
      else if bnk_Month v = [] then throw bankCardExpireMonthIsRequired
      else if bnk_Year v = [] then throw bankCardExpireYearIsRequired
      else if bnk_Holder v = [] then throw bankCardHolderIsRequired
      else
      bind (validateExpire X (bnk_Year v) (bnk_Month v)) (\<lambda>_.
      if length (bnk_Cvv v) < 3 \<or> 4 < length (bnk_Cvv v) then throw bankCardCvvIsInvalid
      else if length (bnk_Pan v) < 13 \<or> \<not> validateNumber (bnk_Pan v) then throw bankCardPanIsInvalid
      else ret ()))"

section \<open>The check digit\<close>

text \<open>The sum with the weights of the positions, counted from the last character.\<close>

definition luhn_weight :: "bool \<Rightarrow> char \<Rightarrow> int" where
  "luhn_weight alternate c = (if alternate then luhn_double (digit_value c) else digit_value c)"

fun luhn_sum :: "bool \<Rightarrow> string \<Rightarrow> int" where
  "luhn_sum alternate [] = 0"
| "luhn_sum alternate (c # cs) = luhn_weight alternate c + luhn_sum (\<not> alternate) cs"

lemma luhn_loop_sum: "luhn_loop alternate acc cs = acc + luhn_sum alternate cs"
  by (induction cs arbitrary: alternate acc) (simp_all add: luhn_weight_def)

lemma luhn_sum_append: "luhn_sum alternate (cs @ ds) = luhn_sum alternate cs + luhn_sum (alternate \<noteq> odd (length cs)) ds"
proof (induction cs arbitrary: alternate)
  case (Cons c cs)
  have "((\<not> alternate) \<noteq> odd (length cs)) = (alternate \<noteq> odd (length (c # cs)))" by auto
  then show ?case by (simp only: append.simps luhn_sum.simps Cons.IH add.assoc)
qed simp

lemma luhn_sum_change:
  "luhn_sum alternate (cs @ c # ds) - luhn_sum alternate (cs @ d # ds) =
     luhn_weight (alternate \<noteq> odd (length cs)) c - luhn_weight (alternate \<noteq> odd (length cs)) d"
  by (simp add: luhn_sum_append)

lemma is_digit_range: "is_digit c \<Longrightarrow> 0 \<le> digit_value c \<and> digit_value c \<le> 9"
  by (simp add: is_digit_def digit_value_def Let_def)

lemma digit_value_inj: "is_digit c \<Longrightarrow> is_digit d \<Longrightarrow> digit_value c = digit_value d \<Longrightarrow> c = d"
  by (auto simp: digit_value_def)

text \<open>Doubling permutes the ten digits, so that no two of them have the same weight.\<close>

lemma luhn_double_cases:
  "0 \<le> v \<Longrightarrow> v \<le> 9 \<Longrightarrow> luhn_double v = (if v \<le> 4 then 2 * v else 2 * v - 9)"
  unfolding luhn_double_def Let_def by presburger

lemma luhn_weight_inj:
  assumes "is_digit c" and "is_digit d" and "luhn_weight a c mod 10 = luhn_weight a d mod 10"
  shows "c = d"
proof -
  have "digit_value c = digit_value d"
    using assms(3) is_digit_range[OF assms(1)] is_digit_range[OF assms(2)]
    by (cases a) (auto simp: luhn_weight_def luhn_double_cases split: if_splits; presburger)+
  then show ?thesis using digit_value_inj assms(1,2) by blast
qed

section \<open>Properties\<close>

text \<open>C27: No two card numbers that differ in one digit both pass the check digit, whatever the other characters are: a
  single mistyped digit is always noticed.\<close>

theorem mistyped_digit_noticed:
  assumes "is_digit c" and "is_digit d" and "c \<noteq> d"
  shows "\<not> (validateNumber (cs @ c # ds) \<and> validateNumber (cs @ d # ds))"
proof
  assume v: "validateNumber (cs @ c # ds) \<and> validateNumber (cs @ d # ds)"
  let ?s = "\<lambda>c. luhn_sum False (rev ds @ c # rev cs)"
  let ?w = "luhn_weight (False \<noteq> odd (length (rev ds)))"
  have "?s c mod 10 = ?s d mod 10" using v by (simp add: validateNumber_def luhn_loop_sum)
  then have "10 dvd ?s c - ?s d" by (simp only: mod_eq_dvd_iff)
  then have "10 dvd ?w c - ?w d" by (simp only: luhn_sum_change)
  then have "?w c mod 10 = ?w d mod 10" by (simp only: mod_eq_dvd_iff)
  then show False using luhn_weight_inj assms by blast
qed

theorem mistyped_digit_noticed_witness:
  "validateNumber ''4000000000000002'' \<and> \<not> validateNumber ''4000000000000012''"
proof -
  have v: "validateNumber (''40000000000000'' @ CHR ''0'' # ''2'')" by code_simp
  have d: "is_digit (CHR ''0'')" "is_digit (CHR ''1'')" by code_simp+
  have "\<not> (validateNumber (''40000000000000'' @ CHR ''0'' # ''2'') \<and> validateNumber (''40000000000000'' @ CHR ''1'' # ''2''))"
    using mistyped_digit_noticed[OF d, of "''40000000000000''" "''2''"] by blast
  then show ?thesis using v by simp
qed

text \<open>Thirteen to nineteen characters that are no digits at all pass it, too.\<close>

lemma luhn_sum_no_digits: "list_all (\<lambda>c. \<not> is_digit c) cs \<Longrightarrow> luhn_sum alternate cs = 0"
  by (induction cs arbitrary: alternate) (simp_all add: luhn_weight_def digit_value_def luhn_double_def)

lemma letters_are_a_card_number:
  assumes "list_all (\<lambda>c. \<not> is_digit c) pan" and "13 \<le> length pan" and "length pan \<le> 19"
  shows "validateNumber pan"
  using assms by (simp add: validateNumber_def luhn_loop_sum luhn_sum_no_digits)

lemma letters_are_a_card_number_witness: "validateNumber ''not a card num''"
proof (rule letters_are_a_card_number)
  show "list_all (\<lambda>c. \<not> is_digit c) ''not a card num''" by code_simp
qed simp_all

end
