(* ===== verification/PaymentCreate.thy ===== *)
theory PaymentCreate
  imports BankCard
begin

text \<open>
  The payment of an order (PaymentCreateProcess of internal/service/order.go): the data of the form are
  validated into the order, keys are reserved, the order is priced and stored, and the gateway is asked for the
  payment or for a subscription. The data are a map that the code changes; a payment by another method than a
  card stores that very map in the order.
\<close>

section \<open>Errors and fields\<close>

definition orderGetSavedCardError :: go_err where
  "orderGetSavedCardError = ResponseErrorMessage ''fm000028'' ''saved card data with specified identifier not found''"
definition orderErrorRecurringCardNotOwnToUser :: go_err where
  "orderErrorRecurringCardNotOwnToUser = ResponseErrorMessage ''fm000039'' ''you can't use not own bank card for payment''"
definition orderErrorCreatePaymentRequiredFieldIdNotFound :: go_err where
  "orderErrorCreatePaymentRequiredFieldIdNotFound =
     ResponseErrorMessage ''fm000042'' ''required field with order identifier not found''"
definition orderErrorCreatePaymentRequiredFieldPaymentMethodNotFound :: go_err where
  "orderErrorCreatePaymentRequiredFieldPaymentMethodNotFound =
     ResponseErrorMessage ''fm000043'' ''required field with payment Method identifier not found''"
definition orderErrorCreatePaymentRequiredFieldEmailNotFound :: go_err where
  "orderErrorCreatePaymentRequiredFieldEmailNotFound =
     ResponseErrorMessage ''fm000044'' (''required field '' @ quoted ''email'' @ '' not found'')"
definition orderErrorCreatePaymentRequiredFieldUserCountryNotFound :: go_err where
  "orderErrorCreatePaymentRequiredFieldUserCountryNotFound = ResponseErrorMessage ''fm000045'' ''user country is required''"
definition orderErrorCreatePaymentRequiredFieldUserZipNotFound :: go_err where
  "orderErrorCreatePaymentRequiredFieldUserZipNotFound = ResponseErrorMessage ''fm000046'' ''user zip is required''"
definition orderErrorMerchantUserAccountNotChecked :: go_err where
  "orderErrorMerchantUserAccountNotChecked = ResponseErrorMessage ''fm000073'' ''failed to check user account''"
definition orderErrorCookieIsEmpty :: go_err where
  "orderErrorCookieIsEmpty = ResponseErrorMessage ''fm000080'' ''can't get payment cookie''"
definition orderErrorCookieInvalid :: go_err where
  "orderErrorCookieInvalid = ResponseErrorMessage ''fm000081'' ''unable to read payment cookie''"
definition orderErrorRecurringUnableToAdd :: go_err where
  "orderErrorRecurringUnableToAdd = ResponseErrorMessage ''fm000087'' ''unable to add recurring subscription''"
definition orderErrorRecurringUnableToUpdate :: go_err where
  "orderErrorRecurringUnableToUpdate = ResponseErrorMessage ''fm000088'' ''unable to update recurring subscription''"
definition PaymentSystemErrorEWalletIdentifierIsInvalid :: go_err where
  "PaymentSystemErrorEWalletIdentifierIsInvalid =
     ResponseErrorMessage ''ph000005'' ''wallet identifier is invalid''"

definition PaymentCreateFieldOrderId :: string where "PaymentCreateFieldOrderId = ''order_id''"
definition PaymentCreateFieldPaymentMethodId :: string where "PaymentCreateFieldPaymentMethodId = ''payment_method_id''"
definition PaymentCreateFieldEmail :: string where "PaymentCreateFieldEmail = ''email''"
definition PaymentCreateFieldUserCountry :: string where "PaymentCreateFieldUserCountry = ''country''"
definition PaymentCreateFieldUserCity :: string where "PaymentCreateFieldUserCity = ''city''"
definition PaymentCreateFieldUserState :: string where "PaymentCreateFieldUserState = ''state''"
definition PaymentCreateFieldUserZip :: string where "PaymentCreateFieldUserZip = ''zip''"
definition PaymentCreateFieldStoredCardId :: string where "PaymentCreateFieldStoredCardId = ''stored_card_id''"
definition PaymentCreateBankCardFieldType :: string where "PaymentCreateBankCardFieldType = ''card_type''"
definition PaymentCreateBankCardFieldCategory :: string where "PaymentCreateBankCardFieldCategory = ''card_category''"
definition PaymentCreateBankCardFieldIssuerName :: string where
  "PaymentCreateBankCardFieldIssuerName = ''bank_issuer_name''"
definition PaymentCreateBankCardFieldIssuerCountry :: string where
  "PaymentCreateBankCardFieldIssuerCountry = ''bank_issuer_country''"
definition ProjectCallbackProtocolDefault :: string where "ProjectCallbackProtocolDefault = ''default''"
definition ProjectWebhookPreApproval :: string where "ProjectWebhookPreApproval = ''pre_approval''"

definition go_delete :: "string \<Rightarrow> string go_map \<Rightarrow> string go_map" where
  "go_delete k m = map_option (AList.delete k) m"

section \<open>Keys\<close>

definition oneDayTtl :: int where "oneDayTtl = 86400"

definition cancel_keys :: "ext \<Rightarrow> string list \<Rightarrow> unit io" where
  "cancel_keys X ks = for_each ks (\<lambda>k. if k = [] then ret () else bind (CancelRedeemKeyForOrder X k) (\<lambda>_. ret ()))"

text \<open>One key for each product, in order; when one cannot be had, those reserved before are released.\<close>

fun reserve_keys :: "ext \<Rightarrow> order \<Rightarrow> string list \<Rightarrow> string list \<Rightarrow> string list io" where
  "reserve_keys X ordr ks [] = ret ks"
| "reserve_keys X ordr ks (p # ps) =
     bind (ReserveKeyForOrder X p (order_PlatformId ordr) (order_Id ordr) oneDayTtl) (\<lambda>rsp.
     if rspStatus rsp \<noteq> ResponseStatusOk then
       bind (cancel_keys X ks) (\<lambda>_. bind (deref (rspMessage rsp)) throw)
     else bind (deref (rspItem rsp)) (\<lambda>k. reserve_keys X ordr (ks @ [k]) ps))"

definition reserveKeysForOrder :: "ext \<Rightarrow> order \<Rightarrow> order io" where
  "reserveKeysForOrder X ordr =
     (if order_Keys ordr \<noteq> [] then ret ordr
      else bind (reserve_keys X ordr [] (oco_Products (order_Carried ordr))) (\<lambda>ks. ret (ordr\<lparr>order_Keys := ks\<rparr>)))"

section \<open>The data of the form\<close>

definition required_field :: "string go_map \<Rightarrow> go_err option" where
  "required_field data =
     (if go_get data PaymentCreateFieldOrderId = [] then Some orderErrorCreatePaymentRequiredFieldIdNotFound
      else if go_get data PaymentCreateFieldPaymentMethodId = [] then
        Some orderErrorCreatePaymentRequiredFieldPaymentMethodNotFound
      else if go_get data PaymentCreateFieldEmail = [] then Some orderErrorCreatePaymentRequiredFieldEmailNotFound
      else None)"

text \<open>The address that the order asks for; a zip code of the US that is known adds its city and state.\<close>

definition required_address :: "ext \<Rightarrow> order \<Rightarrow> string go_map \<Rightarrow> string go_map io" where
  "required_address X ordr data =
     (let country = go_get data PaymentCreateFieldUserCountry; code = go_get data PaymentCreateFieldUserZip in
      if \<not> oco_UserAddressDataRequired (order_Carried ordr) then ret data
      else if country = [] then throw orderErrorCreatePaymentRequiredFieldUserCountryNotFound
      else if country \<noteq> CountryCodeUSA then ret data
      else if code = [] then throw orderErrorCreatePaymentRequiredFieldUserZipNotFound
      else bind (try_go (zipCode_GetByZipAndCountry X code country)) (\<lambda>r. case r of
          Inl _ \<Rightarrow> ret data
        | Inr z \<Rightarrow> bind (deref (zip_StateCode z)) (\<lambda>state.
            ret (put_requisite PaymentCreateFieldUserState state (put_requisite PaymentCreateFieldUserCity (zip_City z) data)))))"

definition getOrderOperatingCompanyId :: "ext \<Rightarrow> string \<Rightarrow> merchant \<Rightarrow> string io" where
  "getOrderOperatingCompanyId X orderCountry merchant =
     bind (try_go (operatingCompany_GetByPaymentCountry X orderCountry)) (\<lambda>r. case r of
       Inl e \<Rightarrow> if e = ErrNoDocuments then ret (merchant_OperatingCompanyId merchant) else throw e
     | Inr c \<Rightarrow> ret (oc_Id c))"

definition with_codes :: "ext \<Rightarrow> order \<Rightarrow> order io" where
  "with_codes X ordr =
     bind (replace_err merchantErrorNotFound (merchant_GetById X (x_order_merchant_id X ordr))) (\<lambda>merchant.
     let ordr = (if order_MccCode ordr = [] then ordr\<lparr>order_MccCode := merchant_MccCode merchant,
           order_IsHighRisk := x_merchant_is_high_risk X merchant\<rparr> else ordr) in
     bind (getOrderOperatingCompanyId X (x_order_country X ordr) merchant) (\<lambda>company.
     ret (ordr\<lparr>order_OperatingCompanyId := company\<rparr>)))"

text \<open>What the steps of an order's creation are given: the amount of the order, but not the payment method.\<close>

definition payment_checked :: "order \<Rightarrow> order_checked" where
  "payment_checked ordr = no_checked\<lparr>chk_currency := order_Currency ordr, chk_amount := order_OrderAmount ordr,
     chk_mccCode := order_MccCode ordr, chk_operatingCompanyId := order_OperatingCompanyId ordr\<rparr>"

definition with_payer :: "string go_map \<Rightarrow> string \<Rightarrow> order \<Rightarrow> order io" where
  "with_payer data ip ordr = bind (deref (order_User ordr)) (\<lambda>u.
     ret (ordr\<lparr>order_User := Some (u\<lparr>ou_Ip := ip, ou_Email := go_get data PaymentCreateFieldEmail\<rparr>),
       order_PaymentRequisites := Some []\<rparr>))"

definition form_billing :: "string go_map \<Rightarrow> address option \<Rightarrow> address" where
  "form_billing data current =
     (let a = (case current of Some a \<Rightarrow> a | None \<Rightarrow> \<lparr>ad_Country = [], ad_City = [], ad_PostalCode = [], ad_State = []\<rparr>);
          country = go_get data PaymentCreateFieldUserCountry; a = a\<lparr>ad_Country := country\<rparr>
      in if country = CountryCodeUSA then a\<lparr>ad_City := go_get data PaymentCreateFieldUserCity,
           ad_PostalCode := go_get data PaymentCreateFieldUserZip, ad_State := go_get data PaymentCreateFieldUserState\<rparr>
         else a)"

definition with_billing :: "ext \<Rightarrow> string go_map \<Rightarrow> order \<Rightarrow> (order \<times> address option) io" where
  "with_billing X data ordr =
     (if \<not> oco_UserAddressDataRequired (order_Carried ordr) then ret (ordr, None)
      else let a = form_billing data (oco_BillingAddress (order_Carried ordr)) in
        bind (processOrderVat X (set_billing_address a ordr)) (\<lambda>ordr. ret (ordr, Some a)))"

definition unrestricted :: "ext \<Rightarrow> order \<Rightarrow> order io" where
  "unrestricted X ordr =
     bind (try_go (applyCountryRestriction X ordr (x_order_country X ordr))) (\<lambda>r. case r of
       Inl e \<Rightarrow> throw (if is_message e then e else orderErrorUnknown)
     | Inr (ordr, restricted) \<Rightarrow> if restricted then throw orderCountryPaymentRestrictedError else ret ordr)"

text \<open>The customer of the order, if it is still the one of the email, or a new one.\<close>

definition paying_customer :: "ext \<Rightarrow> payment_request \<Rightarrow> address option \<Rightarrow> order \<Rightarrow> order io" where
  "paying_customer X req address ordr =
     bind (deref (order_User ordr)) (\<lambda>u.
     let user = no_token_user\<lparr>tu_Email := Some (ou_Email u, False), tu_Address := address\<rparr> in
     bind (if (case x_oid_from_hex X (ou_Id u) of Inl _ \<Rightarrow> False | Inr _ \<Rightarrow> True)
       then bind (try_go (customerrepo_GetById X (ou_Id u))) (\<lambda>r. ret (case r of Inl _ \<Rightarrow> False
         | Inr c \<Rightarrow> cust_Email c = ou_Email u))
       else ret False) (\<lambda>known.
     if known then
       bind (try_go (updateCustomerFromRequest X ordr user (preq_Ip req) (preq_AcceptLanguage req) (preq_UserAgent req)))
         (\<lambda>r. case r of Inl _ \<Rightarrow> ret ordr
          | Inr c \<Rightarrow> ret (with_user ordr (if ou_Locale u = [] \<and> cust_Locale c \<noteq> [] then u\<lparr>ou_Locale := cust_Locale c\<rparr> else u)))
     else
       bind (createCustomerFromRequest X ordr user (preq_Ip req) (preq_AcceptLanguage req) (preq_UserAgent req)) (\<lambda>c.
       ret (with_user ordr (u\<lparr>ou_Id := cust_Id c, ou_Uuid := cust_Uuid c\<rparr>)))))"

section \<open>Requisites\<close>

definition stored_requisites :: "ext \<Rightarrow> string \<Rightarrow> string \<Rightarrow> string go_map io" where
  "stored_requisites X cardId userId =
     bind (try_go (rpc (\<lambda>n. x_saved_card_by_id X n cardId))) (\<lambda>r.
     case (case r of Inl _ \<Rightarrow> None | Inr c \<Rightarrow> c) of None \<Rightarrow> throw orderGetSavedCardError
     | Some c \<Rightarrow>
       if stc_Token c \<noteq> userId then throw orderErrorRecurringCardNotOwnToUser
       else ret (Some [(PaymentCreateFieldPan, stc_MaskedPan c), (PaymentCreateFieldMonth, stc_Month c),
         (PaymentCreateFieldYear, stc_Year c), (PaymentCreateFieldHolder, stc_CardHolder c),
         (PaymentCreateFieldRecurringId, stc_RecurringId c)]))"

definition entered_card :: "string go_map \<Rightarrow> bank_card" where
  "entered_card data = \<lparr>bnk_Pan = go_get data PaymentCreateFieldPan, bnk_Cvv = go_get data PaymentCreateFieldCvv,
     bnk_Month = go_get data PaymentCreateFieldMonth, bnk_Year = go_get data PaymentCreateFieldYear,
     bnk_Holder = go_get data PaymentCreateFieldHolder\<rparr>"

text \<open>Of a card that is entered the order keeps the masked number and the expiry; the year gets its century.\<close>

definition entered_requisites :: "ext \<Rightarrow> string go_map \<Rightarrow> (string go_map \<times> string go_map) io" where
  "entered_requisites X data =
     bind (validate_card X (entered_card data)) (\<lambda>_.
     let year = go_get data PaymentCreateFieldYear in
     bind (if length year < 3 then bind (time_now X) (\<lambda>now. ret (century X now @ year)) else ret year) (\<lambda>full.
     ret (if length year < 3 then put_requisite PaymentCreateFieldYear full data else data,
       Some [(PaymentCreateFieldPan, x_mask_card_number X (go_get data PaymentCreateFieldPan)),
         (PaymentCreateFieldMonth, go_get data PaymentCreateFieldMonth), (PaymentCreateFieldYear, full)])))"

definition bin_requisites :: "bin_data option \<Rightarrow> string go_map \<Rightarrow> string go_map" where
  "bin_requisites found m = (case found of None \<Rightarrow> m | Some b \<Rightarrow> fold (\<lambda>(k, v). put_requisite k v)
     [(PaymentCreateBankCardFieldBrand, bin_CardBrand b), (PaymentCreateBankCardFieldType, bin_CardType b),
      (PaymentCreateBankCardFieldCategory, bin_CardCategory b), (PaymentCreateBankCardFieldIssuerName, bin_BankName b),
      (PaymentCreateBankCardFieldIssuerCountry, bin_BankCountryName b),
      (PaymentCreateBankCardFieldIssuerCountryIsoCode, bin_BankCountryIsoCode b)] m)"

definition account_of :: "string go_map \<Rightarrow> string" where
  "account_of data = (if go_has data PaymentCreateFieldCrypto then go_get data PaymentCreateFieldCrypto
     else go_get data PaymentCreateFieldEWallet)"

definition with_requisites :: "ext \<Rightarrow> payment_method \<Rightarrow> string go_map \<Rightarrow> order \<Rightarrow> (order \<times> string go_map) io" where
  "with_requisites X pm data ordr =
     (if x_method_is_bank_card X pm then
        bind (deref (order_User ordr)) (\<lambda>u.
        bind (if go_has data PaymentCreateFieldStoredCardId
          then bind (stored_requisites X (go_get data PaymentCreateFieldStoredCardId) (ou_Id u)) (\<lambda>m. ret (data, m))
          else entered_requisites X data) (\<lambda>(data, m).
        bind (getBinData X (go_get m PaymentCreateFieldPan)) (\<lambda>found.
        ret (ordr\<lparr>order_PaymentRequisites := bin_requisites found m\<rparr>, data))))
      else if account_of data = [] then throw PaymentSystemErrorEWalletIdentifierIsInvalid
      else ret (ordr\<lparr>order_PaymentRequisites := data\<rparr>, data))"

section \<open>The order of the payment\<close>

definition webhookCheckUser :: "ext \<Rightarrow> order \<Rightarrow> unit io" where
  "webhookCheckUser X ordr = bind (try_go (rpc (\<lambda>n. x_check_user X n ordr))) (\<lambda>r.
     if r = Inr ResponseStatusOk then ret () else throw orderErrorMerchantUserAccountNotChecked)"

definition with_default_method :: "ext \<Rightarrow> payment_method \<Rightarrow> payment_system \<Rightarrow> order_checked \<Rightarrow> order \<Rightarrow> order io" where
  "with_default_method X pm ps chk ordr =
     (let ordr = (if order_PaymentMethod ordr = None then ordr\<lparr>order_PaymentMethod := Some (method_of_payment pm ps)\<rparr> else ordr) in
      case x_order_cost_method_name X ordr of Inl _ \<Rightarrow> ret ordr
      | Inr methodName \<Rightarrow> bind (lift (getPaymentSettings X pm (chk_currency chk) (chk_mccCode chk) (chk_operatingCompanyId chk)
          methodName (order_IsProduction ordr))) (\<lambda>params. ret (set_params params ordr)))"

definition payable_order :: "ext \<Rightarrow> string go_map \<Rightarrow> order io" where
  "payable_order X data =
     (case required_field data of Some e \<Rightarrow> throw e
      | None \<Rightarrow> bind (getOrderByUuidToForm X (go_get data PaymentCreateFieldOrderId)) (\<lambda>ordr.
          if order_PrivateStatus ordr \<noteq> OrderStatusNew \<and> order_PrivateStatus ordr \<noteq> OrderStatusPaymentSystemComplete
          then throw orderErrorAlreadyProcessed else ret ordr))"

definition active_method :: "ext \<Rightarrow> string go_map \<Rightarrow> (payment_method \<times> payment_system) io" where
  "active_method X data =
     bind (replace_err orderErrorPaymentMethodNotFound
       (methodrepo_GetById X (go_get data PaymentCreateFieldPaymentMethodId))) (\<lambda>pm.
     if \<not> pm_IsActive pm then throw orderErrorPaymentMethodInactive
     else bind (replace_err orderErrorPaymentSystemInactive (paymentsystem_GetById X (pm_PaymentSystemId pm))) (\<lambda>ps.
     ret (pm, ps)))"

text \<open>
  The data of the form, validated into the order: the order, its project, the payment method and what is left
  of the data.
\<close>

definition processPaymentFormData ::
  "ext \<Rightarrow> payment_request \<Rightarrow> (order \<times> project \<times> payment_method \<times> string go_map) io" where
  "processPaymentFormData X req =
     (let data = preq_Data req in
     bind (payable_order X data) (\<lambda>ordr.
     bind (required_address X ordr data) (\<lambda>data.
     bind (with_codes X ordr) (\<lambda>ordr.
     let chk = payment_checked ordr in
     bind (processProject X (no_request\<lparr>oreq_ProjectId := order_ProjectId ordr, oreq_Amount := order_OrderAmount ordr\<rparr>) chk)
       (\<lambda>chk.
     bind (active_method X data) (\<lambda>(pm, ps).
     bind (processLimitAmounts X chk) (\<lambda>_.
     bind (with_payer data (preq_Ip req) ordr) (\<lambda>ordr.
     bind (with_billing X data ordr) (\<lambda>(ordr, address).
     bind (unrestricted X ordr) (\<lambda>ordr.
     bind (paying_customer X req address ordr) (\<lambda>ordr.
     bind (with_requisites X pm (go_delete PaymentCreateFieldEmail (go_delete PaymentCreateFieldPaymentMethodId
       (go_delete PaymentCreateFieldOrderId data))) ordr) (\<lambda>(ordr, data).
     bind (with_default_method X pm ps chk ordr) (\<lambda>ordr.
     bind (deref (chk_project chk)) (\<lambda>project.
     bind (if pco_CallbackProtocol (project_Carried project) = ProjectCallbackProtocolDefault \<and>
         project_WebhookMode project = ProjectWebhookPreApproval then webhookCheckUser X ordr else ret ()) (\<lambda>_.
     ret (ordr, project, pm, data))))))))))))))))"

section \<open>Subscriptions\<close>

definition new_subscription :: "ext \<Rightarrow> order \<Rightarrow> string \<Rightarrow> recurring_settings \<Rightarrow> order_user \<Rightarrow> subscription" where
  "new_subscription X ordr maskedPan st u =
     (let until = (case x_parse_time X FilterDateFormat (rset_DateEnd st) of Inl _ \<Rightarrow> time_zero | Inr t \<Rightarrow> t) in
     \<lparr>sub_Id = [], sub_CardpayPlanId = [], sub_CardpaySubscriptionId = [], sub_Amount = order_ChargeAmount ordr,
      sub_TotalAmount = 0, sub_LastPaymentAt = None, sub_IsActive = False, sub_OrderId = order_Id ordr,
      sub_MerchantId = order_ProjectMerchantId ordr, sub_ProjectId = order_ProjectId ordr, sub_CustomerId = ou_Id u,
      sub_CustomerUuid = ou_Uuid u, sub_CustomerInfo = (ou_ExternalId u, ou_Email u, ou_Phone u),
      sub_MaskedPan = maskedPan, sub_Period = rset_Period st, sub_ExpireAt = timestamp_or_nil X (day_last_second until),
      sub_Currency = order_ChargeCurrency ordr, sub_ItemType = order_ProductType ordr,
      sub_ItemList = map oi_Id (order_Items ordr), sub_ProjectName = order_ProjectName ordr, sub_Rest = []\<rparr>)"

definition addRecurringSubscription ::
  "ext \<Rightarrow> order \<Rightarrow> gateway \<Rightarrow> string go_map \<Rightarrow> (subscription \<times> string) io" where
  "addRecurringSubscription X ordr h data =
     bind (deref (order_PaymentMethod ordr)) (\<lambda>m.
     bind (deref (oco_RecurringSettings (order_Carried ordr))) (\<lambda>st.
     bind (deref (order_User ordr)) (\<lambda>u.
     let sub = new_subscription X ordr (if opm_ExternalId m = PaymentSystemGroupAliasBankCard
           then x_mask_card_number X (go_get data PaymentCreateFieldPan) else []) st u in
     bind (try_go (rpc (\<lambda>n. x_add_subscription X n sub))) (\<lambda>r.
     case r of Inr (ResponseStatusOk, subscriptionId) \<Rightarrow>
       bind (gw_CreateRecurringSubscription X h ordr (sub\<lparr>sub_Id := subscriptionId\<rparr>) (x_config_url X ''success'')
         (x_config_url X ''fail'') data) (\<lambda>(sub, r). case r of
         Inl e \<Rightarrow> throw e
       | Inr url \<Rightarrow>
         bind (modify (w_sent_update (\<lambda>ms. ms @ [SentSubscription sub]))) (\<lambda>_.
         bind (try_go (rpc (\<lambda>n. x_update_subscription X n sub))) (\<lambda>r.
         if r = Inr ResponseStatusOk then ret (sub, url) else throw orderErrorRecurringUnableToUpdate)))
     | _ \<Rightarrow> throw orderErrorRecurringUnableToAdd))))"

section \<open>The payment\<close>

text \<open>The price of the order, with its keys reserved.\<close>

definition price_and_reserve :: "ext \<Rightarrow> go_err option \<Rightarrow> order \<Rightarrow> order io" where
  "price_and_reserve X left ordr = pricing X ordr
     (if order_ProductType ordr = OrderType_product then ProcessOrderProducts X ordr
      else if order_ProductType ordr = OrderType_key then
        bind (ProcessOrderKeyProducts X ordr) (\<lambda>(ordr, _). reserveKeysForOrder X ordr)
      else if order_ProductType ordr = OrderTypeVirtualCurrency then ProcessOrderVirtualCurrency X ordr
      else left_over left ordr)"

definition note_ip_country :: "ext \<Rightarrow> string \<Rightarrow> order \<Rightarrow> order io" where
  "note_ip_country X ip ordr =
     (if ip = [] then ret ordr
      else bind (try_go (getAddressByIp X ip)) (\<lambda>r. ret (case r of Inl _ \<Rightarrow> ordr
        | Inr a \<Rightarrow> ordr\<lparr>order_Carried := (order_Carried ordr)\<lparr>oco_PaymentIpCountry := ad_Country a\<rparr>\<rparr>)))"

text \<open>
  The id of a saved card goes from the requisites to the data. Where they are the same map it is gone then.
\<close>

definition move_recurring_id :: "ext \<Rightarrow> payment_method \<Rightarrow> order \<Rightarrow> string go_map \<Rightarrow> order \<times> string go_map" where
  "move_recurring_id X pm ordr data =
     (let m = order_PaymentRequisites ordr in
      if \<not> go_has m PaymentCreateFieldRecurringId then (ordr, data)
      else (ordr\<lparr>order_PaymentRequisites := go_delete PaymentCreateFieldRecurringId m\<rparr>,
        if x_method_is_bank_card X pm then put_requisite PaymentCreateFieldRecurringId (go_get m PaymentCreateFieldRecurringId) data
        else go_delete PaymentCreateFieldRecurringId data))"

text \<open>The merchant, its codes and the company, as they are at the time of the payment.\<close>

definition with_current_codes :: "ext \<Rightarrow> order \<Rightarrow> merchant \<Rightarrow> order io" where
  "with_current_codes X ordr merchant =
     (let ordr = ordr\<lparr>order_MccCode := merchant_MccCode merchant, order_IsHighRisk := x_merchant_is_high_risk X merchant\<rparr> in
      bind (getOrderOperatingCompanyId X (x_order_country X ordr) merchant) (\<lambda>company.
      ret (ordr\<lparr>order_OperatingCompanyId := company\<rparr>)))"

definition is_recurring :: "order \<Rightarrow> bool io" where
  "is_recurring ordr =
     bind (deref (order_PaymentMethod ordr)) (\<lambda>m.
     if \<not> opm_RecurringAllowed m \<or> oco_RecurringSettings (order_Carried ordr) = None then ret False
     else bind (deref (order_User ordr)) (\<lambda>u. ret (ou_Uuid u \<noteq> [])))"

text \<open>The order after the gateway has taken it; its status is stored once more.\<close>

definition in_progress :: "ext \<Rightarrow> string go_map \<Rightarrow> order \<Rightarrow> string \<Rightarrow> payment_answer \<Rightarrow> payment_answer response io" where
  "in_progress X data ordr url answer =
     step_or ResponseStatusSystemError (Some answer) (store_order X (ordr\<lparr>order_Status := OrderPublicStatusPending,
       order_PrivateStatus := OrderStatusProjectInProgress\<rparr>)) (\<lambda>_.
     ret (rsp_ok (answer\<lparr>pans_RedirectUrl := url,
       pans_NeedRedirect := \<not> (go_has data PaymentCreateFieldRecurringId \<and> url = [])\<rparr>)))"

definition pay :: "ext \<Rightarrow> gateway \<Rightarrow> string go_map \<Rightarrow> order \<Rightarrow> payment_answer \<Rightarrow> payment_answer response io" where
  "pay X h data ordr answer =
     bind (is_recurring ordr) (\<lambda>recurring.
     if recurring then
       step_or ResponseStatusSystemError (Some answer) (addRecurringSubscription X ordr h data) (\<lambda>(sub, url).
       in_progress X data (ordr\<lparr>order_Recurring := True, order_RecurringId := sub_Id sub\<rparr>) url
         (answer\<lparr>pans_RecurringExpireDate := sub_ExpireAt sub\<rparr>))
     else
       bind (gw_CreatePayment X h ordr (x_config_url X ''success'') (x_config_url X ''fail'') data) (\<lambda>(ordr, r). case r of
         Inl e \<Rightarrow> if is_message e then ret (rsp_failed ResponseStatusSystemError e (Some answer))
           else ret (rsp_failed ResponseStatusBadData orderErrorUnknown (Some answer))
       | Inr url \<Rightarrow> in_progress X data ordr url answer))"

text \<open>The order is stored before the gateway is asked, with what the tariffs of the payment will be taken by.\<close>

definition store_and_pay ::
  "ext \<Rightarrow> payment_method \<Rightarrow> string go_map \<Rightarrow> order \<Rightarrow> payment_answer \<Rightarrow> payment_answer response io" where
  "store_and_pay X pm data ordr answer =
     (let (ordr, data) = move_recurring_id X pm ordr data in
     bind (replace_err merchantErrorNotFound (merchant_GetById X (x_order_merchant_id X ordr))) (\<lambda>merchant.
     step_or ResponseStatusBadData (Some answer) (with_current_codes X ordr merchant) (\<lambda>ordr.
     bind (try_go (store_order X ordr)) (\<lambda>r. case r of
       Inl e \<Rightarrow> ret (rsp_failed ResponseStatusSystemError (if is_message e then e else orderErrorUnknown) (Some answer))
     | Inr ordr \<Rightarrow>
       bind (hasPaymentCosts X ordr) (\<lambda>found.
       if \<not> found then ret (rsp_failed ResponseStatusBadData orderErrorCostsRatesNotFound (Some answer))
       else
       bind (deref (order_PaymentMethod ordr)) (\<lambda>m. case GetGateway (opm_Handler m) of
         Inl e \<Rightarrow> ret (rsp_failed ResponseStatusSystemError e (Some answer))
       | Inr h \<Rightarrow> pay X h data ordr answer))))))"

definition charge_order ::
  "ext \<Rightarrow> payment_request \<Rightarrow> payment_method \<Rightarrow> string go_map \<Rightarrow> go_err option \<Rightarrow> order \<Rightarrow> payment_answer \<Rightarrow>
     payment_answer response io" where
  "charge_order X req pm data left ordr answer =
     step_or ResponseStatusBadData (Some answer) (price_and_reserve X left ordr) (\<lambda>ordr.
     step_or ResponseStatusSystemError (Some answer) (processOrderVat X ordr) (\<lambda>ordr.
     bind (note_ip_country X (preq_Ip req) ordr) (\<lambda>ordr.
     bind (try_go (paymentsystem_GetById X (pm_PaymentSystemId pm))) (\<lambda>r. case r of
       Inl _ \<Rightarrow> ret (rsp_failed ResponseStatusBadData orderErrorPaymentSystemInactive (Some answer))
     | Inr ps \<Rightarrow>
       step_or ResponseStatusBadData (Some answer)
         (charge_with X pm (method_of_payment pm ps\<lparr>opm_RecurringAllowed := pm_RecurringAllowed pm\<rparr>) ordr) (\<lambda>ordr.
       store_and_pay X pm data ordr answer)))))"

definition no_answer :: payment_answer where
  "no_answer = \<lparr>pans_Cookie = [], pans_RedirectUrl = [], pans_NeedRedirect = False, pans_RecurringExpireDate = None\<rparr>"

text \<open>
  A cookie that cannot be made stays empty, unless the error is a message; the error is then what is returned for an
  order without products.
\<close>

definition PaymentCreateProcess :: "ext \<Rightarrow> payment_request \<Rightarrow> payment_answer response io" where
  "PaymentCreateProcess X req =
     (if preq_Cookie req = [] then ret (rsp_failed ResponseStatusBadData orderErrorCookieIsEmpty (Some no_answer))
      else bind (try_go (decryptBrowserCookie X (preq_Cookie req))) (\<lambda>r. case r of
        Inl _ \<Rightarrow> ret (rsp_failed ResponseStatusBadData orderErrorCookieInvalid (Some no_answer))
      | Inr bc \<Rightarrow>
        step_or ResponseStatusBadData (Some no_answer) (processPaymentFormData X req) (\<lambda>(ordr, _, pm, data).
        bind (deref (order_User ordr)) (\<lambda>u.
        bind (try_go (generateBrowserCookie X (bc\<lparr>bc_CustomerId := ou_Id u\<rparr>))) (\<lambda>r.
        if (case r of Inl e \<Rightarrow> is_message e | Inr _ \<Rightarrow> False)
        then ret (rsp_failed ResponseStatusBadData (case r of Inl e \<Rightarrow> e | Inr _ \<Rightarrow> orderErrorUnknown) (Some no_answer))
        else
        let answer = no_answer\<lparr>pans_Cookie := (case r of Inl _ \<Rightarrow> [] | Inr cookie \<Rightarrow> cookie)\<rparr> in
        bind (deref (oco_CountryRestriction (order_Carried ordr))) (\<lambda>restriction.
        if \<not> cr_PaymentsAllowed restriction
        then ret (rsp_failed ResponseStatusForbidden orderCountryPaymentRestrictedError (Some answer))
        else charge_order X req pm data (case r of Inl e \<Rightarrow> Some e | Inr _ \<Rightarrow> None) ordr answer))))))"

end
