(* ===== verification/CheckoutSafety.thy ===== *)
theory CheckoutSafety
  imports PaymentCreate OrderUpdates
begin

text \<open>
  What an order that is created can be relied on: its request was signed where the project asks for it, its
  amount is within the limits of the system and of the project, and a request that no order comes of leaves no
  order behind.
\<close>

section \<open>Steps that only look things up\<close>

lemma quiet_checkout [quiet_intros]:
  "quiet (project_GetById X i)" "quiet (merchant_GetById X i)" "quiet (country_GetByIsoCodeA2 X i)"
  "quiet (priceGroup_GetById X i)" "quiet (priceGroup_GetByRegion X i)" "quiet (minLimit_GetByCurrency X i)"
  "quiet (product_GetById X i)" "quiet (keyproduct_GetById X i)" "quiet (paymentsystem_GetById X i)"
  "quiet (customerrepo_GetById X i)" "quiet (getCustomerById X i)"
  unfolding project_GetById_def merchant_GetById_def country_GetByIsoCodeA2_def priceGroup_GetById_def
    priceGroup_GetByRegion_def minLimit_GetByCurrency_def product_GetById_def keyproduct_GetById_def
    paymentsystem_GetById_def customerrepo_GetById_def getCustomerById_def
  by (intro quiet_intros)+

lemma quiet_customer_lookups [quiet_intros]:
  "quiet (getAddressByIp X ip)" "quiet (getTokenBy X t)" "quiet (decryptBrowserCookie X c)" "quiet (findCustomer X u m)"
  unfolding getAddressByIp_def getTokenBy_def decryptBrowserCookie_def findCustomer_def customerrepo_Find_def
  by (intro quiet_intros)+

lemma quiet_method_lookups [quiet_intros]:
  "quiet (methodrepo_GetById X i)" "quiet (methodrepo_GetByGroupAndCurrency X b g c)"
  unfolding methodrepo_GetById_def methodrepo_GetByGroupAndCurrency_def by (intro quiet_intros)+

lemma quiet_checks [quiet_intros]:
  "quiet (processProject X req chk)" "quiet (processMerchant X chk)" "quiet (fill_codes chk)"
  "quiet (check_signature X req chk)" "quiet (processRecurringSettings X req chk)"
  "quiet (locate_user X req chk)" "quiet (processCurrency X req ty chk)"
  unfolding processProject_def setRedirectButtonCaption_def processMerchant_def fill_codes_def check_signature_def
    processSignature_def processRecurringSettings_def locate_user_def processPayerIp_def processCurrency_def
    group_of_region_def Let_def
  by (intro quiet_intros)+

lemma quiet_process_token [quiet_intros]: "quiet (process_token X req)"
  unfolding process_token_def processCustomerToken_def Let_def by (intro quiet_intros)

lemma quiet_limits [quiet_intros]: "quiet (processLimitAmounts X chk)"
  unfolding processLimitAmounts_def limits_amount_def ExchangeAmountToPaymentMethodLimitsCurrency_def
  by (intro quiet_intros)

lemma quiet_process_method [quiet_intros]: "quiet (process_method X req chk)"
  unfolding process_method_def processPaymentMethod_def by (intro quiet_intros)

section \<open>Signatures\<close>

text \<open>The project of a request, with the caption of the redirect button that the request may set.\<close>

definition captioned :: "project \<Rightarrow> redirect_settings option \<Rightarrow> project" where
  "captioned p rs = p\<lparr>project_Carried := (project_Carried p)\<lparr>pco_RedirectSettings := rs\<rparr>\<rparr>"

lemma captioned_simps [simp]:
  "project_SignatureRequired (captioned p rs) = project_SignatureRequired p"
  "pco_SecretKey (project_Carried (captioned p rs)) = pco_SecretKey (project_Carried p)"
  "project_Id (captioned p rs) = project_Id p" "project_MerchantId (captioned p rs) = project_MerchantId p"
  "project_LimitsCurrency (captioned p rs) = project_LimitsCurrency p"
  by (simp_all add: captioned_def)

lemma found_document:
  assumes "find_one X get p s = (Inr d, t)" and "\<And>n. get (s\<lparr>w_tick := n\<rparr>) = get s"
  shows "d \<in> set (get s)" "p d"
proof -
  have "wp (find_one X get p) (\<lambda>r _. \<forall>d. r = Inr d \<longrightarrow> find p (get s) = Some d) s"
    using assms(2) by (auto simp: find_one_def split: option.split)
  then have "find p (get s) = Some d" using assms(1) by (auto simp: wp_def)
  then show "d \<in> set (get s)" "p d" by (auto simp: find_Some_iff)
qed

lemma caption_success:
  assumes "setRedirectButtonCaption c p s = (Inr p', t)"
  shows "\<exists>rs. p' = captioned p rs"
  using assms by (auto simp: setRedirectButtonCaption_def captioned_def success)

text \<open>What a request asks for: with a token its settings, and the request's own fields without one.\<close>

definition token_terms :: "world \<Rightarrow> order_request \<Rightarrow> token_settings option" where
  "token_terms w req = (if oreq_Token req = [] then None
     else map_option tok_Settings (w_customer_tokens w (token_getKey (oreq_Token req))))"

definition asked_project :: "world \<Rightarrow> order_request \<Rightarrow> string" where
  "asked_project w req = (case token_terms w req of None \<Rightarrow> oreq_ProjectId req | Some st \<Rightarrow> tset_ProjectId st)"

definition asked_amount :: "world \<Rightarrow> order_request \<Rightarrow> float64" where
  "asked_amount w req = (case token_terms w req of None \<Rightarrow> oreq_Amount req | Some st \<Rightarrow> tset_Amount st)"

definition asked_currency :: "world \<Rightarrow> order_request \<Rightarrow> string" where
  "asked_currency w req = (case token_terms w req of None \<Rightarrow> oreq_Currency req | Some st \<Rightarrow> tset_Currency st)"

lemmas asked_defs = asked_project_def asked_amount_def asked_currency_def token_terms_def

lemma found_token: "getTokenBy X tk s = (Inr t, s') \<Longrightarrow> w_customer_tokens s (token_getKey tk) = Some t"
  by (auto simp: getTokenBy_def calling_def reading_def rpc_def gets_def success split: option.splits if_splits sum.splits)

lemma request_of_token_terms:
  "oreq_ProjectId (request_of_token st req) = tset_ProjectId st" "oreq_Amount (request_of_token st req) = tset_Amount st"
  "oreq_Currency (request_of_token st req) = tset_Currency st" "oreq_Signature (request_of_token st req) = oreq_Signature req"
  "oreq_IsJson (request_of_token st req) = oreq_IsJson req" "oreq_RawBody (request_of_token st req) = oreq_RawBody req"
  "oreq_RawParams (request_of_token st req) = oreq_RawParams req"
  by (simp_all add: request_of_token_def split: option.split prod.split)

lemma token_asked:
  assumes "process_token X req w = (Inr (req', chk), t)"
  shows "oreq_ProjectId req' = asked_project w req" "oreq_Amount req' = asked_amount w req"
    "oreq_Currency req' = asked_currency w req" "oreq_Signature req' = oreq_Signature req" "signed_text req' = signed_text req"
proof -
  have "oreq_ProjectId req' = asked_project w req \<and> oreq_Amount req' = asked_amount w req \<and>
    oreq_Currency req' = asked_currency w req \<and> oreq_Signature req' = oreq_Signature req \<and> signed_text req' = signed_text req"
  proof (cases "oreq_Token req = []")
    case True
    then show ?thesis using assms by (auto simp: process_token_def success asked_defs split: if_splits)
  next
    case False
    then have run: "processCustomerToken X req no_checked w = (Inr (req', chk), t)" using assms by (simp add: process_token_def)
    then obtain tok u where tok: "getTokenBy X (oreq_Token req) w = (Inr tok, u)"
      and req': "req' = request_of_token (tok_Settings tok) req \<or>
        (\<exists>a b. req' = request_of_token (tok_Settings tok) req\<lparr>oreq_RecurringPeriod := a, oreq_RecurringDateEnd := b\<rparr>)"
      unfolding processCustomerToken_def Let_def by (auto simp: success split: if_splits)
    show ?thesis using req' found_token[OF tok] False
      by (auto simp: asked_defs request_of_token_terms signed_text_def)
  qed
  then show "oreq_ProjectId req' = asked_project w req" "oreq_Amount req' = asked_amount w req"
    "oreq_Currency req' = asked_currency w req" "oreq_Signature req' = oreq_Signature req" "signed_text req' = signed_text req"
    by simp_all
qed

lemma process_project_success:
  assumes "processProject X req chk s = (Inr chk', t)"
  obtains p rs where "p \<in> set (w_projects s)" and "project_Id p = oreq_ProjectId req"
    and "chk_project chk' = Some (captioned p rs)"
    and "\<exists>m. chk_merchant chk' = Some m \<and> merchant_Id m = project_MerchantId p"
    and "chk_currency chk' = chk_currency chk" "chk_amount chk' = chk_amount chk"
proof -
  from assms obtain p u v p' m u1 u2 where p: "project_GetById X (oreq_ProjectId req) s = (Inr p, u)"
    and m: "merchant_GetById X (project_MerchantId p) u1 = (Inr m, u2)" "chk_merchant chk' = Some m"
    and c: "(if oreq_ButtonCaption req \<noteq> []
      then setRedirectButtonCaption (oreq_ButtonCaption req) p else ret p) v = (Inr p', t)" and k: "chk_project chk' = Some p'" "chk_currency chk' = chk_currency chk"
      "chk_amount chk' = chk_amount chk"
    unfolding processProject_def by (auto simp: success)
  note f = found_document[OF p[unfolded project_GetById_def]] found_document(2)[OF m(1)[unfolded merchant_GetById_def]]
  have "\<exists>rs. p' = captioned p rs"
  proof (cases "oreq_ButtonCaption req = []")
    case True
    then have "p' = captioned p (pco_RedirectSettings (project_Carried p))"
      using c by (simp add: captioned_def run_Inr)
    then show ?thesis ..
  next
    case False then show ?thesis using c caption_success by simp
  qed
  then show thesis using that f k m(2) by auto
qed

lemma signature_checked:
  assumes "check_signature X req chk s = (Inr (), t)" and "chk_project chk = Some p"
    and "project_SignatureRequired p \<or> oreq_Signature req \<noteq> []"
  shows "oreq_Signature req = x_sha512_hex X (signed_text req @ pco_SecretKey (project_Carried p))"
  using assms by (auto simp: check_signature_def processSignature_def success split: if_splits)

text \<open>
  A computation that fails and does nothing on its way: no document is written and nothing is sent; calls have
  been made, and what they read may be cached.
\<close>

definition idle :: "world \<Rightarrow> world \<Rightarrow> bool" where
  "idle s t \<longleftrightarrow> t = s\<lparr>w_tick := w_tick t, w_cache := w_cache t\<rparr>"

definition refuses :: "'a io \<Rightarrow> world \<Rightarrow> bool" where
  "refuses m s \<longleftrightarrow> (\<exists>e t. m s = (Inl e, t) \<and> idle s t)"

lemma idle_refl [simp]: "idle s s"
  by (simp add: idle_def)

lemma idle_trans: "idle s t \<Longrightarrow> idle t u \<Longrightarrow> idle s u"
  unfolding idle_def by (cases s; cases t; cases u) simp

lemma quiet_idle: "quiet m \<Longrightarrow> m s = (r, t) \<Longrightarrow> idle s t"
  by (auto simp: idle_def dest: quietD)

lemma idle_stays: "idle s t \<Longrightarrow> w_orders t = w_orders s \<and> w_customers t = w_customers s \<and> w_sent t = w_sent s"
  unfolding idle_def by (cases s; cases t) simp

lemma quiet_stays:
  assumes "quiet m" and "m s = (r, t)"
  shows "w_projects t = w_projects s" "w_customers t = w_customers s" "w_orders t = w_orders s" "w_min_limits t = w_min_limits s"
proof -
  have t: "t = s\<lparr>w_tick := w_tick t, w_cache := w_cache t\<rparr>" using quietD[OF assms] by simp
  show "w_projects t = w_projects s" "w_customers t = w_customers s" "w_orders t = w_orders s" "w_min_limits t = w_min_limits s"
    by (subst t, simp)+
qed

lemma refuses_quiet: "quiet m \<Longrightarrow> (\<And>a t. m s \<noteq> (Inr a, t)) \<Longrightarrow> refuses m s"
  unfolding refuses_def by (cases "m s"; cases "fst (m s)") (auto intro: quiet_idle)

lemma refuses_bind:
  assumes q: "quiet m" and k: "\<And>a t. m s = (Inr a, t) \<Longrightarrow> refuses (k a) t"
  shows "refuses (bind m k) s"
proof (cases "m s")
  case (Pair r t)
  note stay = quiet_idle[OF q Pair]
  show ?thesis
  proof (cases r)
    case (Inl e) then show ?thesis using Pair stay by (simp add: refuses_def bind_def)
  next
    case (Inr a)
    have "refuses (k a) t" using k Pair Inr by simp
    then show ?thesis using Pair Inr idle_trans[OF stay] by (auto simp: refuses_def bind_def)
  qed
qed

lemma refuses_bind_first: "refuses m s \<Longrightarrow> refuses (bind m k) s"
  by (auto simp: refuses_def bind_def)

text \<open>What a handler answers when its steps fail: bad data, or an error.\<close>

lemma answering_refused:
  assumes "refuses m s" and "answering st m k s = (r, t)"
  shows "(\<forall>rsp. r = Inr rsp \<longrightarrow> rspStatus rsp = st) \<and> idle s t"
  using assms by (auto simp: refuses_def answering_def try_go_def bind_def attempt_def ret_def throw_def rsp_error_def
    split: if_splits)

definition forged_request :: "ext \<Rightarrow> order_request \<Rightarrow> project \<Rightarrow> bool" where
  "forged_request X req p \<longleftrightarrow> (project_SignatureRequired p \<or> oreq_Signature req \<noteq> []) \<and>
     oreq_Signature req \<noteq> x_sha512_hex X (signed_text req @ pco_SecretKey (project_Carried p))"

lemma fill_codes_project: "fill_codes chk s = (Inr chk', t) \<Longrightarrow> chk_project chk' = chk_project chk"
  by (auto simp: fill_codes_def success)

text \<open>C4: A request for an order of a project that asks for signatures, or that is signed, creates no order and
  no customer, stores nothing else and sends nothing, unless its signature is the hash of what is signed and of the
  project's secret, whether the request names its project itself or has a token that does. The handler answers bad
  data or returns an error.\<close>

theorem wrong_signature_creates_nothing:
  assumes run: "OrderCreateProcess X req w = (r, w')"
    and forged: "list_all (\<lambda>p. project_Id p = asked_project w req \<longrightarrow> forged_request X req p) (w_projects w)"
  shows "(\<forall>rsp. r = Inr rsp \<longrightarrow> rspStatus rsp = ResponseStatusBadData) \<and>
    w' = w\<lparr>w_tick := w_tick w', w_cache := w_cache w'\<rparr>"
proof -
  have "refuses (create_order X req) w" unfolding create_order_def
  proof (rule refuses_bind[OF quiet_process_token], clarsimp)
    fix req' chk0 w0 assume t: "process_token X req w = (Inr (req', chk0), w0)"
    note asked = token_asked[OF t]
    show "refuses (bind (processProject X req' chk0) (\<lambda>chk. bind (processMerchant X chk) (\<lambda>_. bind (fill_codes chk) (\<lambda>chk.
        bind (check_signature X req' chk) (k chk))))) w0" for k
    proof (rule refuses_bind[OF quiet_checks(1)], rule refuses_bind[OF quiet_checks(2)],
        rule refuses_bind[OF quiet_checks(3)], rule refuses_bind_first[OF refuses_quiet[OF quiet_checks(4)]])
      fix chk w1 and u :: unit and w2 chk' w3 and v :: unit and w4
      assume p: "processProject X req' chk0 w0 = (Inr chk, w1)" and f: "fill_codes chk w2 = (Inr chk', w3)"
      obtain q rs where q: "q \<in> set (w_projects w0)" "project_Id q = oreq_ProjectId req'" "chk_project chk = Some (captioned q rs)"
        using p by (rule process_project_success)
      have "forged_request X req q"
        using forged q asked(1) quiet_stays(1)[OF quiet_process_token t] by (simp add: list_all_iff)
      then show "check_signature X req' chk' w3 \<noteq> (Inr v, w4)"
        using signature_checked[of X req' chk' w3 w4 "captioned q rs"] fill_codes_project[OF f] q(3) asked(4,5)
        by (auto simp: forged_request_def)
    qed
  qed
  then show ?thesis using answering_refused run unfolding OrderCreateProcess_def idle_def by blast
qed

definition shop_project :: project where
  "shop_project = \<lparr>project_Id = sample_hex 3, project_MerchantId = sample_hex 2, project_Name = [(''en'', ''Game'')],
     project_VirtualCurrency = None, project_Carried = no_project_carried\<lparr>pco_SecretKey := ''secret''\<rparr>,
     project_AllowDynamicNotifyUrls = False, project_AllowDynamicRedirectUrls = False, project_SignatureRequired = True,
     project_LimitsCurrency = ''EUR'', project_MinPaymentAmount = Fin 1, project_MaxPaymentAmount = Fin 200,
     project_VatPayer = VatPayerNobody, project_WebhookMode = []\<rparr>"

definition shop_world :: world where
  "shop_world = empty_world\<lparr>w_projects := [shop_project], w_merchants := [sample_merchant], w_countries := [sample_country],
     w_min_limits := [\<lparr>pml_Id = [], pml_Currency = ''EUR'', pml_Amount = Fin 1\<rparr>]\<rparr>"

definition shop_request :: order_request where
  "shop_request = no_request\<lparr>oreq_ProjectId := sample_hex 3, oreq_Amount := Fin 10, oreq_Currency := ''EUR'',
     oreq_Type := OrderType_simple, oreq_Signature := ''forged''\<rparr>"

text \<open>The same shop with a token for its project.\<close>

definition token_world :: world where
  "token_world = shop_world\<lparr>w_customer_tokens := [token_getKey ''t'' \<mapsto> \<lparr>tok_CustomerId = sample_hex 5,
     tok_User = no_token_user, tok_Settings = \<lparr>tset_ProjectId = sample_hex 3, tset_ReturnUrl = None, tset_Currency = ''EUR'',
       tset_Amount = Fin 10, tset_PaymentMethod = [], tset_Description = [], tset_ProductsIds = [], tset_Metadata = None,
       tset_PlatformId = [], tset_Type = OrderType_simple, tset_ButtonCaption = [], tset_RecurringPeriod = [],
       tset_RecurringDateEnd = []\<rparr>\<rparr>]\<rparr>"

theorem wrong_signature_creates_nothing_witness:
  "w_orders (snd (OrderCreateProcess sample_ext shop_request shop_world)) = [] \<and>
    w_orders (snd (OrderCreateProcess sample_ext (no_request\<lparr>oreq_Token := ''t'', oreq_Signature := ''forged''\<rparr>) token_world)) = []"
proof -
  have "list_all (\<lambda>p. project_Id p = asked_project shop_world shop_request \<longrightarrow> forged_request sample_ext shop_request p) (w_projects shop_world)"
    by (simp add: shop_world_def shop_request_def no_request_def forged_request_def shop_project_def sample_ext_def)
  note plain = wrong_signature_creates_nothing[OF surjective_pairing this]
  let ?r = "no_request\<lparr>oreq_Token := ''t'', oreq_Signature := ''forged''\<rparr>"
  have "list_all (\<lambda>p. project_Id p = asked_project token_world ?r \<longrightarrow> forged_request sample_ext ?r p) (w_projects token_world)"
    by (simp add: token_world_def shop_world_def no_request_def forged_request_def shop_project_def sample_ext_def)
  note token = wrong_signature_creates_nothing[OF surjective_pairing this]
  show ?thesis using idle_stays[unfolded idle_def, OF conjunct2[OF plain]] idle_stays[unfolded idle_def, OF conjunct2[OF token]]
    by (simp add: token_world_def shop_world_def empty_world_def)
qed

section \<open>Customers of a request\<close>

text \<open>What the customers are changed for: an invariant that looks at no call and no customer.\<close>

definition customer_stable :: "(world \<Rightarrow> bool) \<Rightarrow> bool" where
  "customer_stable I \<longleftrightarrow> calm I \<and> (\<forall>s f. I s \<longrightarrow> I (w_customers_update f s))"

lemma quiet_map_customer [quiet_intros]: "quiet (customer_to_mgo X c)"
  unfolding customer_to_mgo_def by (intro quiet_intros)

lemma quiet_processCustomer [quiet_intros]: "quiet (processCustomer X user m p c)"
  unfolding processCustomer_def process_identities_def add_identity_def process_ip_def process_locale_def
    process_address_def process_browser_def process_activity_def Let_def
  by (intro quiet_intros)

lemma keeps_customers:
  assumes I: "customer_stable I"
  shows "keeps I (createCustomer X user m p)" "keeps I (updateCustomer X user m p c)"
proof -
  have c: "calm I" and u: "\<And>s f. I s \<Longrightarrow> I (w_customers_update f s)" using I by (simp_all add: customer_stable_def)
  note q = keeps_quiet[OF c] and w = keeps_written[where upd = w_customers_update, OF c u]
  have i: "keeps I (customerrepo_Insert X c)" for c
    unfolding customerrepo_Insert_def repo_insert_def by (intro keeps_bind q[OF quiet_map_customer] w)
  have r: "keeps I (customerrepo_Update X c)" for c
    unfolding customerrepo_Update_def repo_update_def
    by (intro keeps_bind q[OF quiet_map_customer] q[OF quiet_pure(3)] w)
  have "keeps I (case r of Inl _ \<Rightarrow> throw tokenErrorUnknown | Inr _ \<Rightarrow> ret (a, c))" for r :: "go_err + unit" and a and c :: customer
    by (intro keeps_sum keeps_pure)
  note ends = keeps_bind[OF keeps_effects(2)[OF i] this] keeps_bind[OF keeps_effects(2)[OF r] this]
  show "keeps I (createCustomer X user m p)" unfolding createCustomer_def
    by (intro keeps_bind q[OF quiet_calls(4)] q[OF quiet_calls(1)] q[OF quiet_calls(6)] q[OF quiet_processCustomer])
       (auto simp: split_beta intro: ends)
  show "keeps I (updateCustomer X user m p c)" unfolding updateCustomer_def
    by (intro keeps_bind q[OF quiet_processCustomer]) (auto simp: split_beta intro: ends)
qed

lemma keeps_processUserData:
  assumes I: "customer_stable I" shows "keeps I (processUserData X req chk)"
proof -
  have c: "calm I" using I by (simp add: customer_stable_def)
  show ?thesis unfolding processUserData_def Let_def
    by (intro keeps_bind keeps_effects keeps_if keeps_option keeps_pure keeps_quiet[OF c quiet_customer_lookups(4)]
        keeps_customers[OF I]) (auto simp: split_beta intro: keeps_pure)
qed

text \<open>With a token the customer that is updated is an empty one, whose activities are a nil map.\<close>

lemma empty_customer_panics: "yields (processCustomer X user m p zero_customer) (\<lambda>_. False)"
proof -
  have id: "yields (add_identity X m p ty v b c) (\<lambda>c'. cust_PaymentActivity c' = cust_PaymentActivity c)" for ty v b c
    unfolding add_identity_def by (intro yields_bind_any yields_pure) simp
  let ?nil = "\<lambda>c. cust_PaymentActivity c = None"
  have i: "yields (process_identities X user m p zero_customer) ?nil"
    unfolding process_identities_def
    by (intro yields_bind[where Q = ?nil] yields_cases yields_pure)
       (auto simp: yields_def zero_customer_def dest!: yieldsD[OF id] split: if_splits)
  have ip: "yields (process_ip X user c) (\<lambda>(_, c). ?nil c)" if "?nil c" for user c
    unfolding process_ip_def Let_def using that by (intro yields_cases yields_pure yields_bind_any) (simp_all add: yields_pure)
  have l: "yields (process_locale X user c) ?nil" if "?nil c" for user c
    unfolding process_locale_def using that by (intro yields_cases yields_pure yields_bind_any) (simp_all add: yields_pure)
  have a: "yields (process_address X user c) ?nil" if "?nil c" for user c
    unfolding process_address_def Let_def using that by (intro yields_cases yields_pure yields_bind_any) (simp_all add: yields_pure)
  have b: "yields (process_browser X user c) ?nil" if "?nil c" for user c
    unfolding process_browser_def Let_def using that by (intro yields_cases yields_pure yields_bind_any) (simp_all add: yields_pure)
  have e: "yields (process_activity X m c) (\<lambda>_. False)" if "?nil c" for c
    unfolding process_activity_def using that by (auto simp: yields_def success)
  show ?thesis unfolding processCustomer_def Let_def
    by (rule yields_bind[OF i], rule yields_bind[OF ip], simp split: option.split, clarsimp,
        (rule yields_bind[OF l] yields_bind[OF a] yields_bind[OF b] yields_bind[OF e], assumption)+, simp)
qed

lemma user_with_token_panics: "oreq_Token req \<noteq> [] \<Longrightarrow> yields (processUserData X req chk) (\<lambda>_. False)"
proof -
  assume t: "oreq_Token req \<noteq> []"
  have u: "yields (updateCustomer X user m p zero_customer) (\<lambda>_. False)" for user m p
    unfolding updateCustomer_def by (rule yields_bind[OF empty_customer_panics]) simp
  have "yields (bind (updateCustomer X user m p zero_customer) k) (\<lambda>_. False)" for user m p k
    by (rule yields_bind[OF u]) simp
  note h = this
  show ?thesis unfolding processUserData_def Let_def by (rule yields_bind_any, rule yields_bind_any) (simp add: t h)
qed

lemma request_of_token_kept [simp]:
  "oreq_Token (request_of_token st req) = oreq_Token req" "oreq_User (request_of_token st req) = oreq_User req"
  by (simp_all add: request_of_token_def split: option.split prod.split)

lemma yields_token: "yields (process_token X req) (\<lambda>(req', _). oreq_Token req' = oreq_Token req \<and> oreq_User req' = oreq_User req)"
  unfolding process_token_def processCustomerToken_def Let_def
  by (intro yields_cases yields_bind_any yields_pure) simp_all

text \<open>The orders, which nothing before the end of the creation touches.\<close>

definition orders_are :: "mgo_order list \<Rightarrow> world \<Rightarrow> bool" where
  "orders_are ds s \<longleftrightarrow> w_orders s = ds"

lemma orders_are_stable: "customer_stable (orders_are ds)"
  by (simp add: customer_stable_def calm_def orders_are_def)

lemma orders_are_calm: "calm (orders_are ds)"
  using orders_are_stable by (simp add: customer_stable_def)

lemma keeps_after: "keeps I m \<Longrightarrow> yields m (\<lambda>_. False) \<Longrightarrow> keeps I (bind m k)"
  by (rule keeps_bind_yields[where P = "\<lambda>_. False"]) auto

lemma steps_to_user:
  assumes I: "calm I" and m: "\<And>chk. keeps I (m chk)" "\<And>chk. yields (m chk) (\<lambda>_. False)"
  shows "keeps I (bind (processProject X req chk0) (\<lambda>chk. bind (processMerchant X chk) (\<lambda>_. bind (fill_codes chk) (\<lambda>chk.
      bind (check_signature X req chk) (\<lambda>_. bind (case type_allows req of None \<Rightarrow> ret () | Some e \<Rightarrow> throw e) (\<lambda>_.
      bind (m chk) k))))))" (is ?keeps)
    and "yields (bind (processProject X req chk0) (\<lambda>chk. bind (processMerchant X chk) (\<lambda>_. bind (fill_codes chk) (\<lambda>chk.
      bind (check_signature X req chk) (\<lambda>_. bind (case type_allows req of None \<Rightarrow> ret () | Some e \<Rightarrow> throw e) (\<lambda>_.
      bind (m chk) k)))))) (\<lambda>_. False)" (is ?yields)
proof -
  note q = keeps_quiet[OF I]
  show ?keeps by (intro keeps_bind[OF q[OF quiet_checks(1)]] keeps_bind[OF q[OF quiet_checks(2)]] keeps_bind[OF q[OF quiet_checks(3)]]
    keeps_bind[OF q[OF quiet_checks(4)]] keeps_bind[OF keeps_option[OF keeps_pure(1) keeps_pure(2)]] keeps_after m)
  have "yields (bind (m chk) k) (\<lambda>_. False)" for chk by (rule yields_bind[OF m(2)]) simp
  note h = this
  show ?yields by (rule yields_bind_any, rule yields_bind_any, rule yields_bind_any, rule yields_bind_any,
    rule yields_bind_any, rule h)
qed

text \<open>A request that has a token and a user of its own never gets an order: the step that updates the customer
  works on an empty one and panics, after everything before it has been checked.\<close>

theorem token_with_user_panics:
  assumes run: "OrderCreateProcess X req w = (r, w')" and both: "oreq_Token req \<noteq> []" "oreq_User req \<noteq> None"
  shows "(\<forall>rsp. r = Inr rsp \<longrightarrow> rspStatus rsp = ResponseStatusBadData) \<and> w_orders w' = w_orders w"
proof -
  note q = keeps_quiet[OF orders_are_calm]
  let ?m = "\<lambda>req chk. if oreq_User req \<noteq> None then processUserData X req chk else ret chk"
  have last: "yields (?m req' chk) (\<lambda>_. False)" "keeps (orders_are ds) (?m req' chk)"
    if "oreq_Token req' = oreq_Token req \<and> oreq_User req' = oreq_User req" for req' chk ds
    using that both user_with_token_panics keeps_processUserData[OF orders_are_stable] by auto
  have k: "keeps (orders_are (w_orders w)) (create_order X req)" unfolding create_order_def
  proof (rule keeps_bind_yields[OF q[OF quiet_process_token] yields_token])
    fix a :: "order_request \<times> order_checked"
    assume "case a of (req', _) \<Rightarrow> oreq_Token req' = oreq_Token req \<and> oreq_User req' = oreq_User req"
    then have h: "oreq_Token (fst a) = oreq_Token req \<and> oreq_User (fst a) = oreq_User req" by (simp add: case_prod_beta)
    show "keeps (orders_are (w_orders w)) (case a of (req, chk) \<Rightarrow> bind (processProject X req chk) (\<lambda>chk.
        bind (processMerchant X chk) (\<lambda>_. bind (fill_codes chk) (\<lambda>chk. bind (check_signature X req chk) (\<lambda>_.
        bind (case type_allows req of None \<Rightarrow> ret () | Some e \<Rightarrow> throw e) (\<lambda>_. bind (?m req chk) (k req)))))))" for k
      unfolding case_prod_beta by (rule steps_to_user(1)[OF orders_are_calm last(2)[OF h] last(1)[OF h]])
  qed
  have y: "yields (create_order X req) (\<lambda>_. False)" unfolding create_order_def
  proof (rule yields_bind[OF yields_token])
    fix a :: "order_request \<times> order_checked"
    assume "case a of (req', _) \<Rightarrow> oreq_Token req' = oreq_Token req \<and> oreq_User req' = oreq_User req"
    then have h: "oreq_Token (fst a) = oreq_Token req \<and> oreq_User (fst a) = oreq_User req" by (simp add: case_prod_beta)
    show "yields (case a of (req, chk) \<Rightarrow> bind (processProject X req chk) (\<lambda>chk.
        bind (processMerchant X chk) (\<lambda>_. bind (fill_codes chk) (\<lambda>chk. bind (check_signature X req chk) (\<lambda>_.
        bind (case type_allows req of None \<Rightarrow> ret () | Some e \<Rightarrow> throw e) (\<lambda>_. bind (?m req chk) (k req))))))) (\<lambda>_. False)" for k
      unfolding case_prod_beta by (rule steps_to_user(2)[OF orders_are_calm last(2)[OF h] last(1)[OF h]])
  qed
  obtain r1 t where m: "create_order X req w = (r1, t)" by (cases "create_order X req w")
  have "w_orders t = w_orders w" using keepsD[OF k _ m] by (simp add: orders_are_def)
  moreover have "\<exists>e. r1 = Inl e" using yieldsD[OF y] m by (cases r1) auto
  ultimately show ?thesis
    using run m \<open>w_orders t = w_orders w\<close> unfolding OrderCreateProcess_def answering_def
    by (auto simp: try_go_def bind_def attempt_def ret_def throw_def rsp_error_def split: if_splits)
qed

theorem token_with_user_panics_witness:
  "w_orders (snd (OrderCreateProcess sample_ext (no_request\<lparr>oreq_Token := ''t'', oreq_User := Some no_user\<rparr>) token_world)) = []"
  using token_with_user_panics[of sample_ext "no_request\<lparr>oreq_Token := ''t'', oreq_User := Some no_user\<rparr>" token_world,
    OF surjective_pairing] by (simp add: token_world_def shop_world_def empty_world_def)

section \<open>Limits\<close>

text \<open>What the later steps leave of what has been checked.\<close>

definition checked_price :: "order_checked \<Rightarrow> project option \<times> merchant option \<times> string \<times> float64" where
  "checked_price chk = (chk_project chk, chk_merchant chk, chk_currency chk, chk_amount chk)"

lemma checked_price_simps [simp]:
  "checked_price (chk\<lparr>chk_paymentMethod := m\<rparr>) = checked_price chk"
  "checked_price (chk\<lparr>chk_recurringPeriod := a, chk_recurringInterval := b, chk_recurringDateEnd := c\<rparr>) = checked_price chk"
  by (simp_all add: checked_price_def)

definition checked_for :: "order_checked \<Rightarrow> project option \<times> merchant option" where
  [simp]: "checked_for chk = (chk_project chk, chk_merchant chk)"

lemma yields_project:
  "yields (fill_codes chk) (\<lambda>c. checked_for c = checked_for chk)"
  "yields (processUserData X req chk) (\<lambda>c. checked_for c = checked_for chk)"
  "yields (locate_user X req chk) (\<lambda>c. checked_for c = checked_for chk)"
  "yields (processCurrency X req ty chk) (\<lambda>c. checked_for c = checked_for chk)"
proof -
  show "yields (fill_codes chk) (\<lambda>c. checked_for c = checked_for chk)"
    unfolding fill_codes_def by (intro yields_bind_any yields_pure) simp
  show "yields (processUserData X req chk) (\<lambda>c. checked_for c = checked_for chk)"
    unfolding processUserData_def Let_def by (intro yields_bind_any yields_cases yields_pure) simp
  have ip: "yields (processPayerIp X chk) (\<lambda>c. checked_for c = checked_for chk)"
    unfolding processPayerIp_def by (intro yields_bind_any yields_pure) simp
  have rest: "yields (bind (try_go (decryptBrowserCookie X (oreq_Cookie req))) (\<lambda>r. case r of Inl _ \<Rightarrow> ret c
      | Inr b \<Rightarrow> ret (c\<lparr>chk_user := map_option (restored_address b) (chk_user c)\<rparr>))) (\<lambda>c. checked_for c = checked_for chk)"
    if "checked_for c = checked_for chk" for c
    using that by (intro yields_bind_any yields_cases yields_pure) simp_all
  show "yields (locate_user X req chk) (\<lambda>c. checked_for c = checked_for chk)"
    unfolding locate_user_def by (intro yields_cases yields_pure yields_bind[OF ip] rest) simp_all
  have g: "yields (group_of_region X c) (\<lambda>c'. checked_for c' = checked_for c)" for c
    unfolding group_of_region_def by (intro yields_bind_any yields_cases yields_pure) simp_all
  have m: "yields (group_of_region X c) (\<lambda>c'. checked_for c' = checked_for chk)" if "checked_for c = checked_for chk" for c
    using g[of c] that by simp
  show "yields (processCurrency X req ty chk) (\<lambda>c. checked_for c = checked_for chk)"
    unfolding processCurrency_def Let_def by (intro yields_cases yields_pure yields_bind_any m) simp_all
qed

lemma yields_price:
  "yields (process_method X req chk) (\<lambda>c. checked_price c = checked_price chk)"
  "yields (processRecurringSettings X req chk) (\<lambda>c. checked_price c = checked_price chk)"
  unfolding process_method_def processPaymentMethod_def processRecurringSettings_def Let_def
  by (intro yields_cases yields_pure yields_bind_any; simp)+

lemma yields_group: "yields (group_of_region X chk) (\<lambda>c. chk_currency c = chk_currency chk)"
  unfolding group_of_region_def by (intro yields_bind_any yields_cases yields_pure) simp_all

lemma positive: "\<not> fle a 0 \<longleftrightarrow> a = NaN \<or> flt 0 a"
  by (cases a) (auto simp: fle_def zero_float64_def)

lemma not_le_zero: "\<not> fle a 0 \<Longrightarrow> \<not> is_zero a"
  by (cases a) (auto simp: is_zero_def fle_def zero_float64_def)

text \<open>
  An amount within the limits of a project that has some: in the currency of the limits, changed at the rates of
  the project's merchant unless they are in the currency of the amount or in none, it is not below the least
  payment, nor above the greatest one where that is given.
\<close>

definition within_limits_of :: "ext \<Rightarrow> project \<Rightarrow> string \<Rightarrow> float64 \<Rightarrow> bool" where
  "within_limits_of X p currency amount \<longleftrightarrow>
     (\<exists>limited. (if project_LimitsCurrency p = [] \<or> project_LimitsCurrency p = currency then limited = amount
        else \<exists>n. x_exchange_merchant X n (project_MerchantId p) \<lparr>ex_From = currency, ex_To = project_LimitsCurrency p,
          ex_RateType = RateTypeOxr, ex_Direction = ExchangeDirectionSell, ex_Source = [], ex_Amount = amount,
          ex_Datetime = None\<rparr> = Inr limited) \<and>
      (x_project_has_limits X p \<longrightarrow> \<not> flt limited (project_MinPaymentAmount p) \<and>
        (flt 0 (project_MaxPaymentAmount p) \<longrightarrow> \<not> flt (project_MaxPaymentAmount p) limited)))"

lemma limits_success:
  assumes "processLimitAmounts X chk s = (Inr (), t)" and "chk_project chk = Some p"
    and "chk_merchant chk = Some m" "merchant_Id m = project_MerchantId p"
  obtains l where "l \<in> set (w_min_limits s)" and "pml_Currency l = chk_currency chk" and "\<not> flt (chk_amount chk) (pml_Amount l)"
    and "within_limits_of X p (chk_currency chk) (chk_amount chk)"
proof -
  from assms obtain l u a v v' where l: "minLimit_GetByCurrency X (chk_currency chk) s = (Inr l, u)"
    and f: "\<not> flt (chk_amount chk) (pml_Amount l)" and a: "limits_amount X p chk v = (Inr a, v')"
    and w: "within_project_limits X p a = Inr ()"
    unfolding processLimitAmounts_def by (auto simp: success)
  have "if project_LimitsCurrency p = [] \<or> project_LimitsCurrency p = chk_currency chk then a = chk_amount chk
      else \<exists>n. x_exchange_merchant X n (project_MerchantId p) \<lparr>ex_From = chk_currency chk, ex_To = project_LimitsCurrency p,
        ex_RateType = RateTypeOxr, ex_Direction = ExchangeDirectionSell, ex_Source = [], ex_Amount = chk_amount chk,
        ex_Datetime = None\<rparr> = Inr a"
    using a assms(3,4) by (auto simp: limits_amount_def success rpc_def)
  then have "within_limits_of X p (chk_currency chk) (chk_amount chk)"
    using w unfolding within_limits_of_def within_project_limits_def by (intro exI[of _ a]) (auto split: if_splits)
  then show thesis using that found_document[OF l[unfolded minLimit_GetByCurrency_def]] f by auto
qed

section \<open>The amount of a new order\<close>

definition order_price :: "order \<Rightarrow> string \<times> string \<times> float64 \<times> string" where
  "order_price ordr = (order_ProjectId ordr, order_Currency ordr, order_OrderAmount ordr, order_ProductType ordr)"

lemma taxed_price: "taxed X rate ordr = Inr o' \<Longrightarrow> order_price o' = order_price ordr"
  by (auto simp: taxed_def order_price_def Let_def split: if_splits)

lemma with_tax_price [simp]: "order_price (with_tax ty ordr) = order_price ordr"
  by (simp add: with_tax_def order_price_def)

lemma yields_vat: "yields (processOrderVat X ordr) (\<lambda>o'. order_price o' = order_price ordr)"
proof -
  have t: "yields (lift (taxed X rate (with_tax ty ordr))) (\<lambda>o'. order_price o' = order_price ordr)" for rate ty
    by (auto simp: yields_def success dest: taxed_price)
  show ?thesis unfolding processOrderVat_def Let_def by (intro yields_cases yields_pure yields_bind_any t) simp_all
qed

lemma restriction_price [simp]:
  "order_price (set_restriction r ordr) = order_price ordr" "order_price (require_address ordr) = order_price ordr"
  by (simp_all add: set_restriction_def require_address_def order_price_def)

lemma yields_restriction: "yields (applyCountryRestriction X ordr c) (\<lambda>(o', b). b \<or> order_price o' = order_price ordr)"
  unfolding applyCountryRestriction_def Let_def
  by (intro yields_cases yields_bind_any yields_pure) (simp_all add: yields_pure split: prod.split)

lemma yields_for_user: "yields (order_for_user X req ordr) (\<lambda>o'. order_price o' = order_price ordr)"
proof -
  have u: "order_price (ordr\<lparr>order_User := u\<rparr>) = order_price ordr" for u by (simp add: order_price_def)
  have r: "yields (bind (applyCountryRestriction X o1 c) (\<lambda>(o', restricted).
      if restricted then throw orderCountryPaymentRestrictedError else ret o')) (\<lambda>o'. order_price o' = order_price ordr)"
    if "order_price o1 = order_price ordr" for o1 c
    by (rule yields_bind[OF yields_restriction]) (use that in \<open>auto simp: yields_def success\<close>)
  show ?thesis unfolding order_for_user_def
    by (intro yields_cases yields_pure yields_bind[OF yields_vat] r) (simp_all add: u)
qed

lemma urls_price [simp]: "order_price (order_with_urls req ordr) = order_price ordr"
  by (simp add: order_with_urls_def order_price_def Let_def)

lemma yields_method: "yields (order_with_method X chk ordr) (\<lambda>o'. order_price o' = order_price ordr)"
proof -
  have m: "order_price (ordr\<lparr>order_PaymentMethod := u\<rparr>) = order_price ordr" for u by (simp add: order_price_def)
  show ?thesis unfolding order_with_method_def Let_def by (intro yields_cases yields_pure yields_bind_any) (simp_all add: m)
qed

lemma prepared_order:
  assumes "prepareOrder X req chk s = (Inr ordr, t)" and "chk_project chk = Some p"
  shows "order_price ordr = (project_Id p, chk_currency chk, FormatAmount X (chk_amount chk) (chk_currency chk), oreq_Type req)"
proof -
  from assms obtain o1 o2 m i c u1 u2 v1 v1' v2 v2' where
      f: "order_for_user X req (new_order X req chk p m i c u1 u2) v1 = (Inr o1, v1')"
    and w: "order_with_method X chk (order_with_urls req o1) v2 = (Inr o2, v2')"
    and l: "order_price ordr = order_price o2"
    unfolding prepareOrder_def by (auto simp: success order_price_def Let_def)
  have "order_price ordr = order_price o1" using l yieldsD[OF yields_method w] by simp
  also have "\<dots> = order_price (new_order X req chk p m i c u1 u2)" by (rule yieldsD[OF yields_for_user f])
  finally show ?thesis by (simp add: order_price_def new_order_def Let_def)
qed

text \<open>The collections that the limits are read from.\<close>

definition limits_are :: "project list \<Rightarrow> payment_min_limit list \<Rightarrow> world \<Rightarrow> bool" where
  "limits_are ps ls s \<longleftrightarrow> w_projects s = ps \<and> w_min_limits s = ls"

lemma limits_are_stable: "customer_stable (limits_are ps ls)"
  by (simp add: customer_stable_def calm_def limits_are_def)

lemma limits_are_calm: "calm (limits_are ps ls)"
  using limits_are_stable by (simp add: customer_stable_def)

lemma yields_try: "yields m P \<Longrightarrow> yields (try_go m) (\<lambda>r. \<forall>a. r = Inr a \<longrightarrow> P a)"
  by (fastforce simp: yields_def try_go_success)

lemma yields_type: "yields (process_type X req chk) (\<lambda>(req', _). oreq_Type req' = oreq_Type req)"
proof -
  have k: "yields (processPaylinkKeyProducts X req chk) (\<lambda>(req', _). oreq_Type req' = oreq_Type req)"
    unfolding processPaylinkKeyProducts_def
    by (intro yields_bind_any yields_cases yields_pure) (auto split: list.split)
  have e: "yields (case r of Inl e \<Rightarrow> bind (notify_paylink X (oreq_PrivateMetadata req) e) (\<lambda>_. throw e)
      | Inr (req, chk) \<Rightarrow> ret (req, chk)) (\<lambda>(req', _). oreq_Type req' = oreq_Type req)"
    if "\<forall>a. r = Inr a \<longrightarrow> (case a of (req', _) \<Rightarrow> oreq_Type req' = oreq_Type req)" for r :: "go_err + order_request \<times> order_checked"
    using that by (cases r) (auto intro!: yields_bind_any yields_pure)
  show ?thesis unfolding process_type_def
    by (intro yields_cases yields_pure yields_bind[OF yields_try[OF k]] e yields_bind_any) simp_all
qed

lemma created_order_run:
  assumes run: "create_order X req w = (Inr ordr, w')" and simple: "order_ProductType ordr = OrderType_simple"
  obtains p rs l where "p \<in> set (w_projects w)" "project_Id p = asked_project w req" "order_ProjectId ordr = asked_project w req"
    and "order_Currency ordr = asked_currency w req"
    and "order_OrderAmount ordr = FormatAmount X (asked_amount w req) (asked_currency w req)"
    and "l \<in> set (w_min_limits w)" "pml_Currency l = asked_currency w req"
    and "\<not> flt (asked_amount w req) (pml_Amount l)" "\<not> fle (asked_amount w req) 0"
    and "within_limits_of X (captioned p rs) (asked_currency w req) (asked_amount w req)"
proof -
  let ?user = "\<lambda>req chk. if oreq_User req \<noteq> None then processUserData X req chk else ret chk"
  obtain req1 chk0 w0 chk1 w1 w2 chk2 w3 w4 w5 chk3 w6 chk4 w7 chk5 w8 req2 chk6 w9 chk7 w10 w11 chk8 w12 w13 where
    t: "process_token X req w = (Inr (req1, chk0), w0)" and p: "processProject X req1 chk0 w0 = (Inr chk1, w1)"
    and m: "processMerchant X chk1 w1 = (Inr (), w2)" and f: "fill_codes chk1 w2 = (Inr chk2, w3)"
    and g: "check_signature X req1 chk2 w3 = (Inr (), w4)"
    and ty: "(case type_allows req1 of None \<Rightarrow> ret () | Some e \<Rightarrow> throw e) w4 = (Inr (), w5)"
    and u: "?user req1 chk2 w5 = (Inr chk3, w6)" and l: "locate_user X req1 chk3 w6 = (Inr chk4, w7)"
    and c: "processCurrency X req1 (oreq_Type req1) chk4 w7 = (Inr chk5, w8)"
    and pt: "process_type X req1 chk5 w8 = (Inr (req2, chk6), w9)" and pm: "process_method X req2 chk6 w9 = (Inr chk7, w10)"
    and li: "(if oreq_Type req2 = OrderType_simple then processLimitAmounts X chk7 else ret ()) w10 = (Inr (), w11)"
    and re: "processRecurringSettings X req2 chk7 w11 = (Inr chk8, w12)"
    and pr: "prepareOrder X req2 (chk8\<lparr>chk_metadata := oreq_Metadata req2, chk_privateMetadata := oreq_PrivateMetadata req2\<rparr>) w12 =
      (Inr ordr, w13)"
    using run unfolding create_order_def
    by (auto simp: bind_Inr run_pair run_Inr run_case simp del: not_None_eq split: sum.splits cong: if_cong)
  obtain q rs m0 where q: "q \<in> set (w_projects w0)" "project_Id q = oreq_ProjectId req1" "chk_project chk1 = Some (captioned q rs)"
    and m0: "chk_merchant chk1 = Some m0" "merchant_Id m0 = project_MerchantId q"
    using p by (rule process_project_success) blast
  have "checked_for chk3 = checked_for chk2"
    using u yieldsD[OF yields_project(2)] by (auto simp: run_Inr simp del: not_None_eq split: if_splits)
  then have p5: "chk_project chk5 = Some (captioned q rs)" "chk_merchant chk5 = Some m0"
    using yieldsD[OF yields_project(1) f] yieldsD[OF yields_project(3) l] yieldsD[OF yields_project(4) c] q(3) m0(1) by simp_all
  have p7: "checked_price chk7 = checked_price chk6" and p8: "checked_price chk8 = checked_price chk6"
    using yieldsD[OF yields_price(1) pm] yieldsD[OF yields_price(2) re] by simp_all
  have ty2: "oreq_Type req2 = oreq_Type req1" using yieldsD[OF yields_type pt] by simp
  let ?a = "oreq_Amount req1"
  have pr8: "\<exists>p. chk_project chk8 = Some p" using pr unfolding prepareOrder_def by (auto simp: success)
  then obtain p where "chk_project (chk8\<lparr>chk_metadata := oreq_Metadata req2, chk_privateMetadata := oreq_PrivateMetadata req2\<rparr>) = Some p"
    by auto
  note price = prepared_order[OF pr this]
  then have simple1: "oreq_Type req1 = OrderType_simple" using simple ty2 by (simp add: order_price_def)
  have pos: "\<not> fle ?a 0" using ty simple1 by (auto simp: type_allows_def run_Inr split: if_splits)
  have c6: "checked_price chk6 = (Some (captioned q rs), Some m0, chk_currency chk5, ?a)"
    using pt simple1 not_le_zero[OF pos] p5 by (simp add: process_type_def run_Inr checked_price_def)
  have c7: "chk_project chk7 = Some (captioned q rs)" "chk_merchant chk7 = Some m0" "chk_currency chk7 = chk_currency chk5" "chk_amount chk7 = ?a"
    and c8: "chk_project chk8 = Some (captioned q rs)" "chk_currency chk8 = chk_currency chk5" "chk_amount chk8 = ?a"
    using p7 p8 c6 by (simp_all add: checked_price_def)
  have o: "order_ProjectId ordr = project_Id q" "order_Currency ordr = chk_currency chk5"
      "order_OrderAmount ordr = FormatAmount X ?a (chk_currency chk5)"
    using prepared_order[OF pr, of "captioned q rs"] c8 by (simp_all add: order_price_def)
  have li': "processLimitAmounts X chk7 w10 = (Inr (), w11)" using li ty2 simple1 by simp
  obtain lim where lim: "lim \<in> set (w_min_limits w10)" "pml_Currency lim = chk_currency chk5" "\<not> flt ?a (pml_Amount lim)"
    "within_limits_of X (captioned q rs) (chk_currency chk5) ?a"
    using limits_success[OF li' c7(1,2)] m0(2) c7 by auto
  have c5: "chk_currency chk5 = oreq_Currency req1"
    using c simple1 yieldsD[OF yields_group] by (auto simp: processCurrency_def success split: if_splits)
  let ?I = "limits_are (w_projects w) (w_min_limits w)"
  note go = keepsD[OF keeps_quiet[OF limits_are_calm]]
  have w0: "?I w0" using go[OF quiet_process_token _ t] by (simp add: limits_are_def)
  note w3 = go[OF quiet_checks(3) go[OF quiet_checks(2) go[OF quiet_checks(1) w0 p] m] f]
  have "keeps ?I (case type_allows req1 of None \<Rightarrow> ret () | Some e \<Rightarrow> throw e)" by (intro keeps_option keeps_pure)
  note w5 = keepsD[OF this go[OF quiet_checks(4) w3 g] ty]
  have "keeps ?I (?user req1 chk2)" using keeps_processUserData[OF limits_are_stable] by (auto intro: keeps_pure)
  note w8 = go[OF quiet_checks(7) go[OF quiet_checks(6) keepsD[OF this w5 u] l] c]
  have "w9 = w8" using pt simple1 by (simp add: process_type_def run_Inr)
  then have "?I w10" using go[OF quiet_process_method _ pm] w8 by simp
  then have stays: "q \<in> set (w_projects w)" "lim \<in> set (w_min_limits w)" using q(1) lim(1) w0 by (simp_all add: limits_are_def)
  note asked = token_asked[OF t]
  show thesis by (rule that[of q lim rs]) (use stays q(2) o lim pos c5 asked(1-3) in simp_all)
qed

text \<open>C7: A simple order that is created is of the project and in the currency that the request, or the settings of
  its token, ask for, and costs the amount asked for, as it is written in the currency. As long as it is a number
  at all, this amount is positive; it is not below a minimum of the system for its currency; and when the
  project has limits, then, changed to their currency at the rates of the project's merchant when they are in
  another one, it is not below the least payment, nor above the greatest one where that is given.\<close>

theorem created_order_within_limits:
  assumes run: "OrderCreateProcess X req w = (Inr rsp, w')" and ok: "rspItem rsp = Some ordr"
    and simple: "order_ProductType ordr = OrderType_simple"
  shows "order_ProjectId ordr = asked_project w req \<and> order_Currency ordr = asked_currency w req \<and>
    order_OrderAmount ordr = FormatAmount X (asked_amount w req) (asked_currency w req) \<and>
    (asked_amount w req = NaN \<or> flt 0 (asked_amount w req)) \<and>
    (\<exists>l\<in>set (w_min_limits w). pml_Currency l = asked_currency w req \<and> \<not> flt (asked_amount w req) (pml_Amount l)) \<and>
    (\<exists>p\<in>set (w_projects w). project_Id p = asked_project w req \<and>
      (\<exists>rs. within_limits_of X (captioned p rs) (asked_currency w req) (asked_amount w req)))"
proof -
  have "create_order X req w = (Inr ordr, w')"
    using run ok unfolding OrderCreateProcess_def answering_def bind_Inr[of "try_go _"]
    by (auto simp: run_sum run_Inr rsp_error_def rsp_ok_def try_go_success split: if_splits)
  then show ?thesis by (rule created_order_run[OF _ simple]) (use positive in blast)
qed

text \<open>A shop that does not ask for signatures, and the order that is created there.\<close>

definition open_world :: world where
  "open_world = shop_world\<lparr>w_projects := [shop_project\<lparr>project_SignatureRequired := False\<rparr>]\<rparr>"

definition open_request :: order_request where
  "open_request = shop_request\<lparr>oreq_Signature := []\<rparr>"

lemma open_order_created: "case fst (OrderCreateProcess sample_ext open_request open_world) of Inl e \<Rightarrow> False
  | Inr rsp \<Rightarrow> (case rspItem rsp of None \<Rightarrow> False | Some ordr \<Rightarrow> order_ProductType ordr = OrderType_simple)"
  by code_simp

theorem created_order_within_limits_witness:
  "\<exists>rsp ordr. fst (OrderCreateProcess sample_ext open_request open_world) = Inr rsp \<and> rspItem rsp = Some ordr \<and>
    order_OrderAmount ordr = Fin 10 \<and> order_Currency ordr = ''EUR'' \<and> flt 0 (Fin 10)"
proof -
  obtain rsp ordr where r: "fst (OrderCreateProcess sample_ext open_request open_world) = Inr rsp" "rspItem rsp = Some ordr"
      "order_ProductType ordr = OrderType_simple"
    using open_order_created by (auto split: sum.splits option.splits)
  have "OrderCreateProcess sample_ext open_request open_world =
      (Inr rsp, snd (OrderCreateProcess sample_ext open_request open_world))"
    using r(1) by (metis surjective_pairing)
  from created_order_within_limits[OF this r(2,3)]
  have "order_OrderAmount ordr = Fin 10 \<and> order_Currency ordr = ''EUR'' \<and> flt 0 (Fin 10)"
    by (simp add: asked_defs open_request_def shop_request_def no_request_def FormatAmount_def sample_ext_def)
  then show ?thesis using r(1,2) by blast
qed

end
