(* ===== verification/CheckoutPrices.thy ===== *)
theory CheckoutPrices
  imports CheckoutSafety
begin

text \<open>
  What an order costs: the sum of its items, the tax by who pays it, and an order in virtual currency once it
  has been read back from the database.
\<close>

lemma run_if: "(if b then m else n) s = (if b then m s else n s)"
  by simp

section \<open>Tax\<close>

text \<open>The country and the zip code of an order are those of its billing address and of its user.\<close>

definition address_accessors :: "ext \<Rightarrow> bool" where
  "address_accessors X \<longleftrightarrow> (\<forall>a b. order_User a = order_User b \<and>
     oco_BillingAddress (order_Carried a) = oco_BillingAddress (order_Carried b) \<longrightarrow>
     x_order_country X a = x_order_country X b \<and> x_order_postal_code X a = x_order_postal_code X b)"

lemma taxed_fields:
  assumes "taxed X rate (with_tax ty ordr) = Inr o'"
  shows "with_tax ty' o' = with_tax ty' ordr" "order_User o' = order_User ordr"
    "oco_BillingAddress (order_Carried o') = oco_BillingAddress (order_Carried ordr)"
    "order_VatPayer o' = order_VatPayer ordr" "order_ChargeCurrency o' = order_Currency ordr"
    "order_ChargeAmount o' = order_TotalPaymentAmount o'"
    "order_VatPayer ordr \<noteq> VatPayerBuyer \<Longrightarrow> order_TotalPaymentAmount o' = order_OrderAmount ordr"
    "order_VatPayer ordr = VatPayerBuyer \<Longrightarrow>
      order_TotalPaymentAmount o' = FormatAmount X (order_OrderAmount ordr + order_TaxAmount o') (order_Currency ordr)"
  using assms by (auto simp: taxed_def with_tax_def Let_def vat_payers split: if_splits)

lemma taxed_by_payer:
  assumes "taxed X rate (with_tax ty ordr) = Inr o'"
  shows "order_VatPayer ordr = VatPayerBuyer \<and>
      order_TaxAmount o' = FormatAmount X (order_OrderAmount ordr * order_TaxRate o') (order_Currency ordr) \<and>
      order_TotalPaymentAmount o' = FormatAmount X (order_OrderAmount ordr + order_TaxAmount o') (order_Currency ordr) \<or>
    order_VatPayer ordr = VatPayerSeller \<and>
      order_TaxAmount o' = FormatAmount X (x_percent_part X (order_OrderAmount ordr) (order_TaxRate o')) (order_Currency ordr) \<and>
      order_TotalPaymentAmount o' = order_OrderAmount ordr"
  using assms by (auto simp: taxed_def with_tax_def Let_def split: if_splits)

lemma with_tax_fields [simp]:
  "with_tax ty' (with_tax ty ordr) = with_tax ty' ordr" "order_User (with_tax ty ordr) = order_User ordr"
  "order_Carried (with_tax ty ordr) = (order_Carried ordr)\<lparr>oco_TaxType := ty, oco_TaxCurrency := order_Currency ordr\<rparr>"
  "order_VatPayer (with_tax ty ordr) = order_VatPayer ordr"
  "order_TotalPaymentAmount (with_tax ty ordr) = order_OrderAmount ordr" "order_TaxAmount (with_tax ty ordr) = 0"
  "order_ChargeAmount (with_tax ty ordr) = order_OrderAmount ordr" "order_ChargeCurrency (with_tax ty ordr) = order_Currency ordr"
  by (simp_all add: with_tax_def)

text \<open>What the tax is computed from, and the outcome.\<close>

definition tax_kind :: "ext \<Rightarrow> order \<Rightarrow> string" where
  "tax_kind X ordr = (if x_order_country X ordr = CountryCodeUSA then taxTypeSalesTax else taxTypeVat)"

lemma vat_run:
  assumes "processOrderVat X ordr s = (Inr o', t)"
  shows "o' = with_tax taxTypeVat ordr \<and> x_order_country X ordr = [] \<or> o' = with_tax (tax_kind X ordr) ordr \<or>
    (\<exists>rate. taxed X rate (with_tax (tax_kind X ordr) ordr) = Inr o')"
  using assms by (auto simp: processOrderVat_def tax_kind_def Let_def success split: if_splits)

text \<open>A buyer who pays a fifth of the amount as tax, in a country that has one.\<close>

definition tax_world :: world where
  "tax_world = empty_world\<lparr>w_countries := [sample_country\<lparr>country_VatEnabled := True\<rparr>]\<rparr>"

definition tax_order :: order where
  "tax_order = sample_order\<lparr>order_VatPayer := VatPayerBuyer, order_OrderAmount := Fin 10, order_Currency := ''EUR''\<rparr>"

lemma tax_of_sample:
  "w_countries s = w_countries tax_world \<Longrightarrow> order_VatPayer ordr = VatPayerBuyer \<Longrightarrow>
  \<exists>t o'. processOrderVat sample_ext ordr s = (Inr o', t) \<and> w_countries t = w_countries tax_world \<and>
    order_TaxAmount o' = FormatAmount sample_ext (order_OrderAmount ordr * Fin (1/5)) (order_Currency ordr)"
  by (simp add: tax_world_def processOrderVat_def Let_def sample_country_def sample_ext_def country_GetByIsoCodeA2_def find_one_def
   bind_def calling_def rpc_def gets_def lift_def ret_def taxed_def CountryCodeUSA_def vat_payers with_tax_def attempt_def throw_def)


lemma tax_order_fields [simp]: "order_VatPayer tax_order = VatPayerBuyer" "order_OrderAmount tax_order = Fin 10"
  "order_Currency tax_order = ''EUR''"
  by (simp_all add: tax_order_def)

text \<open>The orders a tax is due for: of a country that is known and has one, and that somebody pays.\<close>

definition taxable :: "ext \<Rightarrow> world \<Rightarrow> order \<Rightarrow> bool" where
  "taxable X s ordr \<longleftrightarrow> x_order_country X ordr \<noteq> [] \<and> order_VatPayer ordr \<noteq> VatPayerNobody \<and>
     (\<exists>c. find (\<lambda>c. country_IsoCodeA2 c = x_order_country X ordr) (w_countries s) = Some c \<and> country_VatEnabled c)"

lemma found_one: "find_one X get p s = (Inr d, t) \<Longrightarrow> (\<And>n. get (s\<lparr>w_tick := n\<rparr>) = get s) \<Longrightarrow> find p (get s) = Some d"
  by (auto simp: find_one_def success calling_def rpc_def gets_def split: option.splits)

lemma taxable_run:
  assumes run: "processOrderVat X ordr s = (Inr o', t)"
  shows "if taxable X s ordr then
      \<exists>n rate. x_tax_rate X n (x_order_country X ordr) (if x_order_country X ordr = CountryCodeUSA
          then x_order_postal_code X (with_tax taxTypeSalesTax ordr) else []) = Inr rate \<and>
        taxed X rate (with_tax (tax_kind X ordr) ordr) = Inr o'
    else \<exists>ty. o' = with_tax ty ordr"
  using run
  by (auto simp: processOrderVat_def taxable_def tax_kind_def Let_def success rpc_def country_GetByIsoCodeA2_def
      dest!: found_one split: if_splits)

text \<open>C9: An order of a country that has a tax, which the buyer or the seller pays, has the rate that the service of
  taxes answers for the country (and for the zip code, in the USA). The buyer pays the amount and, added to it, this
  share of the amount; for the seller the tax is the part of the amount that the rate makes, and the amount stays the
  total. The tax and the buyer's total are written in the currency of the order. Any other order has no tax, and the
  amount is the total. What is charged is the total, in the currency of the order, and the amount itself does not
  change.\<close>

theorem total_by_vat_payer:
  assumes run: "processOrderVat X ordr s = (Inr o', t)"
  shows "order_OrderAmount o' = order_OrderAmount ordr \<and> order_Currency o' = order_Currency ordr \<and>
    order_ChargeAmount o' = order_TotalPaymentAmount o' \<and> order_ChargeCurrency o' = order_Currency o' \<and>
    (if taxable X s ordr then
      (\<exists>n. x_tax_rate X n (x_order_country X ordr) (if x_order_country X ordr = CountryCodeUSA
          then x_order_postal_code X (with_tax taxTypeSalesTax ordr) else []) = Inr (order_TaxRate o')) \<and>
      (order_VatPayer ordr = VatPayerBuyer \<and>
          order_TaxAmount o' = FormatAmount X (order_OrderAmount ordr * order_TaxRate o') (order_Currency ordr) \<and>
          order_TotalPaymentAmount o' = FormatAmount X (order_OrderAmount ordr + order_TaxAmount o') (order_Currency ordr) \<or>
       order_VatPayer ordr = VatPayerSeller \<and>
          order_TaxAmount o' = FormatAmount X (x_percent_part X (order_OrderAmount ordr) (order_TaxRate o')) (order_Currency ordr) \<and>
          order_TotalPaymentAmount o' = order_OrderAmount ordr)
     else order_TaxAmount o' = 0 \<and> order_TaxRate o' = 0 \<and> order_TotalPaymentAmount o' = order_OrderAmount ordr)"
proof -
  have p: "order_OrderAmount o' = order_OrderAmount ordr" "order_Currency o' = order_Currency ordr"
    using yieldsD[OF yields_vat run] by (simp_all add: order_price_def)
  show ?thesis
  proof (cases "taxable X s ordr")
    case True
    with taxable_run[OF run] obtain n rate where
        rate: "x_tax_rate X n (x_order_country X ordr) (if x_order_country X ordr = CountryCodeUSA
          then x_order_postal_code X (with_tax taxTypeSalesTax ordr) else []) = Inr rate"
      and o': "taxed X rate (with_tax (tax_kind X ordr) ordr) = Inr o'" by auto
    have "order_TaxRate o' = rate" using o' by (auto simp: taxed_def Let_def split: if_splits)
    with True rate p taxed_fields(5,6)[OF o'] taxed_by_payer[OF o'] show ?thesis
      by simp (auto split: if_splits)
  next
    case False
    then show ?thesis using taxable_run[OF run] p by (auto simp: with_tax_def)
  qed
qed

theorem total_by_vat_payer_witness:
  "\<exists>o' t. processOrderVat sample_ext tax_order tax_world = (Inr o', t) \<and> order_OrderAmount o' = Fin 10 \<and>
    order_TaxAmount o' = Fin 2 \<and> order_TotalPaymentAmount o' = Fin 12 \<and> order_ChargeAmount o' = Fin 12"
proof -
  obtain t o' where r: "processOrderVat sample_ext tax_order tax_world = (Inr o', t)"
      "order_TaxAmount o' = FormatAmount sample_ext (Fin 10 * Fin (1/5)) ''EUR''"
    using tax_of_sample[of tax_world tax_order] by auto
  have "taxable sample_ext tax_world tax_order"
    by (simp add: taxable_def tax_world_def tax_order_def sample_ext_def sample_country_def vat_payers)
  then show ?thesis
    using total_by_vat_payer[OF r(1)] r by (auto simp: FormatAmount_def sample_ext_def vat_payers)
qed

lemma vat_keeps_source:
  assumes "processOrderVat X ordr s = (Inr o', t)"
  shows "with_tax ty o' = with_tax ty ordr" "order_User o' = order_User ordr" "order_VatPayer o' = order_VatPayer ordr"
    "oco_BillingAddress (order_Carried o') = oco_BillingAddress (order_Carried ordr)"
  using vat_run[OF assms] taxed_fields(1-4) by (auto simp del: not_None_eq)

text \<open>C24: The tax never compounds: computing it again for the order it was computed for gives the same order, when
  the service of taxes answers the same and the country is still found.\<close>

theorem tax_does_not_compound:
  assumes first: "processOrderVat X ordr s = (Inr o1, s1)" and again: "processOrderVat X o1 t = (Inr o2, t1)"
    and country: "address_accessors X" and same: "w_countries t = w_countries s"
    and rate: "\<And>m n c z. x_tax_rate X m c z = x_tax_rate X n c z"
  shows "o2 = o1"
proof -
  note k = vat_keeps_source[OF first]
  have c: "x_order_country X o1 = x_order_country X ordr"
    using country k(2,4) unfolding address_accessors_def by blast
  have f: "find_one X w_countries q s = (Inr d, u) \<Longrightarrow> find_one X w_countries q t = (Inr d', u') \<Longrightarrow> d' = d" for q d d' u u'
    using same by (auto simp: find_one_def bind_def calling_def rpc_def gets_def throw_def ret_def split: option.splits)
  obtain R where R: "x_tax_rate X = (\<lambda>_. R)"
    by (rule that[of "x_tax_rate X 0"]) (intro ext rate)
  show ?thesis
    using first again unfolding processOrderVat_def Let_def c k
    by (auto simp: run_Inr run_if bind_Inr rpc_success country_GetByIsoCodeA2_def R dest!: f split: if_splits)
qed

theorem tax_does_not_compound_witness:
  "\<exists>o1 s1 s2. processOrderVat sample_ext tax_order tax_world = (Inr o1, s1) \<and>
    processOrderVat sample_ext o1 s1 = (Inr o1, s2) \<and> order_TaxAmount o1 = Fin 2"
proof -
  obtain s1 o1 where r: "processOrderVat sample_ext tax_order tax_world = (Inr o1, s1)" "w_countries s1 = w_countries tax_world"
      "order_TaxAmount o1 = FormatAmount sample_ext (Fin 10 * Fin (1/5)) ''EUR''"
    using tax_of_sample[of tax_world tax_order] by auto
  moreover have "order_VatPayer o1 = VatPayerBuyer" using vat_keeps_source(3)[OF r(1)] by simp
  then obtain s2 o2 where r2: "processOrderVat sample_ext o1 s1 = (Inr o2, s2)"
    using tax_of_sample[of s1 o1] r(2) by auto
  have "o2 = o1"
    by (rule tax_does_not_compound[OF r(1) r2 _ r(2)]) (simp_all add: address_accessors_def sample_ext_def)
  then show ?thesis using r r2 by (auto simp: FormatAmount_def sample_ext_def)
qed

end
