(* ===== verification/CheckoutPayments.thy ===== *)
theory CheckoutPayments
  imports CheckoutPrices
begin

text \<open>
  Orders on their way through the form: which may be paid, what products cost, and three cases in which the
  checkout does something else than it means to.
\<close>

section \<open>Orders that are not paid again\<close>

lemma quiet_order_lookups [quiet_intros]:
  "quiet (orderrepo_GetByUuid X i)" "quiet (getOrderByUuid X i)" "quiet (getOrderByUuidToForm X i)"
  unfolding orderrepo_GetByUuid_def orderrepo_GetOneBy_def getOrderByUuid_def getOrderByUuidToForm_def
  by (intro quiet_intros)+

lemma order_from_mgo_kept:
  "order_from_mgo X d = Inr ordr \<Longrightarrow> order_PrivateStatus ordr = order_PrivateStatus d \<and>
    order_ProductType ordr = order_ProductType d \<and> order_VirtualCurrencyAmount ordr = 0"
  by (auto simp: order_from_mgo_def bind_err_eq_Inr)

lemma form_order:
  assumes "getOrderByUuidToForm X uuid s = (Inr ordr, t)"
  obtains d where "d \<in> set (w_orders s)" "order_Uuid d = uuid" "order_from_mgo X d = Inr ordr"
proof -
  from assms obtain d u where f: "find_one X w_orders (\<lambda>d. order_Uuid d = uuid) s = (Inr d, u)" "order_from_mgo X d = Inr ordr"
    unfolding getOrderByUuidToForm_def getOrderByUuid_def orderrepo_GetByUuid_def orderrepo_GetOneBy_def
    by (auto simp: success split: if_splits)
  then show thesis using that found_document[OF f(1)] by simp
qed

text \<open>C6: An order can be paid while it is new, and also again once the payment system has reported its payment
  complete; in any other state a payment of it is answered with bad data or an error, and nothing is sent to the
  payment system or to anybody else and nothing is stored.\<close>

theorem processed_order_is_not_paid:
  assumes run: "PaymentCreateProcess X req w = (r, w')"
    and closed: "list_all (\<lambda>d. order_Uuid d = go_get (preq_Data req) PaymentCreateFieldOrderId \<longrightarrow>
      order_PrivateStatus d \<notin> {OrderStatusNew, OrderStatusPaymentSystemComplete}) (w_orders w)"
  shows "(\<forall>rsp. r = Inr rsp \<longrightarrow> rspStatus rsp = ResponseStatusBadData) \<and> w_sent w' = w_sent w \<and>
    w' = w\<lparr>w_tick := w_tick w', w_cache := w_cache w'\<rparr>"
proof -
  have none: "payable_order X (preq_Data req) s \<noteq> (Inr ordr, t)" if "w_orders s = w_orders w" for s ordr t
    using that closed unfolding payable_order_def
    by (auto simp: success list_all_iff split: option.splits if_splits elim!: form_order dest!: order_from_mgo_kept)
  have q: "quiet (payable_order X (preq_Data req))"
    unfolding payable_order_def by (intro quiet_intros)
  have "refuses (processPaymentFormData X req) s" if "w_orders s = w_orders w" for s
    unfolding processPaymentFormData_def Let_def
    by (rule refuses_bind_first[OF refuses_quiet[OF q none[OF that]]])
  then have step: "(\<forall>rsp. r = Inr rsp \<longrightarrow> rspStatus rsp = ResponseStatusBadData) \<and> idle s t"
    if "step_or ResponseStatusBadData it (processPaymentFormData X req) k s = (r, t)" "w_orders s = w_orders w" for it k s t r
    using that by (fastforce simp: refuses_def step_or_def rsp_failed_def try_go_def bind_def attempt_def ret_def throw_def split: if_splits)
  have "(\<forall>rsp. r = Inr rsp \<longrightarrow> rspStatus rsp = ResponseStatusBadData) \<and> idle w w'"
  proof (cases "preq_Cookie req = []")
    case True then show ?thesis using run by (auto simp: PaymentCreateProcess_def rsp_failed_def ret_def)
  next
    case False
    obtain rr u where c: "try_go (decryptBrowserCookie X (preq_Cookie req)) w = (rr, u)" by fastforce
    have q: "quiet (try_go (decryptBrowserCookie X (preq_Cookie req)))" by (intro quiet_intros)
    note same = quiet_idle[OF q c]
    have "w_orders u = w_orders w" using idle_stays[OF same] by simp
    then show ?thesis using run False c same
      by (cases rr; cases "projr rr") (auto simp: PaymentCreateProcess_def bind_def rsp_failed_def ret_def intro: idle_trans dest!: step)
  qed
  then show ?thesis using idle_stays unfolding idle_def by blast
qed

text \<open>A payment that is under way, and a second request for it.\<close>

definition paid_world :: world where
  "paid_world = empty_world\<lparr>w_orders := [sample_order_doc\<lparr>order_PrivateStatus := OrderStatusProjectInProgress\<rparr>]\<rparr>"

definition second_payment :: payment_request where
  "second_payment = \<lparr>preq_Data = Some [(PaymentCreateFieldOrderId, order_Uuid sample_order_doc), (PaymentCreateFieldPaymentMethodId, ''m''),
     (PaymentCreateFieldEmail, ''e'')], preq_Ip = [], preq_AcceptLanguage = [], preq_UserAgent = [], preq_Cookie = ''c''\<rparr>"

theorem processed_order_is_not_paid_witness:
  "w_sent (snd (PaymentCreateProcess sample_ext second_payment paid_world)) = []"
proof -
  have "list_all (\<lambda>d. order_Uuid d = go_get (preq_Data second_payment) PaymentCreateFieldOrderId \<longrightarrow>
      order_PrivateStatus d \<notin> {OrderStatusNew, OrderStatusPaymentSystemComplete}) (w_orders paid_world)"
    by (simp add: paid_world_def)
  from processed_order_is_not_paid[OF surjective_pairing this, of sample_ext] show ?thesis
    by (simp add: paid_world_def empty_world_def)
qed

section \<open>The billing address of an order without products\<close>

lemma kept_error:
  assumes "\<And>n. \<exists>e. x_geo_ip X n ip = Inl e"
  shows "yields (address_cookie X cookie ip country) (\<lambda>(_, left). left \<noteq> None)"
proof -
  have g: "yields (getAddressByIp X ip) (\<lambda>_. False)"
  proof -
    have "x_geo_ip X n ip \<noteq> Inr a" for n a using assms[of n] by auto
    then show ?thesis by (auto simp: yields_def getAddressByIp_def success rpc_success)
  qed
  have f: "yields (try_go (getAddressByIp X ip)) (\<lambda>r. \<exists>e. r = Inl e)"
    using yields_try[OF g] by (auto simp: yields_def) (metis sum.exhaust)
  show ?thesis
    unfolding address_cookie_def
    by (rule yields_bind_any, rule yields_bind_any, rule yields_bind[OF f]) (auto intro!: yields_pure)
qed

lemma left_over_error:
  assumes "left \<noteq> None" "order_ProductType ordr \<notin> {OrderType_product, OrderType_key}"
  shows "yields (bill_order X c ordr (ck, left)) (\<lambda>_. False)"
proof -
  have "yields (price_products X left ordr) (\<lambda>_. False)"
    using assms by (auto simp: yields_def price_products_def pricing_def left_over_def success run_case try_go_success split: sum.splits)
  then show ?thesis unfolding bill_order_def fst_conv snd_conv by (rule yields_bind) simp
qed

lemma billing_refused:
  assumes geo: "\<And>n. \<exists>e. x_geo_ip X n ip = Inl e"
    and ty: "order_ProductType ordr \<notin> {OrderType_product, OrderType_key}"
  shows "yields (bill_to X country code ip cookie ordr) (\<lambda>(rsp, _). rspStatus rsp \<noteq> ResponseStatusOk)"
proof -
  let ?P = "\<lambda>(rsp, c :: string). rspStatus (rsp :: billing_item response) \<noteq> ResponseStatusOk"
  have refused: "yields (bind (address_cookie X cookie ip b) (bill_order X i ordr)) ?P"
    if "order_ProductType ordr \<notin> {OrderType_product, OrderType_key}" for ordr b i
  proof (rule yields_bind[OF kept_error[OF geo]])
    fix kept :: "string \<times> go_err option" assume "case kept of (_, left) \<Rightarrow> left \<noteq> None"
    then show "yields (bill_order X i ordr kept) ?P"
      using left_over_error[OF _ that, of "snd kept" X i "fst kept"] by (auto simp: yields_def)
  qed
  have same: "yields (try_go (applyCountryRestriction X o1 b))
    (\<lambda>r. \<forall>x. r = Inr x \<longrightarrow> (case x of (o', restricted) \<Rightarrow> restricted \<or> order_price o' = order_price o1))" for o1 b
    by (rule yields_try[OF yields_restriction])
  have "order_ProductType (set_billing_address a ordr) = order_ProductType ordr" for a
    by (simp add: set_billing_address_def)
  then have "yields (bind (try_go (applyCountryRestriction X (set_billing_address a ordr) b)) (\<lambda>r. case r of
        Inl e \<Rightarrow> ret (rsp_error ResponseStatusSystemError (if is_message e then e else orderErrorUnknown), [])
      | Inr (ordr, restricted) \<Rightarrow>
        if restricted then ret (rsp_error ResponseStatusForbidden orderCountryPaymentRestrictedError, [])
        else bind (address_cookie X cookie ip b) (bill_order X i ordr))) ?P" for a b i
    using ty by (intro yields_bind[OF same])
      (auto intro!: yields_pure refused simp: rsp_error_def order_price_def split: sum.split)
  then show ?thesis unfolding bill_to_def Let_def
    by (rule_tac yields_bind_any, rule_tac yields_cases(1)) (simp_all add: yields_pure rsp_error_def)
qed

text \<open>C26: The place of the customer's network is only looked up for the cookie, and yet: while it cannot be found,
  the billing address of an order that is for neither products nor keys is never accepted. The error of the look-up
  is still there where the handler checks whether the products could be priced; for orders of products or keys the
  pricing overwrites it.\<close>

theorem billing_address_needs_network:
  assumes geo: "\<And>n. \<exists>e. x_geo_ip X n ip = Inl e"
    and kind: "list_all (\<lambda>d. order_Uuid d = orderId \<longrightarrow> order_ProductType d \<notin> {OrderType_product, OrderType_key}) (w_orders w)"
  shows "case fst (ProcessBillingAddress X orderId country code ip cookie w) of Inl e \<Rightarrow> True
    | Inr (rsp, _) \<Rightarrow> rspStatus rsp \<noteq> ResponseStatusOk"
proof -
  have False if run: "ProcessBillingAddress X orderId country code ip cookie w = (Inr (rsp, c), w')"
      and ok: "rspStatus rsp = ResponseStatusOk" for rsp c w'
  proof -
    from run ok obtain ordr u v where o: "getOrderByUuidToForm X orderId w = (Inr ordr, u)"
      and rest: "bill_to X country code ip cookie ordr v = (Inr (rsp, c), w')"
      unfolding ProcessBillingAddress_def bind_Inr[of "try_go (getOrderByUuidToForm X orderId)"]
      by (auto simp: run_sum run_Inr try_go_success rsp_error_def split: if_splits)
    obtain d where "d \<in> set (w_orders w)" "order_Uuid d = orderId" "order_from_mgo X d = Inr ordr" using o by (rule form_order)
    then have "order_ProductType ordr \<notin> {OrderType_product, OrderType_key}"
      using kind order_from_mgo_kept by (force simp: list_all_iff)
    from yieldsD[OF billing_refused[OF geo this] rest] show False using ok by simp
  qed
  then show ?thesis
    by (cases "ProcessBillingAddress X orderId country code ip cookie w") (auto split: sum.split)
qed

text \<open>An open order of a customer whose network is not known, beside an order of products.\<close>

definition lost_ext :: ext where
  "lost_ext = sample_ext\<lparr>x_geo_ip := \<lambda>_ _. Inl (ErrOther ''unknown address'')\<rparr>"

definition open_form_world :: world where
  "open_form_world = empty_world\<lparr>w_orders := [sample_order_doc\<lparr>order_PrivateStatus := OrderStatusNew, order_ProductType := OrderType_simple\<rparr>,
       sample_order_doc\<lparr>order_Uuid := ''other'', order_ProductType := OrderType_product\<rparr>],
     w_countries := [sample_country], w_merchants := [sample_merchant]\<rparr>"

lemma lost_run: "fst (ProcessBillingAddress lost_ext (order_Uuid sample_order_doc) ''DE'' [] ''192.0.2.1'' [] open_form_world) =
    Inl orderErrorPayerRegionUnknown"
  by code_simp

theorem billing_address_needs_network_witness:
  "(case fst (ProcessBillingAddress lost_ext (order_Uuid sample_order_doc) ''DE'' [] ''192.0.2.1'' [] open_form_world) of
      Inl e \<Rightarrow> True | Inr (rsp, _) \<Rightarrow> rspStatus rsp \<noteq> ResponseStatusOk) \<and>
    fst (ProcessBillingAddress lost_ext (order_Uuid sample_order_doc) ''DE'' [] ''192.0.2.1'' [] open_form_world) =
      Inl orderErrorPayerRegionUnknown"
proof -
  have "\<And>n. \<exists>e. x_geo_ip lost_ext n ''192.0.2.1'' = Inl e" by (simp add: lost_ext_def)
  moreover have "list_all (\<lambda>d. order_Uuid d = order_Uuid sample_order_doc \<longrightarrow>
      order_ProductType d \<notin> {OrderType_product, OrderType_key}) (w_orders open_form_world)"
    by (simp add: open_form_world_def sample_order_doc_def sample_order_of_def OrderType_simple_def OrderType_product_def OrderType_key_def)
  ultimately show ?thesis using billing_address_needs_network lost_run by blast
qed

end
