(* ===== verification/CheckoutProducts.thy ===== *)
theory CheckoutProducts
  imports CheckoutPayments
begin

text \<open>
  What products cost, and two settings of an order that do not work as meant: an amount in virtual currency, and
  the end of a recurring payment.
\<close>

section \<open>Products\<close>

lemmas run_defs = bind_def calling_def rpc_def gets_def ret_def throw_def lift_def try_go_def attempt_def find_one_def
  replace_err_def Let_def sample_ext_def sample_order_def sample_order_of_def no_carried_def empty_world_def sample_hex_roundtrip

lemma map_err_prices:
  assumes "map_err f xs = Inr ys" "map_err g xs = Inr zs" "\<And>x y z. f x = Inr y \<Longrightarrow> g x = Inr z \<Longrightarrow> z = h y \<and> P y"
  shows "zs = map h ys \<and> length ys = length xs \<and> list_all P ys"
  using assms by (induction xs arbitrary: ys zs) (fastforce split: sum.splits)+

lemma items_and_amount:
  assumes "GetOrderProductsItems X products language g = Inr items" "GetOrderProductsAmount X products g = Inr amount"
  shows "amount = x_format_amount X (float_sum (map oi_Amount items)) \<and> length items = length products \<and>
    list_all (\<lambda>it. oi_Currency it = pg_Currency g) items"
proof -
  from assms obtain prices where m: "map_err (product_item X language g) products = Inr items"
    "map_err (\<lambda>p. x_product_price X p g) products = Inr prices" "amount = x_format_amount X (float_sum prices)"
    by (auto simp: GetOrderProductsItems_def GetOrderProductsAmount_def bind_err_eq_Inr split: if_splits)
  have "z = oi_Amount it \<and> oi_Currency it = pg_Currency g"
    if "product_item X language g p = Inr it" "x_product_price X p g = Inr z" for p it z
    using that by (auto simp: product_item_def bind_err_eq_Inr)
  from map_err_prices[OF m(1,2) this] show ?thesis using m(3) by auto
qed

lemma fiat_amount:
  assumes "processAmountForFiatCurrency X products g dflt = Inr (amount, used)"
  shows "GetOrderProductsAmount X products used = Inr amount"
  using assms by (auto simp: processAmountForFiatCurrency_def bind_err_eq_Inr split: sum.splits if_splits)

lemma virtual_amount:
  assumes "processAmountForVirtualCurrency X project products g dflt = Inr (amount, used)"
  obtains price virtual where "GetOrderProductsAmount X products (virtual_group X) = Inr virtual" "amount = virtual * price"
proof -
  from assms obtain v and vc :: virtual_currency where v: "GetOrderProductsAmount X products (virtual_group X) = Inr v"
    and r: "(case GetAmountForVirtualCurrency v g (vc_Prices vc) of Inr amount \<Rightarrow> Inr (amount, g)
       | Inl e \<Rightarrow> if pg_Id g = pg_Id dflt then Inl e
           else bind_err (GetAmountForVirtualCurrency v dflt (vc_Prices vc)) (\<lambda>amount. Inr (amount, dflt))) = Inr (amount, used)"
    by (auto simp: processAmountForVirtualCurrency_def bind_err_eq_Inr split: option.splits if_splits)
  from r obtain g' where "GetAmountForVirtualCurrency v g' (vc_Prices vc) = Inr amount"
    by (cases "GetAmountForVirtualCurrency v g (vc_Prices vc)") (auto simp: bind_err_eq_Inr split: if_splits)
  then show thesis using that v by (auto simp: GetAmountForVirtualCurrency_def split: option.splits)
qed

lemma fold_products_length:
  "GetOrderProducts X i ids s = (Inr products, t) \<Longrightarrow> length products = length ids"
  by (auto simp: GetOrderProducts_def success run_sum split: if_splits)

text \<open>C8: An order of products has an item for each of them and costs their sum, rounded to its currency, in which all
  items are priced. Products that are sold for the virtual currency of the project are priced in that, and their sum
  is changed at one price. Total and charge are the amount then.\<close>

theorem product_order_price:
  assumes run: "ProcessOrderProducts X ordr s = (Inr o', t)" and kind: "order_ProductType ordr = OrderType_product"
  shows "length (order_Items o') = length (oco_Products (order_Carried ordr)) \<and>
    order_TotalPaymentAmount o' = order_OrderAmount o' \<and> order_ChargeAmount o' = order_OrderAmount o' \<and>
    order_ChargeCurrency o' = order_Currency o' \<and>
    (let items_sum = x_format_amount X (float_sum (map oi_Amount (order_Items o'))) in
     list_all (\<lambda>it. oi_Currency it = order_Currency o') (order_Items o') \<and>
       order_OrderAmount o' = FormatAmount X items_sum (order_Currency o') \<or>
     list_all (\<lambda>it. oi_Currency it = x_virtual_price_group X) (order_Items o') \<and>
       (\<exists>price. order_OrderAmount o' = FormatAmount X (items_sum * price) (order_Currency o')))"
proof -
  from run kind obtain pgrp amount used items virtual u v where
    p: "processProducts X (order_ProjectId ordr) (oco_Products (order_Carried ordr)) pgrp (order_locale ordr) u =
      (Inr (amount, used, items, virtual), v)"
    and o': "o' = with_amount (pg_Currency used) amount ordr\<lparr>order_Items := items\<rparr>"
    unfolding ProcessOrderProducts_def by (auto simp: success run_pair split: if_splits)
  from p obtain project products dflt am g x y where
    ids: "GetOrderProducts X (project_Id project) (oco_Products (order_Carried ordr)) x = (Inr products, y)"
    and a: "(if virtual then processAmountForVirtualCurrency X project products g dflt
      else processAmountForFiatCurrency X products g dflt) = Inr (am, used)"
    and it: "GetOrderProductsItems X products (order_locale ordr) (if virtual then virtual_group X else used) = Inr items"
    and amount: "amount = FormatAmount X am (pg_Currency used)"
    unfolding processProducts_def Let_def by (auto simp: success run_pair)
  note n = fold_products_length[OF ids]
  show ?thesis
  proof (cases virtual)
    case True
    with a obtain price w where w: "GetOrderProductsAmount X products (virtual_group X) = Inr w" "am = w * price"
      by (auto elim: virtual_amount)
    show ?thesis using items_and_amount[OF _ w(1)] it True n w(2) amount
      by (auto simp: o' with_amount_def virtual_group_def Let_def)
  next
    case False
    then show ?thesis using items_and_amount[OF _ fiat_amount] it a n amount
      by (auto simp: o' with_amount_def Let_def)
  qed
qed

text \<open>Two products of a project, and an order of both.\<close>

definition sample_product :: "nat \<Rightarrow> float64 \<Rightarrow> product" where
  "sample_product i price = \<lparr>prod_Id = sample_hex i, prod_Object = [], prod_Sku = ''sku'', prod_ProjectId = sample_hex 3,
     prod_Enabled = True, prod_Deleted = False, prod_Prices = [\<lparr>pp_Currency = ''EUR'', pp_Amount = price, pp_IsVirtualCurrency = False\<rparr>],
     prod_Images = [], prod_Url = [], prod_Metadata = None, prod_CreatedAt = None, prod_UpdatedAt = None, prod_Rest = []\<rparr>"

definition product_world :: world where
  "product_world = shop_world\<lparr>w_products := [sample_product 5 (Fin 3), sample_product 6 (Fin 4)],
     w_price_groups := [\<lparr>pg_Id = ''g'', pg_Currency = ''EUR'', pg_Region = ''EUR'', pg_IsActive = True\<rparr>]\<rparr>"

definition product_order :: order where
  "product_order = sample_order\<lparr>order_ProductType := OrderType_product, order_ProjectId := sample_hex 3,
     order_Carried := (order_Carried sample_order)\<lparr>oco_Products := [sample_hex 5, sample_hex 6]\<rparr>\<rparr>"

lemma product_run: "case fst (ProcessOrderProducts sample_ext product_order product_world) of Inl e \<Rightarrow> False
  | Inr o' \<Rightarrow> map oi_Currency (order_Items o') = [''EUR'', ''EUR'']"
  by (simp add: run_defs shop_world_def ProcessOrderProducts_def getOrderPriceGroup_def processProducts_def active_project_def merchant_group_def
    project_GetById_def merchant_GetById_def priceGroup_GetByRegion_def product_GetById_def GetOrderProducts_def GetProductsForOrder_def
    product_order_def product_world_def sample_product_def shop_project_def sample_merchant_def
    checkVirtualCurrencyProduct_def processAmountForFiatCurrency_def GetOrderProductsAmount_def GetOrderProductsItems_def product_item_def
    float_sum_def with_amount_def order_locale_def country_GetByIsoCodeA2_def priceGroup_GetById_def localized_def sample_country_def)

theorem product_order_price_witness:
  "\<exists>o' t. ProcessOrderProducts sample_ext product_order product_world = (Inr o', t) \<and> length (order_Items o') = 2 \<and>
    order_OrderAmount o' = FormatAmount sample_ext (x_format_amount sample_ext (float_sum (map oi_Amount (order_Items o')))) (order_Currency o')"
proof -
  obtain o' t where r: "ProcessOrderProducts sample_ext product_order product_world = (Inr o', t)"
      "map oi_Currency (order_Items o') = [''EUR'', ''EUR'']"
    using product_run by (cases "ProcessOrderProducts sample_ext product_order product_world") (auto split: sum.splits)
  have "order_ProductType product_order = OrderType_product" "length (oco_Products (order_Carried product_order)) = 2"
    "x_virtual_price_group sample_ext = ''virtual''"
    by (simp_all add: product_order_def sample_ext_def)
  with product_order_price[OF r(1)] r show ?thesis by (auto simp: Let_def map_eq_Cons_conv)
qed

section \<open>Virtual currency\<close>

lemma zero_times [simp]: "(0 :: float64) * Fin r = 0"
  by (simp add: zero_float64_def)

definition priced_finitely :: "project list \<Rightarrow> bool" where
  "priced_finitely ps \<longleftrightarrow> list_all (\<lambda>p. case project_VirtualCurrency p of None \<Rightarrow> True
     | Some vc \<Rightarrow> list_all (\<lambda>q. \<exists>r. pp_Amount q = Fin r) (vc_Prices vc)) ps"

text \<open>C25: An order for an amount of virtual currency costs nothing once it has been read back from the database, for
  the amount is not among the stored fields: the form prices an amount of zero.\<close>

theorem virtual_order_costs_nothing:
  assumes read: "getOrderByUuid X uuid s = (Inr ordr, s1)"
    and price: "ProcessOrderVirtualCurrency X ordr s2 = (Inr o', t)" and finite: "priced_finitely (w_projects s2)"
  shows "order_OrderAmount o' = FormatAmount X 0 (order_Currency o')"
proof -
  have z: "order_VirtualCurrencyAmount ordr = 0"
    using read unfolding getOrderByUuid_def orderrepo_GetByUuid_def orderrepo_GetOneBy_def
    by (auto simp: success dest!: order_from_mgo_kept)
  let ?group = "\<lambda>d defaultCurrency. if x_order_country X ordr = [] then ret (d, defaultCurrency)
      else bind (replace_err orderErrorUnknown (country_GetByIsoCodeA2 X (x_order_country X ordr))) (\<lambda>country.
        bind (replace_err orderErrorUnknown (priceGroup_GetById X (country_PriceGroupId country))) (\<lambda>g.
        ret (g, pg_Currency g)))"
  have q: "quiet (try_go (merchant_GetById X i))" "quiet (deref p)" "quiet (replace_err e (priceGroup_GetByRegion X c))"
      "quiet (?group d c)" for i e c and d :: price_group and p :: "merchant option"
    by (intro quiet_intros)+
  from price obtain m r1 r2 r3 r4 c v a and merchant :: merchant and d g :: price_group and vc :: virtual_currency where
    s: "try_go (merchant_GetById X (order_ProjectMerchantId ordr)) s2 = (Inr m, r1)"
       "deref (case m of Inl _ \<Rightarrow> None | Inr m \<Rightarrow> Some m) r1 = (Inr merchant, r2)"
       "replace_err orderErrorUnknown (priceGroup_GetByRegion X (x_merchant_payout_currency X merchant)) r2 = (Inr d, r3)"
       "?group d (x_merchant_payout_currency X merchant) r3 = (Inr (g, c), r4)"
    and p: "replace_err orderErrorVirtualCurrencyNotFilled
      (bind (project_GetById X (order_ProjectId ordr)) (\<lambda>project. deref (project_VirtualCurrency project))) r4 = (Inr vc, v)"
    and a: "(case GetAmountForVirtualCurrency (order_VirtualCurrencyAmount ordr) g (vc_Prices vc) of
         Inr amount \<Rightarrow> Inr amount
       | Inl e \<Rightarrow> if pg_Id g = pg_Id d then Inl e
           else GetAmountForVirtualCurrency (order_VirtualCurrencyAmount ordr) d (vc_Prices vc)) = Inr a"
    and o': "o' = with_amount c (FormatAmount X a c) ordr"
    unfolding ProcessOrderVirtualCurrency_def Let_def
    by (auto simp: bind_Inr[of "try_go _"] bind_Inr[of "deref (case _ of Inl _ \<Rightarrow> None | Inr m \<Rightarrow> Some m)"]
        run_guard bind_Inr[of "replace_err _ _"] bind_Inr[of "If _ _ _"] bind_Inr[of "lift _"] run_Inr split_paired_Ex)
  have same: "w_projects r4 = w_projects s2"
    using quiet_stays(1)[OF q(1) s(1)] quiet_stays(1)[OF q(2) s(2)] quiet_stays(1)[OF q(3) s(3)] quiet_stays(1)[OF q(4) s(4)]
    by simp
  from p obtain pr x where pr: "find_one X w_projects (\<lambda>p. project_Id p = order_ProjectId ordr) r4 = (Inr pr, x)"
      "project_VirtualCurrency pr = Some vc"
    by (auto simp: project_GetById_def success)
  have "\<forall>q\<in>set (vc_Prices vc). \<exists>r. pp_Amount q = Fin r"
    using finite found_document(1)[OF pr(1)] pr(2) same by (auto simp: priced_finitely_def list_all_iff split: option.splits)
  then have "GetAmountForVirtualCurrency 0 g' (vc_Prices vc) = Inr b \<Longrightarrow> b = 0" for g' b
    by (auto simp: GetAmountForVirtualCurrency_def find_Some_iff split: option.splits) (metis nth_mem zero_times)
  then have "a = 0" using a unfolding z by (auto split: sum.splits if_splits)
  then show ?thesis using o' by (simp add: with_amount_def)
qed

text \<open>A shop that sells its own currency, and an order of ten of it.\<close>

definition coin_world :: world where
  "coin_world = shop_world\<lparr>w_orders := [sample_order_doc\<lparr>order_ProductType := OrderTypeVirtualCurrency, order_VirtualCurrencyAmount := Fin 10\<rparr>],
     w_projects := [shop_project\<lparr>project_VirtualCurrency := Some \<lparr>vc_Name = [], vc_Prices = [\<lparr>pp_Currency = ''EUR'', pp_Amount = Fin 2,
       pp_IsVirtualCurrency = True\<rparr>], vc_MinPurchaseValue = 0, vc_MaxPurchaseValue = 0, vc_SellCountType = []\<rparr>\<rparr>],
     w_price_groups := [\<lparr>pg_Id = ''g'', pg_Currency = ''EUR'', pg_Region = ''EUR'', pg_IsActive = True\<rparr>]\<rparr>"

lemma coin_run: "case getOrderByUuid sample_ext (order_Uuid sample_order_doc) coin_world of (Inl e, t) \<Rightarrow> False
  | (Inr ordr, t) \<Rightarrow> (case fst (ProcessOrderVirtualCurrency sample_ext ordr coin_world) of Inl e \<Rightarrow> False | Inr o' \<Rightarrow> True)"
  by (simp add: run_defs shop_world_def coin_world_def getOrderByUuid_def orderrepo_GetByUuid_def orderrepo_GetOneBy_def
    ProcessOrderVirtualCurrency_def project_GetById_def merchant_GetById_def priceGroup_GetByRegion_def shop_project_def
    sample_merchant_def country_GetByIsoCodeA2_def priceGroup_GetById_def sample_country_def GetAmountForVirtualCurrency_def
    order_from_mgo_def sample_order_doc_def sample_order_defs sample_timestamp_proto_def getPaymentMethodOrder_def deref_def)

theorem virtual_order_costs_nothing_witness:
  "\<exists>ordr s1 o' t. getOrderByUuid sample_ext (order_Uuid sample_order_doc) coin_world = (Inr ordr, s1) \<and>
    ProcessOrderVirtualCurrency sample_ext ordr coin_world = (Inr o', t) \<and> order_OrderAmount o' = 0"
proof -
  obtain ordr s1 o' t where r: "getOrderByUuid sample_ext (order_Uuid sample_order_doc) coin_world = (Inr ordr, s1)"
      "ProcessOrderVirtualCurrency sample_ext ordr coin_world = (Inr o', t)"
    using coin_run by (cases "getOrderByUuid sample_ext (order_Uuid sample_order_doc) coin_world")
      (auto split: sum.splits prod.splits, metis surjective_pairing)
  moreover have "priced_finitely (w_projects coin_world)" by (simp add: coin_world_def priced_finitely_def)
  ultimately show ?thesis using virtual_order_costs_nothing[OF r] by (auto simp: FormatAmount_def sample_ext_def)
qed

section \<open>Recurring payments\<close>

lemma between_rnd:
  assumes "of_int m \<le> x" "x \<le> of_int n" "\<bar>m\<bar> \<le> 2 ^ 53" "\<bar>n\<bar> \<le> 2 ^ 53"
  obtains r where "rnd x = Fin r" "of_int m \<le> r" "r \<le> of_int n"
proof -
  have "fle (Fin (of_int m)) (rnd x)" "fle (rnd x) (Fin (of_int n))"
    using rnd_mono[OF assms(1)] rnd_mono[OF assms(2)] rnd_of_int[OF assms(3)] rnd_of_int[OF assms(4)] by simp_all
  then show thesis using that by (cases "rnd x") (auto simp: fle_def)
qed

lemma leap_days_over: "flt (Fin 365) (go_floor (go_hours (366 * 86400 * second + 86399 * second) / Fin 24))"
proof -
  obtain a where a: "rnd (3599000000000 / 3600000000000) = Fin a" "0 \<le> a" "a \<le> 1"
    by (rule between_rnd[of 0 "3599000000000 / 3600000000000" 1]) simp_all
  obtain b where b: "rnd (8807 + a) = Fin b" "8807 \<le> b" "b \<le> 8808"
    by (rule between_rnd[of 8807 "8807 + a" 8808]) (use a in simp_all)
  obtain c where c: "rnd (b / 24) = Fin c" "366 \<le> c" "c \<le> 367"
    by (rule between_rnd[of 366 "b / 24" 367]) (use b in simp_all)
  have "go_hours (366 * 86400 * second + 86399 * second) = Fin b"
    using a b by (simp add: go_hours_def second_def)
  moreover have "366 \<le> \<lfloor>c\<rfloor>" using c(2) by linarith
  ultimately show ?thesis using c(1) by (simp add: go_floor_def)
qed

text \<open>C28: A recurring payment without an end ends in a year. Where the year to come has a leap day this is refused,
  whatever the period: the days until the end of that day are more than 365.\<close>

theorem default_end_refused_in_leap_years:
  assumes open_end: "oreq_RecurringDateEnd req = []"
    and period: "oreq_RecurringPeriod req \<in> {RecurringPeriodDay, RecurringPeriodWeek, RecurringPeriodMonth, RecurringPeriodYear}"
    and allowed: "\<And>pm. chk_paymentMethod chk = Some pm \<Longrightarrow> pm_RecurringAllowed pm"
    and leap: "x_add_year X (x_now X (w_tick s)) = x_now X (w_tick s) + 366 * 86400 * second"
  shows "fst (processRecurringSettings X req chk s) = Inl orderErrorRecurringDateEndOutOfRange"
proof -
  have days: "day_last_second (now + 366 * 86400 * second) - day_start now = 366 * 86400 * second + 86399 * second" for now
    using mod_mult_self1[of now 366 "86400 * second"] by (simp add: day_last_second_def day_start_def mult.commute)
  have "oreq_RecurringPeriod req \<noteq> []" "\<exists>i. recurring_interval (oreq_RecurringPeriod req) delta = Some i" for delta
    using period by (auto simp: recurring_periods recurring_interval_def)
  then obtain i where "recurring_interval (oreq_RecurringPeriod req) (go_hours (366 * 86400 * second + 86399 * second)) = Some i"
      "oreq_RecurringPeriod req \<noteq> []" by blast
  then show ?thesis using assms(1,3,4) days leap_days_over
    by (auto simp: processRecurringSettings_def recurring_out_of_range_def Let_def time_now_def reading_def bind_def
        ret_def throw_def split: option.splits)
qed

theorem default_end_refused_in_leap_years_witness:
  "fst (processRecurringSettings (sample_ext\<lparr>x_add_year := \<lambda>t. t + 366 * 86400 * second\<rparr>) (no_request\<lparr>oreq_RecurringPeriod := RecurringPeriodMonth\<rparr>) no_checked empty_world) =
    Inl orderErrorRecurringDateEndOutOfRange"
  by (rule default_end_refused_in_leap_years) (simp_all add: no_request_def no_checked_def sample_ext_def)

end
