(* ===== verification/KeyReservation.thy ===== *)
theory KeyReservation
  imports PaymentCreate KeyLifecycle
begin

text \<open>
  The keys of an order that is about to be paid: it gets one for each of its products, or none at all. The loop
  reserves key by key and takes back what it has reserved when one cannot be had.
\<close>

section \<open>Taking keys back\<close>

lemma release_keys_run:
  assumes X: "codecs_ok X" "\<forall>n. x_fault X n = None"
  shows "distinct (map mgokey_Id (w_keys s)) \<Longrightarrow> \<forall>k\<in>set (w_keys s). key_valid k \<Longrightarrow> set is \<subseteq> mgokey_Id ` set (w_keys s) \<Longrightarrow>
    \<exists>t. cancel_keys X (map (x_oid_hex X) is) s = (Inr (), t) \<and> w_keys t = release_ids (set is) (w_keys s)"
proof (induction "is" arbitrary: s)
  case Nil
  then show ?case by (simp add: cancel_keys_def run_simps)
next
  case (Cons i js)
  let ?s = "s\<lparr>w_keys := release_ids {i} (w_keys s), w_tick := Suc (w_tick s)\<rparr>"
  obtain k where "keyrepo_CancelById X (x_oid_hex X i) s = (Inr k, ?s)"
    using cancel_by_id_run[OF X Cons.prems(1,2), of i] Cons.prems(3) by auto
  then have "cancel_keys X (map (x_oid_hex X) (i # js)) s = cancel_keys X (map (x_oid_hex X) js) ?s"
    using codecs_hex(2)[OF X(1)] by (simp add: cancel_keys_def CancelRedeemKeyForOrder_def run_go)
  moreover obtain t where "cancel_keys X (map (x_oid_hex X) js) ?s = (Inr (), t)" "w_keys t = release_ids (set js) (w_keys ?s)"
    using Cons.IH[of ?s] Cons.prems by (auto intro: release_ids_valid[rule_format])
  ultimately show ?case by (simp add: release_ids_insert[of i "set js"])
qed

section \<open>One reservation\<close>

text \<open>What a reservation can rely on: the keys have ids of their own and times that can be read.\<close>

definition stock_ok :: "ext \<Rightarrow> mgo_key list \<Rightarrow> bool" where
  "stock_ok X ks \<longleftrightarrow> distinct (map mgokey_Id ks) \<and> list_all key_valid ks \<and> deadline_bound ks \<and>
     (\<forall>n. ts_valid (x_now X n + second * oneDayTtl))"

lemma reserve_outcomes:
  assumes X: "codecs_ok X" "\<forall>n. x_fault X n = None" and ok: "stock_ok X (w_keys s)"
    and ord: "x_oid_from_hex X ordr = Inr oid"
  shows "(\<exists>t. ReserveKeyForOrder X kp plat ordr oneDayTtl s = (Inr (rsp_error ResponseStatusBadData KeyErrorReserve), t) \<and>
      w_keys t = w_keys s \<and> (\<forall>pid. x_oid_from_hex X kp = Inr pid \<longrightarrow> filter (key_available pid plat) (w_keys s) = [])) \<or>
    (\<exists>before d after t n. ReserveKeyForOrder X kp plat ordr oneDayTtl s = (Inr (rsp_ok (x_oid_hex X (mgokey_Id d))), t) \<and>
      w_keys s = before @ d # after \<and> x_oid_from_hex X kp = Inr (mgokey_KeyProductId d) \<and> mgokey_PlatformId d = plat \<and>
      mgokey_OrderId d = None \<and> w_keys t = before @ reserved_key (x_now X n + second * oneDayTtl) oid d # after)"
proof (cases "x_oid_from_hex X kp")
  case (Inl e)
  then show ?thesis by (simp add: ReserveKeyForOrder_def keyrepo_ReserveKey_def run_go)
next
  case (Inr p)
  show ?thesis
  proof (cases "available_count p plat s = 0")
    case True
    note reserve_key_none[OF Inr True, of ordr oneDayTtl]
    then show ?thesis using True Inr
      by (cases "ReserveKeyForOrder X kp plat ordr oneDayTtl s") (simp add: available_count_def)
  next
    case False
    let ?time = "x_now X (w_tick s) + second * oneDayTtl"
    obtain d0 where d0: "find (key_available p plat) (w_keys s) = Some d0"
      using False by (cases "find (key_available p plat) (w_keys s)")
        (auto simp: available_count_def filter_empty_conv find_None_iff)
    then have v: "key_valid (reserved_key ?time oid d0)" and i: "mgokey_Id (reserved_key ?time oid d0) = mgokey_Id d0"
      using ok find_SomeD[OF d0] by (auto simp: stock_ok_def list_all_iff key_valid_def reserved_key_def)
    obtain k where k: "key_from_mgo X (reserved_key ?time oid d0) = Inr k" "key_Id k = x_oid_hex X (mgokey_Id d0)"
      using key_from_mgo_valid[OF X(1) v] i by auto
    have "wp (keyrepo_ReserveKey X kp plat ordr oneDayTtl) (\<lambda>r t. r = Inr k) s"
      using X(2) d0 k by (auto simp: keyrepo_ReserveKey_def Inr ord time_now_def keys.wp_find_one_and_update
          reserved_key_def)
    then obtain t where r: "keyrepo_ReserveKey X kp plat ordr oneDayTtl s = (Inr k, t)"
      by (auto simp: wp_def split: prod.splits)
    from reserve_key_exact[OF r Inr ord] obtain before d after where e: "w_keys s = before @ d # after"
        "key_available p plat d" "\<forall>x\<in>set before. \<not> key_available p plat x"
        "w_keys t = before @ reserved_key ?time oid d # after"
      by auto
    have "d = d0" using d0 e(1-3) by (auto simp: find_append find_None_iff split: option.splits dest: find_SomeD)
    moreover have "mgokey_OrderId d = None" "mgokey_KeyProductId d = p" "mgokey_PlatformId d = plat"
      using e(2) by (simp_all add: key_available_def)
    moreover have "ReserveKeyForOrder X kp plat ordr oneDayTtl s = (Inr (rsp_ok (key_Id k)), t)"
      using r by (simp add: ReserveKeyForOrder_def run_go)
    ultimately show ?thesis using e k(2) Inr by (intro disjI2) metis
  qed
qed

section \<open>The loop\<close>

text \<open>A key of a product for a platform that no order holds, by its id.\<close>

definition free_key_of :: "ext \<Rightarrow> string \<Rightarrow> mgo_key list \<Rightarrow> string \<Rightarrow> oid \<Rightarrow> bool" where
  "free_key_of X plat ks p i \<longleftrightarrow> (\<exists>k\<in>set ks. mgokey_Id k = i \<and> x_oid_from_hex X p = Inr (mgokey_KeyProductId k) \<and>
     mgokey_PlatformId k = plat \<and> mgokey_OrderId k = None)"

definition free_keys :: "oid \<Rightarrow> string \<Rightarrow> mgo_key list \<Rightarrow> mgo_key list" where
  "free_keys pid plat ks = filter (\<lambda>k. mgokey_KeyProductId k = pid \<and> mgokey_PlatformId k = plat \<and> mgokey_OrderId k = None) ks"

text \<open>The keys when some of them have been given to an order, each till a time of its own.\<close>

definition held_by :: "oid \<Rightarrow> (oid \<Rightarrow> gotime) \<Rightarrow> oid list \<Rightarrow> mgo_key list \<Rightarrow> mgo_key list" where
  "held_by oid due is ks = map (\<lambda>k. if mgokey_Id k \<in> set is
     then k\<lparr>mgokey_OrderId := Some oid, mgokey_ReservedTo := due (mgokey_Id k)\<rparr> else k) ks"

definition reserved_from :: "ext \<Rightarrow> oid \<Rightarrow> string \<Rightarrow> mgo_key list \<Rightarrow> string list \<Rightarrow> oid list \<Rightarrow> mgo_key list \<Rightarrow> bool" where
  "reserved_from X oid plat ks0 ps is ks \<longleftrightarrow> distinct is \<and> list_all2 (free_key_of X plat ks0) ps is \<and>
     (\<exists>due. ks = held_by oid due is ks0 \<and> (\<forall>i\<in>set is. \<exists>n. due i = x_now X n + second * oneDayTtl))"

lemma free_keys_available: "free_keys pid plat ks = filter (key_available pid plat) ks"
  by (simp add: free_keys_def key_available_def[abs_def])

lemma held_by_ids [simp]: "map mgokey_Id (held_by oid due is ks) = map mgokey_Id ks"
  by (simp add: held_by_def)

lemma held_by_found:
  assumes "d \<in> set (held_by oid due is ks)" "mgokey_OrderId d = None"
  shows "d \<in> set ks" "mgokey_Id d \<notin> set is"
  using assms by (auto simp: held_by_def split: if_splits)

lemma released_held:
  assumes "stock_ok X ks0" "reserved_from X oid plat ks0 ps is ks"
  shows "release_ids (set is) ks = ks0"
proof -
  obtain due where ks: "ks = held_by oid due is ks0" using assms(2) by (auto simp: reserved_from_def)
  have free: "mgokey_OrderId k = None \<and> mgokey_ReservedTo k = time_zero" if k: "k \<in> set ks0" "mgokey_Id k \<in> set is" for k
  proof -
    have "\<forall>i\<in>set is. \<exists>k\<in>set ks0. mgokey_Id k = i \<and> mgokey_OrderId k = None"
      using assms(2) by (auto simp: reserved_from_def list_all2_conv_all_nth free_key_of_def in_set_conv_nth) metis
    then obtain k' where "k' \<in> set ks0" "mgokey_Id k' = mgokey_Id k" "mgokey_OrderId k' = None" using k by blast
    moreover have "inj_on mgokey_Id (set ks0)" using assms(1) by (simp add: stock_ok_def distinct_map)
    ultimately have "mgokey_OrderId k = None" using k by (metis inj_onD)
    then show ?thesis using k assms(1) by (auto simp: stock_ok_def deadline_bound_def)
  qed
  have "released_key (if mgokey_Id k \<in> set is then k\<lparr>mgokey_OrderId := Some oid, mgokey_ReservedTo := due (mgokey_Id k)\<rparr> else k) = k"
    if "k \<in> set ks0" "mgokey_Id k \<in> set is" for k
    using free[OF that] by (simp add: released_key_def)
  then show ?thesis unfolding ks release_ids_def held_by_def by (auto intro!: map_idI)
qed

lemma held_by_step:
  assumes "distinct (map mgokey_Id (before @ d # after))"
  shows "before @ reserved_key time oid d # after = held_by oid (\<lambda>_. time) [mgokey_Id d] (before @ d # after)"
proof -
  have "held_by oid (\<lambda>_. time) [mgokey_Id d] ks = ks" if "mgokey_Id d \<notin> mgokey_Id ` set ks" for ks
    using that by (auto simp: held_by_def image_iff intro!: map_idI)
  then show ?thesis using assms by (auto simp: held_by_def reserved_key_def)
qed

lemma held_by_more:
  assumes "j \<notin> set is"
  shows "held_by oid (\<lambda>_. time) [j] (held_by oid due is ks) = held_by oid (due(j := time)) (is @ [j]) ks"
  using assms by (auto simp: held_by_def)

lemma reserved_step:
  assumes r: "reserved_from X oid plat ks0 ps is ks" and ks: "ks = before @ d # after" "distinct (map mgokey_Id ks)"
    and d: "mgokey_OrderId d = None" "x_oid_from_hex X p = Inr (mgokey_KeyProductId d)" "mgokey_PlatformId d = plat"
  shows "reserved_from X oid plat ks0 (ps @ [p]) (is @ [mgokey_Id d]) (before @ reserved_key (x_now X n + second * oneDayTtl) oid d # after)"
proof -
  obtain due where h: "ks = held_by oid due is ks0" "\<forall>i\<in>set is. \<exists>n. due i = x_now X n + second * oneDayTtl"
    using r by (auto simp: reserved_from_def)
  have "d \<in> set (held_by oid due is ks0)" using ks(1) h(1) by (metis in_set_conv_decomp)
  note f = held_by_found[OF this d(1)]
  have e: "before @ reserved_key (x_now X n + second * oneDayTtl) oid d # after =
      held_by oid (due(mgokey_Id d := x_now X n + second * oneDayTtl)) (is @ [mgokey_Id d]) ks0"
    using held_by_step[of before d after] ks held_by_more[OF f(2)] h(1) by metis
  have "free_key_of X plat ks0 p (mgokey_Id d)" using f(1) d by (auto simp: free_key_of_def)
  then show ?thesis using r f(2) h(2) unfolding reserved_from_def e
    by (auto intro!: exI[of _ "due(mgokey_Id d := x_now X n + second * oneDayTtl)"] list_all2_appendI)
qed

text \<open>When no key is left, there were too few from the start.\<close>

lemma too_few:
  assumes ok: "distinct (map mgokey_Id ks0)" and r: "reserved_from X oid plat ks0 ps is ks"
    and none: "filter (key_available pid plat) ks = []"
  shows "length (free_keys pid plat ks0) \<le> length (filter (\<lambda>q. x_oid_from_hex X q = Inr pid) ps)"
proof -
  obtain due where h: "ks = held_by oid due is ks0" using r by (auto simp: reserved_from_def)
  let ?taken = "map snd (filter (\<lambda>(q, i). x_oid_from_hex X q = Inr pid) (zip ps is))"
  have all: "list_all2 (free_key_of X plat ks0) ps is" using r by (simp add: reserved_from_def)
  have "mgokey_Id k \<in> set ?taken" if k: "k \<in> set (free_keys pid plat ks0)" for k
  proof -
    have in_is: "mgokey_Id k \<in> set is"
    proof (rule ccontr)
      assume "mgokey_Id k \<notin> set is"
      then have "k \<in> set (filter (key_available pid plat) ks)"
        using k unfolding h by (auto simp: free_keys_def key_available_def held_by_def intro!: image_eqI[of _ _ k])
      then show False using none by simp
    qed
    then obtain n where n: "n < length is" "is ! n = mgokey_Id k" by (auto simp: in_set_conv_nth)
    then have "free_key_of X plat ks0 (ps ! n) (mgokey_Id k)" using all by (auto simp: list_all2_conv_all_nth)
    moreover have "inj_on mgokey_Id (set ks0)" using ok by (simp add: distinct_map)
    ultimately have "x_oid_from_hex X (ps ! n) = Inr pid"
      using k by (auto simp: free_key_of_def free_keys_def dest: inj_onD)
    then show ?thesis using n all by (force simp: in_set_zip list_all2_lengthD intro!: image_eqI[of _ _ "(ps ! n, is ! n)"])
  qed
  then have "mgokey_Id ` set (free_keys pid plat ks0) \<subseteq> set ?taken" by blast
  then have "card (set (map mgokey_Id (free_keys pid plat ks0))) \<le> card (set ?taken)"
    by (metis List.finite_set card_mono set_map)
  moreover have "distinct (map mgokey_Id (free_keys pid plat ks0))"
    using ok by (simp add: free_keys_def distinct_map_filter)
  ultimately have "length (free_keys pid plat ks0) \<le> card (set ?taken)" by (metis distinct_card length_map)
  also have "\<dots> \<le> length ?taken" by (rule card_length)
  also have "\<dots> = length (filter (\<lambda>q. x_oid_from_hex X q = Inr pid) ps)"
    using list_all2_lengthD[OF all] by (induction ps "is" rule: list_induct2) auto
  finally show ?thesis .
qed



lemma stock_step:
  assumes "stock_ok X (before @ d # after)"
  shows "stock_ok X (before @ reserved_key (x_now X n + second * oneDayTtl) oid d # after)"
  using assms by (auto simp: stock_ok_def reserved_key_def key_valid_def deadline_bound_def)

text \<open>Some product has fewer free keys than it is asked for, or no id at all.\<close>

definition keys_lacking :: "ext \<Rightarrow> string \<Rightarrow> string list \<Rightarrow> mgo_key list \<Rightarrow> bool" where
  "keys_lacking X plat ps ks \<longleftrightarrow> (\<exists>p\<in>set ps. \<forall>pid. x_oid_from_hex X p = Inr pid \<longrightarrow>
     length (free_keys pid plat ks) < length (filter (\<lambda>q. x_oid_from_hex X q = Inr pid) ps))"

lemma lacking:
  assumes "distinct (map mgokey_Id ks0)" "reserved_from X oid plat ks0 ps is ks"
    and "\<forall>pid. x_oid_from_hex X p = Inr pid \<longrightarrow> filter (key_available pid plat) ks = []"
  shows "keys_lacking X plat (ps @ p # qs) ks0"
proof -
  have "length (free_keys pid plat ks0) < length (filter (\<lambda>q. x_oid_from_hex X q = Inr pid) (ps @ p # qs))"
    if "x_oid_from_hex X p = Inr pid" for pid
    using too_few[OF assms(1,2), of pid] assms(3) that by simp
  then show ?thesis unfolding keys_lacking_def by (intro bexI[of _ p]) auto
qed

lemma reserve_keys_run:
  assumes X: "codecs_ok X" "\<forall>n. x_fault X n = None" and ord: "x_oid_from_hex X (order_Id ordr) = Inr oid"
    and ok0: "stock_ok X ks0"
  shows "stock_ok X (w_keys s) \<Longrightarrow> reserved_from X oid (order_PlatformId ordr) ks0 qs is (w_keys s) \<Longrightarrow>
    (\<exists>t. reserve_keys X ordr (map (x_oid_hex X) is) ps s = (Inl KeyErrorReserve, t) \<and> w_keys t = ks0 \<and>
      keys_lacking X (order_PlatformId ordr) (qs @ ps) ks0) \<or>
    (\<exists>js t. reserve_keys X ordr (map (x_oid_hex X) is) ps s = (Inr (map (x_oid_hex X) js), t) \<and>
      reserved_from X oid (order_PlatformId ordr) ks0 (qs @ ps) js (w_keys t))"
proof (induction ps arbitrary: s "is" qs)
  case Nil
  then show ?case by (auto simp: run_simps)
next
  case (Cons p ps)
  note inv = Cons.prems(2) and released = released_held[OF ok0 Cons.prems(2)]
  from reserve_outcomes[OF X Cons.prems(1) ord, of p "order_PlatformId ordr"] show ?case
  proof (elim disjE exE conjE)
    fix t assume r: "ReserveKeyForOrder X p (order_PlatformId ordr) (order_Id ordr) oneDayTtl s =
        (Inr (rsp_error ResponseStatusBadData KeyErrorReserve), t)" and t: "w_keys t = w_keys s"
      and none: "\<forall>pid. x_oid_from_hex X p = Inr pid \<longrightarrow> filter (key_available pid (order_PlatformId ordr)) (w_keys s) = []"
    have ids: "map mgokey_Id (w_keys t) = map mgokey_Id ks0" using inv t by (auto simp: reserved_from_def)
    have "set is \<subseteq> mgokey_Id ` set ks0"
      using inv by (auto simp: reserved_from_def list_all2_conv_all_nth free_key_of_def in_set_conv_nth) (metis imageI)
    also have "\<dots> = mgokey_Id ` set (w_keys t)" using ids by (metis set_map)
    finally have sub: "set is \<subseteq> mgokey_Id ` set (w_keys t)" .
    obtain u where "cancel_keys X (map (x_oid_hex X) is) t = (Inr (), u)" "w_keys u = release_ids (set is) (w_keys t)"
      using release_keys_run[OF X _ _ sub] Cons.prems(1) t by (auto simp: stock_ok_def list_all_iff)
    then have "reserve_keys X ordr (map (x_oid_hex X) is) (p # ps) s = (Inl KeyErrorReserve, u) \<and> w_keys u = ks0"
      using r t released by (simp add: run_go rsp_error_def deref_def)
    moreover have "distinct (map mgokey_Id ks0)" using ok0 by (simp add: stock_ok_def)
    ultimately show ?thesis using lacking[OF _ inv none, of ps] by blast
  next
    fix before d after t n
    assume r: "ReserveKeyForOrder X p (order_PlatformId ordr) (order_Id ordr) oneDayTtl s = (Inr (rsp_ok (x_oid_hex X (mgokey_Id d))), t)"
      and s: "w_keys s = before @ d # after" and d: "x_oid_from_hex X p = Inr (mgokey_KeyProductId d)"
        "mgokey_PlatformId d = order_PlatformId ordr" "mgokey_OrderId d = None"
      and t: "w_keys t = before @ reserved_key (x_now X n + second * oneDayTtl) oid d # after"
    have "reserve_keys X ordr (map (x_oid_hex X) is) (p # ps) s = reserve_keys X ordr (map (x_oid_hex X) (is @ [mgokey_Id d])) ps t"
      using r by (simp add: run_go rsp_ok_def deref_def)
    moreover have "stock_ok X (w_keys t)" using stock_step[of X before d after n oid] Cons.prems(1) s t by simp
    moreover have "reserved_from X oid (order_PlatformId ordr) ks0 (qs @ [p]) (is @ [mgokey_Id d]) (w_keys t)"
      using reserved_step[OF inv s _ d(3,1,2)] Cons.prems(1) t by (simp add: stock_ok_def)
    ultimately show ?thesis using Cons.IH[of t "qs @ [p]" "is @ [mgokey_Id d]"] by auto
  qed
qed

text \<open>C5: An order that has no keys yet gets, for each of its products in order, a key of this product and of the
  order's platform that no order held, never the same key twice: exactly these keys are now held by the order, each
  for a day, and all others are as they were. Or it gets none and every key is as it was: what was reserved is
  released when one cannot be had, which only happens when there are fewer free keys of a product than the order has
  of it, or a product has no id. This holds while no call fails and deadlines are only set with the order that
  holds the key.\<close>

theorem keys_all_or_nothing:
  assumes X: "codecs_ok X" "\<forall>n. x_fault X n = None" and ord: "x_oid_from_hex X (order_Id ordr) = Inr oid"
    and stock: "stock_ok X (w_keys s)" and none: "order_Keys ordr = []"
  shows "(\<exists>t. reserveKeysForOrder X ordr s = (Inl KeyErrorReserve, t) \<and> w_keys t = w_keys s \<and>
      keys_lacking X (order_PlatformId ordr) (oco_Products (order_Carried ordr)) (w_keys s)) \<or>
    (\<exists>js t due. reserveKeysForOrder X ordr s = (Inr (ordr\<lparr>order_Keys := map (x_oid_hex X) js\<rparr>), t) \<and>
      list_all2 (free_key_of X (order_PlatformId ordr) (w_keys s)) (oco_Products (order_Carried ordr)) js \<and> distinct js \<and>
      w_keys t = held_by oid due js (w_keys s) \<and> (\<forall>i\<in>set js. \<exists>n. due i = x_now X n + second * oneDayTtl))"
proof -
  have "reserved_from X oid (order_PlatformId ordr) (w_keys s) [] [] (w_keys s)"
    by (simp add: reserved_from_def held_by_def)
  from reserve_keys_run[OF X ord stock stock this, of "oco_Products (order_Carried ordr)"] show ?thesis
  proof (elim disjE exE conjE)
    fix t assume "reserve_keys X ordr (map (x_oid_hex X) []) (oco_Products (order_Carried ordr)) s = (Inl KeyErrorReserve, t)"
      "w_keys t = w_keys s" "keys_lacking X (order_PlatformId ordr) ([] @ oco_Products (order_Carried ordr)) (w_keys s)"
    then show ?thesis using none by (intro disjI1) (simp add: reserveKeysForOrder_def run_go)
  next
    fix js t assume r: "reserve_keys X ordr (map (x_oid_hex X) []) (oco_Products (order_Carried ordr)) s = (Inr (map (x_oid_hex X) js), t)"
      and f: "reserved_from X oid (order_PlatformId ordr) (w_keys s) ([] @ oco_Products (order_Carried ordr)) js (w_keys t)"
    have "reserveKeysForOrder X ordr s = (Inr (ordr\<lparr>order_Keys := map (x_oid_hex X) js\<rparr>), t)"
      using r none by (simp add: reserveKeysForOrder_def run_go)
    then show ?thesis using f unfolding reserved_from_def append_Nil by blast
  qed
qed

text \<open>Two keys are there: an order of two gets them, an order of three gets none.\<close>

definition key_order :: "nat \<Rightarrow> order" where
  "key_order n = sample_order\<lparr>order_Id := sample_hex 7, order_Keys := [], order_PlatformId := ''steam'',
     order_Carried := (order_Carried sample_order)\<lparr>oco_Products := replicate n (sample_hex 2)\<rparr>\<rparr>"

definition still_ext :: ext where
  "still_ext = sample_ext\<lparr>x_now := \<lambda>_. 0\<rparr>"

lemma key_order_fields: "order_PlatformId (key_order n) = ''steam''"
    "oco_Products (order_Carried (key_order n)) = replicate n (sample_hex 2)"
  by (simp_all add: key_order_def)

lemma third_key_missing: "fst (reserveKeysForOrder still_ext (key_order 3) stock_world) = Inl KeyErrorReserve"
  by code_simp

lemma both_keys_there: "fst (reserveKeysForOrder still_ext (key_order 2) stock_world) \<noteq> Inl KeyErrorReserve"
  by code_simp

theorem keys_all_or_nothing_witness:
  "(\<exists>t. reserveKeysForOrder still_ext (key_order 3) stock_world = (Inl KeyErrorReserve, t) \<and> w_keys t = w_keys stock_world) \<and>
   (\<exists>i j t due. reserveKeysForOrder still_ext (key_order 2) stock_world =
       (Inr ((key_order 2)\<lparr>order_Keys := [x_oid_hex still_ext i, x_oid_hex still_ext j]\<rparr>), t) \<and> i \<noteq> j \<and>
     free_key_of still_ext ''steam'' (w_keys stock_world) (sample_hex 2) i \<and> w_keys t = held_by 7 due [i, j] (w_keys stock_world))"
proof -
  have "stock_ok still_ext (w_keys stock_world)"
    by (simp add: stock_ok_def stock_world_def stock_key_def key_valid_def deadline_bound_def oneDayTtl_def
        still_ext_def ts_valid_def time_zero_def second_def)
  moreover have "codecs_ok still_ext" using sample_codecs_ok by (simp add: codecs_ok_def still_ext_def)
  moreover have "x_oid_from_hex still_ext (order_Id (key_order n)) = Inr 7" "order_Keys (key_order n) = []"
      "\<forall>n. x_fault still_ext n = None" for n
    by (simp_all add: key_order_def still_ext_def sample_hex_roundtrip sample_ext_def)
  ultimately have "(\<exists>t. reserveKeysForOrder still_ext (key_order n) stock_world = (Inl KeyErrorReserve, t) \<and>
      w_keys t = w_keys stock_world) \<or>
    (\<exists>js t due. reserveKeysForOrder still_ext (key_order n) stock_world =
        (Inr ((key_order n)\<lparr>order_Keys := map (x_oid_hex still_ext) js\<rparr>), t) \<and>
      list_all2 (free_key_of still_ext ''steam'' (w_keys stock_world)) (replicate n (sample_hex 2)) js \<and> distinct js \<and>
      w_keys t = held_by 7 due js (w_keys stock_world))" for n
    using keys_all_or_nothing[of still_ext "key_order n" 7 stock_world, unfolded key_order_fields] by blast
  note outcomes = this
  have "\<exists>t. reserveKeysForOrder still_ext (key_order 3) stock_world = (Inl KeyErrorReserve, t) \<and> w_keys t = w_keys stock_world"
    using outcomes[of 3] third_key_missing by auto
  moreover obtain js t due where two: "reserveKeysForOrder still_ext (key_order 2) stock_world =
        (Inr ((key_order 2)\<lparr>order_Keys := map (x_oid_hex still_ext) js\<rparr>), t)"
      "list_all2 (free_key_of still_ext ''steam'' (w_keys stock_world)) (replicate 2 (sample_hex 2)) js" "distinct js"
      "w_keys t = held_by 7 due js (w_keys stock_world)"
    using outcomes[of 2] both_keys_there by auto
  then obtain i j where "js = [i, j]" by (auto simp: numeral_2_eq_2 list_all2_Cons1)
  ultimately show ?thesis using two by (auto simp: numeral_2_eq_2)
qed

end
