(* ===== verification/Spec2Isabelle.thy ===== *)
theory Spec2Isabelle
  imports KeyLifecycle MerchantBalance Adjustments PayoutSettled TokenLock RefundSafety CheckoutProducts KeyReservation
begin

text \<open>
  The PaySuper billing server (a Go service over MongoDB, Redis, RabbitMQ and other services of the
  platform), as definitions of HOL, with the properties that make its parts correct. This theory imports
  all others; it holds no definitions of its own.

  The program. The service answers remote calls: each handler takes a request, reads and writes
  collections of the database through a repository, may cache what it read, may call other services, and
  fills a response with a status and a message. A shop asks for an order, by a signed request or with a token
  that it made for its customer (order.go, token.go); the payment form shows the order, prices it for the customer's
  country and language, and sends the payment, which is charged at the gateway (order.go). Money comes in by
  payments that the gateway CardPay reports in callbacks (order.go, cardpay.go); every payment, refund and correction is posted in a journal
  of accounting entries (accounting\_entry.go); the figures of each order are computed from the journal
  into the order view (repository/order.go); royalty reports sum the view by period (royalty\_report.go),
  payout documents gather accepted reports (payouts.go), and the balance of a merchant is what reports,
  payouts and reserves leave (merchant\_balance.go). Refunds (refund.go) go the way back. Products sold as
  activation keys hand out a key per order (key.go).

  How it is modelled. Prelude has the outcome of a Go function: \<open>Inr\<close> a result or \<open>Inl\<close> a failure, which is a
  returned error or, as values of their own, a panic (\<open>go_panic\<close>) or a call that never comes back
  (\<open>go_hangs\<close>); a handler is a function from a state to an outcome and a new state, so that what a handler
  wrote before it failed stays written. GoFloat has float64 as the rationals a double can hold, the
  infinities and NaN, with every operation rounded to nearest even. Documents has the messages and the stored documents as records; World has the
  environment: \<open>world\<close> is the state (collections, cache, what was sent, how many calls were made) and
  \<open>ext\<close> holds everything that is not in the repository (the driver's and the services' answers, the clock,
  new ids, the configuration, protobuf and formatting helpers). Whether the n-th external call fails is a
  parameter too, \<open>x_fault\<close>, so that a theorem without a hypothesis about it holds for every pattern of failures.
  Store has collections as lists with the queries of the driver; Cache the gob cache. Samples is one
  concrete environment, at which the properties are applied.
\<close>

text \<open>
  The components, each in the theories named, in the order of their imports.
  \<^item> Keys, KeyLifecycle: repository/key.go, models/key.go, service/key.go. The handlers and the daemon; then
    every interleaving of the handlers with single iterations of the daemon, as a step relation.
  \<^item> MerchantBalance: service/merchant\_balance.go and its repository and mapper.
  \<^item> Costs: the four lookups of tariffs with their caches (payment\_channel\_cost, money\_back\_cost).
  \<^item> AccountingRepo, Accounting, Corrections: the mapper and queries of the journal, the handlers that turn
    an event into entries, entries made by hand. Journal, JournalSaving and JournalRun say what an event
    posts, that it is stored as a whole, and that it comes to its end; Payments, RefundJournal,
    RefundPostings and Adjustments state it for the handlers.
  \<^item> OrderMapper, OrderFigures, OrderView, OrderViewCurrent: models/order.go, UpdateOrderView of
    repository/order.go, and the batches of service/order\_view.go.
  \<^item> RoyaltyRepo, RoyaltySummary, RoyaltyReports: repository/royalty\_report.go, the royalty aggregations of
    repository/order\_view.go and service/royalty\_report.go.
  \<^item> PayoutRepo, PayoutDocuments: repository/payout.go and service/payouts.go. Frames, ReportLinks,
    PayoutCreation, PayoutLife, PayoutFinal, PayoutSamples and PayoutSettled hold what they keep: what a
    payout takes, its bounds, settlement, and that a settled payout stays settled.
  \<^item> CheckoutDocs, Catalogue: the documents of checkout; repository/payment\_method.go with its mapper and caches,
    and the settings of a terminal.
  \<^item> Customers, Tokens: service/token.go, service/customer.go, repository/customer.go and its mapper: who the
    customer is, by a token, a request or a cookie, and what is recorded of its payments.
  \<^item> Pricing, OrderCreate: the prices of products, keys and virtual currency, the tax and the charge, and the
    handlers that create an order, with every check of the request (service/order.go).
  \<^item> PaymentForm, BankCard, PaymentCreate: the five handlers of the payment form, service/bank\_card.go, and the
    handler that pays, with the reservation of keys.
  \<^item> CheckoutSafety, CheckoutPrices, CheckoutPayments, CheckoutProducts, KeyReservation: what checkout promises: who
    can create and pay an order, its price, its tax, and its keys.
  \<^item> CardPay, CardPayHandler, TokenLock: payment\_system/cardpay.go and the registry of gateways.
  \<^item> Orders, PaymentCallback, OrderUpdates, PaymentSafety: the part of service/order.go that starts when an
    order is paid: its updates, receipts and the callback of a payment.
  \<^item> RefundRepo, Refunds, RefundSafety: repository/refund.go and service/refund.go.

  Groups of lemmas. Effects and Frames hold what all handlers share: rules that take a successful run apart
  (\<open>run_bind\<close>), computations that leave all collections alone (\<open>quiet\<close>), and predicates that a writing
  repository keeps (\<open>keeps\<close>). A property of a handler is derived from these rules for its steps. What a
  handler computes is said over the documents by definitions that share none of the model's (\<open>owed\<close> and \<open>held_back\<close>
  for a balance, \<open>payment_sheet\<close> for an order view, \<open>sold\<close> for a summary, \<open>free_key_of\<close> for keys, \<open>taxable\<close> for the
  tax), with a lemma that the model's come to the same. A step relation
  (\<open>key_run\<close>, the runs of PayoutFinal) collects the handlers of a component, and its invariants are by rule induction.

  Bounds, loops and calls that never return. Conversions to int32 wrap (\<open>int32\<close>); floats overflow to
  infinities. No definition uses fuel: recursion is structural or over a list. The loop that cuts the batches of an order-view refresh makes no
  progress for a batch size of zero: it is a partial function, and its caller hangs (\<open>order_view_hangs\<close>).
  Waiting for a mutex that nobody gives back is the outcome \<open>go_hangs\<close> (TokenLock).
\<close>

text \<open>
  What the model leaves out of the parts it has. Times lose their fraction of a millisecond in BSON: ignored.
  Merchants, projects, countries and payment systems are kept as the decoded messages, and their caches are
  left out. Nested messages that the code assumes present (the project, tax and issuer of an order) are
  part of the order's record; pointers that the code checks or may dereference as nil are options. The
  figures of an order that nothing modelled reads (net revenue, fee, metadata) are left out. reflect.DeepEqual is
  equality. Durations do not overflow. Upper and title case are those of ASCII. Names are valid UTF-8. Logs are
  left out, and so are the paginated listings and counts that only pass filters to the database.

  A handler of checkout is the chain of its steps, and what it answers for the message of a step is said once
  for the whole chain where the code repeats it after each (\<open>answering\<close>, \<open>step_or\<close>). A Go variable for an error that is
  read again later is passed along (\<open>left_over\<close>). What the form is shown is a record of what the code fills in; dates
  without a time of their own, regular expressions, hashes, encryption and the accessors of protobuf messages are
  parameters in \<open>ext\<close>, and so are the services of taxes, currencies, places and subscriptions.

  Not modelled. The order from a paylink, saved cards, merchant onboarding, the administration of products, price
  groups, key products, methods, limits and tariffs, turnovers; the dashboard and the queries of the
  order view, which are aggregation pipelines that the database computes (the code only builds
  them); configuration, start-up, migrations, mocks and generated code, which have no logic of
  their own.
\<close>

end
